(* ===== verification/Prelude.thy ===== *)
theory Prelude
  imports Complex_Main "HOL-Library.Word" "HOL-Library.Multiset" "HOL-Library.AList"
begin

text \<open>
  Shared material of the development: the outcome type of Go code that may panic or block
  forever, Go's slice operations that the sources use (deletion with \<^verbatim>\<open>copy\<close>, deletion by
  swapping with the last element), the string functions of package \<^verbatim>\<open>strings\<close>, and the
  generic lemmas on them that the component theories use through the collections
  \<open>go_simps\<close> and \<open>slice_simps\<close>.
\<close>

named_theorems go_simps \<open>evaluation rules of the outcome type\<close>
named_theorems slice_simps \<open>rules for slice deletion\<close>

subsection \<open>Names of the model's types\<close>

text \<open>
  A \<^verbatim>\<open>uuid.UUID\<close> is its canonical text, so \<^verbatim>\<open>id.String()\<close> is the value itself; a nilable
  \<^verbatim>\<open>*uuid.UUID\<close> is an option. An \<^verbatim>\<open>error\<close> value is its text. A pointer is an address.
  \<^verbatim>\<open>uuid.New()\<close> is not code of the repository: every operation that calls it takes the
  generated value as an argument.
\<close>

type_synonym uuid = string
type_synonym error = string
type_synonym addr = nat
type_synonym int64 = "64 word"
type_synonym uint64 = "64 word"
type_synonym bytes = string

subsection \<open>Outcomes of Go code\<close>

text \<open>
  \<open>Done\<close>: the call returns. \<open>Panic\<close>: it panics. \<open>Block\<close>: it does not return in this state
  (a mutex the caller holds itself, a wait group that is not at zero, a send on a nil channel).
\<close>

datatype 'a go = Done 'a | Panic string | Block

fun go_bind :: "'a go \<Rightarrow> ('a \<Rightarrow> 'b go) \<Rightarrow> 'b go" where
  "go_bind (Done x) f = f x"
| "go_bind (Panic m) f = Panic m"
| "go_bind Block f = Block"

fun go_map :: "('a \<Rightarrow> 'b) \<Rightarrow> 'a go \<Rightarrow> 'b go" where
  "go_map f (Done x) = Done (f x)"
| "go_map f (Panic m) = Panic m"
| "go_map f Block = Block"

fun is_Done :: "'a go \<Rightarrow> bool" where
  "is_Done (Done x) = True"
| "is_Done m = False"

lemma go_bind_Done_iff [go_simps]:
  "go_bind m f = Done y \<longleftrightarrow> (\<exists>x. m = Done x \<and> f x = Done y)"
  by (cases m) auto

lemma go_map_Done_iff [go_simps]: "go_map f m = Done y \<longleftrightarrow> (\<exists>x. m = Done x \<and> y = f x)"
  by (cases m) auto

lemma go_bind_assoc: "go_bind (go_bind m f) g = go_bind m (\<lambda>x. go_bind (f x) g)"
  by (cases m) auto

subsection \<open>Slices\<close>

text \<open>
  \<^verbatim>\<open>copy(s[i:], s[i+1:]); s = s[:n-1]\<close> deletes position \<open>i\<close> and keeps the order;
  \<^verbatim>\<open>s[i] = s[n-1]; s = s[:n-1]\<close> deletes position \<open>i\<close> by moving the last element there.
\<close>

definition remove_at :: "nat \<Rightarrow> 'a list \<Rightarrow> 'a list" where
  "remove_at i xs = take i xs @ drop (Suc i) xs"

definition swap_remove :: "nat \<Rightarrow> 'a list \<Rightarrow> 'a list" where
  "swap_remove i xs = butlast (xs[i := last xs])"

lemma remove_at_Nil [simp, slice_simps]: "remove_at i [] = []"
  by (simp add: remove_at_def)

lemma remove_at_0 [simp, slice_simps]: "remove_at 0 (x # xs) = xs"
  by (simp add: remove_at_def)

lemma remove_at_Suc [simp, slice_simps]: "remove_at (Suc i) (x # xs) = x # remove_at i xs"
  by (simp add: remove_at_def)

lemma remove_at_append [slice_simps]: "remove_at (length xs) (xs @ y # ys) = xs @ ys"
  by (simp add: remove_at_def)

lemma length_remove_at [slice_simps]: "i < length xs \<Longrightarrow> length (remove_at i xs) = length xs - 1"
  by (simp add: remove_at_def)

lemma mset_remove_at [slice_simps]: "i < length xs \<Longrightarrow> mset (remove_at i xs) = mset xs - {#xs ! i#}"
proof (induction xs arbitrary: i)
  case (Cons x xs)
  then show ?case
    by (cases i) (auto simp: insert_DiffM2 diff_union_swap)
qed simp

lemma set_remove_at_subset: "set (remove_at i xs) \<subseteq> set xs"
  unfolding remove_at_def by (auto dest: in_set_takeD in_set_dropD)

lemma remove_at_nths: "\<exists>P. remove_at n xs = nths xs P"
proof (induction xs arbitrary: n)
  case (Cons x xs)
  show ?case
  proof (cases n)
    case 0
    have "xs = nths (x # xs) (- {0})" by (simp add: nths_Cons nths_all)
    with 0 show ?thesis by auto
  next
    case (Suc k)
    from Cons.IH obtain P where P: "remove_at k xs = nths xs P" by blast
    have "x # nths xs P = nths (x # xs) (insert 0 (Suc ` P))"
      by (simp add: nths_Cons) (rule arg_cong[where f = "nths xs"], auto)
    with Suc P show ?thesis by auto
  qed
qed simp

lemma nths_map_distinct: "distinct (map f xs) \<Longrightarrow> distinct (map f (nths xs P))"
  by (metis distinct_nthsI nths_map)

lemma remove_at_map_distinct: "distinct (map f xs) \<Longrightarrow> distinct (map f (remove_at n xs))"
  by (metis nths_map_distinct remove_at_nths)

lemma swap_remove_last [slice_simps]: "xs \<noteq> [] \<Longrightarrow> swap_remove (length xs - 1) xs = butlast xs"
proof -
  assume "xs \<noteq> []"
  then obtain ys y where xs: "xs = ys @ [y]" by (metis append_butlast_last_id)
  show ?thesis by (simp add: xs swap_remove_def)
qed

lemma length_swap_remove [slice_simps]: "length (swap_remove i xs) = length xs - 1"
  by (simp add: swap_remove_def)

lemma mset_butlast: "xs \<noteq> [] \<Longrightarrow> mset (butlast xs) = mset xs - {#last xs#}"
  by (metis add_diff_cancel_right' append_butlast_last_id mset.simps mset_append)

lemma mset_swap_remove [slice_simps]:
  assumes "i < length xs"
  shows "mset (swap_remove i xs) = mset xs - {#xs ! i#}"
proof -
  let ?ys = "xs[i := last xs]"
  have ne: "xs \<noteq> []" using assms by auto
  then obtain zs z where zs: "xs = zs @ [z]" by (metis append_butlast_last_id)
  have last: "last ?ys = last xs"
    using assms by (cases "i = length zs") (auto simp: zs list_update_append)
  have upd: "mset ?ys = add_mset (last xs) (mset xs - {#xs ! i#})"
    using assms by (simp add: mset_update)
  have "mset (butlast ?ys) = mset ?ys - {#last xs#}"
    using ne last by (subst mset_butlast) auto
  then show ?thesis by (simp add: swap_remove_def upd)
qed

lemma set_swap_remove_distinct:
  assumes "i < length xs" and "distinct xs"
  shows "set (swap_remove i xs) = set xs - {xs ! i}" and "distinct (swap_remove i xs)"
proof -
  have m: "mset (swap_remove i xs) = mset xs - {#xs ! i#}"
    using assms(1) by (rule mset_swap_remove)
  have d: "mset (remove1 (xs ! i) xs) = mset xs - {#xs ! i#}" by simp
  from m d have eq: "mset (swap_remove i xs) = mset (remove1 (xs ! i) xs)" by simp
  then have "set (swap_remove i xs) = set (remove1 (xs ! i) xs)" by (rule mset_eq_setD)
  with assms(2) show "set (swap_remove i xs) = set xs - {xs ! i}" by simp
  from eq have "distinct (swap_remove i xs) = distinct (remove1 (xs ! i) xs)"
    by (rule mset_eq_imp_distinct_iff)
  with assms(2) show "distinct (swap_remove i xs)" by simp
qed

text \<open>The first position whose element satisfies a predicate: the loops that search a slice.\<close>

fun find_index :: "('a \<Rightarrow> bool) \<Rightarrow> 'a list \<Rightarrow> nat option" where
  "find_index P [] = None"
| "find_index P (x # xs) = (if P x then Some 0 else map_option Suc (find_index P xs))"

lemma find_index_None_iff [simp]: "find_index P xs = None \<longleftrightarrow> (\<forall>x\<in>set xs. \<not> P x)"
  by (induction xs) auto

lemma find_index_SomeD:
  "find_index P xs = Some i \<Longrightarrow> i < length xs \<and> P (xs ! i) \<and> (\<forall>j<i. \<not> P (xs ! j))"
proof (induction xs arbitrary: i)
  case (Cons x xs)
  show ?case
  proof (cases "P x")
    case True
    with Cons.prems show ?thesis by simp
  next
    case False
    with Cons.prems obtain j where j: "find_index P xs = Some j" "i = Suc j" by auto
    from Cons.IH[OF j(1)] False show ?thesis
      by (auto simp: j(2) nth_Cons split: nat.split)
  qed
qed simp

lemma remove_at_find_index:
  "find_index P xs = Some i \<Longrightarrow> (\<And>y. y \<in> set (drop (Suc i) xs) \<Longrightarrow> \<not> P y)
    \<Longrightarrow> remove_at i xs = filter (\<lambda>x. \<not> P x) xs"
proof (induction xs arbitrary: i)
  case (Cons x xs)
  show ?case
  proof (cases "P x")
    case True
    with Cons.prems(1) have i: "i = 0" by simp
    with Cons.prems(2) have "\<forall>y\<in>set xs. \<not> P y" by simp
    then have "filter (\<lambda>x. \<not> P x) xs = xs" by (simp add: filter_id_conv)
    with True i show ?thesis by simp
  next
    case False
    with Cons.prems obtain j where j: "find_index P xs = Some j" "i = Suc j" by auto
    with Cons False show ?thesis by simp
  qed
qed simp

subsection \<open>Strings\<close>

definition HasPrefix :: "string \<Rightarrow> string \<Rightarrow> bool" where
  "HasPrefix s p \<longleftrightarrow> length p \<le> length s \<and> take (length p) s = p"

definition HasSuffix :: "string \<Rightarrow> string \<Rightarrow> bool" where
  "HasSuffix s p \<longleftrightarrow> length p \<le> length s \<and> drop (length s - length p) s = p"

lemma HasPrefix_append [simp]: "HasPrefix (p @ s) p"
  by (simp add: HasPrefix_def)

lemma HasPrefixE: "HasPrefix s p \<Longrightarrow> \<exists>t. s = p @ t"
  by (metis HasPrefix_def append_take_drop_id)

lemma HasPrefix_iff: "HasPrefix s p \<longleftrightarrow> (\<exists>t. s = p @ t)"
  using HasPrefixE HasPrefix_append by blast

lemma HasSuffix_append [simp]: "HasSuffix (s @ p) p"
  by (simp add: HasSuffix_def)

text \<open>\<^verbatim>\<open>strings.Split(s, sep)\<close> for a one-character separator.\<close>

fun split_on :: "char \<Rightarrow> string \<Rightarrow> string list" where
  "split_on c [] = [[]]"
| "split_on c (x # xs) =
     (if x = c then [] # split_on c xs
      else (case split_on c xs of [] \<Rightarrow> [[x]] | y # ys \<Rightarrow> (x # y) # ys))"

lemma split_on_nonempty [simp]: "split_on c s \<noteq> []"
  by (induction s) (auto split: list.splits)

text \<open>A single quote, for the error texts that quote a name.\<close>

abbreviation squote :: string where
  "squote \<equiv> [CHR 0x27]"

text \<open>Decimal text of a number, as \<^verbatim>\<open>strconv\<close> and \<^verbatim>\<open>%d\<close> print it.\<close>

definition digit_char :: "nat \<Rightarrow> char" where
  "digit_char d = char_of (48 + d)"

fun show_nat :: "nat \<Rightarrow> string" where
  "show_nat n = (if n < 10 then [digit_char n] else show_nat (n div 10) @ [digit_char (n mod 10)])"

declare show_nat.simps [simp del]

definition show_int :: "int \<Rightarrow> string" where
  "show_int i = (if i < 0 then ''-'' @ show_nat (nat (- i)) else show_nat (nat i))"

lemma digit_char_inj: "a < 10 \<Longrightarrow> b < 10 \<Longrightarrow> digit_char a = digit_char b \<Longrightarrow> a = b"
proof -
  assume "a < 10" "b < 10" "digit_char a = digit_char b"
  then have "of_char (digit_char a) = (of_char (digit_char b) :: nat)" by simp
  with \<open>a < 10\<close> \<open>b < 10\<close> show ?thesis by (simp add: digit_char_def)
qed

lemma show_nat_inj: "show_nat m = show_nat n \<Longrightarrow> m = n"
proof (induction m arbitrary: n rule: less_induct)
  case (less m)
  have nonempty: "show_nat k \<noteq> []" for k by (subst show_nat.simps) simp
  show ?case
  proof (cases "m < 10")
    case True
    then have m: "show_nat m = [digit_char m]" by (subst show_nat.simps) simp
    show ?thesis
    proof (cases "n < 10")
      case True
      with m less.prems \<open>m < 10\<close> show ?thesis
        by (subst (asm) show_nat.simps) (auto simp: show_nat.simps[of n] dest: digit_char_inj)
    next
      case False
      with m less.prems nonempty[of "n div 10"] show ?thesis
        by (auto simp: show_nat.simps[of n])
    qed
  next
    case False
    note big = False
    show ?thesis
    proof (cases "n < 10")
      case True
      with big less.prems nonempty[of "m div 10"] show ?thesis
        by (auto simp: show_nat.simps[of n] show_nat.simps[of m])
    next
      case False
      with big less.prems have eq: "show_nat (m div 10) = show_nat (n div 10)"
        and d: "digit_char (m mod 10) = digit_char (n mod 10)"
        by (auto simp: show_nat.simps[of n] show_nat.simps[of m])
      from big have "m div 10 < m" by simp
      from less.IH[OF this eq] have "m div 10 = n div 10" .
      moreover from d have "m mod 10 = n mod 10" by (rule digit_char_inj[rotated 2]) simp_all
      ultimately show ?thesis by (metis div_mult_mod_eq)
    qed
  qed
qed

subsection \<open>Association lists as Go maps that are ranged over\<close>

text \<open>
  A Go map that the code only looks up is a HOL map. A Go map that the code ranges over is an
  association list with distinct keys; its order stands for the unspecified iteration order,
  and the theorems about such loops speak of sets and multisets.
\<close>

abbreviation keys_distinct :: "('k \<times> 'v) list \<Rightarrow> bool" where
  "keys_distinct m \<equiv> distinct (map fst m)"

lemma keys_distinct_update [simp, intro]: "keys_distinct m \<Longrightarrow> keys_distinct (AList.update k v m)"
  by (rule distinct_update)

lemma keys_distinct_delete [simp, intro]: "keys_distinct m \<Longrightarrow> keys_distinct (AList.delete k m)"
  by (rule distinct_delete)

lemma map_of_delete [simp]: "map_of (AList.delete k m) = (map_of m)(k := None)"
  by (rule AList.delete_conv')

lemma map_of_update [simp]: "map_of (AList.update k v m) = (map_of m)(k \<mapsto> v)"
  by (rule update_conv')

lemma set_alist_delete [simp]: "set (AList.delete k m) = {p \<in> set m. fst p \<noteq> k}"
  by (auto simp: AList.delete_eq)

lemma set_update_in: "p \<in> set (AList.update k v m) \<Longrightarrow> p = (k, v) \<or> p \<in> set m"
proof (induction m)
  case (Cons q m)
  then show ?case by (cases q) (auto split: if_splits)
qed simp

lemma in_set_update:
  assumes "keys_distinct m"
  shows "(a, b) \<in> set (AList.update k v m) \<longleftrightarrow> (if a = k then b = v else (a, b) \<in> set m)"
proof -
  have "(a, b) \<in> set (AList.update k v m) \<longleftrightarrow> map_of (AList.update k v m) a = Some b"
    by (rule map_of_eq_Some_iff[symmetric]) (rule keys_distinct_update[OF assms])
  then show ?thesis using assms by auto
qed

lemma update_fresh: "k \<notin> fst ` set m \<Longrightarrow> AList.update k v m = m @ [(k, v)]"
  by (induction m) auto

lemma map_of_map_snd: "map_of (map (\<lambda>(k, v). (k, f v)) m) k = map_option f (map_of m k)"
  by (induction m) auto

lemma keys_distinct_map_of: "keys_distinct m \<Longrightarrow> map_of m k = Some v \<longleftrightarrow> (k, v) \<in> set m"
  by simp

end
