(* ===== verification/Messages.thy ===== *)
theory Messages
  imports Prelude
begin

text \<open>
  Package \<^verbatim>\<open>model\<close> (src/model): messages, their configuration and the three factory functions
  (message.go, message_factory.go), requests and responses (request.go, response.go), the two
  store responses (store_responses.go) and \<^verbatim>\<open>ConvertValueToType\<close> (util.go). A value of Go type
  \<^verbatim>\<open>interface{}\<close> is a \<open>gval\<close>: its constructor is the dynamic type the sources inspect.
  The closures that the module passes around as callbacks are the constructors of \<open>closure\<close>
  with the captured variables as arguments.
\<close>

subsection \<open>Requests and responses\<close>

datatype BrokerDestinationConfig =
  BrokerDestinationConfig (bd_Destination: string) (bd_ConnectionId: string)

datatype 'v Request = Request
  (req_Id: "uuid option") (req_Created: int64) (req_Version: int) (req_Destination: string)
  (req_Payload: 'v) (req_Request: string) (req_BrokerDestination: "BrokerDestinationConfig option")

datatype 'v Response = Response
  (resp_Id: "uuid option") (resp_Created: string) (resp_Version: int) (resp_Destination: string)
  (resp_Payload: 'v) (resp_Error: bool) (resp_ErrorCode: int) (resp_ErrorMessage: string)
  (resp_BrokerDestination: "BrokerDestinationConfig option")
  (resp_Headers: "(string \<times> string) list")

datatype 'v StoreContentResponse = StoreContentResponse
  (scr_Items: "(string \<times> 'v) list") (scr_ResponseType: string) (scr_StoreId: string)
  (scr_StoreVersion: int64)

datatype 'v UpdateStoreResponse = UpdateStoreResponse
  (usr_ItemId: string) (usr_NewItemValue: 'v) (usr_ResponseType: string) (usr_StoreId: string)
  (usr_StoreVersion: int64)

text \<open>
  The Go types (\<^verbatim>\<open>reflect.Type\<close>, nil for none) that stores and REST requests are given: the
  distinctions the code makes are pointer or not, string, byte slice.
\<close>

datatype gtype = TPtr gtype | TString | TBytes | TBool | TRestServiceRequest | TNamed nat

datatype 'v RestServiceRequest = RestServiceRequest
  (rsr_Uri: string) (rsr_Method: string) (rsr_Body: 'v) (rsr_Headers: "(string \<times> string) list")
  (rsr_ResponseType: "gtype option") (rsr_ApiClass: string)

datatype RESTBridgeConfig = RESTBridgeConfig
  (rb_ServiceChannel: string) (rb_Uri: string) (rb_Method: string) (rb_AllowHead: bool)
  (rb_AllowOptions: bool) (rb_FabricRequestBuilder: nat)

datatype SetupRESTBridgeRequest = SetupRESTBridgeRequest
  (sr_ServiceChannel: string) (sr_Override: bool) (sr_Config: "RESTBridgeConfig list")

datatype StompSessionEventType =
  ConnectionStarting | ConnectionEstablished | ConnectionClosed
| SubscribeToTopic | UnsubscribeFromTopic | IncomingMessage

datatype StompSessionEvent = StompSessionEvent (sse_Id: string) (sse_EventType: StompSessionEventType)

subsection \<open>Values of type interface\<close>

datatype gval =
  GNil
| GBool bool
| GInt int
| GInt64 int64
| GFloat64 rat
| GString string
| GBytes bytes
| GMap "(string \<times> gval) list"
| GStringMap "(string \<times> string) list"
| GRequestPtr "gval Request"
| GRequest "gval Request"
| GResponsePtr "gval Response"
| GResponse "gval Response"
| GStoreContent "gval StoreContentResponse"
| GUpdateStore "gval UpdateStoreResponse"
| GRestRequest "gval RestServiceRequest"
| GSetupREST SetupRESTBridgeRequest
| GSessionEvent StompSessionEvent
| GOther nat nat

text \<open>The struct literals leave the fields they do not name at their zero values.\<close>

definition zero_Response :: "gval Response" where
  "zero_Response = Response None '''' 0 '''' GNil False 0 '''' None []"

definition zero_Request :: "gval Request" where
  "zero_Request = Request None 0 0 '''' GNil '''' None"

primrec set_req_Id :: "uuid option \<Rightarrow> 'v Request \<Rightarrow> 'v Request" where
  "set_req_Id i (Request _ c v d p r b) = Request i c v d p r b"

primrec set_req_BrokerDestination ::
  "BrokerDestinationConfig option \<Rightarrow> 'v Request \<Rightarrow> 'v Request" where
  "set_req_BrokerDestination b (Request i c v d p r _) = Request i c v d p r b"

subsection \<open>Messages\<close>

datatype Direction = RequestDir | ResponseDir | ErrorDir

record MessageHeader =
  Label :: string
  Value :: string

record Message =
  msg_Id :: "uuid option"
  msg_DestinationId :: "uuid option"
  msg_Channel :: string
  msg_Destination :: string
  msg_Payload :: gval
  msg_Error :: "error option"
  msg_Direction :: Direction
  msg_Headers :: "MessageHeader list"

record MessageConfig =
  cfg_Id :: "uuid option"
  cfg_DestinationId :: "uuid option"
  cfg_Destination :: string
  cfg_Channel :: string
  cfg_Payload :: gval
  cfg_Headers :: "MessageHeader list"
  cfg_Direction :: Direction
  cfg_Err :: "error option"

definition zero_MessageConfig :: MessageConfig where
  "zero_MessageConfig = \<lparr>cfg_Id = None, cfg_DestinationId = None, cfg_Destination = '''',
     cfg_Channel = '''', cfg_Payload = GNil, cfg_Headers = [], cfg_Direction = RequestDir,
     cfg_Err = None\<rparr>"

text \<open>\<open>new\<close> is the value that \<^verbatim>\<open>uuid.New()\<close> returns; it is used only when the id is nil.\<close>

definition checkId :: "uuid \<Rightarrow> MessageConfig \<Rightarrow> MessageConfig" where
  "checkId new cfg = (if cfg_Id cfg = None then cfg\<lparr>cfg_Id := Some new\<rparr> else cfg)"

definition GenerateRequest :: "uuid \<Rightarrow> MessageConfig \<Rightarrow> Message" where
  "GenerateRequest new cfg0 = (let cfg = checkId new cfg0 in
     \<lparr>msg_Id = cfg_Id cfg, msg_DestinationId = cfg_DestinationId cfg,
      msg_Channel = cfg_Channel cfg, msg_Destination = cfg_Destination cfg,
      msg_Payload = cfg_Payload cfg, msg_Error = None, msg_Direction = RequestDir,
      msg_Headers = cfg_Headers cfg\<rparr>)"

definition GenerateResponse :: "uuid \<Rightarrow> MessageConfig \<Rightarrow> Message" where
  "GenerateResponse new cfg0 = (let cfg = checkId new cfg0 in
     \<lparr>msg_Id = cfg_Id cfg, msg_DestinationId = cfg_DestinationId cfg,
      msg_Channel = cfg_Channel cfg, msg_Destination = cfg_Destination cfg,
      msg_Payload = cfg_Payload cfg, msg_Error = None, msg_Direction = ResponseDir,
      msg_Headers = cfg_Headers cfg\<rparr>)"

definition GenerateError :: "uuid \<Rightarrow> MessageConfig \<Rightarrow> Message" where
  "GenerateError new cfg0 = (let cfg = checkId new cfg0 in
     \<lparr>msg_Id = cfg_Id cfg, msg_DestinationId = cfg_DestinationId cfg,
      msg_Channel = cfg_Channel cfg, msg_Destination = cfg_Destination cfg,
      msg_Payload = GNil, msg_Error = cfg_Err cfg, msg_Direction = ErrorDir,
      msg_Headers = []\<rparr>)"

subsection \<open>Decoding a payload\<close>

text \<open>
  \<^verbatim>\<open>mapstructure.Decode\<close> and the JSON decoder of a response are parameters. The target is the
  address of an object (\<open>isptr\<close>) or not; \<open>isnil\<close> says the address is nil; \<open>show_v\<close> is the
  text that the verb \<^verbatim>\<open>%v\<close> gives.
\<close>

definition decodeResponsePaylod ::
  "(gval \<Rightarrow> 't \<Rightarrow> error option) \<Rightarrow> gval Response \<Rightarrow> 't \<Rightarrow> error option" where
  "decodeResponsePaylod decode resp typ =
     (if resp_Error resp then Some (resp_ErrorMessage resp) else decode (resp_Payload resp) typ)"

definition CastPayloadToType ::
  "(gval \<Rightarrow> 't \<Rightarrow> error option) \<Rightarrow> (bytes \<Rightarrow> error + gval Response) \<Rightarrow> (gval \<Rightarrow> string)
     \<Rightarrow> Message \<Rightarrow> bool \<Rightarrow> bool \<Rightarrow> 't \<Rightarrow> (error option) go" where
  "CastPayloadToType decode unmarshal show_v m isptr isnil typ =
     (if \<not> isptr then
        Done (Some ''CastPayloadToType: invalid argument. argument should be the address of an object'')
      else if isnil then Done (Some ''CastPayloadToType: cannot cast to nil'')
      else case msg_Payload m of
        GResponsePtr resp \<Rightarrow> Done (decodeResponsePaylod decode resp typ)
      | GBytes b \<Rightarrow>
          (case unmarshal b of
             Inl err \<Rightarrow> 
               Done (Some (''CastPayloadToType: failed to unmarshal payload '' @
                 show_v (msg_Payload m) @ '': '' @ err))
           | Inr resp \<Rightarrow> Done (decodeResponsePaylod decode resp typ))
      | _ \<Rightarrow> Panic ''interface conversion'')"

text \<open>
  \<^verbatim>\<open>ConvertValueToType\<close>: \<open>recode t v\<close> is the value that marshalling \<open>v\<close> to JSON and
  unmarshalling it into a fresh \<open>t\<close> gives, or the decoder's error; \<open>addr_of\<close> is the pointer to
  such a value.
\<close>

definition ConvertValueToType ::
  "(gtype \<Rightarrow> gval \<Rightarrow> error + gval) \<Rightarrow> (gval \<Rightarrow> gval) \<Rightarrow> gval \<Rightarrow> gtype option \<Rightarrow> error + gval" where
  "ConvertValueToType recode addr_of value targetType =
     (case targetType of
        None \<Rightarrow> Inr value
      | Some (TPtr t) \<Rightarrow>
          (case recode t value of Inl e \<Rightarrow> Inl e | Inr v \<Rightarrow> Inr (addr_of v))
      | Some t \<Rightarrow> recode t value)"

subsection \<open>Service requests and store responses\<close>

definition CreateServiceRequest :: "uuid \<Rightarrow> string \<Rightarrow> bytes \<Rightarrow> gval Request" where
  "CreateServiceRequest new requestType body =
     Request (Some new) 0 0 '''' (GBytes body) requestType None"

text \<open>\<open>vals\<close> is the \<^verbatim>\<open>url.Values\<close> or \<^verbatim>\<open>*http.Request\<close> payload, opaque to the module.\<close>

definition CreateServiceRequestWithValues :: "uuid \<Rightarrow> string \<Rightarrow> gval \<Rightarrow> gval Request" where
  "CreateServiceRequestWithValues new requestType vals =
     Request (Some new) 0 0 '''' vals requestType None"

definition CreateServiceRequestWithHttpRequest :: "uuid \<Rightarrow> string \<Rightarrow> gval \<Rightarrow> gval Request" where
  "CreateServiceRequestWithHttpRequest new requestType r =
     Request (Some new) 0 0 '''' r requestType None"

definition NewStoreContentResponse ::
  "string \<Rightarrow> (string \<times> gval) list \<Rightarrow> int64 \<Rightarrow> gval StoreContentResponse" where
  "NewStoreContentResponse storeId items storeVersion =
     StoreContentResponse items ''storeContentResponse'' storeId storeVersion"

definition NewUpdateStoreResponse ::
  "string \<Rightarrow> string \<Rightarrow> gval \<Rightarrow> int64 \<Rightarrow> gval UpdateStoreResponse" where
  "NewUpdateStoreResponse storeId itemId newValue storeVersion =
     UpdateStoreResponse itemId newValue ''updateStoreResponse'' storeId storeVersion"

primrec set_usr_NewItemValue :: "'v \<Rightarrow> 'v UpdateStoreResponse \<Rightarrow> 'v UpdateStoreResponse" where
  "set_usr_NewItemValue x (UpdateStoreResponse i _ t s v) = UpdateStoreResponse i x t s v"

subsection \<open>Callbacks\<close>

text \<open>
  One constructor per function literal (or method value) that the module hands to another part
  as a callback, with the variables it captures; \<open>UserFn\<close> is a callback of code outside the
  module.
  \<open>WrapperFn m\<close>: the \<^verbatim>\<open>handlerWrapper\<close> of the message handler at address \<open>m\<close> (eventbus.go).
  \<open>TxSuccess t i\<close>, \<open>TxError t\<close>: the handlers of request \<open>i\<close> of transaction \<open>t\<close>;
  \<open>TxStoreReady t i s\<close>: its wait for the store at \<open>s\<close> (transaction.go).
  \<open>GalacticSync s\<close>: the sync handler of the galactic store at address \<open>s\<close> (store.go).
  \<open>SyncMonitor\<close>, \<open>SyncClientRequest c\<close>, \<open>SyncStoreChange l\<close>, \<open>SyncContent n i s\<close>: the monitor
  listener, the request handler of client \<open>c\<close>, the change handler of listener \<open>l\<close> and the content
  response for the store at \<open>s\<close> (store\_sync\_service.go).
  \<open>FabricSend e c\<close>, \<open>FabricError e d\<close>: the handlers that the endpoint at \<open>e\<close> gives to channel \<open>c\<close>,
  opened for destination \<open>d\<close> (fabric\_endpoint.go).
  \<open>ServiceRequest w\<close>: the request handler of the service wrapper at \<open>w\<close> (service\_registry.go).
  \<open>RestReply u v\<close>: the reply handlers of \<^verbatim>\<open>RestServiceRequest\<close> for the callbacks \<open>u\<close> and \<open>v\<close>.
  \<open>BridgeForward c\<close>: the relay into the REST bridge of channel \<open>c\<close> (plank).
  \<open>SetupBridges\<close>: the listener of plank for the REST bridges of services.
  \<open>IgnoreFn\<close>: a function literal with an empty body.
\<close>

datatype closure =
  UserFn nat
| WrapperFn addr
| TxSuccess addr nat
| TxStoreReady addr nat addr
| TxError addr
| GalacticSync addr
| SyncMonitor
| SyncClientRequest addr
| SyncStoreChange addr
| SyncContent string string addr
| FabricSend addr string
| FabricError addr string
| ServiceRequest addr
| RestReply nat nat
| BridgeForward string
| SetupBridges
| IgnoreFn

lemmas generate_defs = GenerateRequest_def GenerateResponse_def GenerateError_def checkId_def Let_def

lemma generate_direction [simp]:
  "msg_Direction (GenerateRequest n c) = RequestDir"
  "msg_Direction (GenerateResponse n c) = ResponseDir"
  "msg_Direction (GenerateError n c) = ErrorDir"
  by (simp_all add: generate_defs)

lemma generate_payload [simp]:
  "msg_Payload (GenerateRequest n c) = cfg_Payload c"
  "msg_Payload (GenerateResponse n c) = cfg_Payload c"
  "msg_Error (GenerateError n c) = cfg_Err c"
  by (simp_all add: generate_defs)

lemma generate_destinationId [simp]:
  "msg_DestinationId (GenerateRequest n c) = cfg_DestinationId c"
  "msg_DestinationId (GenerateResponse n c) = cfg_DestinationId c"
  "msg_DestinationId (GenerateError n c) = cfg_DestinationId c"
  by (simp_all add: generate_defs)

lemma generate_id [simp]:
  "msg_Id (GenerateRequest n c) = Some (case cfg_Id c of None \<Rightarrow> n | Some i \<Rightarrow> i)"
  "msg_Id (GenerateResponse n c) = Some (case cfg_Id c of None \<Rightarrow> n | Some i \<Rightarrow> i)"
  "msg_Id (GenerateError n c) = Some (case cfg_Id c of None \<Rightarrow> n | Some i \<Rightarrow> i)"
  by (auto simp: generate_defs split: option.splits)

end
