(* ===== verification/Frames.thy ===== *)
theory Frames
  imports Messages
begin

text \<open>
  STOMP frames as the module sees them. The frame library (go-stomp) is not part of the
  repository: a header is the term of the library calls that built it, and how a header is
  looked up is a parameter \<open>contains\<close> of the definitions that read one. What the code relies on
  is the predicate \<open>header_laws\<close>: the documented behaviour of \<^verbatim>\<open>New\<close>, \<^verbatim>\<open>Add\<close>, \<^verbatim>\<open>Set\<close>, \<^verbatim>\<open>Del\<close> and
  \<^verbatim>\<open>Contains\<close>.
\<close>

datatype header =
  HNew "(string \<times> string) list"
| HAdd header string string
| HSet header string string
| HDel header string

record Frame =
  f_Command :: string
  f_Header :: header
  f_Body :: bytes

type_synonym contains = "header \<Rightarrow> string \<Rightarrow> string option"

definition frame_New :: "string \<Rightarrow> (string \<times> string) list \<Rightarrow> Frame" where
  "frame_New cmd hs = \<lparr>f_Command = cmd, f_Header = HNew hs, f_Body = ''''\<rparr>"

definition header_Get :: "contains \<Rightarrow> header \<Rightarrow> string \<Rightarrow> string" where
  "header_Get contains h k = (case contains h k of None \<Rightarrow> '''' | Some v \<Rightarrow> v)"

definition header_laws :: "contains \<Rightarrow> bool" where
  "header_laws contains \<longleftrightarrow>
     (\<forall>hs. contains (HNew hs) = map_of hs) \<and>
     (\<forall>h k v. contains (HAdd h k v) =
        (\<lambda>k'. if k' = k \<and> contains h k = None then Some v else contains h k')) \<and>
     (\<forall>h k v. contains (HSet h k v) = (contains h)(k \<mapsto> v)) \<and>
     (\<forall>h k. contains (HDel h k) = (contains h)(k := None))"

text \<open>A lookup that satisfies the laws: the first value of a key.\<close>

primrec first_value :: contains where
  "first_value (HNew hs) = map_of hs"
| "first_value (HAdd h k v) =
     (\<lambda>k'. if k' = k \<and> first_value h k = None then Some v else first_value h k')"
| "first_value (HSet h k v) = (first_value h)(k \<mapsto> v)"
| "first_value (HDel h k) = (first_value h)(k := None)"

lemma first_value_laws: "header_laws first_value"
  by (simp add: header_laws_def)

lemma header_lawsD:
  assumes "header_laws contains"
  shows "contains (HNew hs) k = map_of hs k"
    and "contains (HAdd h k v) k' = (if k' = k \<and> contains h k = None then Some v else contains h k')"
    and "contains (HSet h k v) k' = (if k' = k then Some v else contains h k')"
    and "contains (HDel h k) k' = (if k' = k then None else contains h k')"
  using assms by (auto simp: header_laws_def)

end
