(* ===== verification/Bridge.thy ===== *)
theory Bridge
  imports Frames
begin

text \<open>
  Package \<^verbatim>\<open>bridge\<close> (src/bridge): the STOMP client over a WebSocket (bridge\_client.go,
  bridge\_client\_subscription.go), a broker connection and its subscriptions (connection.go,
  subscription.go) and the connector that validates a configuration and dials
  (broker\_connector.go). The sockets, the TCP STOMP client and TLS are outside the
  repository: what a call on them returns is an argument, and what is written to them is kept
  in a log of frames and calls.
\<close>

subsection \<open>The WebSocket client\<close>

text \<open>
  \<open>bcs_received\<close> is what was sent on the unbuffered channel \<^verbatim>\<open>C\<close> (each element was taken by the
  receiver, since the send waits for it). The channel \<^verbatim>\<open>E\<close> is never made by \<^verbatim>\<open>Subscribe\<close>, so it
  stays nil.
\<close>

record BridgeClientSub =
  bcs_Id :: uuid
  bcs_Destination :: string
  bcs_subscribed :: bool
  bcs_received :: "Message list"
  bcs_E :: "(Message list) option"

record BridgeClient =
  bc_WSc :: bool
  bc_open :: bool
  bc_connected :: bool
  bc_stompConnected :: bool
  bc_Subscriptions :: "(string \<times> addr) list"
  bc_subHeap :: "addr \<Rightarrow> BridgeClientSub"
  bc_nextSub :: addr
  bc_sent :: "Frame list"
  bc_loop :: bool

definition nil_BridgeClientSub :: BridgeClientSub where
  "nil_BridgeClientSub = \<lparr>bcs_Id = '''', bcs_Destination = '''', bcs_subscribed = False,
     bcs_received = [], bcs_E = None\<rparr>"

definition newBridgeWsClient :: BridgeClient where
  "newBridgeWsClient = \<lparr>bc_WSc = False, bc_open = False, bc_connected = False,
     bc_stompConnected = False, bc_Subscriptions = [], bc_subHeap = (\<lambda>_. nil_BridgeClientSub),
     bc_nextSub = 0, bc_sent = [], bc_loop = False\<rparr>"

text \<open>
  \<^verbatim>\<open>SendFrame\<close> takes a writer of the socket and ignores the error of taking it; on a closed
  socket the writer is nil and the write panics.
\<close>

definition bc_SendFrame :: "Frame \<Rightarrow> BridgeClient \<Rightarrow> BridgeClient go" where
  "bc_SendFrame f ws = (if bc_open ws then Done (ws\<lparr>bc_sent := bc_sent ws @ [f]\<rparr>)
     else Panic ''nil pointer dereference'')"

definition bc_Subscribe :: "uuid \<Rightarrow> string \<Rightarrow> BridgeClient \<Rightarrow> (BridgeClient \<times> addr) go" where
  "bc_Subscribe new destination ws =
     (let a = bc_nextSub ws;
          s = \<lparr>bcs_Id = new, bcs_Destination = destination, bcs_subscribed = True,
               bcs_received = [], bcs_E = None\<rparr>;
          ws' = ws\<lparr>bc_subHeap := (bc_subHeap ws)(a := s), bc_nextSub := Suc a,
                   bc_Subscriptions := AList.update destination a (bc_Subscriptions ws)\<rparr>;
          f = frame_New ''SUBSCRIBE'' [(''id'', new), (''destination'', destination), (''ack'', ''auto'')]
      in go_map (\<lambda>w. (w, a)) (bc_SendFrame f ws'))"

text \<open>
  \<open>opts\<close> are the frame options; each is applied to the frame and its error is ignored. The write
  is a goroutine of its own: the log \<open>bc_sent\<close> has the frames in the order these run.
\<close>

definition bc_Send ::
  "string \<Rightarrow> string \<Rightarrow> bytes \<Rightarrow> (Frame \<Rightarrow> Frame) list \<Rightarrow> BridgeClient \<Rightarrow> BridgeClient go" where
  "bc_Send destination contentType payload opts ws =
     (let f0 = frame_New ''SEND'' [(''destination'', destination),
                 (''content-length'', show_nat (length payload)), (''content-type'', contentType)];
          f1 = fold (\<lambda>opt f. opt f) opts f0
      in bc_SendFrame (f1\<lparr>f_Body := payload\<rparr>) ws)"

definition bcs_Unsubscribe :: "addr \<Rightarrow> BridgeClient \<Rightarrow> BridgeClient go" where
  "bcs_Unsubscribe a ws =
     (let cs = bc_subHeap ws a;
          ws' = ws\<lparr>bc_subHeap := (bc_subHeap ws)(a := cs\<lparr>bcs_subscribed := False\<rparr>)\<rparr>
      in bc_SendFrame (frame_New ''UNSUBSCRIBE''
           [(''id'', bcs_Id cs), (''destination'', bcs_Destination cs)]) ws')"

text \<open>
  One round of \<^verbatim>\<open>handleIncomingSTOMPFrames\<close>. A \<^verbatim>\<open>MESSAGE\<close> goes to every subscription of the
  client whose destination is the frame's; an \<^verbatim>\<open>ERROR\<close> is sent on the nil channel \<^verbatim>\<open>E\<close>, which
  blocks. \<open>new\<close> is the id generated for the message.
\<close>

fun deliver_message ::
  "uuid \<Rightarrow> bytes \<Rightarrow> string \<Rightarrow> (string \<times> addr) list \<Rightarrow> (addr \<Rightarrow> BridgeClientSub)
     \<Rightarrow> (addr \<Rightarrow> BridgeClientSub)" where
  "deliver_message new body dest [] heap = heap"
| "deliver_message new body dest ((_, a) # subs) heap =
     (let sub = heap a;
          m = GenerateResponse new (zero_MessageConfig\<lparr>cfg_Payload := GBytes body,
                cfg_Destination := bcs_Destination sub\<rparr>)
      in deliver_message new body dest subs
           (if bcs_Destination sub = dest \<and> bcs_subscribed sub
            then heap(a := sub\<lparr>bcs_received := bcs_received sub @ [m]\<rparr>) else heap))"

fun deliver_error ::
  "uuid \<Rightarrow> bytes \<Rightarrow> string \<Rightarrow> (string \<times> addr) list \<Rightarrow> (addr \<Rightarrow> BridgeClientSub)
     \<Rightarrow> (addr \<Rightarrow> BridgeClientSub) go" where
  "deliver_error new body dest [] heap = Done heap"
| "deliver_error new body dest ((_, a) # subs) heap =
     (let sub = heap a;
          m = GenerateError new (zero_MessageConfig\<lparr>cfg_Payload := GBytes body,
                cfg_Err := Some (''STOMP ErrorDir '' @ body)\<rparr>)
      in if bcs_Destination sub = dest then
           (case bcs_E sub of
              None \<Rightarrow> Block
            | Some e \<Rightarrow> deliver_error new body dest subs (heap(a := sub\<lparr>bcs_E := Some (e @ [m])\<rparr>)))
         else deliver_error new body dest subs heap)"

definition handleIncomingSTOMPFrame ::
  "contains \<Rightarrow> uuid \<Rightarrow> Frame \<Rightarrow> BridgeClient \<Rightarrow> BridgeClient go" where
  "handleIncomingSTOMPFrame contains new f ws =
     (let dest = header_Get contains (f_Header f) ''destination'' in
      if f_Command f = ''CONNECTED'' then
        Done (ws\<lparr>bc_stompConnected := True, bc_connected := True\<rparr>)
      else if f_Command f = ''MESSAGE'' then
        Done (ws\<lparr>bc_subHeap :=
          deliver_message new (f_Body f) dest (bc_Subscriptions ws) (bc_subHeap ws)\<rparr>)
      else if f_Command f = ''ERROR'' then
        go_map (\<lambda>h. ws\<lparr>bc_subHeap := h\<rparr>)
          (deliver_error new (f_Body f) dest (bc_Subscriptions ws) (bc_subHeap ws))
      else Done ws)"

fun handleIncomingSTOMPFrames ::
  "contains \<Rightarrow> (uuid \<times> Frame) list \<Rightarrow> BridgeClient \<Rightarrow> BridgeClient go" where
  "handleIncomingSTOMPFrames contains [] ws = Done ws"
| "handleIncomingSTOMPFrames contains ((new, f) # fs) ws =
     go_bind (handleIncomingSTOMPFrame contains new f ws) (handleIncomingSTOMPFrames contains fs)"

text \<open>\<^verbatim>\<open>Disconnect\<close> hands the frame loop a stop signal, which waits until the loop takes it.\<close>

definition bc_Disconnect :: "BridgeClient \<Rightarrow> (BridgeClient \<times> error option) go" where
  "bc_Disconnect ws =
     (if bc_WSc ws then
        (if bc_loop ws then Done (ws\<lparr>bc_loop := False, bc_open := False\<rparr>, None) else Block)
      else Done (ws, Some ''cannot disconnect, no connection defined''))"

subsection \<open>Subscriptions and connections\<close>

text \<open>
  \<open>StompTCP\<close>: \<^verbatim>\<open>stompTCPSub\<close> is set. \<open>WsStomp a\<close>: \<^verbatim>\<open>wsStompSub\<close> points to the client's
  subscription \<open>a\<close>. \<open>NoTransport\<close>: neither. \<open>sub_addr\<close> is the address of the subscription; its
  message channel is closed when the connection records so under that address.
\<close>

datatype transport = StompTCP | WsStomp addr | NoTransport

record Subscription =
  sub_addr :: addr
  sub_id :: uuid
  sub_destination :: string
  sub_transport :: transport

datatype tcp_option =
  OptLogin string string
| OptHost string
| OptHeartBeat int int
| OptHeader string string

datatype tcp_call =
  TcpDial string "tcp_option list"
| TcpSubscribe string "(string \<times> string) list"
| TcpUnsubscribe addr
| TcpSend string string bytes "(Frame \<Rightarrow> Frame) list"
| TcpDisconnect

record connection =
  conn_id :: uuid
  conn_useWs :: bool
  conn_conn :: bool
  conn_wsConn :: bool
  conn_ws :: BridgeClient
  conn_subscriptions :: "string \<rightharpoonup> Subscription"
  conn_closed :: "addr set"
  conn_nextSub :: addr
  conn_tcpCalls :: "tcp_call list"

definition subscribeWs :: "uuid \<Rightarrow> string \<Rightarrow> connection \<Rightarrow> (connection \<times> (error + Subscription)) go" where
  "subscribeWs new destination c =
     (if conn_wsConn c then
        go_bind (bc_Subscribe new destination (conn_ws c)) (\<lambda>(ws, a).
          let sub = \<lparr>sub_addr = conn_nextSub c, sub_id = new, sub_destination = destination,
                     sub_transport = WsStomp a\<rparr>
          in Done (c\<lparr>conn_ws := ws, conn_nextSub := Suc (conn_nextSub c),
                     conn_subscriptions := (conn_subscriptions c)(destination \<mapsto> sub)\<rparr>, Inr sub))
      else Done (c, Inl ''cannot subscribe, websocket not connected / established''))"

text \<open>
  \<open>tcp_ok\<close>: the STOMP library returned a subscription (its error is ignored and a nil
  subscription is dereferenced). The destination field of the new subscription is not set.
\<close>

definition subscribeTCP ::
  "(string \<times> string) list \<Rightarrow> bool \<Rightarrow> uuid \<Rightarrow> string \<Rightarrow> connection
     \<Rightarrow> (connection \<times> (error + Subscription)) go" where
  "subscribeTCP opts tcp_ok new destination c =
     (if conn_conn c then
        (if tcp_ok then
           let sub = \<lparr>sub_addr = conn_nextSub c, sub_id = new, sub_destination = '''',
                      sub_transport = StompTCP\<rparr>
           in Done (c\<lparr>conn_nextSub := Suc (conn_nextSub c),
                      conn_tcpCalls := conn_tcpCalls c @ [TcpSubscribe destination opts],
                      conn_subscriptions := (conn_subscriptions c)(destination \<mapsto> sub)\<rparr>, Inr sub)
         else Panic ''nil pointer dereference'')
      else Done (c, Inl ''no STOMP TCP connection established''))"

definition subscribeTCPUsingReplyDestination ::
  "bool \<Rightarrow> uuid \<Rightarrow> string \<Rightarrow> connection \<Rightarrow> (connection \<times> (error + Subscription)) go" where
  "subscribeTCPUsingReplyDestination tcp_ok new destination c =
     subscribeTCP [(''reply-to'', destination)] tcp_ok new destination c"

definition connection_Subscribe ::
  "bool \<Rightarrow> uuid \<Rightarrow> string \<Rightarrow> connection option
     \<Rightarrow> (connection option \<times> (error + Subscription)) go" where
  "connection_Subscribe tcp_ok new destination cp =
     (case cp of
        None \<Rightarrow> Done (None, Inl (''cannot subscribe to '' @ squote @ destination @ squote @ '', no connection to broker''))
      | Some c \<Rightarrow>
          (case conn_subscriptions c destination of
             Some sub \<Rightarrow> Done (Some c, Inr sub)
           | None \<Rightarrow>
               go_map (\<lambda>(c', r). (Some c', r))
                 (if conn_useWs c then subscribeWs new destination c
                  else subscribeTCP [] tcp_ok new destination c)))"

definition connection_SubscribeReplyDestination ::
  "bool \<Rightarrow> uuid \<Rightarrow> string \<Rightarrow> connection option
     \<Rightarrow> (connection option \<times> (error + Subscription)) go" where
  "connection_SubscribeReplyDestination tcp_ok new destination cp =
     (case cp of
        None \<Rightarrow> Done (None, Inl (''cannot subscribe to '' @ squote @ destination @ squote @ '', no connection to broker''))
      | Some c \<Rightarrow>
          (case conn_subscriptions c destination of
             Some sub \<Rightarrow> Done (Some c, Inr sub)
           | None \<Rightarrow>
               go_map (\<lambda>(c', r). (Some c', r))
                 (if conn_useWs c then subscribeWs new destination c
                  else subscribeTCPUsingReplyDestination tcp_ok new destination c)))"

text \<open>Closing a channel twice panics.\<close>

definition close_msg_channel :: "addr \<Rightarrow> connection \<Rightarrow> connection go" where
  "close_msg_channel a c =
     (if a \<in> conn_closed c then Panic ''close of closed channel''
      else Done (c\<lparr>conn_closed := insert a (conn_closed c)\<rparr>))"

definition subscription_Unsubscribe ::
  "Subscription \<Rightarrow> connection \<Rightarrow> (connection \<times> error option) go" where
  "subscription_Unsubscribe s c =
     (case sub_transport s of
        StompTCP \<Rightarrow>
          go_map (\<lambda>c'. (c', None)) (close_msg_channel (sub_addr s)
            (c\<lparr>conn_tcpCalls := conn_tcpCalls c @ [TcpUnsubscribe (sub_addr s)]\<rparr>))
      | WsStomp a \<Rightarrow>
          go_bind (bcs_Unsubscribe a (conn_ws c)) (\<lambda>ws.
            go_map (\<lambda>c'. (c', None)) (close_msg_channel (sub_addr s) (c\<lparr>conn_ws := ws\<rparr>)))
      | NoTransport \<Rightarrow>
          Done (c, Some (''cannot unsubscribe from destination '' @ sub_destination s @ '', no connection'')))"

definition cleanUpConnection :: "connection \<Rightarrow> connection" where
  "cleanUpConnection c = c\<lparr>conn_conn := False, conn_wsConn := False\<rparr>"

text \<open>\<open>tcp_err\<close> is what the TCP client's own disconnect returns.\<close>

definition connection_Disconnect ::
  "error option \<Rightarrow> connection option \<Rightarrow> (connection option \<times> error option) go" where
  "connection_Disconnect tcp_err cp =
     (case cp of
        None \<Rightarrow> Done (None, Some ''cannot disconnect, not connected'')
      | Some c \<Rightarrow>
          if conn_useWs c then
            (if conn_wsConn c \<and> bc_connected (conn_ws c) then
               go_map (\<lambda>(ws, e). (Some (cleanUpConnection (c\<lparr>conn_ws := ws\<rparr>)), e))
                 (bc_Disconnect (conn_ws c))
             else Done (Some c, None))
          else if conn_conn c then
            Done (Some (cleanUpConnection (c\<lparr>conn_tcpCalls := conn_tcpCalls c @ [TcpDisconnect]\<rparr>)), tcp_err)
          else Done (Some c, None))"

definition connection_SendMessage ::
  "string \<Rightarrow> string \<Rightarrow> bytes \<Rightarrow> (Frame \<Rightarrow> Frame) list \<Rightarrow> connection
     \<Rightarrow> (connection \<times> error option) go" where
  "connection_SendMessage destination contentType payload opts c =
     (if \<not> conn_useWs c \<and> conn_conn c then
        Done (c\<lparr>conn_tcpCalls := conn_tcpCalls c @ [TcpSend destination contentType payload opts]\<rparr>, None)
      else if conn_useWs c \<and> conn_wsConn c then
        go_map (\<lambda>ws. (c\<lparr>conn_ws := ws\<rparr>, None))
          (bc_Send destination contentType payload opts (conn_ws c))
      else Done (c, Some ''cannot send message, no connection''))"

definition connection_SendJSONMessage ::
  "string \<Rightarrow> bytes \<Rightarrow> (Frame \<Rightarrow> Frame) list \<Rightarrow> connection \<Rightarrow> (connection \<times> error option) go" where
  "connection_SendJSONMessage destination payload opts c =
     connection_SendMessage destination ''application/json'' payload opts c"

definition add_reply_to :: "string \<Rightarrow> Frame \<Rightarrow> Frame" where
  "add_reply_to replyDestination f = f\<lparr>f_Header := HAdd (f_Header f) ''reply-to'' replyDestination\<rparr>"

definition connection_SendMessageWithReplyDestination ::
  "string \<Rightarrow> string \<Rightarrow> string \<Rightarrow> bytes \<Rightarrow> (Frame \<Rightarrow> Frame) list \<Rightarrow> connection
     \<Rightarrow> (connection \<times> error option) go" where
  "connection_SendMessageWithReplyDestination destination replyDestination contentType payload opts c =
     connection_SendMessage destination contentType payload (opts @ [add_reply_to replyDestination]) c"

text \<open>
  \<^verbatim>\<open>listenTCPFrames\<close>: the message made of one frame that the TCP client delivers, \<open>None\<close> for the
  nil frame of a closed source.
\<close>

record TcpFrame =
  tf_Body :: bytes
  tf_Destination :: string
  tf_Header :: header

definition listenTCPFrame :: "contains \<Rightarrow> uuid \<Rightarrow> TcpFrame option \<Rightarrow> Message option" where
  "listenTCPFrame contains new fp =
     (case fp of
        None \<Rightarrow> None
      | Some f \<Rightarrow>
          let cf = zero_MessageConfig\<lparr>cfg_Payload := GBytes (tf_Body f), cfg_Destination := tf_Destination f\<rparr>;
              cf' = (case contains (tf_Header f) ''reply-to'' of
                       Some replyTo \<Rightarrow> cf\<lparr>cfg_Headers := [\<lparr>Label = ''reply-to'', Value = replyTo\<rparr>]\<rparr>
                     | None \<Rightarrow> cf)
          in Some (GenerateResponse new cf'))"

subsection \<open>The connector\<close>

record WebSocketConfig =
  ws_WSPath :: string
  ws_UseTLS :: bool
  ws_TLSConfig :: "nat option"
  ws_CertFile :: string
  ws_KeyFile :: string

record BrokerConnectorConfig =
  bcc_Username :: string
  bcc_Password :: string
  bcc_ServerAddr :: string
  bcc_UseWS :: bool
  bcc_WebSocketConfig :: "WebSocketConfig option"
  bcc_HostHeader :: string
  bcc_HeartBeatOut :: int
  bcc_HeartBeatIn :: int
  bcc_STOMPHeader :: "(string \<times> string) list"

text \<open>\<open>basic_tls\<close> stands for the default TLS configuration that the code builds.\<close>

definition checkConfig ::
  "nat \<Rightarrow> BrokerConnectorConfig option \<Rightarrow> error + BrokerConnectorConfig" where
  "checkConfig basic_tls cp =
     (case cp of
        None \<Rightarrow> Inl ''config is nil''
      | Some config \<Rightarrow>
          if bcc_ServerAddr config = '''' then Inl ''config invalid, config missing server address''
          else if bcc_Username config = '''' then Inl ''config invalid, config missing username''
          else if bcc_Password config = '''' then Inl ''config invalid, config missing password''
          else (case bcc_WebSocketConfig config of
                  None \<Rightarrow> Inr config
                | Some w \<Rightarrow>
                    if ws_UseTLS w \<and> ws_TLSConfig w = None
                    then Inr (config\<lparr>bcc_WebSocketConfig := Some (w\<lparr>ws_TLSConfig := Some basic_tls\<rparr>)\<rparr>)
                    else Inr config))"

text \<open>
  \<open>bc_ConnectFrame\<close> is the frame that \<^verbatim>\<open>BridgeClient.Connect\<close> sends once the socket is open.
  \<open>Milliseconds\<close> is \<^verbatim>\<open>Duration.Milliseconds\<close>: nanoseconds divided by a million, truncated towards zero.
\<close>

definition Milliseconds :: "int \<Rightarrow> int" where
  "Milliseconds d = sgn d * (\<bar>d\<bar> div 1000000)"

definition bc_ConnectFrame :: "BrokerConnectorConfig \<Rightarrow> Frame" where
  "bc_ConnectFrame config = frame_New ''CONNECT''
     ([(''accept-version'', ''1.2''), (''login'', bcc_Username config), (''passcode'', bcc_Password config),
       (''heart-beat'', show_int (Milliseconds (bcc_HeartBeatOut config)) @ '','' @ show_int (Milliseconds (bcc_HeartBeatIn config)))]
      @ bcc_STOMPHeader config)"

text \<open>
  \<^verbatim>\<open>Connect\<close> of the client: \<open>tls_err\<close> is the result of loading the key pair and \<open>dial_err\<close> that of
  dialling. It waits for the \<^verbatim>\<open>CONNECTED\<close> frame, which the frame loop takes from the broker:
  \<open>accepted\<close> says that the broker answers with one.
\<close>

definition bc_Connect ::
  "error option \<Rightarrow> error option \<Rightarrow> bool \<Rightarrow> BrokerConnectorConfig \<Rightarrow> BridgeClient
     \<Rightarrow> (BridgeClient \<times> error option) go" where
  "bc_Connect tls_err dial_err accepted config ws =
     (case bcc_WebSocketConfig config of
        None \<Rightarrow> Panic ''nil pointer dereference''
      | Some w \<Rightarrow>
          let load = ws_UseTLS w \<and> (ws_CertFile w \<noteq> '''' \<or> ws_KeyFile w \<noteq> '''') in
          if load \<and> tls_err \<noteq> None then Done (ws, tls_err)
          else if dial_err \<noteq> None then Done (ws, dial_err)
          else go_bind (bc_SendFrame (bc_ConnectFrame config)
                         (ws\<lparr>bc_WSc := True, bc_open := True, bc_loop := True\<rparr>)) (\<lambda>ws'.
                 if accepted then Done (ws'\<lparr>bc_stompConnected := True, bc_connected := True\<rparr>, None)
                 else Block))"

record brokerConnector =
  bk_c :: "uuid option"
  bk_config :: "BrokerConnectorConfig option"
  bk_connected :: bool

definition NewBrokerConnector :: brokerConnector where
  "NewBrokerConnector = \<lparr>bk_c = None, bk_config = None, bk_connected = False\<rparr>"

definition connectWs ::
  "error option \<Rightarrow> error option \<Rightarrow> bool \<Rightarrow> uuid \<Rightarrow> BrokerConnectorConfig \<Rightarrow> brokerConnector
     \<Rightarrow> (brokerConnector \<times> (error + connection)) go" where
  "connectWs tls_err dial_err accepted new config bc =
     go_map (\<lambda>(ws, err).
       case err of
         Some _ \<Rightarrow> (bc, Inl (''cannot connect to host '' @ squote @ bcc_ServerAddr config @ squote @
                       '' via path '' @ squote @
                       (case bcc_WebSocketConfig config of None \<Rightarrow> '''' | Some w \<Rightarrow> ws_WSPath w) @
                       squote @ '', stopping''))
       | None \<Rightarrow> (bc\<lparr>bk_c := Some new, bk_connected := True\<rparr>,
                  Inr \<lparr>conn_id = new, conn_useWs = True, conn_conn = False, conn_wsConn = True,
                      conn_ws = ws, conn_subscriptions = Map.empty, conn_closed = {},
                      conn_nextSub = 0, conn_tcpCalls = []\<rparr>))
       (bc_Connect tls_err dial_err accepted config newBridgeWsClient)"

definition tcp_dial_options :: "BrokerConnectorConfig \<Rightarrow> tcp_option list" where
  "tcp_dial_options config =
     [OptLogin (bcc_Username config) (bcc_Password config), OptHost (bcc_HostHeader config),
      OptHeartBeat (bcc_HeartBeatOut config) (bcc_HeartBeatIn config)]
     @ map (\<lambda>(k, v). OptHeader k v) (bcc_STOMPHeader config)"

definition connectTCP ::
  "error option \<Rightarrow> uuid \<Rightarrow> BrokerConnectorConfig \<Rightarrow> brokerConnector
     \<Rightarrow> brokerConnector \<times> (error + connection)" where
  "connectTCP dial_err new config0 bc =
     (let config = (if bcc_HostHeader config0 = '''' then config0\<lparr>bcc_HostHeader := ''/''\<rparr> else config0) in
      case dial_err of
        Some e \<Rightarrow> (bc, Inl e)
      | None \<Rightarrow> (bc\<lparr>bk_c := Some new, bk_connected := True, bk_config := Some config\<rparr>,
                 Inr \<lparr>conn_id = new, conn_useWs = False, conn_conn = True, conn_wsConn = False,
                     conn_ws = newBridgeWsClient, conn_subscriptions = Map.empty, conn_closed = {},
                     conn_nextSub = 0,
                     conn_tcpCalls = [TcpDial (bcc_ServerAddr config) (tcp_dial_options config)]\<rparr>))"

definition brokerConnector_Connect ::
  "nat \<Rightarrow> error option \<Rightarrow> error option \<Rightarrow> bool \<Rightarrow> uuid \<Rightarrow> BrokerConnectorConfig option
     \<Rightarrow> brokerConnector \<Rightarrow> (brokerConnector \<times> (error + connection)) go" where
  "brokerConnector_Connect basic_tls tls_err dial_err accepted new cp bc =
     (case checkConfig basic_tls cp of
        Inl e \<Rightarrow> Done (bc, Inl e)
      | Inr config \<Rightarrow>
          if bcc_UseWS config then connectWs tls_err dial_err accepted new config bc
          else Done (connectTCP dial_err new config bc))"

text \<open>A connection object that is not connected.\<close>

definition nil_connection :: connection where
  "nil_connection = \<lparr>conn_id = '''', conn_useWs = False, conn_conn = False, conn_wsConn = False,
     conn_ws = newBridgeWsClient, conn_subscriptions = Map.empty, conn_closed = {},
     conn_nextSub = 0, conn_tcpCalls = []\<rparr>"

subsection \<open>Well-formed clients\<close>

text \<open>Every entry of the subscription table points to a subscription of its destination.\<close>

definition client_wf :: "BridgeClient \<Rightarrow> bool" where
  "client_wf ws \<longleftrightarrow> keys_distinct (bc_Subscriptions ws) \<and>
     (\<forall>(d, a)\<in>set (bc_Subscriptions ws). a < bc_nextSub ws \<and> bcs_Destination (bc_subHeap ws a) = d)"

text \<open>Subscriptions of a client never get an error channel.\<close>

definition no_error_channel :: "BridgeClient \<Rightarrow> bool" where
  "no_error_channel ws \<longleftrightarrow> (\<forall>a. bcs_E (bc_subHeap ws a) = None)"

text \<open>The message that a \<^verbatim>\<open>MESSAGE\<close> frame becomes.\<close>

definition bridge_message :: "uuid \<Rightarrow> bytes \<Rightarrow> string \<Rightarrow> Message" where
  "bridge_message new body dest =
     GenerateResponse new (zero_MessageConfig\<lparr>cfg_Payload := GBytes body, cfg_Destination := dest\<rparr>)"

lemma client_wf_new: "client_wf newBridgeWsClient"
  by (simp add: client_wf_def newBridgeWsClient_def)

lemma bc_Subscribe_wf:
  assumes "client_wf ws" and "bc_Subscribe new d ws = Done (ws', a)"
  shows "client_wf ws'"
proof -
  have "\<forall>(d', a')\<in>set (AList.update d (bc_nextSub ws) (bc_Subscriptions ws)).
          a' < Suc (bc_nextSub ws) \<and>
          (if a' = bc_nextSub ws then d else bcs_Destination (bc_subHeap ws a')) = d'"
    using assms(1) by (fastforce simp: client_wf_def dest!: set_update_in)
  then show ?thesis
    using assms by (auto simp: bc_Subscribe_def bc_SendFrame_def Let_def client_wf_def go_simps
        split: if_splits)
qed

lemma bcs_Unsubscribe_wf:
  "client_wf ws \<Longrightarrow> bcs_Unsubscribe a ws = Done ws' \<Longrightarrow> client_wf ws'"
  by (fastforce simp: bcs_Unsubscribe_def bc_SendFrame_def Let_def client_wf_def split: if_splits)

text \<open>The loop over the table touches exactly the subscription of the destination.\<close>

lemma deliver_message_other:
  assumes "\<And>d a. (d, a) \<in> set subs \<Longrightarrow> bcs_Destination (heap a) \<noteq> dest"
  shows "deliver_message new body dest subs heap = heap"
  using assms
proof (induction subs)
  case (Cons p subs)
  obtain d a where p: "p = (d, a)" by (cases p)
  have "bcs_Destination (heap a) \<noteq> dest" using Cons.prems[of d a] p by simp
  moreover have "deliver_message new body dest subs heap = heap"
    by (rule Cons.IH) (use Cons.prems in auto)
  ultimately show ?case by (simp add: p Let_def)
qed simp

lemma deliver_message_spec:
  assumes "keys_distinct subs"
    and "\<And>d a. (d, a) \<in> set subs \<Longrightarrow> bcs_Destination (heap a) = d"
  shows "deliver_message new body dest subs heap =
    (case map_of subs dest of
       None \<Rightarrow> heap
     | Some a \<Rightarrow> if bcs_subscribed (heap a)
                then heap(a := (heap a)\<lparr>bcs_received := bcs_received (heap a) @ [bridge_message new body dest]\<rparr>)
                else heap)"
  using assms
proof (induction subs arbitrary: heap)
  case (Cons p subs)
  obtain d a where p: "p = (d, a)" by (cases p)
  have hd: "bcs_Destination (heap a) = d" using Cons.prems(2) p by auto
  show ?case
  proof (cases "d = dest")
    case True
    let ?h = "if bcs_subscribed (heap a)
              then heap(a := (heap a)\<lparr>bcs_received := bcs_received (heap a) @ [bridge_message new body dest]\<rparr>)
              else heap"
    have "bcs_Destination (?h b) \<noteq> dest" if "(e, b) \<in> set subs" for e b
    proof -
      from that Cons.prems(1) True p have "e \<noteq> dest" by (force simp: rev_image_eqI)
      moreover from that Cons.prems(2) have "bcs_Destination (heap b) = e" by auto
      ultimately show ?thesis using hd True by auto
    qed
    then have "deliver_message new body dest subs ?h = ?h"
      by (rule deliver_message_other)
    with True p hd show ?thesis by (auto simp: Let_def fun_eq_iff simp flip: bridge_message_def split: if_splits)
  next
    case False
    with Cons p hd show ?thesis by (auto simp: Let_def)
  qed
qed simp

lemma deliver_error_block:
  assumes "(dest, a) \<in> set subs"
    and "\<And>d b. (d, b) \<in> set subs \<Longrightarrow> bcs_Destination (heap b) = d \<and> bcs_E (heap b) = None"
  shows "deliver_error new body dest subs heap = Block"
  using assms by (induction subs) (fastforce simp: Let_def)+

lemma no_error_channel_new: "no_error_channel newBridgeWsClient"
  by (simp add: no_error_channel_def newBridgeWsClient_def nil_BridgeClientSub_def)

lemma no_error_channel_Subscribe:
  "no_error_channel ws \<Longrightarrow> bc_Subscribe new d ws = Done (ws', a) \<Longrightarrow> no_error_channel ws'"
  by (auto simp: no_error_channel_def bc_Subscribe_def bc_SendFrame_def Let_def go_simps split: if_splits)

end
