(* ===== verification/BridgeLaws.thy ===== *)
theory BridgeLaws
  imports Bridge
begin

text \<open>
  What the bridge promises: delivery of broker frames to the subscriptions of the WebSocket
  client, the outcome of connecting, and how the connection's table of subscriptions behaves
  after a subscription has been cancelled.
\<close>

subsection \<open>Properties\<close>


definition ex_client :: BridgeClient where
  "ex_client = (case bc_Subscribe ''id1'' ''/topic/a'' (newBridgeWsClient\<lparr>bc_open := True\<rparr>) of
     Done (ws, _) \<Rightarrow> ws | _ \<Rightarrow> newBridgeWsClient)"

lemma ex_client_wf: "client_wf ex_client"
proof -
  have "client_wf (newBridgeWsClient\<lparr>bc_open := True\<rparr>)"
    using client_wf_new by (simp add: client_wf_def)
  moreover have "bc_Subscribe ''id1'' ''/topic/a'' (newBridgeWsClient\<lparr>bc_open := True\<rparr>) = Done (ex_client, 0)"
    by (simp add: ex_client_def bc_Subscribe_def bc_SendFrame_def newBridgeWsClient_def Let_def)
  ultimately show ?thesis by (rule bc_Subscribe_wf)
qed

lemma ex_client_simps:
  "bc_Subscriptions ex_client = [(''/topic/a'', 0)]"
  "bc_subHeap ex_client 0 = \<lparr>bcs_Id = ''id1'', bcs_Destination = ''/topic/a'', bcs_subscribed = True,
     bcs_received = [], bcs_E = None\<rparr>"
  by (simp_all add: ex_client_def bc_Subscribe_def bc_SendFrame_def newBridgeWsClient_def Let_def)


text \<open>
  An \<^verbatim>\<open>ERROR\<close> frame whose destination has a subscription stops the frame loop for good: the
  error channel of a subscription is never made, and a send on it does not return.
\<close>

theorem bridge_client_error_blocks:
  assumes "client_wf ws" and "no_error_channel ws" and "header_laws contains"
    and "d \<in> fst ` set (bc_Subscriptions ws)"
  shows "handleIncomingSTOMPFrames contains
      ((new, \<lparr>f_Command = ''ERROR'', f_Header = HNew [(''destination'', d)], f_Body = b\<rparr>) # frames) ws = Block"
proof -
  have g: "header_Get contains (HNew [(''destination'', d)]) ''destination'' = d"
    using assms(3) by (simp add: header_Get_def header_lawsD)
  obtain a where "(d, a) \<in> set (bc_Subscriptions ws)" using assms(4) by auto
  then have "deliver_error new b d (bc_Subscriptions ws) (bc_subHeap ws) = Block"
    using assms(1,2) by (intro deliver_error_block) (auto simp: client_wf_def no_error_channel_def)
  then show ?thesis by (simp add: handleIncomingSTOMPFrame_def g Let_def)
qed

theorem bridge_client_error_blocks_witness:
  "handleIncomingSTOMPFrames first_value [(''m1'', \<lparr>f_Command = ''ERROR'', f_Header = HNew [(''destination'', ''/topic/a'')],
      f_Body = ''x''\<rparr>)] ex_client = Block"
proof (rule bridge_client_error_blocks[OF ex_client_wf _ first_value_laws])
  show "no_error_channel ex_client"
    by (auto simp: no_error_channel_def ex_client_def bc_Subscribe_def bc_SendFrame_def newBridgeWsClient_def
        nil_BridgeClientSub_def Let_def)
  show "''/topic/a'' \<in> fst ` set (bc_Subscriptions ex_client)" by (simp add: ex_client_simps)
qed

text \<open>
  After a subscription over a WebSocket has been cancelled, the connection still hands out the
  cancelled subscription for its destination, and cancelling that one again panics.
\<close>

theorem resubscribe_returns_closed:
  assumes "conn_useWs c" and "conn_wsConn c" and "bc_open (conn_ws c)" and "conn_subscriptions c d = None"
    and "conn_nextSub c \<notin> conn_closed c"
  shows "\<exists>c1 c2 sub. connection_Subscribe ok new d (Some c) = Done (Some c1, Inr sub) \<and>
    subscription_Unsubscribe sub c1 = Done (c2, None) \<and>
    connection_Subscribe ok new2 d (Some c2) = Done (Some c2, Inr sub) \<and>
    sub_addr sub \<in> conn_closed c2 \<and>
    subscription_Unsubscribe sub c2 = Panic ''close of closed channel''"
  using assms
  by (auto simp: connection_Subscribe_def subscribeWs_def bc_Subscribe_def bc_SendFrame_def Let_def
      subscription_Unsubscribe_def bcs_Unsubscribe_def close_msg_channel_def)

theorem resubscribe_returns_closed_witness:
  "\<exists>c1 c2 sub. connection_Subscribe True ''i'' ''/t'' (Some (nil_connection\<lparr>conn_useWs := True, conn_wsConn := True,
      conn_ws := newBridgeWsClient\<lparr>bc_open := True\<rparr>\<rparr>)) = Done (Some c1, Inr sub) \<and>
    subscription_Unsubscribe sub c1 = Done (c2, None) \<and>
    subscription_Unsubscribe sub c2 = Panic ''close of closed channel''"
proof -
  have "\<exists>c1 c2 sub. connection_Subscribe True ''i'' ''/t'' (Some (nil_connection\<lparr>conn_useWs := True, conn_wsConn := True,
      conn_ws := newBridgeWsClient\<lparr>bc_open := True\<rparr>\<rparr>)) = Done (Some c1, Inr sub) \<and>
    subscription_Unsubscribe sub c1 = Done (c2, None) \<and>
    connection_Subscribe True ''j'' ''/t'' (Some c2) = Done (Some c2, Inr sub) \<and>
    sub_addr sub \<in> conn_closed c2 \<and>
    subscription_Unsubscribe sub c2 = Panic ''close of closed channel''"
    by (rule resubscribe_returns_closed) (simp_all add: nil_connection_def)
  then show ?thesis by blast
qed

text \<open>
  Connecting either reports an error and leaves the connector as it was, or the configuration
  has a server address, a user name and a password, the connector holds the new connection, and
  the connection accepts a subscription.
\<close>

theorem connect_outcome:
  assumes "brokerConnector_Connect tls tls_err dial_err accepted new cp bc = Done (bc', r)"
  shows "case r of
      Inl e \<Rightarrow> bc' = bc
    | Inr c \<Rightarrow> (\<exists>k. cp = Some k \<and> bcc_ServerAddr k \<noteq> '''' \<and> bcc_Username k \<noteq> '''' \<and> bcc_Password k \<noteq> '''') \<and>
        bk_connected bc' \<and> bk_c bc' = Some (conn_id c) \<and>
        (\<exists>c' sub. connection_Subscribe True new2 d (Some c) = Done (Some c', Inr sub))"
proof (cases "checkConfig tls cp")
  case (Inl e)
  with assms show ?thesis by (auto simp: brokerConnector_Connect_def)
next
  case (Inr config)
  then have valid: "\<exists>k. cp = Some k \<and> bcc_ServerAddr k \<noteq> '''' \<and> bcc_Username k \<noteq> '''' \<and> bcc_Password k \<noteq> ''''"
    by (auto simp: checkConfig_def split: option.splits if_splits)
  show ?thesis
  proof (cases "bcc_UseWS config")
    case True
    with assms Inr have "connectWs tls_err dial_err accepted new config bc = Done (bc', r)"
      by (simp add: brokerConnector_Connect_def)
    then show ?thesis
      using valid by (auto simp: connectWs_def go_simps bc_Connect_def bc_SendFrame_def Let_def
          connection_Subscribe_def subscribeWs_def bc_Subscribe_def newBridgeWsClient_def
          split: option.splits if_splits)
  next
    case False
    with assms Inr have "(bc', r) = connectTCP dial_err new config bc"
      by (simp add: brokerConnector_Connect_def)
    then show ?thesis
      using valid by (auto simp: connectTCP_def Let_def connection_Subscribe_def subscribeTCP_def split: option.splits)
  qed
qed

definition ex_config :: BrokerConnectorConfig where
  "ex_config = \<lparr>bcc_Username = ''u'', bcc_Password = ''p'', bcc_ServerAddr = ''host:61613'', bcc_UseWS = False,
     bcc_WebSocketConfig = None, bcc_HostHeader = '''', bcc_HeartBeatOut = 0, bcc_HeartBeatIn = 0, bcc_STOMPHeader = []\<rparr>"

theorem connect_outcome_witness:
  "\<exists>bc c c' sub. brokerConnector_Connect 0 None None True ''id'' (Some ex_config) NewBrokerConnector = Done (bc, Inr c) \<and>
     bk_connected bc \<and> connection_Subscribe True ''s'' ''/t'' (Some c) = Done (Some c', Inr sub)"
proof -
  have "\<exists>bc c. brokerConnector_Connect 0 None None True ''id'' (Some ex_config) NewBrokerConnector = Done (bc, Inr c)"
    by (simp add: brokerConnector_Connect_def checkConfig_def ex_config_def connectTCP_def Let_def)
  then obtain bc c where c: "brokerConnector_Connect 0 None None True ''id'' (Some ex_config) NewBrokerConnector = Done (bc, Inr c)"
    by blast
  from connect_outcome[OF c, of "''s''" "''/t''"] c show ?thesis by auto
qed

end
