(* ===== verification/Subscriptions.thy ===== *)
theory Subscriptions
  imports Prelude
begin

text \<open>
  The contract of a table of subscribers with unique ids, which the channel (handlers by UUID,
  src/bus/channel.go) and the monitor (listeners by number, src/bus/eventbus.go) both keep:
  a subscriber is added under an id that is not in use, and an id is removed with its subscriber
  and nothing else. What follows for any interleaving of additions and removals is proved here.
\<close>

datatype ('i, 'f) sub_op = AddSub 'i 'f | RemoveSub 'i

text \<open>The reference: the table as a set of pairs.\<close>

fun sub_apply :: "('i, 'f) sub_op \<Rightarrow> ('i \<times> 'f) set \<Rightarrow> ('i \<times> 'f) set" where
  "sub_apply (AddSub i f) A = insert (i, f) A"
| "sub_apply (RemoveSub i) A = {p \<in> A. fst p \<noteq> i}"

locale subscriptions =
  fixes members :: "'s \<Rightarrow> ('i \<times> 'f) set"
    and add :: "'i \<Rightarrow> 'f \<Rightarrow> 's \<Rightarrow> 's"
    and remove :: "'i \<Rightarrow> 's \<Rightarrow> 's"
    and fresh :: "'i \<Rightarrow> 's \<Rightarrow> bool"
    and inv :: "'s \<Rightarrow> bool"
  assumes inv_add: "inv s \<Longrightarrow> fresh i s \<Longrightarrow> inv (add i f s)"
    and inv_remove: "inv s \<Longrightarrow> inv (remove i s)"
    and fresh_unused: "inv s \<Longrightarrow> fresh i s \<Longrightarrow> (i, f) \<notin> members s"
    and members_add: "inv s \<Longrightarrow> fresh i s \<Longrightarrow> members (add i f s) = insert (i, f) (members s)"
    and members_remove: "inv s \<Longrightarrow> members (remove i s) = {p \<in> members s. fst p \<noteq> i}"
begin

fun apply_sub :: "('i, 'f) sub_op \<Rightarrow> 's \<Rightarrow> 's" where
  "apply_sub (AddSub i f) s = add i f s"
| "apply_sub (RemoveSub i) s = remove i s"

fun allowed :: "('i, 'f) sub_op list \<Rightarrow> 's \<Rightarrow> bool" where
  "allowed [] s = True"
| "allowed (AddSub i f # ops) s = (fresh i s \<and> allowed ops (add i f s))"
| "allowed (RemoveSub i # ops) s = allowed ops (remove i s)"

lemma add_remove:
  "inv s \<Longrightarrow> fresh i s \<Longrightarrow> members (remove i (add i f s)) = members s"
  using fresh_unused[of s i] by (auto simp: members_add members_remove inv_add)

lemma remove_twice: "inv s \<Longrightarrow> members (remove i (remove i s)) = members (remove i s)"
  by (auto simp: members_remove inv_remove)

lemma refines_sets:
  "inv s \<Longrightarrow> allowed ops s \<Longrightarrow>
     inv (fold apply_sub ops s) \<and> members (fold apply_sub ops s) = fold sub_apply ops (members s)"
proof (induction ops arbitrary: s)
  case (Cons p ops)
  show ?case
  proof (cases p)
    case (AddSub i f)
    with Cons.prems Cons.IH[of "add i f s"] show ?thesis by (auto simp: members_add inv_add)
  next
    case (RemoveSub i)
    with Cons.prems Cons.IH[of "remove i s"] show ?thesis by (auto simp: members_remove inv_remove)
  qed
qed simp

lemma unique_id:
  assumes "inv s" and "allowed ops s" and "\<And>i f g. (i, f) \<in> members s \<Longrightarrow> (i, g) \<in> members s \<Longrightarrow> f = g"
    and "(i, f) \<in> members (fold apply_sub ops s)" and "(i, g) \<in> members (fold apply_sub ops s)"
  shows "f = g"
  using assms
proof (induction ops arbitrary: s)
  case (Cons p ops)
  show ?case
  proof (cases p)
    case (AddSub j h)
    with Cons.prems have fr: "fresh j s" and inv: "inv s" by auto
    note new = fresh_unused[OF inv fr] members_add[OF inv fr]
    have u: "f = g" if "(i, f) \<in> members (add j h s)" "(i, g) \<in> members (add j h s)" for i f g
      using Cons.prems(3) that by (auto simp: new)
    show ?thesis
      using Cons.IH[of "add j h s"] Cons.prems AddSub u inv_add[OF inv fr] by simp
  next
    case (RemoveSub j)
    have "\<And>i f g. (i, f) \<in> members (remove j s) \<Longrightarrow> (i, g) \<in> members (remove j s) \<Longrightarrow> f = g"
      using Cons.prems(1,3) by (auto simp: members_remove)
    with Cons.IH[of "remove j s"] Cons.prems RemoveSub show ?thesis by (auto simp: inv_remove)
  qed
qed auto

end

end
