(* ===== verification/Monitor.thy ===== *)
theory Monitor
  imports Messages Subscriptions
begin

text \<open>
  Monitor events (src/bus/monitor\_event.go) and the monitor of the bus (\<^verbatim>\<open>transportMonitor\<close> in
  src/bus/eventbus.go). Both listener tables are ranged over when an event is sent, so they are
  association lists; sending an event yields the calls it makes.
\<close>

datatype MonitorEventType =
  ChannelCreatedEvt | ChannelDestroyedEvt | ChannelSubscriberJoinedEvt | ChannelSubscriberLeftEvt
| StoreCreatedEvt | StoreDestroyedEvt | StoreInitializedEvt
| BrokerSubscribedEvt | BrokerUnsubscribedEvt
| FabricEndpointSubscribeEvt | FabricEndpointUnsubscribeEvt

record MonitorEvent =
  me_EventType :: MonitorEventType
  me_EntityName :: string
  me_Data :: "Message option"

definition NewMonitorEvent :: "MonitorEventType \<Rightarrow> string \<Rightarrow> Message option \<Rightarrow> MonitorEvent" where
  "NewMonitorEvent evtType entityName data =
     \<lparr>me_EventType = evtType, me_EntityName = entityName, me_Data = data\<rparr>"

text \<open>An invocation of a callback: with a message, an error, or a monitor event.\<close>

datatype call = MsgCall closure Message | ErrCall closure "error option" | MonCall closure MonitorEvent

type_synonym listeners = "(nat \<times> closure) list"

record transportMonitor =
  tm_listenersByType :: "(MonitorEventType \<times> listeners) list"
  tm_listenersForAllEvents :: listeners
  tm_subId :: nat

definition newMonitor :: transportMonitor where
  "newMonitor = \<lparr>tm_listenersByType = [], tm_listenersForAllEvents = [], tm_subId = 0\<rparr>"

definition listeners_of :: "transportMonitor \<Rightarrow> MonitorEventType \<Rightarrow> listeners" where
  "listeners_of m t = (case map_of (tm_listenersByType m) t of None \<Rightarrow> [] | Some ls \<Rightarrow> ls)"

fun add_to_types ::
  "nat \<Rightarrow> closure \<Rightarrow> MonitorEventType list \<Rightarrow> transportMonitor \<Rightarrow> transportMonitor" where
  "add_to_types i l [] m = m"
| "add_to_types i l (t # ts) m =
     add_to_types i l ts (m\<lparr>tm_listenersByType :=
       AList.update t (AList.update i l (listeners_of m t)) (tm_listenersByType m)\<rparr>)"

definition addListener ::
  "closure \<Rightarrow> MonitorEventType list \<Rightarrow> transportMonitor \<Rightarrow> transportMonitor \<times> nat" where
  "addListener listener eventTypes m =
     (let i = Suc (tm_subId m);
          m1 = m\<lparr>tm_subId := i\<rparr>
      in (if eventTypes = []
          then m1\<lparr>tm_listenersForAllEvents := AList.update i listener (tm_listenersForAllEvents m1)\<rparr>
          else add_to_types i listener eventTypes m1, i))"

definition removeListener :: "nat \<Rightarrow> transportMonitor \<Rightarrow> transportMonitor" where
  "removeListener listenerId m =
     m\<lparr>tm_listenersForAllEvents := AList.delete listenerId (tm_listenersForAllEvents m),
       tm_listenersByType :=
         map (\<lambda>(t, ls). (t, AList.delete listenerId ls)) (tm_listenersByType m)\<rparr>"

definition sendEvent :: "MonitorEvent \<Rightarrow> transportMonitor \<Rightarrow> call list" where
  "sendEvent event m =
     map (\<lambda>(_, l). MonCall l event) (tm_listenersForAllEvents m)
     @ map (\<lambda>(_, l). MonCall l event) (listeners_of m (me_EventType event))"

text \<open>
  The invariant of the tables: keys are distinct and no id is above the counter, so a new id is
  never in use.
\<close>

definition listeners_wf :: "nat \<Rightarrow> listeners \<Rightarrow> bool" where
  "listeners_wf n ls \<longleftrightarrow> keys_distinct ls \<and> (\<forall>i\<in>fst ` set ls. i \<le> n)"

definition monitor_wf :: "transportMonitor \<Rightarrow> bool" where
  "monitor_wf m \<longleftrightarrow> listeners_wf (tm_subId m) (tm_listenersForAllEvents m) \<and>
     keys_distinct (tm_listenersByType m) \<and>
     (\<forall>(t, ls)\<in>set (tm_listenersByType m). listeners_wf (tm_subId m) ls)"

text \<open>The listeners that an event of type \<open>t\<close> reaches, as a set of ids with their closures.\<close>

definition reached :: "transportMonitor \<Rightarrow> MonitorEventType \<Rightarrow> (nat \<times> closure) set" where
  "reached m t = set (tm_listenersForAllEvents m) \<union> set (listeners_of m t)"

lemma listeners_wf_mono: "listeners_wf n ls \<Longrightarrow> n \<le> k \<Longrightarrow> listeners_wf k ls"
  by (auto simp: listeners_wf_def)

lemma listeners_wf_update:
  "listeners_wf n ls \<Longrightarrow> i \<le> n \<Longrightarrow> listeners_wf n (AList.update i l ls)"
  by (auto simp: listeners_wf_def dom_update)

lemma listeners_wf_delete: "listeners_wf n ls \<Longrightarrow> listeners_wf n (AList.delete i ls)"
  by (auto simp: listeners_wf_def)

lemma listeners_of_wf: "monitor_wf m \<Longrightarrow> listeners_wf (tm_subId m) (listeners_of m t)"
  unfolding monitor_wf_def listeners_of_def
  by (auto simp: listeners_wf_def[of _ "[]"] split: option.splits dest!: map_of_SomeD)

lemma add_to_types_subId [simp]: "tm_subId (add_to_types i l ts m) = tm_subId m"
  by (induction ts arbitrary: m) auto

lemma add_to_types_all [simp]:
  "tm_listenersForAllEvents (add_to_types i l ts m) = tm_listenersForAllEvents m"
  by (induction ts arbitrary: m) auto

lemma add_to_types_wf:
  assumes "monitor_wf m" and "i \<le> tm_subId m"
  shows "monitor_wf (add_to_types i l ts m)"
  using assms
proof (induction ts arbitrary: m)
  case (Cons t ts)
  have w: "listeners_wf (tm_subId m) (AList.update i l (listeners_of m t))"
    using Cons.prems by (intro listeners_wf_update listeners_of_wf)
  have "monitor_wf (m\<lparr>tm_listenersByType :=
       AList.update t (AList.update i l (listeners_of m t)) (tm_listenersByType m)\<rparr>)"
    using Cons.prems w by (auto simp: monitor_wf_def dest!: set_update_in)
  from Cons.IH[OF this] Cons.prems(2) show ?case by simp
qed simp

lemma listeners_of_add_to_types:
  "map_of (listeners_of (add_to_types i l ts m) t) =
     (if t \<in> set ts then (map_of (listeners_of m t))(i \<mapsto> l) else map_of (listeners_of m t))"
proof (induction ts arbitrary: m)
  case (Cons u ts)
  have "listeners_of (m\<lparr>tm_listenersByType :=
       AList.update u (AList.update i l (listeners_of m u)) (tm_listenersByType m)\<rparr>) t =
      (if t = u then AList.update i l (listeners_of m u) else listeners_of m t)"
    by (simp add: listeners_of_def)
  then show ?case using Cons.IH by auto
qed simp

lemma addListener_wf: "monitor_wf m \<Longrightarrow> monitor_wf (fst (addListener l ts m))"
proof -
  assume wf: "monitor_wf m"
  then have wf1: "monitor_wf (m\<lparr>tm_subId := Suc (tm_subId m)\<rparr>)"
    by (auto simp: monitor_wf_def intro: listeners_wf_mono)
  then show ?thesis
    using listeners_wf_update[of "Suc (tm_subId m)" "tm_listenersForAllEvents m" "Suc (tm_subId m)" l]
      add_to_types_wf[OF wf1, of "Suc (tm_subId m)" l ts]
    by (auto simp: addListener_def Let_def monitor_wf_def)
qed

lemma removeListener_wf: "monitor_wf m \<Longrightarrow> monitor_wf (removeListener i m)"
  by (auto simp: monitor_wf_def removeListener_def listeners_wf_delete o_def case_prod_beta)

lemma newMonitor_wf: "monitor_wf newMonitor"
  by (simp add: monitor_wf_def newMonitor_def listeners_wf_def)

lemma reached_fresh:
  assumes "monitor_wf m" and "(i, l) \<in> reached m t"
  shows "i \<le> tm_subId m"
proof -
  from listeners_of_wf[OF assms(1), of t] assms show ?thesis
    by (auto simp: reached_def monitor_wf_def listeners_wf_def rev_image_eqI)
qed

lemma listeners_of_remove: "listeners_of (removeListener i m) t = AList.delete i (listeners_of m t)"
  by (simp add: listeners_of_def removeListener_def map_of_map_snd split: option.split)

lemma reached_add:
  assumes "monitor_wf m" and "addListener l ts m = (m', i)"
  shows "reached m' t = (if ts = [] \<or> t \<in> set ts then insert (i, l) (reached m t) else reached m t)"
proof -
  let ?m1 = "m\<lparr>tm_subId := Suc (tm_subId m)\<rparr>"
  from assms(2) have i: "i = Suc (tm_subId m)" by (simp add: addListener_def Let_def)
  have fresh: "(i, l') \<notin> reached m s" for l' s
    using reached_fresh[OF assms(1), of i l' s] i by auto
  have of1: "listeners_of ?m1 s = listeners_of m s" for s by (simp add: listeners_of_def)
  show ?thesis
  proof (cases "ts = []")
    case True
    have "i \<notin> fst ` set (tm_listenersForAllEvents m)"
      using fresh by (auto simp: reached_def)
    with True assms(2) i show ?thesis
      by (auto simp: addListener_def Let_def reached_def update_fresh listeners_of_def)
  next
    case False
    then have m': "m' = add_to_types i l ts ?m1"
      using assms(2) i by (auto simp: addListener_def Let_def)
    have "monitor_wf m'" using addListener_wf[OF assms(1), of l ts] assms(2) by simp
    then have kd: "keys_distinct (listeners_of m' t)" "keys_distinct (listeners_of m t)"
      using assms(1) listeners_of_wf by (auto simp: listeners_wf_def)
    have none: "map_of (listeners_of m t) i = None"
      using fresh kd(2) by (cases "map_of (listeners_of m t) i") (auto simp: reached_def)
    have "set (listeners_of m' t) = Map.graph (map_of (listeners_of m' t))"
      by (rule graph_map_of_if_distinct_dom[OF kd(1), symmetric])
    also have "\<dots> = (if t \<in> set ts then insert (i, l) (Map.graph (map_of (listeners_of m t)))
        else Map.graph (map_of (listeners_of m t)))"
      unfolding m' listeners_of_add_to_types of1
      using none by (simp add: graph_map_upd fun_upd_idem)
    finally have "set (listeners_of m' t) =
        (if t \<in> set ts then insert (i, l) (set (listeners_of m t)) else set (listeners_of m t))"
      unfolding graph_map_of_if_distinct_dom[OF kd(2)] .
    with False m' show ?thesis by (auto simp: reached_def)
  qed
qed

lemma reached_remove: "reached (removeListener i m) t = {p \<in> reached m t. fst p \<noteq> i}"
  unfolding reached_def listeners_of_remove by (auto simp: removeListener_def)

lemma sendEvent_calls:
  "set (sendEvent e m) = (\<lambda>(_, l). MonCall l e) ` reached m (me_EventType e)"
  by (auto simp: sendEvent_def reached_def)

subsection \<open>The listener tables as subscriptions\<close>

interpretation mon_subs: subscriptions "\<lambda>m. reached m t" "\<lambda>i l m. fst (addListener l [t] m)"
  removeListener "\<lambda>i m. i = Suc (tm_subId m)" monitor_wf for t
proof (unfold_locales, goal_cases)
  case (1 s i f)
  then show ?case by (rule_tac addListener_wf)
next
  case (2 s i)
  then show ?case by (rule removeListener_wf)
next
  case (3 s i f)
  then show ?case using reached_fresh[of s i f t] by auto
next
  case (4 s i f)
  obtain m' where m': "addListener f [t] s = (m', i)"
    using 4 by (simp add: addListener_def Let_def)
  from reached_add[OF 4(1) m', of t] m' show ?case by simp
next
  case (5 s i)
  show ?case by (rule reached_remove)
qed

text \<open>
  After a listener is added for some event types (for all, when none is named), an event makes
  the calls it made before and, when its type is among them, one to the new listener; removing
  the listener by its id gives back the listeners of before, for every event type.
\<close>

theorem monitor_listener_lifecycle:
  assumes "monitor_wf m" and "addListener l ts m = (m', i)"
  shows "monitor_wf m' \<and>
    set (sendEvent e m') = set (sendEvent e m) \<union>
      (if ts = [] \<or> me_EventType e \<in> set ts then {MonCall l e} else {}) \<and>
    reached (removeListener i m') t = reached m t"
proof -
  have "monitor_wf m'" using addListener_wf[OF assms(1), of l ts] assms(2) by simp
  moreover have "i = Suc (tm_subId m)" using assms(2) by (simp add: addListener_def Let_def)
  then have "\<forall>p\<in>reached m t. fst p \<noteq> i" using reached_fresh[OF assms(1)] by fastforce
  then have "reached (removeListener i m') t = reached m t"
    unfolding reached_remove reached_add[OF assms] by auto
  ultimately show ?thesis by (simp add: sendEvent_calls reached_add[OF assms])
qed

theorem monitor_listener_lifecycle_witness:
  "reached (removeListener 1 (fst (addListener (UserFn 0) [StoreCreatedEvt] newMonitor))) StoreCreatedEvt = {}"
proof -
  let ?m = "fst (addListener (UserFn 0) [StoreCreatedEvt] newMonitor)"
  have "addListener (UserFn 0) [StoreCreatedEvt] newMonitor = (?m, 1)"
    by (simp add: addListener_def newMonitor_def Let_def)
  from monitor_listener_lifecycle[OF newMonitor_wf this]
  have "reached (removeListener 1 ?m) StoreCreatedEvt = reached newMonitor StoreCreatedEvt" by blast
  then show ?thesis by (simp add: reached_def newMonitor_def listeners_of_def)
qed

end
