(* ===== verification/Channel.thy ===== *)
theory Channel
  imports Bridge Monitor Subscriptions
begin

text \<open>
  A channel of the bus (src/bus/channel.go, channel\_event\_handler.go): the subscribed handlers,
  the galactic mapping and the broker subscriptions. The goroutines that \<^verbatim>\<open>Send\<close> starts are the
  list \<open>ch_inflight\<close>, those whose callback has been called and has not returned \<open>ch_running\<close>;
  the run counters of the handlers, which a running goroutine and the
  handler slice share by pointer, are a function of the handler's address. The backing array
  that the loop of \<^verbatim>\<open>removeBrokerSubscription\<close> ranges over while it is changed is explicit.
\<close>

subsection \<open>State\<close>

record channelEventHandler =
  h_addr :: addr
  h_callBackFunction :: closure
  h_runOnce :: bool
  h_uuid :: uuid

record connectionSub =
  cs_c :: "addr option"
  cs_s :: "Subscription option"

record Channel =
  ch_Name :: string
  ch_eventHandlers :: "channelEventHandler list"
  ch_galactic :: bool
  ch_galacticMappedDestination :: string
  ch_private :: bool
  ch_wg :: nat
  ch_brokerSubs :: "connectionSub list"
  ch_brokerConns :: "addr list"
  ch_brokerMappedEvent :: "bool list"
  ch_runCount :: "addr \<Rightarrow> nat"
  ch_nextHandler :: addr
  ch_inflight :: "(channelEventHandler \<times> Message) list"
  ch_running :: "(channelEventHandler \<times> bool) list"

definition NewChannel :: "string \<Rightarrow> Channel" where
  "NewChannel channelName = \<lparr>ch_Name = channelName, ch_eventHandlers = [], ch_galactic = False,
     ch_galacticMappedDestination = '''', ch_private = False, ch_wg = 0, ch_brokerSubs = [],
     ch_brokerConns = [], ch_brokerMappedEvent = [], ch_runCount = (\<lambda>_. 0), ch_nextHandler = 0,
     ch_inflight = [], ch_running = []\<rparr>"

subsection \<open>Flags\<close>

definition SetPrivate :: "bool \<Rightarrow> Channel \<Rightarrow> Channel" where
  "SetPrivate private channel = channel\<lparr>ch_private := private\<rparr>"

definition SetGalactic :: "string \<Rightarrow> Channel \<Rightarrow> Channel" where
  "SetGalactic mappedDestination channel =
     channel\<lparr>ch_galactic := True, ch_galacticMappedDestination := mappedDestination\<rparr>"

definition SetLocal :: "Channel \<Rightarrow> Channel" where
  "SetLocal channel = channel\<lparr>ch_galactic := False, ch_galacticMappedDestination := ''''\<rparr>"

definition IsGalactic :: "Channel \<Rightarrow> bool" where
  "IsGalactic channel = ch_galactic channel"

definition IsPrivate :: "Channel \<Rightarrow> bool" where
  "IsPrivate channel = ch_private channel"

definition ContainsHandlers :: "Channel \<Rightarrow> bool" where
  "ContainsHandlers channel \<longleftrightarrow> length (ch_eventHandlers channel) > 0"

subsection \<open>Handlers and delivery\<close>

definition removeEventHandler :: "nat \<Rightarrow> Channel \<Rightarrow> Channel" where
  "removeEventHandler index channel =
     (let numHandlers = length (ch_eventHandlers channel) in
      if numHandlers = 0 then channel
      else if index \<ge> numHandlers then channel
      else channel\<lparr>ch_eventHandlers := remove_at index (ch_eventHandlers channel)\<rparr>)"

text \<open>\<open>n\<close> is the loop index, the list the rest of the duplicated handler slice.\<close>

fun send_loop :: "Message \<Rightarrow> nat \<Rightarrow> channelEventHandler list \<Rightarrow> Channel \<Rightarrow> Channel" where
  "send_loop message n [] channel = channel"
| "send_loop message n (eventHandler # rest) channel =
     (if h_runOnce eventHandler \<and> ch_runCount channel (h_addr eventHandler) > 0
      then send_loop message (Suc n) rest (removeEventHandler n channel)
      else send_loop message (Suc n) rest
             (channel\<lparr>ch_wg := Suc (ch_wg channel),
                      ch_inflight := ch_inflight channel @ [(eventHandler, message)]\<rparr>))"

definition Channel_Send :: "Message \<Rightarrow> Channel \<Rightarrow> Channel" where
  "Channel_Send message channel =
     (let eventHandlers = ch_eventHandlers channel in
      if length eventHandlers > 0 then send_loop message 0 eventHandlers channel else channel)"

text \<open>
  \<^verbatim>\<open>sendMessageToHandler\<close>, the body of the goroutine, in the two parts that other goroutines can
  run between: it calls the callback (the call itself is made by the bus, which knows the
  closures; the flag is what the callback still owes, see EventBus), and, once that has
  returned, it counts the run and leaves the wait group.
\<close>

definition startHandler :: "nat \<Rightarrow> bool \<Rightarrow> Channel \<Rightarrow> Channel" where
  "startHandler i owes channel =
     channel\<lparr>ch_inflight := remove_at i (ch_inflight channel),
             ch_running := ch_running channel @ [(fst (ch_inflight channel ! i), owes)]\<rparr>"

definition finishHandler :: "nat \<Rightarrow> Channel \<Rightarrow> Channel" where
  "finishHandler j channel =
     (let handler = fst (ch_running channel ! j) in
      channel\<lparr>ch_runCount := (ch_runCount channel)(h_addr handler := Suc (ch_runCount channel (h_addr handler))),
              ch_wg := ch_wg channel - 1,
              ch_running := remove_at j (ch_running channel)\<rparr>)"

definition subscribeHandler :: "closure \<Rightarrow> bool \<Rightarrow> uuid \<Rightarrow> Channel \<Rightarrow> Channel" where
  "subscribeHandler fn runOnce uid channel =
     channel\<lparr>ch_eventHandlers := ch_eventHandlers channel @
               [\<lparr>h_addr = ch_nextHandler channel, h_callBackFunction = fn, h_runOnce = runOnce, h_uuid = uid\<rparr>],
             ch_nextHandler := Suc (ch_nextHandler channel)\<rparr>"

definition unsubscribeHandler :: "uuid option \<Rightarrow> Channel \<Rightarrow> (Channel \<times> bool) go" where
  "unsubscribeHandler idp channel =
     (case idp of
        None \<Rightarrow> if ch_eventHandlers channel = [] then Done (channel, False)
                else Panic ''nil pointer dereference''
      | Some uid \<Rightarrow>
          (case find_index (\<lambda>handler. h_uuid handler = uid) (ch_eventHandlers channel) of
             None \<Rightarrow> Done (channel, False)
           | Some i \<Rightarrow> Done (removeEventHandler i channel, True)))"

subsection \<open>Broker subscriptions\<close>

fun isBrokerSubscribed_loop :: "uuid \<Rightarrow> connectionSub list \<Rightarrow> bool go" where
  "isBrokerSubscribed_loop sid [] = Done False"
| "isBrokerSubscribed_loop sid (cs # rest) =
     (case cs_s cs of
        None \<Rightarrow> Panic ''nil pointer dereference''
      | Some s \<Rightarrow> if sid = sub_id s then Done True else isBrokerSubscribed_loop sid rest)"

definition isBrokerSubscribed :: "Subscription \<Rightarrow> Channel \<Rightarrow> bool go" where
  "isBrokerSubscribed sub channel = isBrokerSubscribed_loop (sub_id sub) (ch_brokerSubs channel)"

text \<open>The ids of connections are compared as pointers, so as the connections' addresses.\<close>

definition isBrokerSubscribedToDestination :: "addr \<Rightarrow> string \<Rightarrow> Channel \<Rightarrow> bool" where
  "isBrokerSubscribedToDestination c dest channel =
     list_ex (\<lambda>cs. case cs_s cs of
                None \<Rightarrow> False
              | Some s \<Rightarrow> sub_destination s = dest \<and> cs_c cs = Some c) (ch_brokerSubs channel)"

definition addBrokerConnection :: "addr \<Rightarrow> Channel \<Rightarrow> Channel" where
  "addBrokerConnection c channel =
     (if list_ex (\<lambda>brCon. brCon = c) (ch_brokerConns channel) then channel
      else channel\<lparr>ch_brokerConns := ch_brokerConns channel @ [c]\<rparr>)"

definition removeBrokerConnections :: "Channel \<Rightarrow> Channel" where
  "removeBrokerConnections channel = channel\<lparr>ch_brokerConns := []\<rparr>"

definition addBrokerSubscription :: "addr \<Rightarrow> Subscription \<Rightarrow> Channel \<Rightarrow> Channel" where
  "addBrokerSubscription conn sub channel =
     channel\<lparr>ch_brokerSubs := ch_brokerSubs channel @ [\<lparr>cs_c = Some conn, cs_s = Some sub\<rparr>]\<rparr>"

text \<open>
  \<open>removeSub s i\<close> on the slice of length \<open>len\<close> over the array \<open>arr\<close>: swap position \<open>i\<close> with the
  last one and shorten the slice. An index that is not below the length panics.
\<close>

definition removeSub :: "connectionSub list \<Rightarrow> nat \<Rightarrow> nat \<Rightarrow> (connectionSub list \<times> nat) go" where
  "removeSub arr len i =
     (if len = 0 \<or> len \<le> i then Panic ''index out of range''
      else Done (arr[len - 1 := arr ! i, i := arr ! (len - 1)], len - 1))"

text \<open>
  The loop ranges over the slice as it was at the start (\<open>k\<close> elements are left, the next is
  position \<open>i\<close>) and reads each element from the array when it comes to it, while the body
  replaces the channel's slice, now of length \<open>len\<close>, over the same array.
\<close>

fun removeBrokerSubscription_loop ::
  "uuid \<Rightarrow> nat \<Rightarrow> nat \<Rightarrow> connectionSub list \<Rightarrow> nat \<Rightarrow> (connectionSub list \<times> nat) go" where
  "removeBrokerSubscription_loop sid i 0 arr len = Done (arr, len)"
| "removeBrokerSubscription_loop sid i (Suc k) arr len =
     (case cs_s (arr ! i) of
        None \<Rightarrow> Panic ''nil pointer dereference''
      | Some s \<Rightarrow>
          if sid = sub_id s
          then go_bind (removeSub arr len i)
                 (\<lambda>(arr', len'). removeBrokerSubscription_loop sid (Suc i) k arr' len')
          else removeBrokerSubscription_loop sid (Suc i) k arr len)"

definition removeBrokerSubscription_arr ::
  "uuid \<Rightarrow> connectionSub list \<Rightarrow> nat \<Rightarrow> (connectionSub list \<times> nat) go" where
  "removeBrokerSubscription_arr sid arr len = removeBrokerSubscription_loop sid 0 len arr len"

definition removeBrokerSubscription :: "Subscription \<Rightarrow> Channel \<Rightarrow> Channel go" where
  "removeBrokerSubscription sub channel =
     go_map (\<lambda>(arr, len). channel\<lparr>ch_brokerSubs := take len arr\<rparr>)
       (removeBrokerSubscription_arr (sub_id sub) (ch_brokerSubs channel) (length (ch_brokerSubs channel)))"

text \<open>\<^verbatim>\<open>listenToBrokerSubscription\<close> sends every message the subscription delivers until it is closed.\<close>

fun listenToBrokerSubscription :: "Message list \<Rightarrow> Channel \<Rightarrow> Channel" where
  "listenToBrokerSubscription [] channel = channel"
| "listenToBrokerSubscription (msg # msgs) channel =
     listenToBrokerSubscription msgs (Channel_Send msg channel)"

subsection \<open>Invariant and specification\<close>

text \<open>
  The wait group counts the goroutines, handlers have distinct addresses below the next one and
  distinct ids.
\<close>

definition channel_wf :: "Channel \<Rightarrow> bool" where
  "channel_wf ch \<longleftrightarrow> ch_wg ch = length (ch_inflight ch) + length (ch_running ch) \<and>
     distinct (map h_addr (ch_eventHandlers ch)) \<and>
     (\<forall>h\<in>set (ch_eventHandlers ch). h_addr h < ch_nextHandler ch) \<and>
     distinct (map h_uuid (ch_eventHandlers ch))"

text \<open>A handler is spent when it is a run-once handler that has run.\<close>

definition spent :: "Channel \<Rightarrow> channelEventHandler \<Rightarrow> bool" where
  "spent ch h \<longleftrightarrow> h_runOnce h \<and> ch_runCount ch (h_addr h) > 0"

lemma removeEventHandler_simps [simp]:
  "ch_runCount (removeEventHandler n ch) = ch_runCount ch"
  "ch_inflight (removeEventHandler n ch) = ch_inflight ch"
  "ch_running (removeEventHandler n ch) = ch_running ch"
  "ch_brokerConns (removeEventHandler n ch) = ch_brokerConns ch"
  "ch_wg (removeEventHandler n ch) = ch_wg ch"
  "ch_Name (removeEventHandler n ch) = ch_Name ch"
  "ch_nextHandler (removeEventHandler n ch) = ch_nextHandler ch"
  "ch_brokerSubs (removeEventHandler n ch) = ch_brokerSubs ch"
  by (simp_all add: removeEventHandler_def Let_def)

lemma removeEventHandler_handlers:
  "ch_eventHandlers (removeEventHandler n ch) = remove_at n (ch_eventHandlers ch)"
  by (auto simp: removeEventHandler_def Let_def remove_at_def)

lemma send_loop_inflight:
  "ch_inflight (send_loop m n hs ch) =
     ch_inflight ch @ map (\<lambda>h. (h, m)) (filter (\<lambda>h. \<not> spent ch h) hs)"
proof (induction m n hs ch rule: send_loop.induct)
  case (2 m n h rest ch)
  have eq: "spent (removeEventHandler n ch) = spent ch"
    "spent (ch\<lparr>ch_wg := w, ch_inflight := q\<rparr>) = spent ch" for w q
    by (simp_all add: spent_def fun_eq_iff)
  from 2 show ?case by (auto simp: eq spent_def[of ch h])
qed simp

lemma send_loop_wg:
  "ch_wg (send_loop m n hs ch) = ch_wg ch + length (filter (\<lambda>h. \<not> spent ch h) hs)"
proof (induction m n hs ch rule: send_loop.induct)
  case (2 m n h rest ch)
  have eq: "spent (removeEventHandler n ch) = spent ch"
    "spent (ch\<lparr>ch_wg := w, ch_inflight := q\<rparr>) = spent ch" for w q
    by (simp_all add: spent_def fun_eq_iff)
  from 2 show ?case by (auto simp: eq spent_def[of ch h])
qed simp

lemma send_loop_frame [simp]:
  "ch_runCount (send_loop m n hs ch) = ch_runCount ch"
  "ch_nextHandler (send_loop m n hs ch) = ch_nextHandler ch"
  "ch_Name (send_loop m n hs ch) = ch_Name ch"
  "ch_brokerSubs (send_loop m n hs ch) = ch_brokerSubs ch"
  "ch_running (send_loop m n hs ch) = ch_running ch"
  by (induction m n hs ch rule: send_loop.induct) auto

lemma send_loop_live:
  "(\<And>h. h \<in> set hs \<Longrightarrow> \<not> spent ch h) \<Longrightarrow>
     ch_eventHandlers (send_loop m n hs ch) = ch_eventHandlers ch"
proof (induction m n hs ch rule: send_loop.induct)
  case (2 m n h rest ch)
  then show ?case by (auto simp: spent_def)
qed simp

lemma send_loop_handlers_subset:
  "\<exists>P. ch_eventHandlers (send_loop m n hs ch) = nths (ch_eventHandlers ch) P"
proof (induction m n hs ch rule: send_loop.induct)
  case (1 m n ch)
  show ?case by (rule exI[of _ UNIV]) (simp add: nths_all)
next
  case (2 m n h rest ch)
  have tr: "\<exists>P. nths (nths xs A) B = nths xs P" for xs :: "channelEventHandler list" and A B
    by (metis nths_nths)
  show ?case
  proof (cases "h_runOnce h \<and> ch_runCount ch (h_addr h) > 0")
    case True
    with "2.IH"(1) obtain P where
      "ch_eventHandlers (send_loop m (Suc n) rest (removeEventHandler n ch)) =
         nths (remove_at n (ch_eventHandlers ch)) P"
      by (auto simp: removeEventHandler_handlers)
    with True remove_at_nths[of n "ch_eventHandlers ch"] tr show ?thesis by auto
  next
    case False
    with "2.IH"(2) show ?thesis by auto
  qed
qed

text \<open>With at most one spent handler, that handler is what the loop removes.\<close>

lemma send_loop_one_spent:
  assumes "ch_eventHandlers ch = pre @ hs" and "length pre = n"
    and "length (filter (spent ch) hs) \<le> 1"
  shows "ch_eventHandlers (send_loop m n hs ch) = pre @ filter (\<lambda>h. \<not> spent ch h) hs"
  using assms
proof (induction hs arbitrary: pre n ch)
  case (Cons h rest)
  show ?case
  proof (cases "spent ch h")
    case True
    with Cons.prems(3) have none: "filter (spent ch) rest = []" by simp
    have eq: "spent (removeEventHandler n ch) = spent ch" by (simp add: spent_def fun_eq_iff)
    have "ch_eventHandlers (send_loop m (Suc n) rest (removeEventHandler n ch)) =
        ch_eventHandlers (removeEventHandler n ch)"
      using none by (intro send_loop_live) (auto simp: eq filter_empty_conv)
    also have "\<dots> = pre @ rest"
      using Cons.prems by (simp add: removeEventHandler_handlers remove_at_append[of pre h rest, simplified] remove_at_def)
    finally show ?thesis
      using True none by (auto simp: spent_def filter_empty_conv filter_id_conv)
  next
    case False
    let ?ch = "ch\<lparr>ch_wg := Suc (ch_wg ch), ch_inflight := ch_inflight ch @ [(h, m)]\<rparr>"
    have eq: "spent ?ch = spent ch" by (simp add: spent_def fun_eq_iff)
    have "ch_eventHandlers (send_loop m (Suc n) rest ?ch) = (pre @ [h]) @ filter (\<lambda>h. \<not> spent ?ch h) rest"
      by (rule Cons.IH) (use Cons.prems False in \<open>auto simp: eq\<close>)
    with False show ?thesis by (auto simp: spent_def eq)
  qed
qed simp

lemma Channel_Send_simps:
  "ch_inflight (Channel_Send m ch) =
     ch_inflight ch @ map (\<lambda>h. (h, m)) (filter (\<lambda>h. \<not> spent ch h) (ch_eventHandlers ch))"
  "ch_wg (Channel_Send m ch) = ch_wg ch + length (filter (\<lambda>h. \<not> spent ch h) (ch_eventHandlers ch))"
  "ch_runCount (Channel_Send m ch) = ch_runCount ch"
  "ch_nextHandler (Channel_Send m ch) = ch_nextHandler ch"
  "ch_Name (Channel_Send m ch) = ch_Name ch"
  "ch_brokerSubs (Channel_Send m ch) = ch_brokerSubs ch"
  "ch_running (Channel_Send m ch) = ch_running ch"
  by (auto simp: Channel_Send_def Let_def send_loop_inflight send_loop_wg)

lemma Channel_Send_nths:
  obtains P where "ch_eventHandlers (Channel_Send m ch) = nths (ch_eventHandlers ch) P"
proof (cases "ch_eventHandlers ch = []")
  case True
  then have "ch_eventHandlers (Channel_Send m ch) = nths (ch_eventHandlers ch) UNIV"
    by (simp add: Channel_Send_def)
  then show ?thesis by (rule that)
next
  case False
  with send_loop_handlers_subset[of m 0 "ch_eventHandlers ch" ch] that show ?thesis
    by (auto simp: Channel_Send_def Let_def)
qed

lemma Channel_Send_handlers_live:
  "(\<And>h. h \<in> set (ch_eventHandlers ch) \<Longrightarrow> \<not> spent ch h) \<Longrightarrow>
     ch_eventHandlers (Channel_Send m ch) = ch_eventHandlers ch"
  by (simp add: Channel_Send_def Let_def send_loop_live)

lemma channel_wf_new: "channel_wf (NewChannel n)"
  by (simp add: channel_wf_def NewChannel_def)

lemma channel_wf_send: "channel_wf ch \<Longrightarrow> channel_wf (Channel_Send m ch)"
proof -
  assume wf: "channel_wf ch"
  obtain P where "ch_eventHandlers (Channel_Send m ch) = nths (ch_eventHandlers ch) P"
    by (rule Channel_Send_nths)
  with wf show ?thesis
    by (auto simp: channel_wf_def Channel_Send_simps nths_map_distinct dest!: in_set_nthsD)
qed

lemma channel_wf_subscribe:
  "channel_wf ch \<Longrightarrow> uid \<notin> h_uuid ` set (ch_eventHandlers ch) \<Longrightarrow> channel_wf (subscribeHandler fn once uid ch)"
  by (auto simp: channel_wf_def subscribeHandler_def less_Suc_eq)

lemma channel_wf_unsubscribe:
  "channel_wf ch \<Longrightarrow> unsubscribeHandler idp ch = Done (ch', b) \<Longrightarrow> channel_wf ch'"
proof -
  assume wf: "channel_wf ch" and u: "unsubscribeHandler idp ch = Done (ch', b)"
  show ?thesis
    using wf u set_remove_at_subset[of _ "ch_eventHandlers ch"]
    by (fastforce simp: channel_wf_def unsubscribeHandler_def removeEventHandler_handlers remove_at_map_distinct
        split: option.splits if_splits)
qed

lemma channel_wf_start:
  "channel_wf ch \<Longrightarrow> i < length (ch_inflight ch) \<Longrightarrow> channel_wf (startHandler i owes ch)"
  by (auto simp: channel_wf_def startHandler_def slice_simps)

lemma channel_wf_finish:
  "channel_wf ch \<Longrightarrow> j < length (ch_running ch) \<Longrightarrow> channel_wf (finishHandler j ch)"
  by (auto simp: channel_wf_def finishHandler_def slice_simps Let_def)

subsection \<open>The loop of removeBrokerSubscription\<close>

definition has_sub_id :: "uuid \<Rightarrow> connectionSub \<Rightarrow> bool" where
  "has_sub_id sid cs \<longleftrightarrow> (case cs_s cs of None \<Rightarrow> False | Some s \<Rightarrow> sub_id s = sid)"

lemma removeBrokerSubscription_skip:
  assumes "\<And>j. i \<le> j \<Longrightarrow> j < i + d \<Longrightarrow> cs_s (arr ! j) \<noteq> None \<and> \<not> has_sub_id sid (arr ! j)"
  shows "removeBrokerSubscription_loop sid i (d + k) arr len =
    removeBrokerSubscription_loop sid (i + d) k arr len"
  using assms
proof (induction d arbitrary: i)
  case (Suc d)
  from Suc.prems[of i] obtain s where "cs_s (arr ! i) = Some s" "sub_id s \<noteq> sid"
    by (auto simp: has_sub_id_def)
  with Suc.IH[of "Suc i"] Suc.prems show ?case by simp
qed simp

lemma removeBrokerSubscription_absent:
  assumes "\<forall>cs\<in>set (ch_brokerSubs ch). cs_s cs \<noteq> None \<and> \<not> has_sub_id (sub_id sub) cs"
  shows "removeBrokerSubscription sub ch = Done ch"
  using assms removeBrokerSubscription_skip[of 0 "length (ch_brokerSubs ch)" "ch_brokerSubs ch" "sub_id sub" 0]
  by (simp add: removeBrokerSubscription_def removeBrokerSubscription_arr_def)

lemma removeBrokerSubscription_at:
  assumes "j < length arr" and "has_sub_id sid (arr ! j)"
    and "\<And>i. i < length arr \<Longrightarrow> i \<noteq> j \<Longrightarrow> cs_s (arr ! i) \<noteq> None \<and> \<not> has_sub_id sid (arr ! i)"
  shows "removeBrokerSubscription_arr sid arr (length arr) =
    (if j = length arr - 1 then Done (arr, length arr - 1) else Panic ''index out of range'')"
proof -
  let ?n = "length arr"
  from assms(2) obtain s where s: "cs_s (arr ! j) = Some s" "sub_id s = sid"
    by (auto simp: has_sub_id_def split: option.splits)
  let ?arr = "arr[?n - 1 := arr ! j, j := arr ! (?n - 1)]"
  have n: "?n = j + Suc (?n - Suc j)" using assms(1) by simp
  have "removeBrokerSubscription_loop sid 0 ?n arr ?n =
      removeBrokerSubscription_loop sid j (Suc (?n - Suc j)) arr ?n"
  proof -
    have side: "\<And>i. 0 \<le> i \<Longrightarrow> i < 0 + j \<Longrightarrow> cs_s (arr ! i) \<noteq> None \<and> \<not> has_sub_id sid (arr ! i)"
      using assms(1,3) by simp
    have "removeBrokerSubscription_loop sid 0 (j + Suc (?n - Suc j)) arr ?n =
        removeBrokerSubscription_loop sid (0 + j) (Suc (?n - Suc j)) arr ?n"
      by (rule removeBrokerSubscription_skip[OF side])
    then show ?thesis by (simp only: n[symmetric] add_0)
  qed
  also have "\<dots> = removeBrokerSubscription_loop sid (Suc j) (?n - Suc j) ?arr (?n - 1)"
    using s assms(1) by (auto simp: removeSub_def)
  finally have step: "removeBrokerSubscription_arr sid arr ?n =
      removeBrokerSubscription_loop sid (Suc j) (?n - Suc j) ?arr (?n - 1)"
    by (simp add: removeBrokerSubscription_arr_def)
  show ?thesis
  proof (cases "j = ?n - 1")
    case True
    then have "?arr = arr" by (metis list_update_id list_update_overwrite)
    with True step show ?thesis by simp
  next
    case False
    with assms(1) have lt: "Suc j \<le> ?n - 1" by simp
    have d: "?n - Suc j = (?n - 1 - Suc j) + Suc 0" using lt by simp
    have "removeBrokerSubscription_loop sid (Suc j) (?n - Suc j) ?arr (?n - 1) =
        removeBrokerSubscription_loop sid (?n - 1) (Suc 0) ?arr (?n - 1)"
    proof -
      have side: "\<And>i. Suc j \<le> i \<Longrightarrow> i < Suc j + (?n - 1 - Suc j) \<Longrightarrow>
          cs_s (?arr ! i) \<noteq> None \<and> \<not> has_sub_id sid (?arr ! i)"
        using assms(3) lt by (auto simp: nth_list_update)
      have "removeBrokerSubscription_loop sid (Suc j) ((?n - 1 - Suc j) + Suc 0) ?arr (?n - 1) =
          removeBrokerSubscription_loop sid (Suc j + (?n - 1 - Suc j)) (Suc 0) ?arr (?n - 1)"
        by (rule removeBrokerSubscription_skip[OF side])
      moreover have "Suc j + (?n - 1 - Suc j) = ?n - 1" using lt by simp
      ultimately show ?thesis by (simp only: d[symmetric])
    qed
    also have "\<dots> = Panic ''index out of range''"
      using s lt assms(1) False by (simp add: nth_list_update removeSub_def)
    finally show ?thesis using step False by simp
  qed
qed

subsection \<open>The handler table\<close>

lemma unsubscribeHandler_filter:
  assumes "channel_wf ch"
  shows "unsubscribeHandler (Some uid) ch =
    Done (ch\<lparr>ch_eventHandlers := filter (\<lambda>h. h_uuid h \<noteq> uid) (ch_eventHandlers ch)\<rparr>,
          uid \<in> h_uuid ` set (ch_eventHandlers ch))"
proof (cases "find_index (\<lambda>h. h_uuid h = uid) (ch_eventHandlers ch)")
  case None
  then have "\<forall>h\<in>set (ch_eventHandlers ch). h_uuid h \<noteq> uid" by simp
  then have "filter (\<lambda>h. h_uuid h \<noteq> uid) (ch_eventHandlers ch) = ch_eventHandlers ch"
    "uid \<notin> h_uuid ` set (ch_eventHandlers ch)"
    by (auto simp: filter_id_conv)
  then show ?thesis unfolding unsubscribeHandler_def by (simp add: None)
next
  case (Some i)
  let ?hs = "ch_eventHandlers ch"
  note i = find_index_SomeD[OF Some]
  have "h_uuid y \<noteq> uid" if "y \<in> set (drop (Suc i) ?hs)" for y
  proof -
    from that obtain j where j: "j < length ?hs - Suc i" "y = ?hs ! (Suc i + j)"
      by (auto simp: in_set_conv_nth)
    have "distinct (map h_uuid ?hs)" using assms by (simp add: channel_wf_def)
    then have "map h_uuid ?hs ! i \<noteq> map h_uuid ?hs ! (Suc i + j)"
      using i j(1) by (subst nth_eq_iff_index_eq) auto
    with i j show ?thesis by auto
  qed
  then have "remove_at i ?hs = filter (\<lambda>h. h_uuid h \<noteq> uid) ?hs"
    by (rule remove_at_find_index[OF Some])
  moreover have "uid \<in> h_uuid ` set ?hs" using i by (auto intro: rev_image_eqI)
  moreover have "removeEventHandler i ch = ch\<lparr>ch_eventHandlers := remove_at i ?hs\<rparr>"
    using i by (auto simp: removeEventHandler_def Let_def)
  ultimately show ?thesis using Some by (simp add: unsubscribeHandler_def)
qed

definition handler_set :: "Channel \<Rightarrow> (uuid \<times> closure \<times> bool) set" where
  "handler_set ch = (\<lambda>h. (h_uuid h, h_callBackFunction h, h_runOnce h)) ` set (ch_eventHandlers ch)"

definition drop_handler :: "uuid \<Rightarrow> Channel \<Rightarrow> Channel" where
  "drop_handler uid ch = (case unsubscribeHandler (Some uid) ch of Done (c, _) \<Rightarrow> c | _ \<Rightarrow> ch)"

interpretation chan_subs: subscriptions handler_set "\<lambda>uid (fn, once). subscribeHandler fn once uid"
  drop_handler "\<lambda>uid ch. uid \<notin> h_uuid ` set (ch_eventHandlers ch)" channel_wf
proof (unfold_locales, goal_cases)
  case (1 s i f)
  then show ?case by (cases f) (simp add: channel_wf_subscribe)
next
  case (2 s i)
  then show ?case
    using channel_wf_unsubscribe[OF 2 unsubscribeHandler_filter[OF 2]]
    by (simp add: drop_handler_def unsubscribeHandler_filter)
next
  case (3 s i f)
  then show ?case by (auto simp: handler_set_def)
next
  case (4 s i f)
  then show ?case by (cases f) (simp add: handler_set_def subscribeHandler_def)
next
  case (5 s i)
  have "drop_handler i s = s\<lparr>ch_eventHandlers := filter (\<lambda>h. h_uuid h \<noteq> i) (ch_eventHandlers s)\<rparr>"
    by (simp add: drop_handler_def unsubscribeHandler_filter[OF 5])
  moreover have "{p \<in> f ` A. fst p \<noteq> i} = f ` {h \<in> A. fst (f h) \<noteq> i}"
    for A and f :: "channelEventHandler \<Rightarrow> uuid \<times> closure \<times> bool" by blast
  ultimately show ?case by (simp add: handler_set_def)
qed

subsection \<open>Properties\<close>

lemma NewChannel_handlers: "ch_eventHandlers (NewChannel n) = []" "handler_set (NewChannel n) = {}"
  by (simp_all add: NewChannel_def handler_set_def)

text \<open>
  C2. Sending on a channel starts, in subscription order, one goroutine with the message
  for every handler that is not a run-once handler which has already run, and enters the wait
  group once for each.
\<close>

theorem Channel_Send_dispatch:
  "ch_inflight (Channel_Send m ch) = ch_inflight ch @
     map (\<lambda>h. (h, m)) (filter (\<lambda>h. \<not> (h_runOnce h \<and> ch_runCount ch (h_addr h) > 0)) (ch_eventHandlers ch)) \<and>
   ch_wg (Channel_Send m ch) + length (ch_inflight ch) = ch_wg ch + length (ch_inflight (Channel_Send m ch))"
  by (simp add: Channel_Send_simps spent_def)

text \<open>
  When at most one of the subscribed handlers is a run-once handler that has run, sending
  removes exactly that handler.
\<close>

theorem Channel_Send_removes_spent:
  assumes "length (filter (spent ch) (ch_eventHandlers ch)) \<le> 1"
  shows "ch_eventHandlers (Channel_Send m ch) = filter (\<lambda>h. \<not> spent ch h) (ch_eventHandlers ch)"
  using send_loop_one_spent[of ch "[]" "ch_eventHandlers ch" 0 m] assms
  by (simp add: Channel_Send_def Let_def)

definition ex_handler :: "nat \<Rightarrow> bool \<Rightarrow> channelEventHandler" where
  "ex_handler n once = \<lparr>h_addr = n, h_callBackFunction = UserFn n, h_runOnce = once, h_uuid = show_nat n\<rparr>"

definition ex_message :: Message where
  "ex_message = GenerateResponse ''m1'' (zero_MessageConfig\<lparr>cfg_Payload := GString ''hello''\<rparr>)"

definition ex_channel :: "bool list \<Rightarrow> (addr \<Rightarrow> nat) \<Rightarrow> Channel" where
  "ex_channel onces counts = (NewChannel ''chan'')\<lparr>
     ch_eventHandlers := map (\<lambda>i. ex_handler i (onces ! i)) [0..<length onces],
     ch_nextHandler := length onces, ch_runCount := counts\<rparr>"

lemmas ex_channel_defs = ex_channel_def ex_handler_def NewChannel_def spent_def upt_rec numeral_2_eq_2

theorem Channel_Send_removes_spent_witness:
  "ch_eventHandlers (Channel_Send ex_message (ex_channel [True, False] (\<lambda>_. 1))) = [ex_handler 1 False]"
  using Channel_Send_removes_spent[of "ex_channel [True, False] (\<lambda>_. 1)" ex_message]
  by (simp add: ex_channel_defs)

text \<open>
  When the first two of three handlers have run and are run-once, and the third is live, a
  send leaves the second subscribed and drops the live one: the index of the duplicated slice no
  longer fits the slice that is being shortened.
\<close>

theorem Channel_Send_two_spent_drops_live:
  assumes "ch_eventHandlers ch = [a, b, c]" and "spent ch a" and "spent ch b" and "\<not> spent ch c"
  shows "ch_eventHandlers (Channel_Send m ch) = [b]"
  using assms by (auto simp: Channel_Send_def Let_def spent_def removeEventHandler_def)

theorem Channel_Send_two_spent_drops_live_witness:
  "ch_eventHandlers (Channel_Send ex_message (ex_channel [True, True, False] (\<lambda>_. 1))) = [ex_handler 1 True]"
  using Channel_Send_two_spent_drops_live[of "ex_channel [True, True, False] (\<lambda>_. 1)"
      "ex_handler 0 True" "ex_handler 1 True" "ex_handler 2 False" ex_message]
  by (simp add: ex_channel_defs)

text \<open>
  C13. The handlers of a channel are a set of subscribers: subscribing under a new id adds the
  handler, unsubscribing an id removes the handler of that id and no other, reports whether there
  was one, and the channel stays well formed.
\<close>

theorem channel_subscriptions_refine_set:
  assumes "channel_wf ch" and "uid \<notin> h_uuid ` set (ch_eventHandlers ch)"
  shows "\<exists>ch'. unsubscribeHandler (Some gone) (subscribeHandler fn once uid ch) =
       Done (ch', gone = uid \<or> gone \<in> fst ` handler_set ch) \<and> channel_wf ch' \<and>
     handler_set ch' = {p \<in> insert (uid, fn, once) (handler_set ch). fst p \<noteq> gone}"
proof -
  let ?s = "subscribeHandler fn once uid ch"
  have wf: "channel_wf ?s" using chan_subs.inv_add[OF assms, of "(fn, once)"] by simp
  have m: "handler_set ?s = insert (uid, fn, once) (handler_set ch)"
    using chan_subs.members_add[OF assms, of "(fn, once)"] by simp
  have found: "gone \<in> h_uuid ` set (ch_eventHandlers ?s) \<longleftrightarrow> gone = uid \<or> gone \<in> fst ` handler_set ch"
    by (auto simp: handler_set_def image_image subscribeHandler_def)
  have "unsubscribeHandler (Some gone) ?s = Done (drop_handler gone ?s, gone \<in> h_uuid ` set (ch_eventHandlers ?s))"
    by (simp add: drop_handler_def unsubscribeHandler_filter[OF wf])
  then show ?thesis
    using chan_subs.inv_remove[OF wf, of gone] chan_subs.members_remove[OF wf, of gone]
    unfolding m found by blast
qed

theorem channel_subscriptions_refine_set_witness:
  "\<exists>ch'. unsubscribeHandler (Some ''a'') (subscribeHandler (UserFn 1) False ''a'' (NewChannel ''c'')) =
     Done (ch', True) \<and> handler_set ch' = {}"
  using channel_subscriptions_refine_set[of "NewChannel ''c''" "''a''" "''a''" "UserFn 1" False]
  unfolding NewChannel_handlers by (auto simp: channel_wf_new)

text \<open>
  Removing the one subscription with a given id takes it off the channel when it is the last
  of the slice, and panics when it is any other.
\<close>

theorem removeBrokerSubscription_outcome:
  assumes "j < length (ch_brokerSubs ch)" and "has_sub_id (sub_id sub) (ch_brokerSubs ch ! j)"
    and "\<forall>i<length (ch_brokerSubs ch). i \<noteq> j \<longrightarrow>
           cs_s (ch_brokerSubs ch ! i) \<noteq> None \<and> \<not> has_sub_id (sub_id sub) (ch_brokerSubs ch ! i)"
  shows "removeBrokerSubscription sub ch =
    (if j = length (ch_brokerSubs ch) - 1
     then Done (ch\<lparr>ch_brokerSubs := butlast (ch_brokerSubs ch)\<rparr>)
     else Panic ''index out of range'')"
  using removeBrokerSubscription_at[OF assms(1,2)] assms(3)
  by (simp add: removeBrokerSubscription_def butlast_conv_take)

definition ex_sub :: "uuid \<Rightarrow> connectionSub" where
  "ex_sub i = \<lparr>cs_c = Some 0,
     cs_s = Some \<lparr>sub_addr = 0, sub_id = i, sub_destination = ''/topic/'' @ i, sub_transport = StompTCP\<rparr>\<rparr>"

theorem removeBrokerSubscription_outcome_witness:
  "removeBrokerSubscription (the (cs_s (ex_sub ''a''))) ((NewChannel ''c'')\<lparr>ch_brokerSubs := [ex_sub ''a'', ex_sub ''b'']\<rparr>)
     = Panic ''index out of range''"
  using removeBrokerSubscription_outcome[of 0 "(NewChannel ''c'')\<lparr>ch_brokerSubs := [ex_sub ''a'', ex_sub ''b'']\<rparr>"
      "the (cs_s (ex_sub ''a''))"]
  by (simp add: ex_sub_def has_sub_id_def less_Suc_eq)

end
