(* ===== verification/Registry.thy ===== *)
theory Registry
  imports Prelude
begin

text \<open>
  The contract that the channel manager (src/bus/channel\_manager.go) and the store manager
  (src/bus/store\_manager.go) share: named objects, created at most once per name, found by name,
  removed by name. The clients' lemmas are proved once from the laws; both managers interpret
  the locale on their own operations.
\<close>

datatype registry_op = Create string | Destroy string

text \<open>A name is present after a sequence of operations exactly when the last operation on it was a creation.\<close>

fun present_after :: "string \<Rightarrow> registry_op list \<Rightarrow> bool \<Rightarrow> bool" where
  "present_after n [] b = b"
| "present_after n (Create m # ops) b = present_after n ops (b \<or> m = n)"
| "present_after n (Destroy m # ops) b = present_after n ops (b \<and> m \<noteq> n)"

locale registry =
  fixes create :: "string \<Rightarrow> 's \<Rightarrow> 's"
    and destroy :: "string \<Rightarrow> 's \<Rightarrow> 's"
    and lookup :: "'s \<Rightarrow> string \<Rightarrow> addr option"
    and next_addr :: "'s \<Rightarrow> addr"
    and inv :: "'s \<Rightarrow> bool"
  assumes inv_create: "inv s \<Longrightarrow> inv (create n s)"
    and inv_destroy: "inv s \<Longrightarrow> inv (destroy n s)"
    and create_old: "inv s \<Longrightarrow> lookup s n \<noteq> None \<Longrightarrow> lookup (create n s) = lookup s"
    and create_new: "inv s \<Longrightarrow> lookup s n = None \<Longrightarrow> lookup (create n s) = (lookup s)(n \<mapsto> next_addr s)"
    and create_next: "inv s \<Longrightarrow>
      next_addr (create n s) = (if lookup s n = None then Suc (next_addr s) else next_addr s)"
    and destroy_lookup: "inv s \<Longrightarrow> lookup (destroy n s) = (lookup s)(n := None)"
    and destroy_next: "inv s \<Longrightarrow> next_addr (destroy n s) = next_addr s"
begin

definition allocated :: "'s \<Rightarrow> bool" where
  "allocated s \<longleftrightarrow> inv s \<and> (\<forall>n a. lookup s n = Some a \<longrightarrow> a < next_addr s) \<and>
     (\<forall>n m a. lookup s n = Some a \<longrightarrow> lookup s m = Some a \<longrightarrow> n = m)"

fun apply_op :: "registry_op \<Rightarrow> 's \<Rightarrow> 's" where
  "apply_op (Create n) s = create n s"
| "apply_op (Destroy n) s = destroy n s"

definition run :: "registry_op list \<Rightarrow> 's \<Rightarrow> 's" where
  "run ops s = fold apply_op ops s"

lemma lookup_create:
  "inv s \<Longrightarrow> lookup (create n s) = (if lookup s n = None then (lookup s)(n \<mapsto> next_addr s) else lookup s)"
  by (auto simp: create_old create_new)

lemma apply_inv: "inv s \<Longrightarrow> inv (apply_op p s)"
  by (cases p) (auto simp: inv_create inv_destroy)

lemma allocated_create: "allocated s \<Longrightarrow> allocated (create n s)"
  unfolding allocated_def by (auto simp: lookup_create create_next less_Suc_eq inv_create split: if_splits)

lemma allocated_destroy: "allocated s \<Longrightarrow> allocated (destroy n s)"
  unfolding allocated_def by (auto simp: destroy_lookup destroy_next inv_destroy)

lemma allocated_run: "allocated s \<Longrightarrow> allocated (run ops s)"
  unfolding run_def
proof (induction ops arbitrary: s)
  case (Cons p ops)
  then show ?case by (cases p) (auto intro: allocated_create allocated_destroy)
qed simp

lemma run_present:
  "inv s \<Longrightarrow> (lookup (run ops s) n \<noteq> None) = present_after n ops (lookup s n \<noteq> None)"
  unfolding run_def
proof (induction ops arbitrary: s)
  case (Cons p ops)
  have "(lookup (apply_op p s) n \<noteq> None) = (case p of
      Create m \<Rightarrow> lookup s n \<noteq> None \<or> m = n | Destroy m \<Rightarrow> lookup s n \<noteq> None \<and> m \<noteq> n)"
    using Cons.prems by (cases p) (auto simp: lookup_create destroy_lookup)
  with Cons.IH[OF apply_inv[OF Cons.prems, of p]] show ?case by (cases p) simp_all
qed simp

text \<open>An object keeps its identity until its name is destroyed, and is never found again after.\<close>

lemma run_keeps:
  "inv s \<Longrightarrow> lookup s n = Some a \<Longrightarrow> Destroy n \<notin> set ops \<Longrightarrow> lookup (run ops s) n = Some a"
  unfolding run_def
proof (induction ops arbitrary: s)
  case (Cons p ops)
  have "lookup (apply_op p s) n = Some a"
    using Cons.prems by (cases p) (auto simp: lookup_create destroy_lookup)
  with Cons apply_inv[OF Cons.prems(1)] show ?case by simp
qed simp

lemma run_stale:
  assumes "inv s" and "\<And>m. lookup s m \<noteq> Some a" and "a < next_addr s"
  shows "lookup (run ops s) n \<noteq> Some a"
  using assms unfolding run_def
proof (induction ops arbitrary: s)
  case (Cons p ops)
  have "\<And>m. lookup (apply_op p s) m \<noteq> Some a" "a < next_addr (apply_op p s)"
    using Cons.prems by (cases p; auto simp: lookup_create destroy_lookup create_next destroy_next)+
  with Cons.IH[of "apply_op p s"] apply_inv[OF Cons.prems(1)] show ?case by simp
qed simp

lemma destroyed_stale:
  assumes "allocated s" and "lookup s n = Some a"
  shows "lookup (run ops (destroy n s)) m \<noteq> Some a"
proof (rule run_stale)
  have inv: "inv s" using assms(1) by (simp add: allocated_def)
  then show "inv (destroy n s)" by (rule inv_destroy)
  show "lookup (destroy n s) k \<noteq> Some a" for k
    using assms inv by (auto simp: destroy_lookup allocated_def)
  show "a < next_addr (destroy n s)" using assms inv by (auto simp: destroy_next allocated_def)
qed

end

end
