(* ===== verification/ChannelManager.thy ===== *)
theory ChannelManager
  imports Channel Registry
begin

text \<open>
  The channel manager (src/bus/channel\_manager.go). The record \<open>busState\<close> is the part of
  \<^verbatim>\<open>transportEventBus\<close> that it reads and writes: the table of channels, the channels behind the
  pointers, the broker connections, the monitor, the goroutines started for monitor events, and
  the trace of callback calls. Each operation takes the manager's lock for its whole duration or
  for the lookup, so an operation is one step. Later theories extend the record.
\<close>

subsection \<open>State\<close>

record busState =
  Channels :: "string \<rightharpoonup> addr"
  chans :: "addr \<Rightarrow> Channel"
  nextChan :: addr
  conns :: "addr \<Rightarrow> connection"
  monitor :: transportMonitor
  pendingEvents :: "MonitorEvent list"
  calls :: "call list"

definition upd_chan :: "addr \<Rightarrow> (Channel \<Rightarrow> Channel) \<Rightarrow> 'b busState_scheme \<Rightarrow> 'b busState_scheme" where
  "upd_chan a f s = s\<lparr>chans := (chans s)(a := f (chans s a))\<rparr>"

definition upd_conn :: "addr \<Rightarrow> connection \<Rightarrow> 'b busState_scheme \<Rightarrow> 'b busState_scheme" where
  "upd_conn a c s = s\<lparr>conns := (conns s)(a := c)\<rparr>"

definition SendMonitorEvent ::
  "MonitorEventType \<Rightarrow> string \<Rightarrow> Message option \<Rightarrow> 'b busState_scheme \<Rightarrow> 'b busState_scheme" where
  "SendMonitorEvent evtType entityName payload s =
     s\<lparr>calls := calls s @ sendEvent (NewMonitorEvent evtType entityName payload) (monitor s)\<rparr>"

definition go_SendMonitorEvent ::
  "MonitorEventType \<Rightarrow> string \<Rightarrow> Message option \<Rightarrow> 'b busState_scheme \<Rightarrow> 'b busState_scheme" where
  "go_SendMonitorEvent evtType entityName payload s =
     s\<lparr>pendingEvents := pendingEvents s @ [NewMonitorEvent evtType entityName payload]\<rparr>"

text \<open>One of the goroutines started for monitor events runs.\<close>

definition runPendingEvent :: "nat \<Rightarrow> 'b busState_scheme \<Rightarrow> 'b busState_scheme" where
  "runPendingEvent i s =
     s\<lparr>pendingEvents := remove_at i (pendingEvents s),
       calls := calls s @ sendEvent (pendingEvents s ! i) (monitor s)\<rparr>"

subsection \<open>Operations\<close>

definition CreateChannel :: "string \<Rightarrow> 'b busState_scheme \<Rightarrow> 'b busState_scheme \<times> addr" where
  "CreateChannel channelName s =
     (case Channels s channelName of
        Some channel \<Rightarrow> (s, channel)
      | None \<Rightarrow>
          let a = nextChan s;
              s1 = s\<lparr>Channels := (Channels s)(channelName \<mapsto> a),
                     chans := (chans s)(a := NewChannel channelName), nextChan := Suc a\<rparr>
          in (go_SendMonitorEvent ChannelCreatedEvt channelName None s1, a))"

definition DestroyChannel :: "string \<Rightarrow> 'b busState_scheme \<Rightarrow> 'b busState_scheme" where
  "DestroyChannel channelName s =
     go_SendMonitorEvent ChannelDestroyedEvt channelName None
       (s\<lparr>Channels := (Channels s)(channelName := None)\<rparr>)"

definition GetChannel :: "string \<Rightarrow> 'b busState_scheme \<Rightarrow> error + addr" where
  "GetChannel channelName s =
     (case Channels s channelName of
        Some channel \<Rightarrow> Inr channel
      | None \<Rightarrow> Inl (''Channel does not exist: '' @ channelName))"

definition GetAllChannels :: "'b busState_scheme \<Rightarrow> string \<rightharpoonup> addr" where
  "GetAllChannels s = Channels s"

definition CheckChannelExists :: "string \<Rightarrow> 'b busState_scheme \<Rightarrow> bool" where
  "CheckChannelExists channelName s \<longleftrightarrow> Channels s channelName \<noteq> None"

definition SubscribeChannelHandler ::
  "uuid \<Rightarrow> string \<Rightarrow> closure \<Rightarrow> bool \<Rightarrow> 'b busState_scheme \<Rightarrow> 'b busState_scheme \<times> (error + uuid)" where
  "SubscribeChannelHandler new channelName fn runOnce s =
     (case GetChannel channelName s of
        Inl err \<Rightarrow> (s, Inl err)
      | Inr channel \<Rightarrow>
          (SendMonitorEvent ChannelSubscriberJoinedEvt channelName None
             (upd_chan channel (subscribeHandler fn runOnce new) s), Inr new))"

definition UnsubscribeChannelHandler ::
  "string \<Rightarrow> uuid option \<Rightarrow> 'b busState_scheme \<Rightarrow> ('b busState_scheme \<times> error option) go" where
  "UnsubscribeChannelHandler channelName uid s =
     (case GetChannel channelName s of
        Inl err \<Rightarrow> Done (s, Some err)
      | Inr channel \<Rightarrow>
          go_map (\<lambda>(ch, found).
             if \<not> found then
               (s, Some (''no handler in Channel '' @ squote @ channelName @ squote @ '' for uuid ['' @
                  (case uid of None \<Rightarrow> ''<nil>'' | Some i \<Rightarrow> i) @ '']''))
             else (SendMonitorEvent ChannelSubscriberLeftEvt channelName None (upd_chan channel (\<lambda>_. ch) s), None))
            (unsubscribeHandler uid (chans s channel)))"

text \<open>\<^verbatim>\<open>WaitForChannel\<close> returns when the wait group is at zero; in another state it waits.\<close>

definition WaitForChannel :: "string \<Rightarrow> 'b busState_scheme \<Rightarrow> (error option) go" where
  "WaitForChannel channelName s =
     (case GetChannel channelName s of
        Inl _ \<Rightarrow> Done (Some (''no such Channel as '' @ squote @ channelName @ squote))
      | Inr channel \<Rightarrow> if ch_wg (chans s channel) = 0 then Done None else Block)"

subsection \<open>Galactic channels\<close>

text \<open>The buffer of the notification channel has ten places; a send that finds it full is dropped.\<close>

definition notify_mapped :: "bool \<Rightarrow> Channel \<Rightarrow> Channel" where
  "notify_mapped b ch =
     (if length (ch_brokerMappedEvent ch) < 10
      then ch\<lparr>ch_brokerMappedEvent := ch_brokerMappedEvent ch @ [b]\<rparr> else ch)"

text \<open>
  \<open>new\<close> is the id of the subscription and \<open>new_m\<close> that of the message; \<open>tcp_ok\<close> says that the TCP
  client's subscribe succeeds.
\<close>

definition handleGalacticChannelEvent ::
  "bool \<Rightarrow> uuid \<Rightarrow> uuid \<Rightarrow> string \<Rightarrow> addr option \<Rightarrow> string \<Rightarrow> 'b busState_scheme \<Rightarrow> 'b busState_scheme go" where
  "handleGalacticChannelEvent tcp_ok new new_m channelName conn dest s =
     (case conn of
        None \<Rightarrow> Done s
      | Some c \<Rightarrow>
          (case GetChannel channelName s of
             Inl _ \<Rightarrow> Panic ''nil pointer dereference''
           | Inr ch \<Rightarrow>
               if isBrokerSubscribedToDestination c dest (chans s ch) then Done s
               else go_bind (connection_Subscribe tcp_ok new dest (Some (conns s c))) (\<lambda>(c', r).
                      let s0 = (case c' of None \<Rightarrow> s | Some cn \<Rightarrow> upd_conn c cn s) in
                      case r of
                        Inl _ \<Rightarrow> Done s0
                      | Inr sub \<Rightarrow>
                          let s1 = upd_chan ch (addBrokerConnection c) s0;
                              m = GenerateResponse new_m (zero_MessageConfig\<lparr>cfg_Payload := GString dest\<rparr>);
                              s2 = upd_chan ch (addBrokerSubscription c sub) s1;
                              s3 = SendMonitorEvent BrokerSubscribedEvt channelName (Some m) s2
                          in Done (upd_chan ch (notify_mapped True) s3))))"

definition MarkChannelAsGalactic ::
  "bool \<Rightarrow> uuid \<Rightarrow> uuid \<Rightarrow> string \<Rightarrow> string \<Rightarrow> addr option \<Rightarrow> 'b busState_scheme
     \<Rightarrow> ('b busState_scheme \<times> error option) go" where
  "MarkChannelAsGalactic tcp_ok new new_m channelName dest conn s =
     (case GetChannel channelName s of
        Inl err \<Rightarrow> Done (s, Some err)
      | Inr channel \<Rightarrow>
          go_map (\<lambda>s'. (s', None))
            (handleGalacticChannelEvent tcp_ok new new_m channelName conn dest
               (upd_chan channel (SetGalactic dest) s)))"

text \<open>
  The loop of \<^verbatim>\<open>handleLocalChannelEvent\<close> ranges over the slice of subscriptions as it was
  (\<open>k\<close> left, the next at \<open>i\<close>), reading the array \<open>arr\<close> that \<^verbatim>\<open>removeBrokerSubscription\<close> swaps
  elements in; \<open>len\<close> is the length of the channel's own slice. \<open>new_m\<close> numbers the message ids.
\<close>

fun local_loop ::
  "(nat \<Rightarrow> uuid) \<Rightarrow> string \<Rightarrow> addr \<Rightarrow> nat \<Rightarrow> nat \<Rightarrow> connectionSub list \<Rightarrow> nat \<Rightarrow> 'b busState_scheme
     \<Rightarrow> 'b busState_scheme go" where
  "local_loop new_m channelName ch i 0 arr len s =
     Done (upd_chan ch (\<lambda>c. c\<lparr>ch_brokerSubs := take len arr\<rparr>) s)"
| "local_loop new_m channelName ch i (Suc k) arr len s =
     (case (cs_c (arr ! i), cs_s (arr ! i)) of
        (Some c, Some sub) \<Rightarrow>
          go_bind (subscription_Unsubscribe sub (conns s c)) (\<lambda>(cn, e).
            let s0 = upd_conn c cn s in
            if e = None then
              go_bind (removeBrokerSubscription_arr (sub_id sub) arr len) (\<lambda>(arr', len').
                let m = GenerateResponse (new_m i)
                          (zero_MessageConfig\<lparr>cfg_Payload := GString (sub_destination sub)\<rparr>);
                    s1 = SendMonitorEvent BrokerUnsubscribedEvt channelName (Some m) s0
                in local_loop new_m channelName ch (Suc i) k arr' len'
                     (upd_chan ch (notify_mapped False) s1))
            else local_loop new_m channelName ch (Suc i) k arr len s0)
      | _ \<Rightarrow> Panic ''nil pointer dereference'')"

definition handleLocalChannelEvent ::
  "(nat \<Rightarrow> uuid) \<Rightarrow> string \<Rightarrow> 'b busState_scheme \<Rightarrow> 'b busState_scheme go" where
  "handleLocalChannelEvent new_m channelName s =
     (case GetChannel channelName s of
        Inl _ \<Rightarrow> Panic ''nil pointer dereference''
      | Inr ch \<Rightarrow>
          let subs = ch_brokerSubs (chans s ch) in
          go_map (upd_chan ch removeBrokerConnections)
            (local_loop new_m channelName ch 0 (length subs) subs (length subs) s))"

definition MarkChannelAsLocal ::
  "(nat \<Rightarrow> uuid) \<Rightarrow> string \<Rightarrow> 'b busState_scheme \<Rightarrow> ('b busState_scheme \<times> error option) go" where
  "MarkChannelAsLocal new_m channelName s =
     (case GetChannel channelName s of
        Inl err \<Rightarrow> Done (s, Some err)
      | Inr channel \<Rightarrow>
          go_map (\<lambda>s'. (s', None))
            (handleLocalChannelEvent new_m channelName
               (upd_chan channel (removeBrokerConnections \<circ> SetLocal) s)))"

subsection \<open>The channel table as a registry\<close>

interpretation chan_registry: registry
  "\<lambda>n s. fst (CreateChannel n s)" DestroyChannel Channels nextChan "\<lambda>_. True"
  by unfold_locales
    (auto simp: CreateChannel_def DestroyChannel_def go_SendMonitorEvent_def Let_def split: option.splits)

end
