(* ===== verification/EventBus.thy ===== *)
theory EventBus
  imports ChannelManager
begin

text \<open>
  The event bus (src/bus/eventbus.go) and its message handlers (src/bus/message\_handler.go):
  the send operations, the listen and request operations with the wrapper that filters messages
  and runs a handler once, and the goroutines that deliver messages, as a step relation in which
  any started goroutine may run next. A callback of the user is recorded in the trace when it is
  called; what it does is some later steps.
\<close>

subsection \<open>State\<close>

text \<open>
  \<^verbatim>\<open>sync.Once\<close>: not used, its function running (another caller waits), or used. The captured
  variables of the wrapper are fields of the handler (\<open>mh_direction\<close>, \<open>mh_allTraffic\<close>);
  \<open>mh_invokeOnce\<close> is nil exactly when the captured \<^verbatim>\<open>runOnce\<close> is false. \<open>mh_invoked\<close> is a history
  variable: the calls of the user's functions that this handler made.
\<close>

datatype once = OnceFresh | OnceRunning | OnceUsed

record messageHandler =
  mh_id :: uuid
  mh_destination :: "uuid option"
  mh_channel :: addr
  mh_requestMessage :: "Message option"
  mh_runCount :: int64
  mh_ignoreId :: bool
  mh_direction :: Direction
  mh_allTraffic :: bool
  mh_successHandler :: "closure option"
  mh_errorHandler :: "closure option"
  mh_subscriptionId :: "uuid option"
  mh_invokeOnce :: "once option"
  mh_invoked :: "call list"

record transportEventBus = busState +
  eb_Id :: uuid
  mhandlers :: "addr \<Rightarrow> messageHandler"
  nextMH :: addr
  brokerConnections :: "addr \<rightharpoonup> addr"
  eb_bc :: brokerConnector
  nextConn :: addr

definition createMessageHandler :: "uuid \<Rightarrow> addr \<Rightarrow> uuid option \<Rightarrow> messageHandler" where
  "createMessageHandler new channel destinationId =
     \<lparr>mh_id = new, mh_destination = destinationId, mh_channel = channel, mh_requestMessage = None,
      mh_runCount = 0, mh_ignoreId = False, mh_direction = RequestDir, mh_allTraffic = False,
      mh_successHandler = None, mh_errorHandler = None, mh_subscriptionId = None,
      mh_invokeOnce = None, mh_invoked = []\<rparr>"

definition init_bus :: "uuid \<Rightarrow> transportEventBus" where
  "init_bus new = \<lparr>Channels = Map.empty, chans = (\<lambda>_. NewChannel ''''), nextChan = 0,
     conns = (\<lambda>_. nil_connection), monitor = newMonitor, pendingEvents = [], calls = [],
     eb_Id = new, mhandlers = (\<lambda>_. createMessageHandler '''' 0 None), nextMH = 0,
     brokerConnections = Map.empty, eb_bc = NewBrokerConnector, nextConn = 0\<rparr>"

text \<open>The package variables \<^verbatim>\<open>once\<close> and \<^verbatim>\<open>busInstance\<close>; an instance is created by the argument.\<close>

record 'i bus_global =
  g_once :: bool
  g_busInstance :: "'i option"

definition GetBus :: "'i \<Rightarrow> 'i bus_global \<Rightarrow> 'i bus_global \<times> 'i option" where
  "GetBus inst g = (let g' = (if g_once g then g else \<lparr>g_once = True, g_busInstance = Some inst\<rparr>)
     in (g', g_busInstance g'))"

definition ResetBus :: "'i \<Rightarrow> 'i bus_global \<Rightarrow> 'i bus_global \<times> 'i option" where
  "ResetBus inst g = GetBus inst (g\<lparr>g_once := False\<rparr>)"

definition upd_mh ::
  "addr \<Rightarrow> (messageHandler \<Rightarrow> messageHandler) \<Rightarrow> 'b transportEventBus_scheme \<Rightarrow> 'b transportEventBus_scheme" where
  "upd_mh a f s = s\<lparr>mhandlers := (mhandlers s)(a := f (mhandlers s a))\<rparr>"

subsection \<open>Sending\<close>

definition checkForSuppliedId :: "uuid \<Rightarrow> uuid option \<Rightarrow> uuid option" where
  "checkForSuppliedId new idp = (case idp of None \<Rightarrow> Some new | Some i \<Rightarrow> Some i)"

definition buildConfig :: "uuid \<Rightarrow> string \<Rightarrow> gval \<Rightarrow> uuid option \<Rightarrow> MessageConfig" where
  "buildConfig new channelName payload destinationId =
     zero_MessageConfig\<lparr>cfg_Id := Some new, cfg_DestinationId := destinationId,
       cfg_Channel := channelName, cfg_Payload := payload\<rparr>"

definition buildError :: "uuid \<Rightarrow> string \<Rightarrow> error option \<Rightarrow> uuid option \<Rightarrow> MessageConfig" where
  "buildError new channelName err destinationId =
     zero_MessageConfig\<lparr>cfg_Id := Some new, cfg_DestinationId := destinationId,
       cfg_Channel := channelName, cfg_Err := err\<rparr>"

definition sendMessageToChannel :: "addr \<Rightarrow> Message \<Rightarrow> 'b busState_scheme \<Rightarrow> 'b busState_scheme" where
  "sendMessageToChannel channelObject message s = upd_chan channelObject (Channel_Send message) s"

definition SendResponseMessage ::
  "uuid \<Rightarrow> string \<Rightarrow> gval \<Rightarrow> uuid option \<Rightarrow> 'b busState_scheme \<Rightarrow> 'b busState_scheme \<times> error option" where
  "SendResponseMessage new channelName payload destId s =
     (case GetChannel channelName s of
        Inl err \<Rightarrow> (s, Some err)
      | Inr ch \<Rightarrow>
          (sendMessageToChannel ch (GenerateResponse new (buildConfig new channelName payload destId)) s, None))"

definition SendBroadcastMessage ::
  "uuid \<Rightarrow> string \<Rightarrow> gval \<Rightarrow> 'b busState_scheme \<Rightarrow> 'b busState_scheme \<times> error option" where
  "SendBroadcastMessage new channelName payload s =
     (case GetChannel channelName s of
        Inl err \<Rightarrow> (s, Some err)
      | Inr ch \<Rightarrow>
          (sendMessageToChannel ch (GenerateResponse new (buildConfig new channelName payload None)) s, None))"

definition SendRequestMessage ::
  "uuid \<Rightarrow> string \<Rightarrow> gval \<Rightarrow> uuid option \<Rightarrow> 'b busState_scheme \<Rightarrow> 'b busState_scheme \<times> error option" where
  "SendRequestMessage new channelName payload destId s =
     (case GetChannel channelName s of
        Inl err \<Rightarrow> (s, Some err)
      | Inr ch \<Rightarrow>
          (sendMessageToChannel ch (GenerateRequest new (buildConfig new channelName payload destId)) s, None))"

text \<open>When the channel does not exist the error that is returned is the caller's own.\<close>

definition SendErrorMessage ::
  "uuid \<Rightarrow> string \<Rightarrow> error option \<Rightarrow> uuid option \<Rightarrow> 'b busState_scheme \<Rightarrow> 'b busState_scheme \<times> error option" where
  "SendErrorMessage new channelName err destId s =
     (case GetChannel channelName s of
        Inl chanErr \<Rightarrow> (s, err)
      | Inr ch \<Rightarrow>
          (sendMessageToChannel ch (GenerateError new (buildError new channelName err destId)) s, None))"

subsection \<open>Message handlers\<close>

definition wrapMessageHandler ::
  "uuid \<Rightarrow> addr \<Rightarrow> Direction \<Rightarrow> bool \<Rightarrow> bool \<Rightarrow> uuid option \<Rightarrow> bool \<Rightarrow> 'b transportEventBus_scheme
     \<Rightarrow> 'b transportEventBus_scheme \<times> addr" where
  "wrapMessageHandler new channel direction ignoreId allTraffic destId runOnce s =
     (let a = nextMH s;
          mh = (createMessageHandler new channel destId)\<lparr>mh_ignoreId := ignoreId,
                  mh_direction := direction, mh_allTraffic := allTraffic,
                  mh_invokeOnce := (if runOnce then Some OnceFresh else None)\<rparr>
      in (s\<lparr>mhandlers := (mhandlers s)(a := mh), nextMH := Suc a\<rparr>, a))"

definition Handle ::
  "uuid \<Rightarrow> addr \<Rightarrow> closure option \<Rightarrow> closure option \<Rightarrow> 'b transportEventBus_scheme
     \<Rightarrow> 'b transportEventBus_scheme" where
  "Handle new a successHandler errorHandler s =
     (let s1 = upd_mh a (\<lambda>mh. mh\<lparr>mh_successHandler := successHandler, mh_errorHandler := errorHandler\<rparr>) s;
          name = ch_Name (chans s1 (mh_channel (mhandlers s1 a)))
      in case SubscribeChannelHandler new name (WrapperFn a) False s1 of
           (s2, Inl _) \<Rightarrow> upd_mh a (\<lambda>mh. mh\<lparr>mh_subscriptionId := None\<rparr>) s2
         | (s2, Inr i) \<Rightarrow> upd_mh a (\<lambda>mh. mh\<lparr>mh_subscriptionId := Some i\<rparr>) s2)"

definition MessageHandler_Close ::
  "addr \<Rightarrow> 'b transportEventBus_scheme \<Rightarrow> 'b transportEventBus_scheme go" where
  "MessageHandler_Close a s =
     (let mh = mhandlers s a in
      if mh_subscriptionId mh \<noteq> None
      then go_map fst (UnsubscribeChannelHandler (ch_Name (chans s (mh_channel mh))) (mh_subscriptionId mh) s)
      else Done s)"

text \<open>
  \<^verbatim>\<open>Fire\<close> sends the request (\<open>Fire_send\<close>) and waits for the wait group of the channel; the wait
  (\<open>Fire_wait\<close>) returns in a state where it is at zero.
\<close>

definition Fire_send ::
  "addr \<Rightarrow> 'b transportEventBus_scheme \<Rightarrow> 'b transportEventBus_scheme \<times> error option" where
  "Fire_send a s =
     (case mh_requestMessage (mhandlers s a) of
        Some m \<Rightarrow> (sendMessageToChannel (mh_channel (mhandlers s a)) m s, None)
      | None \<Rightarrow> (s, Some ''nothing to fire, request is empty''))"

definition Fire_wait :: "addr \<Rightarrow> 'b transportEventBus_scheme \<Rightarrow> (error option) go" where
  "Fire_wait a s =
     (if ch_wg (chans s (mh_channel (mhandlers s a))) = 0 then Done None else Block)"

text \<open>The inner \<^verbatim>\<open>successHandler\<close> and \<^verbatim>\<open>errorHandler\<close>: the flag says that the once body is open.\<close>

definition invokeHandler ::
  "addr \<Rightarrow> call option \<Rightarrow> 'b transportEventBus_scheme \<Rightarrow> ('b transportEventBus_scheme \<times> bool) go" where
  "invokeHandler a c s =
     (case c of
        None \<Rightarrow> Done (s, False)
      | Some k \<Rightarrow>
          let s1 = (upd_mh a (\<lambda>mh. mh\<lparr>mh_runCount := mh_runCount mh + 1, mh_invoked := mh_invoked mh @ [k]\<rparr>) s)
                     \<lparr>calls := calls s @ [k]\<rparr>
          in case mh_invokeOnce (mhandlers s a) of
               None \<Rightarrow> Done (s1, False)
             | Some OnceFresh \<Rightarrow> Done (upd_mh a (\<lambda>mh. mh\<lparr>mh_invokeOnce := Some OnceRunning\<rparr>) s1, True)
             | Some OnceRunning \<Rightarrow> Block
             | Some OnceUsed \<Rightarrow> Done (s, False))"

definition dest_matches :: "messageHandler \<Rightarrow> Message \<Rightarrow> bool" where
  "dest_matches mh msg \<longleftrightarrow>
     (case (msg_DestinationId msg, mh_destination mh) of (Some d, Some i) \<Rightarrow> i = d | _ \<Rightarrow> False)"

text \<open>
  \<^verbatim>\<open>handlerWrapper\<close>. Every caller of \<^verbatim>\<open>wrapMessageHandler\<close> passes the direction of requests or of
  responses, so of the two conditions on the direction at most one holds.
\<close>

definition handlerWrapper ::
  "addr \<Rightarrow> Message \<Rightarrow> 'b transportEventBus_scheme \<Rightarrow> ('b transportEventBus_scheme \<times> bool) go" where
  "handlerWrapper a msg s =
     (let mh = mhandlers s a;
          success = map_option (\<lambda>f. MsgCall f msg) (mh_successHandler mh);
          failure = map_option (\<lambda>f. ErrCall f (msg_Error msg)) (mh_errorHandler mh)
      in if mh_allTraffic mh then
           (if msg_Direction msg = ErrorDir then invokeHandler a failure s else invokeHandler a success s)
         else if msg_Direction msg = mh_direction mh \<and> \<not> mh_ignoreId mh \<and> dest_matches mh msg then
           invokeHandler a success s
         else if msg_Direction msg = mh_direction mh \<and> mh_ignoreId mh then invokeHandler a success s
         else if msg_Direction msg = ErrorDir then invokeHandler a failure s
         else Done (s, False))"

subsection \<open>Goroutines\<close>

definition startTask ::
  "addr \<Rightarrow> nat \<Rightarrow> 'b transportEventBus_scheme \<Rightarrow> 'b transportEventBus_scheme go" where
  "startTask ch i s =
     (case ch_inflight (chans s ch) ! i of (h, m) \<Rightarrow>
        (case h_callBackFunction h of
           WrapperFn a \<Rightarrow> go_map (\<lambda>(s', owes). upd_chan ch (startHandler i owes) s') (handlerWrapper a m s)
         | f \<Rightarrow> Done (upd_chan ch (startHandler i False) (s\<lparr>calls := calls s @ [MsgCall f m]\<rparr>))))"

text \<open>The end of the once body: the handler is unsubscribed, its error ignored, the once is used.\<close>

definition closeOnce ::
  "addr \<Rightarrow> 'b transportEventBus_scheme \<Rightarrow> 'b transportEventBus_scheme go" where
  "closeOnce a s =
     (let mh = mhandlers s a in
      go_map (\<lambda>(s', _). upd_mh a (\<lambda>mh. mh\<lparr>mh_invokeOnce := Some OnceUsed\<rparr>) s')
        (UnsubscribeChannelHandler (ch_Name (chans s (mh_channel mh))) (mh_subscriptionId mh) s))"

definition finishTask ::
  "addr \<Rightarrow> nat \<Rightarrow> 'b transportEventBus_scheme \<Rightarrow> 'b transportEventBus_scheme go" where
  "finishTask ch j s =
     (case ch_running (chans s ch) ! j of (h, owes) \<Rightarrow>
        go_map (upd_chan ch (finishHandler j))
          (case h_callBackFunction h of
             WrapperFn a \<Rightarrow> if owes then closeOnce a s else Done s
           | _ \<Rightarrow> Done s))"

subsection \<open>Listening and requesting\<close>

definition getChannelFromManager :: "string \<Rightarrow> 'b busState_scheme \<Rightarrow> error + addr" where
  "getChannelFromManager channelName s = GetChannel channelName s"

type_synonym 'b mh_result = "'b transportEventBus_scheme \<times> (error + addr)"

definition ListenStream ::
  "uuid \<Rightarrow> string \<Rightarrow> 'b transportEventBus_scheme \<Rightarrow> 'b mh_result" where
  "ListenStream new channelName s =
     (case getChannelFromManager channelName s of
        Inl err \<Rightarrow> (s, Inl err)
      | Inr ch \<Rightarrow> map_prod (\<lambda>t. t) Inr (wrapMessageHandler new ch ResponseDir True False None False s))"

definition ListenStreamForDestination ::
  "uuid \<Rightarrow> string \<Rightarrow> uuid option \<Rightarrow> 'b transportEventBus_scheme \<Rightarrow> 'b mh_result" where
  "ListenStreamForDestination new channelName destId s =
     (case getChannelFromManager channelName s of
        Inl err \<Rightarrow> (s, Inl err)
      | Inr ch \<Rightarrow>
          if destId = None then (s, Inl ''DestinationId cannot be nil'')
          else map_prod (\<lambda>t. t) Inr (wrapMessageHandler new ch ResponseDir False False destId False s))"

definition ListenRequestStream ::
  "uuid \<Rightarrow> string \<Rightarrow> 'b transportEventBus_scheme \<Rightarrow> 'b mh_result" where
  "ListenRequestStream new channelName s =
     (case getChannelFromManager channelName s of
        Inl err \<Rightarrow> (s, Inl err)
      | Inr ch \<Rightarrow> map_prod (\<lambda>t. t) Inr (wrapMessageHandler new ch RequestDir True False None False s))"

definition ListenRequestStreamForDestination ::
  "uuid \<Rightarrow> string \<Rightarrow> uuid option \<Rightarrow> 'b transportEventBus_scheme \<Rightarrow> 'b mh_result" where
  "ListenRequestStreamForDestination new channelName destId s =
     (case getChannelFromManager channelName s of
        Inl err \<Rightarrow> (s, Inl err)
      | Inr ch \<Rightarrow>
          if destId = None then (s, Inl ''DestinationId cannot be nil'')
          else map_prod (\<lambda>t. t) Inr (wrapMessageHandler new ch RequestDir False False destId False s))"

definition ListenRequestOnce ::
  "uuid \<Rightarrow> uuid \<Rightarrow> string \<Rightarrow> 'b transportEventBus_scheme \<Rightarrow> 'b mh_result" where
  "ListenRequestOnce new newDest channelName s =
     (case getChannelFromManager channelName s of
        Inl err \<Rightarrow> (s, Inl err)
      | Inr ch \<Rightarrow> map_prod (\<lambda>t. t) Inr
          (wrapMessageHandler new ch RequestDir True False (checkForSuppliedId newDest None) True s))"

definition ListenRequestOnceForDestination ::
  "uuid \<Rightarrow> string \<Rightarrow> uuid option \<Rightarrow> 'b transportEventBus_scheme \<Rightarrow> 'b mh_result" where
  "ListenRequestOnceForDestination new channelName destId s =
     (case getChannelFromManager channelName s of
        Inl err \<Rightarrow> (s, Inl err)
      | Inr ch \<Rightarrow>
          if destId = None then (s, Inl ''DestinationId cannot be nil'')
          else map_prod (\<lambda>t. t) Inr (wrapMessageHandler new ch RequestDir False False destId True s))"

definition ListenFirehose ::
  "uuid \<Rightarrow> string \<Rightarrow> 'b transportEventBus_scheme \<Rightarrow> 'b mh_result" where
  "ListenFirehose new channelName s =
     (case getChannelFromManager channelName s of
        Inl err \<Rightarrow> (s, Inl err)
      | Inr ch \<Rightarrow> map_prod (\<lambda>t. t) Inr (wrapMessageHandler new ch RequestDir True True None False s))"

definition ListenOnce ::
  "uuid \<Rightarrow> uuid \<Rightarrow> string \<Rightarrow> 'b transportEventBus_scheme \<Rightarrow> 'b mh_result" where
  "ListenOnce new newDest channelName s =
     (case getChannelFromManager channelName s of
        Inl err \<Rightarrow> (s, Inl err)
      | Inr ch \<Rightarrow> map_prod (\<lambda>t. t) Inr
          (wrapMessageHandler new ch ResponseDir True False (checkForSuppliedId newDest None) True s))"

definition ListenOnceForDestination ::
  "uuid \<Rightarrow> string \<Rightarrow> uuid option \<Rightarrow> 'b transportEventBus_scheme \<Rightarrow> 'b mh_result" where
  "ListenOnceForDestination new channelName destId s =
     (case getChannelFromManager channelName s of
        Inl err \<Rightarrow> (s, Inl err)
      | Inr ch \<Rightarrow>
          if destId = None then (s, Inl ''DestinationId cannot be nil'')
          else map_prod (\<lambda>t. t) Inr (wrapMessageHandler new ch ResponseDir False False destId True s))"

text \<open>The requests keep the message that \<^verbatim>\<open>Fire\<close> sends; \<open>newM\<close> is its id.\<close>

definition with_request ::
  "uuid \<Rightarrow> string \<Rightarrow> gval \<Rightarrow> uuid option \<Rightarrow> 'b transportEventBus_scheme \<times> addr \<Rightarrow> 'b mh_result" where
  "with_request newM channelName payload destId r =
     (case r of (s, a) \<Rightarrow>
        (upd_mh a (\<lambda>mh. mh\<lparr>mh_requestMessage :=
           Some (GenerateRequest newM (buildConfig newM channelName payload destId))\<rparr>) s, Inr a))"

definition RequestOnce ::
  "uuid \<Rightarrow> uuid \<Rightarrow> uuid \<Rightarrow> string \<Rightarrow> gval \<Rightarrow> 'b transportEventBus_scheme \<Rightarrow> 'b mh_result" where
  "RequestOnce new newDest newM channelName payload s =
     (case getChannelFromManager channelName s of
        Inl err \<Rightarrow> (s, Inl err)
      | Inr ch \<Rightarrow>
          let destId = checkForSuppliedId newDest None in
          with_request newM channelName payload destId
            (wrapMessageHandler new ch ResponseDir True False destId True s))"

definition RequestOnceForDestination ::
  "uuid \<Rightarrow> uuid \<Rightarrow> string \<Rightarrow> gval \<Rightarrow> uuid option \<Rightarrow> 'b transportEventBus_scheme \<Rightarrow> 'b mh_result" where
  "RequestOnceForDestination new newM channelName payload destId s =
     (case getChannelFromManager channelName s of
        Inl err \<Rightarrow> (s, Inl err)
      | Inr ch \<Rightarrow>
          if destId = None then (s, Inl ''DestinationId cannot be nil'')
          else with_request newM channelName payload destId
                 (wrapMessageHandler new ch ResponseDir False False destId True s))"

definition RequestStream ::
  "uuid \<Rightarrow> uuid \<Rightarrow> uuid \<Rightarrow> string \<Rightarrow> gval \<Rightarrow> 'b transportEventBus_scheme \<Rightarrow> 'b mh_result" where
  "RequestStream new newDest newM channelName payload s =
     (case getChannelFromManager channelName s of
        Inl err \<Rightarrow> (s, Inl err)
      | Inr ch \<Rightarrow>
          let destId = checkForSuppliedId newDest None in
          with_request newM channelName payload destId
            (wrapMessageHandler new ch ResponseDir True False destId False s))"

definition RequestStreamForDestination ::
  "uuid \<Rightarrow> uuid \<Rightarrow> string \<Rightarrow> gval \<Rightarrow> uuid option \<Rightarrow> 'b transportEventBus_scheme \<Rightarrow> 'b mh_result" where
  "RequestStreamForDestination new newM channelName payload destId s =
     (case getChannelFromManager channelName s of
        Inl err \<Rightarrow> (s, Inl err)
      | Inr ch \<Rightarrow>
          if destId = None then (s, Inl ''DestinationId cannot be nil'')
          else with_request newM channelName payload destId
                 (wrapMessageHandler new ch ResponseDir False False destId False s))"

subsection \<open>Monitor listeners and brokers\<close>

definition AddMonitorEventListener ::
  "closure \<Rightarrow> MonitorEventType list \<Rightarrow> 'b busState_scheme \<Rightarrow> 'b busState_scheme \<times> nat" where
  "AddMonitorEventListener listener eventTypes s =
     (case addListener listener eventTypes (monitor s) of (m, i) \<Rightarrow> (s\<lparr>monitor := m\<rparr>, i))"

definition RemoveMonitorEventListener :: "nat \<Rightarrow> 'b busState_scheme \<Rightarrow> 'b busState_scheme" where
  "RemoveMonitorEventListener listenerId s = s\<lparr>monitor := removeListener listenerId (monitor s)\<rparr>"

text \<open>The new connection is put at a fresh address; the table is keyed by the pointer to its id.\<close>

definition ConnectBroker ::
  "nat \<Rightarrow> error option \<Rightarrow> error option \<Rightarrow> bool \<Rightarrow> uuid \<Rightarrow> BrokerConnectorConfig option
     \<Rightarrow> 'b transportEventBus_scheme \<Rightarrow> ('b transportEventBus_scheme \<times> (error + addr)) go" where
  "ConnectBroker basic_tls tls_err dial_err accepted new config s =
     go_map (\<lambda>(bk, r).
        case r of
          Inl e \<Rightarrow> (s\<lparr>eb_bc := bk\<rparr>, Inl e)
        | Inr c \<Rightarrow>
            let a = nextConn s in
            (s\<lparr>eb_bc := bk, conns := (conns s)(a := c), nextConn := Suc a,
               brokerConnections := (brokerConnections s)(a \<mapsto> a)\<rparr>, Inr a))
       (brokerConnector_Connect basic_tls tls_err dial_err accepted new config (eb_bc s))"

end
