(* ===== verification/BusInvariants.thy ===== *)
theory BusInvariants
  imports EventBus
begin

text \<open>
  The invariants of the bus and that every operation of the channel manager and of the event
  bus, and both halves of every delivering goroutine, keep them: the table of channels points to
  channels of that name, each channel's wait group counts its goroutines, a once handler has made
  at most one call, and a once body that is open belongs to a running goroutine.
\<close>

subsection \<open>Frame rules\<close>

lemma NewChannel_simps [simp]:
  "ch_Name (NewChannel n) = n" "ch_running (NewChannel n) = []" "ch_inflight (NewChannel n) = []"
  "ch_wg (NewChannel n) = 0"
  by (simp_all add: NewChannel_def)

lemma upd_chan_simps [simp]:
  "Channels (upd_chan a f s) = Channels s"
  "chans (upd_chan a f s) = (chans s)(a := f (chans s a))"
  "nextChan (upd_chan a f s) = nextChan s"
  "conns (upd_chan a f s) = conns s"
  "monitor (upd_chan a f s) = monitor s"
  "pendingEvents (upd_chan a f s) = pendingEvents s"
  "calls (upd_chan a f s) = calls s"
  by (simp_all add: upd_chan_def)

lemma upd_conn_simps [simp]:
  "Channels (upd_conn a c s) = Channels s"
  "chans (upd_conn a c s) = chans s"
  "nextChan (upd_conn a c s) = nextChan s"
  "conns (upd_conn a c s) = (conns s)(a := c)"
  "monitor (upd_conn a c s) = monitor s"
  "pendingEvents (upd_conn a c s) = pendingEvents s"
  "calls (upd_conn a c s) = calls s"
  by (simp_all add: upd_conn_def)

lemma SendMonitorEvent_simps [simp]:
  "Channels (SendMonitorEvent t n d s) = Channels s"
  "chans (SendMonitorEvent t n d s) = chans s"
  "nextChan (SendMonitorEvent t n d s) = nextChan s"
  "conns (SendMonitorEvent t n d s) = conns s"
  "monitor (SendMonitorEvent t n d s) = monitor s"
  "pendingEvents (SendMonitorEvent t n d s) = pendingEvents s"
  "calls (SendMonitorEvent t n d s) = calls s @ sendEvent (NewMonitorEvent t n d) (monitor s)"
  by (simp_all add: SendMonitorEvent_def)

lemma go_SendMonitorEvent_simps [simp]:
  "Channels (go_SendMonitorEvent t n d s) = Channels s"
  "chans (go_SendMonitorEvent t n d s) = chans s"
  "nextChan (go_SendMonitorEvent t n d s) = nextChan s"
  "conns (go_SendMonitorEvent t n d s) = conns s"
  "monitor (go_SendMonitorEvent t n d s) = monitor s"
  "calls (go_SendMonitorEvent t n d s) = calls s"
  by (simp_all add: go_SendMonitorEvent_def)

lemma mhandlers_frame [simp]:
  "mhandlers (upd_chan a f s) = mhandlers s"
  "mhandlers (upd_conn a c s) = mhandlers s"
  "mhandlers (SendMonitorEvent t n d s) = mhandlers s"
  "mhandlers (go_SendMonitorEvent t n d s) = mhandlers s"
  "nextMH (upd_chan a f s) = nextMH s"
  "nextMH (upd_conn a c s) = nextMH s"
  "nextMH (SendMonitorEvent t n d s) = nextMH s"
  "nextMH (go_SendMonitorEvent t n d s) = nextMH s"
  by (simp_all add: upd_chan_def upd_conn_def SendMonitorEvent_def go_SendMonitorEvent_def)

lemma upd_mh_simps [simp]:
  "Channels (upd_mh a g s) = Channels s"
  "chans (upd_mh a g s) = chans s"
  "nextChan (upd_mh a g s) = nextChan s"
  "monitor (upd_mh a g s) = monitor s"
  "calls (upd_mh a g s) = calls s"
  "nextMH (upd_mh a g s) = nextMH s"
  "mhandlers (upd_mh a g s) = (mhandlers s)(a := g (mhandlers s a))"
  by (simp_all add: upd_mh_def)

lemma GetChannel_Inr [simp]: "GetChannel n s = Inr a \<longleftrightarrow> Channels s n = Some a"
  by (auto simp: GetChannel_def split: option.splits)

lemma GetChannel_Inl: "GetChannel n s = Inl e \<longleftrightarrow>
    Channels s n = None \<and> e = ''Channel does not exist: '' @ n"
  by (auto simp: GetChannel_def split: option.splits)

subsection \<open>Invariants\<close>

definition chan_inv :: "'b busState_scheme \<Rightarrow> bool" where
  "chan_inv s \<longleftrightarrow> (\<forall>n a. Channels s n = Some a \<longrightarrow> a < nextChan s \<and> ch_Name (chans s a) = n) \<and>
     (\<forall>a. channel_wf (chans s a)) \<and> monitor_wf (monitor s)"

definition mh_ok :: "messageHandler \<Rightarrow> bool" where
  "mh_ok mh \<longleftrightarrow> mh_runCount mh = of_nat (length (mh_invoked mh)) \<and>
     (case mh_invokeOnce mh of
        None \<Rightarrow> True
      | Some OnceFresh \<Rightarrow> mh_invoked mh = []
      | Some _ \<Rightarrow> length (mh_invoked mh) = 1)"

definition mh_inv :: "'b transportEventBus_scheme \<Rightarrow> bool" where
  "mh_inv s \<longleftrightarrow> (\<forall>a. mh_ok (mhandlers s a) \<and> mset (mh_invoked (mhandlers s a)) \<subseteq># mset (calls s))"

text \<open>
  A once body that is open belongs to a goroutine that is running; a goroutine that has a once
  body to close belongs to a handler whose once was entered.
\<close>

definition once_inv :: "'b transportEventBus_scheme \<Rightarrow> bool" where
  "once_inv s \<longleftrightarrow> (\<forall>a. mh_invokeOnce (mhandlers s a) = Some OnceRunning \<longrightarrow>
     (\<exists>ch h. ch < nextChan s \<and> (h, True) \<in> set (ch_running (chans s ch)) \<and>
        h_callBackFunction h = WrapperFn a)) \<and>
     (\<forall>ch h a. (h, True) \<in> set (ch_running (chans s ch)) \<longrightarrow> h_callBackFunction h = WrapperFn a \<longrightarrow>
        mh_invokeOnce (mhandlers s a) \<in> {Some OnceRunning, Some OnceUsed}) \<and>
     (\<forall>a\<ge>nextMH s. mh_invokeOnce (mhandlers s a) = None)"

definition bus_inv :: "'b transportEventBus_scheme \<Rightarrow> bool" where
  "bus_inv s \<longleftrightarrow> chan_inv s \<and> mh_inv s \<and> once_inv s"

text \<open>A step that leaves the message handlers and the running goroutines alone.\<close>

definition quiet :: "'b transportEventBus_scheme \<Rightarrow> 'b transportEventBus_scheme \<Rightarrow> bool" where
  "quiet s s' \<longleftrightarrow> mhandlers s' = mhandlers s \<and> (\<exists>cs. calls s' = calls s @ cs) \<and>
     nextMH s' = nextMH s \<and> nextChan s \<le> nextChan s' \<and>
     (\<forall>a. ch_running (chans s' a) = ch_running (chans s a) \<or>
        nextChan s \<le> a \<and> ch_running (chans s' a) = [])"

lemma quiet_refl [simp]: "quiet s s"
  by (simp add: quiet_def)

lemma quiet_trans: "quiet s t \<Longrightarrow> quiet t u \<Longrightarrow> quiet s u"
  unfolding quiet_def by (metis append.assoc le_trans)

lemma quiet_preserves:
  assumes "quiet s s'"
  shows "mh_inv s \<Longrightarrow> mh_inv s'" and "once_inv s \<Longrightarrow> once_inv s'"
proof -
  obtain cs where c: "calls s' = calls s @ cs" using assms by (auto simp: quiet_def)
  show "mh_inv s \<Longrightarrow> mh_inv s'"
    using assms c by (auto simp: quiet_def mh_inv_def intro: subset_mset.order_trans)
  show "once_inv s \<Longrightarrow> once_inv s'"
  proof -
    assume inv: "once_inv s"
    have eq: "mhandlers s' = mhandlers s" "nextMH s' = nextMH s" "nextChan s \<le> nextChan s'"
      using assms by (auto simp: quiet_def)
    have run: "set (ch_running (chans s' a)) \<subseteq> set (ch_running (chans s a))"
      "a < nextChan s \<Longrightarrow> ch_running (chans s' a) = ch_running (chans s a)" for a
      using assms unfolding quiet_def by (metis empty_set empty_subsetI subset_refl, metis leD)
    show ?thesis
      unfolding once_inv_def eq(1,2)
    proof (intro conjI allI impI)
      fix a assume "mh_invokeOnce (mhandlers s a) = Some OnceRunning"
      with inv obtain ch h where "ch < nextChan s" "(h, True) \<in> set (ch_running (chans s ch))"
        "h_callBackFunction h = WrapperFn a" unfolding once_inv_def by blast
      with eq(3) run(2)[of ch] show "\<exists>ch h. ch < nextChan s' \<and>
          (h, True) \<in> set (ch_running (chans s' ch)) \<and> h_callBackFunction h = WrapperFn a"
        by (metis less_le_trans)
    qed (use inv run(1) in \<open>unfold once_inv_def, blast+\<close>)
  qed
qed

lemma chan_inv_upd:
  assumes "chan_inv s" and "ch_Name (f (chans s a)) = ch_Name (chans s a)" and "channel_wf (f (chans s a))"
  shows "chan_inv (upd_chan a f s)"
  using assms by (auto simp: chan_inv_def)

lemma chan_inv_event: "chan_inv (SendMonitorEvent t n d s) = chan_inv s"
  "chan_inv (go_SendMonitorEvent t n d s) = chan_inv s"
  "chan_inv (upd_conn c k s) = chan_inv s"
  "chan_inv (upd_mh m g t0) = chan_inv t0"
  by (simp_all add: chan_inv_def)

subsection \<open>The channel manager keeps the invariants\<close>

lemma chan_wfD: "chan_inv s \<Longrightarrow> channel_wf (chans s a)"
  by (simp add: chan_inv_def)

lemma CreateChannel_inv: "chan_inv s \<Longrightarrow> chan_inv (fst (CreateChannel n s))"
  by (auto simp: CreateChannel_def Let_def chan_inv_def channel_wf_new less_Suc_eq
      split: option.splits)

lemma CreateChannel_quiet: "quiet s (fst (CreateChannel n s))"
  by (auto simp: CreateChannel_def Let_def quiet_def split: option.splits)

lemma DestroyChannel_inv: "chan_inv s \<Longrightarrow> chan_inv (DestroyChannel n s)"
  by (auto simp: DestroyChannel_def chan_inv_def)

lemma DestroyChannel_quiet: "quiet s (DestroyChannel n s)"
  by (auto simp: DestroyChannel_def quiet_def)

definition fresh_id :: "uuid \<Rightarrow> 'b busState_scheme \<Rightarrow> bool" where
  "fresh_id new s \<longleftrightarrow> (\<forall>a. new \<notin> h_uuid ` set (ch_eventHandlers (chans s a)))"

lemma subscribeHandler_name [simp]:
  "ch_Name (subscribeHandler fn once uid ch) = ch_Name ch"
  "ch_running (subscribeHandler fn once uid ch) = ch_running ch"
  by (simp_all add: subscribeHandler_def)

lemma SubscribeChannelHandler_inv:
  "chan_inv s \<Longrightarrow> fresh_id new s \<Longrightarrow> chan_inv (fst (SubscribeChannelHandler new n fn once s))"
  by (simp add: SubscribeChannelHandler_def split: sum.split)
    (simp add: chan_inv_event chan_inv_upd channel_wf_subscribe chan_wfD fresh_id_def subscribeHandler_name)

lemma SubscribeChannelHandler_quiet: "quiet s (fst (SubscribeChannelHandler new n fn once s))"
  by (auto simp: SubscribeChannelHandler_def quiet_def split: sum.splits)

lemma unsubscribeHandler_frame:
  "unsubscribeHandler u ch = Done (ch', b) \<Longrightarrow> ch_Name ch' = ch_Name ch \<and> ch_running ch' = ch_running ch"
  by (auto simp: unsubscribeHandler_def split: option.splits if_splits)

lemma UnsubscribeChannelHandler_cases:
  assumes "UnsubscribeChannelHandler n u s = Done (s', e)"
  obtains "s' = s" | a ch where "Channels s n = Some a" "unsubscribeHandler u (chans s a) = Done (ch, True)"
    "s' = SendMonitorEvent ChannelSubscriberLeftEvt n None (upd_chan a (\<lambda>_. ch) s)"
proof (cases "GetChannel n s")
  case (Inl err)
  with assms have "s' = s" by (simp add: UnsubscribeChannelHandler_def)
  with that(1) show ?thesis .
next
  case (Inr a)
  with assms obtain ch found where u: "unsubscribeHandler u (chans s a) = Done (ch, found)"
    by (auto simp: UnsubscribeChannelHandler_def go_map_Done_iff)
  show ?thesis
  proof (cases found)
    case True
    with assms Inr u have "s' = SendMonitorEvent ChannelSubscriberLeftEvt n None (upd_chan a (\<lambda>_. ch) s)"
      by (simp add: UnsubscribeChannelHandler_def)
    with that(2) Inr u True show ?thesis by simp
  next
    case False
    with assms Inr u have "s' = s" by (simp add: UnsubscribeChannelHandler_def)
    with that(1) show ?thesis .
  qed
qed

lemma UnsubscribeChannelHandler_inv:
  assumes "chan_inv s" and "UnsubscribeChannelHandler n u s = Done (s', e)"
  shows "chan_inv s'"
  using assms(2)
proof (cases rule: UnsubscribeChannelHandler_cases)
  case (2 a ch)
  have "channel_wf ch" using channel_wf_unsubscribe[OF chan_wfD[OF assms(1)] 2(2)] .
  with 2(3) assms(1) unsubscribeHandler_frame[OF 2(2)] show ?thesis
    by (simp add: chan_inv_event chan_inv_upd)
qed (use assms in simp)

lemma UnsubscribeChannelHandler_quiet:
  assumes "UnsubscribeChannelHandler n u s = Done (s', e)"
  shows "quiet s s'"
  using assms
proof (cases rule: UnsubscribeChannelHandler_cases)
  case (2 a ch)
  with unsubscribeHandler_frame[OF 2(2)] show ?thesis by (auto simp: quiet_def)
qed simp

lemma runPendingEvent_inv: "chan_inv s \<Longrightarrow> chan_inv (runPendingEvent i s)" "quiet s' (runPendingEvent i s')"
  by (auto simp: runPendingEvent_def chan_inv_def quiet_def)

lemma galactic_frame [simp]:
  "ch_Name (SetGalactic d ch) = ch_Name ch" "ch_running (SetGalactic d ch) = ch_running ch"
  "channel_wf (SetGalactic d ch) = channel_wf ch"
  "ch_Name (SetLocal ch) = ch_Name ch" "ch_running (SetLocal ch) = ch_running ch"
  "channel_wf (SetLocal ch) = channel_wf ch"
  "ch_Name (addBrokerConnection c ch) = ch_Name ch" "ch_running (addBrokerConnection c ch) = ch_running ch"
  "channel_wf (addBrokerConnection c ch) = channel_wf ch"
  "ch_Name (addBrokerSubscription c u ch) = ch_Name ch" "ch_running (addBrokerSubscription c u ch) = ch_running ch"
  "channel_wf (addBrokerSubscription c u ch) = channel_wf ch"
  "ch_Name (removeBrokerConnections ch) = ch_Name ch" "ch_running (removeBrokerConnections ch) = ch_running ch"
  "channel_wf (removeBrokerConnections ch) = channel_wf ch"
  "ch_Name (notify_mapped b ch) = ch_Name ch" "ch_running (notify_mapped b ch) = ch_running ch"
  "channel_wf (notify_mapped b ch) = channel_wf ch"
  by (simp_all add: SetGalactic_def SetLocal_def addBrokerConnection_def addBrokerSubscription_def
      removeBrokerConnections_def notify_mapped_def channel_wf_def)

text \<open>The galactic operations change the channel only in its broker fields.\<close>

lemma quiet_upd:
  "(\<And>c. ch_running (f c) = ch_running c) \<Longrightarrow> quiet s (upd_chan a f s)"
  by (simp add: quiet_def)

lemma quiet_event [simp]: "quiet s (SendMonitorEvent t n d s)" "quiet s (upd_conn c k s)"
  by (simp_all add: quiet_def)

definition calm :: "'b transportEventBus_scheme \<Rightarrow> 'b transportEventBus_scheme \<Rightarrow> bool" where
  "calm s s' \<longleftrightarrow> quiet s s' \<and> (chan_inv s \<longrightarrow> chan_inv s')"

lemma calm_refl [simp]: "calm s s"
  by (simp add: calm_def)

lemma calm_trans: "calm s t \<Longrightarrow> calm t u \<Longrightarrow> calm s u"
  unfolding calm_def by (blast intro: quiet_trans)

lemma calm_upd:
  assumes "\<And>c. ch_running (f c) = ch_running c" and "\<And>c. ch_Name (f c) = ch_Name c"
    and "\<And>c. channel_wf c \<Longrightarrow> channel_wf (f c)"
  shows "calm s (upd_chan a f s)"
  unfolding calm_def using assms by (auto intro!: quiet_upd chan_inv_upd chan_wfD)

lemma calm_event: "calm s (SendMonitorEvent t n d s)" "calm s (upd_conn c k s)"
  by (simp_all add: calm_def chan_inv_event)

lemma calm_preserves: "calm s s' \<Longrightarrow> bus_inv s \<Longrightarrow> bus_inv s'"
  by (auto simp: calm_def bus_inv_def intro: quiet_preserves)

lemma handleGalacticChannelEvent_calm:
  assumes "handleGalacticChannelEvent tcp_ok new new_m n conn dest s = Done s'"
  shows "calm s s'"
proof (cases conn)
  case (Some c)
  show ?thesis
  proof (cases "GetChannel n s")
    case (Inr ch)
    show ?thesis
    proof (cases "isBrokerSubscribedToDestination c dest (chans s ch)")
      case False
      obtain k r where "connection_Subscribe tcp_ok new dest (Some (conns s c)) = Done (k, r)"
        using assms Some Inr False by (auto simp: handleGalacticChannelEvent_def go_bind_Done_iff)
      with assms Some Inr False show ?thesis
        by (auto simp: handleGalacticChannelEvent_def Let_def split: sum.splits option.splits
            intro!: calm_event calm_trans[OF _ calm_upd] calm_trans[OF _ calm_event(1)])
    qed (use assms Some Inr in \<open>simp add: handleGalacticChannelEvent_def\<close>)
  qed (use assms Some in \<open>simp add: handleGalacticChannelEvent_def\<close>)
qed (use assms in \<open>simp add: handleGalacticChannelEvent_def\<close>)

lemma MarkChannelAsGalactic_calm:
  assumes "MarkChannelAsGalactic tcp_ok new new_m n dest conn s = Done (s', e)"
  shows "calm s s'"
proof (cases "GetChannel n s")
  case (Inr ch)
  with assms have "handleGalacticChannelEvent tcp_ok new new_m n conn dest (upd_chan ch (SetGalactic dest) s) = Done s'"
    by (auto simp: MarkChannelAsGalactic_def go_map_Done_iff)
  from handleGalacticChannelEvent_calm[OF this] show ?thesis
    by (rule calm_trans[rotated]) (rule calm_upd; simp)
qed (use assms in \<open>simp add: MarkChannelAsGalactic_def\<close>)

lemma local_loop_calm: "local_loop new_m n ch i k arr len s = Done s' \<Longrightarrow> calm s s'"
proof (induction k arbitrary: i arr len s)
  case 0
  then show ?case by (auto intro!: calm_upd simp: channel_wf_def)
next
  case (Suc k)
  from Suc.prems obtain c sub where cs: "cs_c (arr ! i) = Some c" "cs_s (arr ! i) = Some sub"
    by (auto split: option.splits)
  with Suc.prems obtain cn e where u: "subscription_Unsubscribe sub (conns s c) = Done (cn, e)"
    by (auto simp: go_bind_Done_iff)
  have c0: "calm s (upd_conn c cn s)" by (rule calm_event)
  show ?case
  proof (cases "e = None")
    case True
    let ?m = "GenerateResponse (new_m i) (zero_MessageConfig\<lparr>cfg_Payload := GString (sub_destination sub)\<rparr>)"
    let ?s1 = "upd_chan ch (notify_mapped False)
      (SendMonitorEvent BrokerUnsubscribedEvt n (Some ?m) (upd_conn c cn s))"
    from Suc.prems cs u True obtain arr' len' where
      r: "removeBrokerSubscription_arr (sub_id sub) arr len = Done (arr', len')"
      by (auto simp: go_bind_Done_iff Let_def)
    with Suc.prems cs u True have "local_loop new_m n ch (Suc i) k arr' len' ?s1 = Done s'"
      by (simp add: Let_def)
    then have "calm ?s1 s'" by (rule Suc.IH)
    moreover have "calm s ?s1"
      by (rule calm_trans[OF calm_trans[OF c0 calm_event(1)] calm_upd]) simp_all
    ultimately show ?thesis by (rule calm_trans[rotated])
  next
    case False
    with Suc.prems cs u have "local_loop new_m n ch (Suc i) k arr len (upd_conn c cn s) = Done s'"
      by (simp add: Let_def)
    from Suc.IH[OF this] c0 show ?thesis by (rule calm_trans[rotated])
  qed
qed

lemma MarkChannelAsLocal_calm:
  assumes "MarkChannelAsLocal new_m n s = Done (s', e)"
  shows "calm s s'"
proof (cases "GetChannel n s")
  case (Inr ch)
  let ?s0 = "upd_chan ch (removeBrokerConnections \<circ> SetLocal) s"
  from assms have "handleLocalChannelEvent new_m n ?s0 = Done s'"
    unfolding MarkChannelAsLocal_def Inr by (auto simp: go_map_Done_iff)
  then obtain t ch' where "local_loop new_m n ch' 0 (length (ch_brokerSubs (chans ?s0 ch')))
      (ch_brokerSubs (chans ?s0 ch')) (length (ch_brokerSubs (chans ?s0 ch'))) ?s0 = Done t"
    and s': "s' = upd_chan ch' removeBrokerConnections t"
    by (auto simp: handleLocalChannelEvent_def go_map_Done_iff Let_def split: sum.splits)
  then have "calm ?s0 t" by (intro local_loop_calm)
  moreover have "calm s ?s0" "calm t s'" unfolding s' by (rule calm_upd; simp)+
  ultimately show ?thesis by (blast intro: calm_trans)
qed (use assms in \<open>simp add: MarkChannelAsLocal_def\<close>)

text \<open>Sending.\<close>

lemma sendMessageToChannel_calm: "calm s (sendMessageToChannel ch m s)"
  unfolding sendMessageToChannel_def
  by (rule calm_upd) (simp_all add: Channel_Send_simps channel_wf_send)

lemma send_calm:
  "calm s (fst (SendResponseMessage new n p d s))" "calm s (fst (SendBroadcastMessage new n p s))"
  "calm s (fst (SendRequestMessage new n p d s))" "calm s (fst (SendErrorMessage new n err d s))"
  "calm s (fst (Fire_send a s))"
  by (auto simp: SendResponseMessage_def SendBroadcastMessage_def SendRequestMessage_def
      SendErrorMessage_def Fire_send_def sendMessageToChannel_calm split: sum.split option.split)

lemma monitor_calm:
  "calm s (fst (AddMonitorEventListener l ts s))" "calm s (RemoveMonitorEventListener i s)"
  "calm s (runPendingEvent i s)"
proof -
  have "chan_inv s \<Longrightarrow> monitor_wf (fst (addListener l ts (monitor s)))"
    by (auto intro: addListener_wf simp: chan_inv_def)
  then show "calm s (fst (AddMonitorEventListener l ts s))"
    by (auto simp: AddMonitorEventListener_def calm_def quiet_def chan_inv_def split: prod.split)
  show "calm s (RemoveMonitorEventListener i s)"
    by (auto simp: RemoveMonitorEventListener_def calm_def quiet_def chan_inv_def removeListener_wf)
  show "calm s (runPendingEvent i s)" by (simp add: calm_def runPendingEvent_inv)
qed

subsection \<open>Message handlers keep the invariants\<close>

lemma mh_inv_upd:
  assumes "mh_inv s" and "mh_ok (f (mhandlers s a))" and "mh_invoked (f (mhandlers s a)) = mh_invoked (mhandlers s a)"
  shows "mh_inv (upd_mh a f s)"
  using assms by (simp add: mh_inv_def)

lemma upd_mh_inv:
  assumes "bus_inv s" and "\<And>mh. mh_runCount (f mh) = mh_runCount mh"
    and "\<And>mh. mh_invokeOnce (f mh) = mh_invokeOnce mh" and "\<And>mh. mh_invoked (f mh) = mh_invoked mh"
  shows "bus_inv (upd_mh a f s)"
proof -
  have "mh_ok (f mh) = mh_ok mh" for mh unfolding mh_ok_def assms(2-4) ..
  then have "mh_inv (upd_mh a f s)"
    using assms(1) by (intro mh_inv_upd) (simp_all add: bus_inv_def mh_inv_def assms(4))
  moreover have "once_inv (upd_mh a f s)"
    using assms(1) unfolding bus_inv_def once_inv_def by (simp add: assms(3))
  ultimately show ?thesis using assms(1) by (simp add: bus_inv_def chan_inv_event)
qed

lemma wrapMessageHandler_inv:
  "bus_inv s \<Longrightarrow> bus_inv (fst (wrapMessageHandler new ch dir ign all d once s))"
  by (fastforce simp: bus_inv_def chan_inv_def mh_inv_def once_inv_def wrapMessageHandler_def Let_def
      mh_ok_def createMessageHandler_def)

lemma with_request_inv:
  "bus_inv (fst r) \<Longrightarrow> bus_inv (fst (with_request newM n p d r))"
  by (cases r) (simp add: with_request_def upd_mh_inv)

lemma Handle_inv: "bus_inv s \<Longrightarrow> fresh_id new s \<Longrightarrow> bus_inv (Handle new a f g s)"
proof -
  assume inv: "bus_inv s" and fr: "fresh_id new s"
  let ?s1 = "upd_mh a (\<lambda>mh. mh\<lparr>mh_successHandler := f, mh_errorHandler := g\<rparr>) s"
  let ?n = "ch_Name (chans ?s1 (mh_channel (mhandlers ?s1 a)))"
  have 1: "bus_inv ?s1" using inv by (rule upd_mh_inv) simp_all
  have "fresh_id new ?s1" using fr by (simp add: fresh_id_def)
  then have 2: "bus_inv (fst (SubscribeChannelHandler new ?n (WrapperFn a) False ?s1))"
    using 1 SubscribeChannelHandler_inv[of ?s1] quiet_preserves[OF SubscribeChannelHandler_quiet, of ?s1]
    by (simp add: bus_inv_def)
  have 3: "bus_inv (upd_mh a (\<lambda>mh. mh\<lparr>mh_subscriptionId := i\<rparr>) (fst (SubscribeChannelHandler new ?n (WrapperFn a) False ?s1)))" for i
    using 2 by (rule upd_mh_inv) simp_all
  show ?thesis
    using 3 by (simp add: Handle_def Let_def split: prod.split sum.split) (metis fst_conv)
qed

lemma UnsubscribeChannelHandler_calm: "UnsubscribeChannelHandler n u s = Done (s', e) \<Longrightarrow> calm s s'"
  by (auto simp: calm_def intro: UnsubscribeChannelHandler_quiet UnsubscribeChannelHandler_inv)

lemma MessageHandler_Close_calm: "MessageHandler_Close a s = Done s' \<Longrightarrow> calm s s'"
  by (auto simp: MessageHandler_Close_def Let_def go_map_Done_iff intro: UnsubscribeChannelHandler_calm
      split: if_splits)

subsection \<open>Goroutines keep the invariants\<close>

lemma invokeHandler_cases [consumes 1, case_names skip plain once]:
  assumes "invokeHandler a c s = Done (s1, owes)"
  obtains "s1 = s" "owes = False"
    | k where "c = Some k" "mh_invokeOnce (mhandlers s a) = None" "\<not> owes"
      "s1 = (upd_mh a (\<lambda>mh. mh\<lparr>mh_runCount := mh_runCount mh + 1, mh_invoked := mh_invoked mh @ [k]\<rparr>) s)
              \<lparr>calls := calls s @ [k]\<rparr>"
    | k where "c = Some k" "mh_invokeOnce (mhandlers s a) = Some OnceFresh" "owes"
      "s1 = upd_mh a (\<lambda>mh. mh\<lparr>mh_invokeOnce := Some OnceRunning\<rparr>)
         ((upd_mh a (\<lambda>mh. mh\<lparr>mh_runCount := mh_runCount mh + 1, mh_invoked := mh_invoked mh @ [k]\<rparr>) s)
              \<lparr>calls := calls s @ [k]\<rparr>)"
proof (cases c)
  case None
  with assms that(1) show ?thesis by (simp add: invokeHandler_def)
next
  case (Some k)
  show ?thesis
  proof (cases "mh_invokeOnce (mhandlers s a)")
    case None
    with assms that(2) Some show ?thesis by (simp add: invokeHandler_def Let_def)
  next
    case (Some o1)
    note eq = assms[unfolded invokeHandler_def \<open>c = Some k\<close> Some Let_def]
    show ?thesis
    proof (cases o1)
      case OnceFresh
      with eq Some \<open>c = Some k\<close> show ?thesis by (intro that(3)) auto
    next
      case OnceUsed
      with eq show ?thesis by (intro that(1)) simp_all
    qed (use eq in simp)
  qed
qed

lemma invokeHandler_frame:
  assumes "invokeHandler a c s = Done (s1, owes)"
  shows "chans s1 = chans s" and "Channels s1 = Channels s" and "nextChan s1 = nextChan s"
    and "monitor s1 = monitor s" and "nextMH s1 = nextMH s"
    and "b \<noteq> a \<Longrightarrow> mhandlers s1 b = mhandlers s b"
    and "owes \<Longrightarrow> mh_invokeOnce (mhandlers s1 a) = Some OnceRunning \<and> mh_invokeOnce (mhandlers s a) = Some OnceFresh"
    and "\<not> owes \<Longrightarrow> mh_invokeOnce (mhandlers s1 a) = mh_invokeOnce (mhandlers s a)"
  using assms by (cases rule: invokeHandler_cases; simp add: upd_mh_def)+

lemma invokeHandler_mh_inv:
  assumes "mh_inv s" and "invokeHandler a c s = Done (s1, owes)"
  shows "mh_inv s1"
proof -
  have ok: "mh_ok (mhandlers s d)" "mset (mh_invoked (mhandlers s d)) \<subseteq># mset (calls s)" for d
    using assms(1) by (auto simp: mh_inv_def)
  have sub: "mset (mh_invoked (mhandlers s d)) \<subseteq># add_mset k (mset (calls s))" for d k
    using ok(2)[of d] by (rule subset_mset.order_trans) simp
  from assms(2) show ?thesis
  proof (cases rule: invokeHandler_cases)
    case skip
    with assms(1) show ?thesis by simp
  next
    case (plain k)
    have "mh_ok ((mhandlers s a)\<lparr>mh_runCount := mh_runCount (mhandlers s a) + 1,
        mh_invoked := mh_invoked (mhandlers s a) @ [k]\<rparr>)"
      using ok(1)[of a] plain(2) by (simp add: mh_ok_def)
    with plain ok sub show ?thesis by (simp add: mh_inv_def upd_mh_def)
  next
    case (once k)
    with ok(1)[of a] have "mh_invoked (mhandlers s a) = []" "mh_runCount (mhandlers s a) = 0"
      by (auto simp: mh_ok_def)
    with once ok sub show ?thesis by (simp add: mh_inv_def upd_mh_def mh_ok_def[of "_\<lparr>mh_invokeOnce := _\<rparr>"])
  qed
qed

text \<open>The call that a wrapper makes of a message, if any.\<close>

definition accepts :: "messageHandler \<Rightarrow> Message \<Rightarrow> bool" where
  "accepts mh msg \<longleftrightarrow> (if mh_allTraffic mh then msg_Direction msg \<noteq> ErrorDir
     else msg_Direction msg = mh_direction mh \<and> (mh_ignoreId mh \<or> dest_matches mh msg))"

definition wrapper_call :: "messageHandler \<Rightarrow> Message \<Rightarrow> call option" where
  "wrapper_call mh msg =
     (if accepts mh msg then map_option (\<lambda>f. MsgCall f msg) (mh_successHandler mh)
      else if msg_Direction msg = ErrorDir then map_option (\<lambda>f. ErrCall f (msg_Error msg)) (mh_errorHandler mh)
      else None)"

lemma handlerWrapper_eq: "handlerWrapper a m s = invokeHandler a (wrapper_call (mhandlers s a) m) s"
proof -
  have "invokeHandler a None s = Done (s, False)" by (simp add: invokeHandler_def)
  then show ?thesis unfolding handlerWrapper_def wrapper_call_def accepts_def Let_def by auto
qed

lemma chan_inv_cong:
  "chans s1 = chans s \<Longrightarrow> Channels s1 = Channels s \<Longrightarrow> nextChan s1 = nextChan s \<Longrightarrow> monitor s1 = monitor s
     \<Longrightarrow> chan_inv s1 = chan_inv s"
  by (simp add: chan_inv_def)

lemma startHandler_simps [simp]:
  "ch_Name (startHandler i b ch) = ch_Name ch"
  "ch_running (startHandler i b ch) = ch_running ch @ [(fst (ch_inflight ch ! i), b)]"
  "ch_inflight (startHandler i b ch) = remove_at i (ch_inflight ch)"
  by (simp_all add: startHandler_def)

lemma finishHandler_simps [simp]:
  "ch_Name (finishHandler j ch) = ch_Name ch"
  "ch_running (finishHandler j ch) = remove_at j (ch_running ch)"
  "ch_inflight (finishHandler j ch) = ch_inflight ch"
  by (simp_all add: finishHandler_def Let_def)

lemma start_plain_inv:
  assumes "bus_inv s" and "channel_wf (startHandler i False (chans s ch))"
  shows "bus_inv (upd_chan ch (startHandler i False) s)"
proof -
  have "chan_inv (upd_chan ch (startHandler i False) s)"
    using assms by (intro chan_inv_upd) (auto simp: bus_inv_def)
  moreover have "mh_inv (upd_chan ch (startHandler i False) s)"
    using assms(1) by (simp add: bus_inv_def mh_inv_def)
  moreover have "once_inv (upd_chan ch (startHandler i False) s)"
  proof -
    have "((g, True) \<in> set (ch_running (chans (upd_chan ch (startHandler i False) s) c))) =
        ((g, True) \<in> set (ch_running (chans s c)))" for g c by simp
    with assms(1) show ?thesis unfolding bus_inv_def once_inv_def by simp
  qed
  ultimately show ?thesis by (simp add: bus_inv_def)
qed

lemma startTask_inv:
  assumes inv: "bus_inv s" and ch: "ch < nextChan s" and i: "i < length (ch_inflight (chans s ch))"
    and st: "startTask ch i s = Done s'"
  shows "bus_inv s'"
proof -
  obtain h m where hm: "ch_inflight (chans s ch) ! i = (h, m)" by (cases "ch_inflight (chans s ch) ! i")
  have wf: "channel_wf (startHandler i b (chans s ch))" for b
    using inv i by (intro channel_wf_start) (auto simp: bus_inv_def chan_inv_def)
  show ?thesis
  proof (cases "\<exists>a. h_callBackFunction h = WrapperFn a")
    case False
    then have "s' = upd_chan ch (startHandler i False) (s\<lparr>calls := calls s @ [MsgCall (h_callBackFunction h) m]\<rparr>)"
      using st hm by (auto simp: startTask_def split: closure.splits)
    moreover have "bus_inv (s\<lparr>calls := calls s @ [MsgCall (h_callBackFunction h) m]\<rparr>)"
      using inv by (rule calm_preserves[rotated]) (simp add: calm_def quiet_def chan_inv_def)
    ultimately show ?thesis using wf[of False] by (simp add: start_plain_inv)
  next
    case True
    then obtain a where a: "h_callBackFunction h = WrapperFn a" by blast
    with st hm obtain s1 owes where w: "handlerWrapper a m s = Done (s1, owes)"
      and s': "s' = upd_chan ch (startHandler i owes) s1"
      by (auto simp: startTask_def go_map_Done_iff)
    have mhi: "mh_inv s" using inv by (simp add: bus_inv_def)
    note sp = invokeHandler_mh_inv[OF mhi w[unfolded handlerWrapper_eq]]
      invokeHandler_frame[OF w[unfolded handlerWrapper_eq]]
    have "chan_inv s1" using inv sp(2-5) chan_inv_cong by (auto simp: bus_inv_def)
    then have 1: "chan_inv s'" unfolding s' by (rule chan_inv_upd) (simp_all add: sp(2) wf)
    have 2: "mh_inv s'" using sp(1) by (simp add: s' mh_inv_def)
    have oi: "once_inv s" using inv by (simp add: bus_inv_def)
    have 3: "once_inv s'"
    proof -
      have fst: "fst (ch_inflight (chans s ch) ! i) = h" by (simp add: hm)
      have R: "set (ch_running (chans s' c)) =
          set (ch_running (chans s c)) \<union> (if c = ch then {(h, owes)} else {})" for c
        by (simp add: s' sp(2) fst)
      have O: "mh_invokeOnce (mhandlers s' b) =
          (if b = a \<and> owes then Some OnceRunning else mh_invokeOnce (mhandlers s b))" for b
        using sp(7)[of b] sp(8,9) by (cases "b = a") (auto simp: s')
      have N: "nextMH s' = nextMH s" "nextChan s' = nextChan s" by (simp_all add: s' sp)
      have F: "owes \<Longrightarrow> mh_invokeOnce (mhandlers s a) = Some OnceFresh" using sp(8) by simp
      show ?thesis
        unfolding once_inv_def N O R
      proof (intro conjI allI impI)
        fix b assume "(if b = a \<and> owes then Some OnceRunning else mh_invokeOnce (mhandlers s b)) = Some OnceRunning"
        then consider "b = a" "owes" | "mh_invokeOnce (mhandlers s b) = Some OnceRunning"
          by (auto split: if_splits)
        then show "\<exists>c g. c < nextChan s \<and> (g, True) \<in> set (ch_running (chans s c)) \<union>
            (if c = ch then {(h, owes)} else {}) \<and> h_callBackFunction g = WrapperFn b"
        proof cases
          case 1
          with ch a show ?thesis by (intro exI[of _ ch] exI[of _ h]) auto
        next
          case 2
          with oi show ?thesis unfolding once_inv_def by blast
        qed
      next
        fix c g b
        assume "(g, True) \<in> set (ch_running (chans s c)) \<union> (if c = ch then {(h, owes)} else {})"
          and "h_callBackFunction g = WrapperFn b"
        with oi a show "(if b = a \<and> owes then Some OnceRunning else mh_invokeOnce (mhandlers s b))
            \<in> {Some OnceRunning, Some OnceUsed}"
          unfolding once_inv_def by (auto split: if_splits)
      next
        fix b assume "nextMH s \<le> b"
        with oi have "mh_invokeOnce (mhandlers s b) = None" unfolding once_inv_def by blast
        with F show "(if b = a \<and> owes then Some OnceRunning else mh_invokeOnce (mhandlers s b)) = None"
          by auto
      qed
    qed
    from 1 2 3 show ?thesis by (simp add: bus_inv_def)
  qed
qed

lemma set_running_remove:
  "set (ch_running c) \<subseteq> insert (ch_running c ! j) (set (remove_at j (ch_running c)))"
proof (cases "j < length (ch_running c)")
  case True
  then have "set (ch_running c) = insert (ch_running c ! j) (set (take j (ch_running c)) \<union> set (drop (Suc j) (ch_running c)))"
    by (metis Un_insert_right id_take_nth_drop list.simps(15) set_append)
  then show ?thesis by (simp add: remove_at_def)
qed (simp add: remove_at_def subset_insertI)

lemma finish_plain_inv:
  assumes "bus_inv s" and "j < length (ch_running (chans s ch))"
    and "\<And>h a. ch_running (chans s ch) ! j = (h, True) \<Longrightarrow> h_callBackFunction h = WrapperFn a \<Longrightarrow>
           mh_invokeOnce (mhandlers s a) \<noteq> Some OnceRunning"
  shows "bus_inv (upd_chan ch (finishHandler j) s)"
proof -
  let ?s = "upd_chan ch (finishHandler j) s"
  have "channel_wf (finishHandler j (chans s ch))"
    using assms(1,2) by (intro channel_wf_finish) (auto simp: bus_inv_def chan_inv_def)
  then have "chan_inv ?s" using assms(1) by (intro chan_inv_upd) (auto simp: bus_inv_def)
  moreover have "mh_inv ?s" using assms(1) by (simp add: bus_inv_def mh_inv_def)
  moreover have "once_inv ?s"
  proof -
    have oi: "once_inv s" using assms(1) by (simp add: bus_inv_def)
    have sub: "set (ch_running (chans ?s c)) \<subseteq> set (ch_running (chans s c))" for c
      by (simp add: set_remove_at_subset)
    have keep: "p \<in> set (ch_running (chans ?s c))"
      if "p \<in> set (ch_running (chans s c))" "c = ch \<Longrightarrow> p \<noteq> ch_running (chans s ch) ! j" for p c
      using that set_running_remove[of "chans s ch" j] by auto
    show ?thesis
      unfolding once_inv_def
    proof (intro conjI allI impI)
      fix a assume run: "mh_invokeOnce (mhandlers ?s a) = Some OnceRunning"
      with oi obtain c h where c: "c < nextChan s" "(h, True) \<in> set (ch_running (chans s c))"
        "h_callBackFunction h = WrapperFn a" unfolding once_inv_def by auto
      with run assms(3) have "(h, True) \<in> set (ch_running (chans ?s c))"
        by (intro keep) (auto simp: eq_commute)
      with c(1,3) show "\<exists>c h. c < nextChan ?s \<and> (h, True) \<in> set (ch_running (chans ?s c)) \<and>
          h_callBackFunction h = WrapperFn a" unfolding upd_chan_simps(3) by blast
    next
      fix c h a
      assume "(h, True) \<in> set (ch_running (chans ?s c))" "h_callBackFunction h = WrapperFn a"
      with sub oi show "mh_invokeOnce (mhandlers ?s a) \<in> {Some OnceRunning, Some OnceUsed}"
        unfolding once_inv_def mhandlers_frame by blast
    next
      fix a assume "nextMH ?s \<le> a"
      with oi show "mh_invokeOnce (mhandlers ?s a) = None" by (simp add: once_inv_def)
    qed
  qed
  ultimately show ?thesis by (simp add: bus_inv_def)
qed

lemma upd_once_chan:
  "upd_chan ch f (upd_mh a g s) = upd_mh a g (upd_chan ch f s)"
  by (simp add: upd_chan_def upd_mh_def)

lemma closeOnce_spec:
  assumes "closeOnce a s = Done s'"
  obtains t where "calm s t" and "s' = upd_mh a (\<lambda>mh. mh\<lparr>mh_invokeOnce := Some OnceUsed\<rparr>) t"
  using assms by (auto simp: closeOnce_def Let_def go_map_Done_iff dest!: UnsubscribeChannelHandler_calm)

lemma UnsubscribeChannelHandler_mhandlers:
  "UnsubscribeChannelHandler n u s = Done (s', e) \<Longrightarrow> mhandlers s' = mhandlers s"
  by (auto dest: UnsubscribeChannelHandler_quiet simp: quiet_def)

lemma once_used_inv:
  assumes "bus_inv s" and "mh_invokeOnce (mhandlers s a) \<in> {Some OnceRunning, Some OnceUsed}"
  shows "bus_inv (upd_mh a (\<lambda>mh. mh\<lparr>mh_invokeOnce := Some OnceUsed\<rparr>) s)"
proof -
  let ?f = "\<lambda>mh. mh\<lparr>mh_invokeOnce := Some OnceUsed\<rparr>"
  have ok: "mh_ok (mhandlers s a)" using assms(1) by (auto simp: bus_inv_def mh_inv_def)
  then have "mh_ok (?f (mhandlers s a))" using assms(2) by (auto simp: mh_ok_def)
  then have "mh_inv (upd_mh a ?f s)"
    using assms(1) by (intro mh_inv_upd) (simp_all add: bus_inv_def)
  moreover have "once_inv (upd_mh a ?f s)"
  proof -
    have oi: "once_inv s" using assms(1) by (simp add: bus_inv_def)
    have O: "mh_invokeOnce (mhandlers (upd_mh a ?f s) b) =
        (if b = a then Some OnceUsed else mh_invokeOnce (mhandlers s b))" for b by simp
    have "\<not> nextMH s \<le> a" using oi assms(2) unfolding once_inv_def by auto
    with oi show ?thesis unfolding once_inv_def O by simp
  qed
  ultimately show ?thesis using assms(1) by (simp add: bus_inv_def chan_inv_event)
qed

lemma finishTask_inv:
  assumes inv: "bus_inv s" and ch: "ch < nextChan s" and j: "j < length (ch_running (chans s ch))"
    and ft: "finishTask ch j s = Done s'"
  shows "bus_inv s'"
proof -
  obtain h owes where h: "ch_running (chans s ch) ! j = (h, owes)" by (cases "ch_running (chans s ch) ! j")
  show ?thesis
  proof (cases "owes \<and> (\<exists>a. h_callBackFunction h = WrapperFn a)")
    case False
    then have "s' = upd_chan ch (finishHandler j) s"
      using ft h by (auto simp: finishTask_def go_map_Done_iff split: closure.splits if_splits)
    moreover have "bus_inv (upd_chan ch (finishHandler j) s)"
      using inv j by (rule finish_plain_inv) (use False h in auto)
    ultimately show ?thesis by simp
  next
    case True
    then obtain a where a: "owes" "h_callBackFunction h = WrapperFn a" by blast
    with ft h obtain t where t: "closeOnce a s = Done t" "s' = upd_chan ch (finishHandler j) t"
      by (auto simp: finishTask_def go_map_Done_iff)
    from t(1) obtain u where u: "calm s u" "t = upd_mh a (\<lambda>mh. mh\<lparr>mh_invokeOnce := Some OnceUsed\<rparr>) u"
      by (rule closeOnce_spec)
    have "(h, True) \<in> set (ch_running (chans s ch))" using h a j by (metis nth_mem)
    then have used: "mh_invokeOnce (mhandlers s a) \<in> {Some OnceRunning, Some OnceUsed}"
      using inv a(2) unfolding bus_inv_def once_inv_def by blast
    moreover have "mhandlers u = mhandlers s" using u(1) by (simp add: calm_def quiet_def)
    ultimately have "bus_inv t" unfolding u(2) by (intro once_used_inv calm_preserves[OF u(1) inv]) simp
    moreover have "ch_running (chans t ch) = ch_running (chans s ch)"
      using u ch unfolding calm_def quiet_def by (metis leD upd_mh_simps(2))
    ultimately show ?thesis unfolding t(2) using j h a u(2) by (intro finish_plain_inv) auto
  qed
qed

end
