(* ===== verification/BusSteps.thy ===== *)
theory BusSteps
  imports BusInvariants
begin

text \<open>
  The bus as a transition system: one rule per operation and the scheduler's choice of a
  goroutine. Reachable states satisfy the invariants, delivery never deadlocks, and the
  properties of listening and delivering follow.
\<close>

subsection \<open>Steps and reachable states\<close>

text \<open>
  One rule per operation of the bus, plus the scheduler's rules: a goroutine that delivers a
  message starts (calls its callback), one whose callback has returned finishes, a monitor
  goroutine runs. New handler ids are not in use, as UUIDs are not.
\<close>

inductive bus_step :: "transportEventBus \<Rightarrow> transportEventBus \<Rightarrow> bool" where
  create: "bus_step s (fst (CreateChannel n s))"
| destroy: "bus_step s (DestroyChannel n s)"
| subscribe: "fresh_id new s \<Longrightarrow> bus_step s (fst (SubscribeChannelHandler new n (UserFn k) once s))"
| unsubscribe: "UnsubscribeChannelHandler n u s = Done (s', e) \<Longrightarrow> bus_step s s'"
| galactic: "MarkChannelAsGalactic tcp_ok new new_m n dest conn s = Done (s', e) \<Longrightarrow> bus_step s s'"
| local: "MarkChannelAsLocal new_ms n s = Done (s', e) \<Longrightarrow> bus_step s s'"
| connect: "ConnectBroker tls tls_err dial_err accepted new config s = Done (s', r) \<Longrightarrow> bus_step s s'"
| listen: "s' \<in> fst ` {ListenStream new n s, ListenStreamForDestination new n d s, ListenFirehose new n s,
      ListenRequestStream new n s, ListenRequestStreamForDestination new n d s,
      ListenRequestOnce new newD n s, ListenRequestOnceForDestination new n d s,
      ListenOnce new newD n s, ListenOnceForDestination new n d s} \<Longrightarrow> bus_step s s'"
| request: "s' \<in> fst ` {RequestOnce new newD newM n p s, RequestOnceForDestination new newM n p d s,
      RequestStream new newD newM n p s, RequestStreamForDestination new newM n p d s} \<Longrightarrow> bus_step s s'"
| handle: "fresh_id new s \<Longrightarrow> bus_step s (Handle new a f g s)"
| close: "MessageHandler_Close a s = Done s' \<Longrightarrow> bus_step s s'"
| fire: "bus_step s (fst (Fire_send a s))"
| send: "s' \<in> fst ` {SendResponseMessage new n p d s, SendBroadcastMessage new n p s,
      SendRequestMessage new n p d s, SendErrorMessage new n err d s} \<Longrightarrow> bus_step s s'"
| start: "ch < nextChan s \<Longrightarrow> i < length (ch_inflight (chans s ch)) \<Longrightarrow> startTask ch i s = Done s' \<Longrightarrow> bus_step s s'"
| finish: "ch < nextChan s \<Longrightarrow> j < length (ch_running (chans s ch)) \<Longrightarrow> finishTask ch j s = Done s' \<Longrightarrow> bus_step s s'"
| event: "i < length (pendingEvents s) \<Longrightarrow> bus_step s (runPendingEvent i s)"
| watch: "bus_step s (fst (AddMonitorEventListener l ts s))"
| unwatch: "bus_step s (RemoveMonitorEventListener k s)"

lemma ConnectBroker_calm: "ConnectBroker tls te de acc new config s = Done (s', r) \<Longrightarrow> calm s s'"
proof -
  assume "ConnectBroker tls te de acc new config s = Done (s', r)"
  then obtain bk r0 where "(s', r) = (case r0 of Inl e \<Rightarrow> (s\<lparr>eb_bc := bk\<rparr>, Inl e)
      | Inr c \<Rightarrow> (s\<lparr>eb_bc := bk, conns := (conns s)(nextConn s := c), nextConn := Suc (nextConn s),
          brokerConnections := (brokerConnections s)(nextConn s \<mapsto> nextConn s)\<rparr>, Inr (nextConn s)))"
    by (auto simp: ConnectBroker_def go_map_Done_iff Let_def)
  then show "calm s s'" by (cases r0) (simp_all add: calm_def quiet_def chan_inv_def)
qed

lemma listen_inv:
  assumes "bus_inv s" and "s' \<in> fst ` {ListenStream new n s, ListenStreamForDestination new n d s,
      ListenFirehose new n s, ListenRequestStream new n s, ListenRequestStreamForDestination new n d s,
      ListenRequestOnce new newD n s, ListenRequestOnceForDestination new n d s,
      ListenOnce new newD n s, ListenOnceForDestination new n d s}"
  shows "bus_inv s'"
proof -
  have inv: "bus_inv (fst (map_prod (\<lambda>t. t) Inr (wrapMessageHandler new ch dir ign all dd once s)))"
    for ch dir ign all dd once
    using wrapMessageHandler_inv[OF assms(1)] by (simp only: fst_map_prod)
  show ?thesis
    using assms(2) unfolding ListenStream_def ListenStreamForDestination_def ListenFirehose_def
      ListenRequestStream_def ListenRequestStreamForDestination_def ListenRequestOnce_def
      ListenRequestOnceForDestination_def ListenOnce_def ListenOnceForDestination_def
    by (elim imageE insertE emptyE) (simp_all add: assms(1) inv[simplified] split: sum.split)
qed

lemma request_inv:
  assumes "bus_inv s" and "s' \<in> fst ` {RequestOnce new newD newM n p s, RequestOnceForDestination new newM n p d s,
      RequestStream new newD newM n p s, RequestStreamForDestination new newM n p d s}"
  shows "bus_inv s'"
proof -
  have inv: "bus_inv (fst (with_request newM n p dd (wrapMessageHandler new ch dir ign all dd once s)))"
    for ch dir ign all dd once
    using wrapMessageHandler_inv[OF assms(1)] by (rule with_request_inv)
  show ?thesis
    using assms(2) unfolding RequestOnce_def RequestOnceForDestination_def RequestStream_def
      RequestStreamForDestination_def Let_def
    by (elim imageE insertE emptyE) (simp_all add: assms(1) inv split: sum.split)
qed

lemma bus_step_inv:
  assumes "bus_step s s'" and "bus_inv s"
  shows "bus_inv s'"
  using assms
proof (cases rule: bus_step.cases)
  case (subscribe new n k once)
  then have "calm s s'" by (simp add: calm_def SubscribeChannelHandler_inv SubscribeChannelHandler_quiet)
  with assms(2) show ?thesis by (rule calm_preserves[rotated])
next
  case (listen new n d newD)
  from listen_inv[OF assms(2) this] show ?thesis .
next
  case (request new newD newM n p d)
  from request_inv[OF assms(2) this] show ?thesis .
next
  case (handle new a f g)
  with assms(2) show ?thesis by (simp add: Handle_inv)
next
  case (start ch i)
  with assms(2) show ?thesis by (blast intro: startTask_inv)
next
  case (finish ch j)
  with assms(2) show ?thesis by (blast intro: finishTask_inv)
next
  case (send new n p d err)
  with assms(2) show ?thesis by (auto intro: calm_preserves[rotated] send_calm)
next
  case (create n)
  then have "calm s s'" by (simp add: calm_def CreateChannel_inv CreateChannel_quiet)
  with assms(2) show ?thesis by (rule calm_preserves[rotated])
next
  case (destroy n)
  then have "calm s s'" by (simp add: calm_def DestroyChannel_inv DestroyChannel_quiet)
  with assms(2) show ?thesis by (rule calm_preserves[rotated])
qed (use assms(2) in \<open>auto intro: calm_preserves[rotated] send_calm monitor_calm UnsubscribeChannelHandler_calm
       MarkChannelAsGalactic_calm MarkChannelAsLocal_calm ConnectBroker_calm MessageHandler_Close_calm\<close>)

lemma init_bus_inv: "bus_inv (init_bus new)"
  by (simp add: bus_inv_def chan_inv_def mh_inv_def once_inv_def init_bus_def channel_wf_new
      newMonitor_wf mh_ok_def createMessageHandler_def)

inductive reachable :: "transportEventBus \<Rightarrow> bool" where
  boot: "reachable (init_bus new)"
| step: "reachable s \<Longrightarrow> bus_step s s' \<Longrightarrow> reachable s'"

lemma reachable_inv: "reachable s \<Longrightarrow> bus_inv s"
  by (induction rule: reachable.induct) (auto intro: init_bus_inv bus_step_inv)

subsection \<open>Goroutines always get on\<close>

inductive task_step :: "transportEventBus \<Rightarrow> transportEventBus \<Rightarrow> bool" where
  ts_start: "ch < nextChan s \<Longrightarrow> i < length (ch_inflight (chans s ch)) \<Longrightarrow> startTask ch i s = Done s' \<Longrightarrow> task_step s s'"
| ts_finish: "ch < nextChan s \<Longrightarrow> j < length (ch_running (chans s ch)) \<Longrightarrow> finishTask ch j s = Done s' \<Longrightarrow> task_step s s'"

inductive task_panic :: "transportEventBus \<Rightarrow> bool" where
  tp_start: "ch < nextChan s \<Longrightarrow> i < length (ch_inflight (chans s ch)) \<Longrightarrow> startTask ch i s = Panic e \<Longrightarrow> task_panic s"
| tp_finish: "ch < nextChan s \<Longrightarrow> j < length (ch_running (chans s ch)) \<Longrightarrow> finishTask ch j s = Panic e \<Longrightarrow> task_panic s"

inductive_cases task_stepE: "task_step s s'"

lemma task_step_bus_step: "task_step s s' \<Longrightarrow> bus_step s s'"
  by (erule task_stepE) (auto intro: bus_step.start bus_step.finish)

lemma UnsubscribeChannelHandler_not_Block: "UnsubscribeChannelHandler n u s \<noteq> Block"
  by (auto simp: UnsubscribeChannelHandler_def unsubscribeHandler_def split: sum.splits option.splits)

lemma finishTask_not_Block: "finishTask ch j s \<noteq> Block"
proof -
  have "closeOnce a s \<noteq> Block" for a
    using UnsubscribeChannelHandler_not_Block[of _ _ s] unfolding closeOnce_def Let_def
    by (metis go.distinct(3,5) go_map.elims)
  then show ?thesis unfolding finishTask_def
    by (auto split: prod.split closure.split) (metis go.distinct(3,5) go_map.elims)+
qed

lemma startTask_Block_once:
  assumes "startTask ch i s = Block"
  obtains a where "mh_invokeOnce (mhandlers s a) = Some OnceRunning"
proof -
  obtain h m where hm: "ch_inflight (chans s ch) ! i = (h, m)" by (cases "ch_inflight (chans s ch) ! i")
  from assms obtain a where a: "h_callBackFunction h = WrapperFn a"
    by (auto simp: startTask_def hm split: closure.splits)
  with assms have "invokeHandler a (wrapper_call (mhandlers s a) m) s = Block"
    by (cases "invokeHandler a (wrapper_call (mhandlers s a) m) s") (auto simp: startTask_def hm handlerWrapper_eq)
  then have "mh_invokeOnce (mhandlers s a) = Some OnceRunning"
    by (auto simp: invokeHandler_def Let_def split: option.splits once.splits)
  with that show ?thesis .
qed

lemma progress:
  assumes "bus_inv s" and "ch < nextChan s" and "ch_wg (chans s ch) > 0"
  shows "(\<exists>s'. task_step s s') \<or> task_panic s"
proof -
  have fin: "(\<exists>s'. task_step s s') \<or> task_panic s"
    if "c < nextChan s" "j < length (ch_running (chans s c))" for c j
    using that finishTask_not_Block[of c j s]
    by (cases "finishTask c j s") (auto intro: ts_finish tp_finish)
  have "channel_wf (chans s ch)" using assms(1) by (simp add: bus_inv_def chan_inv_def)
  with assms(3) consider "0 < length (ch_inflight (chans s ch))" | "0 < length (ch_running (chans s ch))"
    unfolding channel_wf_def by linarith
  then show ?thesis
  proof cases
    case 1
    show ?thesis
    proof (cases "startTask ch 0 s")
      case Block
      then obtain a where "mh_invokeOnce (mhandlers s a) = Some OnceRunning" by (rule startTask_Block_once)
      then obtain c h where "c < nextChan s" "(h, True) \<in> set (ch_running (chans s c))"
        using assms(1) unfolding bus_inv_def once_inv_def by blast
      then show ?thesis by (metis fin in_set_conv_nth)
    qed (use 1 assms(2) in \<open>auto intro: ts_start tp_start\<close>)
  next
    case 2
    with fin assms(2) show ?thesis by blast
  qed
qed

definition work :: "transportEventBus \<Rightarrow> nat" where
  "work s = (\<Sum>c<nextChan s. 2 * length (ch_inflight (chans s c)) + length (ch_running (chans s c)))"

lemma work_one:
  assumes "nextChan s' = nextChan s" and "ch < nextChan s"
    and "\<And>c. c \<noteq> ch \<Longrightarrow> ch_inflight (chans s' c) = ch_inflight (chans s c) \<and> ch_running (chans s' c) = ch_running (chans s c)"
    and "2 * length (ch_inflight (chans s' ch)) + length (ch_running (chans s' ch)) <
         2 * length (ch_inflight (chans s ch)) + length (ch_running (chans s ch))"
  shows "work s' < work s"
  unfolding work_def assms(1)
proof (rule sum_strict_mono_ex1)
  show "finite {..<nextChan s}" by simp
  show "\<forall>c\<in>{..<nextChan s}. 2 * length (ch_inflight (chans s' c)) + length (ch_running (chans s' c)) \<le>
      2 * length (ch_inflight (chans s c)) + length (ch_running (chans s c))"
    using assms(3,4) by (metis eq_imp_le less_imp_le)
  show "\<exists>c\<in>{..<nextChan s}. 2 * length (ch_inflight (chans s' c)) + length (ch_running (chans s' c)) <
      2 * length (ch_inflight (chans s c)) + length (ch_running (chans s c))"
    using assms(2,4) by blast
qed

lemma UnsubscribeChannelHandler_tasks:
  assumes "UnsubscribeChannelHandler n u s = Done (s', e)"
  shows "nextChan s' = nextChan s \<and> (\<forall>c. ch_inflight (chans s' c) = ch_inflight (chans s c) \<and>
    ch_running (chans s' c) = ch_running (chans s c))"
  using assms
proof (cases rule: UnsubscribeChannelHandler_cases)
  case (2 a ch)
  from 2(2) have "ch_inflight ch = ch_inflight (chans s a)"
    by (auto simp: unsubscribeHandler_def split: option.splits if_splits)
  with 2(3) unsubscribeHandler_frame[OF 2(2)] show ?thesis by simp
qed simp

lemma task_step_work: "task_step s s' \<Longrightarrow> work s' < work s \<and> nextChan s' = nextChan s"
proof (induction rule: task_step.induct)
  case (ts_start ch s i s')
  obtain h m where hm: "ch_inflight (chans s ch) ! i = (h, m)" by (cases "ch_inflight (chans s ch) ! i")
  from ts_start(3) obtain t b where t: "s' = upd_chan ch (startHandler i b) t"
    "chans t = chans s" "nextChan t = nextChan s"
    by (auto simp: startTask_def hm handlerWrapper_eq go_map_Done_iff split: closure.splits
        dest: invokeHandler_frame(1,3))
  show ?case
    using ts_start(1,2) by (auto simp: t slice_simps intro!: work_one[of _ _ ch])
next
  case (ts_finish ch s j s')
  obtain h owes where h: "ch_running (chans s ch) ! j = (h, owes)" by (cases "ch_running (chans s ch) ! j")
  from ts_finish(3) obtain t where t: "s' = upd_chan ch (finishHandler j) t" "nextChan t = nextChan s"
    "\<forall>c. ch_inflight (chans t c) = ch_inflight (chans s c) \<and> ch_running (chans t c) = ch_running (chans s c)"
    by (auto simp: finishTask_def h closeOnce_def Let_def go_map_Done_iff split: closure.splits if_splits
        dest!: UnsubscribeChannelHandler_tasks)
  show ?case
    using ts_finish(1,2) t(3) by (auto simp: t(1,2) slice_simps intro!: work_one[of _ _ ch])
qed

lemma drains:
  assumes "bus_inv s" and "ch < nextChan s"
  shows "\<exists>s'. task_step\<^sup>*\<^sup>* s s' \<and> (ch_wg (chans s' ch) = 0 \<or> task_panic s')"
  using assms
proof (induction "work s" arbitrary: s rule: less_induct)
  case less
  show ?case
  proof (cases "ch_wg (chans s ch) = 0 \<or> task_panic s")
    case False
    then obtain s' where st: "task_step s s'" using progress[OF less.prems] by auto
    note w = task_step_work[OF st]
    have "bus_inv s'" using bus_step_inv[OF task_step_bus_step[OF st] less.prems(1)] .
    with less.hyps[of s'] w less.prems(2) obtain s'' where
      "task_step\<^sup>*\<^sup>* s' s''" "ch_wg (chans s'' ch) = 0 \<or> task_panic s''" by auto
    with st show ?thesis by (meson converse_rtranclp_into_rtranclp)
  qed blast
qed

subsection \<open>Properties\<close>

text \<open>
  C1. In every reachable state, whatever the interleaving of sends, goroutines and other
  operations, a handler made by one of the once operations has called the user's functions at
  most once, its run counter is that number, and the calls are in the bus's trace.
\<close>

theorem once_handler_at_most_once:
  assumes "reachable s" and "mh_invokeOnce (mhandlers s a) \<noteq> None"
  shows "length (mh_invoked (mhandlers s a)) \<le> 1 \<and>
    mh_runCount (mhandlers s a) = of_nat (length (mh_invoked (mhandlers s a))) \<and>
    mset (mh_invoked (mhandlers s a)) \<subseteq># mset (calls s)"
proof -
  have "mh_ok (mhandlers s a)" "mset (mh_invoked (mhandlers s a)) \<subseteq># mset (calls s)"
    using reachable_inv[OF assms(1)] by (auto simp: bus_inv_def mh_inv_def)
  with assms(2) show ?thesis
    by (auto simp: mh_ok_def split: option.splits once.splits)
qed

text \<open>The first steps of a program: a channel, a once listener on it.\<close>

definition ex_bus :: transportEventBus where
  "ex_bus = fst (ListenOnce ''h'' ''d'' ''c'' (fst (CreateChannel ''c'' (init_bus ''bus''))))"

lemma ex_bus_reachable: "reachable ex_bus"
proof -
  have 1: "reachable (fst (CreateChannel ''c'' (init_bus ''bus'')))"
    by (rule reachable.step[OF reachable.boot bus_step.create])
  show ?thesis unfolding ex_bus_def by (rule reachable.step[OF 1]) (rule bus_step.listen, blast)
qed

lemma ex_bus_handler: "mh_invokeOnce (mhandlers ex_bus 0) = Some OnceFresh"
  by (simp add: ex_bus_def ListenOnce_def getChannelFromManager_def GetChannel_def CreateChannel_def
      init_bus_def wrapMessageHandler_def go_SendMonitorEvent_def Let_def)

theorem once_handler_at_most_once_witness:
  "mh_invokeOnce (mhandlers ex_bus 0) \<noteq> None \<and> length (mh_invoked (mhandlers ex_bus 0)) \<le> 1"
  using once_handler_at_most_once[OF ex_bus_reachable, of 0] ex_bus_handler by simp

text \<open>
  C11. Delivery never deadlocks: from every reachable state the goroutines alone (callbacks
  returning) can run until the wait group of any given channel is at zero, so that
  \<^verbatim>\<open>WaitForChannel\<close> and \<^verbatim>\<open>Fire\<close> return, unless one of them panics.
\<close>

theorem delivery_drains:
  assumes "reachable s" and "Channels s n = Some ch"
  shows "\<exists>s'. task_step\<^sup>*\<^sup>* s s' \<and> (ch_wg (chans s' ch) = 0 \<or> task_panic s')"
  using drains[OF reachable_inv[OF assms(1)], of ch] reachable_inv[OF assms(1)] assms(2)
  by (auto simp: bus_inv_def chan_inv_def)

theorem delivery_drains_witness:
  "\<exists>s'. task_step\<^sup>*\<^sup>* ex_bus s' \<and> (ch_wg (chans s' 0) = 0 \<or> task_panic s')"
proof -
  have "Channels ex_bus ''c'' = Some 0"
    by (simp add: ex_bus_def ListenOnce_def getChannelFromManager_def GetChannel_def CreateChannel_def
        init_bus_def wrapMessageHandler_def go_SendMonitorEvent_def Let_def)
  from delivery_drains[OF ex_bus_reachable this] show ?thesis .
qed

text \<open>
  What a goroutine that delivers a message to a handler for one destination does: the success
  function is called exactly for a message of the handler's direction that carries the handler's
  destination id, the error function for every error message, whatever its destination, and
  otherwise nothing is called.
\<close>

theorem destination_handler_filter:
  assumes "ch_inflight (chans s ch) ! i = (h, m)" and "h_callBackFunction h = WrapperFn a"
    and "\<not> mh_allTraffic (mhandlers s a)" and "\<not> mh_ignoreId (mhandlers s a)"
    and "mh_destination (mhandlers s a) = Some d" and "mh_direction (mhandlers s a) \<noteq> ErrorDir"
    and "mh_successHandler (mhandlers s a) = Some f" and "mh_errorHandler (mhandlers s a) = Some g"
    and "mh_invokeOnce (mhandlers s a) = None"
  shows "\<exists>s'. startTask ch i s = Done s' \<and> calls s' = calls s @
    (if msg_Direction m = mh_direction (mhandlers s a) \<and> msg_DestinationId m = Some d then [MsgCall f m]
     else if msg_Direction m = ErrorDir then [ErrCall g (msg_Error m)] else [])"
proof -
  have "wrapper_call (mhandlers s a) m =
    (if msg_Direction m = mh_direction (mhandlers s a) \<and> msg_DestinationId m = Some d then Some (MsgCall f m)
     else if msg_Direction m = ErrorDir then Some (ErrCall g (msg_Error m)) else None)"
    using assms(3-8) by (auto simp: wrapper_call_def accepts_def dest_matches_def split: option.split)
  then show ?thesis using assms(1,2,9)
    by (auto simp: startTask_def handlerWrapper_eq invokeHandler_def Let_def)
qed

definition ex_wrapped :: channelEventHandler where
  "ex_wrapped = \<lparr>h_addr = 0, h_callBackFunction = WrapperFn 0, h_runOnce = False, h_uuid = ''u''\<rparr>"

definition ex_delivery :: "Message \<Rightarrow> transportEventBus" where
  "ex_delivery m = (init_bus ''bus'')\<lparr>
     chans := (\<lambda>_. NewChannel ''c'')(0 := (NewChannel ''c'')\<lparr>
        ch_inflight := [(ex_wrapped, m)]\<rparr>),
     mhandlers := (\<lambda>_. (createMessageHandler ''h'' 0 (Some ''d''))\<lparr>mh_direction := ResponseDir,
        mh_successHandler := Some (UserFn 1), mh_errorHandler := Some (UserFn 2)\<rparr>)\<rparr>"

definition ex_response :: Message where
  "ex_response = GenerateResponse ''m1'' (zero_MessageConfig\<lparr>cfg_DestinationId := Some ''d''\<rparr>)"

theorem destination_handler_filter_witness:
  "\<exists>s'. startTask 0 0 (ex_delivery ex_response) = Done s' \<and> calls s' = [MsgCall (UserFn 1) ex_response]"
proof -
  have "\<exists>s'. startTask 0 0 (ex_delivery ex_response) = Done s' \<and> calls s' = calls (ex_delivery ex_response) @
    (if msg_Direction ex_response = mh_direction (mhandlers (ex_delivery ex_response) 0) \<and>
        msg_DestinationId ex_response = Some ''d'' then [MsgCall (UserFn 1) ex_response]
     else if msg_Direction ex_response = ErrorDir then [ErrCall (UserFn 2) (msg_Error ex_response)] else [])"
    by (rule destination_handler_filter[where h = ex_wrapped]) (simp_all add: ex_delivery_def createMessageHandler_def ex_wrapped_def)
  then show ?thesis
    by (simp add: ex_delivery_def ex_response_def createMessageHandler_def init_bus_def)
qed

text \<open>
  When the callback of a once handler returns, the handler is unsubscribed from its channel
  and its once is used up, and no other subscription of the channel is lost.
\<close>

theorem once_handler_unsubscribes:
  assumes "chan_inv s" and "ch_running (chans s ch) ! j = (h, True)" and "h_callBackFunction h = WrapperFn a"
    and "Channels s (ch_Name (chans s (mh_channel (mhandlers s a)))) = Some c"
    and "mh_subscriptionId (mhandlers s a) = Some u"
  shows "\<exists>s'. finishTask ch j s = Done s' \<and> mh_invokeOnce (mhandlers s' a) = Some OnceUsed \<and>
    ch_eventHandlers (chans s' c) = filter (\<lambda>h. h_uuid h \<noteq> u) (ch_eventHandlers (chans s c))"
proof -
  let ?n = "ch_Name (chans s (mh_channel (mhandlers s a)))"
  have wf: "channel_wf (chans s c)" using assms(1) by (simp add: chan_inv_def)
  obtain t e where t: "UnsubscribeChannelHandler ?n (Some u) s = Done (t, e)"
    "ch_eventHandlers (chans t c) = filter (\<lambda>h. h_uuid h \<noteq> u) (ch_eventHandlers (chans s c))"
  proof (cases "u \<in> h_uuid ` set (ch_eventHandlers (chans s c))")
    case True
    then show ?thesis
      using that assms(4) by (simp add: UnsubscribeChannelHandler_def GetChannel_def unsubscribeHandler_filter[OF wf])
  next
    case False
    then have "filter (\<lambda>h. h_uuid h \<noteq> u) (ch_eventHandlers (chans s c)) = ch_eventHandlers (chans s c)"
      by (auto simp: filter_id_conv)
    with False show ?thesis
      using that assms(4) by (simp add: UnsubscribeChannelHandler_def GetChannel_def unsubscribeHandler_filter[OF wf])
  qed
  have "ch_eventHandlers (finishHandler j x) = ch_eventHandlers x" for x
    by (simp add: finishHandler_def Let_def)
  with t assms(2,3,5) show ?thesis by (auto simp: finishTask_def closeOnce_def)
qed

definition ex_once_running :: transportEventBus where
  "ex_once_running = (init_bus ''bus'')\<lparr>Channels := [''c'' \<mapsto> 0], nextChan := 1,
     chans := (\<lambda>_. NewChannel ''c'')(0 := (NewChannel ''c'')\<lparr>ch_eventHandlers := [ex_wrapped], ch_nextHandler := 1,
        ch_wg := 1, ch_running := [(ex_wrapped, True)]\<rparr>),
     mhandlers := (\<lambda>_. (createMessageHandler ''h'' 0 None)\<lparr>mh_subscriptionId := Some ''u'',
        mh_invokeOnce := Some OnceRunning\<rparr>)\<rparr>"

theorem once_handler_unsubscribes_witness:
  "\<exists>s'. finishTask 0 0 ex_once_running = Done s' \<and> ch_eventHandlers (chans s' 0) = []"
proof -
  have "\<exists>s'. finishTask 0 0 ex_once_running = Done s' \<and> mh_invokeOnce (mhandlers s' 0) = Some OnceUsed \<and>
    ch_eventHandlers (chans s' 0) = filter (\<lambda>h. h_uuid h \<noteq> ''u'') (ch_eventHandlers (chans ex_once_running 0))"
  proof (rule once_handler_unsubscribes[where h = ex_wrapped])
    show "chan_inv ex_once_running"
      by (simp add: chan_inv_def ex_once_running_def init_bus_def newMonitor_wf channel_wf_def ex_wrapped_def
          NewChannel_def)
  qed (simp_all add: ex_once_running_def ex_wrapped_def createMessageHandler_def)
  then show ?thesis by (auto simp: ex_once_running_def ex_wrapped_def)
qed

text \<open>
  Sending to and listening on a channel that does not exist fails with the same error and
  changes nothing.
\<close>

theorem missing_channel_errors:
  assumes "Channels s n = None"
  shows "(let err = ''Channel does not exist: '' @ n in
      SendResponseMessage new n p d s = (s, Some err) \<and> SendBroadcastMessage new n p s = (s, Some err) \<and>
      SendRequestMessage new n p d s = (s, Some err) \<and>
      ListenStream new n s = (s, Inl err) \<and> ListenStreamForDestination new n d s = (s, Inl err) \<and>
      ListenRequestStream new n s = (s, Inl err) \<and> ListenRequestStreamForDestination new n d s = (s, Inl err) \<and>
      ListenFirehose new n s = (s, Inl err) \<and> ListenOnce new newD n s = (s, Inl err) \<and>
      ListenOnceForDestination new n d s = (s, Inl err) \<and> ListenRequestOnce new newD n s = (s, Inl err) \<and>
      ListenRequestOnceForDestination new n d s = (s, Inl err) \<and>
      RequestOnce new newD newM n p s = (s, Inl err) \<and> RequestOnceForDestination new newM n p d s = (s, Inl err) \<and>
      RequestStream new newD newM n p s = (s, Inl err) \<and> RequestStreamForDestination new newM n p d s = (s, Inl err))"
proof -
  have "GetChannel n s = Inl (''Channel does not exist: '' @ n)" using assms by (simp add: GetChannel_def)
  then show ?thesis
    unfolding SendResponseMessage_def SendBroadcastMessage_def SendRequestMessage_def getChannelFromManager_def
      ListenStream_def ListenStreamForDestination_def ListenRequestStream_def ListenRequestStreamForDestination_def
      ListenFirehose_def ListenOnce_def ListenOnceForDestination_def ListenRequestOnce_def
      ListenRequestOnceForDestination_def RequestOnce_def RequestOnceForDestination_def RequestStream_def
      RequestStreamForDestination_def by simp
qed

theorem missing_channel_errors_witness:
  "SendRequestMessage ''m'' ''nope'' GNil None (init_bus ''b'') = (init_bus ''b'', Some ''Channel does not exist: nope'')"
  using missing_channel_errors[of "init_bus ''b''" "''nope''" "''m''" GNil None]
  by (simp add: Let_def init_bus_def)

text \<open>
  Sending an error to a channel that does not exist returns the caller's own error: with a
  nil error the failure is reported as success.
\<close>

theorem SendErrorMessage_missing_channel:
  assumes "Channels s n = None"
  shows "SendErrorMessage new n err d s = (s, err)"
  using assms by (simp add: SendErrorMessage_def GetChannel_def)

theorem SendErrorMessage_missing_channel_witness:
  "SendErrorMessage ''m'' ''nope'' None None (init_bus ''b'') = (init_bus ''b'', None)"
  by (rule SendErrorMessage_missing_channel) (simp add: init_bus_def)

text \<open>
  Two messages that are sent before the first is delivered both reach a handler subscribed to
  run once: the counter is only looked at when a message is sent.
\<close>

theorem run_once_subscription_sent_twice:
  assumes "ch_eventHandlers ch = [h]" and "\<not> spent ch h"
  shows "ch_inflight (Channel_Send m2 (Channel_Send m1 ch)) = ch_inflight ch @ [(h, m1), (h, m2)]"
proof -
  have 1: "ch_eventHandlers (Channel_Send m1 ch) = [h]"
    using Channel_Send_handlers_live[of ch m1] assms by simp
  have "\<not> spent (Channel_Send m1 ch) h" using assms(2) by (simp add: spent_def Channel_Send_simps)
  then show ?thesis using assms 1 by (simp add: Channel_Send_simps)
qed

theorem run_once_subscription_sent_twice_witness:
  "map snd (ch_inflight (Channel_Send ex_message (Channel_Send ex_message (ex_channel [True] (\<lambda>_. 0))))) =
     [ex_message, ex_message]"
proof -
  have "ch_inflight (Channel_Send ex_message (Channel_Send ex_message (ex_channel [True] (\<lambda>_. 0)))) =
      ch_inflight (ex_channel [True] (\<lambda>_. 0)) @ [(ex_handler 0 True, ex_message), (ex_handler 0 True, ex_message)]"
    by (rule run_once_subscription_sent_twice) (simp_all add: ex_channel_def spent_def)
  then show ?thesis by (simp add: ex_channel_def)
qed

end
