(* ===== verification/Galactic.thy ===== *)
theory Galactic
  imports BusSteps
begin

text \<open>
  Properties of the channel manager: the table of channels under sequences of operations, through
  the registry contract, and the mapping of channels to broker destinations
  (\<^verbatim>\<open>MarkChannelAsGalactic\<close>, \<^verbatim>\<open>MarkChannelAsLocal\<close>) over WebSocket and TCP connections.
\<close>

subsection \<open>The table of channels\<close>

text \<open>A sequence of creations and destructions by the manager.\<close>

definition channel_ops :: "registry_op list \<Rightarrow> 'b busState_scheme \<Rightarrow> 'b busState_scheme" where
  "channel_ops ops s = fold (\<lambda>p s. case p of Create n \<Rightarrow> fst (CreateChannel n s) | Destroy n \<Rightarrow> DestroyChannel n s) ops s"

lemma channel_ops_run: "channel_ops ops s = chan_registry.run ops s"
  unfolding channel_ops_def chan_registry.run_def
proof (induction ops arbitrary: s)
  case (Cons p ops)
  then show ?case by (cases p) simp_all
qed simp

lemma chan_inv_allocated: "chan_inv s \<Longrightarrow> chan_registry.allocated s"
  unfolding chan_inv_def chan_registry.allocated_def by metis

text \<open>
  C12. After any sequence of creations and destructions a channel exists exactly when the last
  operation on its name was a creation (or there was none and it existed before).
\<close>

theorem channel_exists_after:
  "CheckChannelExists n (channel_ops ops s) = present_after n ops (CheckChannelExists n s)"
  unfolding CheckChannelExists_def channel_ops_run by (rule chan_registry.run_present) simp

text \<open>
  A channel keeps its identity as long as its name is not destroyed, however often its name is
  created again, and once destroyed it is never found again under any name.
\<close>

theorem channel_identity:
  assumes "chan_inv s" and "GetChannel n s = Inr a" and "Destroy n \<notin> set ops"
  shows "GetChannel n (channel_ops ops s) = Inr a \<and>
    GetChannel m (channel_ops ops' (DestroyChannel n s)) \<noteq> Inr a"
proof -
  have l: "Channels s n = Some a" using assms(2) by simp
  have "GetChannel n (channel_ops ops s) = Inr a"
    using chan_registry.run_keeps[OF _ l assms(3)] unfolding channel_ops_run by simp
  moreover have "GetChannel m (channel_ops ops' (DestroyChannel n s)) \<noteq> Inr a"
    using chan_registry.destroyed_stale[OF chan_inv_allocated[OF assms(1)] l] unfolding channel_ops_run by simp
  ultimately show ?thesis ..
qed

theorem channel_identity_witness:
  "GetChannel ''c'' (channel_ops [Create ''c''] (fst (CreateChannel ''c'' (init_bus ''b'')))) = Inr 0"
proof -
  have g: "GetChannel ''c'' (fst (CreateChannel ''c'' (init_bus ''b''))) = Inr 0"
    by (simp add: CreateChannel_def init_bus_def Let_def)
  have i: "chan_inv (fst (CreateChannel ''c'' (init_bus ''b'')))"
    using CreateChannel_inv init_bus_inv unfolding bus_inv_def by blast
  show ?thesis using channel_identity[OF i g, of "[Create ''c'']"] by simp
qed

subsection \<open>Galactic channels\<close>

lemma upd_chan_same: "f (chans s a) = chans s a \<Longrightarrow> upd_chan a f s = s"
  by (simp add: upd_chan_def)

lemma SetGalactic_same:
  "ch_galactic ch \<Longrightarrow> ch_galacticMappedDestination ch = d \<Longrightarrow> SetGalactic d ch = ch"
  by (simp add: SetGalactic_def)

text \<open>
  Marking a channel as galactic over an open WebSocket connection subscribes to the broker
  destination, records the subscription on the channel, and a second call with the same
  destination and connection changes nothing.
\<close>

theorem galactic_ws_idempotent:
  assumes "Channels s n = Some ch" and "\<not> isBrokerSubscribedToDestination c dest (chans s ch)"
    and "conn_useWs (conns s c)" and "conn_wsConn (conns s c)" and "bc_open (conn_ws (conns s c))"
    and "conn_subscriptions (conns s c) dest = None"
  shows "\<exists>s'. MarkChannelAsGalactic tcp_ok new new_m n dest (Some c) s = Done (s', None) \<and>
    IsGalactic (chans s' ch) \<and> isBrokerSubscribedToDestination c dest (chans s' ch) \<and>
    length (ch_brokerSubs (chans s' ch)) = Suc (length (ch_brokerSubs (chans s ch))) \<and>
    last (bc_sent (conn_ws (conns s' c))) =
      frame_New ''SUBSCRIBE'' [(''id'', new), (''destination'', dest), (''ack'', ''auto'')] \<and>
    MarkChannelAsGalactic tcp_ok new2 new_m2 n dest (Some c) s' = Done (s', None)"
proof -
  have notsub: "\<not> isBrokerSubscribedToDestination c dest (SetGalactic dest (chans s ch))"
    using assms(2) by (simp add: isBrokerSubscribedToDestination_def SetGalactic_def)
  obtain cn sub where sub: "connection_Subscribe tcp_ok new dest (Some (conns s c)) = Done (Some cn, Inr sub)"
    "sub_destination sub = dest"
    "last (bc_sent (conn_ws cn)) = frame_New ''SUBSCRIBE'' [(''id'', new), (''destination'', dest), (''ack'', ''auto'')]"
    using assms(3-6) by (auto simp: connection_Subscribe_def subscribeWs_def bc_Subscribe_def bc_SendFrame_def Let_def)
  obtain s' where s': "MarkChannelAsGalactic tcp_ok new new_m n dest (Some c) s = Done (s', None)"
    "Channels s' = Channels s" "conns s' c = cn"
    "chans s' ch = notify_mapped True (addBrokerSubscription c sub (addBrokerConnection c (SetGalactic dest (chans s ch))))"
    using sub(1) notsub assms(1)
    by (auto simp: MarkChannelAsGalactic_def handleGalacticChannelEvent_def GetChannel_def Let_def)
  have f: "ch_galactic (chans s' ch)" "ch_galacticMappedDestination (chans s' ch) = dest"
    "ch_brokerSubs (chans s' ch) = ch_brokerSubs (chans s ch) @ [\<lparr>cs_c = Some c, cs_s = Some sub\<rparr>]"
    unfolding s'(4)
    by (simp_all add: notify_mapped_def addBrokerSubscription_def addBrokerConnection_def SetGalactic_def)
  then have sd: "isBrokerSubscribedToDestination c dest (chans s' ch)"
    using sub(2) by (simp add: isBrokerSubscribedToDestination_def)
  have same: "upd_chan ch (SetGalactic dest) s' = s'" using f by (simp add: upd_chan_same SetGalactic_same)
  have "MarkChannelAsGalactic tcp_ok new2 new_m2 n dest (Some c) s' = Done (s', None)"
    using s'(2) assms(1) sd same by (simp add: MarkChannelAsGalactic_def handleGalacticChannelEvent_def GetChannel_def)
  with s' f sd sub(3) show ?thesis by (auto simp: IsGalactic_def)
qed

definition ex_ws_conn :: connection where
  "ex_ws_conn = nil_connection\<lparr>conn_id := ''conn'', conn_useWs := True, conn_wsConn := True,
     conn_ws := newBridgeWsClient\<lparr>bc_WSc := True, bc_open := True, bc_loop := True, bc_connected := True\<rparr>\<rparr>"

definition ex_galactic :: "connection \<Rightarrow> transportEventBus" where
  "ex_galactic cn = (fst (CreateChannel ''c'' (init_bus ''b'')))\<lparr>conns := (\<lambda>_. cn)\<rparr>"

lemma ex_galactic_simps:
  "Channels (ex_galactic cn) = [''c'' \<mapsto> 0]" "chans (ex_galactic cn) 0 = NewChannel ''c''" "conns (ex_galactic cn) 0 = cn"
  by (auto simp: ex_galactic_def CreateChannel_def init_bus_def Let_def go_SendMonitorEvent_def)

theorem galactic_ws_idempotent_witness:
  "\<exists>s'. MarkChannelAsGalactic True ''s1'' ''m1'' ''c'' ''/topic/a'' (Some 0) (ex_galactic ex_ws_conn) = Done (s', None) \<and>
     IsGalactic (chans s' 0)"
proof -
  have "\<not> isBrokerSubscribedToDestination 0 ''/topic/a'' (chans (ex_galactic ex_ws_conn) 0)"
    by (simp add: ex_galactic_simps isBrokerSubscribedToDestination_def NewChannel_def)
  from galactic_ws_idempotent[of "ex_galactic ex_ws_conn" "''c''", OF _ this, of True "''s1''" "''m1''"]
  show ?thesis by (simp add: ex_galactic_simps) (auto simp: ex_ws_conn_def nil_connection_def)
qed

text \<open>
  Over a TCP connection the destination of the subscription is not recorded, so marking the
  channel again adds the connection's cached subscription a second time.
\<close>

theorem galactic_tcp_duplicates:
  assumes "Channels s n = Some ch" and "ch_brokerSubs (chans s ch) = []" and "dest \<noteq> ''''"
    and "\<not> conn_useWs (conns s c)" and "conn_conn (conns s c)"
    and "conn_subscriptions (conns s c) dest = None"
  shows "\<exists>s' s'' sub. MarkChannelAsGalactic True new new_m n dest (Some c) s = Done (s', None) \<and>
    MarkChannelAsGalactic True new2 new_m2 n dest (Some c) s' = Done (s'', None) \<and>
    ch_brokerSubs (chans s'' ch) = [\<lparr>cs_c = Some c, cs_s = Some sub\<rparr>, \<lparr>cs_c = Some c, cs_s = Some sub\<rparr>]"
proof -
  obtain cn sub where sub: "connection_Subscribe True new dest (Some (conns s c)) = Done (Some cn, Inr sub)"
    "sub_destination sub = ''''" "conn_subscriptions cn dest = Some sub"
    using assms(4-6) by (auto simp: connection_Subscribe_def subscribeTCP_def Let_def)
  have nsub: "isBrokerSubscribedToDestination c dest x = False"
    if "ch_brokerSubs x = [] \<or> ch_brokerSubs x = [\<lparr>cs_c = Some c, cs_s = Some sub\<rparr>]" for x
    using that assms(3) sub(2) by (auto simp: isBrokerSubscribedToDestination_def)
  obtain s' where s': "MarkChannelAsGalactic True new new_m n dest (Some c) s = Done (s', None)"
    "Channels s' = Channels s" "conns s' c = cn"
    "ch_brokerSubs (chans s' ch) = [\<lparr>cs_c = Some c, cs_s = Some sub\<rparr>]"
    using sub(1) assms(1,2) nsub[of "SetGalactic dest (chans s ch)"]
    by (auto simp: MarkChannelAsGalactic_def handleGalacticChannelEvent_def GetChannel_def Let_def SetGalactic_def
        notify_mapped_def addBrokerSubscription_def addBrokerConnection_def)
  have again: "connection_Subscribe True new2 dest (Some (conns s' c)) = Done (Some cn, Inr sub)"
    using sub(3) s'(3) by (simp add: connection_Subscribe_def)
  obtain s'' where "MarkChannelAsGalactic True new2 new_m2 n dest (Some c) s' = Done (s'', None)"
    "ch_brokerSubs (chans s'' ch) = [\<lparr>cs_c = Some c, cs_s = Some sub\<rparr>, \<lparr>cs_c = Some c, cs_s = Some sub\<rparr>]"
    using again assms(1) s'(2,4) nsub[of "SetGalactic dest (chans s' ch)"]
    by (auto simp: MarkChannelAsGalactic_def handleGalacticChannelEvent_def GetChannel_def Let_def SetGalactic_def
        notify_mapped_def addBrokerSubscription_def addBrokerConnection_def)
  with s'(1) show ?thesis by blast
qed

definition ex_tcp_conn :: connection where
  "ex_tcp_conn = nil_connection\<lparr>conn_id := ''conn'', conn_conn := True\<rparr>"

theorem galactic_tcp_duplicates_witness:
  "\<exists>s' s''. MarkChannelAsGalactic True ''s1'' ''m1'' ''c'' ''/topic/a'' (Some 0) (ex_galactic ex_tcp_conn) = Done (s', None) \<and>
     MarkChannelAsGalactic True ''s2'' ''m2'' ''c'' ''/topic/a'' (Some 0) s' = Done (s'', None) \<and>
     length (ch_brokerSubs (chans s'' 0)) = 2"
proof -
  have "\<exists>s' s'' sub. MarkChannelAsGalactic True ''s1'' ''m1'' ''c'' ''/topic/a'' (Some 0) (ex_galactic ex_tcp_conn) = Done (s', None) \<and>
    MarkChannelAsGalactic True ''s2'' ''m2'' ''c'' ''/topic/a'' (Some 0) s' = Done (s'', None) \<and>
    ch_brokerSubs (chans s'' 0) = [\<lparr>cs_c = Some 0, cs_s = Some sub\<rparr>, \<lparr>cs_c = Some 0, cs_s = Some sub\<rparr>]"
    by (rule galactic_tcp_duplicates)
      (simp_all add: ex_galactic_simps ex_tcp_conn_def nil_connection_def NewChannel_def)
  then show ?thesis by fastforce
qed

text \<open>
  Marking a channel as local that has two broker subscriptions with different ids panics as
  soon as the first of them has been unsubscribed.
\<close>

theorem local_two_subscriptions_panics:
  assumes "Channels s n = Some ch" and "ch_brokerSubs (chans s ch) = [x, y]"
    and "cs_c x = Some c" and "cs_s x = Some sub" and "cs_s y = Some sub'" and "sub_id sub \<noteq> sub_id sub'"
    and "subscription_Unsubscribe sub (conns s c) = Done (cn, None)"
  shows "MarkChannelAsLocal new_m n s = Panic ''index out of range''"
proof -
  have "removeBrokerSubscription_arr (sub_id sub) [x, y] (length [x, y]) = Panic ''index out of range''"
    using removeBrokerSubscription_at[of 0 "[x, y]" "sub_id sub"] assms(4-6)
    by (auto simp: has_sub_id_def less_Suc_eq)
  then have r: "removeBrokerSubscription_arr (sub_id sub) [x, y] 2 = Panic ''index out of range''"
    by (simp add: numeral_2_eq_2)
  have sl: "ch_brokerSubs (removeBrokerConnections (SetLocal z)) = ch_brokerSubs z" for z
    by (simp add: removeBrokerConnections_def SetLocal_def)
  show ?thesis
    using assms(1-4,7) r
    by (simp add: MarkChannelAsLocal_def handleLocalChannelEvent_def GetChannel_def Let_def sl numeral_2_eq_2)
qed

theorem local_two_subscriptions_panics_witness:
  "MarkChannelAsLocal (\<lambda>_. ''m'') ''c'' (upd_chan 0 (\<lambda>ch. ch\<lparr>ch_brokerSubs := [ex_sub ''a'', ex_sub ''b'']\<rparr>)
     (ex_galactic ex_tcp_conn)) = Panic ''index out of range''"
  by (rule local_two_subscriptions_panics[where ch = 0 and c = 0 and x = "ex_sub ''a''" and y = "ex_sub ''b''"
        and sub = "the (cs_s (ex_sub ''a''))" and sub' = "the (cs_s (ex_sub ''b''))"])
    (simp_all add: ex_galactic_simps ex_sub_def subscription_Unsubscribe_def close_msg_channel_def
      ex_tcp_conn_def nil_connection_def)

end
