(* ===== verification/Store.thy ===== *)
theory Store
  imports Messages
begin

text \<open>
  A store of the bus (src/bus/store.go) with its change streams (store\_stream.go) and mutation
  streams (mutation\_store\_stream.go), as a record of its own; what an operation asks of the bus
  (a monitor event, a request to the broker) is a list of outputs that the store manager carries
  out. The goroutines that operations start are lists: changes to announce, handlers to run,
  functions that wait for the store to be ready. Each operation holds the locks it needs for its
  whole duration, so it is one step.
\<close>

subsection \<open>State\<close>

record StoreChange =
  sc_Id :: string
  sc_Value :: gval
  sc_State :: gval
  sc_IsDeleteChange :: bool
  sc_StoreVersion :: int64

record streamFilter =
  sf_states :: "gval list"
  sf_itemId :: string
  sf_matchAllItems :: bool

record storeStream =
  ss_handler :: "closure option"
  ss_filter :: streamFilter

record MutationRequest =
  mr_Request :: gval
  mr_RequestType :: gval
  mr_SuccessHandler :: "closure option"
  mr_ErrorHandler :: "closure option"

record mutationStoreStream =
  ms_handler :: "closure option"
  ms_requestTypes :: "gval list"

record storeSyncChannelConfig =
  sy_topicPrefix :: string
  sy_pubPrefix :: string
  sy_syncChannelName :: string
  sy_conn :: addr

text \<open>
  \<open>st_ready\<close> numbers the ready channels a store has had, \<open>st_closed\<close> are the closed ones. A
  goroutine of \<^verbatim>\<open>WhenReady\<close> has not yet looked at the channel, or waits on one of them.
\<close>

datatype ready_waiter = Started closure | WaitsOn nat closure

record busStore =
  st_name :: string
  st_items :: "(string \<times> gval) list"
  st_storeVersion :: int64
  st_storeStreams :: "addr list"
  st_mutationStreams :: "addr list"
  st_initialized :: bool
  st_ready :: nat
  st_closed :: "nat set"
  st_isGalactic :: bool
  st_galacticConf :: "storeSyncChannelConfig option"
  st_itemType :: "gtype option"
  st_storeSynHandler :: "addr option"
  st_streams :: "addr \<Rightarrow> storeStream"
  st_nextStream :: addr
  st_mutations :: "addr \<Rightarrow> mutationStoreStream"
  st_nextMutation :: addr
  st_changes :: "StoreChange list"
  st_fired :: "(closure \<times> StoreChange) list"
  st_mutFired :: "(closure \<times> MutationRequest) list"
  st_waiters :: "ready_waiter list"
  st_readyCalls :: "closure list"

datatype store_out = OutRequest "gval Request" | OutInitialized

definition initStore :: "busStore \<Rightarrow> busStore" where
  "initStore store = store\<lparr>st_ready := Suc (st_ready store), st_storeStreams := [],
     st_mutationStreams := [], st_items := [], st_storeVersion := 1, st_initialized := False\<rparr>"

definition nil_stream :: storeStream where
  "nil_stream = \<lparr>ss_handler = None, ss_filter = \<lparr>sf_states = [], sf_itemId = '''', sf_matchAllItems = False\<rparr>\<rparr>"

definition nil_mutation :: mutationStoreStream where
  "nil_mutation = \<lparr>ms_handler = None, ms_requestTypes = []\<rparr>"

text \<open>The part of \<^verbatim>\<open>newBusStore\<close> that does not talk to the bus.\<close>

definition newStoreObject :: "string \<Rightarrow> gtype option \<Rightarrow> storeSyncChannelConfig option \<Rightarrow> busStore" where
  "newStoreObject name itemType galacticConf =
     (initStore \<lparr>st_name = name, st_items = [], st_storeVersion = 0, st_storeStreams = [],
        st_mutationStreams = [], st_initialized = False, st_ready = 0, st_closed = {},
        st_isGalactic = False, st_galacticConf = galacticConf, st_itemType = itemType,
        st_storeSynHandler = None, st_streams = (\<lambda>_. nil_stream), st_nextStream = 0,
        st_mutations = (\<lambda>_. nil_mutation), st_nextMutation = 0, st_changes = [], st_fired = [],
        st_mutFired = [], st_waiters = [], st_readyCalls = []\<rparr>)
     \<lparr>st_isGalactic := galacticConf \<noteq> None\<rparr>"

subsection \<open>Items\<close>

definition putInternal :: "string \<Rightarrow> gval \<Rightarrow> gval \<Rightarrow> busStore \<Rightarrow> busStore" where
  "putInternal uid v state store =
     (let version = (if st_isGalactic store then st_storeVersion store else st_storeVersion store + 1)
      in store\<lparr>st_storeVersion := version, st_items := AList.update uid v (st_items store),
               st_changes := st_changes store @ [\<lparr>sc_Id = uid, sc_Value = v, sc_State = state,
                 sc_IsDeleteChange = False, sc_StoreVersion = version\<rparr>]\<rparr>)"

definition removeInternal :: "string \<Rightarrow> gval \<Rightarrow> busStore \<Rightarrow> busStore \<times> bool" where
  "removeInternal uid state store =
     (case map_of (st_items store) uid of
        None \<Rightarrow> (store, False)
      | Some v \<Rightarrow>
          let version = (if st_isGalactic store then st_storeVersion store else st_storeVersion store + 1)
          in (store\<lparr>st_storeVersion := version, st_items := AList.delete uid (st_items store),
                    st_changes := st_changes store @ [\<lparr>sc_Id = uid, sc_Value = v, sc_State = state,
                      sc_IsDeleteChange = True, sc_StoreVersion = version\<rparr>]\<rparr>, True))"

text \<open>\<open>new\<close> is the id of the request.\<close>

definition sendGalacticRequest :: "uuid \<Rightarrow> string \<Rightarrow> gval \<Rightarrow> store_out list" where
  "sendGalacticRequest new requestCmd requestPayload =
     [OutRequest (Request (Some new) 0 0 '''' requestPayload requestCmd None)]"

definition sendOpenStoreRequest :: "uuid \<Rightarrow> busStore \<Rightarrow> store_out list" where
  "sendOpenStoreRequest new store =
     sendGalacticRequest new ''openStore'' (GStringMap [(''storeId'', st_name store)])"

definition sendCloseStoreRequest :: "uuid \<Rightarrow> busStore \<Rightarrow> store_out list" where
  "sendCloseStoreRequest new store =
     sendGalacticRequest new ''closeStore'' (GStringMap [(''storeId'', st_name store)])"

definition sendUpdateStoreRequest :: "uuid \<Rightarrow> string \<Rightarrow> gval \<Rightarrow> int64 \<Rightarrow> busStore \<Rightarrow> store_out list" where
  "sendUpdateStoreRequest new uid v storeVersion store =
     sendGalacticRequest new ''updateStore'' (GMap [(''storeId'', GString (st_name store)),
       (''clientStoreVersion'', GInt64 storeVersion), (''itemId'', GString uid), (''newItemValue'', v)])"

definition putGalactic :: "uuid \<Rightarrow> string \<Rightarrow> gval \<Rightarrow> busStore \<Rightarrow> store_out list" where
  "putGalactic new uid v store = sendUpdateStoreRequest new uid v (st_storeVersion store) store"

definition removeGalactic :: "uuid \<Rightarrow> string \<Rightarrow> busStore \<Rightarrow> store_out list \<times> bool" where
  "removeGalactic new uid store =
     (if map_of (st_items store) uid \<noteq> None
      then (sendUpdateStoreRequest new uid GNil (st_storeVersion store) store, True)
      else ([], False))"

definition Put :: "uuid \<Rightarrow> string \<Rightarrow> gval \<Rightarrow> gval \<Rightarrow> busStore \<Rightarrow> busStore \<times> store_out list" where
  "Put new uid v state store =
     (if st_isGalactic store then (store, putGalactic new uid v store)
      else (putInternal uid v state store, []))"

definition Remove :: "uuid \<Rightarrow> string \<Rightarrow> gval \<Rightarrow> busStore \<Rightarrow> busStore \<times> store_out list \<times> bool" where
  "Remove new uid state store =
     (if st_isGalactic store then (store, removeGalactic new uid store)
      else (case removeInternal uid state store of (store', b) \<Rightarrow> (store', [], b)))"

definition Get :: "string \<Rightarrow> busStore \<Rightarrow> gval option" where
  "Get uid store = map_of (st_items store) uid"

definition GetValue :: "string \<Rightarrow> busStore \<Rightarrow> gval" where
  "GetValue uid store = (case Get uid store of None \<Rightarrow> GNil | Some v \<Rightarrow> v)"

definition AllValues :: "busStore \<Rightarrow> gval list" where
  "AllValues store = map snd (st_items store)"

definition AllValuesAsMap :: "busStore \<Rightarrow> (string \<times> gval) list" where
  "AllValuesAsMap store = st_items store"

definition AllValuesAndVersion :: "busStore \<Rightarrow> (string \<times> gval) list \<times> int64" where
  "AllValuesAndVersion store = (st_items store, st_storeVersion store)"

subsection \<open>Initialisation\<close>

definition Initialize :: "busStore \<Rightarrow> busStore \<times> store_out list" where
  "Initialize store =
     (if st_initialized store then (store, [])
      else (store\<lparr>st_initialized := True, st_closed := insert (st_ready store) (st_closed store)\<rparr>,
            [OutInitialized]))"

definition Populate :: "(string \<times> gval) list \<Rightarrow> busStore \<Rightarrow> busStore \<times> store_out list \<times> error option" where
  "Populate items store =
     (if st_isGalactic store then (store, [], Some ''populate() API is not supported for galactic stores'')
      else if length (st_items store) > 0 then (store, [], Some ''store items already initialized'')
      else (case Initialize (store\<lparr>st_items := fold (\<lambda>(k, v). AList.update k v) items (st_items store)\<rparr>) of
              (store', out) \<Rightarrow> (store', out, None)))"

definition Reset :: "uuid \<Rightarrow> busStore \<Rightarrow> busStore \<times> store_out list" where
  "Reset new store =
     (let store' = initStore store in
      (store', if st_isGalactic store' then sendOpenStoreRequest new store' else []))"

definition WhenReady :: "closure \<Rightarrow> busStore \<Rightarrow> busStore" where
  "WhenReady readyFunc store = store\<lparr>st_waiters := st_waiters store @ [Started readyFunc]\<rparr>"

text \<open>
  One step of the \<open>i\<close>-th goroutine of \<^verbatim>\<open>WhenReady\<close>: it starts to receive from the store's present
  ready channel; or the channel it receives from is closed and it calls the function; or it
  waits.
\<close>

definition stepWaiter :: "nat \<Rightarrow> busStore \<Rightarrow> busStore go" where
  "stepWaiter i store =
     (case st_waiters store ! i of
        Started f \<Rightarrow> Done (store\<lparr>st_waiters := (st_waiters store)[i := WaitsOn (st_ready store) f]\<rparr>)
      | WaitsOn c f \<Rightarrow>
          if c \<in> st_closed store
          then Done (store\<lparr>st_waiters := remove_at i (st_waiters store),
                           st_readyCalls := st_readyCalls store @ [f]\<rparr>)
          else Block)"

subsection \<open>Change streams\<close>

text \<open>
  \<^verbatim>\<open>==\<close> on two interface values: dynamic types that cannot be compared panic when both sides have
  that type.
\<close>

fun iface_eq :: "gval \<Rightarrow> gval \<Rightarrow> bool go" where
  "iface_eq (GBytes _) (GBytes _) = Panic ''comparing uncomparable type''"
| "iface_eq (GMap _) (GMap _) = Panic ''comparing uncomparable type''"
| "iface_eq (GStringMap _) (GStringMap _) = Panic ''comparing uncomparable type''"
| "iface_eq x y = Done (x = y)"

fun any_eq :: "gval list \<Rightarrow> gval \<Rightarrow> bool go" where
  "any_eq [] v = Done False"
| "any_eq (x # xs) v = go_bind (iface_eq x v) (\<lambda>b. if b then Done True else any_eq xs v)"

definition streamFilter_match :: "streamFilter \<Rightarrow> StoreChange \<Rightarrow> bool go" where
  "streamFilter_match f change =
     (if sf_matchAllItems f \<or> sf_itemId f = sc_Id change then
        (if sf_states f = [] then Done True else any_eq (sf_states f) (sc_State change))
      else Done False)"

definition newStoreStream :: "streamFilter \<Rightarrow> busStore \<Rightarrow> busStore \<times> addr" where
  "newStoreStream filt store =
     (let a = st_nextStream store in
      (store\<lparr>st_streams := (st_streams store)(a := \<lparr>ss_handler = None, ss_filter = filt\<rparr>),
             st_nextStream := Suc a\<rparr>, a))"

definition OnChange :: "string \<Rightarrow> gval list \<Rightarrow> busStore \<Rightarrow> busStore \<times> addr" where
  "OnChange uid states store =
     newStoreStream \<lparr>sf_states = states, sf_itemId = uid, sf_matchAllItems = False\<rparr> store"

definition OnAllChanges :: "gval list \<Rightarrow> busStore \<Rightarrow> busStore \<times> addr" where
  "OnAllChanges states store =
     newStoreStream \<lparr>sf_states = states, sf_itemId = '''', sf_matchAllItems = True\<rparr> store"

definition onStreamSubscribe :: "addr \<Rightarrow> busStore \<Rightarrow> busStore" where
  "onStreamSubscribe stream store = store\<lparr>st_storeStreams := st_storeStreams store @ [stream]\<rparr>"

definition onStreamUnsubscribe :: "addr \<Rightarrow> busStore \<Rightarrow> busStore" where
  "onStreamUnsubscribe stream store =
     (case find_index (\<lambda>s. s = stream) (st_storeStreams store) of
        None \<Rightarrow> store
      | Some i \<Rightarrow> store\<lparr>st_storeStreams := swap_remove i (st_storeStreams store)\<rparr>)"

definition set_stream_handler :: "addr \<Rightarrow> closure option \<Rightarrow> busStore \<Rightarrow> busStore" where
  "set_stream_handler a h store =
     store\<lparr>st_streams := (st_streams store)(a := (st_streams store a)\<lparr>ss_handler := h\<rparr>)\<rparr>"

definition storeStream_Subscribe :: "addr \<Rightarrow> closure option \<Rightarrow> busStore \<Rightarrow> busStore \<times> error option" where
  "storeStream_Subscribe a handler store =
     (if handler = None then (store, Some ''invalid StoreChangeHandlerFunction'')
      else if ss_handler (st_streams store a) \<noteq> None then (store, Some ''stream already subscribed'')
      else (onStreamSubscribe a (set_stream_handler a handler store), None))"

definition storeStream_Unsubscribe :: "addr \<Rightarrow> busStore \<Rightarrow> busStore \<times> error option" where
  "storeStream_Unsubscribe a store =
     (if ss_handler (st_streams store a) = None then (store, Some ''stream not subscribed'')
      else (onStreamUnsubscribe a (set_stream_handler a None store), None))"

definition storeStream_onStoreChange :: "storeStream \<Rightarrow> StoreChange \<Rightarrow> ((closure \<times> StoreChange) list) go" where
  "storeStream_onStoreChange s change =
     go_map (\<lambda>m. if \<not> m then [] else case ss_handler s of None \<Rightarrow> [] | Some h \<Rightarrow> [(h, change)])
       (streamFilter_match (ss_filter s) change)"

fun fire_streams :: "(addr \<Rightarrow> storeStream) \<Rightarrow> StoreChange \<Rightarrow> addr list \<Rightarrow> ((closure \<times> StoreChange) list) go" where
  "fire_streams heap change [] = Done []"
| "fire_streams heap change (a # as) =
     go_bind (storeStream_onStoreChange (heap a) change) (\<lambda>out.
       go_map (\<lambda>rest. out @ rest) (fire_streams heap change as))"

text \<open>The goroutine started for the \<open>i\<close>-th change runs.\<close>

definition onStoreChange :: "nat \<Rightarrow> busStore \<Rightarrow> busStore go" where
  "onStoreChange i store =
     go_map (\<lambda>out. store\<lparr>st_changes := remove_at i (st_changes store), st_fired := st_fired store @ out\<rparr>)
       (fire_streams (st_streams store) (st_changes store ! i) (st_storeStreams store))"

subsection \<open>Mutation streams\<close>

definition mutationFilter_match :: "gval list \<Rightarrow> MutationRequest \<Rightarrow> bool go" where
  "mutationFilter_match requestTypes mutationReq =
     (if requestTypes = [] then Done True else any_eq requestTypes (mr_RequestType mutationReq))"

definition OnMutationRequest :: "gval list \<Rightarrow> busStore \<Rightarrow> busStore \<times> addr" where
  "OnMutationRequest requestTypes store =
     (let a = st_nextMutation store in
      (store\<lparr>st_mutations := (st_mutations store)(a := \<lparr>ms_handler = None, ms_requestTypes = requestTypes\<rparr>),
             st_nextMutation := Suc a\<rparr>, a))"

definition onMutationStreamSubscribe :: "addr \<Rightarrow> busStore \<Rightarrow> busStore" where
  "onMutationStreamSubscribe stream store = store\<lparr>st_mutationStreams := st_mutationStreams store @ [stream]\<rparr>"

definition onMutationStreamUnsubscribe :: "addr \<Rightarrow> busStore \<Rightarrow> busStore" where
  "onMutationStreamUnsubscribe stream store =
     (case find_index (\<lambda>s. s = stream) (st_mutationStreams store) of
        None \<Rightarrow> store
      | Some i \<Rightarrow> store\<lparr>st_mutationStreams := swap_remove i (st_mutationStreams store)\<rparr>)"

definition set_mutation_handler :: "addr \<Rightarrow> closure option \<Rightarrow> busStore \<Rightarrow> busStore" where
  "set_mutation_handler a h store =
     store\<lparr>st_mutations := (st_mutations store)(a := (st_mutations store a)\<lparr>ms_handler := h\<rparr>)\<rparr>"

definition mutationStream_Subscribe :: "addr \<Rightarrow> closure option \<Rightarrow> busStore \<Rightarrow> busStore \<times> error option" where
  "mutationStream_Subscribe a handler store =
     (if handler = None then (store, Some ''invalid MutationRequestHandlerFunction'')
      else if ms_handler (st_mutations store a) \<noteq> None then (store, Some ''stream already subscribed'')
      else (onMutationStreamSubscribe a (set_mutation_handler a handler store), None))"

definition mutationStream_Unsubscribe :: "addr \<Rightarrow> busStore \<Rightarrow> busStore \<times> error option" where
  "mutationStream_Unsubscribe a store =
     (if ms_handler (st_mutations store a) = None then (store, Some ''stream not subscribed'')
      else (onMutationStreamUnsubscribe a (set_mutation_handler a None store), None))"

fun fire_mutations ::
  "(addr \<Rightarrow> mutationStoreStream) \<Rightarrow> MutationRequest \<Rightarrow> addr list \<Rightarrow> ((closure \<times> MutationRequest) list) go" where
  "fire_mutations heap req [] = Done []"
| "fire_mutations heap req (a # as) =
     go_bind (mutationFilter_match (ms_requestTypes (heap a)) req) (\<lambda>m.
       go_map (\<lambda>rest. (if \<not> m then [] else case ms_handler (heap a) of None \<Rightarrow> [] | Some h \<Rightarrow> [(h, req)]) @ rest)
         (fire_mutations heap req as))"

definition Mutate :: "gval \<Rightarrow> gval \<Rightarrow> closure option \<Rightarrow> closure option \<Rightarrow> busStore \<Rightarrow> busStore go" where
  "Mutate request requestType successHandler errorHandler store =
     go_map (\<lambda>out. store\<lparr>st_mutFired := st_mutFired store @ out\<rparr>)
       (fire_mutations (st_mutations store)
          \<lparr>mr_Request = request, mr_RequestType = requestType, mr_SuccessHandler = successHandler,
           mr_ErrorHandler = errorHandler\<rparr> (st_mutationStreams store))"

subsection \<open>Responses of the store server\<close>

text \<open>
  The conversion of a float to an integer truncates; outside the range of 64 bits Go leaves the
  value to the implementation, here it wraps.
\<close>

definition float_to_int64 :: "rat \<Rightarrow> int64" where
  "float_to_int64 r = word_of_int (if r < 0 then \<lceil>r\<rceil> else \<lfloor>r\<rfloor>)"

definition updateVersionFromResponse :: "(string \<times> gval) list \<Rightarrow> busStore \<Rightarrow> busStore" where
  "updateVersionFromResponse storeResponse store =
     (case map_of storeResponse ''storeVersion'' of
        Some (GFloat64 r) \<Rightarrow> store\<lparr>st_storeVersion := float_to_int64 r\<rparr>
      | Some (GInt64 v) \<Rightarrow> store\<lparr>st_storeVersion := v\<rparr>
      | _ \<Rightarrow> store\<lparr>st_storeVersion := 1\<rparr>)"

text \<open>
  \<open>conv\<close> is \<^verbatim>\<open>ConvertValueToType\<close> at the JSON codec in use: it takes the item type and the value.
\<close>

type_synonym conv = "gtype option \<Rightarrow> gval \<Rightarrow> error + gval"

definition deserializeRawValue :: "conv \<Rightarrow> gval \<Rightarrow> busStore \<Rightarrow> error + gval" where
  "deserializeRawValue conv rawValue store = conv (st_itemType store) rawValue"

fun load_items :: "conv \<Rightarrow> (string \<times> gval) list \<Rightarrow> busStore \<Rightarrow> busStore" where
  "load_items conv [] store = store"
| "load_items conv ((k, raw) # rest) store =
     (case deserializeRawValue conv raw store of
        Inl _ \<Rightarrow> load_items conv rest store
      | Inr v \<Rightarrow> load_items conv rest (store\<lparr>st_items := AList.update k v (st_items store)\<rparr>))"

text \<open>
  The handler that \<^verbatim>\<open>initGalacticStore\<close> installs on the sync channel; \<open>unmarshal\<close> is the JSON
  decoder for an object. Every type assertion that does not hold panics.
\<close>

definition galacticSync ::
  "(bytes \<Rightarrow> error + (string \<times> gval) list) \<Rightarrow> conv \<Rightarrow> gval \<Rightarrow> busStore \<Rightarrow> (busStore \<times> store_out list) go" where
  "galacticSync unmarshal conv payload store =
     (case payload of
        GBytes d \<Rightarrow>
          (case unmarshal d of
             Inl _ \<Rightarrow> Done (store, [])
           | Inr storeResponse \<Rightarrow>
               if map_of storeResponse ''storeId'' \<noteq> Some (GString (st_name store)) then Done (store, [])
               else (case map_of storeResponse ''responseType'' of
                 Some (GString responseType) \<Rightarrow>
                   if responseType = ''storeContentResponse'' then
                     (let s1 = updateVersionFromResponse storeResponse store in
                      case map_of storeResponse ''items'' of
                        Some (GMap items) \<Rightarrow> Done (Initialize (load_items conv items (s1\<lparr>st_items := []\<rparr>)))
                      | _ \<Rightarrow> Panic ''interface conversion'')
                   else if responseType = ''updateStoreResponse'' then
                     (let s1 = updateVersionFromResponse storeResponse store in
                      case map_of storeResponse ''itemId'' of
                        Some (GString itemId) \<Rightarrow>
                          (case map_of storeResponse ''newItemValue'' of
                             None \<Rightarrow> Done (fst (removeInternal itemId (GString ''galacticSyncRemove'') s1), [])
                           | Some GNil \<Rightarrow> Done (fst (removeInternal itemId (GString ''galacticSyncRemove'') s1), [])
                           | Some raw \<Rightarrow>
                               (case deserializeRawValue conv raw s1 of
                                  Inl _ \<Rightarrow> Done (s1, [])
                                | Inr v \<Rightarrow> Done (putInternal itemId v (GString ''galacticSyncUpdate'') s1, [])))
                      | _ \<Rightarrow> Panic ''interface conversion'')
                   else Done (store, [])
               | _ \<Rightarrow> Panic ''interface conversion''))
      | _ \<Rightarrow> Panic ''interface conversion'')"

end
