(* ===== verification/MapStore.thy ===== *)
theory MapStore
  imports Prelude
begin

text \<open>
  The contract of a keyed store: what a lookup returns after an item is put or removed. The local
  stores of the bus and the replicas that follow a store server both provide it
  (src/bus/store.go), and that a replica which is given the server's operations in order ends
  with the server's items is proved from the contract alone.
\<close>

datatype 'v store_op = PutOp string 'v | DelOp string

fun map_apply :: "'v store_op \<Rightarrow> (string \<rightharpoonup> 'v) \<Rightarrow> (string \<rightharpoonup> 'v)" where
  "map_apply (PutOp k v) m = m(k \<mapsto> v)"
| "map_apply (DelOp k) m = m(k := None)"

locale map_store =
  fixes lookup :: "'s \<Rightarrow> string \<Rightarrow> 'v option"
    and put :: "string \<Rightarrow> 'v \<Rightarrow> 's \<Rightarrow> 's"
    and del :: "string \<Rightarrow> 's \<Rightarrow> 's"
    and inv :: "'s \<Rightarrow> bool"
  assumes inv_put: "inv s \<Longrightarrow> inv (put k v s)"
    and inv_del: "inv s \<Longrightarrow> inv (del k s)"
    and lookup_put: "inv s \<Longrightarrow> lookup (put k v s) = (lookup s)(k \<mapsto> v)"
    and lookup_del: "inv s \<Longrightarrow> lookup (del k s) = (lookup s)(k := None)"
begin

fun store_apply :: "'v store_op \<Rightarrow> 's \<Rightarrow> 's" where
  "store_apply (PutOp k v) s = put k v s"
| "store_apply (DelOp k) s = del k s"

lemma apply_inv: "inv s \<Longrightarrow> inv (store_apply p s)"
  by (cases p) (auto simp: inv_put inv_del)

lemma apply_lookup: "inv s \<Longrightarrow> lookup (store_apply p s) = map_apply p (lookup s)"
  by (cases p) (auto simp: lookup_put lookup_del)

lemma refines_map:
  "inv s \<Longrightarrow> inv (fold store_apply ops s) \<and> lookup (fold store_apply ops s) = fold map_apply ops (lookup s)"
  by (induction ops arbitrary: s) (auto simp: apply_inv apply_lookup)

end

locale replica = server: map_store lookup put del inv + client: map_store lookup' put' del' inv'
  for lookup :: "'s \<Rightarrow> string \<Rightarrow> 'v option" and put del inv
    and lookup' :: "'c \<Rightarrow> string \<Rightarrow> 'v option" and put' del' inv'
begin

lemma converges:
  "inv s \<Longrightarrow> inv' c \<Longrightarrow> lookup' c = lookup s \<Longrightarrow>
     lookup' (fold client.store_apply ops c) = lookup (fold server.store_apply ops s)"
  by (simp add: server.refines_map client.refines_map)

end

end
