(* ===== verification/StoreLaws.thy ===== *)
theory StoreLaws
  imports Store MapStore
begin

text \<open>
  What a store promises: it is well formed after every operation, a local store is a map with a
  version that counts its changes, a replica that is told of the changes in order is the same
  map, changes reach exactly the streams that want them, and how streams and waiting functions
  fare when a store is reset.
\<close>

subsection \<open>Well-formed stores\<close>

definition store_wf :: "busStore \<Rightarrow> bool" where
  "store_wf store \<longleftrightarrow> keys_distinct (st_items store) \<and>
     distinct (st_storeStreams store) \<and> distinct (st_mutationStreams store) \<and>
     (\<forall>a\<in>set (st_storeStreams store). a < st_nextStream store \<and> ss_handler (st_streams store a) \<noteq> None) \<and>
     (\<forall>a\<in>set (st_mutationStreams store). a < st_nextMutation store \<and> ms_handler (st_mutations store a) \<noteq> None)"

lemma putInternal_simps [simp]:
  "st_items (putInternal k v d s) = AList.update k v (st_items s)"
  "st_isGalactic (putInternal k v d s) = st_isGalactic s"
  "st_name (putInternal k v d s) = st_name s"
  "st_itemType (putInternal k v d s) = st_itemType s"
  by (simp_all add: putInternal_def Let_def)

lemma removeInternal_items:
  "keys_distinct (st_items s) \<Longrightarrow> map_of (st_items (fst (removeInternal k d s))) = (map_of (st_items s))(k := None)"
  by (auto simp: removeInternal_def Let_def split: option.split)

lemma removeInternal_simps [simp]:
  "st_isGalactic (fst (removeInternal k d s)) = st_isGalactic s"
  "st_name (fst (removeInternal k d s)) = st_name s"
  "st_itemType (fst (removeInternal k d s)) = st_itemType s"
  "keys_distinct (st_items s) \<Longrightarrow> keys_distinct (st_items (fst (removeInternal k d s)))"
  by (auto simp: removeInternal_def Let_def split: option.split)

lemma putInternal_wf: "store_wf s \<Longrightarrow> store_wf (putInternal k v d s)"
  by (auto simp: store_wf_def putInternal_def Let_def)

lemma removeInternal_wf: "store_wf s \<Longrightarrow> store_wf (fst (removeInternal k d s))"
  by (auto simp: store_wf_def removeInternal_def Let_def split: option.split)

lemma newStoreObject_wf: "store_wf (newStoreObject n t g)"
  by (simp add: store_wf_def newStoreObject_def initStore_def)

lemma Put_wf: "store_wf s \<Longrightarrow> store_wf (fst (Put new k v d s))"
  by (simp add: Put_def putInternal_wf)

lemma Remove_wf: "store_wf s \<Longrightarrow> store_wf (fst (Remove new k d s))"
  using removeInternal_wf[of s k d] by (auto simp: Remove_def split: prod.split)

lemma Initialize_wf: "store_wf s \<Longrightarrow> store_wf (fst (Initialize s))"
  by (simp add: Initialize_def store_wf_def)

lemma fold_update_distinct:
  "keys_distinct m \<Longrightarrow> keys_distinct (fold (\<lambda>(k, v). AList.update k v) xs m)"
  by (induction xs arbitrary: m) auto

lemma Populate_wf: "store_wf s \<Longrightarrow> store_wf (fst (Populate items s))"
proof -
  assume wf: "store_wf s"
  let ?s = "s\<lparr>st_items := fold (\<lambda>(k, v). AList.update k v) items (st_items s)\<rparr>"
  have "store_wf ?s" using wf fold_update_distinct[of "st_items s" items] by (simp add: store_wf_def)
  then have "store_wf (fst (Initialize ?s))" by (rule Initialize_wf)
  with wf show ?thesis by (auto simp: Populate_def split: prod.split)
qed

lemma Reset_wf: "store_wf (fst (Reset new s))"
  by (simp add: Reset_def Let_def store_wf_def initStore_def)

lemma stream_table:
  assumes "distinct xs"
  shows "set (case find_index (\<lambda>s. s = a) xs of None \<Rightarrow> xs | Some i \<Rightarrow> swap_remove i xs) = set xs - {a}"
    and "distinct (case find_index (\<lambda>s. s = a) xs of None \<Rightarrow> xs | Some i \<Rightarrow> swap_remove i xs)"
  using assms set_swap_remove_distinct[of _ xs] find_index_SomeD[of "\<lambda>s. s = a" xs]
  by (auto split: option.split)

lemma onStreamUnsubscribe_streams:
  assumes "distinct (st_storeStreams s)"
  shows "set (st_storeStreams (onStreamUnsubscribe a s)) = set (st_storeStreams s) - {a}"
    and "distinct (st_storeStreams (onStreamUnsubscribe a s))"
proof -
  have "st_storeStreams (onStreamUnsubscribe a s) =
      (case find_index (\<lambda>s. s = a) (st_storeStreams s) of None \<Rightarrow> st_storeStreams s
       | Some i \<Rightarrow> swap_remove i (st_storeStreams s))"
    unfolding onStreamUnsubscribe_def
    by (cases "find_index (\<lambda>s. s = a) (st_storeStreams s)") (simp_all del: find_index_None_iff)
  with stream_table[OF assms, of a] show "set (st_storeStreams (onStreamUnsubscribe a s)) = set (st_storeStreams s) - {a}"
    "distinct (st_storeStreams (onStreamUnsubscribe a s))" by simp_all
qed

lemma onStreamUnsubscribe_frame [simp]:
  "st_items (onStreamUnsubscribe a s) = st_items s"
  "st_streams (onStreamUnsubscribe a s) = st_streams s"
  "st_nextStream (onStreamUnsubscribe a s) = st_nextStream s"
  "st_mutations (onStreamUnsubscribe a s) = st_mutations s"
  "st_mutationStreams (onStreamUnsubscribe a s) = st_mutationStreams s"
  "st_nextMutation (onStreamUnsubscribe a s) = st_nextMutation s"
  by (simp_all add: onStreamUnsubscribe_def split: option.split)

lemma storeStream_Unsubscribe_wf: "store_wf s \<Longrightarrow> store_wf (fst (storeStream_Unsubscribe a s))"
  by (auto simp: store_wf_def storeStream_Unsubscribe_def set_stream_handler_def onStreamUnsubscribe_streams)

lemma storeStream_Subscribe_wf:
  "store_wf s \<Longrightarrow> a < st_nextStream s \<Longrightarrow> store_wf (fst (storeStream_Subscribe a h s))"
  by (auto simp: store_wf_def storeStream_Subscribe_def set_stream_handler_def onStreamSubscribe_def)

lemma newStoreStream_wf: "store_wf s \<Longrightarrow> store_wf (fst (newStoreStream f s))"
  by (auto simp: store_wf_def newStoreStream_def Let_def less_Suc_eq)

subsection \<open>Stores as maps\<close>

lemma local_put_eq: "\<not> st_isGalactic s \<Longrightarrow> fst (Put new k v state s) = putInternal k v state s"
  by (simp add: Put_def)

lemma local_remove_eq: "\<not> st_isGalactic s \<Longrightarrow> fst (Remove new k state s) = fst (removeInternal k state s)"
  by (simp add: Remove_def split: prod.split)

interpretation local_store: map_store "\<lambda>s k. Get k s" "\<lambda>k v s. fst (Put new k v state s)"
  "\<lambda>k s. fst (Remove new k state s)" "\<lambda>s. store_wf s \<and> \<not> st_isGalactic s" for new state
proof (unfold_locales, goal_cases)
  case (1 s k v)
  then show ?case by (simp add: Put_wf) (simp add: Put_def)
next
  case (2 s k)
  then show ?case using Remove_wf[of s new k state] by (simp add: local_remove_eq)
next
  case (3 s k v)
  then show ?case by (auto simp: Get_def Put_def)
next
  case (4 s k)
  then show ?case using removeInternal_items[of s k state]
    by (simp add: Get_def local_remove_eq store_wf_def fun_eq_iff)
qed

text \<open>A replica applies what the store server announces.\<close>

definition replica_put :: "string \<Rightarrow> gval \<Rightarrow> busStore \<Rightarrow> busStore" where
  "replica_put k v = putInternal k v (GString ''galacticSyncUpdate'')"

definition replica_del :: "string \<Rightarrow> busStore \<Rightarrow> busStore" where
  "replica_del k s = fst (removeInternal k (GString ''galacticSyncRemove'') s)"

interpretation replica_store: map_store "\<lambda>s k. Get k s" replica_put replica_del "\<lambda>s. store_wf s \<and> st_isGalactic s"
proof (unfold_locales, goal_cases)
  case (4 s k)
  then show ?case using removeInternal_items[of s k "GString ''galacticSyncRemove''"]
    by (simp add: Get_def replica_del_def store_wf_def fun_eq_iff)
qed (auto simp: Get_def replica_put_def replica_del_def putInternal_wf removeInternal_wf)

interpretation sync_replica: replica "\<lambda>s k. Get k s" "\<lambda>k v s. fst (Put new k v state s)"
  "\<lambda>k s. fst (Remove new k state s)" "\<lambda>s. store_wf s \<and> \<not> st_isGalactic s"
  "\<lambda>s k. Get k s" replica_put replica_del "\<lambda>s. store_wf s \<and> st_isGalactic s" for new state
  by unfold_locales

subsection \<open>Properties\<close>

text \<open>A run of a program on a local store.\<close>

definition run_store :: "uuid \<Rightarrow> gval \<Rightarrow> gval store_op list \<Rightarrow> busStore \<Rightarrow> busStore" where
  "run_store new state ops s = fold (\<lambda>p s. case p of PutOp k v \<Rightarrow> fst (Put new k v state s)
     | DelOp k \<Rightarrow> fst (Remove new k state s)) ops s"

lemma run_store_eq: "run_store new state ops s = fold (local_store.store_apply new state) ops s"
  unfolding run_store_def
proof (induction ops arbitrary: s)
  case (Cons p ops)
  then show ?case by (cases p) simp_all
qed simp

text \<open>
  C3. A local store behaves as a finite map: after any sequence of \<^verbatim>\<open>Put\<close> and \<^verbatim>\<open>Remove\<close> calls a \<^verbatim>\<open>Get\<close>
  returns what the same sequence leaves in a map, and the store stays well formed.
\<close>

theorem local_store_refines_map:
  assumes "store_wf s" and "\<not> st_isGalactic s"
  shows "store_wf (run_store new state ops s) \<and>
    (\<lambda>k. Get k (run_store new state ops s)) = fold map_apply ops (\<lambda>k. Get k s)"
  using local_store.refines_map[of s new state ops] assms unfolding run_store_eq by blast

theorem local_store_refines_map_witness:
  "Get ''a'' (run_store ''u'' GNil [PutOp ''a'' (GString ''x''), PutOp ''b'' GNil, DelOp ''b'']
     (newStoreObject ''s'' None None)) = Some (GString ''x'')"
proof -
  let ?ops = "[PutOp ''a'' (GString ''x''), PutOp ''b'' GNil, DelOp ''b'']"
  let ?s = "newStoreObject ''s'' None None"
  have "\<not> st_isGalactic ?s" by (simp add: newStoreObject_def)
  then have "(\<lambda>k. Get k (run_store ''u'' GNil ?ops ?s)) = fold map_apply ?ops (\<lambda>k. Get k ?s)"
    using local_store_refines_map[OF newStoreObject_wf, of "''s''" None None "''u''" GNil ?ops] by blast
  then have "Get ''a'' (run_store ''u'' GNil ?ops ?s) = fold map_apply ?ops (\<lambda>k. Get k ?s) ''a''"
    by (rule fun_cong)
  then show ?thesis by simp
qed

text \<open>The operations that change something: every put, and the removals of items that are there.\<close>

fun effective :: "gval store_op list \<Rightarrow> (string \<rightharpoonup> gval) \<Rightarrow> nat" where
  "effective [] m = 0"
| "effective (PutOp k v # ops) m = Suc (effective ops (m(k \<mapsto> v)))"
| "effective (DelOp k # ops) m = (if m k = None then effective ops m else Suc (effective ops (m(k := None))))"

text \<open>
  C39. The version of a local store counts its changes: it goes up by one, wrapping at 64 bits,
  for every put and every removal of an item that is there, each of these announces exactly one
  change, and a removal of an absent item changes nothing.
\<close>

theorem local_store_version:
  assumes "store_wf s" and "\<not> st_isGalactic s"
  shows "st_storeVersion (run_store new state ops s) =
      st_storeVersion s + of_nat (effective ops (\<lambda>k. Get k s)) \<and>
    length (st_changes (run_store new state ops s)) = length (st_changes s) + effective ops (\<lambda>k. Get k s)"
  using assms
proof (induction ops arbitrary: s)
  case Nil
  then show ?case by (simp add: run_store_def)
next
  case (Cons p ops)
  show ?case
  proof (cases p)
    case (PutOp k v)
    let ?s = "putInternal k v state s"
    have g: "(\<lambda>x. Get x ?s) = (\<lambda>x. Get x s)(k \<mapsto> v)" by (auto simp: Get_def fun_eq_iff)
    have "st_storeVersion ?s = st_storeVersion s + 1" "length (st_changes ?s) = Suc (length (st_changes s))"
      using Cons.prems(2) by (simp_all add: putInternal_def Let_def)
    with PutOp Cons.IH[of ?s] Cons.prems putInternal_wf[of s k v state] g show ?thesis
      by (simp add: run_store_def local_put_eq)
  next
    case (DelOp k)
    let ?s = "fst (removeInternal k state s)"
    have kd: "keys_distinct (st_items s)" using Cons.prems(1) by (simp add: store_wf_def)
    have g: "(\<lambda>x. Get x ?s) = (\<lambda>x. Get x s)(k := None)"
      using removeInternal_items[OF kd, of k state] by (auto simp: Get_def fun_eq_iff)
    have step: "run_store new state (p # ops) s = run_store new state ops ?s"
      using DelOp Cons.prems(2) by (simp add: run_store_def local_remove_eq)
    show ?thesis
    proof (cases "Get k s")
      case None
      then have "?s = s" by (simp add: removeInternal_def Get_def)
      with None step DelOp Cons show ?thesis by simp
    next
      case (Some v)
      then have "st_storeVersion ?s = st_storeVersion s + 1" "length (st_changes ?s) = Suc (length (st_changes s))"
        using Cons.prems(2) by (simp_all add: removeInternal_def Get_def Let_def)
      with Some step DelOp Cons.IH[of ?s] Cons.prems removeInternal_wf[of s k state] g show ?thesis by simp
    qed
  qed
qed

theorem local_store_version_witness:
  "st_storeVersion (run_store ''u'' GNil [PutOp ''a'' GNil, DelOp ''zz''] (newStoreObject ''s'' None None)) = 2"
proof -
  let ?s = "newStoreObject ''s'' None None"
  have g: "\<not> st_isGalactic ?s" "(\<lambda>k. Get k ?s) = (\<lambda>_. None)" "st_storeVersion ?s = 1"
    by (simp_all add: newStoreObject_def initStore_def Get_def)
  show ?thesis
    using local_store_version[OF newStoreObject_wf g(1), of "''u''" GNil "[PutOp ''a'' GNil, DelOp ''zz'']"]
    by (simp add: g)
qed

subsection \<open>Streams\<close>

text \<open>States that Go can compare.\<close>

fun comparable :: "gval \<Rightarrow> bool" where
  "comparable (GBytes _) = False"
| "comparable (GMap _) = False"
| "comparable (GStringMap _) = False"
| "comparable _ = True"

lemma iface_eq_comparable: "comparable y \<Longrightarrow> iface_eq x y = Done (x = y)"
  by (cases x; cases y) simp_all

lemma any_eq_comparable: "comparable v \<Longrightarrow> any_eq xs v = Done (v \<in> set xs)"
  by (induction xs) (auto simp: iface_eq_comparable)

definition wants :: "streamFilter \<Rightarrow> StoreChange \<Rightarrow> bool" where
  "wants f c \<longleftrightarrow> (sf_matchAllItems f \<or> sf_itemId f = sc_Id c) \<and> (sf_states f = [] \<or> sc_State c \<in> set (sf_states f))"

lemma streamFilter_match_wants: "comparable (sc_State c) \<Longrightarrow> streamFilter_match f c = Done (wants f c)"
  by (simp add: streamFilter_match_def wants_def any_eq_comparable)

lemma fire_streams_spec:
  assumes "comparable (sc_State c)" and "\<And>a. a \<in> set as \<Longrightarrow> ss_handler (heap a) \<noteq> None"
  shows "fire_streams heap c as =
    Done (map (\<lambda>a. (the (ss_handler (heap a)), c)) (filter (\<lambda>a. wants (ss_filter (heap a)) c) as))"
  using assms(2)
proof (induction as)
  case (Cons a as)
  then obtain h where "ss_handler (heap a) = Some h" by force
  with Cons show ?case
    by (auto simp: storeStream_onStoreChange_def streamFilter_match_wants[OF assms(1)])
qed simp

text \<open>
  When the goroutine of a change runs, the handler of every subscribed stream whose filter
  wants the change (its item, or any; its state, or any) is started once with it, and no other
  handler is.
\<close>

theorem store_change_reaches_streams:
  assumes "store_wf s" and "i < length (st_changes s)" and "comparable (sc_State (st_changes s ! i))"
  shows "\<exists>s'. onStoreChange i s = Done s' \<and> st_changes s' = remove_at i (st_changes s) \<and>
    mset (st_fired s') = mset (st_fired s) +
      image_mset (\<lambda>a. (the (ss_handler (st_streams s a)), st_changes s ! i))
        (filter_mset (\<lambda>a. wants (ss_filter (st_streams s a)) (st_changes s ! i)) (mset_set (set (st_storeStreams s))))"
proof -
  have "mset_set (set (st_storeStreams s)) = mset (st_storeStreams s)"
    using assms(1) by (simp add: store_wf_def mset_set_set)
  moreover have "fire_streams (st_streams s) (st_changes s ! i) (st_storeStreams s) =
    Done (map (\<lambda>a. (the (ss_handler (st_streams s a)), st_changes s ! i))
      (filter (\<lambda>a. wants (ss_filter (st_streams s a)) (st_changes s ! i)) (st_storeStreams s)))"
    using assms by (intro fire_streams_spec) (auto simp: store_wf_def)
  ultimately show ?thesis by (simp add: onStoreChange_def)
qed

definition ex_store :: busStore where
  "ex_store = fst (Put ''u'' ''a'' (GString ''x'') (GString ''new'')
     (fst (storeStream_Subscribe 0 (Some (UserFn 7)) (fst (OnChange ''a'' [GString ''new''] (newStoreObject ''s'' None None))))))"

lemma ex_store_facts:
  "store_wf ex_store"
  "st_changes ex_store = [\<lparr>sc_Id = ''a'', sc_Value = GString ''x'', sc_State = GString ''new'',
     sc_IsDeleteChange = False, sc_StoreVersion = 2\<rparr>]"
  "st_storeStreams ex_store = [0]" "st_fired ex_store = []"
  "st_streams ex_store 0 = \<lparr>ss_handler = Some (UserFn 7),
     ss_filter = \<lparr>sf_states = [GString ''new''], sf_itemId = ''a'', sf_matchAllItems = False\<rparr>\<rparr>"
proof -
  have "store_wf (fst (OnChange ''a'' [GString ''new''] (newStoreObject ''s'' None None)))"
    unfolding OnChange_def by (rule newStoreStream_wf[OF newStoreObject_wf])
  then show "store_wf ex_store"
    unfolding ex_store_def
    by (intro Put_wf storeStream_Subscribe_wf) (simp_all add: OnChange_def newStoreStream_def Let_def)
qed (simp_all add: ex_store_def Put_def putInternal_def storeStream_Subscribe_def onStreamSubscribe_def
      set_stream_handler_def OnChange_def newStoreStream_def newStoreObject_def initStore_def Let_def)

theorem store_change_reaches_streams_witness:
  "\<exists>s'. onStoreChange 0 ex_store = Done s' \<and> size (mset (st_fired s')) = 1"
proof -
  have "comparable (sc_State (st_changes ex_store ! 0))" "0 < length (st_changes ex_store)"
    by (simp_all add: ex_store_facts)
  from store_change_reaches_streams[OF ex_store_facts(1) this(2,1)] show ?thesis
    by (auto simp: ex_store_facts wants_def)
qed

text \<open>
  Subscribing a stream of the store and cancelling it again leaves the same set of streams;
  a stream cannot be subscribed twice nor cancelled when it is not subscribed.
\<close>

theorem stream_subscribe_unsubscribe:
  assumes "store_wf s" and "a < st_nextStream s" and "ss_handler (st_streams s a) = None"
  shows "\<exists>s1 s2. storeStream_Subscribe a (Some h) s = (s1, None) \<and>
    storeStream_Subscribe a (Some g) s1 = (s1, Some ''stream already subscribed'') \<and>
    set (st_storeStreams s1) = insert a (set (st_storeStreams s)) \<and>
    storeStream_Unsubscribe a s1 = (s2, None) \<and> store_wf s2 \<and>
    set (st_storeStreams s2) = set (st_storeStreams s) \<and>
    storeStream_Unsubscribe a s2 = (s2, Some ''stream not subscribed'')"
proof -
  let ?s1 = "fst (storeStream_Subscribe a (Some h) s)"
  let ?s2 = "fst (storeStream_Unsubscribe a ?s1)"
  have na: "a \<notin> set (st_storeStreams s)" using assms(1,3) by (auto simp: store_wf_def)
  have 1: "storeStream_Subscribe a (Some h) s = (?s1, None)" "st_storeStreams ?s1 = st_storeStreams s @ [a]"
    "ss_handler (st_streams ?s1 a) = Some h"
    using assms(3) by (simp_all add: storeStream_Subscribe_def onStreamSubscribe_def set_stream_handler_def)
  have wf1: "store_wf ?s1" using assms(1,2) by (rule storeStream_Subscribe_wf)
  then have d: "distinct (st_storeStreams (set_stream_handler a None ?s1))"
    by (simp add: store_wf_def set_stream_handler_def)
  have 2: "storeStream_Unsubscribe a ?s1 = (?s2, None)"
    "?s2 = onStreamUnsubscribe a (set_stream_handler a None ?s1)"
    using 1(3) by (simp_all add: storeStream_Unsubscribe_def)
  have set2: "set (st_storeStreams ?s2) = set (st_storeStreams s)"
    using onStreamUnsubscribe_streams(1)[OF d, of a] na 1(2) unfolding 2(2)
    by (auto simp: set_stream_handler_def)
  have h2: "ss_handler (st_streams ?s2 a) = None" unfolding 2(2) by (simp add: set_stream_handler_def)
  have "storeStream_Subscribe a (Some g) ?s1 = (?s1, Some ''stream already subscribed'')"
    using 1(3) by (simp add: storeStream_Subscribe_def)
  moreover have "storeStream_Unsubscribe a ?s2 = (?s2, Some ''stream not subscribed'')"
    using h2 by (simp add: storeStream_Unsubscribe_def)
  moreover have "store_wf ?s2" using wf1 by (rule storeStream_Unsubscribe_wf)
  moreover have "set (st_storeStreams ?s1) = insert a (set (st_storeStreams s))" using 1(2) by auto
  ultimately show ?thesis using 1(1) 2(1) set2 by blast
qed

definition ex_idle_store :: busStore where
  "ex_idle_store = fst (OnAllChanges [] (newStoreObject ''s'' None None))"

lemma ex_idle_store_facts:
  "store_wf ex_idle_store" "st_nextStream ex_idle_store = 1" "ss_handler (st_streams ex_idle_store 0) = None"
  unfolding ex_idle_store_def OnAllChanges_def
  by (simp_all add: newStoreStream_wf newStoreObject_wf)
    (simp_all add: newStoreStream_def Let_def newStoreObject_def initStore_def)

theorem stream_subscribe_unsubscribe_witness:
  "\<exists>s1 s2. storeStream_Subscribe 0 (Some (UserFn 1)) ex_idle_store = (s1, None) \<and>
     storeStream_Unsubscribe 0 s1 = (s2, None) \<and> store_wf s2"
proof -
  have "0 < st_nextStream ex_idle_store" by (simp add: ex_idle_store_facts)
  from stream_subscribe_unsubscribe[OF ex_idle_store_facts(1) this ex_idle_store_facts(3), of "UserFn 1" "UserFn 2"]
  show ?thesis by blast
qed

text \<open>
  Resetting a store forgets its streams but not that they are subscribed: a stream that was
  subscribed before the reset is not told of later changes, and subscribing it again fails.
\<close>

theorem reset_strands_streams:
  assumes "store_wf s" and "a \<in> set (st_storeStreams s)"
  shows "a \<notin> set (st_storeStreams (fst (Reset new s))) \<and>
    storeStream_Subscribe a (Some h) (fst (Reset new s)) = (fst (Reset new s), Some ''stream already subscribed'')"
  using assms by (auto simp: Reset_def Let_def initStore_def storeStream_Subscribe_def store_wf_def)

theorem reset_strands_streams_witness:
  "storeStream_Subscribe 0 (Some (UserFn 1)) (fst (Reset ''u'' ex_store)) =
     (fst (Reset ''u'' ex_store), Some ''stream already subscribed'')"
  using reset_strands_streams[OF ex_store_facts(1), of 0 "''u''" "UserFn 1"] by (simp add: ex_store_facts)

text \<open>Later calls of \<^verbatim>\<open>Reset\<close> (true) and \<^verbatim>\<open>Initialize\<close> (false) in any order.\<close>

fun ready_ops :: "bool list \<Rightarrow> busStore \<Rightarrow> busStore" where
  "ready_ops [] s = s"
| "ready_ops (True # ops) s = ready_ops ops (fst (Reset ''u'' s))"
| "ready_ops (False # ops) s = ready_ops ops (fst (Initialize s))"

lemma ready_ops_lost:
  "c < st_ready s \<Longrightarrow> c \<notin> st_closed s \<Longrightarrow>
     c \<notin> st_closed (ready_ops ops s) \<and> st_waiters (ready_ops ops s) = st_waiters s"
  by (induction ops s rule: ready_ops.induct) (auto simp: Initialize_def Reset_def initStore_def Let_def)

text \<open>
  A function registered with \<^verbatim>\<open>WhenReady\<close> on a store that is initialised later is called; but
  one whose goroutine has begun to wait before a reset is never called, however often the store
  is initialised or reset afterwards, because the reset replaced the channel it waits on.
\<close>

theorem when_ready_lost_after_reset:
  assumes "\<not> st_initialized s" and "st_ready s \<notin> st_closed s" and "st_waiters s = []"
  shows "\<exists>s1. stepWaiter 0 (WhenReady f s) = Done s1 \<and>
    (\<exists>s2. stepWaiter 0 (fst (Initialize s1)) = Done s2 \<and> st_readyCalls s2 = st_readyCalls s @ [f]) \<and>
    stepWaiter 0 (ready_ops ops (fst (Reset new s1))) = Block"
proof -
  let ?s1 = "s\<lparr>st_waiters := [WaitsOn (st_ready s) f]\<rparr>"
  let ?t = "fst (Reset new ?s1)"
  have "st_ready s < st_ready ?t" "st_ready s \<notin> st_closed ?t" "st_waiters ?t = [WaitsOn (st_ready s) f]"
    using assms(2) by (auto simp: Reset_def initStore_def Let_def)
  then have "stepWaiter 0 (ready_ops ops ?t) = Block"
    using ready_ops_lost[of "st_ready s" ?t ops] by (simp add: stepWaiter_def)
  moreover have "stepWaiter 0 (WhenReady f s) = Done ?s1"
    using assms(3) by (simp add: stepWaiter_def WhenReady_def)
  moreover have "\<exists>s2. stepWaiter 0 (fst (Initialize ?s1)) = Done s2 \<and> st_readyCalls s2 = st_readyCalls s @ [f]"
    using assms(1) by (simp add: stepWaiter_def Initialize_def)
  ultimately show ?thesis by blast
qed

theorem when_ready_lost_after_reset_witness:
  "\<exists>s1. stepWaiter 0 (WhenReady (UserFn 1) (newStoreObject ''s'' None None)) = Done s1 \<and>
     stepWaiter 0 (fst (Initialize (fst (Reset ''u'' s1)))) = Block"
proof -
  let ?s = "newStoreObject ''s'' None None"
  have "\<not> st_initialized ?s" "st_ready ?s \<notin> st_closed ?s" "st_waiters ?s = []"
    by (simp_all add: newStoreObject_def initStore_def)
  from when_ready_lost_after_reset[OF this, of "UserFn 1" "[False]" "''u''"] show ?thesis by auto
qed

lemma map_of_fold_update:
  "map_of (fold (\<lambda>(k, v). AList.update k v) xs m) = map_of m ++ map_of (rev xs)"
proof (induction xs arbitrary: m)
  case (Cons p xs)
  show ?case
    by (cases p) (auto simp: Cons.IH fun_eq_iff map_add_def split: option.split)
qed simp

text \<open>
  Populating works once, on a local store without items: it then holds the given items (the
  last value for a repeated key) and is initialised; otherwise it reports an error and changes
  nothing.
\<close>

theorem populate_outcome:
  "(case Populate items s of (s', out, err) \<Rightarrow>
     if st_isGalactic s then err = Some ''populate() API is not supported for galactic stores'' \<and> s' = s \<and> out = []
     else if st_items s \<noteq> [] then err = Some ''store items already initialized'' \<and> s' = s \<and> out = []
     else err = None \<and> (\<lambda>k. Get k s') = map_of (rev items) \<and> st_initialized s' \<and>
          out = (if st_initialized s then [] else [OutInitialized]))"
  by (auto simp: Populate_def Initialize_def Get_def map_of_fold_update)

end
