(* ===== verification/StoreManager.thy ===== *)
theory StoreManager
  imports StoreLaws Galactic
begin

text \<open>
  The store manager (src/bus/store\_manager.go) and the parts of a store that need the bus: the
  creation of a galactic store with its sync handler, the requests it sends to the broker, and
  its destruction. \<open>marshal\<close> is the JSON encoder of requests.
\<close>

record storeBus = transportEventBus +
  stores :: "string \<rightharpoonup> addr"
  storeHeap :: "addr \<Rightarrow> busStore"
  nextStore :: addr
  syncChannels :: "uuid \<rightharpoonup> storeSyncChannelConfig"

definition init_storeBus :: "uuid \<Rightarrow> storeBus" where
  "init_storeBus new = transportEventBus.extend (init_bus new)
     \<lparr>stores = Map.empty, storeHeap = (\<lambda>_. newStoreObject '''' None None), nextStore = 0,
      syncChannels = Map.empty\<rparr>"

definition upd_store :: "addr \<Rightarrow> (busStore \<Rightarrow> busStore) \<Rightarrow> 'b storeBus_scheme \<Rightarrow> 'b storeBus_scheme" where
  "upd_store a f s = s\<lparr>storeHeap := (storeHeap s)(a := f (storeHeap s a))\<rparr>"

text \<open>The outputs of a store operation are carried out; the error of a send is ignored.\<close>

fun store_outputs ::
  "(gval Request \<Rightarrow> bytes) \<Rightarrow> addr \<Rightarrow> store_out list \<Rightarrow> 'b storeBus_scheme \<Rightarrow> 'b storeBus_scheme go" where
  "store_outputs marshal a [] s = Done s"
| "store_outputs marshal a (OutInitialized # outs) s =
     store_outputs marshal a outs (SendMonitorEvent StoreInitializedEvt (st_name (storeHeap s a)) None s)"
| "store_outputs marshal a (OutRequest r # outs) s =
     (case st_galacticConf (storeHeap s a) of
        None \<Rightarrow> Panic ''nil pointer dereference''
      | Some conf \<Rightarrow>
          go_bind (connection_SendJSONMessage (sy_pubPrefix conf @ sy_syncChannelName conf) (marshal r) []
                     (conns s (sy_conn conf))) (\<lambda>(c, _).
            store_outputs marshal a outs (upd_conn (sy_conn conf) c s)))"

text \<open>\<open>newH\<close>, \<open>newS\<close> and \<open>newR\<close> are the ids of the handler, of its subscription and of the request.\<close>

definition initGalacticStore ::
  "(gval Request \<Rightarrow> bytes) \<Rightarrow> uuid \<Rightarrow> uuid \<Rightarrow> uuid \<Rightarrow> addr \<Rightarrow> 'b storeBus_scheme \<Rightarrow> 'b storeBus_scheme go" where
  "initGalacticStore marshal newH newS newR a s =
     (case st_galacticConf (storeHeap s a) of
        None \<Rightarrow> Panic ''nil pointer dereference''
      | Some conf \<Rightarrow>
          (case ListenStream newH (sy_syncChannelName conf) s of
             (s1, Inl _) \<Rightarrow> Done s1
           | (s1, Inr h) \<Rightarrow>
               let s2 = upd_store a (\<lambda>st. st\<lparr>st_storeSynHandler := Some h\<rparr>) s1;
                   s3 = Handle newS h (Some (GalacticSync a)) (Some IgnoreFn) s2
               in store_outputs marshal a (sendOpenStoreRequest newR (storeHeap s3 a)) s3))"

definition newBusStore ::
  "(gval Request \<Rightarrow> bytes) \<Rightarrow> uuid \<Rightarrow> uuid \<Rightarrow> uuid \<Rightarrow> string \<Rightarrow> gtype option \<Rightarrow> storeSyncChannelConfig option
     \<Rightarrow> 'b storeBus_scheme \<Rightarrow> ('b storeBus_scheme \<times> addr) go" where
  "newBusStore marshal newH newS newR name itemType galacticConf s =
     (let a = nextStore s;
          s1 = s\<lparr>storeHeap := (storeHeap s)(a := newStoreObject name itemType galacticConf), nextStore := Suc a\<rparr>
      in if galacticConf \<noteq> None
         then go_map (\<lambda>s2. (s2, a)) (initGalacticStore marshal newH newS newR a s1)
         else Done (s1, a))"

definition CreateStoreWithType :: "string \<Rightarrow> gtype option \<Rightarrow> 'b storeBus_scheme \<Rightarrow> ('b storeBus_scheme \<times> addr) go" where
  "CreateStoreWithType name itemType s =
     (case stores s name of
        Some a \<Rightarrow> Done (s, a)
      | None \<Rightarrow>
          go_map (\<lambda>(s1, a). (go_SendMonitorEvent StoreCreatedEvt name None (s1\<lparr>stores := (stores s1)(name \<mapsto> a)\<rparr>), a))
            (newBusStore (\<lambda>_. '''') '''' '''' '''' name itemType None s))"

definition CreateStore :: "string \<Rightarrow> 'b storeBus_scheme \<Rightarrow> ('b storeBus_scheme \<times> addr) go" where
  "CreateStore name s = CreateStoreWithType name None s"

definition GetStore :: "string \<Rightarrow> 'b storeBus_scheme \<Rightarrow> addr option" where
  "GetStore name s = stores s name"

definition OnDestroy ::
  "(gval Request \<Rightarrow> bytes) \<Rightarrow> uuid \<Rightarrow> addr \<Rightarrow> 'b storeBus_scheme \<Rightarrow> 'b storeBus_scheme go" where
  "OnDestroy marshal newR a s =
     (if st_isGalactic (storeHeap s a) then
        go_bind (store_outputs marshal a (sendCloseStoreRequest newR (storeHeap s a)) s) (\<lambda>s1.
          case st_storeSynHandler (storeHeap s1 a) of
            None \<Rightarrow> Done s1
          | Some h \<Rightarrow> MessageHandler_Close h s1)
      else Done s)"

definition DestroyStore ::
  "(gval Request \<Rightarrow> bytes) \<Rightarrow> uuid \<Rightarrow> string \<Rightarrow> 'b storeBus_scheme \<Rightarrow> ('b storeBus_scheme \<times> bool) go" where
  "DestroyStore marshal newR name s =
     (case stores s name of
        None \<Rightarrow> Done (s, False)
      | Some a \<Rightarrow>
          go_map (\<lambda>s1. (go_SendMonitorEvent StoreDestroyedEvt name None (s1\<lparr>stores := (stores s1)(name := None)\<rparr>), True))
            (OnDestroy marshal newR a s))"

definition with_slash :: "string \<Rightarrow> string" where
  "with_slash p = (if HasSuffix p ''/'' then p else p @ ''/'')"

definition ConfigureStoreSyncChannel ::
  "bool \<Rightarrow> uuid \<Rightarrow> uuid \<Rightarrow> addr \<Rightarrow> string \<Rightarrow> string \<Rightarrow> 'b storeBus_scheme
     \<Rightarrow> ('b storeBus_scheme \<times> error option) go" where
  "ConfigureStoreSyncChannel tcp_ok new new_m conn topicPrefix pubPrefix s =
     (let cid = conn_id (conns s conn) in
      if syncChannels s cid \<noteq> None
      then Done (s, Some ''store sync channel already configured for this connection'')
      else
        let tp = with_slash topicPrefix; pp = with_slash pubPrefix;
            syncChannel = ''transport-store-sync.'' @ cid;
            conf = \<lparr>sy_topicPrefix = tp, sy_pubPrefix = pp, sy_syncChannelName = syncChannel, sy_conn = conn\<rparr>;
            s1 = s\<lparr>syncChannels := (syncChannels s)(cid \<mapsto> conf)\<rparr>;
            s2 = fst (CreateChannel syncChannel s1)
        in go_map (\<lambda>(s3, _). (s3, None))
             (MarkChannelAsGalactic tcp_ok new new_m syncChannel (tp @ syncChannel) (Some conn) s2))"

definition OpenGalacticStoreWithItemType ::
  "(gval Request \<Rightarrow> bytes) \<Rightarrow> uuid \<Rightarrow> uuid \<Rightarrow> uuid \<Rightarrow> string \<Rightarrow> addr \<Rightarrow> gtype option \<Rightarrow> 'b storeBus_scheme
     \<Rightarrow> ('b storeBus_scheme \<times> addr option \<times> error option) go" where
  "OpenGalacticStoreWithItemType marshal newH newS newR name conn itemType s =
     (case syncChannels s (conn_id (conns s conn)) of
        None \<Rightarrow> Done (s, None, Some ''sync channel is not configured for this connection'')
      | Some chanConf \<Rightarrow>
          (case stores s name of
             Some a \<Rightarrow>
               if st_isGalactic (storeHeap s a) then Done (s, Some a, None)
               else Done (s, Some a, Some ''cannot open galactic store: there is a local store with the same name'')
           | None \<Rightarrow>
               go_map (\<lambda>(s1, a). (go_SendMonitorEvent StoreCreatedEvt name None (s1\<lparr>stores := (stores s1)(name \<mapsto> a)\<rparr>), Some a, None))
                 (newBusStore marshal newH newS newR name itemType (Some chanConf) s)))"

definition OpenGalacticStore ::
  "(gval Request \<Rightarrow> bytes) \<Rightarrow> uuid \<Rightarrow> uuid \<Rightarrow> uuid \<Rightarrow> string \<Rightarrow> addr \<Rightarrow> 'b storeBus_scheme
     \<Rightarrow> ('b storeBus_scheme \<times> addr option \<times> error option) go" where
  "OpenGalacticStore marshal newH newS newR name conn s =
     OpenGalacticStoreWithItemType marshal newH newS newR name conn None s"

text \<open>A message on the sync channel is handled by the store \<open>a\<close>.\<close>

definition runGalacticSync ::
  "(gval Request \<Rightarrow> bytes) \<Rightarrow> (bytes \<Rightarrow> error + (string \<times> gval) list) \<Rightarrow> conv \<Rightarrow> addr \<Rightarrow> Message
     \<Rightarrow> 'b storeBus_scheme \<Rightarrow> 'b storeBus_scheme go" where
  "runGalacticSync marshal unmarshal conv a msg s =
     go_bind (galacticSync unmarshal conv (msg_Payload msg) (storeHeap s a)) (\<lambda>(st, outs).
       store_outputs marshal a outs (upd_store a (\<lambda>_. st) s))"

end
