(* ===== verification/Transaction.thy ===== *)
theory Transaction
  imports StoreManager
begin

text \<open>
  Transactions (src/bus/transaction.go). The transaction's mutex is explicit where it matters:
  \<^verbatim>\<open>Commit\<close> holds it while it executes the first requests, so an error found there waits for the
  mutex of its own goroutine. The handlers of a transaction are started as goroutines; the ones
  started are recorded with their arguments.
\<close>

datatype transactionType = asyncTransaction | syncTransaction

datatype transactionState = uncommittedState | committedState | completedState | abortedState

record busTransactionRequest =
  tq_requestIndex :: nat
  tq_storeName :: string
  tq_channelName :: string
  tq_payload :: gval

record busTransaction =
  tr_transactionType :: transactionType
  tr_state :: transactionState
  tr_requests :: "busTransactionRequest list"
  tr_responses :: "Message option list"
  tr_onCompleteHandlers :: "closure list"
  tr_onErrorHandlers :: "closure list"
  tr_completedRequests :: nat
  tr_completeCalls :: "(closure \<times> Message option list) list"
  tr_errorCalls :: "(closure \<times> error option) list"

definition newBusTransaction :: "transactionType \<Rightarrow> busTransaction" where
  "newBusTransaction ty = \<lparr>tr_transactionType = ty, tr_state = uncommittedState, tr_requests = [],
     tr_responses = [], tr_onCompleteHandlers = [], tr_onErrorHandlers = [], tr_completedRequests = 0,
     tr_completeCalls = [], tr_errorCalls = []\<rparr>"

record txBus = storeBus +
  txs :: "addr \<Rightarrow> busTransaction"
  nextTx :: addr

definition upd_tx :: "addr \<Rightarrow> (busTransaction \<Rightarrow> busTransaction) \<Rightarrow> 'b txBus_scheme \<Rightarrow> 'b txBus_scheme" where
  "upd_tx t f s = s\<lparr>txs := (txs s)(t := f (txs s t))\<rparr>"

definition create_tx :: "transactionType \<Rightarrow> 'b txBus_scheme \<Rightarrow> 'b txBus_scheme \<times> addr" where
  "create_tx ty s = (let t = nextTx s in (s\<lparr>txs := (txs s)(t := newBusTransaction ty), nextTx := Suc t\<rparr>, t))"

definition CreateAsyncTransaction :: "'b txBus_scheme \<Rightarrow> 'b txBus_scheme \<times> addr" where
  "CreateAsyncTransaction s = create_tx asyncTransaction s"

definition CreateSyncTransaction :: "'b txBus_scheme \<Rightarrow> 'b txBus_scheme \<times> addr" where
  "CreateSyncTransaction s = create_tx syncTransaction s"

subsection \<open>Building a transaction\<close>

definition checkUncommittedState :: "busTransaction \<Rightarrow> error option" where
  "checkUncommittedState tr =
     (if tr_state tr \<noteq> uncommittedState then Some ''transaction has already been committed'' else None)"

definition SendRequest :: "string \<Rightarrow> gval \<Rightarrow> busTransaction \<Rightarrow> busTransaction \<times> error option" where
  "SendRequest channel payload tr =
     (case checkUncommittedState tr of
        Some err \<Rightarrow> (tr, Some err)
      | None \<Rightarrow> (tr\<lparr>tr_requests := tr_requests tr @ [\<lparr>tq_requestIndex = length (tr_requests tr),
                 tq_storeName = '''', tq_channelName = channel, tq_payload = payload\<rparr>]\<rparr>, None))"

definition WaitForStoreReady ::
  "string \<Rightarrow> addr \<Rightarrow> 'b txBus_scheme \<Rightarrow> 'b txBus_scheme \<times> error option" where
  "WaitForStoreReady storeName t s =
     (case checkUncommittedState (txs s t) of
        Some err \<Rightarrow> (s, Some err)
      | None \<Rightarrow>
          if GetStore storeName s = None
          then (s, Some (''cannot find store '' @ squote @ storeName @ squote))
          else (upd_tx t (\<lambda>tr. tr\<lparr>tr_requests := tr_requests tr @ [\<lparr>tq_requestIndex = length (tr_requests tr),
                  tq_storeName = storeName, tq_channelName = '''', tq_payload = GNil\<rparr>]\<rparr>) s, None))"

definition OnComplete :: "closure \<Rightarrow> busTransaction \<Rightarrow> busTransaction \<times> error option" where
  "OnComplete completeHandler tr =
     (case checkUncommittedState tr of
        Some err \<Rightarrow> (tr, Some err)
      | None \<Rightarrow> (tr\<lparr>tr_onCompleteHandlers := tr_onCompleteHandlers tr @ [completeHandler]\<rparr>, None))"

definition OnError :: "closure \<Rightarrow> busTransaction \<Rightarrow> busTransaction \<times> error option" where
  "OnError errorHandler tr =
     (case checkUncommittedState tr of
        Some err \<Rightarrow> (tr, Some err)
      | None \<Rightarrow> (tr\<lparr>tr_onErrorHandlers := tr_onErrorHandlers tr @ [errorHandler]\<rparr>, None))"

subsection \<open>Outcomes of requests\<close>

definition onTransactionError :: "error option \<Rightarrow> busTransaction \<Rightarrow> busTransaction" where
  "onTransactionError err tr =
     (if tr_state tr = abortedState then tr
      else tr\<lparr>tr_state := abortedState,
              tr_errorCalls := tr_errorCalls tr @ map (\<lambda>h. (h, err)) (tr_onErrorHandlers tr)\<rparr>)"

text \<open>
  The part of \<^verbatim>\<open>onTransactionRequestSuccess\<close> on the transaction; the flag says that the next
  request of a synchronous transaction is to be executed. An index outside the responses panics.
\<close>

definition recordSuccess :: "nat \<Rightarrow> Message \<Rightarrow> busTransaction \<Rightarrow> (busTransaction \<times> bool) go" where
  "recordSuccess i message tr =
     (if tr_state tr = abortedState then Done (tr, False)
      else if i \<ge> length (tr_responses tr) then Panic ''index out of range''
      else
        let tr1 = tr\<lparr>tr_responses := (tr_responses tr)[i := Some message],
                     tr_completedRequests := Suc (tr_completedRequests tr)\<rparr>
        in if tr_completedRequests tr1 = length (tr_requests tr1) then
             Done (tr1\<lparr>tr_state := completedState,
                       tr_completeCalls := tr_completeCalls tr1 @
                         map (\<lambda>h. (h, tr_responses tr1)) (tr_onCompleteHandlers tr1)\<rparr>, False)
           else Done (tr1, tr_transactionType tr1 = syncTransaction \<and> i < length (tr_requests tr1) - 1))"

subsection \<open>Executing requests\<close>

text \<open>
  The ids a request needs: the request's own (\<open>ri_req\<close>), its handler's, its subscription's and its
  message's. \<open>held\<close>: the caller holds the transaction's mutex.
\<close>

record request_ids =
  ri_req :: uuid
  ri_handler :: uuid
  ri_sub :: uuid
  ri_msg :: uuid

definition failRequest :: "bool \<Rightarrow> addr \<Rightarrow> error \<Rightarrow> 'b txBus_scheme \<Rightarrow> 'b txBus_scheme go" where
  "failRequest held t err s = (if held then Block else Done (upd_tx t (onTransactionError (Some err)) s))"

definition tx_sendRequest ::
  "bool \<Rightarrow> request_ids \<Rightarrow> addr \<Rightarrow> busTransactionRequest \<Rightarrow> 'b txBus_scheme \<Rightarrow> 'b txBus_scheme go" where
  "tx_sendRequest held ids t req s =
     (case ListenOnceForDestination (ri_handler ids) (tq_channelName req) (Some (ri_req ids)) s of
        (s1, Inl err) \<Rightarrow> failRequest held t err s1
      | (s1, Inr h) \<Rightarrow>
          let s2 = Handle (ri_sub ids) h (Some (TxSuccess t (tq_requestIndex req))) (Some (TxError t)) s1
          in Done (fst (SendRequestMessage (ri_msg ids) (tq_channelName req) (tq_payload req) (Some (ri_req ids)) s2)))"

definition waitForStore ::
  "bool \<Rightarrow> addr \<Rightarrow> busTransactionRequest \<Rightarrow> 'b txBus_scheme \<Rightarrow> 'b txBus_scheme go" where
  "waitForStore held t req s =
     (case GetStore (tq_storeName req) s of
        None \<Rightarrow> failRequest held t (''cannot find store '' @ squote @ tq_storeName req @ squote) s
      | Some a \<Rightarrow> Done (upd_store a (WhenReady (TxStoreReady t (tq_requestIndex req) a)) s))"

definition executeRequest ::
  "bool \<Rightarrow> request_ids \<Rightarrow> addr \<Rightarrow> busTransactionRequest \<Rightarrow> 'b txBus_scheme \<Rightarrow> 'b txBus_scheme go" where
  "executeRequest held ids t req s =
     (if tq_storeName req \<noteq> '''' then waitForStore held t req s else tx_sendRequest held ids t req s)"

fun startAsyncTransaction ::
  "(nat \<Rightarrow> request_ids) \<Rightarrow> addr \<Rightarrow> busTransactionRequest list \<Rightarrow> 'b txBus_scheme \<Rightarrow> 'b txBus_scheme go" where
  "startAsyncTransaction ids t [] s = Done s"
| "startAsyncTransaction ids t (req # reqs) s =
     go_bind (executeRequest True (ids (tq_requestIndex req)) t req s) (startAsyncTransaction ids t reqs)"

definition startSyncTransaction ::
  "(nat \<Rightarrow> request_ids) \<Rightarrow> addr \<Rightarrow> 'b txBus_scheme \<Rightarrow> 'b txBus_scheme go" where
  "startSyncTransaction ids t s = executeRequest True (ids 0) t (tr_requests (txs s t) ! 0) s"

definition Commit ::
  "(nat \<Rightarrow> request_ids) \<Rightarrow> addr \<Rightarrow> 'b txBus_scheme \<Rightarrow> ('b txBus_scheme \<times> error option) go" where
  "Commit ids t s =
     (case checkUncommittedState (txs s t) of
        Some err \<Rightarrow> Done (s, Some err)
      | None \<Rightarrow>
          if tr_requests (txs s t) = [] then Done (s, Some ''cannot commit empty transaction'')
          else
            let s1 = upd_tx t (\<lambda>tr. tr\<lparr>tr_state := committedState,
                       tr_responses := replicate (length (tr_requests tr)) None\<rparr>) s
            in go_map (\<lambda>s2. (s2, None))
                 (if tr_transactionType (txs s1 t) = asyncTransaction
                  then startAsyncTransaction ids t (tr_requests (txs s1 t)) s1
                  else startSyncTransaction ids t s1))"

definition onTransactionRequestSuccess ::
  "(nat \<Rightarrow> request_ids) \<Rightarrow> addr \<Rightarrow> nat \<Rightarrow> Message \<Rightarrow> 'b txBus_scheme \<Rightarrow> 'b txBus_scheme go" where
  "onTransactionRequestSuccess ids t i message s =
     go_bind (recordSuccess i message (txs s t)) (\<lambda>(tr, next).
       let s1 = upd_tx t (\<lambda>_. tr) s in
       if next then executeRequest False (ids (Suc i)) t (tr_requests tr ! Suc i) s1 else Done s1)"

text \<open>The function that \<^verbatim>\<open>waitForStore\<close> gives to the store runs.\<close>

definition runTxStoreReady ::
  "(nat \<Rightarrow> request_ids) \<Rightarrow> addr \<Rightarrow> nat \<Rightarrow> addr \<Rightarrow> 'b txBus_scheme \<Rightarrow> 'b txBus_scheme go" where
  "runTxStoreReady ids t i a s =
     onTransactionRequestSuccess ids t i
       \<lparr>msg_Id = None, msg_DestinationId = None, msg_Channel = '''', msg_Destination = '''',
        msg_Payload = GMap (AllValuesAsMap (storeHeap s a)), msg_Error = None,
        msg_Direction = ResponseDir, msg_Headers = []\<rparr> s"

end
