(* ===== verification/TransactionLaws.thy ===== *)
theory TransactionLaws
  imports Transaction
begin

text \<open>
  What a transaction promises: it completes once, when all responses are in, in any order; it
  aborts once, at the first error; a synchronous transaction sends one request at a time; and a
  commit that fails to send a request from inside waits for its own mutex.
\<close>

subsection \<open>Completion\<close>

fun run_successes :: "(nat \<times> Message) list \<Rightarrow> busTransaction \<Rightarrow> busTransaction go" where
  "run_successes [] tr = Done tr"
| "run_successes ((i, m) # oks) tr = go_bind (recordSuccess i m tr) (\<lambda>(tr', _). run_successes oks tr')"

definition fill :: "(nat \<times> Message) list \<Rightarrow> Message option list \<Rightarrow> Message option list" where
  "fill oks rs = fold (\<lambda>(i, m) rs. rs[i := Some m]) oks rs"

lemma length_fill [simp]: "length (fill oks rs) = length rs"
  unfolding fill_def by (induction oks arbitrary: rs) auto

lemma nth_fill:
  "j < length rs \<Longrightarrow> fill oks rs ! j = (case map_of (rev oks) j of None \<Rightarrow> rs ! j | Some m \<Rightarrow> Some m)"
  unfolding fill_def
proof (induction oks arbitrary: rs)
  case (Cons p oks)
  then show ?case
    by (cases p) (auto simp: nth_list_update map_add_def split: option.splits)
qed simp

lemma map_of_rev_distinct: "keys_distinct oks \<Longrightarrow> map_of (rev oks) = map_of oks"
  by (rule map_of_inject_set[THEN iffD2]) (simp_all add: rev_map[symmetric])

lemma fill_all:
  assumes "keys_distinct oks" and "fst ` set oks = {..<n}"
  shows "fill oks (replicate n None) = map (map_of oks) [0..<n]"
proof (rule nth_equalityI)
  fix j assume "j < length (fill oks (replicate n None))"
  then have j: "j < n" by simp
  then have "j \<in> fst ` set oks" using assms(2) by simp
  then obtain m where "map_of oks j = Some m" by (metis map_of_eq_None_iff option.exhaust)
  with j show "fill oks (replicate n None) ! j = map (map_of oks) [0..<n] ! j"
    by (simp add: nth_fill map_of_rev_distinct[OF assms(1)])
qed simp

lemma run_successes_partial:
  assumes "tr_state tr = committedState" and "length (tr_responses tr) = length (tr_requests tr)"
    and "tr_completedRequests tr + length oks < length (tr_requests tr)"
    and "\<And>i m. (i, m) \<in> set oks \<Longrightarrow> i < length (tr_requests tr)"
  shows "run_successes oks tr = Done (tr\<lparr>tr_responses := fill oks (tr_responses tr),
    tr_completedRequests := tr_completedRequests tr + length oks\<rparr>)"
  using assms
proof (induction oks arbitrary: tr)
  case Nil
  then show ?case by (simp add: fill_def)
next
  case (Cons p oks)
  obtain i m where p: "p = (i, m)" by (cases p)
  let ?tr = "tr\<lparr>tr_responses := (tr_responses tr)[i := Some m], tr_completedRequests := Suc (tr_completedRequests tr)\<rparr>"
  have i: "i < length (tr_requests tr)" using Cons.prems(4)[of i m] p by simp
  obtain b where "recordSuccess i m tr = Done (?tr, b)"
    using Cons.prems(1-3) i by (simp add: recordSuccess_def Let_def)
  moreover have "run_successes oks ?tr = Done (?tr\<lparr>tr_responses := fill oks (tr_responses ?tr),
      tr_completedRequests := tr_completedRequests ?tr + length oks\<rparr>)"
    by (rule Cons.IH) (use Cons.prems in auto)
  ultimately show ?case by (simp add: p fill_def)
qed

lemma run_successes_append:
  "run_successes (xs @ ys) tr = go_bind (run_successes xs tr) (run_successes ys)"
proof (induction xs arbitrary: tr)
  case (Cons p xs)
  then show ?case by (cases p) (simp add: go_bind_assoc case_prod_beta')
qed simp

text \<open>
  C9. A committed transaction completes when the response to its last open request comes in, in
  whatever order the responses come: its responses are then in the order of the requests, and
  every completion handler is started exactly once with all of them; no response before the
  last starts one.
\<close>

theorem transaction_completes:
  assumes "tr_state tr = committedState" and "tr_responses tr = replicate n None" and "length (tr_requests tr) = n"
    and "tr_completedRequests tr = 0" and "tr_completeCalls tr = []"
    and "distinct (map fst (oks @ [last_m]))" and "fst ` set (oks @ [last_m]) = {..<n}"
  shows "\<exists>tr1 tr2. run_successes oks tr = Done tr1 \<and> tr_state tr1 = committedState \<and> tr_completeCalls tr1 = [] \<and>
    run_successes (oks @ [last_m]) tr = Done tr2 \<and> tr_state tr2 = completedState \<and>
    tr_completeCalls tr2 = map (\<lambda>h. (h, map (map_of (oks @ [last_m])) [0..<n])) (tr_onCompleteHandlers tr)"
proof -
  let ?all = "oks @ [last_m]"
  obtain i m where l: "last_m = (i, m)" by (cases last_m)
  have len: "length ?all = n"
    using assms(6,7) by (metis card_lessThan distinct_card length_map list.set_map)
  have idx: "k < n" if "(k, x) \<in> set ?all" for k x using that assms(7) by (metis fst_conv image_eqI lessThan_iff)
  let ?tr1 = "tr\<lparr>tr_responses := fill oks (tr_responses tr), tr_completedRequests := tr_completedRequests tr + length oks\<rparr>"
  have 1: "run_successes oks tr = Done ?tr1"
    by (rule run_successes_partial) (use assms(1-4) len idx in auto)
  have all: "(fill oks (replicate n None))[i := Some m] = map (map_of ?all) [0..<n]"
    using fill_all[OF assms(6,7)] by (simp add: l fill_def)
  have "i < n" using idx[of i m] l by simp
  then obtain tr2 where "recordSuccess i m ?tr1 = Done (tr2, False)" "tr_state tr2 = completedState"
    "tr_completeCalls tr2 = map (\<lambda>h. (h, map (map_of ?all) [0..<n])) (tr_onCompleteHandlers tr)"
    using assms(1-5) len all by (simp add: recordSuccess_def Let_def)
  with 1 show ?thesis using assms(1,5) by (simp add: run_successes_append l)
qed

definition ex_tx :: "nat \<Rightarrow> busTransaction" where
  "ex_tx n = (newBusTransaction asyncTransaction)\<lparr>tr_state := committedState, tr_responses := replicate n None,
     tr_onCompleteHandlers := [UserFn 5],
     tr_requests := map (\<lambda>i. \<lparr>tq_requestIndex = i, tq_storeName = '''', tq_channelName = ''c'', tq_payload = GNil\<rparr>) [0..<n]\<rparr>"

theorem transaction_completes_witness:
  "\<exists>tr. run_successes [(1, ex_message), (0, ex_response)] (ex_tx 2) = Done tr \<and>
     tr_completeCalls tr = [(UserFn 5, [Some ex_response, Some ex_message])]"
proof -
  have "\<exists>tr1 tr2. run_successes [(1, ex_message)] (ex_tx 2) = Done tr1 \<and> tr_state tr1 = committedState \<and> tr_completeCalls tr1 = [] \<and>
    run_successes ([(1, ex_message)] @ [(0, ex_response)]) (ex_tx 2) = Done tr2 \<and> tr_state tr2 = completedState \<and>
    tr_completeCalls tr2 = map (\<lambda>h. (h, map (map_of ([(1, ex_message)] @ [(0, ex_response)])) [0..<2])) (tr_onCompleteHandlers (ex_tx 2))"
    by (rule transaction_completes) (auto simp: ex_tx_def newBusTransaction_def)
  then show ?thesis by (auto simp: ex_tx_def upt_rec)
qed

subsection \<open>Abortion\<close>

datatype tx_event = TxOk nat Message | TxFail "error option"

fun run_events :: "tx_event list \<Rightarrow> busTransaction \<Rightarrow> busTransaction go" where
  "run_events [] tr = Done tr"
| "run_events (TxOk i m # es) tr = go_bind (recordSuccess i m tr) (\<lambda>(tr', _). run_events es tr')"
| "run_events (TxFail e # es) tr = run_events es (onTransactionError e tr)"

lemma run_events_aborted: "tr_state tr = abortedState \<Longrightarrow> run_events es tr = Done tr"
  by (induction es tr rule: run_events.induct) (auto simp: recordSuccess_def onTransactionError_def)

text \<open>
  C14. The first error aborts a transaction for good: every error handler is started exactly once,
  with that error, and later responses and errors change nothing; in particular no completion
  handler is started any more.
\<close>

theorem transaction_aborts_once:
  assumes "tr_state tr \<noteq> abortedState"
  shows "\<exists>tr'. run_events (TxFail e # es) tr = Done tr' \<and> tr_state tr' = abortedState \<and>
    tr_errorCalls tr' = tr_errorCalls tr @ map (\<lambda>h. (h, e)) (tr_onErrorHandlers tr) \<and>
    tr_completeCalls tr' = tr_completeCalls tr \<and> tr_responses tr' = tr_responses tr"
proof -
  let ?tr = "onTransactionError e tr"
  have "tr_state ?tr = abortedState" using assms by (simp add: onTransactionError_def)
  then have "run_events (TxFail e # es) tr = Done ?tr" by (simp add: run_events_aborted)
  then show ?thesis using assms by (simp add: onTransactionError_def)
qed

theorem transaction_aborts_once_witness:
  "\<exists>tr. run_events [TxFail (Some ''boom''), TxOk 0 ex_message, TxFail None] (ex_tx 1) = Done tr \<and>
     tr_state tr = abortedState \<and> tr_completeCalls tr = []"
  using transaction_aborts_once[of "ex_tx 1" "Some ''boom''" "[TxOk 0 ex_message, TxFail None]"]
  by (auto simp: ex_tx_def newBusTransaction_def)

subsection \<open>Committing\<close>

lemma upd_tx_simps [simp]:
  "Channels (upd_tx t f s) = Channels s" "chans (upd_tx t f s) = chans s" "stores (upd_tx t f s) = stores s"
  "txs (upd_tx t f s) = (txs s)(t := f (txs s t))" "mhandlers (upd_tx t f s) = mhandlers s"
  "nextMH (upd_tx t f s) = nextMH s"
  by (simp_all add: upd_tx_def)

text \<open>
  Committing a transaction whose first request goes to a channel that does not exist never
  returns: the error is reported to the transaction while its own mutex is held.
\<close>

theorem commit_missing_channel_blocks:
  assumes "tr_state (txs s t) = uncommittedState" and "tr_requests (txs s t) = req # reqs"
    and "tq_storeName req = ''''" and "Channels s (tq_channelName req) = None"
  shows "Commit ids t s = Block"
  using assms
  by (simp add: Commit_def checkUncommittedState_def Let_def startSyncTransaction_def executeRequest_def
      tx_sendRequest_def ListenOnceForDestination_def getChannelFromManager_def GetChannel_def failRequest_def)

definition init_txBus :: "uuid \<Rightarrow> txBus" where
  "init_txBus new = storeBus.extend (init_storeBus new) \<lparr>txs = (\<lambda>_. newBusTransaction asyncTransaction), nextTx = 0\<rparr>"

theorem commit_missing_channel_blocks_witness:
  "Commit (\<lambda>_. \<lparr>ri_req = ''r'', ri_handler = ''h'', ri_sub = ''s'', ri_msg = ''m''\<rparr>) 0
     (upd_tx 0 (\<lambda>tr. fst (SendRequest ''nope'' GNil tr)) (init_txBus ''b'')) = Block"
  by (rule commit_missing_channel_blocks[where req = "\<lparr>tq_requestIndex = 0, tq_storeName = '''',
        tq_channelName = ''nope'', tq_payload = GNil\<rparr>" and reqs = "[]"])
    (simp_all add: init_txBus_def storeBus.extend_def init_storeBus_def transportEventBus.extend_def init_bus_def
      SendRequest_def checkUncommittedState_def newBusTransaction_def)

text \<open>
  Committing a synchronous transaction sends its first request and nothing else: the request
  goes, with its own destination id, to every live handler of its channel and to the handler
  that waits for the response, and no other channel is touched.
\<close>

theorem sync_commit_sends_first_only:
  assumes "tr_state (txs s t) = uncommittedState" and "tr_transactionType (txs s t) = syncTransaction"
    and "tr_requests (txs s t) = req # reqs" and "tq_storeName req = ''''"
    and "Channels s (tq_channelName req) = Some c" and "ch_Name (chans s c) = tq_channelName req"
    and "\<forall>h\<in>set (ch_eventHandlers (chans s c)). \<not> h_runOnce h"
  shows "\<exists>s' m. Commit ids t s = Done (s', None) \<and> tr_state (txs s' t) = committedState \<and>
    msg_Direction m = RequestDir \<and> msg_DestinationId m = Some (ri_req (ids 0)) \<and> msg_Payload m = tq_payload req \<and>
    (\<exists>h. h_callBackFunction h = WrapperFn (nextMH s) \<and>
       ch_eventHandlers (chans s' c) = ch_eventHandlers (chans s c) @ [h] \<and>
       ch_inflight (chans s' c) = ch_inflight (chans s c) @ map (\<lambda>h. (h, m)) (ch_eventHandlers (chans s c) @ [h])) \<and>
    (\<forall>a. a \<noteq> c \<longrightarrow> chans s' a = chans s a)"
proof -
  let ?m = "GenerateRequest (ri_msg (ids 0)) (buildConfig (ri_msg (ids 0)) (tq_channelName req) (tq_payload req) (Some (ri_req (ids 0))))"
  let ?s1 = "upd_tx t (\<lambda>tr. tr\<lparr>tr_state := committedState, tr_responses := replicate (length (tr_requests tr)) None\<rparr>) s"
  let ?ch = "subscribeHandler (WrapperFn (nextMH s)) False (ri_sub (ids 0)) (chans s c)"
  have live: "h \<in> set (ch_eventHandlers ?ch) \<Longrightarrow> \<not> spent ?ch h" for h
    using assms(7) by (auto simp: spent_def subscribeHandler_def)
  then have "filter (\<lambda>h. \<not> spent ?ch h) (ch_eventHandlers ?ch) = ch_eventHandlers ?ch"
    by (simp add: filter_id_conv)
  moreover have "ch_inflight ?ch = ch_inflight (chans s c)" by (simp add: subscribeHandler_def)
  ultimately have inf: "ch_inflight (Channel_Send ?m ?ch) = ch_inflight (chans s c) @ map (\<lambda>h. (h, ?m)) (ch_eventHandlers ?ch)"
    "ch_eventHandlers (Channel_Send ?m ?ch) = ch_eventHandlers ?ch"
    using Channel_Send_handlers_live[of ?ch ?m, OF live] by (simp_all only: Channel_Send_simps)
  obtain s' where s': "tx_sendRequest True (ids 0) t req ?s1 = Done s'"
    "chans s' = (chans s)(c := Channel_Send ?m ?ch)" "txs s' = txs ?s1"
    using assms(5,6)
    by (auto simp: tx_sendRequest_def ListenOnceForDestination_def getChannelFromManager_def GetChannel_def
        wrapMessageHandler_def Let_def Handle_def SubscribeChannelHandler_def SendRequestMessage_def
        sendMessageToChannel_def createMessageHandler_def upd_mh_def upd_chan_def SendMonitorEvent_def upd_tx_def)
  have "Commit ids t s = Done (s', None)"
    using assms(1-4) s'(1)
    by (simp add: Commit_def checkUncommittedState_def Let_def startSyncTransaction_def executeRequest_def)
  moreover have "tr_state (txs s' t) = committedState" by (simp add: s'(3))
  moreover have "msg_Direction ?m = RequestDir" "msg_DestinationId ?m = Some (ri_req (ids 0))" "msg_Payload ?m = tq_payload req"
    by (simp_all add: buildConfig_def)
  moreover have "\<exists>h. h_callBackFunction h = WrapperFn (nextMH s) \<and>
       ch_eventHandlers (chans s' c) = ch_eventHandlers (chans s c) @ [h] \<and>
       ch_inflight (chans s' c) = ch_inflight (chans s c) @ map (\<lambda>h. (h, ?m)) (ch_eventHandlers (chans s c) @ [h])"
    using inf by (simp add: s'(2)) (simp add: subscribeHandler_def)
  moreover have "\<forall>a. a \<noteq> c \<longrightarrow> chans s' a = chans s a" by (simp add: s'(2))
  ultimately show ?thesis by blast
qed

definition ex_ids :: request_ids where
  "ex_ids = \<lparr>ri_req = ''r'', ri_handler = ''h'', ri_sub = ''s'', ri_msg = ''m''\<rparr>"

definition ex_sync_bus :: txBus where
  "ex_sync_bus = upd_tx 0 (\<lambda>_. fst (SendRequest ''c'' GNil (newBusTransaction syncTransaction)))
     (fst (CreateChannel ''c'' (init_txBus ''b'')))"

lemma ex_sync_bus_facts:
  "tr_state (txs ex_sync_bus 0) = uncommittedState" "tr_transactionType (txs ex_sync_bus 0) = syncTransaction"
  "tr_requests (txs ex_sync_bus 0) = [\<lparr>tq_requestIndex = 0, tq_storeName = '''', tq_channelName = ''c'', tq_payload = GNil\<rparr>]"
  "Channels ex_sync_bus ''c'' = Some 0" "chans ex_sync_bus 0 = NewChannel ''c''"
  by (simp_all add: ex_sync_bus_def SendRequest_def checkUncommittedState_def newBusTransaction_def
      CreateChannel_def init_txBus_def storeBus.extend_def init_storeBus_def transportEventBus.extend_def
      init_bus_def Let_def go_SendMonitorEvent_def)

theorem sync_commit_sends_first_only_witness:
  "\<exists>s'. Commit (\<lambda>_. ex_ids) 0 ex_sync_bus = Done (s', None) \<and> length (ch_inflight (chans s' 0)) = 1"
proof -
  have 1: "\<forall>h\<in>set (ch_eventHandlers (chans ex_sync_bus 0)). \<not> h_runOnce h"
    by (simp add: ex_sync_bus_facts NewChannel_handlers)
  show ?thesis
    using sync_commit_sends_first_only[OF ex_sync_bus_facts(1,2,3), of 0 "\<lambda>_. ex_ids", OF _ _ _ 1]
    by (auto simp: ex_sync_bus_facts NewChannel_handlers)
qed

end
