(* ===== verification/StoreManagerLaws.thy ===== *)
theory StoreManagerLaws
  imports StoreManager
begin

text \<open>
  What the store manager promises: the table of stores under sequences of operations, through the
  registry contract, and what opening a galactic store does.
\<close>

subsection \<open>The table of stores\<close>

definition local_only :: "'b storeBus_scheme \<Rightarrow> bool" where
  "local_only s \<longleftrightarrow> (\<forall>n a. stores s n = Some a \<longrightarrow> \<not> st_isGalactic (storeHeap s a) \<and> a < nextStore s)"

definition create_store :: "string \<Rightarrow> 'b storeBus_scheme \<Rightarrow> 'b storeBus_scheme" where
  "create_store n s = (case CreateStore n s of Done (s', _) \<Rightarrow> s' | _ \<Rightarrow> s)"

definition destroy_store :: "(gval Request \<Rightarrow> bytes) \<Rightarrow> uuid \<Rightarrow> string \<Rightarrow> 'b storeBus_scheme \<Rightarrow> 'b storeBus_scheme" where
  "destroy_store marshal newR n s = (case DestroyStore marshal newR n s of Done (s', _) \<Rightarrow> s' | _ \<Rightarrow> s)"

lemma create_store_eq:
  "create_store n s = (case stores s n of Some a \<Rightarrow> s
     | None \<Rightarrow> go_SendMonitorEvent StoreCreatedEvt n None (s\<lparr>
         storeHeap := (storeHeap s)(nextStore s := newStoreObject n None None), nextStore := Suc (nextStore s),
         stores := (stores s)(n \<mapsto> nextStore s)\<rparr>))"
  by (simp add: create_store_def CreateStore_def CreateStoreWithType_def newBusStore_def Let_def split: option.split)

lemma destroy_store_eq:
  "local_only s \<Longrightarrow> destroy_store marshal newR n s = (case stores s n of None \<Rightarrow> s
     | Some a \<Rightarrow> go_SendMonitorEvent StoreDestroyedEvt n None (s\<lparr>stores := (stores s)(n := None)\<rparr>))"
  by (auto simp: destroy_store_def DestroyStore_def OnDestroy_def local_only_def split: option.split)

lemma go_SendMonitorEvent_store [simp]:
  "stores (go_SendMonitorEvent t n d s) = stores s"
  "storeHeap (go_SendMonitorEvent t n d s) = storeHeap s"
  "nextStore (go_SendMonitorEvent t n d s) = nextStore s"
  by (simp_all add: go_SendMonitorEvent_def)

interpretation store_registry: registry create_store "destroy_store marshal newR" stores nextStore local_only
  for marshal newR
proof (unfold_locales, goal_cases)
  case (1 s n)
  then show ?case
    by (auto simp: create_store_eq local_only_def newStoreObject_def less_Suc_eq split: option.split)
next
  case (2 s n)
  then show ?case unfolding destroy_store_eq[OF 2]
    by (auto simp: local_only_def split: option.split)
next
  case (5 s n)
  then show ?case by (simp add: create_store_eq split: option.split)
next
  case (6 s n)
  show ?case unfolding destroy_store_eq[OF 6] by (simp add: fun_upd_idem split: option.split)
next
  case (7 s n)
  show ?case unfolding destroy_store_eq[OF 7] by (simp split: option.split)
qed (auto simp: create_store_eq split: option.split)

text \<open>A sequence of creations and destructions of stores.\<close>

definition store_ops :: "(gval Request \<Rightarrow> bytes) \<Rightarrow> uuid \<Rightarrow> registry_op list \<Rightarrow> 'b storeBus_scheme \<Rightarrow> 'b storeBus_scheme" where
  "store_ops marshal newR ops s = fold (\<lambda>p s. case p of
      Create n \<Rightarrow> (case CreateStore n s of Done (s', _) \<Rightarrow> s' | _ \<Rightarrow> s)
    | Destroy n \<Rightarrow> (case DestroyStore marshal newR n s of Done (s', _) \<Rightarrow> s' | _ \<Rightarrow> s)) ops s"

lemma store_ops_run: "store_ops marshal newR ops s = store_registry.run marshal newR ops s"
  unfolding store_ops_def store_registry.run_def create_store_def[symmetric] destroy_store_def[symmetric]
proof (induction ops arbitrary: s)
  case (Cons p ops)
  then show ?case by (cases p) simp_all
qed simp

text \<open>
  On a bus of local stores a store exists after any sequence of creations and destructions
  exactly when the last operation on its name was a creation, and a store keeps its identity,
  with its items, as long as its name is not destroyed.
\<close>

theorem store_exists_after:
  assumes "local_only s"
  shows "(GetStore n (store_ops marshal newR ops s) \<noteq> None) = present_after n ops (GetStore n s \<noteq> None) \<and>
    (GetStore n s = Some a \<longrightarrow> Destroy n \<notin> set ops \<longrightarrow> GetStore n (store_ops marshal newR ops s) = Some a)"
  using store_registry.run_present[OF assms] store_registry.run_keeps[OF assms]
  unfolding GetStore_def store_ops_run by auto

lemma init_storeBus_simps [simp]:
  "stores (init_storeBus new) = Map.empty" "nextStore (init_storeBus new) = 0"
  "syncChannels (init_storeBus new) = Map.empty" "Channels (init_storeBus new) = Map.empty"
  "conns (init_storeBus new) = (\<lambda>_. nil_connection)" "nextChan (init_storeBus new) = 0"
  by (simp_all add: init_storeBus_def transportEventBus.extend_def init_bus_def)

theorem store_exists_after_witness:
  "GetStore ''a'' (store_ops (\<lambda>_. '''') ''r'' [Create ''a'', Create ''b'', Destroy ''b''] (init_storeBus ''b'')) \<noteq> None \<and>
   GetStore ''b'' (store_ops (\<lambda>_. '''') ''r'' [Create ''a'', Create ''b'', Destroy ''b''] (init_storeBus ''b'')) = None"
proof -
  have l: "local_only (init_storeBus ''b'')" by (simp add: local_only_def)
  note w = store_exists_after[OF l, THEN conjunct1, of _ "\<lambda>_. ''''" "''r''" "[Create ''a'', Create ''b'', Destroy ''b'']"]
  show ?thesis using w[of "''a''"] w[of "''b''"] by (simp add: GetStore_def)
qed

subsection \<open>Galactic stores\<close>

lemma store_frame [simp]:
  "stores (upd_chan a f s) = stores s" "storeHeap (upd_chan a f s) = storeHeap s"
  "stores (upd_mh b g s) = stores s" "storeHeap (upd_mh b g s) = storeHeap s"
  "stores (upd_conn c k s) = stores s" "storeHeap (upd_conn c k s) = storeHeap s"
  "stores (SendMonitorEvent t n d s) = stores s" "storeHeap (SendMonitorEvent t n d s) = storeHeap s"
  "stores (upd_store e h s) = stores s" "storeHeap (upd_store e h s) = (storeHeap s)(e := h (storeHeap s e))"
  "conns (upd_store e h s) = conns s" "chans (upd_store e h s) = chans s" "Channels (upd_store e h s) = Channels s"
  "mhandlers (upd_store e h s) = mhandlers s" "nextMH (upd_store e h s) = nextMH s" "monitor (upd_store e h s) = monitor s"
  "conns (upd_mh b g s) = conns s"
  by (simp_all add: upd_chan_def upd_mh_def upd_conn_def SendMonitorEvent_def upd_store_def)

lemma initGalacticStore_ok:
  assumes "st_galacticConf (storeHeap s a) = Some conf" and "sy_conn conf = c"
    and "Channels s (sy_syncChannelName conf) = Some ch" and "ch_Name (chans s ch) = sy_syncChannelName conf"
    and "\<not> conn_useWs (conns s c)" and "conn_conn (conns s c)"
  shows "\<exists>s'. initGalacticStore marshal newH newS newR a s = Done s' \<and>
    chans s' = (chans s)(ch := subscribeHandler (WrapperFn (nextMH s)) False newS (chans s ch)) \<and>
    mh_successHandler (mhandlers s' (nextMH s)) = Some (GalacticSync a) \<and>
    storeHeap s' a = (storeHeap s a)\<lparr>st_storeSynHandler := Some (nextMH s)\<rparr> \<and>
    stores s' = stores s \<and> syncChannels s' = syncChannels s \<and>
    conns s' c = (conns s c)\<lparr>conn_tcpCalls := conn_tcpCalls (conns s c) @
      [TcpSend (sy_pubPrefix conf @ sy_syncChannelName conf) ''application/json''
         (marshal (Request (Some newR) 0 0 '''' (GStringMap [(''storeId'', st_name (storeHeap s a))]) ''openStore'' None)) []]\<rparr>"
proof -
  define s2 where "s2 = upd_store a (\<lambda>st. st\<lparr>st_storeSynHandler := Some (nextMH s)\<rparr>)
     (fst (wrapMessageHandler newH ch ResponseDir True False None False s))"
  define s3 where "s3 = Handle newS (nextMH s) (Some (GalacticSync a)) (Some IgnoreFn) s2"
  have listen: "ListenStream newH (sy_syncChannelName conf) s =
      (fst (wrapMessageHandler newH ch ResponseDir True False None False s), Inr (nextMH s))"
    using assms(3) by (simp add: ListenStream_def getChannelFromManager_def GetChannel_def wrapMessageHandler_def Let_def)
  have h2: "chans s2 = chans s" "Channels s2 = Channels s" "conns s2 = conns s" "monitor s2 = monitor s"
    "mh_channel (mhandlers s2 (nextMH s)) = ch" "stores s2 = stores s" "syncChannels s2 = syncChannels s"
    "storeHeap s2 a = (storeHeap s a)\<lparr>st_storeSynHandler := Some (nextMH s)\<rparr>"
    by (simp_all add: s2_def wrapMessageHandler_def Let_def createMessageHandler_def)
      (simp add: upd_store_def)
  have h3: "chans s3 = (chans s)(ch := subscribeHandler (WrapperFn (nextMH s)) False newS (chans s ch))"
    "conns s3 = conns s" "stores s3 = stores s" "syncChannels s3 = syncChannels s"
    "mh_successHandler (mhandlers s3 (nextMH s)) = Some (GalacticSync a)"
    "storeHeap s3 a = (storeHeap s a)\<lparr>st_storeSynHandler := Some (nextMH s)\<rparr>"
    using assms(3,4) by (simp_all add: s3_def Handle_def Let_def h2 SubscribeChannelHandler_def GetChannel_def)
      (simp add: upd_mh_def upd_chan_def SendMonitorEvent_def h2)
  have st: "st_galacticConf (storeHeap s3 a) = Some conf" "st_name (storeHeap s3 a) = st_name (storeHeap s a)"
    using assms(1) by (simp_all add: h3(6))
  show ?thesis
    using assms(1,2,5,6) listen st h3
    by (simp add: initGalacticStore_def s3_def[symmetric] s2_def[symmetric] Let_def sendOpenStoreRequest_def
        sendGalacticRequest_def connection_SendJSONMessage_def connection_SendMessage_def)
      (simp add: upd_conn_def)
qed

text \<open>
  Opening a galactic store on a connection whose sync channel is configured creates the store,
  subscribes its sync handler on the sync channel, and sends one open request for the store's
  name to the broker; opening it again returns the same store and sends nothing.
\<close>

theorem open_galactic_store:
  assumes "syncChannels s (conn_id (conns s c)) = Some conf" and "sy_conn conf = c" and "stores s name = None"
    and "Channels s (sy_syncChannelName conf) = Some ch" and "ch_Name (chans s ch) = sy_syncChannelName conf"
    and "\<not> conn_useWs (conns s c)" and "conn_conn (conns s c)"
  shows "\<exists>s' a. OpenGalacticStore marshal newH newS newR name c s = Done (s', Some a, None) \<and>
    GetStore name s' = Some a \<and> st_isGalactic (storeHeap s' a) \<and> st_name (storeHeap s' a) = name \<and>
    (\<exists>h. ch_eventHandlers (chans s' ch) = ch_eventHandlers (chans s ch) @ [h] \<and>
       h_callBackFunction h = WrapperFn (nextMH s) \<and> mh_successHandler (mhandlers s' (nextMH s)) = Some (GalacticSync a)) \<and>
    conn_tcpCalls (conns s' c) = conn_tcpCalls (conns s c) @
      [TcpSend (sy_pubPrefix conf @ sy_syncChannelName conf) ''application/json''
         (marshal (Request (Some newR) 0 0 '''' (GStringMap [(''storeId'', name)]) ''openStore'' None)) []] \<and>
    OpenGalacticStore marshal newH2 newS2 newR2 name c s' = Done (s', Some a, None)"
proof -
  define a where "a = nextStore s"
  define s1 where "s1 = s\<lparr>storeHeap := (storeHeap s)(a := newStoreObject name None (Some conf)), nextStore := Suc a\<rparr>"
  have st1: "st_galacticConf (storeHeap s1 a) = Some conf" "st_name (storeHeap s1 a) = name" "st_isGalactic (storeHeap s1 a)"
    by (simp_all add: s1_def newStoreObject_def initStore_def)
  have eq1: "chans s1 = chans s" "conns s1 = conns s" "nextMH s1 = nextMH s" "Channels s1 = Channels s"
    "stores s1 = stores s" "syncChannels s1 = syncChannels s"
    by (simp_all add: s1_def)
  obtain s4 where s4: "initGalacticStore marshal newH newS newR a s1 = Done s4"
    "chans s4 = (chans s)(ch := subscribeHandler (WrapperFn (nextMH s)) False newS (chans s ch))"
    "mh_successHandler (mhandlers s4 (nextMH s)) = Some (GalacticSync a)"
    "storeHeap s4 a = (storeHeap s1 a)\<lparr>st_storeSynHandler := Some (nextMH s)\<rparr>"
    "syncChannels s4 = syncChannels s"
    "conns s4 c = (conns s c)\<lparr>conn_tcpCalls := conn_tcpCalls (conns s c) @
      [TcpSend (sy_pubPrefix conf @ sy_syncChannelName conf) ''application/json''
         (marshal (Request (Some newR) 0 0 '''' (GStringMap [(''storeId'', name)]) ''openStore'' None)) []]\<rparr>"
    using initGalacticStore_ok[OF st1(1) assms(2), of ch marshal newH newS newR] assms(4-7)
    unfolding eq1 st1(2) by blast
  define s5 where "s5 = go_SendMonitorEvent StoreCreatedEvt name None (s4\<lparr>stores := (stores s4)(name \<mapsto> a)\<rparr>)"
  have open1: "OpenGalacticStore marshal newH newS newR name c s = Done (s5, Some a, None)"
    using assms(1,3) s4(1)
    by (simp add: OpenGalacticStore_def OpenGalacticStoreWithItemType_def newBusStore_def Let_def
        a_def[symmetric] s1_def[symmetric] s5_def)
  have f5: "stores s5 name = Some a" "storeHeap s5 = storeHeap s4" "chans s5 = chans s4" "conns s5 = conns s4"
    "mhandlers s5 = mhandlers s4" "syncChannels s5 = syncChannels s"
    by (simp_all add: s5_def s4(5) go_SendMonitorEvent_def)
  have gal: "st_isGalactic (storeHeap s5 a)" "st_name (storeHeap s5 a) = name"
    using st1 by (simp_all add: f5 s4(4))
  moreover have "OpenGalacticStore marshal newH2 newS2 newR2 name c s5 = Done (s5, Some a, None)"
    using assms(1) gal(1) f5 s4(6) by (simp add: OpenGalacticStore_def OpenGalacticStoreWithItemType_def)
  moreover have "\<exists>h. ch_eventHandlers (chans s5 ch) = ch_eventHandlers (chans s ch) @ [h] \<and>
       h_callBackFunction h = WrapperFn (nextMH s) \<and> mh_successHandler (mhandlers s5 (nextMH s)) = Some (GalacticSync a)"
    by (simp add: f5 s4(2,3)) (simp add: subscribeHandler_def)
  moreover have "conn_tcpCalls (conns s5 c) = conn_tcpCalls (conns s c) @
      [TcpSend (sy_pubPrefix conf @ sy_syncChannelName conf) ''application/json''
         (marshal (Request (Some newR) 0 0 '''' (GStringMap [(''storeId'', name)]) ''openStore'' None)) []]"
    by (simp add: f5 s4(6))
  ultimately show ?thesis using open1 f5(1) unfolding GetStore_def by blast
qed

definition ex_conf :: storeSyncChannelConfig where
  "ex_conf = \<lparr>sy_topicPrefix = ''/topic/'', sy_pubPrefix = ''/pub/'', sy_syncChannelName = ''transport-store-sync.conn'', sy_conn = 0\<rparr>"

definition ex_sync_ready :: storeBus where
  "ex_sync_ready = (fst (CreateChannel ''transport-store-sync.conn'' (init_storeBus ''b'')))
     \<lparr>conns := (\<lambda>_. ex_tcp_conn), syncChannels := [''conn'' \<mapsto> ex_conf]\<rparr>"

theorem open_galactic_store_witness:
  "\<exists>s' a. OpenGalacticStore (\<lambda>_. ''json'') ''h'' ''s'' ''r'' ''store'' 0 ex_sync_ready = Done (s', Some a, None) \<and>
     GetStore ''store'' s' = Some a"
proof -
  have "syncChannels ex_sync_ready (conn_id (conns ex_sync_ready 0)) = Some ex_conf" "sy_conn ex_conf = 0"
    "stores ex_sync_ready ''store'' = None" "Channels ex_sync_ready (sy_syncChannelName ex_conf) = Some 0"
    "ch_Name (chans ex_sync_ready 0) = sy_syncChannelName ex_conf"
    "\<not> conn_useWs (conns ex_sync_ready 0)" "conn_conn (conns ex_sync_ready 0)"
    by (simp_all add: ex_sync_ready_def ex_conf_def ex_tcp_conn_def nil_connection_def CreateChannel_def Let_def
        go_SendMonitorEvent_def)
  from open_galactic_store[OF this, of "\<lambda>_. ''json''" "''h''" "''s''" "''r''"] show ?thesis by blast
qed

end
