(* ===== verification/StoreSync.thy ===== *)
theory StoreSync
  imports TransactionLaws StoreManagerLaws
begin

text \<open>
  The store sync service (src/bus/store\_sync\_service.go): the server side of galactic stores. It
  opens a request listener for every sync channel a client subscribes to, keeps per store one
  listener with the channels that have the store open, and relays the changes of the store to
  them. Listeners and clients are objects that closures keep pointing to, so they are in a heap.
  \<open>marshal\<close> and \<open>conv\<close> stand for the JSON codec as in the store manager.
\<close>

record syncClientChannel =
  scc_channelName :: string
  scc_clientRequestListener :: "addr option"
  scc_openStores :: "string list"

record syncStoreListener =
  sl_storeStream :: addr
  sl_store :: addr
  sl_clientSyncChannels :: "string list"

record syncBus = txBus +
  syncClients :: "string \<rightharpoonup> addr"
  syncClientHeap :: "addr \<Rightarrow> syncClientChannel"
  nextSyncClient :: addr
  syncStoreListeners :: "string \<rightharpoonup> addr"
  listenerHeap :: "addr \<Rightarrow> syncStoreListener"
  nextListener :: addr

definition init_syncBus :: "uuid \<Rightarrow> syncBus" where
  "init_syncBus new = txBus.extend (init_txBus new)
     \<lparr>syncClients = Map.empty,
      syncClientHeap = (\<lambda>_. \<lparr>scc_channelName = '''', scc_clientRequestListener = None, scc_openStores = []\<rparr>),
      nextSyncClient = 0, syncStoreListeners = Map.empty,
      listenerHeap = (\<lambda>_. \<lparr>sl_storeStream = 0, sl_store = 0, sl_clientSyncChannels = []\<rparr>), nextListener = 0\<rparr>"

definition newStoreSyncService :: "'b syncBus_scheme \<Rightarrow> 'b syncBus_scheme" where
  "newStoreSyncService s =
     fst (AddMonitorEventListener SyncMonitor [FabricEndpointSubscribeEvt, ChannelDestroyedEvt]
       (s\<lparr>syncClients := Map.empty, syncStoreListeners := Map.empty\<rparr>))"

subsection \<open>Listeners of a store\<close>

definition upd_listener ::
  "addr \<Rightarrow> (string list \<Rightarrow> string list) \<Rightarrow> 'b syncBus_scheme \<Rightarrow> 'b syncBus_scheme" where
  "upd_listener l f s = s\<lparr>listenerHeap := (listenerHeap s)(l := (listenerHeap s l)
     \<lparr>sl_clientSyncChannels := f (sl_clientSyncChannels (listenerHeap s l))\<rparr>)\<rparr>"

definition addChannel :: "addr \<Rightarrow> string \<Rightarrow> 'b syncBus_scheme \<Rightarrow> 'b syncBus_scheme" where
  "addChannel l clientChannel s = upd_listener l (\<lambda>cs. if clientChannel \<in> set cs then cs else cs @ [clientChannel]) s"

definition removeChannel :: "addr \<Rightarrow> string \<Rightarrow> 'b syncBus_scheme \<Rightarrow> 'b syncBus_scheme" where
  "removeChannel l clientChannel s = upd_listener l (filter (\<lambda>c. c \<noteq> clientChannel)) s"

definition listener_isEmpty :: "addr \<Rightarrow> 'b syncBus_scheme \<Rightarrow> bool" where
  "listener_isEmpty l s \<longleftrightarrow> sl_clientSyncChannels (listenerHeap s l) = []"

definition listener_unsubscribe :: "addr \<Rightarrow> 'b syncBus_scheme \<Rightarrow> 'b syncBus_scheme" where
  "listener_unsubscribe l s =
     upd_store (sl_store (listenerHeap s l)) (\<lambda>st. fst (storeStream_Unsubscribe (sl_storeStream (listenerHeap s l)) st)) s"

definition newSyncStoreListener :: "addr \<Rightarrow> 'b syncBus_scheme \<Rightarrow> 'b syncBus_scheme \<times> addr" where
  "newSyncStoreListener store s =
     (let l = nextListener s;
          (st1, stream) = OnAllChanges [] (storeHeap s store);
          st2 = fst (storeStream_Subscribe stream (Some (SyncStoreChange l)) st1)
      in (upd_store store (\<lambda>_. st2) (s\<lparr>listenerHeap := (listenerHeap s)(l := \<lparr>sl_storeStream = stream,
            sl_store = store, sl_clientSyncChannels = []\<rparr>), nextListener := Suc l\<rparr>), l))"

text \<open>The change handler of a listener: one response to each channel; \<open>new\<close> numbers the message ids.\<close>

fun send_to_channels ::
  "(nat \<Rightarrow> uuid) \<Rightarrow> gval \<Rightarrow> nat \<Rightarrow> string list \<Rightarrow> 'b syncBus_scheme \<Rightarrow> 'b syncBus_scheme" where
  "send_to_channels new payload i [] s = s"
| "send_to_channels new payload i (ch # chs) s =
     send_to_channels new payload (Suc i) chs (fst (SendResponseMessage (new i) ch payload None s))"

definition updateResponse :: "string \<Rightarrow> StoreChange \<Rightarrow> gval UpdateStoreResponse" where
  "updateResponse name change =
     (let resp = NewUpdateStoreResponse name (sc_Id change) (sc_Value change) (sc_StoreVersion change)
      in if sc_IsDeleteChange change then set_usr_NewItemValue GNil resp else resp)"

definition runSyncStoreChange ::
  "(nat \<Rightarrow> uuid) \<Rightarrow> addr \<Rightarrow> StoreChange \<Rightarrow> 'b syncBus_scheme \<Rightarrow> 'b syncBus_scheme" where
  "runSyncStoreChange new l change s =
     send_to_channels new (GUpdateStore (updateResponse (st_name (storeHeap s (sl_store (listenerHeap s l)))) change)) 0
       (sl_clientSyncChannels (listenerHeap s l)) s"

text \<open>The function given to \<^verbatim>\<open>WhenReady\<close> when a client opens a store.\<close>

definition runSyncContent :: "uuid \<Rightarrow> string \<Rightarrow> string \<Rightarrow> addr \<Rightarrow> 'b syncBus_scheme \<Rightarrow> 'b syncBus_scheme" where
  "runSyncContent new channelName storeId a s =
     (case AllValuesAndVersion (storeHeap s a) of (items, version) \<Rightarrow>
        fst (SendResponseMessage new channelName (GStoreContent (NewStoreContentResponse storeId items version)) None s))"

subsection \<open>Requests of clients\<close>

definition getStingProperty :: "string \<Rightarrow> (string \<times> gval) list \<Rightarrow> string \<times> bool" where
  "getStingProperty p request =
     (case map_of request p of
        Some (GString v) \<Rightarrow> (v, True)
      | _ \<Rightarrow> ('''', False))"

definition sendErrorResponse ::
  "uuid \<Rightarrow> string \<Rightarrow> string \<Rightarrow> uuid option \<Rightarrow> 'b syncBus_scheme \<Rightarrow> 'b syncBus_scheme" where
  "sendErrorResponse new clientChannel errorMsg reqId s =
     fst (SendResponseMessage new clientChannel
       (GResponsePtr (Response reqId '''' 0 '''' GNil True 1 errorMsg None [])) None s)"

definition add_open :: "addr \<Rightarrow> string \<Rightarrow> 'b syncBus_scheme \<Rightarrow> 'b syncBus_scheme" where
  "add_open c storeId s = s\<lparr>syncClientHeap := (syncClientHeap s)(c := (syncClientHeap s c)\<lparr>scc_openStores :=
     (if storeId \<in> set (scc_openStores (syncClientHeap s c)) then scc_openStores (syncClientHeap s c)
      else scc_openStores (syncClientHeap s c) @ [storeId])\<rparr>)\<rparr>"

definition del_open :: "addr \<Rightarrow> string \<Rightarrow> 'b syncBus_scheme \<Rightarrow> 'b syncBus_scheme" where
  "del_open c storeId s = s\<lparr>syncClientHeap := (syncClientHeap s)(c := (syncClientHeap s c)\<lparr>scc_openStores :=
     filter (\<lambda>x. x \<noteq> storeId) (scc_openStores (syncClientHeap s c))\<rparr>)\<rparr>"

definition openStore ::
  "uuid \<Rightarrow> addr \<Rightarrow> (string \<times> gval) list \<Rightarrow> uuid option \<Rightarrow> 'b syncBus_scheme \<Rightarrow> 'b syncBus_scheme" where
  "openStore new c request reqId s =
     (let channelName = scc_channelName (syncClientHeap s c);
          (storeId, ok) = getStingProperty ''storeId'' request
      in if \<not> ok \<or> storeId = '''' then sendErrorResponse new channelName ''Invalid OpenStoreRequest'' reqId s
         else case GetStore storeId s of
           None \<Rightarrow> sendErrorResponse new channelName (''Cannot open non-existing store: '' @ storeId) reqId s
         | Some store \<Rightarrow>
             let s1 = add_open c storeId s;
                 (s2, l) = (case syncStoreListeners s1 storeId of
                    Some l \<Rightarrow> (s1, l)
                  | None \<Rightarrow> (case newSyncStoreListener store s1 of (t, l) \<Rightarrow>
                      (t\<lparr>syncStoreListeners := (syncStoreListeners t)(storeId \<mapsto> l)\<rparr>, l)));
                 s3 = addChannel l channelName s2
             in upd_store store (WhenReady (SyncContent channelName storeId store)) s3)"

text \<open>A listener that has lost its last channel is unsubscribed and dropped.\<close>

definition dropChannel :: "string \<Rightarrow> string \<Rightarrow> 'b syncBus_scheme \<Rightarrow> 'b syncBus_scheme" where
  "dropChannel channelName storeId s =
     (case syncStoreListeners s storeId of
        None \<Rightarrow> s
      | Some l \<Rightarrow>
          let s1 = removeChannel l channelName s in
          if listener_isEmpty l s1
          then (listener_unsubscribe l s1)\<lparr>syncStoreListeners := (syncStoreListeners s1)(storeId := None)\<rparr>
          else s1)"

definition closeStore ::
  "uuid \<Rightarrow> addr \<Rightarrow> (string \<times> gval) list \<Rightarrow> uuid option \<Rightarrow> 'b syncBus_scheme \<Rightarrow> 'b syncBus_scheme" where
  "closeStore new c request reqId s =
     (let channelName = scc_channelName (syncClientHeap s c);
          (storeId, ok) = getStingProperty ''storeId'' request
      in if \<not> ok \<or> storeId = '''' then sendErrorResponse new channelName ''Invalid CloseStoreRequest'' reqId s
         else dropChannel channelName storeId (del_open c storeId s))"

definition updateStore ::
  "(gval Request \<Rightarrow> bytes) \<Rightarrow> conv \<Rightarrow> uuid \<Rightarrow> uuid \<Rightarrow> addr \<Rightarrow> (string \<times> gval) list \<Rightarrow> uuid option
     \<Rightarrow> 'b syncBus_scheme \<Rightarrow> 'b syncBus_scheme go" where
  "updateStore marshal conv new newR c request reqId s =
     (let channelName = scc_channelName (syncClientHeap s c);
          (storeId, ok1) = getStingProperty ''storeId'' request;
          (itemId, ok2) = getStingProperty ''itemId'' request
      in if \<not> ok1 \<or> storeId = '''' then
           Done (sendErrorResponse new channelName ''Invalid UpdateStoreRequest: missing storeId'' reqId s)
         else if \<not> ok2 \<or> itemId = '''' then
           Done (sendErrorResponse new channelName ''Invalid UpdateStoreRequest: missing itemId'' reqId s)
         else case GetStore storeId s of
           None \<Rightarrow> Done (sendErrorResponse new channelName (''Cannot update non-existing store: '' @ storeId) reqId s)
         | Some store \<Rightarrow>
             let rawValue = (case map_of request ''newItemValue'' of None \<Rightarrow> GNil | Some v \<Rightarrow> v) in
             if rawValue = GNil then
               (case Remove newR itemId (GString ''galacticStoreSyncRemove'') (storeHeap s store) of (st, outs, _) \<Rightarrow>
                  store_outputs marshal store outs (upd_store store (\<lambda>_. st) s))
             else (case conv (st_itemType (storeHeap s store)) rawValue of
                 Inl err \<Rightarrow> Done (sendErrorResponse new channelName
                              (''Cannot deserialize UpdateStoreRequest item value: '' @ err) reqId s)
               | Inr v \<Rightarrow>
                   if v = GNil then Done (sendErrorResponse new channelName
                              ''Cannot deserialize UpdateStoreRequest item value'' reqId s)
                   else (case Put newR itemId v (GString ''galacticStoreSyncUpdate'') (storeHeap s store) of (st, outs) \<Rightarrow>
                      store_outputs marshal store outs (upd_store store (\<lambda>_. st) s))))"

text \<open>The request handler of a client channel.\<close>

definition syncClientRequest ::
  "(gval Request \<Rightarrow> bytes) \<Rightarrow> conv \<Rightarrow> uuid \<Rightarrow> uuid \<Rightarrow> addr \<Rightarrow> Message \<Rightarrow> 'b syncBus_scheme \<Rightarrow> 'b syncBus_scheme go" where
  "syncClientRequest marshal conv new newR c message s =
     (case msg_Payload message of
        GRequestPtr request \<Rightarrow>
          (case req_Payload request of
             GMap storeRequest \<Rightarrow>
               if req_Request request = ''openStore'' then Done (openStore new c storeRequest (req_Id request) s)
               else if req_Request request = ''closeStore'' then Done (closeStore new c storeRequest (req_Id request) s)
               else if req_Request request = ''updateStore''
                    then updateStore marshal conv new newR c storeRequest (req_Id request) s
               else Done s
           | _ \<Rightarrow> Done s)
      | _ \<Rightarrow> Done s)"

subsection \<open>Channels of clients\<close>

definition openNewClientSyncChannel ::
  "uuid \<Rightarrow> uuid \<Rightarrow> string \<Rightarrow> 'b syncBus_scheme \<Rightarrow> 'b syncBus_scheme" where
  "openNewClientSyncChannel newH newS channelName s =
     (if syncClients s channelName \<noteq> None then s
      else
        let c = nextSyncClient s;
            s1 = s\<lparr>nextSyncClient := Suc c\<rparr>;
            (s2, r) = ListenRequestStream newH channelName s1;
            h = (case r of Inl _ \<Rightarrow> None | Inr h \<Rightarrow> Some h);
            s3 = s2\<lparr>syncClientHeap := (syncClientHeap s2)(c := \<lparr>scc_channelName = channelName,
                   scc_clientRequestListener = h, scc_openStores = []\<rparr>)\<rparr>;
            s4 = (case h of None \<Rightarrow> s3 | Some a \<Rightarrow> Handle newS a (Some (SyncClientRequest c)) (Some IgnoreFn) s3)
        in s4\<lparr>syncClients := (syncClients s4)(channelName \<mapsto> c)\<rparr>)"

definition closeClientSyncChannel :: "string \<Rightarrow> 'b syncBus_scheme \<Rightarrow> 'b syncBus_scheme" where
  "closeClientSyncChannel channelName s =
     (case syncClients s channelName of
        None \<Rightarrow> s
      | Some c \<Rightarrow>
          (fold (dropChannel channelName) (scc_openStores (syncClientHeap s c)) s)
            \<lparr>syncClients := (syncClients s)(channelName := None)\<rparr>)"

definition syncMonitor :: "uuid \<Rightarrow> uuid \<Rightarrow> MonitorEvent \<Rightarrow> 'b syncBus_scheme \<Rightarrow> 'b syncBus_scheme" where
  "syncMonitor newH newS evt s =
     (if \<not> HasPrefix (me_EntityName evt) ''transport-store-sync.'' then s
      else case me_EventType evt of
        FabricEndpointSubscribeEvt \<Rightarrow> openNewClientSyncChannel newH newS (me_EntityName evt) s
      | ChannelDestroyedEvt \<Rightarrow> closeClientSyncChannel (me_EntityName evt) s
      | _ \<Rightarrow> s)"

end
