(* ===== verification/StoreSyncLaws.thy ===== *)
theory StoreSyncLaws
  imports StoreSync
begin

text \<open>
  What the sync service and the replicas promise together: a replica that is told of the changes
  in order converges to the server's store, one that is told out of order need not, and opening
  and closing a store leaves no listener behind.
\<close>

subsection \<open>What a replica makes of the announced changes\<close>

text \<open>
  The JSON codec between server and client, as far as the sync protocol relies on it: an update
  response decodes to an object with its fields (numbers as floats), a nil value to nil, and a
  value that is not nil to a raw value that converts back to it at the item type of the replica.
\<close>

definition codec_ok ::
  "(bytes \<Rightarrow> error + (string \<times> gval) list) \<Rightarrow> conv \<Rightarrow> (gval UpdateStoreResponse \<Rightarrow> bytes) \<Rightarrow> (gval \<Rightarrow> gval)
     \<Rightarrow> gtype option \<Rightarrow> gval UpdateStoreResponse set \<Rightarrow> bool" where
  "codec_ok unmarshal conv enc raw t R \<longleftrightarrow> raw GNil = GNil \<and>
     (\<forall>r\<in>R. unmarshal (enc r) = Inr [(''itemId'', GString (usr_ItemId r)), (''newItemValue'', raw (usr_NewItemValue r)),
         (''responseType'', GString (usr_ResponseType r)), (''storeId'', GString (usr_StoreId r)),
         (''storeVersion'', GFloat64 (of_int (sint (usr_StoreVersion r))))] \<and>
       (usr_NewItemValue r \<noteq> GNil \<longrightarrow> raw (usr_NewItemValue r) \<noteq> GNil \<and>
          conv t (raw (usr_NewItemValue r)) = Inr (usr_NewItemValue r)))"

fun sync_all ::
  "(bytes \<Rightarrow> error + (string \<times> gval) list) \<Rightarrow> conv \<Rightarrow> bytes list \<Rightarrow> busStore \<Rightarrow> busStore go" where
  "sync_all unmarshal conv [] c = Done c"
| "sync_all unmarshal conv (b # bs) c =
     go_bind (galacticSync unmarshal conv (GBytes b) c) (\<lambda>(c', _). sync_all unmarshal conv bs c')"

definition change_op :: "StoreChange \<Rightarrow> gval store_op" where
  "change_op ch = (if sc_IsDeleteChange ch then DelOp (sc_Id ch) else PutOp (sc_Id ch) (sc_Value ch))"

lemma float_of_version: "float_to_int64 (signed v) = v"
proof -
  have "(signed v :: rat) = of_int (sint v)" by simp
  then show ?thesis unfolding float_to_int64_def by (simp only: ceiling_of_int floor_of_int if_cancel) simp
qed

definition set_version :: "int64 \<Rightarrow> busStore \<Rightarrow> busStore" where
  "set_version v c = c\<lparr>st_storeVersion := v\<rparr>"

lemma set_version_simps [simp]:
  "st_items (set_version v c) = st_items c" "st_isGalactic (set_version v c) = st_isGalactic c"
  "st_name (set_version v c) = st_name c" "st_itemType (set_version v c) = st_itemType c"
  "store_wf (set_version v c) = store_wf c" "Get k (set_version v c) = Get k c"
  by (simp_all add: set_version_def store_wf_def Get_def)

lemma galacticSync_change:
  assumes "codec_ok unmarshal conv enc raw (st_itemType c) {updateResponse (st_name c) ch}"
    and "sc_IsDeleteChange ch \<or> sc_Value ch \<noteq> GNil"
  shows "galacticSync unmarshal conv (GBytes (enc (updateResponse (st_name c) ch))) c =
    Done (replica_store.store_apply (change_op ch) (set_version (sc_StoreVersion ch) c), [])"
proof -
  have fields: "usr_ItemId (updateResponse (st_name c) ch) = sc_Id ch"
    "usr_NewItemValue (updateResponse (st_name c) ch) = (if sc_IsDeleteChange ch then GNil else sc_Value ch)"
    "usr_ResponseType (updateResponse (st_name c) ch) = ''updateStoreResponse''"
    "usr_StoreId (updateResponse (st_name c) ch) = st_name c"
    "usr_StoreVersion (updateResponse (st_name c) ch) = sc_StoreVersion ch"
    by (simp_all add: updateResponse_def NewUpdateStoreResponse_def Let_def)
  show ?thesis
  proof (cases "sc_IsDeleteChange ch")
    case True
    then show ?thesis
      using assms(1) by (simp add: codec_ok_def fields galacticSync_def updateVersionFromResponse_def
          float_of_version change_op_def replica_del_def set_version_def Let_def)
  next
    case False
    then have "raw (sc_Value ch) \<noteq> GNil" "conv (st_itemType c) (raw (sc_Value ch)) = Inr (sc_Value ch)"
      using assms by (auto simp: codec_ok_def fields)
    with False show ?thesis
      using assms(1) by (cases "raw (sc_Value ch)")
        (simp_all add: codec_ok_def fields galacticSync_def updateVersionFromResponse_def
          float_of_version change_op_def replica_put_def set_version_def deserializeRawValue_def Let_def)
  qed
qed

lemma replica_apply_frame [simp]:
  "st_isGalactic (replica_store.store_apply p c) = st_isGalactic c"
  "st_name (replica_store.store_apply p c) = st_name c"
  "st_itemType (replica_store.store_apply p c) = st_itemType c"
  by (cases p; simp add: replica_put_def replica_del_def)+

lemma replica_version: "st_isGalactic c \<Longrightarrow> st_storeVersion (replica_store.store_apply p c) = st_storeVersion c"
  by (cases p) (auto simp: replica_put_def replica_del_def putInternal_def removeInternal_def Let_def split: option.split)

lemma sync_all_changes:
  assumes "codec_ok unmarshal conv enc raw (st_itemType c) (updateResponse (st_name c) ` set chs)"
    and "\<forall>ch\<in>set chs. sc_IsDeleteChange ch \<or> sc_Value ch \<noteq> GNil" and "store_wf c" and "st_isGalactic c"
  shows "\<exists>c'. sync_all unmarshal conv (map (\<lambda>ch. enc (updateResponse (st_name c) ch)) chs) c = Done c' \<and>
    (\<lambda>k. Get k c') = fold map_apply (map change_op chs) (\<lambda>k. Get k c) \<and>
    st_storeVersion c' = (if chs = [] then st_storeVersion c else sc_StoreVersion (last chs))"
  using assms
proof (induction chs arbitrary: c)
  case (Cons ch chs)
  let ?c = "set_version (sc_StoreVersion ch) c"
  let ?d = "replica_store.store_apply (change_op ch) ?c"
  have one: "galacticSync unmarshal conv (GBytes (enc (updateResponse (st_name c) ch))) c = Done (?d, [])"
    by (rule galacticSync_change) (use Cons.prems in \<open>auto simp: codec_ok_def\<close>)
  have inv: "store_wf ?c \<and> st_isGalactic ?c" using Cons.prems by simp
  have d: "store_wf ?d \<and> st_isGalactic ?d" using replica_store.apply_inv[OF inv] .
  have g: "(\<lambda>k. Get k ?d) = map_apply (change_op ch) (\<lambda>k. Get k c)"
    using replica_store.apply_lookup[OF inv, of "change_op ch"] by simp
  have n: "st_name ?d = st_name c" "st_itemType ?d = st_itemType c" by simp_all
  have "\<exists>c'. sync_all unmarshal conv (map (\<lambda>ch. enc (updateResponse (st_name ?d) ch)) chs) ?d = Done c' \<and>
    (\<lambda>k. Get k c') = fold map_apply (map change_op chs) (\<lambda>k. Get k ?d) \<and>
    st_storeVersion c' = (if chs = [] then st_storeVersion ?d else sc_StoreVersion (last chs))"
    by (rule Cons.IH) (use Cons.prems d in \<open>auto simp: codec_ok_def\<close>)
  moreover have "st_storeVersion ?d = sc_StoreVersion ch"
    using replica_version[of ?c] Cons.prems(4) by (simp add: set_version_def)
  ultimately show ?case using one g unfolding n by auto
qed simp

text \<open>The changes that a program's operations announce, in the order they are made.\<close>

lemma run_store_changes:
  assumes "store_wf s" and "\<not> st_isGalactic s" and "\<forall>k v. PutOp k v \<in> set ops \<longrightarrow> v \<noteq> GNil"
  shows "\<exists>chs. st_changes (run_store new state ops s) = st_changes s @ chs \<and>
    (\<lambda>k. Get k (run_store new state ops s)) = fold map_apply (map change_op chs) (\<lambda>k. Get k s) \<and>
    st_storeVersion (run_store new state ops s) = (if chs = [] then st_storeVersion s else sc_StoreVersion (last chs)) \<and>
    (\<forall>ch\<in>set chs. sc_IsDeleteChange ch \<or> sc_Value ch \<noteq> GNil)"
  using assms
proof (induction ops arbitrary: s)
  case (Cons p ops)
  let ?s = "local_store.store_apply new state p s"
  have inv: "store_wf ?s \<and> \<not> st_isGalactic ?s" using local_store.apply_inv Cons.prems by blast
  have step: "run_store new state (p # ops) s = run_store new state ops ?s" by (simp add: run_store_eq)
  have ch1: "\<exists>cs. st_changes ?s = st_changes s @ cs \<and> (\<lambda>k. Get k ?s) = fold map_apply (map change_op cs) (\<lambda>k. Get k s) \<and>
    st_storeVersion ?s = (if cs = [] then st_storeVersion s else sc_StoreVersion (last cs)) \<and>
    (\<forall>ch\<in>set cs. sc_IsDeleteChange ch \<or> sc_Value ch \<noteq> GNil)"
  proof (cases p)
    case (PutOp k v)
    with Cons.prems show ?thesis
      by (intro exI[of _ "[\<lparr>sc_Id = k, sc_Value = v, sc_State = state, sc_IsDeleteChange = False,
            sc_StoreVersion = st_storeVersion s + 1\<rparr>]"])
        (auto simp: local_put_eq putInternal_def change_op_def Get_def Let_def fun_eq_iff)
  next
    case (DelOp k)
    show ?thesis
    proof (cases "map_of (st_items s) k")
      case None
      with DelOp Cons.prems show ?thesis by (intro exI[of _ "[]"]) (auto simp: local_remove_eq removeInternal_def)
    next
      case (Some v)
      with DelOp Cons.prems show ?thesis
        by (intro exI[of _ "[\<lparr>sc_Id = k, sc_Value = v, sc_State = state, sc_IsDeleteChange = True,
              sc_StoreVersion = st_storeVersion s + 1\<rparr>]"])
          (auto simp: local_remove_eq removeInternal_def change_op_def Get_def Let_def fun_eq_iff)
    qed
  qed
  then obtain cs where cs: "st_changes ?s = st_changes s @ cs" "(\<lambda>k. Get k ?s) = fold map_apply (map change_op cs) (\<lambda>k. Get k s)"
    "st_storeVersion ?s = (if cs = [] then st_storeVersion s else sc_StoreVersion (last cs))"
    "\<forall>ch\<in>set cs. sc_IsDeleteChange ch \<or> sc_Value ch \<noteq> GNil" by blast
  obtain chs where chs: "st_changes (run_store new state ops ?s) = st_changes ?s @ chs"
    "(\<lambda>k. Get k (run_store new state ops ?s)) = fold map_apply (map change_op chs) (\<lambda>k. Get k ?s)"
    "st_storeVersion (run_store new state ops ?s) = (if chs = [] then st_storeVersion ?s else sc_StoreVersion (last chs))"
    "\<forall>ch\<in>set chs. sc_IsDeleteChange ch \<or> sc_Value ch \<noteq> GNil"
    using Cons.IH[of ?s] inv Cons.prems(3) by auto
  show ?case unfolding step
    by (intro exI[of _ "cs @ chs"]) (use cs chs in auto)
qed (simp add: run_store_def)

subsection \<open>Properties\<close>

text \<open>
  C10. A replica that starts with the server's items and receives the update responses for the
  changes of the server's store in the order the changes were made ends with the server's items
  and, when anything changed, with its version, for every program of puts of non-nil values and
  removals, given a JSON codec that keeps the values.
\<close>

theorem replica_converges_in_order:
  assumes "store_wf s" and "\<not> st_isGalactic s" and "st_changes s = []"
    and "\<forall>k v. PutOp k v \<in> set ops \<longrightarrow> v \<noteq> GNil"
    and "store_wf c" and "st_isGalactic c" and "st_name c = st_name s" and "\<forall>k. Get k c = Get k s"
    and "codec_ok unmarshal conv enc raw (st_itemType c)
           (updateResponse (st_name s) ` set (st_changes (run_store new state ops s)))"
  shows "\<exists>c'. sync_all unmarshal conv
      (map (\<lambda>ch. enc (updateResponse (st_name s) ch)) (st_changes (run_store new state ops s))) c = Done c' \<and>
    (\<forall>k. Get k c' = Get k (run_store new state ops s)) \<and>
    (st_changes (run_store new state ops s) \<noteq> [] \<longrightarrow>
       st_storeVersion c' = st_storeVersion (run_store new state ops s))"
proof -
  obtain chs where chs: "st_changes (run_store new state ops s) = chs"
    "(\<lambda>k. Get k (run_store new state ops s)) = fold map_apply (map change_op chs) (\<lambda>k. Get k s)"
    "st_storeVersion (run_store new state ops s) = (if chs = [] then st_storeVersion s else sc_StoreVersion (last chs))"
    "\<forall>ch\<in>set chs. sc_IsDeleteChange ch \<or> sc_Value ch \<noteq> GNil"
    using run_store_changes[OF assms(1,2,4), of new state] assms(3) by auto
  have ok: "codec_ok unmarshal conv enc raw (st_itemType c) (updateResponse (st_name c) ` set chs)"
    using assms(7,9) chs(1) by simp
  obtain c' where c': "sync_all unmarshal conv (map (\<lambda>ch. enc (updateResponse (st_name c) ch)) chs) c = Done c'"
    "(\<lambda>k. Get k c') = fold map_apply (map change_op chs) (\<lambda>k. Get k c)"
    "st_storeVersion c' = (if chs = [] then st_storeVersion c else sc_StoreVersion (last chs))"
    using sync_all_changes[OF ok chs(4) assms(5,6)] by blast
  have "(\<lambda>k. Get k c) = (\<lambda>k. Get k s)" using assms(8) by auto
  then have "(\<lambda>k. Get k c') = (\<lambda>k. Get k (run_store new state ops s))" using c'(2) chs(2) by simp
  then show ?thesis using c'(1,3) chs(1,3) assms(7) by (auto dest: fun_cong)
qed

definition ex_replica :: busStore where
  "ex_replica = newStoreObject ''s'' None (Some ex_conf)"

definition ex_server :: busStore where
  "ex_server = newStoreObject ''s'' None None"

lemma ex_sync_facts:
  "store_wf ex_server" "\<not> st_isGalactic ex_server" "st_changes ex_server = []" "st_name ex_server = ''s''"
  "store_wf ex_replica" "st_isGalactic ex_replica" "st_name ex_replica = ''s''" "st_itemType ex_replica = None"
  "Get k ex_replica = Get k ex_server" "Get k ex_server = None" "st_storeVersion ex_server = 1"
  by (simp_all add: ex_server_def ex_replica_def newStoreObject_wf)
    (simp_all add: newStoreObject_def initStore_def Get_def)

definition ex_change :: "string \<Rightarrow> int64 \<Rightarrow> StoreChange" where
  "ex_change v n = \<lparr>sc_Id = ''a'', sc_Value = GString v, sc_State = GNil, sc_IsDeleteChange = False, sc_StoreVersion = n\<rparr>"

text \<open>A codec for two responses: they are encoded by their value.\<close>

definition ex_enc :: "gval UpdateStoreResponse \<Rightarrow> bytes" where
  "ex_enc r = (case usr_NewItemValue r of GString v \<Rightarrow> v | _ \<Rightarrow> '''')"

definition ex_unmarshal :: "bytes \<Rightarrow> error + (string \<times> gval) list" where
  "ex_unmarshal b = Inr [(''itemId'', GString ''a''), (''newItemValue'', GString b),
     (''responseType'', GString ''updateStoreResponse''), (''storeId'', GString ''s''),
     (''storeVersion'', GFloat64 (if b = ''x'' then 2 else 3))]"

lemma ex_codec: "codec_ok ex_unmarshal (\<lambda>_. Inr) ex_enc (\<lambda>v. v) None
    (updateResponse ''s'' ` {ex_change ''x'' 2, ex_change ''y'' 3})"
proof -
  have "(of_int (sint (2 :: int64)) :: rat) = 2" "(of_int (sint (3 :: int64)) :: rat) = 3" by simp_all
  then show ?thesis
    by (simp add: codec_ok_def updateResponse_def NewUpdateStoreResponse_def ex_change_def ex_enc_def ex_unmarshal_def Let_def)
qed

lemma ex_run: "st_changes (run_store ''u'' GNil [PutOp ''a'' (GString ''x''), PutOp ''a'' (GString ''y'')] ex_server) =
    [ex_change ''x'' 2, ex_change ''y'' 3]"
  by (simp add: run_store_def local_put_eq ex_sync_facts putInternal_def Let_def ex_change_def)

theorem replica_converges_in_order_witness:
  "\<exists>c. sync_all ex_unmarshal (\<lambda>_. Inr) [''x'', ''y''] ex_replica = Done c \<and> Get ''a'' c = Some (GString ''y'')"
proof -
  let ?ops = "[PutOp ''a'' (GString ''x''), PutOp ''a'' (GString ''y'')]"
  have puts: "\<forall>k v. PutOp k v \<in> set ?ops \<longrightarrow> v \<noteq> GNil" by simp
  have codec: "codec_ok ex_unmarshal (\<lambda>_. Inr) ex_enc (\<lambda>v. v) (st_itemType ex_replica)
      (updateResponse (st_name ex_server) ` set (st_changes (run_store ''u'' GNil ?ops ex_server)))"
    using ex_codec by (simp add: ex_run ex_sync_facts)
  have enc: "map (\<lambda>ch. ex_enc (updateResponse (st_name ex_server) ch)) [ex_change ''x'' 2, ex_change ''y'' 3] = [''x'', ''y'']"
    by (simp add: updateResponse_def NewUpdateStoreResponse_def ex_change_def ex_enc_def Let_def)
  have "\<exists>c'. sync_all ex_unmarshal (\<lambda>_. Inr) (map (\<lambda>ch. ex_enc (updateResponse (st_name ex_server) ch))
        (st_changes (run_store ''u'' GNil ?ops ex_server))) ex_replica = Done c' \<and>
      (\<forall>k. Get k c' = Get k (run_store ''u'' GNil ?ops ex_server)) \<and>
      (st_changes (run_store ''u'' GNil ?ops ex_server) \<noteq> [] \<longrightarrow>
         st_storeVersion c' = st_storeVersion (run_store ''u'' GNil ?ops ex_server))"
    using replica_converges_in_order[OF ex_sync_facts(1,2,3) puts ex_sync_facts(5,6) _ _ codec] ex_sync_facts by simp
  moreover have "Get ''a'' (run_store ''u'' GNil ?ops ex_server) = Some (GString ''y'')"
    by (simp add: run_store_def local_put_eq ex_sync_facts Get_def)
  ultimately show ?thesis unfolding ex_run enc by auto
qed

text \<open>
  The changes of a store are announced by goroutines of their own, so two puts of the same item
  can be announced in the other order; the replica takes the older value and the older version
  for the newest and keeps them.
\<close>

theorem replica_diverges_out_of_order:
  assumes "\<not> st_isGalactic s" and "st_changes s = []" and "v1 \<noteq> GNil" and "v2 \<noteq> GNil" and "v1 \<noteq> v2"
    and "store_wf c" and "st_isGalactic c" and "st_name c = st_name s"
    and "codec_ok unmarshal conv enc raw (st_itemType c)
           (updateResponse (st_name s) ` set (st_changes (run_store new state [PutOp k v1, PutOp k v2] s)))"
  shows "\<exists>c1 c2 c'. st_changes (run_store new state [PutOp k v1, PutOp k v2] s) = [c1, c2] \<and>
    Get k (run_store new state [PutOp k v1, PutOp k v2] s) = Some v2 \<and>
    sync_all unmarshal conv (map (\<lambda>ch. enc (updateResponse (st_name s) ch)) [c2, c1]) c = Done c' \<and>
    Get k c' = Some v1 \<and>
    st_storeVersion (run_store new state [PutOp k v1, PutOp k v2] s) = st_storeVersion c' + 1"
proof -
  define c1 c2 where "c1 = \<lparr>sc_Id = k, sc_Value = v1, sc_State = state, sc_IsDeleteChange = False, sc_StoreVersion = st_storeVersion s + 1\<rparr>"
    and "c2 = \<lparr>sc_Id = k, sc_Value = v2, sc_State = state, sc_IsDeleteChange = False, sc_StoreVersion = st_storeVersion s + 2\<rparr>"
  have run: "run_store new state [PutOp k v1, PutOp k v2] s = putInternal k v2 state (putInternal k v1 state s)"
    using assms(1) by (simp add: run_store_def local_put_eq)
  have chs: "st_changes (run_store new state [PutOp k v1, PutOp k v2] s) = [c1, c2]"
    "Get k (run_store new state [PutOp k v1, PutOp k v2] s) = Some v2"
    "st_storeVersion (run_store new state [PutOp k v1, PutOp k v2] s) = st_storeVersion s + 2"
    unfolding run using assms(1,2) by (simp_all add: putInternal_def Let_def c1_def c2_def Get_def)
  have "codec_ok unmarshal conv enc raw (st_itemType c) (updateResponse (st_name c) ` set [c2, c1])"
    using assms(8,9) chs(1) by (simp add: insert_commute)
  moreover have "\<forall>ch\<in>set [c2, c1]. sc_IsDeleteChange ch \<or> sc_Value ch \<noteq> GNil"
    using assms(3,4) by (simp add: c1_def c2_def)
  ultimately obtain c' where c': "sync_all unmarshal conv (map (\<lambda>ch. enc (updateResponse (st_name c) ch)) [c2, c1]) c = Done c'"
    "(\<lambda>j. Get j c') = fold map_apply (map change_op [c2, c1]) (\<lambda>j. Get j c)"
    "st_storeVersion c' = sc_StoreVersion c1"
    using sync_all_changes[of unmarshal conv enc raw c "[c2, c1]"] assms(6,7) by auto
  have "Get k c' = Some v1" using fun_cong[OF c'(2), of k] by (simp add: change_op_def c1_def c2_def)
  moreover have "st_storeVersion s + 2 = st_storeVersion c' + 1" using c'(3) by (simp add: c1_def)
  ultimately show ?thesis using chs c'(1) assms(8) by auto
qed

theorem replica_diverges_out_of_order_witness:
  "\<exists>c. sync_all ex_unmarshal (\<lambda>_. Inr) [''y'', ''x''] ex_replica = Done c \<and> Get ''a'' c = Some (GString ''x'') \<and>
     Get ''a'' (run_store ''u'' GNil [PutOp ''a'' (GString ''x''), PutOp ''a'' (GString ''y'')] ex_server) = Some (GString ''y'')"
proof -
  have codec: "codec_ok ex_unmarshal (\<lambda>_. Inr) ex_enc (\<lambda>v. v) (st_itemType ex_replica)
      (updateResponse (st_name ex_server) `
        set (st_changes (run_store ''u'' GNil [PutOp ''a'' (GString ''x''), PutOp ''a'' (GString ''y'')] ex_server)))"
    using ex_codec by (simp add: ex_run ex_sync_facts)
  have enc: "map (\<lambda>ch. ex_enc (updateResponse (st_name ex_server) ch)) [ex_change ''y'' 3, ex_change ''x'' 2] = [''y'', ''x'']"
    by (simp add: updateResponse_def NewUpdateStoreResponse_def ex_change_def ex_enc_def Let_def)
  have "GString ''x'' \<noteq> GNil" "GString ''y'' \<noteq> GNil" "GString ''x'' \<noteq> GString ''y''" by simp_all
  from replica_diverges_out_of_order[OF ex_sync_facts(2,3) this ex_sync_facts(5,6) _ codec]
  show ?thesis unfolding ex_run ex_sync_facts(4,7) using enc unfolding ex_sync_facts(4) by fastforce
qed

subsection \<open>Opening and closing stores\<close>

lemma sync_frame [simp]:
  "stores (add_open c i s) = stores s" "storeHeap (add_open c i s) = storeHeap s"
  "syncStoreListeners (add_open c i s) = syncStoreListeners s" "listenerHeap (add_open c i s) = listenerHeap s"
  "nextListener (add_open c i s) = nextListener s"
  "stores (del_open c i s) = stores s" "storeHeap (del_open c i s) = storeHeap s"
  "syncStoreListeners (del_open c i s) = syncStoreListeners s" "listenerHeap (del_open c i s) = listenerHeap s"
  "stores (upd_listener l f s) = stores s" "storeHeap (upd_listener l f s) = storeHeap s"
  "syncStoreListeners (upd_listener l f s) = syncStoreListeners s"
  "syncClientHeap (upd_listener l f s) = syncClientHeap s"
  "syncStoreListeners (upd_store a g s) = syncStoreListeners s" "listenerHeap (upd_store a g s) = listenerHeap s"
  "syncClientHeap (upd_store a g s) = syncClientHeap s"
  by (simp_all add: add_open_def del_open_def upd_listener_def upd_store_def)

lemma listenerHeap_upd [simp]:
  "listenerHeap (upd_listener l f s) = (listenerHeap s)(l := (listenerHeap s l)
     \<lparr>sl_clientSyncChannels := f (sl_clientSyncChannels (listenerHeap s l))\<rparr>)"
  by (simp add: upd_listener_def)

lemma scc_channelName_open [simp]:
  "scc_channelName (syncClientHeap (add_open c i s) d) = scc_channelName (syncClientHeap s d)"
  "scc_channelName (syncClientHeap (del_open c i s) d) = scc_channelName (syncClientHeap s d)"
  by (simp_all add: add_open_def del_open_def)

text \<open>The first client to open a store.\<close>

lemma openStore_first:
  assumes "getStingProperty ''storeId'' request = (storeId, True)" and "storeId \<noteq> ''''"
    and "GetStore storeId s = Some a" and "syncStoreListeners s storeId = None"
  shows "syncStoreListeners (openStore new c request reqId s) = (syncStoreListeners s)(storeId \<mapsto> nextListener s)"
    and "listenerHeap (openStore new c request reqId s) (nextListener s) =
      \<lparr>sl_storeStream = st_nextStream (storeHeap s a), sl_store = a,
       sl_clientSyncChannels = [scc_channelName (syncClientHeap s c)]\<rparr>"
    and "storeHeap (openStore new c request reqId s) a =
      WhenReady (SyncContent (scc_channelName (syncClientHeap s c)) storeId a)
        (fst (storeStream_Subscribe (st_nextStream (storeHeap s a)) (Some (SyncStoreChange (nextListener s)))
          (fst (OnAllChanges [] (storeHeap s a)))))"
    and "scc_channelName (syncClientHeap (openStore new c request reqId s) c) = scc_channelName (syncClientHeap s c)"
  using assms
  by (simp_all add: openStore_def Let_def newSyncStoreListener_def addChannel_def OnAllChanges_def newStoreStream_def)

text \<open>
  The first client that opens a store makes the service subscribe to the changes of the store
  and the store answer with its content once it is ready; when that client, the only one, closes
  the store, the service's listener is gone and the store has the streams it had before.
\<close>

theorem sync_open_close_store:
  assumes "getStingProperty ''storeId'' request = (storeId, True)" and "storeId \<noteq> ''''"
    and "GetStore storeId s = Some a" and "syncStoreListeners s storeId = None" and "store_wf (storeHeap s a)"
  shows "let s1 = openStore new c request reqId s; s2 = closeStore new2 c request reqId2 s1 in
    st_waiters (storeHeap s1 a) = st_waiters (storeHeap s a) @
      [Started (SyncContent (scc_channelName (syncClientHeap s c)) storeId a)] \<and>
    set (st_storeStreams (storeHeap s1 a)) = insert (st_nextStream (storeHeap s a)) (set (st_storeStreams (storeHeap s a))) \<and>
    syncStoreListeners s1 storeId \<noteq> None \<and> syncStoreListeners s2 storeId = None \<and>
    set (st_storeStreams (storeHeap s2 a)) = set (st_storeStreams (storeHeap s a))"
proof -
  define s1 s2 where "s1 = openStore new c request reqId s" and "s2 = closeStore new2 c request reqId2 s1"
  let ?st = "storeHeap s a" let ?k = "st_nextStream (storeHeap s a)" let ?l = "nextListener s"
  let ?opened = "fst (OnAllChanges [] ?st)"
  let ?subscribed = "fst (storeStream_Subscribe ?k (Some (SyncStoreChange ?l)) ?opened)"
  note o = openStore_first[OF assms(1-4), of new c reqId, folded s1_def]
  have wf0: "store_wf ?opened" unfolding OnAllChanges_def by (rule newStoreStream_wf[OF assms(5)])
  have st0: "st_storeStreams ?opened = st_storeStreams ?st" "st_waiters ?opened = st_waiters ?st"
    "?k < st_nextStream ?opened" "ss_handler (st_streams ?opened ?k) = None"
    by (simp_all add: OnAllChanges_def newStoreStream_def Let_def)
  have wf1: "store_wf ?subscribed" using wf0 st0(3) by (rule storeStream_Subscribe_wf)
  have st1: "st_storeStreams ?subscribed = st_storeStreams ?st @ [?k]" "st_waiters ?subscribed = st_waiters ?st"
    "ss_handler (st_streams ?subscribed ?k) = Some (SyncStoreChange ?l)"
    using st0 by (simp_all add: storeStream_Subscribe_def onStreamSubscribe_def set_stream_handler_def)
  have notin: "?k \<notin> set (st_storeStreams ?st)" using assms(5) by (auto simp: store_wf_def)
  have heap1: "storeHeap s1 a = WhenReady (SyncContent (scc_channelName (syncClientHeap s c)) storeId a) ?subscribed" by (rule o(3))
  define sa where "sa = removeChannel ?l (scc_channelName (syncClientHeap s c)) (del_open c storeId s1)"
  have la: "listenerHeap sa ?l = \<lparr>sl_storeStream = ?k, sl_store = a, sl_clientSyncChannels = []\<rparr>"
    "storeHeap sa = storeHeap s1"
    by (simp_all add: sa_def removeChannel_def o(2))
  have s2: "s2 = (listener_unsubscribe ?l sa)\<lparr>syncStoreListeners := (syncStoreListeners sa)(storeId := None)\<rparr>"
    using assms(1,2) by (simp add: s2_def closeStore_def dropChannel_def o(1,4) Let_def listener_isEmpty_def
        sa_def[symmetric] la)
  have heap2: "storeHeap s2 a = onStreamUnsubscribe ?k (set_stream_handler ?k None (storeHeap s1 a))"
    by (simp add: s2 listener_unsubscribe_def la heap1 storeStream_Unsubscribe_def st1(3) WhenReady_def)
  have "distinct (st_storeStreams (set_stream_handler ?k None (storeHeap s1 a)))"
    using wf1 by (simp add: set_stream_handler_def heap1 WhenReady_def store_wf_def)
  from onStreamUnsubscribe_streams(1)[OF this, of ?k] have
    "set (st_storeStreams (storeHeap s2 a)) = set (st_storeStreams ?st)"
    using notin unfolding heap2 by (simp add: set_stream_handler_def heap1 WhenReady_def st1(1))
  then show ?thesis
    unfolding Let_def s1_def[symmetric] s2_def[symmetric]
    using st1 by (simp add: heap1 WhenReady_def o(1) s2)
qed

definition ex_sync_server :: syncBus where
  "ex_sync_server = (init_syncBus ''b'')\<lparr>stores := [''s'' \<mapsto> 0], storeHeap := (\<lambda>_. newStoreObject ''s'' None None),
     syncClientHeap := (\<lambda>_. \<lparr>scc_channelName = ''transport-store-sync.1'', scc_clientRequestListener = None,
       scc_openStores = []\<rparr>)\<rparr>"

theorem sync_open_close_store_witness:
  "syncStoreListeners (closeStore ''n2'' 0 [(''storeId'', GString ''s'')] None
     (openStore ''n1'' 0 [(''storeId'', GString ''s'')] None ex_sync_server)) ''s'' = None"
proof -
  have 1: "getStingProperty ''storeId'' [(''storeId'', GString ''s'')] = (''s'', True)" "''s'' \<noteq> ''''"
    "GetStore ''s'' ex_sync_server = Some 0" "store_wf (storeHeap ex_sync_server 0)"
    by (simp_all add: getStingProperty_def GetStore_def ex_sync_server_def newStoreObject_wf)
  have 2: "syncStoreListeners ex_sync_server ''s'' = None"
    by (simp add: ex_sync_server_def init_syncBus_def txBus.extend_def)
  show ?thesis
    using sync_open_close_store[OF 1(1-3) 2 1(4), of "''n1''" 0 None "''n2''" None] by (simp add: Let_def)
qed

end
