(* ===== verification/StompConn.thy ===== *)
theory StompConn
  imports Frames
begin

text \<open>
  One STOMP session of the server (src/stompserver/stomp\_connection.go), the server's
  configuration (config.go) and the error texts (errors.go). The raw connection is outside the
  model: every write is logged with its outcome, \<^verbatim>\<open>nil\<close> (a heart-beat) included, and the parameter
  \<open>werr\<close> says how a write fails, if it does, after the writes so far. Header lookup is the parameter \<open>contains\<close> and the library's heart-beat parser
  the parameter \<open>parse_hb\<close>. The events for the server are a list, in the order they are sent.
\<close>

subsection \<open>Configuration and errors\<close>

record stompConfig =
  cf_heartbeat :: int
  cf_appDestPrefix :: "string list"

definition NewStompConfig :: "int \<Rightarrow> string list \<Rightarrow> stompConfig" where
  "NewStompConfig heartBeatMs appDestinationPrefix =
     \<lparr>cf_heartbeat = heartBeatMs,
      cf_appDestPrefix = map (\<lambda>p. if p \<noteq> '''' \<and> \<not> HasSuffix p ''/'' then p @ ''/'' else p) appDestinationPrefix\<rparr>"

definition IsAppRequestDestination :: "stompConfig \<Rightarrow> string \<Rightarrow> bool" where
  "IsAppRequestDestination c destination =
     list_ex (\<lambda>prefix. prefix \<noteq> '''' \<and> HasPrefix destination prefix) (cf_appDestPrefix c)"

abbreviation notConnectedStompError :: error where "notConnectedStompError \<equiv> ''not connected''"
abbreviation unexpectedStompCommandError :: error where "unexpectedStompCommandError \<equiv> ''unexpected frame command''"
abbreviation unsupportedStompCommandError :: error where "unsupportedStompCommandError \<equiv> ''unsupported command''"
abbreviation unsupportedStompVersionError :: error where "unsupportedStompVersionError \<equiv> ''unsupported STOMP version''"
abbreviation invalidSubscriptionError :: error where "invalidSubscriptionError \<equiv> ''invalid subscription''"
abbreviation invalidFrameError :: error where "invalidFrameError \<equiv> ''invalid frame''"
abbreviation invalidHeaderError :: error where "invalidHeaderError \<equiv> ''invalid frame header''"
abbreviation invalidSendDestinationError :: error where "invalidSendDestinationError \<equiv> ''invalid send destination''"

subsection \<open>State\<close>

datatype conn_state = connecting | connected | closed

record subscription =
  s_id :: string
  s_destination :: string

record ConnEvent =
  ev_ConnId :: string
  ev_eventType :: StompSessionEventType
  ev_destination :: string
  ev_sub :: "subscription option"
  ev_frame :: "Frame option"

record stompConn =
  con_state :: conn_state
  con_version :: string
  con_readTimeoutMs :: int
  con_writeTimeout :: int
  con_id :: string
  con_config :: stompConfig
  con_subscriptions :: "string \<rightharpoonup> subscription"
  con_currentMessageId :: uint64
  con_closeOnce :: bool
  con_writes :: "(Frame option \<times> error option) list"
  con_rawClosed :: bool
  con_events :: "ConnEvent list"

definition NewStompConn :: "uuid \<Rightarrow> stompConfig \<Rightarrow> stompConn" where
  "NewStompConn new config = \<lparr>con_state = connecting, con_version = '''', con_readTimeoutMs = 0,
     con_writeTimeout = 0, con_id = new, con_config = config, con_subscriptions = Map.empty,
     con_currentMessageId = 0, con_closeOnce = False, con_writes = [], con_rawClosed = False,
     con_events = []\<rparr>"

definition emit :: "StompSessionEventType \<Rightarrow> string \<Rightarrow> subscription option \<Rightarrow> Frame option \<Rightarrow> stompConn \<Rightarrow> stompConn" where
  "emit ty dest sub f conn = conn\<lparr>con_events := con_events conn @ [\<lparr>ev_ConnId = con_id conn,
     ev_eventType = ty, ev_destination = dest, ev_sub = sub, ev_frame = f\<rparr>]\<rparr>"

definition stompConn_Close :: "stompConn \<Rightarrow> stompConn" where
  "stompConn_Close conn =
     (if con_closeOnce conn then conn
      else emit ConnectionClosed '''' None None (conn\<lparr>con_closeOnce := True, con_state := closed, con_rawClosed := True\<rparr>))"

type_synonym werr = "(Frame option \<times> error option) list \<Rightarrow> Frame option \<Rightarrow> error option"

definition WriteFrame :: "werr \<Rightarrow> Frame option \<Rightarrow> stompConn \<Rightarrow> stompConn \<times> error option" where
  "WriteFrame werr f conn =
     (let e = werr (con_writes conn) f in (conn\<lparr>con_writes := con_writes conn @ [(f, e)]\<rparr>, e))"

subsection \<open>Connecting\<close>

definition containsHeader :: "contains \<Rightarrow> Frame \<Rightarrow> string list \<Rightarrow> bool" where
  "containsHeader contains f headers = list_ex (\<lambda>h. contains (f_Header f) h \<noteq> None) headers"

definition determineVersion :: "contains \<Rightarrow> Frame \<Rightarrow> string \<times> error option" where
  "determineVersion contains f =
     (case contains (f_Header f) ''accept-version'' of
        None \<Rightarrow> (''1.0'', None)
      | Some acceptVersion \<Rightarrow>
          (case filter (\<lambda>supported. supported \<in> set (split_on (CHR '','') acceptVersion)) [''1.2'', ''1.1'', ''1.0''] of
             supported # _ \<Rightarrow> (supported, None)
           | [] \<Rightarrow> ('''', Some unsupportedStompVersionError)))"

definition getHeartBeat ::
  "(string \<Rightarrow> (int \<times> int) \<times> error option) \<Rightarrow> contains \<Rightarrow> Frame \<Rightarrow> (int \<times> int) \<times> error option" where
  "getHeartBeat parse_hb contains f =
     (case contains (f_Header f) ''heart-beat'' of
        Some heartBeat \<Rightarrow> parse_hb heartBeat
      | None \<Rightarrow> ((0, 0), None))"

text \<open>
  Durations are 64-bit numbers of nanoseconds; the product with a millisecond wraps. The division
  by a millisecond truncates towards zero.
\<close>

definition wrap64 :: "int \<Rightarrow> int" where
  "wrap64 x = sint (word_of_int x :: int64)"

definition to_ms :: "int \<Rightarrow> int" where
  "to_ms d = sgn d * (\<bar>d\<bar> div 1000000)"

definition minHeartBeat :: "stompConfig \<Rightarrow> int" where
  "minHeartBeat c =
     (let m = wrap64 (cf_heartbeat c * 1000000); mx = 999999999 * 1000000 in if m > mx then mx else m)"

definition applyMinimum :: "int \<Rightarrow> int \<Rightarrow> int" where
  "applyMinimum lo d = (if d > 0 then (if lo = 0 \<or> d < lo then lo else d) else d)"

definition handleConnect ::
  "werr \<Rightarrow> contains \<Rightarrow> (string \<Rightarrow> (int \<times> int) \<times> error option) \<Rightarrow> Frame \<Rightarrow> stompConn \<Rightarrow> stompConn \<times> error option" where
  "handleConnect werr contains parse_hb f conn =
     (if con_state conn = connected then (conn, Some unexpectedStompCommandError)
      else if containsHeader contains f [''receipt''] then (conn, Some invalidHeaderError)
      else case determineVersion contains f of (version, verr) \<Rightarrow>
        (let conn1 = conn\<lparr>con_version := version\<rparr> in
        if verr \<noteq> None then (conn1, verr)
        else if version = ''1.0'' then (conn1, Some unsupportedStompVersionError)
        else case getHeartBeat parse_hb contains f of ((cx, cy), herr) \<Rightarrow>
          (if herr \<noteq> None then (conn1, herr)
          else
            let lo = minHeartBeat (con_config conn);
                cx1 = applyMinimum lo cx; cy1 = applyMinimum lo cy;
                conn2 = conn1\<lparr>con_writeTimeout := cy1, con_readTimeoutMs := to_ms cx1\<rparr>;
                response = frame_New ''CONNECTED'' [(''version'', version), (''server'', ''stompServer/0.0.1''),
                  (''heart-beat'', show_int (to_ms cy1) @ '','' @ show_int (to_ms cx1))]
            in (case WriteFrame werr (Some response) conn2 of
                 (conn3, Some e) \<Rightarrow> (conn3, Some e)
               | (conn3, None) \<Rightarrow>
                   (emit ConnectionEstablished '''' None None (conn3\<lparr>con_state := connected\<rparr>), None)))))"

subsection \<open>Other frames\<close>

text \<open>The receipt header is taken off the frame.\<close>

definition sendReceiptResponse ::
  "werr \<Rightarrow> contains \<Rightarrow> Frame \<Rightarrow> stompConn \<Rightarrow> stompConn \<times> Frame \<times> error option" where
  "sendReceiptResponse werr contains f conn =
     (case contains (f_Header f) ''receipt'' of
        Some receipt \<Rightarrow>
          (case WriteFrame werr (Some (frame_New ''RECEIPT'' [(''receipt-id'', receipt)])) conn of
             (conn', e) \<Rightarrow> (conn', f\<lparr>f_Header := HDel (f_Header f) ''receipt''\<rparr>, e))
      | None \<Rightarrow> (conn, f, None))"

definition handleDisconnect :: "werr \<Rightarrow> contains \<Rightarrow> Frame \<Rightarrow> stompConn \<Rightarrow> stompConn \<times> error option" where
  "handleDisconnect werr contains f conn =
     (if con_state conn = connecting then (conn, Some notConnectedStompError)
      else (stompConn_Close (fst (sendReceiptResponse werr contains f conn)), None))"

definition handleSubscribe :: "contains \<Rightarrow> Frame \<Rightarrow> stompConn \<Rightarrow> stompConn \<times> error option" where
  "handleSubscribe contains f conn =
     (case con_state conn of
        connecting \<Rightarrow> (conn, Some notConnectedStompError)
      | closed \<Rightarrow> (conn, None)
      | connected \<Rightarrow>
          (case contains (f_Header f) ''id'' of
             None \<Rightarrow> (conn, Some invalidSubscriptionError)
           | Some subId \<Rightarrow>
               (case contains (f_Header f) ''destination'' of
                  None \<Rightarrow> (conn, Some invalidFrameError)
                | Some dest \<Rightarrow>
                    if con_subscriptions conn subId \<noteq> None then (conn, None)
                    else
                      let sub = \<lparr>s_id = subId, s_destination = dest\<rparr>
                      in (emit SubscribeToTopic dest (Some sub) (Some f)
                            (conn\<lparr>con_subscriptions := (con_subscriptions conn)(subId \<mapsto> sub)\<rparr>), None))))"

definition handleUnsubscribe :: "werr \<Rightarrow> contains \<Rightarrow> Frame \<Rightarrow> stompConn \<Rightarrow> stompConn \<times> error option" where
  "handleUnsubscribe werr contains f conn =
     (case con_state conn of
        connecting \<Rightarrow> (conn, Some notConnectedStompError)
      | closed \<Rightarrow> (conn, None)
      | connected \<Rightarrow>
          (case contains (f_Header f) ''id'' of
             None \<Rightarrow> (conn, Some invalidSubscriptionError)
           | Some uid \<Rightarrow>
               let conn1 = fst (sendReceiptResponse werr contains f conn) in
               (case con_subscriptions conn1 uid of
                  None \<Rightarrow> (conn1, None)
                | Some sub \<Rightarrow>
                    (emit UnsubscribeFromTopic (s_destination sub) (Some sub) None
                       (conn1\<lparr>con_subscriptions := (con_subscriptions conn1)(uid := None)\<rparr>), None))))"

definition handleSend :: "werr \<Rightarrow> contains \<Rightarrow> Frame \<Rightarrow> stompConn \<Rightarrow> stompConn \<times> error option" where
  "handleSend werr contains f conn =
     (case con_state conn of
        connecting \<Rightarrow> (conn, Some notConnectedStompError)
      | closed \<Rightarrow> (conn, None)
      | connected \<Rightarrow>
          if containsHeader contains f [''transaction''] then (conn, Some unsupportedStompCommandError)
          else (case contains (f_Header f) ''destination'' of
             None \<Rightarrow> (conn, Some invalidFrameError)
           | Some dest \<Rightarrow>
               if \<not> IsAppRequestDestination (con_config conn) (header_Get contains (f_Header f) ''destination'')
               then (conn, Some invalidSendDestinationError)
               else case sendReceiptResponse werr contains f conn of (conn1, f1, e) \<Rightarrow>
                 if e \<noteq> None then (conn1, e)
                 else (emit IncomingMessage dest None (Some (f1\<lparr>f_Command := ''MESSAGE''\<rparr>)) conn1, None)))"

definition handleIncomingFrame ::
  "werr \<Rightarrow> contains \<Rightarrow> (string \<Rightarrow> (int \<times> int) \<times> error option) \<Rightarrow> Frame \<Rightarrow> stompConn \<Rightarrow> stompConn \<times> error option" where
  "handleIncomingFrame werr contains parse_hb f conn =
     (if f_Command f = ''CONNECT'' \<or> f_Command f = ''STOMP'' then handleConnect werr contains parse_hb f conn
      else if f_Command f = ''DISCONNECT'' then handleDisconnect werr contains f conn
      else if f_Command f = ''SEND'' then handleSend werr contains f conn
      else if f_Command f = ''SUBSCRIBE'' then handleSubscribe contains f conn
      else if f_Command f = ''UNSUBSCRIBE'' then handleUnsubscribe werr contains f conn
      else (conn, Some unsupportedStompCommandError))"

subsection \<open>The connection's loop\<close>

definition sendError :: "werr \<Rightarrow> error \<Rightarrow> stompConn \<Rightarrow> stompConn" where
  "sendError werr err conn = fst (WriteFrame werr (Some (frame_New ''ERROR'' [(''message'', err)])) conn)"

definition populateMessageIdHeader :: "Frame \<Rightarrow> stompConn \<Rightarrow> stompConn \<times> Frame" where
  "populateMessageIdHeader f conn =
     (if f_Command f = ''MESSAGE'' then
        let n = con_currentMessageId conn + 1 in
        (conn\<lparr>con_currentMessageId := n\<rparr>,
         f\<lparr>f_Header := HDel (HSet (f_Header f) ''message-id'' (show_nat (unat n))) ''ack''\<rparr>)
      else (conn, f))"

text \<open>
  What the loop receives: a frame to send, a frame from the client, the closing of one of the
  channels, the heart-beat timer (armed exactly when the write time-out is positive), or a \<^verbatim>\<open>Close\<close>
  by the server while the loop waits.
\<close>

datatype loop_input = OutFrame Frame | InFrame Frame | ChannelClosed | HeartBeatDue | ServerCloses

text \<open>One round; the flag says that the loop returns, and then the deferred \<^verbatim>\<open>Close\<close> runs.\<close>

definition run_round ::
  "werr \<Rightarrow> contains \<Rightarrow> (string \<Rightarrow> (int \<times> int) \<times> error option) \<Rightarrow> loop_input \<Rightarrow> stompConn \<Rightarrow> stompConn \<times> bool" where
  "run_round werr contains parse_hb inp conn =
     (if con_state conn = closed then (conn, True)
      else case inp of
        OutFrame f \<Rightarrow>
          (case populateMessageIdHeader f conn of (conn1, f1) \<Rightarrow>
             case WriteFrame werr (Some f1) conn1 of (conn2, err) \<Rightarrow>
               (conn2, err \<noteq> None \<or> f_Command f1 = ''ERROR''))
      | InFrame f \<Rightarrow>
          (case handleIncomingFrame werr contains parse_hb f conn of
             (conn1, Some err) \<Rightarrow> (sendError werr err conn1, True)
           | (conn1, None) \<Rightarrow> (conn1, False))
      | ChannelClosed \<Rightarrow> (conn, True)
      | HeartBeatDue \<Rightarrow>
          (if con_writeTimeout conn > 0
           then (case WriteFrame werr None conn of (conn1, err) \<Rightarrow> (conn1, err \<noteq> None))
           else (conn, False))
      | ServerCloses \<Rightarrow> (stompConn_Close conn, False))"

fun stompConn_run ::
  "werr \<Rightarrow> contains \<Rightarrow> (string \<Rightarrow> (int \<times> int) \<times> error option) \<Rightarrow> loop_input list \<Rightarrow> stompConn \<Rightarrow> stompConn" where
  "stompConn_run werr contains parse_hb [] conn = conn"
| "stompConn_run werr contains parse_hb (inp # inps) conn =
     (case run_round werr contains parse_hb inp conn of
        (conn1, True) \<Rightarrow> stompConn_Close conn1
      | (conn1, False) \<Rightarrow> stompConn_run werr contains parse_hb inps conn1)"

text \<open>
  The reader: what each read of the raw connection returns, with the read time-out in force at
  that moment. The result is the list of deadlines set (None: no deadline) and the frames passed
  on before the channel is closed by the first error.
\<close>

datatype raw_read = ReadError | ReadHeartBeat | ReadFrame Frame

fun readInFrames :: "(int \<times> raw_read) list \<Rightarrow> int option list \<times> loop_input list" where
  "readInFrames [] = ([], [])"
| "readInFrames ((readTimeoutMs, r) # rs) =
     (let deadline = (if readTimeoutMs > 0 then Some readTimeoutMs else None) in
      case r of
        ReadError \<Rightarrow> ([deadline], [ChannelClosed])
      | ReadHeartBeat \<Rightarrow> (case readInFrames rs of (ds, out) \<Rightarrow> (deadline # ds, out))
      | ReadFrame f \<Rightarrow> (case readInFrames rs of (ds, out) \<Rightarrow> (deadline # ds, InFrame f # out)))"

text \<open>\<^verbatim>\<open>SendFrameToSubscription\<close> adds the subscription's id to the frame it queues.\<close>

definition addressed :: "Frame \<Rightarrow> subscription \<Rightarrow> Frame" where
  "addressed f sub = f\<lparr>f_Header := HAdd (f_Header f) ''subscription'' (s_id sub)\<rparr>"

end
