(* ===== verification/StompServer.thy ===== *)
theory StompServer
  imports StompConn
begin

text \<open>
  The STOMP server (src/stompserver/server.go). A connection is referred to by its id; the heap
  \<open>sv_conns\<close> holds its state, \<open>sv_outFrames\<close> its queue of outgoing frames (a Go channel of 32).
  The server's queues are Go channels of 64 connection events and 32 API events: a send on a full
  channel is \<open>Block\<close>. Callbacks are numbers, and every call of one is recorded in \<open>sv_calls\<close>.
  The goroutines are the operations below: \<open>server_handle\<close> (one round of \<^verbatim>\<open>run\<close>),
  \<open>acceptConnection\<close> and \<open>announceConnection\<close> (the two halves of a round of
  \<^verbatim>\<open>waitForConnections\<close>), and \<open>conn_round\<close> (one round of a connection's loop).
\<close>

subsection \<open>State\<close>

datatype apiEvent =
  closeServer
| sendMessage string Frame
| sendPrivateMessage uuid string Frame

datatype server_call =
  SubscribeCall nat uuid string string "Frame option"
| UnsubscribeCall nat uuid string string
| AppRequestCall nat string bytes uuid
| ConnEventCall nat ConnEvent

type_synonym connSubscriptions = "(string \<times> subscription) list"
type_synonym subsTable = "(string \<times> (uuid \<times> connSubscriptions) list) list"

record stompServer =
  sv_config :: stompConfig
  sv_running :: bool
  sv_listenerClosed :: bool
  sv_finished :: bool
  sv_connectionEvents :: "ConnEvent list"
  sv_apiEvents :: "apiEvent list"
  sv_connectionsMap :: "uuid list"
  sv_subscriptionsMap :: subsTable
  sv_subscribeCallbacks :: "nat list"
  sv_unsubscribeCallbacks :: "nat list"
  sv_applicationRequestCallbacks :: "nat list"
  sv_connectionEventCallbacks :: "StompSessionEventType \<rightharpoonup> nat"
  sv_calls :: "server_call list"
  sv_accepted :: "uuid list"
  sv_starting :: "uuid option"
  sv_conns :: "uuid \<Rightarrow> stompConn"
  sv_outFrames :: "uuid \<Rightarrow> Frame list"

definition NewStompServer :: "stompConfig \<Rightarrow> stompServer" where
  "NewStompServer config = \<lparr>sv_config = config, sv_running = False, sv_listenerClosed = False,
     sv_finished = False, sv_connectionEvents = [], sv_apiEvents = [], sv_connectionsMap = [],
     sv_subscriptionsMap = [], sv_subscribeCallbacks = [], sv_unsubscribeCallbacks = [],
     sv_applicationRequestCallbacks = [], sv_connectionEventCallbacks = Map.empty, sv_calls = [],
     sv_accepted = [], sv_starting = None, sv_conns = (\<lambda>i. NewStompConn i config), sv_outFrames = (\<lambda>_. [])\<rparr>"

subsection \<open>Callbacks and API calls\<close>

definition OnSubscribeEvent :: "nat \<Rightarrow> stompServer \<Rightarrow> stompServer" where
  "OnSubscribeEvent callback s = s\<lparr>sv_subscribeCallbacks := sv_subscribeCallbacks s @ [callback]\<rparr>"

definition OnUnsubscribeEvent :: "nat \<Rightarrow> stompServer \<Rightarrow> stompServer" where
  "OnUnsubscribeEvent callback s = s\<lparr>sv_unsubscribeCallbacks := sv_unsubscribeCallbacks s @ [callback]\<rparr>"

definition OnApplicationRequest :: "nat \<Rightarrow> stompServer \<Rightarrow> stompServer" where
  "OnApplicationRequest callback s =
     s\<lparr>sv_applicationRequestCallbacks := sv_applicationRequestCallbacks s @ [callback]\<rparr>"

definition SetConnectionEventCallback :: "StompSessionEventType \<Rightarrow> nat \<Rightarrow> stompServer \<Rightarrow> stompServer" where
  "SetConnectionEventCallback connEventType cb s =
     s\<lparr>sv_connectionEventCallbacks := (sv_connectionEventCallbacks s)(connEventType \<mapsto> cb)\<rparr>"

definition push_api :: "apiEvent \<Rightarrow> stompServer \<Rightarrow> stompServer go" where
  "push_api e s =
     (if length (sv_apiEvents s) < 32 then Done (s\<lparr>sv_apiEvents := sv_apiEvents s @ [e]\<rparr>) else Block)"

definition message_frame :: "string \<Rightarrow> bytes \<Rightarrow> Frame" where
  "message_frame destination messageBody =
     (frame_New ''MESSAGE'' [(''destination'', destination), (''content-length'', show_nat (length messageBody)),
        (''content-type'', ''application/json;charset=UTF-8'')])\<lparr>f_Body := messageBody\<rparr>"

definition SendMessage :: "string \<Rightarrow> bytes \<Rightarrow> stompServer \<Rightarrow> stompServer go" where
  "SendMessage destination messageBody s =
     push_api (sendMessage destination (message_frame destination messageBody)) s"

definition SendMessageToClient :: "uuid \<Rightarrow> string \<Rightarrow> bytes \<Rightarrow> stompServer \<Rightarrow> stompServer go" where
  "SendMessageToClient connectionId destination messageBody s =
     push_api (sendPrivateMessage connectionId destination (message_frame destination messageBody)) s"

definition server_Start :: "stompServer \<Rightarrow> stompServer" where
  "server_Start s = (if sv_running s then s else s\<lparr>sv_running := True\<rparr>)"

definition server_Stop :: "stompServer \<Rightarrow> stompServer go" where
  "server_Stop s = (if sv_running s then push_api closeServer (s\<lparr>sv_running := False\<rparr>) else Done s)"

subsection \<open>Connections\<close>

definition push_event :: "ConnEvent \<Rightarrow> stompServer \<Rightarrow> stompServer go" where
  "push_event e s =
     (if length (sv_connectionEvents s) < 64 then Done (s\<lparr>sv_connectionEvents := sv_connectionEvents s @ [e]\<rparr>)
      else Block)"

text \<open>The events a connection's operation has produced go to the server's queue, in order.\<close>

fun push_events :: "ConnEvent list \<Rightarrow> stompServer \<Rightarrow> stompServer go" where
  "push_events [] s = Done s"
| "push_events (e # es) s = go_bind (push_event e s) (push_events es)"

definition post :: "uuid \<Rightarrow> stompConn \<Rightarrow> stompServer \<Rightarrow> stompServer go" where
  "post c conn s =
     push_events (drop (length (con_events (sv_conns s c))) (con_events conn))
       (s\<lparr>sv_conns := (sv_conns s)(c := conn)\<rparr>)"

definition closeConnection :: "uuid \<Rightarrow> stompServer \<Rightarrow> stompServer go" where
  "closeConnection c s = post c (stompConn_Close (sv_conns s c)) s"

text \<open>
  \<^verbatim>\<open>NewStompConn\<close> starts the connection's goroutines before \<^verbatim>\<open>waitForConnections\<close> announces it.
\<close>

definition acceptConnection :: "uuid \<Rightarrow> stompServer \<Rightarrow> stompServer" where
  "acceptConnection new s =
     (if sv_listenerClosed s \<or> sv_starting s \<noteq> None then s
      else s\<lparr>sv_accepted := sv_accepted s @ [new], sv_starting := Some new,
        sv_conns := (sv_conns s)(new := NewStompConn new (sv_config s)), sv_outFrames := (sv_outFrames s)(new := [])\<rparr>)"

definition announceConnection :: "stompServer \<Rightarrow> stompServer go" where
  "announceConnection s =
     (case sv_starting s of
        None \<Rightarrow> Done s
      | Some c \<Rightarrow> push_event \<lparr>ev_ConnId = c, ev_eventType = ConnectionStarting, ev_destination = '''', ev_sub = None,
                    ev_frame = None\<rparr> (s\<lparr>sv_starting := None\<rparr>))"

text \<open>
  One round of a connection's loop; for an outgoing frame the head of its queue is taken. A \<^verbatim>\<open>Close\<close> by
  the server takes effect at the next check of the state, after which there are no more rounds.
\<close>

datatype conn_input = TakeOut | FromClient Frame | ReaderDone | TimerFired

definition conn_round ::
  "werr \<Rightarrow> contains \<Rightarrow> (string \<Rightarrow> (int \<times> int) \<times> error option) \<Rightarrow> uuid \<Rightarrow> conn_input \<Rightarrow> stompServer \<Rightarrow> stompServer go" where
  "conn_round werr contains parse_hb c inp s =
     (let finish = (\<lambda>i s1. case run_round werr contains parse_hb i (sv_conns s c) of
                       (conn, True) \<Rightarrow> post c (stompConn_Close conn) s1
                     | (conn, False) \<Rightarrow> post c conn s1)
      in if con_state (sv_conns s c) = closed then Done s
         else case inp of
           TakeOut \<Rightarrow>
             (case sv_outFrames s c of
                [] \<Rightarrow> Done s
              | f # fs \<Rightarrow> finish (OutFrame f) (s\<lparr>sv_outFrames := (sv_outFrames s)(c := fs)\<rparr>))
         | FromClient f \<Rightarrow> finish (InFrame f) s
         | ReaderDone \<Rightarrow> finish ChannelClosed s
         | TimerFired \<Rightarrow> finish HeartBeatDue s)"

subsection \<open>Sending to subscribers\<close>

definition SendFrameToSubscription :: "uuid \<Rightarrow> Frame \<Rightarrow> subscription \<Rightarrow> stompServer \<Rightarrow> stompServer go" where
  "SendFrameToSubscription c f sub s =
     (if length (sv_outFrames s c) < 32
      then Done (s\<lparr>sv_outFrames := (sv_outFrames s)(c := sv_outFrames s c @ [addressed f sub])\<rparr>)
      else Block)"

fun send_to_subs :: "uuid \<Rightarrow> Frame \<Rightarrow> connSubscriptions \<Rightarrow> stompServer \<Rightarrow> stompServer go" where
  "send_to_subs c f [] s = Done s"
| "send_to_subs c f ((_, sub) # subs) s = go_bind (SendFrameToSubscription c f sub s) (send_to_subs c f subs)"

fun send_to_conns :: "Frame \<Rightarrow> (uuid \<times> connSubscriptions) list \<Rightarrow> stompServer \<Rightarrow> stompServer go" where
  "send_to_conns f [] s = Done s"
| "send_to_conns f ((c, subs) # cs) s = go_bind (send_to_subs c f subs s) (send_to_conns f cs)"

definition sendFrame :: "string \<Rightarrow> Frame \<Rightarrow> stompServer \<Rightarrow> stompServer go" where
  "sendFrame dest f s =
     (case map_of (sv_subscriptionsMap s) dest of None \<Rightarrow> Done s | Some subsMap \<Rightarrow> send_to_conns f subsMap s)"

definition sendFrameToClient :: "uuid \<Rightarrow> string \<Rightarrow> Frame \<Rightarrow> stompServer \<Rightarrow> stompServer go" where
  "sendFrameToClient conId dest f s =
     (case map_of (sv_subscriptionsMap s) dest of
        None \<Rightarrow> Done s
      | Some subsMap \<Rightarrow> (case map_of subsMap conId of None \<Rightarrow> Done s | Some subs \<Rightarrow> send_to_subs conId f subs s))"

subsection \<open>Connection events\<close>

definition record_calls :: "server_call list \<Rightarrow> stompServer \<Rightarrow> stompServer" where
  "record_calls cs s = s\<lparr>sv_calls := sv_calls s @ cs\<rparr>"

definition notify_event :: "ConnEvent \<Rightarrow> stompServer \<Rightarrow> stompServer" where
  "notify_event e s =
     (case sv_connectionEventCallbacks s (ev_eventType e) of
        None \<Rightarrow> s | Some fn \<Rightarrow> record_calls [ConnEventCall fn e] s)"

text \<open>Closing a connection: its entry is taken from every destination, and every subscription in it is reported.\<close>

definition dropped :: "uuid \<Rightarrow> subsTable \<Rightarrow> subscription list" where
  "dropped c t = concat (map (\<lambda>(dest, subsMap). case map_of subsMap c of None \<Rightarrow> [] | Some subs \<Rightarrow> map snd subs) t)"

definition connectionClosed :: "ConnEvent \<Rightarrow> stompServer \<Rightarrow> stompServer" where
  "connectionClosed e s =
     (let c = ev_ConnId e in
      record_calls
        (concat (map (\<lambda>sub. map (\<lambda>cb. UnsubscribeCall cb c (s_id sub) (s_destination sub)) (sv_unsubscribeCallbacks s))
           (dropped c (sv_subscriptionsMap s))))
        (s\<lparr>sv_connectionsMap := removeAll c (sv_connectionsMap s),
           sv_subscriptionsMap := map (\<lambda>(dest, subsMap). (dest, AList.delete c subsMap)) (sv_subscriptionsMap s)\<rparr>))"

definition subscribeToTopic :: "ConnEvent \<Rightarrow> subscription \<Rightarrow> stompServer \<Rightarrow> stompServer" where
  "subscribeToTopic e sub s =
     (let c = ev_ConnId e; dest = ev_destination e;
          subsMap = (case map_of (sv_subscriptionsMap s) dest of None \<Rightarrow> [] | Some m \<Rightarrow> m);
          conSub = (case map_of subsMap c of None \<Rightarrow> [] | Some m \<Rightarrow> m)
      in record_calls (map (\<lambda>cb. SubscribeCall cb c (s_id sub) dest (ev_frame e)) (sv_subscribeCallbacks s))
           (s\<lparr>sv_subscriptionsMap :=
                AList.update dest (AList.update c (AList.update (s_id sub) sub conSub) subsMap) (sv_subscriptionsMap s)\<rparr>))"

definition unsubscribeFromTopic :: "ConnEvent \<Rightarrow> stompServer \<Rightarrow> stompServer go" where
  "unsubscribeFromTopic e s =
     (let c = ev_ConnId e; dest = ev_destination e in
      case map_of (sv_subscriptionsMap s) dest of
        None \<Rightarrow> Done s
      | Some subs \<Rightarrow>
          (case map_of subs c of
             None \<Rightarrow> Done s
           | Some conSub \<Rightarrow>
               (case ev_sub e of
                  None \<Rightarrow> Panic ''nil pointer dereference''
                | Some sub \<Rightarrow>
                    if map_of conSub (s_id sub) = None then Done s
                    else Done (record_calls (map (\<lambda>cb. UnsubscribeCall cb c (s_id sub) dest) (sv_unsubscribeCallbacks s))
                      (s\<lparr>sv_subscriptionsMap :=
                           AList.update dest (AList.update c (AList.delete (s_id sub) conSub) subs) (sv_subscriptionsMap s)\<rparr>)))))"

definition incomingMessage :: "ConnEvent \<Rightarrow> stompServer \<Rightarrow> stompServer go" where
  "incomingMessage e s =
     (if IsAppRequestDestination (sv_config s) (ev_destination e) \<and> sv_applicationRequestCallbacks s \<noteq> [] then
        (case ev_frame e of
           None \<Rightarrow> Panic ''nil pointer dereference''
         | Some f \<Rightarrow> Done (record_calls
             (map (\<lambda>cb. AppRequestCall cb (ev_destination e) (f_Body f) (ev_ConnId e)) (sv_applicationRequestCallbacks s)) s))
      else Done s)"

definition handleConnectionEvent :: "ConnEvent \<Rightarrow> stompServer \<Rightarrow> stompServer go" where
  "handleConnectionEvent e s =
     (case ev_eventType e of
        ConnectionStarting \<Rightarrow>
          Done (notify_event e (s\<lparr>sv_connectionsMap := List.insert (ev_ConnId e) (sv_connectionsMap s)\<rparr>))
      | ConnectionEstablished \<Rightarrow> Done s
      | ConnectionClosed \<Rightarrow> Done (notify_event e (connectionClosed e s))
      | SubscribeToTopic \<Rightarrow>
          (case ev_sub e of
             None \<Rightarrow> Panic ''nil pointer dereference''
           | Some sub \<Rightarrow> Done (notify_event e (subscribeToTopic e sub s)))
      | UnsubscribeFromTopic \<Rightarrow> go_map (notify_event e) (unsubscribeFromTopic e s)
      | IncomingMessage \<Rightarrow> go_map (notify_event e) (incomingMessage e s))"

subsection \<open>The server's loop\<close>

fun close_all :: "uuid list \<Rightarrow> stompServer \<Rightarrow> stompServer go" where
  "close_all [] s = Done s"
| "close_all (c # cs) s = go_bind (closeConnection c s) (close_all cs)"

definition handleApiEvent :: "apiEvent \<Rightarrow> stompServer \<Rightarrow> stompServer go" where
  "handleApiEvent e s =
     (case e of
        closeServer \<Rightarrow>
          go_map (\<lambda>s. s\<lparr>sv_connectionsMap := [], sv_finished := True\<rparr>)
            (close_all (sv_connectionsMap s) (s\<lparr>sv_listenerClosed := True\<rparr>))
      | sendMessage dest f \<Rightarrow> sendFrame dest f s
      | sendPrivateMessage connId dest f \<Rightarrow> sendFrameToClient connId dest f s)"

text \<open>One round of \<^verbatim>\<open>run\<close>: the flag says which of the two channels the \<^verbatim>\<open>select\<close> receives from.\<close>

definition server_run :: "bool \<Rightarrow> stompServer \<Rightarrow> stompServer go" where
  "server_run api s =
     (if sv_finished s then Done s
      else if api then
        (case sv_apiEvents s of [] \<Rightarrow> Done s | e # es \<Rightarrow> handleApiEvent e (s\<lparr>sv_apiEvents := es\<rparr>))
      else
        (case sv_connectionEvents s of [] \<Rightarrow> Done s | e # es \<Rightarrow> handleConnectionEvent e (s\<lparr>sv_connectionEvents := es\<rparr>)))"

end
