(* ===== verification/SharedResource.thy ===== *)
theory SharedResource
  imports Prelude
begin

text \<open>
  The contract of a resource that is opened for its first user and closed after its last: the
  streams of the fabric endpoint (src/bus/fabric\_endpoint.go), one per channel and shared by the
  subscriptions of clients. A user names the resource through a key (a destination); the same
  resource may have several keys.
\<close>

datatype ('x, 'd, 'u) use_op = Acquire 'x 'd 'u | Release 'd 'u

text \<open>The reference: which users each resource has.\<close>

fun use_apply :: "('d \<Rightarrow> 'n option) \<Rightarrow> ('u \<Rightarrow> 't) \<Rightarrow> ('x, 'd, 'u) use_op \<Rightarrow> ('n \<Rightarrow> 't set) \<Rightarrow> 'n \<Rightarrow> 't set" where
  "use_apply key tag (Acquire x d u) A n = (if key d = Some n then insert (tag u) (A n) else A n)"
| "use_apply key tag (Release d u) A n = (if key d = Some n then A n - {tag u} else A n)"

locale shared_resource =
  fixes users :: "'s \<Rightarrow> 'n \<Rightarrow> 't set"
    and held :: "'n \<Rightarrow> 's \<Rightarrow> bool"
    and acquire :: "'x \<Rightarrow> 'd \<Rightarrow> 'u \<Rightarrow> 's \<Rightarrow> 's"
    and release :: "'d \<Rightarrow> 'u \<Rightarrow> 's \<Rightarrow> 's"
    and key :: "'d \<Rightarrow> 'n option"
    and tag :: "'u \<Rightarrow> 't"
    and fresh :: "'x \<Rightarrow> 's \<Rightarrow> bool"
    and inv :: "'s \<Rightarrow> bool"
  assumes inv_acquire: "inv s \<Longrightarrow> fresh x s \<Longrightarrow> inv (acquire x d u s)"
    and inv_release: "inv s \<Longrightarrow> inv (release d u s)"
    and users_acquire: "inv s \<Longrightarrow> fresh x s \<Longrightarrow> users (acquire x d u s) = use_apply key tag (Acquire x d u) (users s)"
    and users_release: "inv s \<Longrightarrow> users (release d u s) = use_apply key tag (Release d u :: ('x, 'd, 'u) use_op) (users s)"
    and held_iff: "inv s \<Longrightarrow> held n s \<longleftrightarrow> users s n \<noteq> {}"
begin

fun run_op :: "('x, 'd, 'u) use_op \<Rightarrow> 's \<Rightarrow> 's" where
  "run_op (Acquire x d u) s = acquire x d u s"
| "run_op (Release d u) s = release d u s"

fun fresh_ops :: "('x, 'd, 'u) use_op list \<Rightarrow> 's \<Rightarrow> bool" where
  "fresh_ops [] s = True"
| "fresh_ops (Acquire x d u # ops) s = (fresh x s \<and> fresh_ops ops (acquire x d u s))"
| "fresh_ops (Release d u # ops) s = fresh_ops ops (release d u s)"

lemma refines_users:
  "inv s \<Longrightarrow> fresh_ops ops s \<Longrightarrow>
     inv (fold run_op ops s) \<and> users (fold run_op ops s) = fold (use_apply key tag) ops (users s)"
proof (induction ops arbitrary: s)
  case (Cons p ops)
  show ?case
  proof (cases p)
    case (Acquire x d u)
    with Cons.prems have fr: "fresh x s" by simp
    show ?thesis
      using Cons.IH[OF inv_acquire[OF Cons.prems(1) fr, of d u]] Cons.prems Acquire users_acquire[OF Cons.prems(1) fr]
      by (simp del: use_apply.simps)
  next
    case (Release d u)
    show ?thesis
      using Cons.IH[OF inv_release[OF Cons.prems(1), of d u]] Cons.prems Release users_release[OF Cons.prems(1)]
      by (simp del: use_apply.simps)
  qed
qed simp

lemma held_after:
  "inv s \<Longrightarrow> fresh_ops ops s \<Longrightarrow> held n (fold run_op ops s) \<longleftrightarrow> fold (use_apply key tag) ops (users s) n \<noteq> {}"
  using refines_users[of s ops] held_iff[of "fold run_op ops s" n] by simp

end

end
