(* ===== verification/FabricEndpoint.thy ===== *)
theory FabricEndpoint
  imports StoreSync StompServer SharedResource
begin

text \<open>
  The fabric endpoint (src/bus/fabric\_endpoint.go): it connects the STOMP server to the bus. For
  every channel that clients subscribe to it keeps one stream on the bus, shared by their
  subscriptions; requests of clients become messages on the bus, and messages of the bus are sent
  to the subscribers. Endpoints are in a heap, since the handlers they give to the bus keep
  pointing to them. \<open>unmarshal\<close> (a request from JSON) and \<open>marshal\<close> (a payload to JSON) are the
  codec. The server's callbacks are numbers; the endpoint registers itself as number 0.
\<close>

subsection \<open>Configuration\<close>

record EndpointConfig =
  ec_TopicPrefix :: string
  ec_UserQueuePrefix :: string
  ec_AppRequestPrefix :: string
  ec_AppRequestQueuePrefix :: string
  ec_Heartbeat :: int

definition validate :: "EndpointConfig \<Rightarrow> error option" where
  "validate ec =
     (if ec_TopicPrefix ec = '''' \<or> \<not> HasPrefix (ec_TopicPrefix ec) ''/'' then Some ''invalid TopicPrefix''
      else if ec_AppRequestQueuePrefix ec \<noteq> '''' \<and> ec_UserQueuePrefix ec = '''' then Some ''missing UserQueuePrefix''
      else None)"

definition addPrefixIfNotEmpty :: "string \<Rightarrow> string \<Rightarrow> string" where
  "addPrefixIfNotEmpty s prefix = (if s \<noteq> '''' \<and> \<not> HasSuffix s prefix then s @ prefix else s)"

subsection \<open>State\<close>

record channelMapping =
  cm_subs :: "string list"
  cm_handler :: addr
  cm_autoCreated :: bool

record fabricEndpoint =
  fe_server :: stompServer
  fe_config :: EndpointConfig
  fe_chanMappings :: "string \<rightharpoonup> channelMapping"

record fabBus = syncBus +
  feHeap :: "addr \<Rightarrow> fabricEndpoint"
  nextFe :: addr
  fabEndpoint :: "addr option"
  initStoreSync :: bool

definition upd_fe :: "addr \<Rightarrow> (fabricEndpoint \<Rightarrow> fabricEndpoint) \<Rightarrow> 'b fabBus_scheme \<Rightarrow> 'b fabBus_scheme" where
  "upd_fe e f s = s\<lparr>feHeap := (feHeap s)(e := f (feHeap s e))\<rparr>"

abbreviation STOMP_SESSION_NOTIFY_CHANNEL :: string where
  "STOMP_SESSION_NOTIFY_CHANNEL \<equiv> ''_transportInternal/stomp-session-notify''"

definition initHandlers :: "fabricEndpoint \<Rightarrow> fabricEndpoint" where
  "initHandlers fe = fe\<lparr>fe_server :=
     OnUnsubscribeEvent 0 (OnSubscribeEvent 0 (OnApplicationRequest 0 (fe_server fe)))\<rparr>"

definition slashed :: "EndpointConfig \<Rightarrow> EndpointConfig" where
  "slashed config = config
     \<lparr>ec_TopicPrefix := addPrefixIfNotEmpty (ec_TopicPrefix config) ''/'',
      ec_AppRequestPrefix := addPrefixIfNotEmpty (ec_AppRequestPrefix config) ''/'',
      ec_AppRequestQueuePrefix := addPrefixIfNotEmpty (ec_AppRequestQueuePrefix config) ''/'',
      ec_UserQueuePrefix := addPrefixIfNotEmpty (ec_UserQueuePrefix config) ''/''\<rparr>"

definition newFabricEndpoint :: "EndpointConfig \<Rightarrow> fabricEndpoint" where
  "newFabricEndpoint config0 =
     (let config = slashed config0;
          stompConf = NewStompConfig (ec_Heartbeat config) [ec_AppRequestPrefix config, ec_AppRequestQueuePrefix config]
      in initHandlers \<lparr>fe_server = NewStompServer stompConf, fe_config = config, fe_chanMappings = Map.empty\<rparr>)"

definition ep_Start :: "fabricEndpoint \<Rightarrow> fabricEndpoint" where
  "ep_Start fe = fe\<lparr>fe_server := server_Start
     (SetConnectionEventCallback UnsubscribeFromTopic 0
       (SetConnectionEventCallback ConnectionClosed 0
         (SetConnectionEventCallback ConnectionStarting 0 (fe_server fe))))\<rparr>"

definition ep_Stop :: "fabricEndpoint \<Rightarrow> fabricEndpoint go" where
  "ep_Stop fe = go_map (\<lambda>sv. fe\<lparr>fe_server := sv\<rparr>) (server_Stop (fe_server fe))"

subsection \<open>Destinations\<close>

definition getChannelNameFromSubscription :: "EndpointConfig \<Rightarrow> string \<Rightarrow> string option" where
  "getChannelNameFromSubscription config destination =
     (if HasPrefix destination (ec_TopicPrefix config) then Some (drop (length (ec_TopicPrefix config)) destination)
      else if ec_UserQueuePrefix config \<noteq> '''' \<and> HasPrefix destination (ec_UserQueuePrefix config)
      then Some (drop (length (ec_UserQueuePrefix config)) destination)
      else None)"

definition isProtectedDestination :: "string \<Rightarrow> bool" where
  "isProtectedDestination destination \<longleftrightarrow> HasPrefix destination ''_transportInternal/''"

subsection \<open>Subscriptions\<close>

definition mapping_id :: "uuid \<Rightarrow> string \<Rightarrow> string" where
  "mapping_id conId subId = conId @ ''#'' @ subId"

text \<open>
  The stream for a channel's first subscription: the channel is created when it does not exist.
  None: it cannot be created.
\<close>

definition openStream ::
  "uuid \<Rightarrow> uuid \<Rightarrow> addr \<Rightarrow> string \<Rightarrow> string \<Rightarrow> 'b fabBus_scheme \<Rightarrow> 'b fabBus_scheme \<times> channelMapping option" where
  "openStream newH newS e channelName destination s =
     (let (s1, r) = ListenStream newH channelName s;
          (s2, r2, autoCreated) =
            (case r of
               Inr h \<Rightarrow> (s1, Inr h, False)
             | Inl _ \<Rightarrow>
                 (case ListenStream newH channelName (fst (CreateChannel channelName s1)) of (t, r') \<Rightarrow> (t, r', True)))
      in case r2 of
           Inl _ \<Rightarrow> (s2, None)
         | Inr h \<Rightarrow>
             (Handle newS h (Some (FabricSend e channelName)) (Some (FabricError e destination)) s2,
              Some \<lparr>cm_subs = [], cm_handler = h, cm_autoCreated = autoCreated\<rparr>))"

definition addSubscription ::
  "uuid \<Rightarrow> uuid \<Rightarrow> addr \<Rightarrow> uuid \<Rightarrow> string \<Rightarrow> string \<Rightarrow> 'b fabBus_scheme \<Rightarrow> 'b fabBus_scheme" where
  "addSubscription newH newS e conId subId destination s =
     (case getChannelNameFromSubscription (fe_config (feHeap s e)) destination of
        None \<Rightarrow> s
      | Some channelName \<Rightarrow>
          if isProtectedDestination channelName then s
          else
            (let (s1, cm) = (case fe_chanMappings (feHeap s e) channelName of
                              Some chanMap \<Rightarrow> (s, Some chanMap)
                            | None \<Rightarrow> openStream newH newS e channelName destination s)
             in (case cm of
                  None \<Rightarrow> s1
                | Some chanMap \<Rightarrow>
                    let chanMap' = chanMap\<lparr>cm_subs := List.insert (mapping_id conId subId) (cm_subs chanMap)\<rparr>
                    in SendMonitorEvent FabricEndpointSubscribeEvt channelName None
                         (upd_fe e (\<lambda>fe. fe\<lparr>fe_chanMappings := (fe_chanMappings fe)(channelName \<mapsto> chanMap')\<rparr>) s1))))"

definition removeSubscription ::
  "addr \<Rightarrow> uuid \<Rightarrow> string \<Rightarrow> string \<Rightarrow> 'b fabBus_scheme \<Rightarrow> 'b fabBus_scheme go" where
  "removeSubscription e conId subId destination s =
     (case getChannelNameFromSubscription (fe_config (feHeap s e)) destination of
        None \<Rightarrow> Done s
      | Some channelName \<Rightarrow>
          (case fe_chanMappings (feHeap s e) channelName of
             None \<Rightarrow> Done s
           | Some chanMap \<Rightarrow>
               let mappingId = mapping_id conId subId in
               if mappingId \<in> set (cm_subs chanMap) then
                 let subs = removeAll mappingId (cm_subs chanMap) in
                 go_map (SendMonitorEvent FabricEndpointUnsubscribeEvt channelName None)
                   (if subs = [] then
                      go_map (\<lambda>s1.
                          let s2 = upd_fe e (\<lambda>fe. fe\<lparr>fe_chanMappings := (fe_chanMappings fe)(channelName := None)\<rparr>) s1
                          in if cm_autoCreated chanMap then DestroyChannel channelName s2 else s2)
                        (MessageHandler_Close (cm_handler chanMap) s)
                    else Done (upd_fe e (\<lambda>fe. fe\<lparr>fe_chanMappings :=
                           (fe_chanMappings fe)(channelName \<mapsto> chanMap\<lparr>cm_subs := subs\<rparr>)\<rparr>) s))
               else Done s))"

subsection \<open>Messages\<close>

definition convertPayloadToResponseObj :: "Message \<Rightarrow> gval Response option" where
  "convertPayloadToResponseObj message =
     (case msg_Payload message of GResponse r \<Rightarrow> Some r | GResponsePtr r \<Rightarrow> Some r | _ \<Rightarrow> None)"

definition marshalMessagePayload :: "(gval \<Rightarrow> error + bytes) \<Rightarrow> Message \<Rightarrow> error + bytes" where
  "marshalMessagePayload marshal message =
     (case msg_Payload message of GString b \<Rightarrow> Inr b | GBytes b \<Rightarrow> Inr b | p \<Rightarrow> marshal p)"

text \<open>The success handler of a channel's stream.\<close>

definition fabricSend ::
  "(gval \<Rightarrow> error + bytes) \<Rightarrow> string \<Rightarrow> Message \<Rightarrow> fabricEndpoint \<Rightarrow> fabricEndpoint go" where
  "fabricSend marshal channelName message fe =
     (case marshalMessagePayload marshal message of
        Inl _ \<Rightarrow> Done fe
      | Inr data \<Rightarrow>
          go_map (\<lambda>sv. fe\<lparr>fe_server := sv\<rparr>)
            (case convertPayloadToResponseObj message of
               Some resp \<Rightarrow>
                 (case resp_BrokerDestination resp of
                    Some d \<Rightarrow> SendMessageToClient (bd_ConnectionId d) (bd_Destination d) data (fe_server fe)
                  | None \<Rightarrow> SendMessage (ec_TopicPrefix (fe_config fe) @ channelName) data (fe_server fe))
             | None \<Rightarrow> SendMessage (ec_TopicPrefix (fe_config fe) @ channelName) data (fe_server fe)))"

text \<open>Its error handler; calling \<^verbatim>\<open>Error()\<close> on a nil error panics.\<close>

definition fabricError :: "string \<Rightarrow> error option \<Rightarrow> fabricEndpoint \<Rightarrow> fabricEndpoint go" where
  "fabricError destination err fe =
     (case err of
        None \<Rightarrow> Panic ''nil pointer dereference''
      | Some m \<Rightarrow> go_map (\<lambda>sv. fe\<lparr>fe_server := sv\<rparr>) (SendMessage destination m (fe_server fe)))"

definition bridgeMessage ::
  "(bytes \<Rightarrow> error + gval Request) \<Rightarrow> uuid \<Rightarrow> addr \<Rightarrow> string \<Rightarrow> bytes \<Rightarrow> uuid \<Rightarrow> 'b fabBus_scheme \<Rightarrow> 'b fabBus_scheme" where
  "bridgeMessage unmarshal new e destination message connectionId s =
     (let config = fe_config (feHeap s e);
          queue = ec_AppRequestQueuePrefix config; app = ec_AppRequestPrefix config;
          target =
            (if queue \<noteq> '''' \<and> HasPrefix destination queue then Some (drop (length queue) destination, True)
             else if app \<noteq> '''' \<and> HasPrefix destination app then Some (drop (length app) destination, False)
             else None)
      in case target of
           None \<Rightarrow> s
         | Some (channelName, isPrivateRequest) \<Rightarrow>
             (case unmarshal message of
                Inl _ \<Rightarrow> s
              | Inr req0 \<Rightarrow>
                  let req = (if isPrivateRequest
                             then set_req_BrokerDestination (Some (BrokerDestinationConfig
                                    (ec_UserQueuePrefix config @ channelName) connectionId)) req0
                             else req0)
                  in fst (SendRequestMessage new channelName (GRequestPtr req) None s)))"

subsection \<open>The server's callbacks\<close>

text \<open>
  What the calls recorded by the server do: \<open>ids\<close> are the values of \<^verbatim>\<open>uuid.New()\<close>. The session
  events go to the bus that \<^verbatim>\<open>GetBus\<close> returns, which is taken to be this one.
\<close>

definition runServerCall ::
  "(bytes \<Rightarrow> error + gval Request) \<Rightarrow> uuid \<Rightarrow> uuid \<Rightarrow> addr \<Rightarrow> server_call \<Rightarrow> 'b fabBus_scheme \<Rightarrow> 'b fabBus_scheme go" where
  "runServerCall unmarshal new newS e call s =
     (case call of
        SubscribeCall _ c i d _ \<Rightarrow> Done (addSubscription new newS e c i d s)
      | UnsubscribeCall _ c i d \<Rightarrow> removeSubscription e c i d s
      | AppRequestCall _ d b c \<Rightarrow> Done (bridgeMessage unmarshal new e d b c s)
      | ConnEventCall _ ev \<Rightarrow>
          Done (fst (SendResponseMessage new STOMP_SESSION_NOTIFY_CHANNEL
            (GSessionEvent (StompSessionEvent (ev_ConnId ev) (ev_eventType ev))) None s)))"

subsection \<open>Starting and stopping\<close>

definition StartFabricEndpoint :: "EndpointConfig \<Rightarrow> 'b fabBus_scheme \<Rightarrow> 'b fabBus_scheme \<times> error option" where
  "StartFabricEndpoint config s =
     (if fabEndpoint s \<noteq> None then (s, Some ''unable to start: fabric endpoint is already running'')
      else case validate config of
        Some e \<Rightarrow> (s, Some e)
      | None \<Rightarrow>
          let s1 = (if initStoreSync s then s else (newStoreSyncService s)\<lparr>initStoreSync := True\<rparr>);
              e = nextFe s1
          in (s1\<lparr>feHeap := (feHeap s1)(e := ep_Start (newFabricEndpoint config)), nextFe := Suc e,
                fabEndpoint := Some e\<rparr>, None))"

definition StopFabricEndpoint :: "'b fabBus_scheme \<Rightarrow> ('b fabBus_scheme \<times> error option) go" where
  "StopFabricEndpoint s =
     (case fabEndpoint s of
        None \<Rightarrow> Done (s, Some ''unable to stop: fabric endpoint is not running'')
      | Some e \<Rightarrow>
          go_map (\<lambda>fe. (s\<lparr>fabEndpoint := None, feHeap := (feHeap s)(e := fe)\<rparr>, None)) (ep_Stop (feHeap s e)))"

definition init_fabBus :: "uuid \<Rightarrow> fabBus" where
  "init_fabBus new = syncBus.extend (init_syncBus new)
     \<lparr>feHeap = (\<lambda>_. newFabricEndpoint \<lparr>ec_TopicPrefix = '''', ec_UserQueuePrefix = '''', ec_AppRequestPrefix = '''',
        ec_AppRequestQueuePrefix = '''', ec_Heartbeat = 0\<rparr>), nextFe = 0, fabEndpoint = None, initStoreSync = False\<rparr>"

end
