(* ===== verification/FabricLaws.thy ===== *)
theory FabricLaws
  imports FabricEndpoint
begin

text \<open>
  The laws of the fabric endpoint: the streams it opens on the bus are shared by the subscriptions
  of clients, opened for the first and closed after the last.
\<close>

section \<open>Frame rules\<close>

lemma feHeap_frame [simp]:
  "feHeap (upd_chan a f s) = feHeap s" "feHeap (SendMonitorEvent t n d s) = feHeap s"
  "feHeap (go_SendMonitorEvent t n d s) = feHeap s" "feHeap (upd_mh h g s) = feHeap s"
  "feHeap (fst (CreateChannel n s)) = feHeap s" "feHeap (DestroyChannel n s) = feHeap s"
  by (auto simp: upd_chan_def SendMonitorEvent_def go_SendMonitorEvent_def upd_mh_def CreateChannel_def DestroyChannel_def
      Let_def split: option.split)

lemma upd_fe_simps [simp]:
  "Channels (upd_fe e f s) = Channels s" "chans (upd_fe e f s) = chans s" "nextChan (upd_fe e f s) = nextChan s"
  "monitor (upd_fe e f s) = monitor s" "mhandlers (upd_fe e f s) = mhandlers s" "nextMH (upd_fe e f s) = nextMH s"
  "feHeap (upd_fe e f s) = (feHeap s)(e := f (feHeap s e))"
  by (simp_all add: upd_fe_def)

lemma DestroyChannel_fields [simp]:
  "Channels (DestroyChannel n s) = (Channels s)(n := None)" "chans (DestroyChannel n s) = chans s"
  "nextChan (DestroyChannel n s) = nextChan s" "monitor (DestroyChannel n s) = monitor s"
  by (simp_all add: DestroyChannel_def)

lemma DestroyChannel_mh [simp]:
  "mhandlers (DestroyChannel n s) = mhandlers s" "nextMH (DestroyChannel n s) = nextMH s"
  by (simp_all add: DestroyChannel_def)

lemma chan_inv_fe: "chan_inv (upd_fe e f s) = chan_inv s"
  by (simp add: chan_inv_def)

section \<open>Opening and closing a stream\<close>

lemma Handle_fields:
  assumes "Channels s n = Some a" "ch_Name (chans s a) = n" "mh_channel (mhandlers s h) = a"
  shows "Channels (Handle newS h f g s) = Channels s"
    "chans (Handle newS h f g s) = (chans s)(a := subscribeHandler (WrapperFn h) False newS (chans s a))"
    "mhandlers (Handle newS h f g s) = (mhandlers s)(h := (mhandlers s h)
       \<lparr>mh_successHandler := f, mh_errorHandler := g, mh_subscriptionId := Some newS\<rparr>)"
    "nextMH (Handle newS h f g s) = nextMH s" "nextChan (Handle newS h f g s) = nextChan s"
    "monitor (Handle newS h f g s) = monitor s"
  using assms by (simp_all add: Handle_def Let_def SubscribeChannelHandler_def GetChannel_def)

lemma Handle_feHeap: "feHeap (Handle newS h f g s) = feHeap s"
  by (simp add: Handle_def Let_def SubscribeChannelHandler_def split: sum.split)

definition stream_handler :: "uuid \<Rightarrow> uuid \<Rightarrow> addr \<Rightarrow> string \<Rightarrow> string \<Rightarrow> addr \<Rightarrow> messageHandler" where
  "stream_handler newH newS e n d a = (createMessageHandler newH a None)\<lparr>mh_ignoreId := True, mh_direction := ResponseDir,
     mh_successHandler := Some (FabricSend e n), mh_errorHandler := Some (FabricError e d), mh_subscriptionId := Some newS\<rparr>"

lemma openStream_existing:
  assumes "Channels s n = Some a" "ch_Name (chans s a) = n"
  shows "\<exists>s'. openStream newH newS e n d s = (s', Some \<lparr>cm_subs = [], cm_handler = nextMH s, cm_autoCreated = False\<rparr>) \<and>
    Channels s' = Channels s \<and> chans s' = (chans s)(a := subscribeHandler (WrapperFn (nextMH s)) False newS (chans s a)) \<and>
    mhandlers s' = (mhandlers s)(nextMH s := stream_handler newH newS e n d a) \<and> nextMH s' = Suc (nextMH s) \<and>
    nextChan s' = nextChan s \<and> monitor s' = monitor s \<and> feHeap s' = feHeap s"
proof -
  let ?h = "nextMH s"
  let ?s1 = "fst (wrapMessageHandler newH a ResponseDir True False None False s)"
  have l: "ListenStream newH n s = (?s1, Inr ?h)"
    using assms(1) by (simp add: ListenStream_def getChannelFromManager_def GetChannel_def wrapMessageHandler_def Let_def)
  have s1: "Channels ?s1 n = Some a" "ch_Name (chans ?s1 a) = n" "mh_channel (mhandlers ?s1 ?h) = a"
    "Channels ?s1 = Channels s" "chans ?s1 = chans s" "nextMH ?s1 = Suc ?h" "nextChan ?s1 = nextChan s"
    "monitor ?s1 = monitor s" "feHeap ?s1 = feHeap s"
    "mhandlers ?s1 = (mhandlers s)(?h := (createMessageHandler newH a None)\<lparr>mh_ignoreId := True, mh_direction := ResponseDir\<rparr>)"
    using assms by (simp_all add: wrapMessageHandler_def Let_def createMessageHandler_def)
  show ?thesis
    unfolding openStream_def l
    using Handle_fields[OF s1(1-3)] Handle_feHeap[of newS ?h "Some (FabricSend e n)" "Some (FabricError e d)" ?s1] s1
    by (simp add: stream_handler_def createMessageHandler_def)
qed

lemma openStream_missing:
  assumes "Channels s n = None"
  shows "\<exists>s'. openStream newH newS e n d s = (s', Some \<lparr>cm_subs = [], cm_handler = nextMH s, cm_autoCreated = True\<rparr>) \<and>
    Channels s' = (Channels s)(n \<mapsto> nextChan s) \<and>
    chans s' = (chans s)(nextChan s := subscribeHandler (WrapperFn (nextMH s)) False newS (NewChannel n)) \<and>
    mhandlers s' = (mhandlers s)(nextMH s := stream_handler newH newS e n d (nextChan s)) \<and> nextMH s' = Suc (nextMH s) \<and>
    nextChan s' = Suc (nextChan s) \<and> monitor s' = monitor s \<and> feHeap s' = feHeap s"
proof -
  let ?c = "fst (CreateChannel n s)"
  have c: "Channels ?c = (Channels s)(n \<mapsto> nextChan s)" "chans ?c = (chans s)(nextChan s := NewChannel n)"
    "nextChan ?c = Suc (nextChan s)" "monitor ?c = monitor s" "mhandlers ?c = mhandlers s" "nextMH ?c = nextMH s"
    using assms by (simp_all add: CreateChannel_def Let_def)
  have L1: "ListenStream newH n s = (s, Inl (''Channel does not exist: '' @ n))"
    using assms by (simp add: ListenStream_def getChannelFromManager_def GetChannel_def)
  obtain t r where L2: "ListenStream newH n ?c = (t, Inr r)"
    using c(1) by (simp add: ListenStream_def getChannelFromManager_def GetChannel_def wrapMessageHandler_def Let_def)
  obtain s' where s': "openStream newH newS e n d ?c = (s', Some \<lparr>cm_subs = [], cm_handler = nextMH ?c, cm_autoCreated = False\<rparr>)"
    "Channels s' = Channels ?c" "chans s' = (chans ?c)(nextChan s := subscribeHandler (WrapperFn (nextMH ?c)) False newS (chans ?c (nextChan s)))"
    "mhandlers s' = (mhandlers ?c)(nextMH ?c := stream_handler newH newS e n d (nextChan s))" "nextMH s' = Suc (nextMH ?c)"
    "nextChan s' = nextChan ?c" "monitor s' = monitor ?c" "feHeap s' = feHeap ?c"
    using openStream_existing[of ?c n "nextChan s"] c by fastforce
  have "openStream newH newS e n d s = (s', Some \<lparr>cm_subs = [], cm_handler = nextMH s, cm_autoCreated = True\<rparr>)"
    using s'(1) c(6) by (auto simp: openStream_def L1 L2)
  then show ?thesis using s'(2-) c by simp
qed

lemma MessageHandler_Close_fields:
  assumes "Channels s n = Some a" "ch_Name (chans s a) = n" "channel_wf (chans s a)"
    and "mh_channel (mhandlers s h) = a" "mh_subscriptionId (mhandlers s h) = Some i"
  shows "\<exists>s'. MessageHandler_Close h s = Done s' \<and> Channels s' = Channels s \<and> chans s' = (chans s)(a := drop_handler i (chans s a)) \<and>
    mhandlers s' = mhandlers s \<and> nextMH s' = nextMH s \<and> nextChan s' = nextChan s \<and> monitor s' = monitor s \<and> feHeap s' = feHeap s"
proof -
  have drop: "drop_handler i (chans s a) = (chans s a)\<lparr>ch_eventHandlers := filter (\<lambda>h. h_uuid h \<noteq> i) (ch_eventHandlers (chans s a))\<rparr>"
    by (simp add: drop_handler_def unsubscribeHandler_filter[OF assms(3)])
  show ?thesis
  proof (cases "i \<in> h_uuid ` set (ch_eventHandlers (chans s a))")
    case True
    then show ?thesis
      using assms by (simp add: MessageHandler_Close_def Let_def UnsubscribeChannelHandler_def GetChannel_def
          unsubscribeHandler_filter drop)
  next
    case False
    then have "filter (\<lambda>h. h_uuid h \<noteq> i) (ch_eventHandlers (chans s a)) = ch_eventHandlers (chans s a)"
      by (auto simp: filter_id_conv)
    then show ?thesis
      using assms False by (auto simp: MessageHandler_Close_def Let_def UnsubscribeChannelHandler_def GetChannel_def
          unsubscribeHandler_filter drop)
  qed
qed

section \<open>The endpoint's invariant\<close>

text \<open>The stream of a mapping is subscribed to the channel of that name, with the endpoint's own handlers.\<close>

definition stream_live :: "addr \<Rightarrow> string \<Rightarrow> channelMapping \<Rightarrow> 'b fabBus_scheme \<Rightarrow> bool" where
  "stream_live e n cm s \<longleftrightarrow> cm_handler cm < nextMH s \<and>
     (\<exists>a newH i d. Channels s n = Some a \<and> mhandlers s (cm_handler cm) = stream_handler newH i e n d a \<and>
        (i, WrapperFn (cm_handler cm), False) \<in> handler_set (chans s a))"

definition ep_inv :: "addr \<Rightarrow> EndpointConfig \<Rightarrow> 'b fabBus_scheme \<Rightarrow> bool" where
  "ep_inv e config s \<longleftrightarrow> fe_config (feHeap s e) = config \<and> chan_inv s \<and>
     (\<forall>n cm. fe_chanMappings (feHeap s e) n = Some cm \<longrightarrow>
        cm_subs cm \<noteq> [] \<and> \<not> isProtectedDestination n \<and> stream_live e n cm s)"

definition chan_users :: "addr \<Rightarrow> 'b fabBus_scheme \<Rightarrow> string \<Rightarrow> string set" where
  "chan_users e s n = (case fe_chanMappings (feHeap s e) n of None \<Rightarrow> {} | Some cm \<Rightarrow> set (cm_subs cm))"

text \<open>The channel a subscription of a client is served from; internal channels are not served.\<close>

definition served :: "EndpointConfig \<Rightarrow> string \<Rightarrow> string option" where
  "served config d =
     (case getChannelNameFromSubscription config d of
        None \<Rightarrow> None | Some n \<Rightarrow> if isProtectedDestination n then None else Some n)"

lemma stream_live_upd:
  assumes "stream_live e m cm s" "Channels s' m = Channels s m" "nextMH s \<le> nextMH s'"
    "\<And>a. Channels s m = Some a \<Longrightarrow> chans s' a = chans s a"
    "\<And>h. h < nextMH s \<Longrightarrow> mhandlers s' h = mhandlers s h"
  shows "stream_live e m cm s'"
  using assms by (fastforce simp: stream_live_def)

lemma ep_inv_other_channel:
  assumes "ep_inv e config s" "Channels s m = Some b" "Channels s n = Some a" "m \<noteq> n"
  shows "b \<noteq> a" "b < nextChan s"
  using assms unfolding ep_inv_def chan_inv_def by metis+

lemma subscribed_member:
  assumes "channel_wf ch" "newS \<notin> h_uuid ` set (ch_eventHandlers ch)"
  shows "(newS, fn, False) \<in> handler_set (subscribeHandler fn False newS ch)"
  using assms chan_subs.members_add[of ch newS "(fn, False)"] by auto

lemma openStream_inv:
  assumes "ep_inv e config s" "fresh_id newS s" "fe_chanMappings (feHeap s e) n = None"
  shows "\<exists>s' cm. openStream newH newS e n d s = (s', Some cm) \<and> cm_subs cm = [] \<and> stream_live e n cm s' \<and>
    chan_inv s' \<and> feHeap s' = feHeap s \<and>
    (\<forall>m cm'. m \<noteq> n \<longrightarrow> stream_live e m cm' s \<longrightarrow> stream_live e m cm' s')"
proof (cases "Channels s n")
  case (Some a)
  have ci: "chan_inv s" "ch_Name (chans s a) = n" "channel_wf (chans s a)"
    using assms(1) Some by (auto simp: ep_inv_def chan_inv_def)
  from openStream_existing[OF Some ci(2), of newH newS e d] obtain s' where s':
    "openStream newH newS e n d s = (s', Some \<lparr>cm_subs = [], cm_handler = nextMH s, cm_autoCreated = False\<rparr>)"
    "Channels s' = Channels s" "chans s' = (chans s)(a := subscribeHandler (WrapperFn (nextMH s)) False newS (chans s a))"
    "mhandlers s' = (mhandlers s)(nextMH s := stream_handler newH newS e n d a)" "nextMH s' = Suc (nextMH s)"
    "nextChan s' = nextChan s" "monitor s' = monitor s" "feHeap s' = feHeap s" by blast
  have "channel_wf (subscribeHandler (WrapperFn (nextMH s)) False newS (chans s a))"
    using assms(2) ci(3) by (simp add: channel_wf_subscribe fresh_id_def)
  then have "chan_inv s'" using ci(1) by (auto simp: chan_inv_def s')
  moreover have "stream_live e n \<lparr>cm_subs = [], cm_handler = nextMH s, cm_autoCreated = False\<rparr> s'"
    using Some subscribed_member[OF ci(3)] assms(2) unfolding stream_live_def fresh_id_def
    by (simp add: s') blast
  moreover have "stream_live e m cm' s'" if "m \<noteq> n" "stream_live e m cm' s" for m cm'
    by (rule stream_live_upd[OF that(2)]) (use that(1) ep_inv_other_channel[OF assms(1) _ Some that(1)] in \<open>auto simp: s'\<close>)
  ultimately show ?thesis using s'(1,8) by fastforce
next
  case None
  from openStream_missing[OF None, of newH newS e d] obtain s' where s':
    "openStream newH newS e n d s = (s', Some \<lparr>cm_subs = [], cm_handler = nextMH s, cm_autoCreated = True\<rparr>)"
    "Channels s' = (Channels s)(n \<mapsto> nextChan s)"
    "chans s' = (chans s)(nextChan s := subscribeHandler (WrapperFn (nextMH s)) False newS (NewChannel n))"
    "mhandlers s' = (mhandlers s)(nextMH s := stream_handler newH newS e n d (nextChan s))" "nextMH s' = Suc (nextMH s)"
    "nextChan s' = Suc (nextChan s)" "monitor s' = monitor s" "feHeap s' = feHeap s" by blast
  have ci: "chan_inv s" using assms(1) by (simp add: ep_inv_def)
  have no: "newS \<notin> h_uuid ` set (ch_eventHandlers (NewChannel n))" by (simp add: NewChannel_def)
  have "channel_wf (subscribeHandler (WrapperFn (nextMH s)) False newS (NewChannel n))"
    by (rule channel_wf_subscribe[OF channel_wf_new no])
  then have "chan_inv s'" using ci by (auto simp: chan_inv_def s' less_Suc_eq)
  moreover have "stream_live e n \<lparr>cm_subs = [], cm_handler = nextMH s, cm_autoCreated = True\<rparr> s'"
    using subscribed_member[OF channel_wf_new no] unfolding stream_live_def by (simp add: s') blast
  moreover have "stream_live e m cm' s'" if "m \<noteq> n" "stream_live e m cm' s" for m cm'
    by (rule stream_live_upd[OF that(2)]) (use that(1) ci in \<open>auto simp: s' chan_inv_def\<close>)
  ultimately show ?thesis using s'(1,8) by fastforce
qed

lemma list_insert_nonempty [simp]: "List.insert x xs \<noteq> []"
  by (auto simp: List.insert_def)

lemma addSubscription_inv:
  assumes "ep_inv e config s" "fresh_id newS s"
  shows "ep_inv e config (addSubscription newH newS e c i d s) \<and>
    chan_users e (addSubscription newH newS e c i d s) =
      (\<lambda>n. if served config d = Some n then insert (mapping_id c i) (chan_users e s n) else chan_users e s n)"
proof (cases "served config d")
  case None
  then have "addSubscription newH newS e c i d s = s"
    using assms(1) by (auto simp: addSubscription_def served_def ep_inv_def split: option.splits if_splits)
  then show ?thesis using assms(1) None by simp
next
  case (Some n)
  have cfg: "fe_config (feHeap s e) = config" using assms(1) by (simp add: ep_inv_def)
  have n: "getChannelNameFromSubscription config d = Some n" "\<not> isProtectedDestination n"
    using Some by (auto simp: served_def split: option.splits if_splits)
  show ?thesis
  proof (cases "fe_chanMappings (feHeap s e) n")
    case (Some cm)
    then show ?thesis
      using assms(1) n cfg \<open>served config d = Some n\<close>
      by (auto simp: addSubscription_def ep_inv_def chan_inv_fe chan_inv_event chan_users_def stream_live_def fun_eq_iff)
  next
    case none: None
    from openStream_inv[OF assms none, of newH d] obtain s' cm where s': "openStream newH newS e n d s = (s', Some cm)"
      "cm_subs cm = []" "stream_live e n cm s'" "chan_inv s'" "feHeap s' = feHeap s"
      "\<And>m cm'. m \<noteq> n \<Longrightarrow> stream_live e m cm' s \<Longrightarrow> stream_live e m cm' s'" by blast
    have live: "stream_live e m (cm'\<lparr>cm_subs := x\<rparr>) s2 = stream_live e m cm' s2" for m cm' x s2
      by (simp add: stream_live_def)
    have live2: "stream_live e m cm' (SendMonitorEvent t q p (upd_fe e f s')) = stream_live e m cm' s'" for m cm' t q p f
      by (simp add: stream_live_def)
    show ?thesis
      using assms(1) n cfg \<open>served config d = Some n\<close> none s'
      by (auto simp: addSubscription_def ep_inv_def chan_inv_fe chan_inv_event chan_users_def live live2 fun_eq_iff)
  qed
qed

lemma removeSubscription_inv:
  assumes "ep_inv e config s"
  shows "\<exists>s'. removeSubscription e c i d s = Done s' \<and> ep_inv e config s' \<and>
    chan_users e s' = (\<lambda>n. if served config d = Some n then chan_users e s n - {mapping_id c i} else chan_users e s n)"
proof -
  have cfg: "fe_config (feHeap s e) = config" and ci: "chan_inv s" using assms by (auto simp: ep_inv_def)
  have skip: ?thesis if "removeSubscription e c i d s = Done s" "\<And>n. served config d = Some n \<Longrightarrow> mapping_id c i \<notin> chan_users e s n"
    using that assms by (auto simp: fun_eq_iff)
  show ?thesis
  proof (cases "getChannelNameFromSubscription config d")
    case None
    then show ?thesis using cfg by (intro skip) (auto simp: removeSubscription_def served_def)
  next
    case name: (Some n)
    show ?thesis
    proof (cases "fe_chanMappings (feHeap s e) n")
      case None
      then show ?thesis using cfg name
        by (intro skip) (auto simp: removeSubscription_def served_def chan_users_def split: if_splits)
    next
      case (Some cm)
      then have cm: "cm_subs cm \<noteq> []" "\<not> isProtectedDestination n" "stream_live e n cm s"
        using assms by (auto simp: ep_inv_def)
      have sv: "served config d = Some n" using name cm(2) by (simp add: served_def)
      let ?id = "mapping_id c i"
      consider "?id \<notin> set (cm_subs cm)" | "?id \<in> set (cm_subs cm)" "removeAll ?id (cm_subs cm) \<noteq> []"
        | "?id \<in> set (cm_subs cm)" "removeAll ?id (cm_subs cm) = []" by blast
      then show ?thesis
      proof cases
        case 1
        then show ?thesis using cfg name Some sv
          by (intro skip) (auto simp: removeSubscription_def chan_users_def)
      next
        case 2
        then show ?thesis using cfg name Some sv assms
          by (auto simp: removeSubscription_def ep_inv_def chan_inv_fe chan_inv_event chan_users_def stream_live_def fun_eq_iff)
      next
        case 3
        from cm(3) obtain a newH j dd where live: "Channels s n = Some a" "mhandlers s (cm_handler cm) = stream_handler newH j e n dd a"
          by (auto simp: stream_live_def)
        have nm: "ch_Name (chans s a) = n" "channel_wf (chans s a)" using ci live(1) by (auto simp: chan_inv_def)
        from MessageHandler_Close_fields[OF live(1) nm, of "cm_handler cm" j] live(2)
        obtain s1 where s1: "MessageHandler_Close (cm_handler cm) s = Done s1" "Channels s1 = Channels s"
          "chans s1 = (chans s)(a := drop_handler j (chans s a))" "mhandlers s1 = mhandlers s" "nextMH s1 = nextMH s"
          "nextChan s1 = nextChan s" "monitor s1 = monitor s" "feHeap s1 = feHeap s"
          by (auto simp: stream_handler_def createMessageHandler_def)
        have "chan_inv s1" using MessageHandler_Close_calm[OF s1(1)] ci by (auto simp: calm_def)
        note ci1 = this
        have other: "stream_live e m cm' s2" if "m \<noteq> n" "stream_live e m cm' s" "Channels s2 m = Channels s1 m"
          "chans s2 = chans s1" "mhandlers s2 = mhandlers s1" "nextMH s2 = nextMH s1" for m cm' s2
          by (rule stream_live_upd[OF that(2)])
            (use that s1 ep_inv_other_channel[OF assms _ live(1) that(1)] in auto)
        let ?s2 = "upd_fe e (\<lambda>fe. fe\<lparr>fe_chanMappings := (fe_chanMappings fe)(n := None)\<rparr>) s1"
        let ?s3 = "SendMonitorEvent FabricEndpointUnsubscribeEvt n None (if cm_autoCreated cm then DestroyChannel n ?s2 else ?s2)"
        have rm: "removeSubscription e c i d s = Done ?s3"
          using cfg name Some 3 by (simp add: removeSubscription_def s1(1) Let_def)
        have map: "fe_chanMappings (feHeap ?s3 e) = (fe_chanMappings (feHeap s e))(n := None)" "fe_config (feHeap ?s3 e) = config"
          using s1(8) cfg by auto
        have "chan_inv ?s3" using ci1 by (simp add: chan_inv_event chan_inv_fe DestroyChannel_inv)
        moreover have "stream_live e m cm' ?s3" if "m \<noteq> n" "fe_chanMappings (feHeap s e) m = Some cm'" for m cm'
          by (rule other[OF that(1)]) (use assms that in \<open>auto simp: ep_inv_def\<close>)
        ultimately have "ep_inv e config ?s3" using assms map by (auto simp: ep_inv_def split: if_splits)
        moreover have "set (cm_subs cm) - {?id} = {}" using 3(2) by (metis empty_set set_removeAll)
        ultimately show ?thesis using rm map sv Some by (auto simp: chan_users_def fun_eq_iff)
      qed
    qed
  qed
qed

definition release_sub :: "addr \<Rightarrow> string \<Rightarrow> uuid \<times> string \<Rightarrow> 'b fabBus_scheme \<Rightarrow> 'b fabBus_scheme" where
  "release_sub e d u s = (case removeSubscription e (fst u) (snd u) d s of Done s' \<Rightarrow> s' | _ \<Rightarrow> s)"

interpretation ep_streams: shared_resource "chan_users e" "\<lambda>n s. fe_chanMappings (feHeap s e) n \<noteq> None"
  "\<lambda>x d u. addSubscription (fst x) (snd x) e (fst u) (snd u) d" "release_sub e" "served config"
  "\<lambda>u. mapping_id (fst u) (snd u)" "\<lambda>x. fresh_id (snd x)" "ep_inv e config" for e config
proof (unfold_locales, goal_cases)
  case (1 s x d u)
  then show ?case using addSubscription_inv by blast
next
  case (2 s d u)
  then show ?case using removeSubscription_inv[of e config s "fst u" "snd u" d] by (auto simp: release_sub_def)
next
  case (3 s x d u)
  then show ?case using addSubscription_inv[of e config s "snd x"] by (auto simp: fun_eq_iff)
next
  case (4 s d u)
  then show ?case using removeSubscription_inv[of e config s "fst u" "snd u" d] by (auto simp: release_sub_def fun_eq_iff)
next
  case (5 s n)
  then show ?case by (auto simp: ep_inv_def chan_users_def split: option.splits)
qed

lemma openStream_shape:
  assumes "ep_inv e config s" "fresh_id newS s"
  shows "\<exists>a s0 auto. openStream newH newS e n d s = (s0, Some \<lparr>cm_subs = [], cm_handler = nextMH s, cm_autoCreated = auto\<rparr>) \<and>
    Channels s0 n = Some a \<and> mhandlers s0 (nextMH s) = stream_handler newH newS e n d a \<and> feHeap s0 = feHeap s \<and>
    (\<forall>b < nextChan s. handler_set (drop_handler newS (chans s0 b)) = handler_set (chans s b)) \<and>
    (\<forall>b < nextChan s. b \<noteq> a \<longrightarrow> chans s0 b = chans s b) \<and> ch_Name (chans s0 a) = n \<and> channel_wf (chans s0 a) \<and>
    Channels s = (if auto then (Channels s0)(n := None) else Channels s0)"
proof -
  have ci: "chan_inv s" using assms(1) by (simp add: ep_inv_def)
  then have wf: "channel_wf (chans s b)" for b by (simp add: chan_inv_def)
  have fr: "newS \<notin> h_uuid ` set (ch_eventHandlers (chans s b))" for b using assms(2) by (simp add: fresh_id_def)
  have same: "handler_set (drop_handler newS (chans s b)) = handler_set (chans s b)" for b
    using fr[of b] chan_subs.members_remove[OF wf[of b], of newS] by (auto simp: handler_set_def)
  have added: "handler_set (drop_handler newS (subscribeHandler fn False newS (chans s b))) = handler_set (chans s b)" for fn b
    using chan_subs.add_remove[OF wf[of b], of newS "(fn, False)"] fr[of b] by simp
  show ?thesis
  proof (cases "Channels s n")
    case (Some a)
    then have nm: "ch_Name (chans s a) = n" using ci by (auto simp: chan_inv_def)
    from openStream_existing[OF Some nm, of newH newS e d] show ?thesis
      using Some nm same added channel_wf_subscribe[OF wf fr]
      by (elim exE) (rule exI[of _ a], rule exI, rule exI[of _ False], auto split: if_splits)
  next
    case None
    have no: "newS \<notin> h_uuid ` set (ch_eventHandlers (NewChannel n))" by (simp add: NewChannel_def)
    from openStream_missing[OF None, of newH newS e d] show ?thesis
      using None same channel_wf_subscribe[OF channel_wf_new no]
      by (elim exE) (rule exI[of _ "nextChan s"], rule exI, rule exI[of _ True], auto simp: fun_eq_iff)
  qed
qed

section \<open>Properties\<close>

fun ep_run :: "addr \<Rightarrow> (uuid \<times> uuid, string, uuid \<times> string) use_op list \<Rightarrow> 'b fabBus_scheme \<Rightarrow> 'b fabBus_scheme go" where
  "ep_run e [] s = Done s"
| "ep_run e (Acquire x d u # ops) s = ep_run e ops (addSubscription (fst x) (snd x) e (fst u) (snd u) d s)"
| "ep_run e (Release d u # ops) s = go_bind (removeSubscription e (fst u) (snd u) d s) (ep_run e ops)"

fun ep_fresh :: "addr \<Rightarrow> (uuid \<times> uuid, string, uuid \<times> string) use_op list \<Rightarrow> 'b fabBus_scheme \<Rightarrow> bool" where
  "ep_fresh e [] s = True"
| "ep_fresh e (Acquire x d u # ops) s =
     (fresh_id (snd x) s \<and> ep_fresh e ops (addSubscription (fst x) (snd x) e (fst u) (snd u) d s))"
| "ep_fresh e (Release d u # ops) s = ep_fresh e ops (release_sub e d u s)"

lemma ep_run_fold:
  assumes "ep_inv e config s" "ep_fresh e ops s"
  shows "ep_run e ops s = Done (fold (ep_streams.run_op e) ops s) \<and> ep_streams.fresh_ops e ops s"
  using assms
proof (induction ops arbitrary: s)
  case (Cons p ops)
  show ?case
  proof (cases p)
    case (Acquire x d u)
    with Cons.prems(2) have fr: "fresh_id (snd x) s" by simp
    from ep_streams.inv_acquire[OF Cons.prems(1) fr, where d = d and u = u]
    show ?thesis using Cons.IH Cons.prems(2) Acquire by simp
  next
    case (Release d u)
    from removeSubscription_inv[OF Cons.prems(1), of "fst u" "snd u" d] obtain s1 where
      s1: "removeSubscription e (fst u) (snd u) d s = Done s1" "ep_inv e config s1" by blast
    then have "release_sub e d u s = s1" by (simp add: release_sub_def)
    then show ?thesis using Cons.IH[OF s1(2)] Cons.prems(2) Release s1(1) by simp
  qed
qed simp

text \<open>
  C8. Whatever clients subscribe to and unsubscribe from, in any order, no operation of the
  endpoint fails; a channel is mapped exactly while some subscription is served from it, with
  exactly those subscriptions; and while it is mapped, one stream with the endpoint's own handlers
  is subscribed to the bus channel of that name. Internal channels are never mapped.
\<close>

theorem endpoint_streams_shared:
  assumes "ep_inv e config s" "ep_fresh e ops s"
  shows "\<exists>s'. ep_run e ops s = Done s' \<and>
    chan_users e s' n = fold (use_apply (served config) (\<lambda>u. mapping_id (fst u) (snd u))) ops (chan_users e s) n \<and>
    (fe_chanMappings (feHeap s' e) n \<noteq> None \<longleftrightarrow> chan_users e s' n \<noteq> {}) \<and>
    (\<forall>cm. fe_chanMappings (feHeap s' e) n = Some cm \<longrightarrow> stream_live e n cm s' \<and> \<not> isProtectedDestination n)"
proof -
  note r = ep_run_fold[OF assms]
  note inv = ep_streams.refines_users[OF assms(1) conjunct2[OF r]]
  show ?thesis
    using r inv ep_streams.held_iff[OF conjunct1[OF inv], of n]
    by (intro exI[of _ "fold (ep_streams.run_op e) ops s"]) (auto simp: ep_inv_def simp del: use_apply.simps)
qed

definition ex_endpoint :: fabBus where
  "ex_endpoint = (init_fabBus ''b'')\<lparr>feHeap := \<lambda>_. newFabricEndpoint \<lparr>ec_TopicPrefix = ''/topic'',
     ec_UserQueuePrefix = ''/user/queue'', ec_AppRequestPrefix = ''/pub'', ec_AppRequestQueuePrefix = ''/pub/queue'',
     ec_Heartbeat = 0\<rparr>, fabEndpoint := Some 0, nextFe := 1\<rparr>"

abbreviation ex_epconf :: EndpointConfig where
  "ex_epconf \<equiv> \<lparr>ec_TopicPrefix = ''/topic/'', ec_UserQueuePrefix = ''/user/queue/'', ec_AppRequestPrefix = ''/pub/'',
     ec_AppRequestQueuePrefix = ''/pub/queue/'', ec_Heartbeat = 0\<rparr>"

lemma ex_endpoint_fields:
  "fe_config (feHeap ex_endpoint 0) = ex_epconf" "fe_chanMappings (feHeap ex_endpoint 0) = Map.empty"
  by (simp_all add: ex_endpoint_def newFabricEndpoint_def initHandlers_def slashed_def addPrefixIfNotEmpty_def HasSuffix_def)

lemma ex_endpoint_inv: "ep_inv 0 ex_epconf ex_endpoint"
  unfolding ep_inv_def ex_endpoint_fields
  by (simp add: chan_inv_def ex_endpoint_def init_fabBus_def init_syncBus_def init_txBus_def init_storeBus_def init_bus_def
      syncBus.defs txBus.defs storeBus.defs transportEventBus.defs channel_wf_new newMonitor_wf)

lemma ex_endpoint_fresh: "fresh_id new ex_endpoint"
  by (simp add: fresh_id_def ex_endpoint_def init_fabBus_def init_syncBus_def init_txBus_def init_storeBus_def init_bus_def
      syncBus.defs txBus.defs storeBus.defs transportEventBus.defs NewChannel_def)

theorem endpoint_streams_shared_witness:
  "\<exists>s'. ep_run 0 [Acquire (''h'', ''s'') ''/topic/a'' (''c'', ''1'')] ex_endpoint = Done s' \<and>
    chan_users 0 s' ''a'' = fold (use_apply (served ex_epconf) (\<lambda>u. mapping_id (fst u) (snd u)))
      [Acquire (''h'', ''s'') ''/topic/a'' (''c'', ''1'')] (chan_users 0 ex_endpoint) ''a'' \<and>
    (fe_chanMappings (feHeap s' 0) ''a'' \<noteq> None \<longleftrightarrow> chan_users 0 s' ''a'' \<noteq> {}) \<and>
    (\<forall>cm. fe_chanMappings (feHeap s' 0) ''a'' = Some cm \<longrightarrow> stream_live 0 ''a'' cm s' \<and> \<not> isProtectedDestination ''a'')"
  by (rule endpoint_streams_shared[OF ex_endpoint_inv]) (simp add: ex_endpoint_fresh)



end
