(* ===== verification/StompConnLaws.thy ===== *)
theory StompConnLaws
  imports StompConn
begin

text \<open>
  The laws of one STOMP session: its events follow the session protocol, the messages it writes
  are numbered consecutively, and connecting negotiates the version and the heart-beats.
\<close>

section \<open>What a session tells the server\<close>

text \<open>The protocol of a session's events, without frames, headers or sockets.\<close>

datatype session = Opening | Open "string \<rightharpoonup> subscription" | Over

definition session_step :: "stompConfig \<Rightarrow> session \<Rightarrow> ConnEvent \<Rightarrow> session option" where
  "session_step cfg s e =
     (case (s, ev_eventType e) of
        (Opening, ConnectionEstablished) \<Rightarrow> Some (Open Map.empty)
      | (Opening, ConnectionClosed) \<Rightarrow> Some Over
      | (Open subs, ConnectionClosed) \<Rightarrow> Some Over
      | (Open subs, SubscribeToTopic) \<Rightarrow>
          (case ev_sub e of
             Some sub \<Rightarrow> if subs (s_id sub) = None \<and> ev_destination e = s_destination sub
                         then Some (Open (subs(s_id sub \<mapsto> sub))) else None
           | None \<Rightarrow> None)
      | (Open subs, UnsubscribeFromTopic) \<Rightarrow>
          (case ev_sub e of
             Some sub \<Rightarrow> if subs (s_id sub) = Some sub \<and> ev_destination e = s_destination sub
                         then Some (Open (subs(s_id sub := None))) else None
           | None \<Rightarrow> None)
      | (Open subs, IncomingMessage) \<Rightarrow>
          if IsAppRequestDestination cfg (ev_destination e) \<and> map_option f_Command (ev_frame e) = Some ''MESSAGE''
          then Some s else None
      | _ \<Rightarrow> None)"

fun session_trace :: "stompConfig \<Rightarrow> session \<Rightarrow> ConnEvent list \<Rightarrow> session option" where
  "session_trace cfg s [] = Some s"
| "session_trace cfg s (e # es) = Option.bind (session_step cfg s e) (\<lambda>s'. session_trace cfg s' es)"

definition session_of :: "stompConn \<Rightarrow> session" where
  "session_of conn =
     (case con_state conn of connecting \<Rightarrow> Opening | connected \<Rightarrow> Open (con_subscriptions conn) | closed \<Rightarrow> Over)"

definition conn_inv :: "uuid \<Rightarrow> stompConfig \<Rightarrow> stompConn \<Rightarrow> bool" where
  "conn_inv new cfg conn \<longleftrightarrow>
     con_id conn = new \<and> con_config conn = cfg \<and>
     session_trace cfg Opening (con_events conn) = Some (session_of conn) \<and>
     list_all (\<lambda>e. ev_ConnId e = new) (con_events conn) \<and>
     (con_state conn = connecting \<longrightarrow> con_subscriptions conn = Map.empty) \<and>
     (con_closeOnce conn \<longleftrightarrow> con_state conn = closed) \<and> (con_rawClosed conn \<longleftrightarrow> con_state conn = closed) \<and>
     (\<forall>k sub. con_subscriptions conn k = Some sub \<longrightarrow> s_id sub = k)"

lemma session_trace_append:
  "session_trace cfg s (es @ es') = Option.bind (session_trace cfg s es) (\<lambda>s'. session_trace cfg s' es')"
  by (induction es arbitrary: s) (auto simp: Option.bind_assoc)

lemmas write_simps = WriteFrame_def Let_def

lemma conn_inv_write [simp]:
  "conn_inv new cfg (conn\<lparr>con_writes := w\<rparr>) = conn_inv new cfg conn"
  "conn_inv new cfg (conn\<lparr>con_version := v\<rparr>) = conn_inv new cfg conn"
  "conn_inv new cfg (conn\<lparr>con_currentMessageId := i\<rparr>) = conn_inv new cfg conn"
  "conn_inv new cfg (conn\<lparr>con_writeTimeout := t\<rparr>) = conn_inv new cfg conn"
  "conn_inv new cfg (conn\<lparr>con_readTimeoutMs := t'\<rparr>) = conn_inv new cfg conn"
  by (simp_all add: conn_inv_def session_of_def cong: conn_state.case_cong)

lemma conn_inv_New: "conn_inv new cfg (NewStompConn new cfg)"
  by (simp add: conn_inv_def NewStompConn_def session_of_def)

lemma conn_inv_Close: "conn_inv new cfg conn \<Longrightarrow> conn_inv new cfg (stompConn_Close conn)"
  by (auto simp: conn_inv_def stompConn_Close_def emit_def session_of_def session_trace_append
      session_step_def split: conn_state.splits)

lemma sendReceiptResponse_state:
  assumes "sendReceiptResponse werr contains f conn = (conn', f', e)"
  shows "conn_inv new cfg conn' = conn_inv new cfg conn" "con_state conn' = con_state conn"
    "con_subscriptions conn' = con_subscriptions conn" "f_Command f' = f_Command f"
    "con_config conn' = con_config conn" "con_events conn' = con_events conn"
  using assms by (auto simp: sendReceiptResponse_def write_simps split: option.splits)

lemma conn_inv_Connect:
  assumes "conn_inv new cfg conn" "con_state conn \<noteq> closed"
  shows "conn_inv new cfg (fst (handleConnect werr contains parse_hb f conn))"
proof -
  have est: "conn_inv new cfg (emit ConnectionEstablished '''' None None (c\<lparr>con_state := connected\<rparr>))"
    if "conn_inv new cfg c" "con_state c = connecting" for c
    using that by (simp add: conn_inv_def emit_def session_of_def session_trace_append session_step_def)
  have "con_state conn = connected \<or> con_state conn = connecting"
    using assms(2) by (cases "con_state conn") auto
  then show ?thesis
    using assms(1) by (auto simp: handleConnect_def write_simps intro!: est split: prod.split option.split)
qed

lemma conn_inv_Subscribe:
  assumes "conn_inv new cfg conn"
  shows "conn_inv new cfg (fst (handleSubscribe contains f conn))"
  using assms
  by (auto simp: handleSubscribe_def conn_inv_def emit_def session_of_def session_trace_append
      session_step_def Let_def split: conn_state.splits option.splits)

lemma conn_inv_Unsubscribe:
  assumes "conn_inv new cfg conn"
  shows "conn_inv new cfg (fst (handleUnsubscribe werr contains f conn))"
proof -
  obtain conn1 f1 e where r: "sendReceiptResponse werr contains f conn = (conn1, f1, e)"
    by (metis prod_cases3)
  have gone: "conn_inv new cfg (emit UnsubscribeFromTopic (s_destination sub) (Some sub) None
      (c\<lparr>con_subscriptions := sb(uid := None)\<rparr>))"
    if "conn_inv new cfg c" "con_state c = connected" "con_subscriptions c = sb" "sb uid = Some sub" for c uid sub sb
    using that by (auto simp: conn_inv_def emit_def session_of_def session_trace_append session_step_def)
  show ?thesis
    using assms sendReceiptResponse_state[OF r] r
    by (auto simp: handleUnsubscribe_def intro!: gone split: conn_state.splits option.split)
qed

lemma conn_inv_Send:
  assumes "conn_inv new cfg conn"
  shows "conn_inv new cfg (fst (handleSend werr contains f conn))"
proof -
  obtain conn1 f1 e where r: "sendReceiptResponse werr contains f conn = (conn1, f1, e)"
    by (metis prod_cases3)
  have msg: "conn_inv new cfg (emit IncomingMessage dest None (Some (g\<lparr>f_Command := ''MESSAGE''\<rparr>)) c)"
    if "conn_inv new cfg c" "con_state c = connected" "IsAppRequestDestination cfg dest" for c dest g
    using that by (simp add: conn_inv_def emit_def session_of_def session_trace_append session_step_def)
  have "IsAppRequestDestination (con_config conn) d = IsAppRequestDestination cfg d" for d
    using assms by (simp add: conn_inv_def)
  then show ?thesis
    using assms sendReceiptResponse_state[OF r] r
    by (auto simp: handleSend_def header_Get_def intro!: msg split: conn_state.splits option.split prod.split)
qed

lemma conn_inv_Disconnect:
  assumes "conn_inv new cfg conn"
  shows "conn_inv new cfg (fst (handleDisconnect werr contains f conn))"
proof -
  obtain conn1 f1 e where r: "sendReceiptResponse werr contains f conn = (conn1, f1, e)"
    by (metis prod_cases3)
  show ?thesis
    using assms sendReceiptResponse_state[OF r] r by (auto simp: handleDisconnect_def intro!: conn_inv_Close)
qed

lemma conn_inv_handle:
  assumes "conn_inv new cfg conn" "con_state conn \<noteq> closed"
  shows "conn_inv new cfg (fst (handleIncomingFrame werr contains parse_hb f conn))"
  using assms by (simp add: handleIncomingFrame_def conn_inv_Connect conn_inv_Disconnect conn_inv_Send
      conn_inv_Subscribe conn_inv_Unsubscribe)

lemma conn_inv_round:
  assumes "conn_inv new cfg conn"
  shows "conn_inv new cfg (fst (run_round werr contains parse_hb inp conn))"
proof (cases "con_state conn = closed")
  case False
  show ?thesis
  proof (cases inp)
    case (InFrame f)
    then show ?thesis using conn_inv_handle[OF assms False] False
      by (auto simp: run_round_def sendError_def write_simps split: prod.split option.split
          dest: arg_cong[where f = fst]) (metis fst_conv)+
  next
    case ServerCloses
    then show ?thesis using False assms by (simp add: run_round_def conn_inv_Close)
  qed (use False assms in \<open>auto simp: run_round_def populateMessageIdHeader_def write_simps\<close>)
qed (use assms in \<open>simp add: run_round_def\<close>)

lemma conn_inv_run:
  "conn_inv new cfg conn \<Longrightarrow> conn_inv new cfg (stompConn_run werr contains parse_hb inps conn)"
proof (induction inps arbitrary: conn)
  case (Cons inp inps)
  obtain conn1 b where r: "run_round werr contains parse_hb inp conn = (conn1, b)" by fastforce
  have "conn_inv new cfg conn1" using conn_inv_round[OF Cons.prems, of werr contains parse_hb inp] r by simp
  then show ?case using Cons.IH r by (simp add: conn_inv_Close split: bool.split)
qed simp

section \<open>Message ids\<close>

definition message_ids :: "contains \<Rightarrow> stompConn \<Rightarrow> string option list" where
  "message_ids contains conn =
     map (\<lambda>f. contains (f_Header f) ''message-id'')
       (filter (\<lambda>f. f_Command f = ''MESSAGE'') (List.map_filter fst (con_writes conn)))"

definition same_ids :: "contains \<Rightarrow> stompConn \<Rightarrow> stompConn \<Rightarrow> bool" where
  "same_ids contains conn conn' \<longleftrightarrow>
     message_ids contains conn' = message_ids contains conn \<and> con_currentMessageId conn' = con_currentMessageId conn"

lemma message_ids_write:
  "message_ids contains (conn\<lparr>con_writes := con_writes conn @ [(g, e)]\<rparr>) =
     message_ids contains conn @
     (case g of Some f \<Rightarrow> if f_Command f = ''MESSAGE'' then [contains (f_Header f) ''message-id''] else [] | None \<Rightarrow> [])"
  by (auto simp: message_ids_def map_filter_def split: option.split)

lemma same_ids_refl [simp]: "same_ids contains conn conn"
  by (simp add: same_ids_def)

lemma same_ids_trans: "same_ids contains a b \<Longrightarrow> same_ids contains b c \<Longrightarrow> same_ids contains a c"
  by (simp add: same_ids_def)

lemma same_ids_upd:
  assumes "con_writes conn' = con_writes conn" "con_currentMessageId conn' = con_currentMessageId conn"
  shows "same_ids contains conn conn'"
  using assms by (simp add: same_ids_def message_ids_def)

lemma same_ids_write:
  assumes "WriteFrame werr g conn = (conn', e)" "\<And>f. g = Some f \<Longrightarrow> f_Command f \<noteq> ''MESSAGE''"
  shows "same_ids contains conn conn'"
  using assms by (auto simp: same_ids_def WriteFrame_def Let_def message_ids_write split: option.split)

lemma same_ids_receipt:
  assumes "sendReceiptResponse werr contains f conn = (conn', f', e)"
  shows "same_ids contains conn conn'"
  using assms
  by (auto simp: sendReceiptResponse_def frame_New_def split: option.splits prod.splits elim!: same_ids_write)

lemma same_ids_Close: "same_ids contains conn (stompConn_Close conn)"
  by (auto simp: stompConn_Close_def emit_def intro!: same_ids_upd)

lemma same_ids_Connect:
  assumes "handleConnect werr contains parse_hb f conn = (conn', e)"
  shows "same_ids contains conn conn'"
proof -
  have w: "same_ids contains conn c2"
    if "WriteFrame werr (Some (frame_New ''CONNECTED'' hs)) c = (c1, r)" "con_writes c = con_writes conn"
      "con_currentMessageId c = con_currentMessageId conn" "con_writes c2 = con_writes c1"
      "con_currentMessageId c2 = con_currentMessageId c1" for hs c c1 c2 r
    by (rule same_ids_trans[OF same_ids_upd same_ids_trans[OF same_ids_write[OF that(1)] same_ids_upd]])
      (use that in \<open>auto simp: frame_New_def\<close>)
  have [simp]: "same_ids contains conn (conn\<lparr>con_version := v\<rparr>)" for v by (simp add: same_ids_upd)
  show ?thesis
    using assms by (auto simp: handleConnect_def Let_def emit_def
        split: if_splits prod.splits option.splits elim!: w)
qed

lemma same_ids_handle:
  assumes "handleIncomingFrame werr contains parse_hb f conn = (conn', e)"
  shows "same_ids contains conn conn'"
proof -
  obtain c1 f1 r where rc: "sendReceiptResponse werr contains f conn = (c1, f1, r)" by (metis prod_cases3)
  note sr = same_ids_receipt[OF rc]
  have up: "same_ids contains conn c2"
    if "con_writes c2 = con_writes c1" "con_currentMessageId c2 = con_currentMessageId c1" for c2
    by (rule same_ids_trans[OF sr same_ids_upd[OF that]])
  have send: "handleSend werr contains f conn = (conn', e) \<Longrightarrow> same_ids contains conn conn'"
    by (auto simp: handleSend_def rc emit_def intro!: sr up split: if_splits option.splits conn_state.splits)
  have unsub: "handleUnsubscribe werr contains f conn = (conn', e) \<Longrightarrow> same_ids contains conn conn'"
    by (auto simp: handleUnsubscribe_def rc emit_def Let_def intro!: sr up split: option.splits conn_state.splits)
  have sub: "handleSubscribe contains f conn = (conn', e) \<Longrightarrow> same_ids contains conn conn'"
    by (auto simp: handleSubscribe_def emit_def Let_def intro!: same_ids_upd
        split: if_splits option.splits conn_state.splits)
  have disc: "handleDisconnect werr contains f conn = (conn', e) \<Longrightarrow> same_ids contains conn conn'"
    by (auto simp: handleDisconnect_def rc intro!: same_ids_trans[OF sr same_ids_Close] split: if_splits)
  show ?thesis
    using assms send unsub sub disc same_ids_Connect by (auto simp: handleIncomingFrame_def split: if_splits)
qed

definition ids_inv :: "contains \<Rightarrow> stompConn \<Rightarrow> bool" where
  "ids_inv contains conn \<longleftrightarrow>
     message_ids contains conn = map (\<lambda>i. Some (show_nat (Suc i))) [0..<unat (con_currentMessageId conn)]"

lemma same_ids_inv: "same_ids contains conn conn' \<Longrightarrow> ids_inv contains conn' = ids_inv contains conn"
  by (simp add: same_ids_def ids_inv_def)

lemma round_ids:
  assumes "header_laws contains" "ids_inv contains conn" "unat (con_currentMessageId conn) < n" "n < 2 ^ 64"
    and r: "run_round werr contains parse_hb inp conn = (conn', b)"
  shows "ids_inv contains conn' \<and> unat (con_currentMessageId conn') \<le> n"
proof (cases "\<exists>f. inp = OutFrame f \<and> f_Command f = ''MESSAGE'' \<and> con_state conn \<noteq> closed")
  case True
  then obtain f where f: "inp = OutFrame f" "f_Command f = ''MESSAGE''" "con_state conn \<noteq> closed" by blast
  have up: "unat (con_currentMessageId conn + 1) = Suc (unat (con_currentMessageId conn))"
    using assms(3,4) by (simp add: unat_word_ariths)
  show ?thesis
    using r f assms(1-3) up
    by (auto simp: run_round_def populateMessageIdHeader_def WriteFrame_def Let_def ids_inv_def message_ids_def
        map_filter_def header_lawsD[OF assms(1)])
next
  case False
  have "same_ids contains conn conn'"
  proof (cases "con_state conn = closed")
    case open': False
    show ?thesis
    proof (cases inp)
      case (OutFrame f)
      then show ?thesis using r False open'
        by (auto simp: run_round_def populateMessageIdHeader_def split: prod.splits elim!: same_ids_write)
    next
      case (InFrame f)
      obtain c1 e where h: "handleIncomingFrame werr contains parse_hb f conn = (c1, e)" by fastforce
      have "same_ids contains c1 (sendError werr err c1)" for err
        by (cases "WriteFrame werr (Some (frame_New ''ERROR'' [(''message'', err)])) c1")
          (auto simp: sendError_def frame_New_def elim!: same_ids_write)
      then show ?thesis using r InFrame open' same_ids_handle[OF h] h
        by (auto simp: run_round_def split: option.splits intro: same_ids_trans)
    next
      case HeartBeatDue
      then show ?thesis using r open'
        by (auto simp: run_round_def split: if_splits prod.splits elim!: same_ids_write)
    next
      case ServerCloses
      then have "conn' = stompConn_Close conn" using r open' by (simp add: run_round_def)
      then show ?thesis by (simp add: same_ids_Close)
    qed (use r open' in \<open>simp add: run_round_def\<close>)
  qed (use r in \<open>simp add: run_round_def\<close>)
  then show ?thesis using assms(2,3) same_ids_inv[of contains conn conn'] by (simp add: same_ids_def)
qed

lemma run_ids:
  assumes "header_laws contains" "ids_inv contains conn" "unat (con_currentMessageId conn) + length inps < 2 ^ 64"
  shows "ids_inv contains (stompConn_run werr contains parse_hb inps conn)"
  using assms(2,3)
proof (induction inps arbitrary: conn)
  case (Cons inp inps)
  obtain conn1 b where r: "run_round werr contains parse_hb inp conn = (conn1, b)" by fastforce
  have "ids_inv contains conn1 \<and> unat (con_currentMessageId conn1) \<le> Suc (unat (con_currentMessageId conn))"
    by (rule round_ids[OF assms(1) Cons.prems(1) _ _ r]) (use Cons.prems(2) in auto)
  then show ?case
    using Cons.IH[of conn1] Cons.prems(2) r same_ids_inv[OF same_ids_Close] by (auto split: bool.split)
qed simp

section \<open>Properties\<close>

text \<open>
  C4. Whatever the client sends and whatever the raw connection does, the events a session reports
  to the server follow the protocol: one ConnectionEstablished before anything else but a close, a
  SubscribeToTopic only for an id that is not subscribed, an UnsubscribeFromTopic only for the
  subscription that is open under that id, an IncomingMessage only for an application request
  destination and as a MESSAGE frame, and nothing after ConnectionClosed; every event carries the
  connection's id, and the state the protocol reaches is the connection's own state and table.
\<close>

theorem session_protocol:
  "let conn = stompConn_run werr contains parse_hb inps (NewStompConn new cfg) in
     session_trace cfg Opening (con_events conn) = Some (session_of conn) \<and>
     list_all (\<lambda>e. ev_ConnId e = new) (con_events conn)"
  using conn_inv_run[OF conn_inv_New, of new cfg werr contains parse_hb inps] by (simp add: conn_inv_def Let_def)

text \<open>
  C16. The MESSAGE frames a connection writes are numbered 1, 2, 3 and so on in the order they are
  written, whatever else happens in between, as long as fewer than \<open>2 ^ 64\<close> rounds are run.
\<close>

theorem message_ids_consecutive:
  assumes "header_laws contains" "length inps < 2 ^ 64"
  shows "\<exists>n. message_ids contains (stompConn_run werr contains parse_hb inps (NewStompConn new cfg)) =
    map (\<lambda>i. Some (show_nat (Suc i))) [0..<n]"
proof -
  have "ids_inv contains (NewStompConn new cfg)"
    by (simp add: ids_inv_def message_ids_def NewStompConn_def map_filter_def)
  then have "ids_inv contains (stompConn_run werr contains parse_hb inps (NewStompConn new cfg))"
    by (rule run_ids[OF assms(1)]) (use assms(2) in \<open>simp add: NewStompConn_def\<close>)
  then show ?thesis by (auto simp: ids_inv_def)
qed

definition ex_out :: Frame where
  "ex_out = frame_New ''MESSAGE'' [(''destination'', ''/topic/a''), (''ack'', ''x'')]"

theorem message_ids_consecutive_witness:
  "\<exists>n. message_ids first_value
       (stompConn_run (\<lambda>_ _. None) first_value (\<lambda>_. ((0, 0), None)) [OutFrame ex_out, OutFrame ex_out]
         (NewStompConn ''c'' (NewStompConfig 0 [''/pub'']))) = map (\<lambda>i. Some (show_nat (Suc i))) [0..<n]"
  by (rule message_ids_consecutive[OF first_value_laws]) simp

definition agreed :: "int \<Rightarrow> int \<Rightarrow> int" where
  "agreed hb d = (if d = 0 \<or> hb = 0 then 0 else max d (min hb 999999999 * 1000000))"

lemma wrap64_id: "0 \<le> x \<Longrightarrow> x < 2 ^ 63 \<Longrightarrow> wrap64 x = x"
  unfolding wrap64_def sint_sbintrunc' by (simp add: signed_take_bit_int_eq_self)

lemma applyMinimum_agreed:
  assumes "0 \<le> cf_heartbeat c" "cf_heartbeat c \<le> 9223372036854" "0 \<le> d"
  shows "applyMinimum (minHeartBeat c) d = agreed (cf_heartbeat c) d" "0 \<le> agreed (cf_heartbeat c) d"
  using assms by (auto simp: applyMinimum_def minHeartBeat_def wrap64_id agreed_def Let_def min_def max_def)

lemma to_ms_nonneg: "0 \<le> d \<Longrightarrow> to_ms d = d div 1000000"
  by (cases "d = 0") (auto simp: to_ms_def)

text \<open>
  C15. A CONNECT frame on a fresh connection, without a receipt, with a heart-beat of \<open>cx\<close> and \<open>cy\<close>
  nanoseconds: when the client offers 1.2 or 1.1, the highest of them is chosen; a direction the
  client or the server disables stays disabled, and any other is at least the larger of the
  client's interval and the server's minimum; the CONNECTED frame announces exactly these values,
  and the session is established. When neither is offered, nothing is written and the error is
  "unsupported STOMP version".
\<close>

theorem connect_negotiation:
  assumes "cf_heartbeat (con_config conn) = hb" "con_state conn = connecting" "contains (f_Header f) ''receipt'' = None"
    and "contains (f_Header f) ''accept-version'' = Some offer"
    and "getHeartBeat parse_hb contains f = ((cx, cy), None)" "0 \<le> cx" "0 \<le> cy" "0 \<le> hb" "hb \<le> 9223372036854"
  shows "handleConnect (\<lambda>_ _. None) contains parse_hb f conn =
    (let offered = set (split_on (CHR '','') offer); x = agreed hb cx; y = agreed hb cy in
     if ''1.2'' \<in> offered \<or> ''1.1'' \<in> offered then
       let v = (if ''1.2'' \<in> offered then ''1.2'' else ''1.1'') in
       (emit ConnectionEstablished '''' None None
          (conn\<lparr>con_version := v, con_writeTimeout := y, con_readTimeoutMs := x div 1000000,
             con_writes := con_writes conn @ [(Some (frame_New ''CONNECTED'' [(''version'', v),
               (''server'', ''stompServer/0.0.1''),
               (''heart-beat'', show_int (y div 1000000) @ '','' @ show_int (x div 1000000))]), None)],
             con_state := connected\<rparr>), None)
     else (conn\<lparr>con_version := if ''1.0'' \<in> offered then ''1.0'' else ''''\<rparr>, Some unsupportedStompVersionError))"
proof -
  have v: "determineVersion contains f =
      (if ''1.2'' \<in> set (split_on (CHR '','') offer) then (''1.2'', None)
       else if ''1.1'' \<in> set (split_on (CHR '','') offer) then (''1.1'', None)
       else if ''1.0'' \<in> set (split_on (CHR '','') offer) then (''1.0'', None)
       else ('''', Some unsupportedStompVersionError))"
    using assms(4) by (simp add: determineVersion_def)
  note m = applyMinimum_agreed[of "con_config conn", unfolded assms(1), OF assms(8,9)]
  show ?thesis
    using assms(1-7)
    by (simp add: handleConnect_def containsHeader_def v WriteFrame_def Let_def to_ms_nonneg
        m(1)[OF assms(6)] m(2)[OF assms(6)] m(1)[OF assms(7)] m(2)[OF assms(7)])
qed

definition ex_connect :: Frame where
  "ex_connect = frame_New ''CONNECT'' [(''accept-version'', ''1.1,1.2''), (''heart-beat'', ''5,0'')]"

theorem connect_negotiation_witness:
  "handleConnect (\<lambda>_ _. None) first_value (\<lambda>_. ((5000000, 0), None)) ex_connect (NewStompConn ''c'' (NewStompConfig 20 [])) =
    (let offered = set (split_on (CHR '','') ''1.1,1.2''); x = agreed 20 5000000; y = agreed 20 0 in
     if ''1.2'' \<in> offered \<or> ''1.1'' \<in> offered then
       let v = (if ''1.2'' \<in> offered then ''1.2'' else ''1.1'') in
       (emit ConnectionEstablished '''' None None
          ((NewStompConn ''c'' (NewStompConfig 20 []))\<lparr>con_version := v, con_writeTimeout := y, con_readTimeoutMs := x div 1000000,
             con_writes := con_writes (NewStompConn ''c'' (NewStompConfig 20 [])) @ [(Some (frame_New ''CONNECTED'' [(''version'', v),
               (''server'', ''stompServer/0.0.1''),
               (''heart-beat'', show_int (y div 1000000) @ '','' @ show_int (x div 1000000))]), None)],
             con_state := connected\<rparr>), None)
     else ((NewStompConn ''c'' (NewStompConfig 20 []))\<lparr>con_version := if ''1.0'' \<in> offered then ''1.0'' else ''''\<rparr>, Some unsupportedStompVersionError))"
proof -
  have "con_state (NewStompConn ''c'' (NewStompConfig 20 [])) = connecting"
    "first_value (f_Header ex_connect) ''receipt'' = None"
    "first_value (f_Header ex_connect) ''accept-version'' = Some ''1.1,1.2''"
    "getHeartBeat (\<lambda>_. ((5000000, 0), None)) first_value ex_connect = ((5000000, 0), None)"
    "cf_heartbeat (con_config (NewStompConn ''c'' (NewStompConfig 20 []))) = 20"
    by (simp_all add: NewStompConn_def NewStompConfig_def ex_connect_def frame_New_def getHeartBeat_def)
  from connect_negotiation[OF this(5,1-4)] show ?thesis by simp
qed

text \<open>
  A client that has not connected can do nothing but connect: any other frame is answered with an
  ERROR frame, the raw connection is closed, and the session ends.
\<close>

lemma refused_frame_closes:
  assumes "con_state conn = connecting" "con_closeOnce conn = False"
    and "f_Command f \<in> {''SEND'', ''SUBSCRIBE'', ''UNSUBSCRIBE'', ''DISCONNECT''}"
  shows "stompConn_run werr contains parse_hb (InFrame f # inps) conn =
    (let error = Some (frame_New ''ERROR'' [(''message'', notConnectedStompError)]) in
     conn\<lparr>con_writes := con_writes conn @ [(error, werr (con_writes conn) error)], con_closeOnce := True,
       con_state := closed, con_rawClosed := True,
       con_events := con_events conn @ [\<lparr>ev_ConnId = con_id conn, ev_eventType = ConnectionClosed,
         ev_destination = '''', ev_sub = None, ev_frame = None\<rparr>]\<rparr>)"
  using assms
  by (auto simp: run_round_def handleIncomingFrame_def handleSend_def handleSubscribe_def handleUnsubscribe_def
      handleDisconnect_def sendError_def WriteFrame_def stompConn_Close_def emit_def Let_def)

section \<open>The state of a session only moves on\<close>

text \<open>The states in the order in which a session goes through them.\<close>

instantiation conn_state :: linorder
begin

fun rank_conn_state :: "conn_state \<Rightarrow> nat" where
  "rank_conn_state connecting = 0"
| "rank_conn_state connected = 1"
| "rank_conn_state closed = 2"

definition less_eq_conn_state :: "conn_state \<Rightarrow> conn_state \<Rightarrow> bool" where
  "less_eq_conn_state a b \<longleftrightarrow> rank_conn_state a \<le> rank_conn_state b"

definition less_conn_state :: "conn_state \<Rightarrow> conn_state \<Rightarrow> bool" where
  "less_conn_state a b \<longleftrightarrow> rank_conn_state a < rank_conn_state b"

instance
proof
  fix x y :: conn_state
  assume "x \<le> y" "y \<le> x"
  then show "x = y" by (cases x; cases y) (simp_all add: less_eq_conn_state_def)
qed (auto simp: less_eq_conn_state_def less_conn_state_def)

end

lemma conn_state_bounds [simp]: "connecting \<le> s" "s \<le> closed" "closed \<le> s \<longleftrightarrow> s = closed" "connected \<le> s \<longleftrightarrow> s \<noteq> connecting"
  by (cases s; simp add: less_eq_conn_state_def)+

lemma close_state: "con_state conn \<le> con_state (stompConn_Close conn)"
  by (simp add: stompConn_Close_def emit_def)

lemma write_state [simp]: "con_state (fst (WriteFrame werr f conn)) = con_state conn" "con_state (emit t d x y conn) = con_state conn"
  by (simp_all add: WriteFrame_def Let_def emit_def)

lemma receipt_state [simp]: "con_state (fst (sendReceiptResponse werr contains f conn)) = con_state conn"
  by (simp add: sendReceiptResponse_def WriteFrame_def Let_def split: option.split)

lemma frame_state:
  assumes "con_state conn \<noteq> closed"
  shows "con_state conn \<le> con_state (fst (handleIncomingFrame werr contains parse_hb f conn))"
proof -
  have "con_state conn \<le> con_state (fst (handleConnect werr contains parse_hb f conn))"
    using assms by (cases "con_state conn") (auto simp: handleConnect_def WriteFrame_def Let_def split: prod.split option.split)
  moreover have "con_state conn \<le> con_state (fst (handleDisconnect werr contains f conn))"
    using close_state[of "fst (sendReceiptResponse werr contains f conn)"] by (simp add: handleDisconnect_def)
  moreover have "con_state (fst (handleSubscribe contains f conn)) = con_state conn" "con_state (fst (handleUnsubscribe werr contains f conn)) = con_state conn"
    by (auto simp: handleSubscribe_def handleUnsubscribe_def Let_def split: conn_state.split option.split)
  moreover have "con_state (fst (handleSend werr contains f conn)) = con_state conn"
    using receipt_state[of werr contains f conn] by (auto simp: handleSend_def simp del: receipt_state split: conn_state.split option.split prod.split)
  ultimately show ?thesis by (simp add: handleIncomingFrame_def)
qed

lemma round_state: "con_state conn \<le> con_state (fst (run_round werr contains parse_hb inp conn))"
proof (cases inp)
  case (InFrame f)
  then show ?thesis using frame_state[of conn werr contains parse_hb f]
    by (auto simp: run_round_def sendError_def split: prod.split option.split)
next
  case (OutFrame f)
  have "con_state (fst (populateMessageIdHeader f conn)) = con_state conn" by (simp add: populateMessageIdHeader_def Let_def)
  then show ?thesis using OutFrame by (cases "populateMessageIdHeader f conn") (simp add: run_round_def WriteFrame_def Let_def)
qed (auto simp: run_round_def WriteFrame_def Let_def close_state)

text \<open>
  The state of a session only moves from connecting to connected to closed, whatever it is sent and
  whatever its loop reads; a session that is closed stays so, and its loop does nothing more.
\<close>

theorem session_state_advances:
  "con_state conn \<le> con_state (stompConn_run werr contains parse_hb inps conn) \<and>
   (con_state conn = closed \<longrightarrow> run_round werr contains parse_hb inp conn = (conn, True))"
proof -
  have "con_state conn \<le> con_state (stompConn_run werr contains parse_hb inps conn)"
  proof (induction inps arbitrary: conn)
    case (Cons inp inps)
    obtain conn1 stop where r: "run_round werr contains parse_hb inp conn = (conn1, stop)" by (cases "run_round werr contains parse_hb inp conn")
    then have "con_state conn \<le> con_state conn1" using round_state[of conn werr contains parse_hb inp] by simp
    also have "con_state conn1 \<le> con_state (stompConn_run werr contains parse_hb (inp # inps) conn)"
      using Cons.IH[of conn1] close_state[of conn1] r by (cases stop) simp_all
    finally show ?case .
  qed simp
  then show ?thesis by (simp add: run_round_def)
qed

end
