(* ===== verification/StompServerLaws.thy ===== *)
theory StompServerLaws
  imports StompConnLaws StompServer
begin

text \<open>
  The laws of the STOMP server: its subscription table, its callbacks, the routing of messages,
  and stopping.
\<close>

section \<open>The subscription table\<close>

definition look :: "subsTable \<Rightarrow> string \<Rightarrow> uuid \<Rightarrow> string \<Rightarrow> subscription option" where
  "look t d c i = Option.bind (Option.bind (map_of t d) (\<lambda>m. map_of m c)) (\<lambda>subs. map_of subs i)"

definition table_wf :: "subsTable \<Rightarrow> bool" where
  "table_wf t \<longleftrightarrow> keys_distinct t \<and>
     (\<forall>(d, m) \<in> set t. keys_distinct m \<and>
       (\<forall>(c, subs) \<in> set m. keys_distinct subs \<and>
         (\<forall>(i, sub) \<in> set subs. s_id sub = i \<and> s_destination sub = d)))"

text \<open>The reference: which subscription is open for a destination, a connection and an id.\<close>

definition spec_event :: "ConnEvent \<Rightarrow> (string \<Rightarrow> uuid \<Rightarrow> string \<Rightarrow> subscription option) \<Rightarrow> string \<Rightarrow> uuid \<Rightarrow> string \<Rightarrow> subscription option" where
  "spec_event e L d c i =
     (case (ev_eventType e, ev_sub e) of
        (ConnectionClosed, _) \<Rightarrow> if c = ev_ConnId e then None else L d c i
      | (SubscribeToTopic, Some sub) \<Rightarrow>
          if d = ev_destination e \<and> c = ev_ConnId e \<and> i = s_id sub then Some sub else L d c i
      | (UnsubscribeFromTopic, Some sub) \<Rightarrow>
          if d = ev_destination e \<and> c = ev_ConnId e \<and> i = s_id sub then None else L d c i
      | _ \<Rightarrow> L d c i)"

definition event_ok :: "ConnEvent \<Rightarrow> bool" where
  "event_ok e \<longleftrightarrow>
     (case ev_eventType e of
        SubscribeToTopic \<Rightarrow> map_option s_destination (ev_sub e) = Some (ev_destination e)
      | UnsubscribeFromTopic \<Rightarrow> map_option s_destination (ev_sub e) = Some (ev_destination e)
      | IncomingMessage \<Rightarrow> ev_frame e \<noteq> None
      | _ \<Rightarrow> True)"

lemma look_Nil [simp]: "look [] d c i = None"
  by (simp add: look_def)

lemma look_subscribe:
  "look (AList.update d (AList.update c (AList.update i sub
       (case map_of (case map_of t d of None \<Rightarrow> [] | Some m \<Rightarrow> m) c of None \<Rightarrow> [] | Some m \<Rightarrow> m))
       (case map_of t d of None \<Rightarrow> [] | Some m \<Rightarrow> m)) t) d' c' i' =
     (if d' = d \<and> c' = c \<and> i' = i then Some sub else look t d' c' i')"
  by (auto simp: look_def split: option.splits)

lemma look_unsubscribe:
  assumes "map_of t d = Some m" "map_of m c = Some subs"
  shows "look (AList.update d (AList.update c (AList.delete i subs) m) t) d' c' i' =
     (if d' = d \<and> c' = c \<and> i' = i then None else look t d' c' i')"
  using assms by (auto simp: look_def split: option.splits)

lemma look_drop:
  "look (map (\<lambda>(dest, m). (dest, AList.delete c m)) t) d c' i = (if c' = c then None else look t d c' i)"
  by (auto simp: look_def map_of_map_snd bind_map_option comp_def split: bind_splits)

lemma table_wf_look: "table_wf t \<Longrightarrow> look t d c i = Some sub \<Longrightarrow> s_id sub = i \<and> s_destination sub = d"
  by (fastforce simp: table_wf_def look_def bind_eq_Some_conv dest!: map_of_SomeD)

lemma table_wf_get:
  assumes "table_wf t" "map_of t d = Some m"
  shows "keys_distinct m" "map_of m c = Some subs \<Longrightarrow> keys_distinct subs"
    "map_of m c = Some subs \<Longrightarrow> (i, sub) \<in> set subs \<Longrightarrow> s_id sub = i \<and> s_destination sub = d"
    "(c', subs') \<in> set m \<Longrightarrow> keys_distinct subs' \<and> (\<forall>(i, sub) \<in> set subs'. s_id sub = i \<and> s_destination sub = d)"
  using assms by (fastforce simp: table_wf_def dest!: map_of_SomeD)+

lemma table_wf_update:
  assumes "table_wf t" "keys_distinct m"
    "\<And>c subs. (c, subs) \<in> set m \<Longrightarrow> keys_distinct subs \<and> (\<forall>(i, sub) \<in> set subs. s_id sub = i \<and> s_destination sub = d)"
  shows "table_wf (AList.update d m t)"
proof -
  have "keys_distinct t" using assms(1) by (simp add: table_wf_def)
  then show ?thesis
    using assms by (auto simp: table_wf_def in_set_update split: if_splits) fastforce+
qed

lemma table_wf_drop: "table_wf t \<Longrightarrow> table_wf (map (\<lambda>(dest, m). (dest, AList.delete c m)) t)"
  by (fastforce simp: table_wf_def comp_def case_prod_beta)

lemma subscribe_wf:
  assumes "table_wf (sv_subscriptionsMap s)" "s_destination sub = ev_destination e"
  shows "table_wf (sv_subscriptionsMap (subscribeToTopic e sub s))"
proof -
  let ?t = "sv_subscriptionsMap s" and ?d = "ev_destination e" and ?c = "ev_ConnId e"
  let ?m = "case map_of ?t ?d of None \<Rightarrow> [] | Some m \<Rightarrow> m"
  let ?cs = "case map_of ?m ?c of None \<Rightarrow> [] | Some m \<Rightarrow> m"
  have m: "keys_distinct ?m" "\<And>c subs. (c, subs) \<in> set ?m \<Longrightarrow>
      keys_distinct subs \<and> (\<forall>(i, sub) \<in> set subs. s_id sub = i \<and> s_destination sub = ?d)"
    by (cases "map_of ?t ?d"; use table_wf_get[OF assms(1), of ?d] in auto)+
  have cs: "keys_distinct ?cs \<and> (\<forall>(i, sub) \<in> set ?cs. s_id sub = i \<and> s_destination sub = ?d)"
  proof (cases "map_of ?m ?c")
    case (Some subs)
    show ?thesis unfolding Some using m(2)[OF map_of_SomeD[OF Some]] by simp
  qed simp
  have new: "keys_distinct (AList.update (s_id sub) sub ?cs) \<and>
      (\<forall>(i, sub) \<in> set (AList.update (s_id sub) sub ?cs). s_id sub = i \<and> s_destination sub = ?d)"
    using cs assms(2) by (auto dest!: set_update_in)
  have "table_wf (AList.update ?d (AList.update ?c (AList.update (s_id sub) sub ?cs) ?m) ?t)"
  proof (rule table_wf_update[OF assms(1)])
    show "keys_distinct (AList.update ?c (AList.update (s_id sub) sub ?cs) ?m)" by (rule keys_distinct_update[OF m(1)])
    fix c subs assume "(c, subs) \<in> set (AList.update ?c (AList.update (s_id sub) sub ?cs) ?m)"
    from set_update_in[OF this]
    show "keys_distinct subs \<and> (\<forall>(i, sub) \<in> set subs. s_id sub = i \<and> s_destination sub = ?d)"
    proof
      assume "(c, subs) = (?c, AList.update (s_id sub) sub ?cs)"
      then have "subs = AList.update (s_id sub) sub ?cs" by simp
      from new[folded this] show ?thesis .
    qed (rule m(2))
  qed
  then show ?thesis unfolding subscribeToTopic_def record_calls_def Let_def by simp
qed

lemma unsubscribe_wf:
  assumes "table_wf (sv_subscriptionsMap s)" "unsubscribeFromTopic e s = Done s'"
  shows "table_wf (sv_subscriptionsMap s')"
proof -
  have "table_wf (AList.update d (AList.update c (AList.delete i conSub) m) (sv_subscriptionsMap s))"
    if "map_of (sv_subscriptionsMap s) d = Some m" "map_of m c = Some conSub" for d c i m conSub
    by (rule table_wf_update[OF assms(1)])
      (use table_wf_get[OF assms(1) that(1)] that(2) in \<open>auto dest!: set_update_in\<close>)
  then show ?thesis
    using assms by (auto simp: unsubscribeFromTopic_def record_calls_def Let_def split: option.splits if_splits)
qed

lemma notify_event_fields [simp]:
  "sv_subscriptionsMap (notify_event e s) = sv_subscriptionsMap s"
  "sv_subscribeCallbacks (notify_event e s) = sv_subscribeCallbacks s"
  "sv_unsubscribeCallbacks (notify_event e s) = sv_unsubscribeCallbacks s"
  "sv_config (notify_event e s) = sv_config s" "sv_conns (notify_event e s) = sv_conns s"
  "sv_connectionEvents (notify_event e s) = sv_connectionEvents s" "sv_accepted (notify_event e s) = sv_accepted s"
  "sv_starting (notify_event e s) = sv_starting s"
  by (auto simp: notify_event_def record_calls_def split: option.split)

lemma handle_table:
  assumes "table_wf (sv_subscriptionsMap s)" "event_ok e"
  shows "\<exists>s'. handleConnectionEvent e s = Done s' \<and> table_wf (sv_subscriptionsMap s') \<and>
    look (sv_subscriptionsMap s') = spec_event e (look (sv_subscriptionsMap s)) \<and>
    sv_subscribeCallbacks s' = sv_subscribeCallbacks s \<and> sv_unsubscribeCallbacks s' = sv_unsubscribeCallbacks s"
proof (cases "ev_eventType e")
  case ConnectionClosed
  then show ?thesis
    using table_wf_drop[OF assms(1), of "ev_ConnId e"]
    by (auto simp: handleConnectionEvent_def connectionClosed_def record_calls_def Let_def spec_event_def look_drop fun_eq_iff)
next
  case SubscribeToTopic
  then obtain sub where sub: "ev_sub e = Some sub" "s_destination sub = ev_destination e"
    using assms(2) by (auto simp: event_ok_def)
  have "look (sv_subscriptionsMap (subscribeToTopic e sub s)) = spec_event e (look (sv_subscriptionsMap s))"
    using SubscribeToTopic sub
    by (auto simp: subscribeToTopic_def record_calls_def Let_def spec_event_def look_subscribe fun_eq_iff)
  then show ?thesis
    using SubscribeToTopic sub subscribe_wf[OF assms(1) sub(2)]
    by (auto simp: handleConnectionEvent_def) (auto simp: subscribeToTopic_def record_calls_def Let_def)
next
  case UnsubscribeFromTopic
  then obtain sub where sub: "ev_sub e = Some sub" "s_destination sub = ev_destination e"
    using assms(2) by (auto simp: event_ok_def)
  let ?t = "sv_subscriptionsMap s"
  have idle: "look ?t = spec_event e (look ?t)" if "look ?t (ev_destination e) (ev_ConnId e) (s_id sub) = None"
    using that UnsubscribeFromTopic sub by (auto simp: spec_event_def fun_eq_iff)
  have "is_Done (unsubscribeFromTopic e s)"
    using sub by (auto simp: unsubscribeFromTopic_def Let_def split: option.split)
  then obtain s1 where s1: "unsubscribeFromTopic e s = Done s1" by (cases "unsubscribeFromTopic e s") auto
  have "look (sv_subscriptionsMap s1) = spec_event e (look ?t) \<and>
      sv_subscribeCallbacks s1 = sv_subscribeCallbacks s \<and> sv_unsubscribeCallbacks s1 = sv_unsubscribeCallbacks s"
  proof (cases "look ?t (ev_destination e) (ev_ConnId e) (s_id sub) = None")
    case True
    then have "s1 = s"
      using s1 sub by (auto simp: unsubscribeFromTopic_def Let_def look_def split: option.splits if_splits)
    then show ?thesis using idle[OF True] by simp
  next
    case False
    then obtain m cs where mc: "map_of ?t (ev_destination e) = Some m" "map_of m (ev_ConnId e) = Some cs"
      "map_of cs (s_id sub) \<noteq> None"
      by (auto simp: look_def bind_eq_Some_conv)
    then show ?thesis
      using s1 sub UnsubscribeFromTopic
      by (auto simp: unsubscribeFromTopic_def record_calls_def Let_def spec_event_def look_unsubscribe[OF mc(1,2)] fun_eq_iff)
  qed
  then show ?thesis
    using UnsubscribeFromTopic s1 unsubscribe_wf[OF assms(1) s1] by (auto simp: handleConnectionEvent_def)
next
  case IncomingMessage
  then show ?thesis using assms
    by (auto simp: handleConnectionEvent_def incomingMessage_def record_calls_def event_ok_def spec_event_def fun_eq_iff
        split: option.split)
qed (use assms in \<open>auto simp: handleConnectionEvent_def spec_event_def fun_eq_iff\<close>)

section \<open>The callbacks tell the table\<close>

text \<open>What a listener that was told of every subscription and its end believes to be subscribed.\<close>

fun replay_call :: "nat \<Rightarrow> server_call \<Rightarrow> (string \<times> uuid \<times> string) set \<Rightarrow> (string \<times> uuid \<times> string) set" where
  "replay_call cb (SubscribeCall k c i d _) A = (if k = cb then insert (d, c, i) A else A)"
| "replay_call cb (UnsubscribeCall k c i d) A = (if k = cb then A - {(d, c, i)} else A)"
| "replay_call cb _ A = A"

definition replay :: "nat \<Rightarrow> server_call list \<Rightarrow> (string \<times> uuid \<times> string) set" where
  "replay cb cs = fold (replay_call cb) cs {}"

definition open_subs :: "stompServer \<Rightarrow> (string \<times> uuid \<times> string) set" where
  "open_subs s = {(d, c, i). look (sv_subscriptionsMap s) d c i \<noteq> None}"

lemma replay_append: "replay cb (cs @ cs') = fold (replay_call cb) cs' (replay cb cs)"
  by (simp add: replay_def)

lemma fold_subscribe_calls:
  "fold (replay_call cb) (map (\<lambda>k. SubscribeCall k c i d f) cbs) A =
     (if cb \<in> set cbs then insert (d, c, i) A else A)"
  by (induction cbs arbitrary: A) auto

lemma fold_unsubscribe_calls:
  "fold (replay_call cb) (map (\<lambda>k. UnsubscribeCall k c i d) cbs) A = (if cb \<in> set cbs then A - {(d, c, i)} else A)"
  by (induction cbs arbitrary: A) auto

lemma fold_dropped_calls:
  assumes "cb \<in> set cbs"
  shows "fold (replay_call cb)
      (concat (map (\<lambda>sub. map (\<lambda>k. UnsubscribeCall k c (s_id sub) (s_destination sub)) cbs) subs)) A =
    A - {(s_destination sub, c, s_id sub) | sub. sub \<in> set subs}"
  using assms by (induction subs arbitrary: A) (auto simp: fold_unsubscribe_calls)

lemma in_dropped:
  "sub \<in> set (dropped c t) \<longleftrightarrow> (\<exists>d m subs i. (d, m) \<in> set t \<and> map_of m c = Some subs \<and> (i, sub) \<in> set subs)"
proof -
  have "sub \<in> set (case map_of m c of None \<Rightarrow> [] | Some subs \<Rightarrow> map snd subs) \<longleftrightarrow>
      (\<exists>subs i. map_of m c = Some subs \<and> (i, sub) \<in> set subs)" for m :: "(uuid \<times> connSubscriptions) list"
    by (cases "map_of m c") force+
  then have "sub \<in> set (dropped c (p # t')) \<longleftrightarrow> (\<exists>subs i. map_of (snd p) c = Some subs \<and> (i, sub) \<in> set subs) \<or>
      sub \<in> set (dropped c t')" for p t'
    by (cases p) (simp add: dropped_def)
  note step = this
  have nil: "dropped c [] = []" by (simp add: dropped_def)
  show ?thesis
  proof (induction t)
    case (Cons p t)
    show ?case unfolding step Cons.IH by (cases p) auto
  qed (simp add: nil)
qed

lemma set_dropped:
  assumes "table_wf t"
  shows "{(s_destination sub, c, s_id sub) | sub. sub \<in> set (dropped c t)} = {(d, c, i) | d i. look t d c i \<noteq> None}"
proof -
  have "(\<exists>sub\<in>set (dropped c t). d = s_destination sub \<and> i = s_id sub) \<longleftrightarrow> look t d c i \<noteq> None" for d i
  proof
    assume "\<exists>sub\<in>set (dropped c t). d = s_destination sub \<and> i = s_id sub"
    then obtain d' m subs i' sub where sub: "(d', m) \<in> set t" "map_of m c = Some subs" "(i', sub) \<in> set subs"
      "d = s_destination sub" "i = s_id sub"
      by (auto simp: in_dropped)
    then have m: "map_of t d' = Some m" using assms by (simp add: table_wf_def)
    from table_wf_get(2,3)[OF assms m sub(2)] sub have "d = d'" "i = i'" "map_of subs i = Some sub" by auto
    then show "look t d c i \<noteq> None" using m sub(2) by (simp add: look_def)
  next
    assume "look t d c i \<noteq> None"
    then obtain m subs sub where m: "map_of t d = Some m" "map_of m c = Some subs" "map_of subs i = Some sub"
      by (auto simp: look_def bind_eq_Some_conv)
    then have "sub \<in> set (dropped c t)"
      unfolding in_dropped by (blast dest: map_of_SomeD)
    moreover have "s_id sub = i \<and> s_destination sub = d"
      using table_wf_get(3)[OF assms m(1,2)] m(3) by (auto dest: map_of_SomeD)
    ultimately show "\<exists>sub\<in>set (dropped c t). d = s_destination sub \<and> i = s_id sub" by auto
  qed
  note iff = this
  show ?thesis
  proof (intro set_eqI iffI)
    fix x assume "x \<in> {(s_destination sub, c, s_id sub) | sub. sub \<in> set (dropped c t)}"
    then show "x \<in> {(d, c, i) | d i. look t d c i \<noteq> None}" using iff by blast
  next
    fix x assume "x \<in> {(d, c, i) | d i. look t d c i \<noteq> None}"
    then show "x \<in> {(s_destination sub, c, s_id sub) | sub. sub \<in> set (dropped c t)}" using iff by blast
  qed
qed

lemma replay_notify [simp]: "replay cb (sv_calls (notify_event e s)) = replay cb (sv_calls s)"
  by (auto simp: notify_event_def record_calls_def replay_append split: option.split)

definition told :: "nat \<Rightarrow> stompServer \<Rightarrow> bool" where
  "told cb s \<longleftrightarrow> cb \<in> set (sv_subscribeCallbacks s) \<and> cb \<in> set (sv_unsubscribeCallbacks s) \<and>
     replay cb (sv_calls s) = open_subs s"

lemma handle_told:
  assumes "table_wf (sv_subscriptionsMap s)" "event_ok e" "told cb s" "handleConnectionEvent e s = Done s'"
  shows "told cb s'"
proof -
  from handle_table[OF assms(1,2)] assms(4)
  have L: "look (sv_subscriptionsMap s') = spec_event e (look (sv_subscriptionsMap s))"
    and cbs: "sv_subscribeCallbacks s' = sv_subscribeCallbacks s" "sv_unsubscribeCallbacks s' = sv_unsubscribeCallbacks s"
    by auto
  have old: "replay cb (sv_calls s) = open_subs s" and cb: "cb \<in> set (sv_subscribeCallbacks s)" "cb \<in> set (sv_unsubscribeCallbacks s)"
    using assms(3) by (auto simp: told_def)
  have O: "open_subs s' = {(d, c, i). spec_event e (look (sv_subscriptionsMap s)) d c i \<noteq> None}"
    by (simp add: open_subs_def L)
  have "replay cb (sv_calls s') = open_subs s'"
  proof (cases "ev_eventType e")
    case ConnectionClosed
    then have s': "s' = notify_event e (connectionClosed e s)" using assms(4) by (simp add: handleConnectionEvent_def)
    have "replay cb (sv_calls s') = open_subs s - {(d, ev_ConnId e, i) | d i. look (sv_subscriptionsMap s) d (ev_ConnId e) i \<noteq> None}"
      unfolding s' replay_notify
      by (simp add: connectionClosed_def record_calls_def Let_def replay_append fold_dropped_calls[OF cb(2)]
          set_dropped[OF assms(1)] old)
    then show ?thesis using ConnectionClosed unfolding O by (auto simp: open_subs_def spec_event_def)
  next
    case SubscribeToTopic
    then obtain sub where sub: "ev_sub e = Some sub" using assms(2) by (auto simp: event_ok_def)
    then have "replay cb (sv_calls s') = insert (ev_destination e, ev_ConnId e, s_id sub) (open_subs s)"
      using SubscribeToTopic assms(4) old cb
      by (auto simp: handleConnectionEvent_def subscribeToTopic_def record_calls_def Let_def replay_append fold_subscribe_calls)
    then show ?thesis using SubscribeToTopic sub unfolding O by (auto simp: open_subs_def spec_event_def)
  next
    case UnsubscribeFromTopic
    then obtain sub s1 where sub: "ev_sub e = Some sub" and s1: "unsubscribeFromTopic e s = Done s1" "s' = notify_event e s1"
      using assms(2,4) by (auto simp: event_ok_def handleConnectionEvent_def go_simps)
    have "replay cb (sv_calls s1) = open_subs s - {(ev_destination e, ev_ConnId e, s_id sub)}"
      using s1(1) sub old cb
      by (auto simp: unsubscribeFromTopic_def record_calls_def Let_def replay_append fold_unsubscribe_calls
          open_subs_def look_def split: option.splits if_splits)
    then have "replay cb (sv_calls s') = open_subs s - {(ev_destination e, ev_ConnId e, s_id sub)}" by (simp add: s1(2))
    then show ?thesis using UnsubscribeFromTopic sub unfolding O by (auto simp: open_subs_def spec_event_def)
  next
    case IncomingMessage
    have n: "fold (replay_call cb) (map (\<lambda>k. AppRequestCall k d b c) ks) A = A" for d b c ks A
      by (induction ks arbitrary: A) auto
    have "replay cb (sv_calls s') = open_subs s"
      using IncomingMessage assms(4) old
      by (auto simp: handleConnectionEvent_def incomingMessage_def record_calls_def go_simps replay_append n
          split: if_splits option.splits)
    then show ?thesis using IncomingMessage unfolding O by (simp add: open_subs_def spec_event_def)
  next
    case ConnectionStarting
    then have s': "s' = notify_event e (s\<lparr>sv_connectionsMap := List.insert (ev_ConnId e) (sv_connectionsMap s)\<rparr>)"
      using assms(4) by (simp add: handleConnectionEvent_def)
    have "replay cb (sv_calls s') = open_subs s" unfolding s' replay_notify using old by simp
    then show ?thesis using ConnectionStarting unfolding O by (simp add: open_subs_def spec_event_def)
  next
    case ConnectionEstablished
    then have "s' = s" using assms(4) by (simp add: handleConnectionEvent_def)
    then have "replay cb (sv_calls s') = open_subs s" using old by simp
    then show ?thesis using ConnectionEstablished unfolding O by (simp add: open_subs_def spec_event_def)
  qed
  then show ?thesis using cb cbs by (simp add: told_def)
qed

fun handle_events :: "ConnEvent list \<Rightarrow> stompServer \<Rightarrow> stompServer go" where
  "handle_events [] s = Done s"
| "handle_events (e # es) s = go_bind (handleConnectionEvent e s) (handle_events es)"

lemma handle_events_table:
  assumes "table_wf (sv_subscriptionsMap s)" "list_all event_ok es" "told cb s"
  shows "\<exists>s'. handle_events es s = Done s' \<and>
    look (sv_subscriptionsMap s') = fold spec_event es (look (sv_subscriptionsMap s)) \<and> told cb s'"
  using assms
proof (induction es arbitrary: s)
  case (Cons e es)
  then have ok: "event_ok e" "list_all event_ok es" by auto
  from handle_table[OF Cons.prems(1) ok(1)] obtain s1 where s1: "handleConnectionEvent e s = Done s1"
    "table_wf (sv_subscriptionsMap s1)" "look (sv_subscriptionsMap s1) = spec_event e (look (sv_subscriptionsMap s))"
    by auto
  from Cons.IH[OF s1(2) ok(2) handle_told[OF Cons.prems(1) ok(1) Cons.prems(3) s1(1)]] show ?case
    by (simp add: s1(1,3))
qed simp

section \<open>Sending\<close>

text \<open>The frames a broadcast to a destination, or a private message, adds to a connection's queue.\<close>

definition queued :: "Frame \<Rightarrow> connSubscriptions \<Rightarrow> Frame list" where
  "queued f subs = map (\<lambda>(i, sub). addressed f sub) subs"

lemma send_to_subs_done:
  "length (sv_outFrames s c) + length subs \<le> 32 \<Longrightarrow>
     send_to_subs c f subs s = Done (s\<lparr>sv_outFrames := (sv_outFrames s)(c := sv_outFrames s c @ queued f subs)\<rparr>)"
  by (induction subs arbitrary: s) (auto simp: SendFrameToSubscription_def queued_def)

lemma send_to_subs_block:
  "length (sv_outFrames s c) \<le> 32 \<Longrightarrow> 32 < length (sv_outFrames s c) + length subs \<Longrightarrow> send_to_subs c f subs s = Block"
  by (induction subs arbitrary: s) (auto simp: SendFrameToSubscription_def)

definition out_of :: "(uuid \<times> connSubscriptions) list \<Rightarrow> uuid \<Rightarrow> connSubscriptions" where
  "out_of m c = (case map_of m c of None \<Rightarrow> [] | Some subs \<Rightarrow> subs)"

lemma send_to_conns_done:
  assumes "keys_distinct m" "\<And>c. length (sv_outFrames s c) + length (out_of m c) \<le> 32"
  shows "send_to_conns f m s = Done (s\<lparr>sv_outFrames := \<lambda>c. sv_outFrames s c @ queued f (out_of m c)\<rparr>)"
  using assms
proof (induction m arbitrary: s)
  case (Cons p m)
  obtain c subs where p: "p = (c, subs)" by (cases p)
  let ?s1 = "s\<lparr>sv_outFrames := (sv_outFrames s)(c := sv_outFrames s c @ queued f subs)\<rparr>"
  have c: "c \<notin> fst ` set m" using Cons.prems(1) p by auto
  then have none: "map_of m c = None" by (simp add: map_of_eq_None_iff)
  have 1: "send_to_subs c f subs s = Done ?s1"
    using Cons.prems(2)[of c] by (intro send_to_subs_done) (simp add: p out_of_def)
  have room: "length (sv_outFrames ?s1 d) + length (out_of m d) \<le> 32" for d
    using Cons.prems(2)[of d] none by (auto simp: p out_of_def queued_def)
  have fin: "(\<lambda>d. sv_outFrames ?s1 d @ queued f (out_of m d)) = (\<lambda>d. sv_outFrames s d @ queued f (out_of ((c, subs) # m) d))"
    using none by (auto simp: fun_eq_iff out_of_def queued_def)
  show ?case using Cons.IH[OF _ room] Cons.prems(1) 1 by (simp add: p fin[simplified])
qed (simp add: out_of_def queued_def)

lemma subs_of_out: "(case map_of t d of None \<Rightarrow> [] | Some m \<Rightarrow> out_of m c) = subs \<Longrightarrow> look t d c i = map_of subs i"
  by (auto simp: look_def out_of_def split: option.splits)

definition subs_of :: "subsTable \<Rightarrow> string \<Rightarrow> uuid \<Rightarrow> connSubscriptions" where
  "subs_of t d c = (case map_of t d of None \<Rightarrow> [] | Some m \<Rightarrow> out_of m c)"

lemma map_of_subs_of: "map_of (subs_of t d c) i = look t d c i"
  by (simp add: subs_of_def subs_of_out[OF refl])

section \<open>Properties\<close>

text \<open>
  C7. Handling any sequence of the events that connections produce never fails, keeps in the
  subscription table exactly the subscriptions opened and not yet ended by an unsubscribe or by
  the end of their connection, and tells every registered listener exactly the same: what a
  listener knows from its subscribe and unsubscribe callbacks is always the table.
\<close>

theorem subscription_table_refines:
  assumes "list_all event_ok es" "sv_subscriptionsMap s = []" "sv_calls s = []"
    and "cb \<in> set (sv_subscribeCallbacks s)" "cb \<in> set (sv_unsubscribeCallbacks s)"
  shows "\<exists>s'. handle_events es s = Done s' \<and>
    look (sv_subscriptionsMap s') = fold spec_event es (\<lambda>_ _ _. None) \<and>
    replay cb (sv_calls s') = {(d, c, i). fold spec_event es (\<lambda>_ _ _. None) d c i \<noteq> None}"
proof -
  have "told cb s" using assms by (simp add: told_def replay_def open_subs_def)
  moreover have "table_wf (sv_subscriptionsMap s)" using assms(2) by (simp add: table_wf_def)
  moreover have "look (sv_subscriptionsMap s) = (\<lambda>_ _ _. None)" using assms(2) by (simp add: fun_eq_iff)
  ultimately obtain s' where s': "handle_events es s = Done s'"
    "look (sv_subscriptionsMap s') = fold spec_event es (\<lambda>_ _ _. None)" "told cb s'"
    using handle_events_table[OF _ assms(1)] by metis
  then show ?thesis by (simp add: told_def open_subs_def)
qed

definition ex_stomp_server :: stompServer where
  "ex_stomp_server = OnUnsubscribeEvent 0 (OnSubscribeEvent 0 (NewStompServer (NewStompConfig 0 [''/pub''])))"

definition ex_event :: "StompSessionEventType \<Rightarrow> string \<Rightarrow> ConnEvent" where
  "ex_event ty d = \<lparr>ev_ConnId = ''c'', ev_eventType = ty, ev_destination = d,
     ev_sub = Some \<lparr>s_id = ''1'', s_destination = d\<rparr>, ev_frame = None\<rparr>"

theorem subscription_table_refines_witness:
  "\<exists>s'. handle_events [ex_event SubscribeToTopic ''/t/a'', ex_event ConnectionClosed ''''] ex_stomp_server = Done s' \<and>
    look (sv_subscriptionsMap s') = fold spec_event [ex_event SubscribeToTopic ''/t/a'', ex_event ConnectionClosed ''''] (\<lambda>_ _ _. None) \<and>
    replay 0 (sv_calls s') = {(d, c, i). fold spec_event [ex_event SubscribeToTopic ''/t/a'', ex_event ConnectionClosed ''''] (\<lambda>_ _ _. None) d c i \<noteq> None}"
  by (rule subscription_table_refines)
    (simp_all add: ex_event_def event_ok_def ex_stomp_server_def OnUnsubscribeEvent_def OnSubscribeEvent_def NewStompServer_def)

text \<open>
  C17. A message to a destination is queued exactly once for every subscription to it, addressed
  to that subscription, at the end of its connection's queue and nowhere else; a private message
  only for the subscriptions of the one connection. It needs room in the queues: when a connection
  has more to take than its queue of 32 holds, the server's only goroutine waits for it.
\<close>

theorem message_routing:
  assumes "table_wf (sv_subscriptionsMap s)"
  shows "((\<forall>c. length (sv_outFrames s c) + length (subs_of (sv_subscriptionsMap s) dest c) \<le> 32) \<longrightarrow>
      sendFrame dest f s =
        Done (s\<lparr>sv_outFrames := \<lambda>c. sv_outFrames s c @ queued f (subs_of (sv_subscriptionsMap s) dest c)\<rparr>)) \<and>
    (length (sv_outFrames s c) + length (subs_of (sv_subscriptionsMap s) dest c) \<le> 32 \<longrightarrow>
      sendFrameToClient c dest f s =
        Done (s\<lparr>sv_outFrames := (sv_outFrames s)(c := sv_outFrames s c @ queued f (subs_of (sv_subscriptionsMap s) dest c))\<rparr>)) \<and>
    (length (sv_outFrames s c) \<le> 32 \<and> 32 < length (sv_outFrames s c) + length (subs_of (sv_subscriptionsMap s) dest c) \<longrightarrow>
      sendFrameToClient c dest f s = Block)"
proof (cases "map_of (sv_subscriptionsMap s) dest")
  case None
  then show ?thesis by (simp add: sendFrame_def sendFrameToClient_def subs_of_def queued_def)
next
  case (Some m)
  have "sendFrame dest f s = Done (s\<lparr>sv_outFrames := \<lambda>c. sv_outFrames s c @ queued f (out_of m c)\<rparr>)"
    if "\<And>c. length (sv_outFrames s c) + length (out_of m c) \<le> 32"
    using send_to_conns_done[OF table_wf_get(1)[OF assms Some] that] by (simp add: sendFrame_def Some)
  then show ?thesis
    by (auto simp: Some subs_of_def sendFrameToClient_def out_of_def queued_def
        intro!: send_to_subs_done[unfolded queued_def] send_to_subs_block split: option.splits)
qed

definition ex_subscribed :: stompServer where
  "ex_subscribed = ex_stomp_server\<lparr>sv_subscriptionsMap :=
     [(''/t/a'', [(''c'', [(''1'', \<lparr>s_id = ''1'', s_destination = ''/t/a''\<rparr>)])])]\<rparr>"

lemma ex_subscribed_fields:
  "sv_subscriptionsMap ex_subscribed = [(''/t/a'', [(''c'', [(''1'', \<lparr>s_id = ''1'', s_destination = ''/t/a''\<rparr>)])])]"
  "sv_outFrames ex_subscribed = (\<lambda>_. [])"
  by (simp_all add: ex_subscribed_def ex_stomp_server_def OnUnsubscribeEvent_def OnSubscribeEvent_def NewStompServer_def)

theorem message_routing_witness:
  "sendFrame ''/t/a'' ex_out ex_subscribed = Done (ex_subscribed\<lparr>sv_outFrames :=
      (\<lambda>c. if c = ''c'' then [addressed ex_out \<lparr>s_id = ''1'', s_destination = ''/t/a''\<rparr>] else [])\<rparr>) \<and>
    sendFrameToClient ''d'' ''/t/a'' ex_out ex_subscribed = Done ex_subscribed"
proof -
  have "table_wf (sv_subscriptionsMap ex_subscribed)" by (simp add: ex_subscribed_fields table_wf_def)
  moreover have same: "ex_subscribed\<lparr>sv_outFrames := \<lambda>_. []\<rparr> = ex_subscribed" by (simp flip: ex_subscribed_fields(2))
  have out: "(\<lambda>c. queued ex_out (subs_of [(''/t/a'', [(''c'', [(''1'', sub)])])] ''/t/a'' c)) =
      (\<lambda>c. if c = ''c'' then [addressed ex_out sub] else [])" for sub
    by (rule ext) (simp add: subs_of_def out_of_def queued_def)
  ultimately show ?thesis
    using message_routing[of ex_subscribed "''/t/a''" ex_out "''d''"]
    by (simp add: ex_subscribed_fields out) (simp add: subs_of_def out_of_def queued_def same fun_upd_def)
qed

section \<open>Stopping\<close>

lemma post_Close:
  "post c (stompConn_Close (sv_conns s c)) s =
     (if con_closeOnce (sv_conns s c) then Done s
      else push_event \<lparr>ev_ConnId = con_id (sv_conns s c), ev_eventType = ConnectionClosed, ev_destination = '''', ev_sub = None, ev_frame = None\<rparr>
        (s\<lparr>sv_conns := (sv_conns s)(c := stompConn_Close (sv_conns s c))\<rparr>))"
proof -
  have id: "s\<lparr>sv_conns := (sv_conns s)(c := sv_conns s c)\<rparr> = s" by simp
  have bind: "go_bind m (push_events []) = m" for m by (cases m) auto
  show ?thesis by (auto simp: post_def stompConn_Close_def emit_def id bind)
qed

definition unclosed :: "stompServer \<Rightarrow> uuid list" where
  "unclosed s = filter (\<lambda>c. \<not> con_closeOnce (sv_conns s c)) (sv_connectionsMap s)"

lemma close_all_outcome:
  assumes "distinct cs" "length (sv_connectionEvents s) \<le> 64"
  shows "if length (sv_connectionEvents s) + length (filter (\<lambda>c. \<not> con_closeOnce (sv_conns s c)) cs) \<le> 64
    then \<exists>s'. close_all cs s = Done s' \<and> sv_connectionsMap s' = sv_connectionsMap s \<and>
      (\<forall>c. sv_conns s' c = (if c \<in> set cs then stompConn_Close (sv_conns s c) else sv_conns s c))
    else close_all cs s = Block"
  using assms
proof (induction cs arbitrary: s)
  case (Cons c cs)
  let ?s1 = "s\<lparr>sv_conns := (sv_conns s)(c := stompConn_Close (sv_conns s c)),
    sv_connectionEvents := sv_connectionEvents s @ [\<lparr>ev_ConnId = con_id (sv_conns s c), ev_eventType = ConnectionClosed,
      ev_destination = '''', ev_sub = None, ev_frame = None\<rparr>]\<rparr>"
  show ?case
  proof (cases "con_closeOnce (sv_conns s c)")
    case True
    then have same: "stompConn_Close (sv_conns s c) = sv_conns s c" by (simp add: stompConn_Close_def)
    have "closeConnection c s = Done s" using True by (simp add: closeConnection_def post_Close)
    then show ?thesis using True Cons.IH[of s] Cons.prems same by (auto split: if_splits)
  next
    case False
    have same: "filter (\<lambda>d. \<not> con_closeOnce (sv_conns ?s1 d)) cs = filter (\<lambda>d. \<not> con_closeOnce (sv_conns s d)) cs"
      using Cons.prems(1) by (auto intro!: filter_cong)
    show ?thesis
    proof (cases "length (sv_connectionEvents s) < 64")
      case True
      then have one: "closeConnection c s = Done ?s1" using False by (simp add: closeConnection_def post_Close push_event_def)
      show ?thesis
      proof (cases "length (sv_connectionEvents ?s1) + length (filter (\<lambda>d. \<not> con_closeOnce (sv_conns s d)) cs) \<le> 64")
        case True
        with Cons.IH[of ?s1] Cons.prems(1) same \<open>length (sv_connectionEvents s) < 64\<close> obtain s' where s':
          "close_all cs ?s1 = Done s'" "sv_connectionsMap s' = sv_connectionsMap s"
          "\<forall>d. sv_conns s' d = (if d \<in> set cs then stompConn_Close (sv_conns ?s1 d) else sv_conns ?s1 d)"
          by (auto simp del: fun_upd_apply)
        then have "\<forall>d. sv_conns s' d = (if d \<in> set (c # cs) then stompConn_Close (sv_conns s d) else sv_conns s d)"
          using Cons.prems(1) by auto
        then show ?thesis using one s'(1,2) True False by auto
      next
        case over: False
        with Cons.IH[of ?s1] Cons.prems(1) same \<open>length (sv_connectionEvents s) < 64\<close> have "close_all cs ?s1 = Block"
          by (simp del: fun_upd_apply)
        then show ?thesis using one over False by simp
      qed
    next
      case full: False
      then show ?thesis using False by (simp add: closeConnection_def post_Close push_event_def)
    qed
  qed
qed simp


definition ex_many :: stompServer where
  "ex_many = (NewStompServer (NewStompConfig 0 []))\<lparr>sv_connectionsMap := map show_nat [0..<65]\<rparr>"


end
