(* ===== verification/StompSystem.thy ===== *)
theory StompSystem
  imports StompServerLaws
begin

text \<open>
  The STOMP server and its connections as one system: the interleavings of their goroutines, the
  invariant they keep, and the agreement of the server's table with the sessions.
\<close>

section \<open>The server and its connections together\<close>

text \<open>The steps of the server's goroutines, of its connections and of its users, in any order.\<close>

inductive server_step ::
  "werr \<Rightarrow> contains \<Rightarrow> (string \<Rightarrow> (int \<times> int) \<times> error option) \<Rightarrow> stompServer \<Rightarrow> stompServer \<Rightarrow> bool"
  for werr contains parse_hb where
  accept: "new \<notin> set (sv_accepted s) \<Longrightarrow> server_step werr contains parse_hb s (acceptConnection new s)"
| announce: "announceConnection s = Done s' \<Longrightarrow> server_step werr contains parse_hb s s'"
| connection: "c \<in> set (sv_accepted s) \<Longrightarrow> conn_round werr contains parse_hb c inp s = Done s' \<Longrightarrow>
    server_step werr contains parse_hb s s'"
| serve: "server_run api s = Done s' \<Longrightarrow> server_step werr contains parse_hb s s'"
| send: "SendMessage d b s = Done s' \<Longrightarrow> server_step werr contains parse_hb s s'"
| send_to: "SendMessageToClient c d b s = Done s' \<Longrightarrow> server_step werr contains parse_hb s s'"
| stop: "server_Stop s = Done s' \<Longrightarrow> server_step werr contains parse_hb s s'"

definition pending :: "uuid \<Rightarrow> stompServer \<Rightarrow> ConnEvent list" where
  "pending c s = filter (\<lambda>e. ev_ConnId e = c \<and> ev_eventType e \<noteq> ConnectionStarting) (sv_connectionEvents s)"

text \<open>What the table holds for a connection whose session is in a given state.\<close>

definition slice :: "session \<Rightarrow> string \<Rightarrow> string \<Rightarrow> subscription option" where
  "slice ses d i =
     (case ses of
        Open subs \<Rightarrow> (case subs i of Some sub \<Rightarrow> if s_destination sub = d then Some sub else None | None \<Rightarrow> None)
      | _ \<Rightarrow> None)"

definition conn_agrees :: "stompServer \<Rightarrow> uuid \<Rightarrow> bool" where
  "conn_agrees s c \<longleftrightarrow> conn_inv c (sv_config s) (sv_conns s c) \<and>
     (\<exists>handled ses. con_events (sv_conns s c) = handled @ pending c s \<and>
        session_trace (sv_config s) Opening handled = Some ses \<and>
        (\<forall>d i. look (sv_subscriptionsMap s) d c i = slice ses d i))"

definition sys_inv :: "stompServer \<Rightarrow> bool" where
  "sys_inv s \<longleftrightarrow> table_wf (sv_subscriptionsMap s) \<and>
     (\<forall>e \<in> set (sv_connectionEvents s). ev_ConnId e \<in> set (sv_accepted s)) \<and>
     set (sv_connectionsMap s) \<subseteq> set (sv_accepted s) \<and> set_option (sv_starting s) \<subseteq> set (sv_accepted s) \<and>
     (\<forall>c \<in> set (sv_accepted s). conn_agrees s c) \<and>
     (\<forall>c d i. c \<notin> set (sv_accepted s) \<longrightarrow> look (sv_subscriptionsMap s) d c i = None)"

lemma session_step_event:
  assumes "session_step cfg ses e = Some ses'"
  shows "event_ok e" "ev_eventType e \<noteq> ConnectionStarting"
    "\<And>L. (\<And>d i. L d (ev_ConnId e) i = slice ses d i) \<Longrightarrow> spec_event e L d (ev_ConnId e) i = slice ses' d i"
  using assms
  by (cases "ev_eventType e"; cases ses; auto simp: session_step_def event_ok_def spec_event_def slice_def
      split: option.splits if_splits)+

lemma session_trace_no_starting:
  "session_trace cfg ses es = Some ses' \<Longrightarrow> list_all (\<lambda>e. ev_eventType e \<noteq> ConnectionStarting) es"
  by (induction es arbitrary: ses) (auto simp: bind_eq_Some_conv dest: session_step_event(2))

section \<open>A connection's events only grow\<close>

definition events_grow :: "stompConn \<Rightarrow> stompConn \<Rightarrow> bool" where
  "events_grow conn conn' \<longleftrightarrow> (\<exists>es. con_events conn' = con_events conn @ es)"

lemma events_grow_simps [simp]:
  "events_grow conn conn" "events_grow conn (conn\<lparr>con_writes := w\<rparr>)" "events_grow conn (conn\<lparr>con_version := v\<rparr>)"
  by (auto simp: events_grow_def)

lemma events_grow_trans: "events_grow a b \<Longrightarrow> events_grow b c \<Longrightarrow> events_grow a c"
  by (auto simp: events_grow_def)

lemma events_grow_Close: "events_grow conn (stompConn_Close conn)"
  by (auto simp: events_grow_def stompConn_Close_def emit_def)

lemma events_grow_handle: "events_grow conn (fst (handleIncomingFrame werr contains parse_hb f conn))"
proof -
  obtain c1 f1 r where rc: "sendReceiptResponse werr contains f conn = (c1, f1, r)" by (metis prod_cases3)
  have c1: "con_events c1 = con_events conn" "con_subscriptions c1 = con_subscriptions conn"
    using sendReceiptResponse_state[OF rc] by auto
  have "events_grow conn (fst (handleSend werr contains f conn))"
    by (auto simp: handleSend_def rc events_grow_def emit_def c1 split: option.split conn_state.split)
  moreover have "events_grow conn (fst (handleUnsubscribe werr contains f conn))"
    by (auto simp: handleUnsubscribe_def rc events_grow_def emit_def c1 Let_def split: option.split conn_state.split)
  moreover have "events_grow conn (fst (handleSubscribe contains f conn))"
    by (auto simp: handleSubscribe_def events_grow_def emit_def Let_def split: option.split conn_state.split)
  moreover have "events_grow conn (fst (handleDisconnect werr contains f conn))"
    by (auto simp: handleDisconnect_def rc events_grow_def stompConn_Close_def emit_def c1)
  moreover have "events_grow conn (fst (handleConnect werr contains parse_hb f conn))"
    by (auto simp: handleConnect_def events_grow_def emit_def WriteFrame_def Let_def split: prod.split option.split)
  ultimately show ?thesis by (simp add: handleIncomingFrame_def)
qed

lemma events_grow_round: "events_grow conn (fst (run_round werr contains parse_hb inp conn))"
proof (cases inp)
  case (InFrame f)
  obtain c1 e where h: "handleIncomingFrame werr contains parse_hb f conn = (c1, e)" by fastforce
  have "events_grow conn c1" using events_grow_handle[of conn werr contains parse_hb f] h by simp
  then show ?thesis
    by (cases e) (auto simp: run_round_def InFrame h sendError_def WriteFrame_def Let_def events_grow_def)
next
  case ServerCloses
  then show ?thesis by (simp add: run_round_def events_grow_Close)
qed (auto simp: run_round_def WriteFrame_def populateMessageIdHeader_def Let_def events_grow_def)

section \<open>Frame lemmas\<close>

lemma push_events_Done:
  "push_events es s = Done s' \<Longrightarrow> s' = s\<lparr>sv_connectionEvents := sv_connectionEvents s @ es\<rparr>"
proof (induction es arbitrary: s)
  case (Cons e es)
  then have "push_events es (s\<lparr>sv_connectionEvents := sv_connectionEvents s @ [e]\<rparr>) = Done s'"
    by (auto simp: push_event_def split: if_splits)
  from Cons.IH[OF this] show ?case by simp
qed simp

lemma sends_only_queue:
  "send_to_subs c f subs s = Done s' \<Longrightarrow> \<exists>q. s' = s\<lparr>sv_outFrames := q\<rparr>"
proof (induction subs arbitrary: s)
  case (Cons p subs)
  then obtain q where "send_to_subs c f subs (s\<lparr>sv_outFrames := q\<rparr>) = Done s'"
    by (cases p) (auto simp: SendFrameToSubscription_def split: if_splits)
  from Cons.IH[OF this] show ?case by simp
next
  case Nil
  then show ?case by (intro exI[of _ "sv_outFrames s"]) simp
qed

lemma broadcast_only_queue:
  "send_to_conns f m s = Done s' \<Longrightarrow> \<exists>q. s' = s\<lparr>sv_outFrames := q\<rparr>"
proof (induction m arbitrary: s)
  case (Cons p m)
  obtain c subs where p: "p = (c, subs)" by (cases p)
  with Cons.prems obtain s1 where s1: "send_to_subs c f subs s = Done s1" "send_to_conns f m s1 = Done s'"
    by (auto simp: go_simps)
  from sends_only_queue[OF s1(1)] Cons.IH[OF s1(2)] show ?case by auto
next
  case Nil
  then show ?case by (intro exI[of _ "sv_outFrames s"]) simp
qed

lemma handle_frame:
  assumes "handleConnectionEvent e s = Done s'"
  shows "sv_config s' = sv_config s" "sv_conns s' = sv_conns s" "sv_accepted s' = sv_accepted s"
    "sv_connectionEvents s' = sv_connectionEvents s" "sv_starting s' = sv_starting s"
    "set (sv_connectionsMap s') \<subseteq> insert (ev_ConnId e) (set (sv_connectionsMap s))"
proof -
  have m: "sv_connectionsMap (notify_event e s1) = sv_connectionsMap s1" for s1
    by (simp add: notify_event_def record_calls_def split: option.split)
  note defs = handleConnectionEvent_def connectionClosed_def subscribeToTopic_def unsubscribeFromTopic_def
    incomingMessage_def record_calls_def Let_def go_simps
  show "sv_config s' = sv_config s" "sv_conns s' = sv_conns s" "sv_accepted s' = sv_accepted s"
    "sv_connectionEvents s' = sv_connectionEvents s" "sv_starting s' = sv_starting s"
    using assms by (cases "ev_eventType e"; auto simp: defs split: option.splits if_splits)+
  show "set (sv_connectionsMap s') \<subseteq> insert (ev_ConnId e) (set (sv_connectionsMap s))"
    using assms by (cases "ev_eventType e"; auto simp: defs m split: option.splits if_splits)
qed

section \<open>The invariant\<close>

lemma sys_inv_upd:
  assumes "sys_inv s" "sv_subscriptionsMap s' = sv_subscriptionsMap s" "sv_connectionEvents s' = sv_connectionEvents s"
    "sv_accepted s' = sv_accepted s" "set (sv_connectionsMap s') \<subseteq> set (sv_accepted s)"
    "set_option (sv_starting s') \<subseteq> set (sv_accepted s)" "sv_conns s' = sv_conns s" "sv_config s' = sv_config s"
  shows "sys_inv s'"
  using assms by (simp add: sys_inv_def conn_agrees_def pending_def)

lemma sys_inv_post:
  assumes "sys_inv s" "c \<in> set (sv_accepted s)" "conn_inv c (sv_config s) conn" "events_grow (sv_conns s c) conn"
    "post c conn s = Done s'"
  shows "sys_inv s'"
proof -
  from assms(4) obtain es where es: "con_events conn = con_events (sv_conns s c) @ es" by (auto simp: events_grow_def)
  have s': "s' = s\<lparr>sv_conns := (sv_conns s)(c := conn), sv_connectionEvents := sv_connectionEvents s @ es\<rparr>"
    using push_events_Done[OF assms(5)[unfolded post_def]] by (simp add: es)
  have ids: "list_all (\<lambda>e. ev_ConnId e = c) es"
    using assms(3) by (simp add: conn_inv_def es)
  have "list_all (\<lambda>e. ev_eventType e \<noteq> ConnectionStarting) (con_events conn)"
    using assms(3) by (auto simp: conn_inv_def intro: session_trace_no_starting)
  then have mine: "pending c s' = pending c s @ es"
    using ids by (simp add: s' pending_def es list_all_iff)
  have others: "pending d s' = pending d s" if "d \<noteq> c" for d
    using ids that by (auto simp: s' pending_def list_all_iff)
  have "conn_agrees s' d" if "d \<in> set (sv_accepted s)" for d
  proof (cases "d = c")
    case True
    have "conn_agrees s c" using assms(1,2) by (simp add: sys_inv_def)
    then show ?thesis
      using True assms(3) mine by (auto simp: conn_agrees_def s' es)
  next
    case False
    have "conn_agrees s d" using assms(1) that by (simp add: sys_inv_def)
    then show ?thesis using False others[OF False] by (simp add: conn_agrees_def s')
  qed
  then show ?thesis
    using assms(1,2) ids by (auto simp: sys_inv_def s' list_all_iff)
qed

lemma sys_inv_conn: "sys_inv s \<Longrightarrow> c \<in> set (sv_accepted s) \<Longrightarrow> conn_inv c (sv_config s) (sv_conns s c)"
  by (simp add: sys_inv_def conn_agrees_def)

lemma sys_inv_close_all:
  "sys_inv s \<Longrightarrow> set cs \<subseteq> set (sv_accepted s) \<Longrightarrow> close_all cs s = Done s' \<Longrightarrow>
     sys_inv s' \<and> sv_accepted s' = sv_accepted s"
proof (induction cs arbitrary: s)
  case (Cons c cs)
  then obtain s1 where s1: "closeConnection c s = Done s1" "close_all cs s1 = Done s'" by (auto simp: go_simps)
  have c: "c \<in> set (sv_accepted s)" using Cons.prems(2) by simp
  have "sys_inv s1"
    by (rule sys_inv_post[OF Cons.prems(1) c conn_inv_Close[OF sys_inv_conn[OF Cons.prems(1) c]] events_grow_Close
          s1(1)[unfolded closeConnection_def]])
  moreover have "sv_accepted s1 = sv_accepted s"
    using s1(1) push_events_Done by (fastforce simp: closeConnection_def post_def)
  ultimately show ?case using Cons.IH[OF _ _ s1(2)] Cons.prems(2) by simp
qed simp

lemma head_event_ok:
  assumes "sys_inv s" "sv_connectionEvents s = e # es"
  shows "event_ok e"
proof (cases "ev_eventType e = ConnectionStarting")
  case False
  have "conn_agrees s (ev_ConnId e)" using assms by (auto simp: sys_inv_def)
  then obtain h ses es' where "con_events (sv_conns s (ev_ConnId e)) = h @ e # es'"
    "session_trace (sv_config s) Opening h = Some ses" "conn_inv (ev_ConnId e) (sv_config s) (sv_conns s (ev_ConnId e))"
    using False by (auto simp: conn_agrees_def pending_def assms(2))
  then show ?thesis
    by (auto simp: conn_inv_def session_trace_append bind_eq_Some_conv dest: session_step_event(1))
qed (auto simp: event_ok_def)

lemma sys_inv_handle:
  assumes "sys_inv s" "sv_connectionEvents s = e # es" "handleConnectionEvent e (s\<lparr>sv_connectionEvents := es\<rparr>) = Done s'"
  shows "sys_inv s'"
proof -
  let ?s = "s\<lparr>sv_connectionEvents := es\<rparr>" and ?c = "ev_ConnId e"
  have wf: "table_wf (sv_subscriptionsMap ?s)" and c: "?c \<in> set (sv_accepted s)"
    using assms(1,2) by (auto simp: sys_inv_def)
  note fr = handle_frame[OF assms(3), simplified]
  have pend: "pending d s = (if d = ?c \<and> ev_eventType e \<noteq> ConnectionStarting then e # pending d s' else pending d s')" for d
    by (auto simp: pending_def assms(2) fr)
  have ag: "conn_agrees s d" if "d \<in> set (sv_accepted s)" for d using assms(1) that by (simp add: sys_inv_def)
  have ok: "event_ok e" by (rule head_event_ok[OF assms(1,2)])
  have st: "ev_eventType e = ConnectionStarting \<Longrightarrow> spec_event e L d = L d" for L d
    by (simp add: spec_event_def fun_eq_iff)
  from handle_table[OF wf ok] assms(3)
  have wf': "table_wf (sv_subscriptionsMap s')"
    and L: "look (sv_subscriptionsMap s') = spec_event e (look (sv_subscriptionsMap s))" by auto
  have other: "look (sv_subscriptionsMap s') d c' i = look (sv_subscriptionsMap s) d c' i" if "c' \<noteq> ?c" for d c' i
    using that by (auto simp: L spec_event_def split: StompSessionEventType.split option.split)
  have "conn_agrees s' d" if "d \<in> set (sv_accepted s)" for d
  proof (cases "d = ?c \<and> ev_eventType e \<noteq> ConnectionStarting")
    case True
    from ag[OF that] True obtain h ses where h: "con_events (sv_conns s d) = h @ e # pending d s'"
      "session_trace (sv_config s) Opening h = Some ses" "conn_inv d (sv_config s) (sv_conns s d)"
      "\<And>dest i. look (sv_subscriptionsMap s) dest d i = slice ses dest i"
      using pend[of d] by (auto simp: conn_agrees_def)
    then obtain ses' where ses': "session_step (sv_config s) ses e = Some ses'"
      by (auto simp: conn_inv_def session_trace_append bind_eq_Some_conv)
    have "look (sv_subscriptionsMap s') dest d i = slice ses' dest i" for dest i
      unfolding L using session_step_event(3)[OF ses'] h(4) True by simp
    moreover have "session_trace (sv_config s) Opening (h @ [e]) = Some ses'"
      by (simp add: session_trace_append h(2) ses')
    ultimately show ?thesis
      unfolding conn_agrees_def fr using h(1,3) by (intro conjI exI[of _ "h @ [e]"] exI[of _ ses']) auto
  next
    case False
    then have "look (sv_subscriptionsMap s') dest d i = look (sv_subscriptionsMap s) dest d i" for dest i
      using other st by (cases "d = ?c") (auto simp: L)
    then show ?thesis using ag[OF that] pend[of d] False by (auto simp: conn_agrees_def fr)
  qed
  moreover have "look (sv_subscriptionsMap s') d c' i = None" if "c' \<notin> set (sv_accepted s)" for d c' i
    using that c other assms(1) by (metis sys_inv_def)
  ultimately show ?thesis
    using wf' assms(1,2) fr c by (auto simp: sys_inv_def)
qed

lemma sys_inv_out: "sys_inv s \<Longrightarrow> sys_inv (s\<lparr>sv_outFrames := q\<rparr>)"
  by (rule sys_inv_upd[of s]) (simp_all add: sys_inv_def)

lemma sys_inv_api:
  assumes "sys_inv s" "handleApiEvent e s = Done s'"
  shows "sys_inv s'"
proof (cases e)
  case closeServer
  then obtain s1 where s1: "close_all (sv_connectionsMap s) (s\<lparr>sv_listenerClosed := True\<rparr>) = Done s1"
    "s' = s1\<lparr>sv_connectionsMap := [], sv_finished := True\<rparr>"
    using assms(2) by (auto simp: handleApiEvent_def go_simps)
  have "sys_inv (s\<lparr>sv_listenerClosed := True\<rparr>)"
    by (rule sys_inv_upd[OF assms(1)]) (use assms(1) in \<open>auto simp: sys_inv_def\<close>)
  from sys_inv_close_all[OF this _ s1(1)] assms(1) have "sys_inv s1" by (auto simp: sys_inv_def)
  note s1_inv = this
  show ?thesis unfolding s1(2) by (rule sys_inv_upd[OF s1_inv]) (use s1_inv in \<open>simp_all add: sys_inv_def\<close>)
next
  case (sendMessage dest f)
  then have "\<exists>q. s' = s\<lparr>sv_outFrames := q\<rparr>"
    using assms(2) by (auto simp: handleApiEvent_def sendFrame_def split: option.splits
        intro: exI[of _ "sv_outFrames s"] dest: broadcast_only_queue)
  then show ?thesis using sys_inv_out[OF assms(1)] by auto
next
  case (sendPrivateMessage c dest f)
  then have "\<exists>q. s' = s\<lparr>sv_outFrames := q\<rparr>"
    using assms(2) by (auto simp: handleApiEvent_def sendFrameToClient_def split: option.splits
        intro: exI[of _ "sv_outFrames s"] dest: sends_only_queue)
  then show ?thesis using sys_inv_out[OF assms(1)] by auto
qed

lemma sys_inv_accept:
  assumes "sys_inv s" "new \<notin> set (sv_accepted s)"
  shows "sys_inv (acceptConnection new s)"
proof (cases "sv_listenerClosed s \<or> sv_starting s \<noteq> None")
  case False
  let ?s = "acceptConnection new s"
  have f: "sv_accepted ?s = sv_accepted s @ [new]" "sv_connectionEvents ?s = sv_connectionEvents s"
    "sv_conns ?s = (sv_conns s)(new := NewStompConn new (sv_config s))" "sv_config ?s = sv_config s"
    "sv_subscriptionsMap ?s = sv_subscriptionsMap s" "sv_connectionsMap ?s = sv_connectionsMap s" "sv_starting ?s = Some new"
    using False by (simp_all add: acceptConnection_def)
  have none: "pending new s = []" using assms by (auto simp: pending_def sys_inv_def filter_empty_conv)
  have "conn_agrees ?s new"
    unfolding conn_agrees_def pending_def f
    using conn_inv_New[of new "sv_config s"] none assms
    by (auto simp: pending_def NewStompConn_def sys_inv_def slice_def intro!: exI[of _ "[]"] exI[of _ Opening])
  moreover have "conn_agrees ?s c" if "c \<in> set (sv_accepted s)" for c
  proof -
    have "c \<noteq> new" using that assms(2) by auto
    then show ?thesis using that assms(1) by (auto simp: conn_agrees_def pending_def f sys_inv_def)
  qed
  ultimately show ?thesis using assms(1) by (auto simp: sys_inv_def f)
qed (use assms in \<open>auto simp: acceptConnection_def\<close>)

lemma sys_inv_announce:
  assumes "sys_inv s" "announceConnection s = Done s'"
  shows "sys_inv s'"
proof (cases "sv_starting s")
  case (Some c)
  let ?e = "\<lparr>ev_ConnId = c, ev_eventType = ConnectionStarting, ev_destination = '''', ev_sub = None, ev_frame = None\<rparr>"
  have s': "s' = s\<lparr>sv_starting := None, sv_connectionEvents := sv_connectionEvents s @ [?e]\<rparr>"
    using assms(2) Some by (auto simp: announceConnection_def push_event_def split: if_splits)
  have c: "c \<in> set (sv_accepted s)" using assms(1) Some by (auto simp: sys_inv_def)
  have "pending d s' = pending d s" for d by (simp add: pending_def s')
  then have "conn_agrees s' d = conn_agrees s d" for d by (simp add: conn_agrees_def s')
  then show ?thesis using assms(1) c by (auto simp: sys_inv_def s')
qed (use assms in \<open>simp add: announceConnection_def\<close>)

lemma sys_inv_conn_round:
  assumes "sys_inv s" "c \<in> set (sv_accepted s)" "conn_round werr contains parse_hb c inp s = Done s'"
  shows "sys_inv s'"
proof -
  have finish: "sys_inv s'"
    if "(case run_round werr contains parse_hb i (sv_conns s c) of
          (conn, True) \<Rightarrow> post c (stompConn_Close conn) s1 | (conn, False) \<Rightarrow> post c conn s1) = Done s'"
      and s1: "sys_inv s1" "sv_accepted s1 = sv_accepted s" "sv_conns s1 = sv_conns s" "sv_config s1 = sv_config s"
    for i :: loop_input and s1 :: stompServer
  proof -
    obtain conn b where r: "run_round werr contains parse_hb i (sv_conns s c) = (conn, b)" by fastforce
    have ok: "conn_inv c (sv_config s1) conn" "events_grow (sv_conns s1 c) conn"
      using conn_inv_round[OF sys_inv_conn[OF assms(1,2)], of werr contains parse_hb i]
        events_grow_round[of "sv_conns s c" werr contains parse_hb i] r s1 by auto
    have c: "c \<in> set (sv_accepted s1)" using assms(2) s1(2) by simp
    show ?thesis
      using that(1) r sys_inv_post[OF s1(1) c ok] sys_inv_post[OF s1(1) c conn_inv_Close[OF ok(1)]
          events_grow_trans[OF ok(2) events_grow_Close]]
      by (auto split: bool.splits)
  qed
  show ?thesis
  proof (cases "con_state (sv_conns s c) = closed")
    case False
    show ?thesis
    proof (cases inp)
      case TakeOut
      show ?thesis
      proof (cases "sv_outFrames s c")
        case (Cons f fs)
        show ?thesis
          by (rule finish[where i = "OutFrame f" and ?s1.0 = "s\<lparr>sv_outFrames := (sv_outFrames s)(c := fs)\<rparr>"])
            (use assms(3) TakeOut False Cons sys_inv_out[OF assms(1)] in \<open>auto simp: conn_round_def Let_def\<close>)
      qed (use assms TakeOut False in \<open>simp add: conn_round_def Let_def\<close>)
    next
      case (FromClient f)
      then show ?thesis using assms(1,3) False finish[where i = "InFrame f" and ?s1.0 = s] by (simp add: conn_round_def Let_def)
    next
      case ReaderDone
      then show ?thesis using assms(1,3) False finish[where i = ChannelClosed and ?s1.0 = s] by (simp add: conn_round_def Let_def)
    next
      case TimerFired
      then show ?thesis using assms(1,3) False finish[where i = HeartBeatDue and ?s1.0 = s] by (simp add: conn_round_def Let_def)
    qed
  qed (use assms in \<open>simp add: conn_round_def Let_def\<close>)
qed

lemma sys_inv_push_api: "sys_inv s \<Longrightarrow> push_api e s = Done s' \<Longrightarrow> sys_inv s'"
  by (rule sys_inv_upd[of s]) (auto simp: push_api_def sys_inv_def split: if_splits)

lemma sys_inv_step: "server_step werr contains parse_hb s s' \<Longrightarrow> sys_inv s \<Longrightarrow> sys_inv s'"
proof (induction rule: server_step.induct)
  case (serve api s s')
  have api: "sys_inv (s\<lparr>sv_apiEvents := es\<rparr>)" for es
    by (rule sys_inv_upd[OF serve.prems]) (use serve.prems in \<open>auto simp: sys_inv_def\<close>)
  show ?case
    using serve sys_inv_api[OF api] sys_inv_handle[OF serve.prems]
    by (auto simp: server_run_def split: if_splits list.splits)
next
  case (stop s s')
  have "sys_inv (s\<lparr>sv_running := False\<rparr>)"
    by (rule sys_inv_upd[OF stop.prems]) (use stop.prems in \<open>auto simp: sys_inv_def\<close>)
  then show ?case using stop by (auto simp: server_Stop_def split: if_splits intro: sys_inv_push_api)
qed (auto simp: SendMessage_def SendMessageToClient_def
    intro: sys_inv_accept sys_inv_announce sys_inv_conn_round sys_inv_push_api)

lemma sys_inv_reachable:
  "(server_step werr contains parse_hb)\<^sup>*\<^sup>* s s' \<Longrightarrow> sys_inv s \<Longrightarrow> sys_inv s'"
  by (induction rule: rtranclp_induct) (auto dest: sys_inv_step)

section \<open>Agreement\<close>

text \<open>
  C5. Along every interleaving of the server, its connections, its clients and its users, once
  the server has handled the events of a connection, its table holds for that connection exactly
  the subscriptions the connection itself has when it is connected, and none when it is not
  connected yet or closed; and handling the next event of its queue never fails.
\<close>

theorem table_agrees_with_sessions:
  assumes "(server_step werr contains parse_hb)\<^sup>*\<^sup>* s0 s" "sv_accepted s0 = []" "sv_connectionEvents s0 = []"
    and "sv_connectionsMap s0 = []" "sv_subscriptionsMap s0 = []" "sv_starting s0 = None"
  shows "(c \<in> set (sv_accepted s) \<and> pending c s = [] \<longrightarrow>
      (look (sv_subscriptionsMap s) d c i = Some sub \<longleftrightarrow>
        con_state (sv_conns s c) = connected \<and> con_subscriptions (sv_conns s c) i = Some sub \<and> s_destination sub = d)) \<and>
    (\<exists>s'. server_run False s = Done s')"
proof -
  have "sys_inv s0" using assms(2-) by (simp add: sys_inv_def table_wf_def)
  from sys_inv_reachable[OF assms(1) this] have inv: "sys_inv s" .
  have "look (sv_subscriptionsMap s) d c i = slice (session_of (sv_conns s c)) d i"
    if "c \<in> set (sv_accepted s)" "pending c s = []"
    using inv that by (auto simp: sys_inv_def conn_agrees_def conn_inv_def)
  then have "c \<in> set (sv_accepted s) \<and> pending c s = [] \<longrightarrow> (look (sv_subscriptionsMap s) d c i = Some sub \<longleftrightarrow>
        con_state (sv_conns s c) = connected \<and> con_subscriptions (sv_conns s c) i = Some sub \<and> s_destination sub = d)"
    by (auto simp: slice_def session_of_def split: conn_state.splits option.splits if_splits)
  moreover have "\<exists>s'. server_run False s = Done s'"
  proof (cases "sv_connectionEvents s")
    case (Cons e es)
    have wf: "table_wf (sv_subscriptionsMap (s\<lparr>sv_connectionEvents := es\<rparr>))" using inv by (simp add: sys_inv_def)
    have "\<exists>s'. handleConnectionEvent e (s\<lparr>sv_connectionEvents := es\<rparr>) = Done s'"
      using handle_table[OF wf head_event_ok[OF inv Cons]] by auto
    then show ?thesis using Cons by (auto simp: server_run_def)
  qed (simp add: server_run_def)
  ultimately show ?thesis by blast
qed

theorem table_agrees_with_sessions_witness:
  "(look (sv_subscriptionsMap (acceptConnection ''c'' ex_stomp_server)) ''/t/a'' ''c'' ''1'' = Some \<lparr>s_id = ''1'', s_destination = ''/t/a''\<rparr> \<longleftrightarrow>
      con_state (sv_conns (acceptConnection ''c'' ex_stomp_server) ''c'') = connected \<and>
      con_subscriptions (sv_conns (acceptConnection ''c'' ex_stomp_server) ''c'') ''1'' = Some \<lparr>s_id = ''1'', s_destination = ''/t/a''\<rparr> \<and>
      s_destination \<lparr>s_id = ''1'', s_destination = ''/t/a''\<rparr> = ''/t/a'') \<and>
    (\<exists>s'. server_run False (acceptConnection ''c'' ex_stomp_server) = Done s')"
proof -
  have step: "(server_step (\<lambda>_ _. None) first_value (\<lambda>_. ((0, 0), None)))\<^sup>*\<^sup>* ex_stomp_server (acceptConnection ''c'' ex_stomp_server)"
    by (rule r_into_rtranclp, rule server_step.accept)
      (simp add: ex_stomp_server_def OnUnsubscribeEvent_def OnSubscribeEvent_def NewStompServer_def)
  have "''c'' \<in> set (sv_accepted (acceptConnection ''c'' ex_stomp_server)) \<and> pending ''c'' (acceptConnection ''c'' ex_stomp_server) = []"
    by (simp add: pending_def acceptConnection_def ex_stomp_server_def OnUnsubscribeEvent_def OnSubscribeEvent_def NewStompServer_def)
  then show ?thesis
    using table_agrees_with_sessions[OF step, of "''c''" "''/t/a''" "''1''" "\<lparr>s_id = ''1'', s_destination = ''/t/a''\<rparr>"]
    by (simp add: ex_stomp_server_def OnUnsubscribeEvent_def OnSubscribeEvent_def NewStompServer_def)
qed

end
