(* ===== verification/FabricSystem.thy ===== *)
theory FabricSystem
  imports FabricLaws StompSystem
begin

text \<open>
  The fabric endpoint with the STOMP server: private requests and their answers, and the agreement
  of the endpoint's streams with the server's subscription table.
\<close>

section \<open>Private requests\<close>

lemma served_user_queue:
  assumes "ec_UserQueuePrefix config \<noteq> ''''" "\<not> HasPrefix (ec_UserQueuePrefix config @ n) (ec_TopicPrefix config)"
  shows "getChannelNameFromSubscription config (ec_UserQueuePrefix config @ n) = Some n"
  using assms by (simp add: getChannelNameFromSubscription_def)

text \<open>
  C18. A private request and its answer: a request that a client sends to the request queue of a
  channel becomes a request message on that bus channel which names the client's connection and
  its user queue; a response that carries this destination is handed to the server for that one
  connection, addressed to the queue, whose subscriptions are served from the same channel.
\<close>

theorem private_request_round_trip:
  assumes "fe_config (feHeap s e) = config" "ec_AppRequestQueuePrefix config \<noteq> ''''" "ec_UserQueuePrefix config \<noteq> ''''"
    and "\<not> HasPrefix (ec_UserQueuePrefix config @ n) (ec_TopicPrefix config)"
    and "Channels s n = Some a" "unmarshal body = Inr req"
    and "msg_Payload m = GResponsePtr resp"
    and "resp_BrokerDestination resp = Some (BrokerDestinationConfig (ec_UserQueuePrefix config @ n) conId)"
    and "marshal (GResponsePtr resp) = Inr data" "length (sv_apiEvents (fe_server fe)) < 32"
  shows "bridgeMessage unmarshal new e (ec_AppRequestQueuePrefix config @ n) body conId s =
      sendMessageToChannel a (GenerateRequest new (buildConfig new n (GRequestPtr (set_req_BrokerDestination
        (Some (BrokerDestinationConfig (ec_UserQueuePrefix config @ n) conId)) req)) None)) s \<and>
    fabricSend marshal n m fe = Done (fe\<lparr>fe_server := (fe_server fe)\<lparr>sv_apiEvents := sv_apiEvents (fe_server fe) @
      [sendPrivateMessage conId (ec_UserQueuePrefix config @ n) (message_frame (ec_UserQueuePrefix config @ n) data)]\<rparr>\<rparr>) \<and>
    getChannelNameFromSubscription config (ec_UserQueuePrefix config @ n) = Some n"
  using assms served_user_queue[OF assms(3,4)]
  by (simp add: bridgeMessage_def SendRequestMessage_def GetChannel_def fabricSend_def marshalMessagePayload_def
      convertPayloadToResponseObj_def SendMessageToClient_def push_api_def)

definition ex_private_response :: "gval Response" where
  "ex_private_response = Response None '''' 0 '''' GNil False 0 '''' (Some (BrokerDestinationConfig ''/user/queue/a'' ''c'')) []"

lemma ex_private_response_dest:
  "resp_BrokerDestination ex_private_response = Some (BrokerDestinationConfig ''/user/queue/a'' ''c'')"
  by (simp add: ex_private_response_def)

theorem private_request_round_trip_witness:
  "bridgeMessage (\<lambda>_. Inr zero_Request) ''n'' 0 (ec_AppRequestQueuePrefix ex_epconf @ ''a'') '''' ''c'' (fst (CreateChannel ''a'' ex_endpoint)) =
      sendMessageToChannel 0 (GenerateRequest ''n'' (buildConfig ''n'' ''a'' (GRequestPtr (set_req_BrokerDestination
        (Some (BrokerDestinationConfig (ec_UserQueuePrefix ex_epconf @ ''a'') ''c'')) zero_Request)) None)) (fst (CreateChannel ''a'' ex_endpoint)) \<and>
    fabricSend (\<lambda>_. Inr ''x'') ''a'' (ex_message\<lparr>msg_Payload := GResponsePtr ex_private_response\<rparr>) (feHeap ex_endpoint 0) =
      Done ((feHeap ex_endpoint 0)\<lparr>fe_server := (fe_server (feHeap ex_endpoint 0))\<lparr>sv_apiEvents := sv_apiEvents (fe_server (feHeap ex_endpoint 0)) @
      [sendPrivateMessage ''c'' (ec_UserQueuePrefix ex_epconf @ ''a'') (message_frame (ec_UserQueuePrefix ex_epconf @ ''a'') ''x'')]\<rparr>\<rparr>) \<and>
    getChannelNameFromSubscription ex_epconf (ec_UserQueuePrefix ex_epconf @ ''a'') = Some ''a''"
proof (rule private_request_round_trip[where resp = ex_private_response])
  show "fe_config (feHeap (fst (CreateChannel ''a'' ex_endpoint)) 0) = ex_epconf" by (simp add: ex_endpoint_fields)
  show "Channels (fst (CreateChannel ''a'' ex_endpoint)) ''a'' = Some 0"
    by (simp add: CreateChannel_def Let_def ex_endpoint_def init_fabBus_def init_syncBus_def init_txBus_def init_storeBus_def init_bus_def
      syncBus.defs txBus.defs storeBus.defs transportEventBus.defs)
  show "length (sv_apiEvents (fe_server (feHeap ex_endpoint 0))) < 32"
    by (simp add: ex_endpoint_def newFabricEndpoint_def initHandlers_def OnUnsubscribeEvent_def OnSubscribeEvent_def
        OnApplicationRequest_def NewStompServer_def Let_def)
qed (simp_all add: HasPrefix_def ex_private_response_dest)

text \<open>
  The endpoint refuses to serve subscriptions to internal channels, but a client may send requests
  to them: the destination of a request is not checked.
\<close>

theorem requests_reach_internal_channels:
  assumes "fe_config (feHeap s e) = config" "ec_AppRequestPrefix config \<noteq> ''''"
    and "\<not> HasPrefix (ec_AppRequestPrefix config @ n) (ec_AppRequestQueuePrefix config) \<or> ec_AppRequestQueuePrefix config = ''''"
    and "isProtectedDestination n" "Channels s n = Some a" "unmarshal body = Inr req"
  shows "bridgeMessage unmarshal new e (ec_AppRequestPrefix config @ n) body conId s =
      sendMessageToChannel a (GenerateRequest new (buildConfig new n (GRequestPtr req) None)) s"
  using assms by (auto simp: bridgeMessage_def SendRequestMessage_def GetChannel_def)

section \<open>The endpoint and the server's table\<close>

text \<open>The counts alone, which hold whatever else happens on the bus.\<close>

definition count_inv :: "addr \<Rightarrow> EndpointConfig \<Rightarrow> 'b fabBus_scheme \<Rightarrow> bool" where
  "count_inv e config s \<longleftrightarrow> fe_config (feHeap s e) = config \<and>
     (\<forall>n cm. fe_chanMappings (feHeap s e) n = Some cm \<longrightarrow> cm_subs cm \<noteq> [] \<and> \<not> isProtectedDestination n)"

lemma ListenStream_feHeap: "ListenStream newH n s = (s', r) \<Longrightarrow> feHeap s' = feHeap s"
  by (auto simp: ListenStream_def wrapMessageHandler_def Let_def split: sum.splits)

lemma openStream_count:
  assumes "openStream newH newS e n d s = (s', r)"
  shows "feHeap s' = feHeap s \<and> (\<exists>cm. r = Some cm \<and> cm_subs cm = [])"
proof -
  obtain s1 r1 where L: "ListenStream newH n s = (s1, r1)" by fastforce
  note h1 = ListenStream_feHeap[OF L]
  show ?thesis
  proof (cases r1)
    case (Inr h)
    then show ?thesis using assms h1 by (auto simp: openStream_def L Handle_feHeap)
  next
    case (Inl err)
    have s1: "s1 = s" using L Inl by (auto simp: ListenStream_def wrapMessageHandler_def Let_def split: sum.splits)
    obtain s2 r2 where L2: "ListenStream newH n (fst (CreateChannel n s)) = (s2, r2)" by fastforce
    have "\<exists>h. r2 = Inr h"
      using L2 by (auto simp: ListenStream_def getChannelFromManager_def GetChannel_def CreateChannel_def Let_def
          wrapMessageHandler_def split: option.splits)
    then show ?thesis using assms Inl s1 ListenStream_feHeap[OF L2] by (auto simp: openStream_def L L2 Handle_feHeap)
  qed
qed

lemma addSubscription_count:
  assumes "count_inv e config s"
  shows "count_inv e config (addSubscription newH newS e c i d s) \<and>
    chan_users e (addSubscription newH newS e c i d s) =
      (\<lambda>n. if served config d = Some n then insert (mapping_id c i) (chan_users e s n) else chan_users e s n)"
proof (cases "served config d")
  case None
  then have "addSubscription newH newS e c i d s = s"
    using assms by (auto simp: addSubscription_def served_def count_inv_def split: option.splits if_splits)
  then show ?thesis using assms None by simp
next
  case (Some n)
  obtain s1 r where o: "openStream newH newS e n d s = (s1, r)" by fastforce
  from openStream_count[OF o] obtain cm where cm: "feHeap s1 = feHeap s" "r = Some cm" "cm_subs cm = []" by blast
  have n: "getChannelNameFromSubscription config d = Some n" "\<not> isProtectedDestination n"
    using Some by (auto simp: served_def split: option.splits if_splits)
  then show ?thesis
    using assms Some o cm
    by (cases "fe_chanMappings (feHeap s e) n")
      (auto simp: addSubscription_def count_inv_def chan_users_def fun_eq_iff)
qed

lemma MessageHandler_Close_Done: "\<exists>s'. MessageHandler_Close h s = Done s' \<and> feHeap s' = feHeap s"
  by (cases "mh_subscriptionId (mhandlers s h)")
    (auto simp: MessageHandler_Close_def Let_def UnsubscribeChannelHandler_def unsubscribeHandler_def
      split: sum.split option.split)

lemma removeSubscription_count:
  assumes "count_inv e config s"
  shows "\<exists>s'. removeSubscription e c i d s = Done s' \<and> count_inv e config s' \<and>
    chan_users e s' = (\<lambda>n. if served config d = Some n then chan_users e s n - {mapping_id c i} else chan_users e s n)"
proof -
  have cfg: "fe_config (feHeap s e) = config" using assms by (auto simp: count_inv_def)
  have skip: ?thesis if "removeSubscription e c i d s = Done s" "\<And>n. served config d = Some n \<Longrightarrow> mapping_id c i \<notin> chan_users e s n"
    using that assms by (auto simp: fun_eq_iff)
  show ?thesis
  proof (cases "Option.bind (getChannelNameFromSubscription config d) (fe_chanMappings (feHeap s e))")
    case None
    then show ?thesis using cfg
      by (intro skip) (auto simp: removeSubscription_def served_def chan_users_def bind_eq_None_conv split: option.splits if_splits)
  next
    case (Some cm)
    then obtain n where n: "getChannelNameFromSubscription config d = Some n" "fe_chanMappings (feHeap s e) n = Some cm"
      by (auto simp: bind_eq_Some_conv)
    have sv: "served config d = Some n" using n assms by (auto simp: served_def count_inv_def)
    obtain s1 where s1: "MessageHandler_Close (cm_handler cm) s = Done s1" "feHeap s1 = feHeap s"
      using MessageHandler_Close_Done by blast
    consider "mapping_id c i \<notin> set (cm_subs cm)" | "mapping_id c i \<in> set (cm_subs cm)" "removeAll (mapping_id c i) (cm_subs cm) \<noteq> []"
      | "mapping_id c i \<in> set (cm_subs cm)" "removeAll (mapping_id c i) (cm_subs cm) = []" by blast
    then show ?thesis
    proof cases
      case 1
      then show ?thesis using cfg n sv by (intro skip) (auto simp: removeSubscription_def chan_users_def)
    next
      case 2
      then show ?thesis using cfg n sv assms
        by (auto simp: removeSubscription_def count_inv_def chan_users_def fun_eq_iff)
    next
      case 3
      then have "set (cm_subs cm) - {mapping_id c i} = {}" by (metis empty_set set_removeAll)
      then show ?thesis using cfg n sv assms s1 3
        by (auto simp: removeSubscription_def count_inv_def chan_users_def Let_def fun_eq_iff)
    qed
  qed
qed

primrec call_cb :: "server_call \<Rightarrow> nat" where
  "call_cb (SubscribeCall k c i d f) = k"
| "call_cb (UnsubscribeCall k c i d) = k"
| "call_cb (AppRequestCall k d b c) = k"
| "call_cb (ConnEventCall k ev) = k"

text \<open>The endpoint runs the calls that were made to it; \<open>ids\<close> are the values of \<^verbatim>\<open>uuid.New()\<close>.\<close>

fun run_calls ::
  "(bytes \<Rightarrow> error + gval Request) \<Rightarrow> (nat \<Rightarrow> uuid \<times> uuid) \<Rightarrow> addr \<Rightarrow> server_call list \<Rightarrow> 'b fabBus_scheme \<Rightarrow> 'b fabBus_scheme go" where
  "run_calls unmarshal ids e [] s = Done s"
| "run_calls unmarshal ids e (k # ks) s =
     (if call_cb k = 0
      then go_bind (runServerCall unmarshal (fst (ids (length ks))) (snd (ids (length ks))) e k s) (run_calls unmarshal ids e ks)
      else run_calls unmarshal ids e ks s)"

definition only_dest :: "(string \<times> uuid \<times> string) set \<Rightarrow> string \<Rightarrow> uuid \<Rightarrow> string \<Rightarrow> bool" where
  "only_dest A d c i \<longleftrightarrow> CHR ''#'' \<notin> set c \<and> (\<forall>d'. (d', c, i) \<in> A \<longrightarrow> d' = d)"

fun calls_ok :: "server_call list \<Rightarrow> (string \<times> uuid \<times> string) set \<Rightarrow> bool" where
  "calls_ok [] A = True"
| "calls_ok (k # ks) A =
     ((case k of
         SubscribeCall cb c i d f \<Rightarrow> cb = 0 \<longrightarrow> only_dest A d c i
       | UnsubscribeCall cb c i d \<Rightarrow> cb = 0 \<longrightarrow> only_dest A d c i
       | _ \<Rightarrow> True) \<and> calls_ok ks (replay_call 0 k A))"

lemma calls_ok_append: "calls_ok (ks @ ks') A \<longleftrightarrow> calls_ok ks A \<and> calls_ok ks' (fold (replay_call 0) ks A)"
  by (induction ks arbitrary: A) auto

lemma mapping_id_inj:
  assumes "CHR ''#'' \<notin> set c" "CHR ''#'' \<notin> set c'" "mapping_id c i = mapping_id c' i'"
  shows "c = c' \<and> i = i'"
proof -
  have "takeWhile (\<lambda>x. x \<noteq> CHR ''#'') (mapping_id c i) = c" if "CHR ''#'' \<notin> set c" for c i :: string
    using that unfolding mapping_id_def by (subst takeWhile_append2) auto
  then have "c = c'" using assms by metis
  then show ?thesis using assms(3) by (simp add: mapping_id_def)
qed

definition mirrors :: "addr \<Rightarrow> EndpointConfig \<Rightarrow> (string \<times> uuid \<times> string) set \<Rightarrow> 'b fabBus_scheme \<Rightarrow> bool" where
  "mirrors e config A s \<longleftrightarrow> count_inv e config s \<and> (\<forall>(d, c, i) \<in> A. CHR ''#'' \<notin> set c) \<and>
     (\<forall>n. chan_users e s n = {mapping_id c i | d c i. (d, c, i) \<in> A \<and> served config d = Some n})"

lemma mirrors_cong: "feHeap s' = feHeap s \<Longrightarrow> mirrors e config A s' = mirrors e config A s"
  by (simp add: mirrors_def count_inv_def chan_users_def)

lemma sends_feHeap:
  "feHeap (fst (SendResponseMessage new n p d s)) = feHeap s" "feHeap (fst (SendRequestMessage new n p d s)) = feHeap s"
  by (simp_all add: SendResponseMessage_def SendRequestMessage_def sendMessageToChannel_def split: sum.split)

lemma bridgeMessage_feHeap: "feHeap (bridgeMessage unmarshal new e d b c s) = feHeap s"
  by (auto simp: bridgeMessage_def Let_def sends_feHeap split: option.split sum.split)

lemma run_call_mirrors:
  assumes "mirrors e config A s" "call_cb k = 0" "calls_ok (k # ks) A"
  shows "\<exists>s'. runServerCall unmarshal new newS e k s = Done s' \<and> mirrors e config (replay_call 0 k A) s'"
proof (cases k)
  case (SubscribeCall cb c i d f)
  have ok: "only_dest A d c i" using assms(2,3) SubscribeCall by simp
  from addSubscription_count[of e config s new newS c i d] assms(1)
  show ?thesis
    using SubscribeCall assms(1,2) ok by (auto simp: runServerCall_def mirrors_def only_dest_def)
next
  case (UnsubscribeCall cb c i d)
  have ok: "only_dest A d c i" using assms(2,3) UnsubscribeCall by simp
  from removeSubscription_count[of e config s c i d] assms(1) obtain s' where
    s': "removeSubscription e c i d s = Done s'" "count_inv e config s'"
    "chan_users e s' = (\<lambda>n. if served config d = Some n then chan_users e s n - {mapping_id c i} else chan_users e s n)"
    by (auto simp: mirrors_def)
  have "chan_users e s' n = {mapping_id c' i' | d' c' i'. (d', c', i') \<in> A - {(d, c, i)} \<and> served config d' = Some n}" for n
  proof (cases "served config d = Some n")
    case True
    have "mapping_id c' i' \<noteq> mapping_id c i" if "(d', c', i') \<in> A - {(d, c, i)}" for d' c' i'
      using that assms(1) ok mapping_id_inj[of c' c i' i] by (auto simp: mirrors_def only_dest_def)
    then show ?thesis using True s'(3) assms(1) by (auto simp: mirrors_def)
  next
    case False
    then show ?thesis using s'(3) assms(1) by (auto simp: mirrors_def)
  qed
  then show ?thesis using UnsubscribeCall s'(1,2) assms(1,2) by (auto simp: runServerCall_def mirrors_def)
next
  case (AppRequestCall cb d b c)
  then show ?thesis
    using assms(1) by (simp add: runServerCall_def mirrors_cong[OF bridgeMessage_feHeap])
next
  case (ConnEventCall cb ev)
  then show ?thesis using assms(1) by (simp add: runServerCall_def mirrors_cong[OF sends_feHeap(1)])
qed

lemma run_calls_mirrors:
  assumes "mirrors e config A s" "calls_ok ks A"
  shows "\<exists>s'. run_calls unmarshal ids e ks s = Done s' \<and> mirrors e config (fold (replay_call 0) ks A) s'"
  using assms
proof (induction ks arbitrary: A s)
  case (Cons k ks)
  show ?case
  proof (cases "call_cb k = 0")
    case True
    from run_call_mirrors[OF Cons.prems(1) True Cons.prems(2)] obtain s1 where
      "runServerCall unmarshal (fst (ids (length ks))) (snd (ids (length ks))) e k s = Done s1"
      "mirrors e config (replay_call 0 k A) s1" by blast
    then show ?thesis using Cons.IH[of "replay_call 0 k A" s1] Cons.prems(2) True by simp
  next
    case False
    then have "replay_call 0 k A = A" by (cases k) auto
    then show ?thesis using Cons.IH[of A s] Cons.prems False by simp
  qed
qed simp

section \<open>The calls the server makes\<close>

definition unique_subs :: "(string \<times> uuid \<times> string) set \<Rightarrow> bool" where
  "unique_subs A \<longleftrightarrow> (\<forall>(d, c, i) \<in> A. only_dest A d c i)"

lemma calls_ok_unsubscribes:
  assumes "\<And>k. k \<in> set ks \<Longrightarrow> \<exists>cb c i d. k = UnsubscribeCall cb c i d \<and> only_dest A d c i"
  shows "calls_ok ks A"
  using assms
proof (induction ks arbitrary: A)
  case (Cons k ks)
  from Cons.prems[of k] obtain cb c i d where k: "k = UnsubscribeCall cb c i d" "only_dest A d c i" by auto
  have "replay_call 0 k A \<subseteq> A" using k(1) by auto
  then have "\<exists>cb c i d. k' = UnsubscribeCall cb c i d \<and> only_dest (replay_call 0 k A) d c i" if "k' \<in> set ks" for k'
    using Cons.prems[of k'] that unfolding only_dest_def by (fastforce simp: subset_iff)
  then show ?case using Cons.IH[of "replay_call 0 k A"] k by simp
qed simp

lemma calls_ok_subscribes:
  "only_dest A d c i \<Longrightarrow> calls_ok (map (\<lambda>cb. SubscribeCall cb c i d f) cbs) A"
  by (induction cbs arbitrary: A) (auto simp: only_dest_def)

lemma calls_ok_others:
  "calls_ok (map (\<lambda>cb. AppRequestCall cb d b c) cbs) A" "calls_ok [ConnEventCall fn e] A"
  by (induction cbs) auto

text \<open>
  Events as the sessions of connections report them: a subscription's id is not in use for
  another destination, and ids of connections (UUIDs) have no number sign.
\<close>

fun events_ok :: "ConnEvent list \<Rightarrow> (string \<Rightarrow> uuid \<Rightarrow> string \<Rightarrow> subscription option) \<Rightarrow> bool" where
  "events_ok [] L = True"
| "events_ok (e # es) L =
     (event_ok e \<and> CHR ''#'' \<notin> set (ev_ConnId e) \<and>
      (case (ev_eventType e, ev_sub e) of
         (SubscribeToTopic, Some sub) \<Rightarrow> \<forall>d. L d (ev_ConnId e) (s_id sub) \<noteq> None \<longrightarrow> d = ev_destination e
       | _ \<Rightarrow> True) \<and>
      events_ok es (spec_event e L))"

lemma sv_calls_notify: "\<exists>ks. sv_calls (notify_event e s) = sv_calls s @ ks \<and> calls_ok ks A"
  by (auto simp: notify_event_def record_calls_def split: option.split intro: exI[of _ "[]"])

lemma open_subs_spec:
  "look (sv_subscriptionsMap s') = spec_event e (look (sv_subscriptionsMap s)) \<Longrightarrow>
     open_subs s' = {(d, c, i). spec_event e (look (sv_subscriptionsMap s)) d c i \<noteq> None}"
  by (simp add: open_subs_def)

lemma unique_subs_spec:
  assumes "unique_subs (open_subs s)" "events_ok [e] (look (sv_subscriptionsMap s))"
    "look (sv_subscriptionsMap s') = spec_event e (look (sv_subscriptionsMap s))"
  shows "unique_subs (open_subs s')"
  using assms
  by (auto simp: unique_subs_def only_dest_def open_subs_def spec_event_def
      split: StompSessionEventType.splits option.splits if_splits)

lemma calls_ok_closed:
  assumes "table_wf (sv_subscriptionsMap s)" "unique_subs (open_subs s)"
  shows "calls_ok (concat (map (\<lambda>sub. map (\<lambda>cb. UnsubscribeCall cb c (s_id sub) (s_destination sub)) cbs)
      (dropped c (sv_subscriptionsMap s)))) (open_subs s)"
proof (rule calls_ok_unsubscribes)
  fix k assume "k \<in> set (concat (map (\<lambda>sub. map (\<lambda>cb. UnsubscribeCall cb c (s_id sub) (s_destination sub)) cbs)
      (dropped c (sv_subscriptionsMap s))))"
  then obtain cb sub where k: "k = UnsubscribeCall cb c (s_id sub) (s_destination sub)" "sub \<in> set (dropped c (sv_subscriptionsMap s))"
    by auto
  then have "(s_destination sub, c, s_id sub) \<in> {(s_destination sub, c, s_id sub) | sub. sub \<in> set (dropped c (sv_subscriptionsMap s))}"
    by blast
  then have "look (sv_subscriptionsMap s) (s_destination sub) c (s_id sub) \<noteq> None"
    unfolding set_dropped[OF assms(1)] by simp
  then have "(s_destination sub, c, s_id sub) \<in> open_subs s" by (simp add: open_subs_def)
  then have "only_dest (open_subs s) (s_destination sub) c (s_id sub)" using assms(2) by (auto simp: unique_subs_def)
  then show "\<exists>cb c i d. k = UnsubscribeCall cb c i d \<and> only_dest (open_subs s) d c i" using k(1) by blast
qed

lemma handle_calls:
  assumes wf: "table_wf (sv_subscriptionsMap s)" and ok: "events_ok [e] (look (sv_subscriptionsMap s))"
    and un: "unique_subs (open_subs s)" and h: "handleConnectionEvent e s = Done s'"
  shows "\<exists>ks. sv_calls s' = sv_calls s @ ks \<and> calls_ok ks (open_subs s)"
proof -
  have note_ok: "\<exists>ks'. sv_calls (notify_event e s1) = sv_calls s @ ks' \<and> calls_ok ks' (open_subs s)"
    if "sv_calls s1 = sv_calls s @ ks" "calls_ok ks (open_subs s)" for s1 ks
    using sv_calls_notify[of e s1 "fold (replay_call 0) ks (open_subs s)"] that
    by (auto simp: calls_ok_append)
  show ?thesis
  proof (cases "ev_eventType e")
    case ConnectionClosed
    then have "s' = notify_event e (connectionClosed e s)" using h by (simp add: handleConnectionEvent_def)
    then show ?thesis
      using note_ok[OF _ calls_ok_closed[OF wf un]] by (simp add: connectionClosed_def record_calls_def Let_def)
  next
    case SubscribeToTopic
    then obtain sub where sub: "ev_sub e = Some sub" "s' = notify_event e (subscribeToTopic e sub s)"
      using h ok by (auto simp: handleConnectionEvent_def event_ok_def)
    have "only_dest (open_subs s) (ev_destination e) (ev_ConnId e) (s_id sub)"
      using ok SubscribeToTopic sub(1) by (auto simp: only_dest_def open_subs_def)
    from note_ok[OF _ calls_ok_subscribes[OF this]] show ?thesis
      by (simp add: sub(2) subscribeToTopic_def record_calls_def Let_def)
  next
    case UnsubscribeFromTopic
    then obtain sub s1 where sub: "ev_sub e = Some sub" and s1: "unsubscribeFromTopic e s = Done s1" "s' = notify_event e s1"
      using h ok by (auto simp: event_ok_def handleConnectionEvent_def go_simps)
    consider "s1 = s" | "look (sv_subscriptionsMap s) (ev_destination e) (ev_ConnId e) (s_id sub) \<noteq> None"
      "sv_calls s1 = sv_calls s @ map (\<lambda>cb. UnsubscribeCall cb (ev_ConnId e) (s_id sub) (ev_destination e)) (sv_unsubscribeCallbacks s)"
      using s1(1) sub by (auto simp: unsubscribeFromTopic_def record_calls_def Let_def look_def split: option.splits if_splits)
    then show ?thesis
    proof cases
      case 1
      then show ?thesis using note_ok[of s "[]"] s1(2) by simp
    next
      case 2
      then have "(ev_destination e, ev_ConnId e, s_id sub) \<in> open_subs s" by (simp add: open_subs_def)
      then have "only_dest (open_subs s) (ev_destination e) (ev_ConnId e) (s_id sub)" using un by (auto simp: unique_subs_def)
      then have "calls_ok (map (\<lambda>cb. UnsubscribeCall cb (ev_ConnId e) (s_id sub) (ev_destination e)) (sv_unsubscribeCallbacks s)) (open_subs s)"
        by (intro calls_ok_unsubscribes) auto
      from note_ok[OF 2(2) this] show ?thesis by (simp add: s1(2))
    qed
  next
    case IncomingMessage
    then obtain s1 where s1: "incomingMessage e s = Done s1" "s' = notify_event e s1"
      using h by (auto simp: handleConnectionEvent_def go_simps)
    obtain ks where "sv_calls s1 = sv_calls s @ ks" "calls_ok ks (open_subs s)"
      using s1(1) calls_ok_others(1) by (auto simp: incomingMessage_def record_calls_def split: if_splits option.splits)
    from note_ok[OF this] show ?thesis by (simp add: s1(2))
  next
    case ConnectionStarting
    then have "s' = notify_event e (s\<lparr>sv_connectionsMap := List.insert (ev_ConnId e) (sv_connectionsMap s)\<rparr>)"
      using h by (simp add: handleConnectionEvent_def)
    then show ?thesis using note_ok[of "s\<lparr>sv_connectionsMap := List.insert (ev_ConnId e) (sv_connectionsMap s)\<rparr>" "[]"] by simp
  next
    case ConnectionEstablished
    then have "s' = s" using h by (simp add: handleConnectionEvent_def)
    then show ?thesis by (intro exI[of _ "[]"]) simp
  qed
qed

lemma count_inv_held:
  "count_inv e config s \<Longrightarrow> fe_chanMappings (feHeap s e) n \<noteq> None \<longleftrightarrow> chan_users e s n \<noteq> {}"
  by (auto simp: count_inv_def chan_users_def split: option.splits)

lemma handle_events_calls:
  assumes "table_wf (sv_subscriptionsMap s)" "events_ok es (look (sv_subscriptionsMap s))" "told 0 s" "unique_subs (open_subs s)"
  shows "\<exists>s' ks. handle_events es s = Done s' \<and> sv_calls s' = sv_calls s @ ks \<and> calls_ok ks (open_subs s) \<and>
    fold (replay_call 0) ks (open_subs s) = open_subs s'"
  using assms
proof (induction es arbitrary: s)
  case (Cons e es)
  have ok: "event_ok e" "events_ok [e] (look (sv_subscriptionsMap s))" using Cons.prems(2) by auto
  from handle_table[OF Cons.prems(1) ok(1)] obtain s1 where s1: "handleConnectionEvent e s = Done s1"
    "table_wf (sv_subscriptionsMap s1)" "look (sv_subscriptionsMap s1) = spec_event e (look (sv_subscriptionsMap s))"
    by auto
  from handle_calls[OF Cons.prems(1) ok(2) Cons.prems(4) s1(1)] obtain ks where
    ks: "sv_calls s1 = sv_calls s @ ks" "calls_ok ks (open_subs s)" by blast
  note t1 = handle_told[OF Cons.prems(1) ok(1) Cons.prems(3) s1(1)]
  have A1: "fold (replay_call 0) ks (open_subs s) = open_subs s1"
    using t1 Cons.prems(3) ks(1) by (auto simp: told_def replay_append)
  have "events_ok es (look (sv_subscriptionsMap s1))" using Cons.prems(2) by (simp add: s1(3))
  from Cons.IH[OF s1(2) this t1 unique_subs_spec[OF Cons.prems(4) ok(2) s1(3)]] obtain s' ks' where
    "handle_events es s1 = Done s'" "sv_calls s' = sv_calls s1 @ ks'" "calls_ok ks' (open_subs s1)"
    "fold (replay_call 0) ks' (open_subs s1) = open_subs s'" by blast
  then show ?case using s1(1) ks A1
    by (intro exI[of _ s'] exI[of _ "ks @ ks'"]) (simp add: calls_ok_append)
qed (simp add: exI[of _ "[]"])



end
