(* ===== verification/FabricCore.thy ===== *)
theory FabricCore
  imports FabricEndpoint
begin

text \<open>
  What a fabric service gets from the module (src/service/fabric\_core.go, fabric\_error.go,
  fabric\_service.go): its core with the channel name and the global headers, the functions that
  answer a request on the service channel, and calls of the REST service. The bus of the core is
  the bus of the state. A nil header map is the empty one: the code only ranges over it.
\<close>

subsection \<open>Errors of the fabric\<close>

record FabricError =
  fae_Type :: string
  fae_Title :: string
  fae_Status :: int
  fae_Detail :: string
  fae_Instance :: string

definition GetFabricError :: "string \<Rightarrow> int \<Rightarrow> string \<Rightarrow> FabricError" where
  "GetFabricError message code detail =
     \<lparr>fae_Type = ''https://github.com/vmware/transport-go/blob/main/plank/services/fabric_error.md'',
      fae_Title = message, fae_Status = code, fae_Detail = detail, fae_Instance = ''''\<rparr>"

subsection \<open>The core and its headers\<close>

type_synonym headers = "(string \<times> string) list"

record fabricCore =
  fc_channelName :: string
  fc_headers :: headers

definition SetHeaders :: "headers \<Rightarrow> fabricCore \<Rightarrow> fabricCore" where
  "SetHeaders headers core = core\<lparr>fc_headers := headers\<rparr>"

definition GenerateJSONHeaders :: headers where
  "GenerateJSONHeaders = [(''Content-Type'', ''application/json'')]"

definition SetDefaultJSONHeaders :: "fabricCore \<Rightarrow> fabricCore" where
  "SetDefaultJSONHeaders core = SetHeaders GenerateJSONHeaders core"

text \<open>\<^verbatim>\<open>for k, v := range hs { m[k] = v }\<close>\<close>

definition put_all :: "headers \<Rightarrow> headers \<Rightarrow> headers" where
  "put_all hs m = fold (\<lambda>(k, v). AList.update k v) hs m"

definition mergeHeadersWithDefaults :: "headers \<Rightarrow> fabricCore \<Rightarrow> headers" where
  "mergeHeadersWithDefaults headers core = put_all headers (put_all (fc_headers core) [])"

subsection \<open>Responses\<close>

text \<open>
  Every response goes to the service channel with the id of the request as destination; the error
  of the send is ignored. \<open>new\<close> is the id of the message.
\<close>

definition SendResponse ::
  "uuid \<Rightarrow> gval Request \<Rightarrow> gval \<Rightarrow> fabricCore \<Rightarrow> 'b busState_scheme \<Rightarrow> 'b busState_scheme" where
  "SendResponse new request responsePayload core s =
     (let headers = mergeHeadersWithDefaults [] core;
          response = Response (req_Id request) '''' 0 (fc_channelName core) responsePayload False 0 ''''
                       (req_BrokerDestination request) headers
      in fst (SendResponseMessage new (fc_channelName core) (GResponsePtr response) (req_Id request) s))"

definition SendResponseWithHeaders ::
  "uuid \<Rightarrow> gval Request \<Rightarrow> gval \<Rightarrow> headers \<Rightarrow> fabricCore \<Rightarrow> 'b busState_scheme \<Rightarrow> 'b busState_scheme" where
  "SendResponseWithHeaders new request responsePayload headers core s =
     (let response = Response (req_Id request) '''' 0 (fc_channelName core) responsePayload False 0 ''''
                       (req_BrokerDestination request) (mergeHeadersWithDefaults headers core)
      in fst (SendResponseMessage new (fc_channelName core) (GResponsePtr response) (req_Id request) s))"

definition SendErrorResponseWithPayload ::
  "uuid \<Rightarrow> gval Request \<Rightarrow> int \<Rightarrow> string \<Rightarrow> gval \<Rightarrow> fabricCore \<Rightarrow> 'b busState_scheme \<Rightarrow> 'b busState_scheme" where
  "SendErrorResponseWithPayload new request responseErrorCode responseErrorMessage payload core s =
     (let headers = mergeHeadersWithDefaults [] core;
          response = Response (req_Id request) '''' 0 (fc_channelName core) payload True responseErrorCode
                       responseErrorMessage (req_BrokerDestination request) headers
      in fst (SendResponseMessage new (fc_channelName core) (GResponsePtr response) (req_Id request) s))"

definition SendErrorResponse ::
  "uuid \<Rightarrow> gval Request \<Rightarrow> int \<Rightarrow> string \<Rightarrow> fabricCore \<Rightarrow> 'b busState_scheme \<Rightarrow> 'b busState_scheme" where
  "SendErrorResponse new request responseErrorCode responseErrorMessage core s =
     SendErrorResponseWithPayload new request responseErrorCode responseErrorMessage GNil core s"

definition SendErrorResponseWithHeaders ::
  "uuid \<Rightarrow> gval Request \<Rightarrow> int \<Rightarrow> string \<Rightarrow> headers \<Rightarrow> fabricCore \<Rightarrow> 'b busState_scheme \<Rightarrow> 'b busState_scheme" where
  "SendErrorResponseWithHeaders new request responseErrorCode responseErrorMessage headers core s =
     (let response = Response (req_Id request) '''' 0 (fc_channelName core) GNil True responseErrorCode
                       responseErrorMessage (req_BrokerDestination request) (mergeHeadersWithDefaults headers core)
      in fst (SendResponseMessage new (fc_channelName core) (GResponsePtr response) (req_Id request) s))"

definition SendErrorResponseWithHeadersAndPayload ::
  "uuid \<Rightarrow> gval Request \<Rightarrow> int \<Rightarrow> string \<Rightarrow> gval \<Rightarrow> headers \<Rightarrow> fabricCore \<Rightarrow> 'b busState_scheme \<Rightarrow> 'b busState_scheme" where
  "SendErrorResponseWithHeadersAndPayload new request responseErrorCode responseErrorMessage payload headers core s =
     (let response = Response (req_Id request) '''' 0 (fc_channelName core) payload True responseErrorCode
                       responseErrorMessage (req_BrokerDestination request) (mergeHeadersWithDefaults headers core)
      in fst (SendResponseMessage new (fc_channelName core) (GResponsePtr response) (req_Id request) s))"

definition HandleUnknownRequest ::
  "uuid \<Rightarrow> gval Request \<Rightarrow> fabricCore \<Rightarrow> 'b busState_scheme \<Rightarrow> 'b busState_scheme" where
  "HandleUnknownRequest new request core s =
     (let errorMsg = ''unsupported request for \"'' @ fc_channelName core @ ''\": '' @ req_Request request
      in SendErrorResponse new request 403 errorMsg core s)"

subsection \<open>Calling the REST service\<close>

abbreviation restServiceChannel :: string where
  "restServiceChannel \<equiv> ''fabric-rest''"

primrec set_rsr_Headers :: "headers \<Rightarrow> 'v RestServiceRequest \<Rightarrow> 'v RestServiceRequest" where
  "set_rsr_Headers h (RestServiceRequest u m b _ t a) = RestServiceRequest u m b h t a"

primrec set_rsr_ResponseType :: "gtype option \<Rightarrow> 'v RestServiceRequest \<Rightarrow> 'v RestServiceRequest" where
  "set_rsr_ResponseType t (RestServiceRequest u m b h _ a) = RestServiceRequest u m b h t a"

text \<open>
  \<open>u\<close> and \<open>v\<close> are the success and the error handler of the caller. The error of listening is
  ignored, so that without the channel the nil handler is dereferenced. The merged headers are
  assigned to the caller's request, which is a result here. \<open>newI\<close>, \<open>newH\<close>, \<open>newS\<close> and \<open>newM\<close> are
  the ids of the request, the handler, its subscription and the message.
\<close>

definition core_RestServiceRequest ::
  "uuid \<Rightarrow> uuid \<Rightarrow> uuid \<Rightarrow> uuid \<Rightarrow> gval RestServiceRequest \<Rightarrow> nat \<Rightarrow> nat \<Rightarrow> fabricCore \<Rightarrow> 'b transportEventBus_scheme
     \<Rightarrow> ('b transportEventBus_scheme \<times> gval RestServiceRequest) go" where
  "core_RestServiceRequest newI newH newS newM restRequest u v core s =
     (let mergedHeaders = put_all (rsr_Headers restRequest) (put_all (fc_headers core) []);
          restRequest' = set_rsr_Headers mergedHeaders restRequest;
          request = Request (Some newI) 0 0 '''' (GRestRequest restRequest') '''' None
      in case ListenOnceForDestination newH restServiceChannel (req_Id request) s of
           (s1, Inl _) \<Rightarrow> Panic ''nil pointer dereference''
         | (s1, Inr mh) \<Rightarrow>
             let s2 = Handle newS mh (Some (RestReply u v)) (Some (RestReply u v)) s1
             in Done (fst (SendRequestMessage newM restServiceChannel (GRequestPtr request) (req_Id request) s2), restRequest'))"

text \<open>What the two function literals do with a call of the bus: the handler that is called, with its argument.\<close>

definition runRestReply :: "nat \<Rightarrow> nat \<Rightarrow> call \<Rightarrow> (nat \<times> gval Response) go" where
  "runRestReply u v c =
     (case c of
        MsgCall _ message \<Rightarrow>
          (case msg_Payload message of
             GResponsePtr response \<Rightarrow> if resp_Error response then Done (v, response) else Done (u, response)
           | _ \<Rightarrow> Panic ''interface conversion'')
      | ErrCall _ (Some e) \<Rightarrow> Done (v, Response None '''' 0 '''' GNil True 500 e None [])
      | _ \<Rightarrow> Panic ''nil pointer dereference'')"

end
