(* ===== verification/RestService.thy ===== *)
theory RestService
  imports FabricCore
begin

text \<open>
  The REST service (src/service/rest\_service.go). The network, the JSON codec and the grammar of
  URLs are the fields of \<open>rest_env\<close>: \<open>re_refuses\<close> is the error with which \<^verbatim>\<open>http.NewRequest\<close>
  refuses a method and a URL; \<open>re_with_host\<close> is a URL parsed, given another host and printed, or
  nothing when it does not parse; \<open>re_Do\<close> is the exchange with the remote server, whose body is
  what reading it to the end gives; \<open>re_decode\<close> is the value of the JSON text of a body for a
  type, \<open>None\<close> for \<^verbatim>\<open>null\<close>; \<open>re_decode_map\<close> is the same for \<^verbatim>\<open>map[string]interface{}\<close>;
  \<open>re_recode\<close> is a value encoded and decoded again; \<open>re_addr_of\<close> is the pointer to a value.
\<close>

subsection \<open>HTTP headers\<close>

text \<open>\<^verbatim>\<open>textproto.CanonicalMIMEHeaderKey\<close> and the header map as the list of its additions.\<close>

definition is_lower :: "char \<Rightarrow> bool" where
  "is_lower c \<longleftrightarrow> 97 \<le> (of_char c :: nat) \<and> (of_char c :: nat) \<le> 122"

definition is_upper :: "char \<Rightarrow> bool" where
  "is_upper c \<longleftrightarrow> 65 \<le> (of_char c :: nat) \<and> (of_char c :: nat) \<le> 90"

definition validHeaderFieldByte :: "char \<Rightarrow> bool" where
  "validHeaderFieldByte c \<longleftrightarrow> is_lower c \<or> is_upper c \<or> 48 \<le> (of_char c :: nat) \<and> (of_char c :: nat) \<le> 57 \<or>
     (of_char c :: nat) \<in> {33, 35, 36, 37, 38, 39, 42, 43, 45, 46, 94, 95, 96, 124, 126}"

fun canonical_bytes :: "bool \<Rightarrow> string \<Rightarrow> string" where
  "canonical_bytes upper [] = []"
| "canonical_bytes upper (c # cs) =
     (let d = (if upper \<and> is_lower c then char_of (of_char c - 32 :: nat)
               else if \<not> upper \<and> is_upper c then char_of (of_char c + 32 :: nat) else c)
      in d # canonical_bytes (d = CHR ''-'') cs)"

definition canonical_key :: "string \<Rightarrow> string" where
  "canonical_key k = (if list_all validHeaderFieldByte k then canonical_bytes True k else k)"

definition header_Add :: "string \<Rightarrow> string \<Rightarrow> headers \<Rightarrow> headers" where
  "header_Add k v h = h @ [(canonical_key k, v)]"

definition header_Get :: "string \<Rightarrow> headers \<Rightarrow> string" where
  "header_Get k h = (case map_of h (canonical_key k) of None \<Rightarrow> '''' | Some v \<Rightarrow> v)"

fun Contains :: "string \<Rightarrow> string \<Rightarrow> bool" where
  "Contains [] sub = (sub = [])"
| "Contains (c # cs) sub = (HasPrefix (c # cs) sub \<or> Contains cs sub)"

subsection \<open>Requests and responses of the network\<close>

record httpRequest =
  hr_Method :: string
  hr_Url :: string
  hr_Header :: headers
  hr_Body :: bytes

record httpResponse =
  hp_StatusCode :: int
  hp_Status :: string
  hp_Body :: "error + bytes"

record rest_env =
  re_refuses :: "string \<Rightarrow> string \<Rightarrow> error option"
  re_with_host :: "string \<Rightarrow> string \<Rightarrow> string option"
  re_Do :: "httpRequest \<Rightarrow> error + httpResponse"
  re_marshal :: "gval \<Rightarrow> error + bytes"
  re_decode :: "gtype \<Rightarrow> error + bytes \<Rightarrow> error + gval option"
  re_decode_map :: "error + bytes \<Rightarrow> error + (string \<times> gval) list"
  re_recode :: "gtype \<Rightarrow> gval \<Rightarrow> error + gval"
  re_addr_of :: "gval \<Rightarrow> gval"

definition http_NewRequest :: "rest_env \<Rightarrow> string \<Rightarrow> string \<Rightarrow> bytes \<Rightarrow> error + httpRequest" where
  "http_NewRequest env method url body =
     (case re_refuses env method url of
        Some e \<Rightarrow> Inl e
      | None \<Rightarrow> Inr \<lparr>hr_Method = (if method = '''' then ''GET'' else method), hr_Url = url, hr_Header = [], hr_Body = body\<rparr>)"

subsection \<open>The service\<close>

definition marshalBody :: "rest_env \<Rightarrow> gval RestServiceRequest \<Rightarrow> error + bytes" where
  "marshalBody env request =
     (case rsr_Body request of
        GString stringPayload \<Rightarrow> Inr stringPayload
      | GBytes bytePayload \<Rightarrow> Inr bytePayload
      | body \<Rightarrow> re_marshal env body)"

text \<open>A decoded value of another dynamic type makes the type assertion panic.\<close>

definition getRestServiceRequest :: "rest_env \<Rightarrow> gval Request \<Rightarrow> (gval RestServiceRequest option) go" where
  "getRestServiceRequest env request =
     (case req_Payload request of
        GRestRequest restReq \<Rightarrow> Done (Some restReq)
      | GMap reqAsMap \<Rightarrow>
          (case ConvertValueToType (re_recode env) (re_addr_of env) (GMap reqAsMap) (Some (TPtr TRestServiceRequest)) of
             Inl _ \<Rightarrow> Done None
           | Inr GNil \<Rightarrow> Done None
           | Inr (GRestRequest restServReq) \<Rightarrow>
               Done (Some (if rsr_ApiClass restServReq = ''java.lang.String''
                           then set_rsr_ResponseType (Some TString) restServReq else restServReq))
           | Inr _ \<Rightarrow> Panic ''interface conversion'')
      | _ \<Rightarrow> Done None)"

definition getRequestUrl :: "rest_env \<Rightarrow> string \<Rightarrow> string \<Rightarrow> string" where
  "getRequestUrl env address baseHost =
     (if baseHost = '''' then address
      else case re_with_host env address baseHost of None \<Rightarrow> address | Some url \<Rightarrow> url)"

text \<open>
  Decoding \<^verbatim>\<open>null\<close> sets the interface variable that holds the pointer to nil; \<^verbatim>\<open>Elem\<close> of the zero
  \<^verbatim>\<open>reflect.Value\<close> panics.
\<close>

definition deserializeResponse :: "rest_env \<Rightarrow> error + bytes \<Rightarrow> gtype option \<Rightarrow> (error + gval) go" where
  "deserializeResponse env body responseType =
     (case responseType of
        None \<Rightarrow> Done (map_sum (\<lambda>e. e) GMap (re_decode_map env body))
      | Some TString \<Rightarrow> Done (map_sum (\<lambda>e. e) GString body)
      | Some TBytes \<Rightarrow> Done (map_sum (\<lambda>e. e) GBytes body)
      | Some (TPtr t) \<Rightarrow>
          (case re_decode env t body of
             Inl e \<Rightarrow> Done (Inl e)
           | Inr None \<Rightarrow> Done (Inr GNil)
           | Inr (Some v) \<Rightarrow> Done (Inr (re_addr_of env v)))
      | Some t \<Rightarrow>
          (case re_decode env t body of
             Inl e \<Rightarrow> Done (Inl e)
           | Inr None \<Rightarrow> Panic ''call of reflect.Value.Elem on zero Value''
           | Inr (Some v) \<Rightarrow> Done (Inr v)))"

text \<open>The HTTP request that the service builds, with the default content type.\<close>

definition outgoing :: "headers \<Rightarrow> httpRequest \<Rightarrow> httpRequest" where
  "outgoing hs httpReq =
     (let h = fold (\<lambda>(k, v). header_Add k v) hs (hr_Header httpReq)
      in httpReq\<lparr>hr_Header := (if header_Get ''Content-Type'' h = ''''
           then header_Add ''Content-Type'' ''application/merge-patch+json'' h else h)\<rparr>)"

definition responseTypeFor :: "httpRequest \<Rightarrow> gtype option \<Rightarrow> gtype option" where
  "responseTypeFor httpReq responseType =
     (if Contains (header_Get ''Content-Type'' (hr_Header httpReq)) ''json'' then responseType else Some TBytes)"

definition restError :: "string \<Rightarrow> string" where
  "restError status = ''rest-service error, unable to complete request: '' @ status"

definition rest_HandleServiceRequest ::
  "rest_env \<Rightarrow> uuid \<Rightarrow> string \<Rightarrow> gval Request \<Rightarrow> fabricCore \<Rightarrow> 'b busState_scheme \<Rightarrow> 'b busState_scheme go" where
  "rest_HandleServiceRequest env new baseHost request core s =
     go_bind (getRestServiceRequest env request) (\<lambda>r.
       case r of
         None \<Rightarrow> Done (SendErrorResponse new request 500 ''invalid RestServiceRequest payload'' core s)
       | Some restReq \<Rightarrow>
           (case marshalBody env restReq of
              Inl err \<Rightarrow> Done (SendErrorResponse new request 500 (''cannot marshal request body: '' @ err) core s)
            | Inr body \<Rightarrow>
                (case http_NewRequest env (rsr_Method restReq) (getRequestUrl env (rsr_Uri restReq) baseHost) body of
                   Inl err \<Rightarrow> Done (SendErrorResponse new request 500 err core s)
                 | Inr httpReq0 \<Rightarrow>
                     let httpReq = outgoing (rsr_Headers restReq) httpReq0;
                         responseType = responseTypeFor httpReq (rsr_ResponseType restReq)
                     in case re_Do env httpReq of
                          Inl err \<Rightarrow> Done (SendErrorResponse new request 500 err core s)
                        | Inr httpResp \<Rightarrow>
                            if hp_StatusCode httpResp \<ge> 300 then
                              Done (SendErrorResponseWithPayload new request (hp_StatusCode httpResp)
                                (restError (hp_Status httpResp))
                                (GMap [(''errorCode'', GInt (hp_StatusCode httpResp)),
                                       (''message'', GString (restError (hp_Status httpResp)))]) core s)
                            else
                              go_bind (deserializeResponse env (hp_Body httpResp) responseType) (\<lambda>result.
                                case result of
                                  Inl err \<Rightarrow> Done (SendErrorResponse new request 500 (''failed to deserialize response:'' @ err) core s)
                                | Inr v \<Rightarrow> Done (SendResponse new request v core s)))))"

end
