(* ===== verification/Middleware.thy ===== *)
theory Middleware
  imports RestService
begin

text \<open>
  The middleware of plank (src/plank/pkg/middleware): the manager that wraps the handlers of
  endpoints, the cache-control directives and the two stock middlewares. \<open>'h\<close> is the type of
  \<^verbatim>\<open>http.Handler\<close> values; a nil \<^verbatim>\<open>http.HandlerFunc\<close> is \<open>None\<close>. A middleware is a function from a
  handler to a handler; \<open>is_func\<close> says that a handler is a \<^verbatim>\<open>http.HandlerFunc\<close>. Of the router the
  manager uses the handlers of the named routes (\<open>mm_routes\<close>) and the list of global middlewares.
  A route is known by its name, \<open>None\<close> for a nil pointer.
\<close>

subsection \<open>The manager\<close>

type_synonym 'h middleware = "'h option \<Rightarrow> 'h"

record 'h middlewareManager =
  mm_endpointHandlerMap :: "string \<rightharpoonup> 'h option"
  mm_originalHandlersMap :: "string \<rightharpoonup> 'h option"
  mm_routes :: "string \<rightharpoonup> 'h option"
  mm_global :: "'h middleware list"

definition NewMiddlewareManager :: "(string \<rightharpoonup> 'h option) \<Rightarrow> (string \<rightharpoonup> 'h option) \<Rightarrow> 'h middlewareManager" where
  "NewMiddlewareManager endpointHandlerMap router =
     \<lparr>mm_endpointHandlerMap = endpointHandlerMap, mm_originalHandlersMap = Map.empty, mm_routes = router, mm_global = []\<rparr>"

definition SetGlobalMiddleware :: "'h middleware list \<Rightarrow> 'h middlewareManager \<Rightarrow> 'h middlewareManager" where
  "SetGlobalMiddleware middleware m = m\<lparr>mm_global := mm_global m @ middleware\<rparr>"

text \<open>
  The loop of \<^verbatim>\<open>buildMiddlewareChain\<close>, counting down; \<open>idx\<close> is one more than the index of the
  source. Without a middleware the result is the nil interface.
\<close>

fun chain_loop :: "'h middleware list \<Rightarrow> 'h option \<Rightarrow> nat \<Rightarrow> 'h option \<Rightarrow> 'h option" where
  "chain_loop handlers originalHandler 0 finalHandler = finalHandler"
| "chain_loop handlers originalHandler (Suc idx) finalHandler =
     (let currHandler = (if idx = length handlers - 1 then originalHandler else finalHandler)
      in chain_loop handlers originalHandler idx (Some ((handlers ! idx) currHandler)))"

definition buildMiddlewareChain :: "'h middleware list \<Rightarrow> 'h option \<Rightarrow> 'h option" where
  "buildMiddlewareChain handlers originalHandler = chain_loop handlers originalHandler (length handlers) None"

text \<open>\<^verbatim>\<open>strings.LastIndex(s, "-")\<close>; a name without a dash makes the slice expression panic.\<close>

definition LastIndex :: "string \<Rightarrow> char \<Rightarrow> nat option" where
  "LastIndex s c = map_option (\<lambda>i. length s - 1 - i) (find_index (\<lambda>d. d = c) (rev s))"

definition extractUriVerbFromMuxRoute :: "string option \<Rightarrow> (string \<times> string) go" where
  "extractUriVerbFromMuxRoute route =
     (case route of
        None \<Rightarrow> Panic ''nil pointer dereference''
      | Some opRawString \<Rightarrow>
          (case LastIndex opRawString CHR ''-'' of
             None \<Rightarrow> Panic ''slice bounds out of range''
           | Some delimiterIdx \<Rightarrow> Done (take delimiterIdx opRawString, drop (Suc delimiterIdx) opRawString)))"

text \<open>The name is read before the check for a nil route.\<close>

definition SetNewMiddleware ::
  "('h \<Rightarrow> bool) \<Rightarrow> string option \<Rightarrow> 'h middleware list \<Rightarrow> 'h middlewareManager \<Rightarrow> ('h middlewareManager \<times> error option) go" where
  "SetNewMiddleware is_func route middleware m =
     (case route of
        None \<Rightarrow> Panic ''nil pointer dereference''
      | Some name \<Rightarrow>
          if name = '''' then Panic ''index out of range''
          else
            go_bind (if last name = CHR ''*'' then Done name
                     else go_map (\<lambda>(uri, method). uri @ ''-'' @ method) (extractUriVerbFromMuxRoute route)) (\<lambda>key.
              case mm_endpointHandlerMap m key of
                None \<Rightarrow> Done (m, Some (''cannot set middleware. handler does not exist at '' @ key))
              | Some original \<Rightarrow>
                  let originals = (if mm_originalHandlersMap m key = None
                                   then (mm_originalHandlersMap m)(key \<mapsto> original) else mm_originalHandlersMap m)
                  in case buildMiddlewareChain middleware original of
                       None \<Rightarrow> Panic ''interface conversion''
                     | Some handler \<Rightarrow>
                         if \<not> is_func handler then Panic ''interface conversion''
                         else Done (m\<lparr>mm_originalHandlersMap := originals,
                                      mm_endpointHandlerMap := (mm_endpointHandlerMap m)(key \<mapsto> Some handler),
                                      mm_routes := (mm_routes m)(name \<mapsto> Some handler)\<rparr>, None)))"

text \<open>A key that is missing from the map of originals reads as a nil handler.\<close>

definition RemoveMiddleware :: "string option \<Rightarrow> 'h middlewareManager \<Rightarrow> ('h middlewareManager \<times> error option) go" where
  "RemoveMiddleware route m =
     go_bind (extractUriVerbFromMuxRoute route) (\<lambda>(uri, method).
       let key = uri @ ''-'' @ method
       in if mm_endpointHandlerMap m key = None
          then Done (m, Some (''failed to remove handler. REST bridge handler does not exist at '' @ uri @ '' ('' @ method @ '')''))
          else
            let original = (case mm_originalHandlersMap m key of None \<Rightarrow> None | Some h \<Rightarrow> h)
            in Done (m\<lparr>mm_endpointHandlerMap := (mm_endpointHandlerMap m)(key \<mapsto> original),
                       mm_routes := (mm_routes m)(the route \<mapsto> original)\<rparr>, None))"

definition GetRouteByUriAndMethod :: "string \<Rightarrow> string \<Rightarrow> 'h middlewareManager \<Rightarrow> error + string" where
  "GetRouteByUriAndMethod uri method m =
     (let name = uri @ ''-'' @ method
      in if mm_routes m name = None then Inl (''no route found at '' @ uri @ '' ('' @ method @ '')'') else Inr name)"

definition GetStaticRoute :: "string \<Rightarrow> 'h middlewareManager \<Rightarrow> error + string" where
  "GetStaticRoute prefix m =
     (let routeName = prefix @ ''*''
      in if mm_routes m routeName = None then Inl (''no route found at static prefix '' @ routeName) else Inr routeName)"

definition GetRouteByUri :: "string \<Rightarrow> 'h middlewareManager \<Rightarrow> error + string" where
  "GetRouteByUri uri m = (if mm_routes m uri = None then Inl (''no route found at '' @ uri) else Inr uri)"

subsection \<open>Cache control\<close>

text \<open>The conversion of a duration to whole seconds is made by package \<^verbatim>\<open>time\<close>; its result is the argument.\<close>

datatype CacheControlDirective = CacheControlDirective (directives: "string list")

definition NewCacheControlDirective :: CacheControlDirective where
  "NewCacheControlDirective = CacheControlDirective []"

definition Public :: "CacheControlDirective \<Rightarrow> CacheControlDirective" where
  "Public c = CacheControlDirective (directives c @ [''public''])"

definition Private :: "CacheControlDirective \<Rightarrow> CacheControlDirective" where
  "Private c = CacheControlDirective (directives c @ [''private''])"

definition NoCache :: "CacheControlDirective \<Rightarrow> CacheControlDirective" where
  "NoCache c = CacheControlDirective (directives c @ [''no-cache''])"

definition NoStore :: "CacheControlDirective \<Rightarrow> CacheControlDirective" where
  "NoStore c = CacheControlDirective (directives c @ [''no-store''])"

definition MaxAge :: "int \<Rightarrow> CacheControlDirective \<Rightarrow> CacheControlDirective" where
  "MaxAge seconds c = CacheControlDirective (directives c @ [''max-age='' @ show_int seconds])"

definition SharedMaxAge :: "int \<Rightarrow> CacheControlDirective \<Rightarrow> CacheControlDirective" where
  "SharedMaxAge seconds c = CacheControlDirective (directives c @ [''s-maxage='' @ show_int seconds])"

definition MaxStale :: "int \<Rightarrow> CacheControlDirective \<Rightarrow> CacheControlDirective" where
  "MaxStale seconds c = CacheControlDirective (directives c @ [''max-stale='' @ show_int seconds])"

definition MinFresh :: "int \<Rightarrow> CacheControlDirective \<Rightarrow> CacheControlDirective" where
  "MinFresh seconds c = CacheControlDirective (directives c @ [''min-fresh='' @ show_int seconds])"

definition MustRevalidate :: "CacheControlDirective \<Rightarrow> CacheControlDirective" where
  "MustRevalidate c = CacheControlDirective (directives c @ [''must-revalidate''])"

definition ProxyRevalidate :: "CacheControlDirective \<Rightarrow> CacheControlDirective" where
  "ProxyRevalidate c = CacheControlDirective (directives c @ [''proxy-revalidate''])"

definition Immutable :: "CacheControlDirective \<Rightarrow> CacheControlDirective" where
  "Immutable c = CacheControlDirective (directives c @ [''immutable''])"

definition NoTransform :: "CacheControlDirective \<Rightarrow> CacheControlDirective" where
  "NoTransform c = CacheControlDirective (directives c @ [''no-transform''])"

definition OnlyIfCached :: "CacheControlDirective \<Rightarrow> CacheControlDirective" where
  "OnlyIfCached c = CacheControlDirective (directives c @ [''only-if-cached''])"

fun Join :: "string list \<Rightarrow> string \<Rightarrow> string" where
  "Join [] sep = ''''"
| "Join [x] sep = x"
| "Join (x # y # xs) sep = x @ sep @ Join (y # xs) sep"

definition directive_String :: "CacheControlDirective \<Rightarrow> string" where
  "directive_String c = Join (directives c) '', ''"

text \<open>
  A response writer: the headers set so far and what the handlers wrote, each with the headers at
  the time. A handler gets the request URI and the writer. \<open>compile\<close> is the compiler of glob
  patterns of the third-party package, \<open>None\<close> for an invalid pattern.
\<close>

record responseWriter =
  rw_Header :: "string \<rightharpoonup> string"
  rw_Written :: "((string \<rightharpoonup> string) \<times> bytes) list"

type_synonym http_handler = "string \<Rightarrow> responseWriter \<Rightarrow> responseWriter"
type_synonym glob = "string \<Rightarrow> bool"

definition rw_Set :: "string \<Rightarrow> string \<Rightarrow> responseWriter \<Rightarrow> responseWriter" where
  "rw_Set k v w = w\<lparr>rw_Header := (rw_Header w)(canonical_key k \<mapsto> v)\<rparr>"

definition rw_Write :: "bytes \<Rightarrow> responseWriter \<Rightarrow> responseWriter" where
  "rw_Write b w = w\<lparr>rw_Written := rw_Written w @ [(rw_Header w, b)]\<rparr>"

record CacheControlRulePair =
  cp_GlobPattern :: string
  cp_CacheControlRule :: string
  cp_CompiledGlobPattern :: "glob option"

definition NewCacheControlRulePair ::
  "(string \<Rightarrow> error + glob) \<Rightarrow> string \<Rightarrow> string \<Rightarrow> CacheControlRulePair \<times> error option" where
  "NewCacheControlRulePair compile globPattern cacheControlRule =
     (case compile globPattern of
        Inl e \<Rightarrow> (\<lparr>cp_GlobPattern = globPattern, cp_CacheControlRule = cacheControlRule, cp_CompiledGlobPattern = None\<rparr>, Some e)
      | Inr g \<Rightarrow> (\<lparr>cp_GlobPattern = globPattern, cp_CacheControlRule = cacheControlRule, cp_CompiledGlobPattern = Some g\<rparr>, None))"

fun parseGlobPatterns :: "(string \<Rightarrow> error + glob) \<Rightarrow> string list \<Rightarrow> glob list" where
  "parseGlobPatterns compile [] = []"
| "parseGlobPatterns compile (pattern # globPatterns) =
     (case compile pattern of
        Inl _ \<Rightarrow> parseGlobPatterns compile globPatterns
      | Inr globP \<Rightarrow> globP # parseGlobPatterns compile globPatterns)"

fun uri_matches :: "glob list \<Rightarrow> string \<Rightarrow> bool" where
  "uri_matches [] uri = False"
| "uri_matches (g # globs) uri = (if g uri then True else uri_matches globs uri)"

text \<open>When no pattern matches, the handler is called and then called again with the header set.\<close>

definition cacheControlWrapper :: "http_handler \<Rightarrow> glob list \<Rightarrow> CacheControlDirective \<Rightarrow> http_handler" where
  "cacheControlWrapper h globs directive = (\<lambda>uri w.
     if globs = [] then h uri w
     else
       let w1 = (if uri_matches globs uri then w else h uri w)
       in h uri (rw_Set ''Cache-Control'' (directive_String directive) w1))"

definition CacheControlMiddleware ::
  "(string \<Rightarrow> error + glob) \<Rightarrow> string list \<Rightarrow> CacheControlDirective \<Rightarrow> http_handler \<Rightarrow> http_handler" where
  "CacheControlMiddleware compile globPatterns directive =
     (let parsed = parseGlobPatterns compile globPatterns in (\<lambda>handler. cacheControlWrapper handler parsed directive))"

definition BasicSecurityHeaderMiddleware :: "http_handler \<Rightarrow> http_handler" where
  "BasicSecurityHeaderMiddleware handler = (\<lambda>uri w.
     handler uri (rw_Set ''X-Xss-Protection'' ''1; mode=block'' (rw_Set ''X-Frame-Options'' ''SAMEORIGIN''
       (rw_Set ''X-Content-Type-Options'' ''no-sniff'' w))))"


subsection \<open>Rules of a single page application\<close>

text \<open>
  The cache-control part of src/plank/pkg/server/spa\_config.go. The rules are a Go map: the order
  of the list is the order in which \<^verbatim>\<open>range\<close> happens to visit it. A pair is only kept when its
  pattern compiles.
\<close>

record SpaConfig =
  spa_RootFolder :: string
  spa_BaseUri :: string
  spa_StaticAssets :: "string list"
  spa_CacheControlRules :: "(string \<times> string) list"
  spa_cacheControlRulePairs :: "CacheControlRulePair list"

fun collate_rules :: "(string \<Rightarrow> error + glob) \<Rightarrow> (string \<times> string) list \<Rightarrow> CacheControlRulePair list" where
  "collate_rules compile [] = []"
| "collate_rules compile ((globP, rule) # rules) =
     (case NewCacheControlRulePair compile globP rule of
        (pair, Some _) \<Rightarrow> collate_rules compile rules
      | (pair, None) \<Rightarrow> pair # collate_rules compile rules)"

definition CollateCacheControlRules :: "(string \<Rightarrow> error + glob) \<Rightarrow> SpaConfig \<Rightarrow> SpaConfig" where
  "CollateCacheControlRules compile s =
     s\<lparr>spa_cacheControlRulePairs := spa_cacheControlRulePairs s @ collate_rules compile (spa_CacheControlRules s)\<rparr>"

fun first_rule :: "CacheControlRulePair list \<Rightarrow> string \<Rightarrow> string option" where
  "first_rule [] uri = None"
| "first_rule (pair # pairs) uri =
     (case cp_CompiledGlobPattern pair of
        Some g \<Rightarrow> if g uri then Some (cp_CacheControlRule pair) else first_rule pairs uri
      | None \<Rightarrow> first_rule pairs uri)"

definition spa_CacheControlMiddleware :: "SpaConfig \<Rightarrow> http_handler \<Rightarrow> http_handler" where
  "spa_CacheControlMiddleware s handler = (\<lambda>uri w.
     handler uri (case first_rule (spa_cacheControlRulePairs s) uri of
                    Some rule \<Rightarrow> rw_Set ''Cache-Control'' rule w
                  | None \<Rightarrow> w))"

end
