(* ===== verification/MiddlewareLaws.thy ===== *)
theory MiddlewareLaws
  imports Middleware
begin

text \<open>
  Laws of the middleware manager: chains are applications from the inside out, and removing the
  middlewares of an endpoint undoes any number of settings. What goes wrong at the edges and the
  cache-control wrapper.
\<close>

section \<open>Chains\<close>

text \<open>The reference: the first middleware is outermost, the original handler innermost.\<close>

definition wrapped :: "'h middleware list \<Rightarrow> 'h option \<Rightarrow> 'h option" where
  "wrapped mws h = foldr (\<lambda>mw h. Some (mw h)) mws h"

lemma wrapped_Nil [simp]: "wrapped [] h = h"
  by (simp add: wrapped_def)

lemma wrapped_append [simp]: "wrapped (xs @ ys) h = wrapped xs (wrapped ys h)"
  by (simp add: wrapped_def)

lemma chain_loop_wrapped:
  assumes "n \<le> length mws" "n < length mws \<Longrightarrow> h = wrapped (drop n mws) orig"
  shows "chain_loop mws orig n h = (if mws = [] then h else if n = length mws \<and> n = 0 then h else
    if n = 0 then h else wrapped mws orig)"
  using assms
proof (induction n arbitrary: h)
  case (Suc n)
  have step: "(mws ! n) (if n = length mws - 1 then orig else h) = the (wrapped (drop n mws) orig)"
    "wrapped (drop n mws) orig \<noteq> None"
  proof -
    have d: "drop n mws = mws ! n # drop (Suc n) mws" using Suc.prems(1) by (simp add: Cons_nth_drop_Suc)
    have "(if n = length mws - 1 then orig else h) = wrapped (drop (Suc n) mws) orig"
      using Suc.prems by (auto simp: wrapped_def)
    then show "(mws ! n) (if n = length mws - 1 then orig else h) = the (wrapped (drop n mws) orig)" "wrapped (drop n mws) orig \<noteq> None"
      unfolding d by (simp_all add: wrapped_def)
  qed
  then have "Some ((mws ! n) (if n = length mws - 1 then orig else h)) = wrapped (drop n mws) orig" by auto
  then show ?case using Suc.IH[of "wrapped (drop n mws) orig"] Suc.prems(1) by (cases n) (auto simp: Let_def)
qed simp

lemma buildMiddlewareChain_wrapped:
  "buildMiddlewareChain mws orig = (if mws = [] then None else wrapped mws orig)"
  using chain_loop_wrapped[of "length mws" mws None orig] by (auto simp: buildMiddlewareChain_def)

section \<open>Setting and removing\<close>

lemma LastIndex_sep:
  assumes "c \<notin> set method"
  shows "LastIndex (uri @ c # method) c = Some (length uri)"
proof -
  have "find_index (\<lambda>d. d = c) (xs @ c # ys) = Some (length xs)" if "c \<notin> set xs" for xs ys
    using that by (induction xs) auto
  from this[of "rev method" "rev uri"] assms show ?thesis by (simp add: LastIndex_def)
qed

lemma extract_sep:
  "CHR ''-'' \<notin> set method \<Longrightarrow> extractUriVerbFromMuxRoute (Some (uri @ ''-'' @ method)) = Done (uri, method)"
  by (simp add: extractUriVerbFromMuxRoute_def LastIndex_sep)

fun set_all ::
  "('h \<Rightarrow> bool) \<Rightarrow> string \<Rightarrow> 'h middleware list list \<Rightarrow> 'h middlewareManager \<Rightarrow> 'h middlewareManager go" where
  "set_all is_func name [] m = Done m"
| "set_all is_func name (mws # rest) m =
     go_bind (SetNewMiddleware is_func (Some name) mws m) (\<lambda>(m', _). set_all is_func name rest m')"

lemma SetNewMiddleware_rest:
  assumes "name = uri @ ''-'' @ method" "CHR ''-'' \<notin> set method" "last name \<noteq> CHR ''*''"
    and "mm_endpointHandlerMap m name = Some orig" "mws \<noteq> []" "is_func (the (wrapped mws orig))"
  shows "SetNewMiddleware is_func (Some name) mws m = Done (m\<lparr>mm_originalHandlersMap := (if mm_originalHandlersMap m name = None
        then (mm_originalHandlersMap m)(name \<mapsto> orig) else mm_originalHandlersMap m),
      mm_endpointHandlerMap := (mm_endpointHandlerMap m)(name \<mapsto> wrapped mws orig),
      mm_routes := (mm_routes m)(name \<mapsto> wrapped mws orig)\<rparr>, None)"
proof -
  obtain h where h: "wrapped mws orig = Some h" using assms(5) by (cases mws) (auto simp: wrapped_def)
  have "name \<noteq> ''''" using assms(1) by simp
  then show ?thesis
    using assms extract_sep[OF assms(2), of uri] h
    by (simp add: SetNewMiddleware_def buildMiddlewareChain_wrapped Let_def)
qed

lemma set_all_wrapped:
  assumes "name = uri @ ''-'' @ method" "CHR ''-'' \<notin> set method" "last name \<noteq> CHR ''*''"
    and "mm_endpointHandlerMap m name = Some h" "mm_originalHandlersMap m name = Some orig"
    and "\<forall>mws \<in> set mss. mws \<noteq> [] \<and> (\<forall>h. is_func (the (wrapped mws h)))"
  shows "\<exists>m'. set_all is_func name mss m = Done m' \<and> mm_endpointHandlerMap m' = (mm_endpointHandlerMap m)(name \<mapsto> wrapped (concat (rev mss)) h) \<and>
    mm_originalHandlersMap m' = mm_originalHandlersMap m \<and>
    mm_routes m' = (if mss = [] then mm_routes m else (mm_routes m)(name \<mapsto> wrapped (concat (rev mss)) h))"
  using assms(4-)
proof (induction mss arbitrary: m h)
  case Nil
  then show ?case by (simp add: wrapped_def fun_upd_idem)
next
  case (Cons mws mss)
  let ?m1 = "m\<lparr>mm_endpointHandlerMap := (mm_endpointHandlerMap m)(name \<mapsto> wrapped mws h), mm_routes := (mm_routes m)(name \<mapsto> wrapped mws h)\<rparr>"
  have s: "SetNewMiddleware is_func (Some name) mws m = Done (?m1, None)"
    using SetNewMiddleware_rest[OF assms(1-3) Cons.prems(1)] Cons.prems by simp
  have "\<forall>mws\<in>set mss. mws \<noteq> [] \<and> (\<forall>h. is_func (the (wrapped mws h)))" using Cons.prems(3) by simp
  moreover have "mm_endpointHandlerMap ?m1 name = Some (wrapped mws h)" "mm_originalHandlersMap ?m1 name = Some orig"
    using Cons.prems(2) by simp_all
  ultimately obtain m' where
    "set_all is_func name mss ?m1 = Done m'" "mm_endpointHandlerMap m' = (mm_endpointHandlerMap ?m1)(name \<mapsto> wrapped (concat (rev mss)) (wrapped mws h))"
    "mm_originalHandlersMap m' = mm_originalHandlersMap ?m1"
    "mm_routes m' = (if mss = [] then mm_routes ?m1 else (mm_routes ?m1)(name \<mapsto> wrapped (concat (rev mss)) (wrapped mws h)))" using Cons.IH by blast
  note m' = this
  show ?case
  proof (cases "mss = []")
    case True
    then show ?thesis by (simp add: s fun_eq_iff)
  next
    case False
    then show ?thesis using s m' by (intro exI[of _ m']) (simp add: fun_eq_iff)
  qed
qed

text \<open>
  C31. However often middlewares are set on the endpoint of a REST bridge, the endpoint and its
  route get the same handler: the ones set last outermost, within one call the first outermost, and
  innermost the handler that the endpoint had before the first call. Removing the middlewares
  restores that handler and leaves all other endpoints as they are.
\<close>

theorem middleware_set_remove:
  assumes "name = uri @ ''-'' @ method" "CHR ''-'' \<notin> set method" "last name \<noteq> CHR ''*''"
    and "mm_endpointHandlerMap m name = Some orig" "mm_originalHandlersMap m name = None"
    and "mss \<noteq> []" "\<forall>mws \<in> set mss. mws \<noteq> [] \<and> (\<forall>h. is_func (the (wrapped mws h)))"
  shows "\<exists>m1 m2. set_all is_func name mss m = Done m1 \<and>
    mm_endpointHandlerMap m1 = (mm_endpointHandlerMap m)(name \<mapsto> foldr (\<lambda>mw h. Some (mw h)) (concat (rev mss)) orig) \<and>
    mm_routes m1 = (mm_routes m)(name \<mapsto> foldr (\<lambda>mw h. Some (mw h)) (concat (rev mss)) orig) \<and>
    RemoveMiddleware (Some name) m1 = Done (m2, None) \<and>
    mm_endpointHandlerMap m2 = mm_endpointHandlerMap m \<and> mm_routes m2 = (mm_routes m)(name \<mapsto> orig)"
proof -
  obtain mws rest where mss: "mss = mws # rest" using assms(6) by (cases mss) auto
  let ?m0 = "m\<lparr>mm_originalHandlersMap := (mm_originalHandlersMap m)(name \<mapsto> orig),
      mm_endpointHandlerMap := (mm_endpointHandlerMap m)(name \<mapsto> wrapped mws orig),
      mm_routes := (mm_routes m)(name \<mapsto> wrapped mws orig)\<rparr>"
  have s: "SetNewMiddleware is_func (Some name) mws m = Done (?m0, None)"
    using SetNewMiddleware_rest[OF assms(1-4)] assms(5,7) mss by simp
  have rest: "\<forall>mws\<in>set rest. mws \<noteq> [] \<and> (\<forall>h. is_func (the (wrapped mws h)))" using assms(7) mss by simp
  obtain m1 where m1: "set_all is_func name rest ?m0 = Done m1"
    "mm_endpointHandlerMap m1 = (mm_endpointHandlerMap m)(name \<mapsto> wrapped (concat (rev mss)) orig)"
    "mm_originalHandlersMap m1 name = Some orig" "mm_routes m1 = (mm_routes m)(name \<mapsto> wrapped (concat (rev mss)) orig)"
    using set_all_wrapped[OF assms(1-3), of ?m0 "wrapped mws orig" orig rest is_func] rest mss
    by (cases "rest = []") auto
  have "RemoveMiddleware (Some name) m1 =
      Done (m1\<lparr>mm_endpointHandlerMap := (mm_endpointHandlerMap m1)(name \<mapsto> orig), mm_routes := (mm_routes m1)(name \<mapsto> orig)\<rparr>, None)"
    using extract_sep[OF assms(2), of uri] assms(1) m1(2,3) by (simp add: RemoveMiddleware_def Let_def)
  moreover have "(mm_endpointHandlerMap m)(name \<mapsto> orig) = mm_endpointHandlerMap m" using assms(4) by (simp add: fun_upd_idem)
  ultimately show ?thesis using m1 s unfolding mss by (simp add: wrapped_def[symmetric])
qed

definition ex_manager :: "nat list middlewareManager" where
  "ex_manager = NewMiddlewareManager [''/a-GET'' \<mapsto> Some [0], ''/b-GET'' \<mapsto> Some [9]] [''/a-GET'' \<mapsto> Some [0], ''/b-GET'' \<mapsto> Some [9]]"

definition ex_mw :: "nat \<Rightarrow> nat list middleware" where
  "ex_mw n = (\<lambda>h. n # the h)"

theorem middleware_set_remove_witness:
  "\<exists>m1 m2. set_all (\<lambda>_. True) ''/a-GET'' [[ex_mw 1, ex_mw 2], [ex_mw 3]] ex_manager = Done m1 \<and>
    mm_endpointHandlerMap m1 ''/a-GET'' = Some (Some [3, 1, 2, 0]) \<and>
    RemoveMiddleware (Some ''/a-GET'') m1 = Done (m2, None) \<and> mm_endpointHandlerMap m2 ''/a-GET'' = Some (Some [0])"
  using middleware_set_remove[of "''/a-GET''" "''/a''" "''GET''" ex_manager "Some [0]" "[[ex_mw 1, ex_mw 2], [ex_mw 3]]" "\<lambda>_. True"]
  by (auto simp: ex_manager_def NewMiddlewareManager_def ex_mw_def)

text \<open>Removing the middlewares of an endpoint that has none takes its handler away.\<close>

theorem remove_without_middleware_clears:
  assumes "CHR ''-'' \<notin> set method" "mm_endpointHandlerMap m (uri @ ''-'' @ method) = Some h" "mm_originalHandlersMap m (uri @ ''-'' @ method) = None"
  shows "\<exists>m'. RemoveMiddleware (Some (uri @ ''-'' @ method)) m = Done (m', None) \<and>
    mm_endpointHandlerMap m' (uri @ ''-'' @ method) = Some None \<and> mm_routes m' (uri @ ''-'' @ method) = Some None"
  using assms extract_sep[OF assms(1), of uri] by (simp add: RemoveMiddleware_def Let_def)

text \<open>
  Where the code means to return an error for a nil route it panics; so does setting no
  middleware at all.
\<close>

theorem set_middleware_panics:
  "SetNewMiddleware is_func None mws m = Panic ''nil pointer dereference''"
  "RemoveMiddleware None m = Panic ''nil pointer dereference''"
  "CHR ''-'' \<notin> set method \<Longrightarrow> last (uri @ ''-'' @ method) \<noteq> CHR ''*'' \<Longrightarrow> mm_endpointHandlerMap m (uri @ ''-'' @ method) = Some h \<Longrightarrow>
     SetNewMiddleware is_func (Some (uri @ ''-'' @ method)) [] m = Panic ''interface conversion''"
  using extract_sep[of "method" "uri"]
  by (simp_all add: SetNewMiddleware_def RemoveMiddleware_def extractUriVerbFromMuxRoute_def buildMiddlewareChain_def Let_def)

section \<open>Cache control\<close>

text \<open>
  A request that no pattern matches is served twice, the second time with the cache-control header
  of the directive.
\<close>

theorem cache_control_serves_twice:
  "globs \<noteq> [] \<Longrightarrow> \<not> uri_matches globs uri \<Longrightarrow>
     cacheControlWrapper (\<lambda>_. rw_Write b) globs directive uri w =
       w\<lparr>rw_Header := (rw_Header w)(''Cache-Control'' \<mapsto> directive_String directive),
         rw_Written := rw_Written w @ [(rw_Header w, b), ((rw_Header w)(''Cache-Control'' \<mapsto> directive_String directive), b)]\<rparr>"
proof -
  have "canonical_key ''Cache-Control'' = ''Cache-Control''" by code_simp
  then show "globs \<noteq> [] \<Longrightarrow> \<not> uri_matches globs uri \<Longrightarrow> ?thesis"
    by (simp add: cacheControlWrapper_def Let_def rw_Set_def rw_Write_def)
qed

text \<open>Which of several matching rules of an application is used depends on the order of the map.\<close>

theorem spa_rule_depends_on_map_order:
  "first_rule (collate_rules (\<lambda>_. Inr (\<lambda>_. True)) [(''*'', ''no-store''), (''/a*'', ''public'')]) ''/a'' = Some ''no-store'' \<and>
   first_rule (collate_rules (\<lambda>_. Inr (\<lambda>_. True)) [(''/a*'', ''public''), (''*'', ''no-store'')]) ''/a'' = Some ''public''"
  by (simp add: NewCacheControlRulePair_def)

end
