(* ===== verification/ServiceRegistry.thy ===== *)
theory ServiceRegistry
  imports RestService
begin

text \<open>
  The service registry and the lifecycle manager (src/service/service\_registry.go,
  service\_lifecycle\_manager.go). Services are found by their channel. Wrappers and registries
  are in heaps, since request handlers keep pointing to a wrapper after its service is
  unregistered and since \<^verbatim>\<open>ResetServiceRegistry\<close> makes a new registry. A service of the
  application is a number; what its type implements are parameters: \<open>Init\<close> gives its
  initialisation, run with its core (the wrapper's address), and \<open>Hooks\<close> the REST bridges of its
  lifecycle hooks, both \<open>None\<close> when the type does not implement the interface. The mutex of a
  registry is held while a service is initialised.
\<close>

subsection \<open>State\<close>

datatype FabricService = restService (rs_baseHost: string) | UserService nat

record fabricServiceWrapper =
  sw_service :: FabricService
  sw_fabricCore :: fabricCore
  sw_requestMsgHandler :: "addr option"

record serviceRegistry =
  sr_locked :: bool
  sr_services :: "(string \<times> addr) list"
  sr_lifecycleManager :: "addr option"

text \<open>
  \<open>registryInstance\<close>, \<open>registryOnce\<close> and \<open>svcLifecycleManagerInstance\<close> are the variables of the
  package; a lifecycle manager is the registry that it refers to. \<open>serviceCalls\<close> records the
  requests that services of the application are given.
\<close>

record svcBus = fabBus +
  wrappers :: "addr \<Rightarrow> fabricServiceWrapper"
  nextWrapper :: addr
  registries :: "addr \<Rightarrow> serviceRegistry"
  nextRegistry :: addr
  registryOnce :: bool
  registryInstance :: "addr option"
  svcLifecycleManagerInstance :: "addr option option"
  serviceCalls :: "(nat \<times> addr \<times> gval Request) list"

type_synonym 'b service_init = "nat \<Rightarrow> (addr \<Rightarrow> 'b svcBus_scheme \<Rightarrow> ('b svcBus_scheme \<times> error option) go) option"
type_synonym service_hooks = "nat \<Rightarrow> RESTBridgeConfig list option"

definition upd_sw ::
  "addr \<Rightarrow> (fabricServiceWrapper \<Rightarrow> fabricServiceWrapper) \<Rightarrow> 'b svcBus_scheme \<Rightarrow> 'b svcBus_scheme" where
  "upd_sw w f s = s\<lparr>wrappers := (wrappers s)(w := f (wrappers s w))\<rparr>"

definition upd_reg :: "addr \<Rightarrow> (serviceRegistry \<Rightarrow> serviceRegistry) \<Rightarrow> 'b svcBus_scheme \<Rightarrow> 'b svcBus_scheme" where
  "upd_reg r f s = s\<lparr>registries := (registries s)(r := f (registries s r))\<rparr>"

definition init_svcBus :: "uuid \<Rightarrow> svcBus" where
  "init_svcBus new = fabBus.extend (init_fabBus new)
     \<lparr>wrappers = (\<lambda>_. \<lparr>sw_service = UserService 0, sw_fabricCore = \<lparr>fc_channelName = '''', fc_headers = []\<rparr>,
        sw_requestMsgHandler = None\<rparr>), nextWrapper = 0,
      registries = (\<lambda>_. \<lparr>sr_locked = False, sr_services = [], sr_lifecycleManager = None\<rparr>), nextRegistry = 0,
      registryOnce = False, registryInstance = None, svcLifecycleManagerInstance = None, serviceCalls = []\<rparr>"

abbreviation LifecycleManagerChannelName :: string where
  "LifecycleManagerChannelName \<equiv> ''_transportInternal/service-lifecycle-manager''"

abbreviation ServiceReadyStore :: string where
  "ServiceReadyStore \<equiv> ''service-ready-notification-store''"

definition internalServices :: "string \<rightharpoonup> bool" where
  "internalServices = [''fabric-rest'' \<mapsto> True]"

subsection \<open>Wrappers\<close>

definition newServiceWrapper :: "FabricService \<Rightarrow> string \<Rightarrow> 'b svcBus_scheme \<Rightarrow> 'b svcBus_scheme \<times> addr" where
  "newServiceWrapper service serviceChannelName s =
     (let w = nextWrapper s
      in (s\<lparr>wrappers := (wrappers s)(w := \<lparr>sw_service = service,
              sw_fabricCore = \<lparr>fc_channelName = serviceChannelName, fc_headers = []\<rparr>, sw_requestMsgHandler = None\<rparr>),
            nextWrapper := Suc w\<rparr>, w))"

fun initializationService ::
  "'b service_init \<Rightarrow> FabricService \<Rightarrow> (addr \<Rightarrow> 'b svcBus_scheme \<Rightarrow> ('b svcBus_scheme \<times> error option) go) option" where
  "initializationService Init (restService _) = None"
| "initializationService Init (UserService n) = Init n"

definition sw_init ::
  "'b service_init \<Rightarrow> uuid \<Rightarrow> uuid \<Rightarrow> addr \<Rightarrow> 'b svcBus_scheme \<Rightarrow> ('b svcBus_scheme \<times> error option) go" where
  "sw_init Init newH newS w s =
     (let name = fc_channelName (sw_fabricCore (wrappers s w));
          s1 = fst (CreateChannel name s)
      in go_bind (case initializationService Init (sw_service (wrappers s w)) of
                    None \<Rightarrow> Done (s1, None)
                  | Some f \<Rightarrow> f w s1) (\<lambda>(s2, initializationErr).
           case initializationErr of
             Some e \<Rightarrow> Done (s2, Some e)
           | None \<Rightarrow>
               (case ListenRequestStream newH name s2 of
                  (s3, Inl err) \<Rightarrow> Done (s3, Some err)
                | (s3, Inr mh) \<Rightarrow>
                    Done (Handle newS mh (Some (ServiceRequest w)) (Some IgnoreFn)
                            (upd_sw w (\<lambda>sw. sw\<lparr>sw_requestMsgHandler := Some mh\<rparr>) s3), None))))"

definition sw_unregister :: "addr \<Rightarrow> 'b svcBus_scheme \<Rightarrow> 'b svcBus_scheme go" where
  "sw_unregister w s =
     (case sw_requestMsgHandler (wrappers s w) of
        Some mh \<Rightarrow> MessageHandler_Close mh s
      | None \<Rightarrow> Done s)"

text \<open>
  The request handler. A request by pointer or by value is taken, with the destination of the
  message as its id; anything else is dropped.
\<close>

definition service_request :: "Message \<Rightarrow> gval Request option" where
  "service_request message =
     map_option (\<lambda>request. if msg_DestinationId message \<noteq> None then set_req_Id (msg_DestinationId message) request else request)
       (case msg_Payload message of
          GRequestPtr request \<Rightarrow> Some request
        | GRequest request \<Rightarrow> Some request
        | _ \<Rightarrow> None)"

definition runServiceRequest :: "rest_env \<Rightarrow> uuid \<Rightarrow> addr \<Rightarrow> Message \<Rightarrow> 'b svcBus_scheme \<Rightarrow> 'b svcBus_scheme go" where
  "runServiceRequest env new w message s =
     (case service_request message of
        None \<Rightarrow> Done s
      | Some request \<Rightarrow>
          (case sw_service (wrappers s w) of
             restService baseHost \<Rightarrow> rest_HandleServiceRequest env new baseHost request (sw_fabricCore (wrappers s w)) s
           | UserService n \<Rightarrow> Done (s\<lparr>serviceCalls := serviceCalls s @ [(n, w, request)]\<rparr>)))"

subsection \<open>The lifecycle manager\<close>

definition GetService :: "addr \<Rightarrow> string \<Rightarrow> 'b svcBus_scheme \<Rightarrow> error + FabricService" where
  "GetService r serviceChannelName s =
     (case map_of (sr_services (registries s r)) serviceChannelName of
        Some w \<Rightarrow> Inr (sw_service (wrappers s w))
      | None \<Rightarrow> Inl (''fabric service not found at channel '' @ serviceChannelName))"

fun lifecycleHooks :: "service_hooks \<Rightarrow> FabricService \<Rightarrow> RESTBridgeConfig list option" where
  "lifecycleHooks Hooks (restService _) = None"
| "lifecycleHooks Hooks (UserService n) = Hooks n"

definition GetServiceHooks ::
  "service_hooks \<Rightarrow> addr option \<Rightarrow> string \<Rightarrow> 'b svcBus_scheme \<Rightarrow> (RESTBridgeConfig list option) go" where
  "GetServiceHooks Hooks lm serviceChannelName s =
     (case lm of
        None \<Rightarrow> Panic ''nil pointer dereference''
      | Some r \<Rightarrow>
          (case GetService r serviceChannelName s of
             Inl _ \<Rightarrow> Done None
           | Inr service \<Rightarrow> Done (lifecycleHooks Hooks service)))"

definition OverrideRESTBridgeConfig ::
  "uuid \<Rightarrow> addr option \<Rightarrow> string \<Rightarrow> RESTBridgeConfig list \<Rightarrow> 'b svcBus_scheme \<Rightarrow> ('b svcBus_scheme \<times> error option) go" where
  "OverrideRESTBridgeConfig new lm serviceChannelName config s =
     (case lm of
        None \<Rightarrow> Panic ''nil pointer dereference''
      | Some r \<Rightarrow>
          (case GetService r serviceChannelName s of
             Inl err \<Rightarrow> Done (s, Some err)
           | Inr _ \<Rightarrow>
               Done (SendResponseMessage new LifecycleManagerChannelName
                 (GSetupREST (SetupRESTBridgeRequest serviceChannelName True config)) (Some (eb_Id s)) s)))"

definition GetServiceLifecycleManager :: "'b svcBus_scheme \<Rightarrow> 'b svcBus_scheme" where
  "GetServiceLifecycleManager s =
     (if svcLifecycleManagerInstance s = None then s\<lparr>svcLifecycleManagerInstance := Some (registryInstance s)\<rparr> else s)"

subsection \<open>The registry\<close>

text \<open>\<^verbatim>\<open>!isInternal || !found\<close>, where a missing key reads as false.\<close>

definition GetAllServiceChannels :: "addr \<Rightarrow> 'b svcBus_scheme \<Rightarrow> string list" where
  "GetAllServiceChannels r s =
     filter (\<lambda>chanName. internalServices chanName \<noteq> Some True) (map fst (sr_services (registries s r)))"

definition SetGlobalRestServiceBaseHost :: "addr \<Rightarrow> string \<Rightarrow> 'b svcBus_scheme \<Rightarrow> 'b svcBus_scheme go" where
  "SetGlobalRestServiceBaseHost r host s =
     (case map_of (sr_services (registries s r)) restServiceChannel of
        None \<Rightarrow> Panic ''nil pointer dereference''
      | Some w \<Rightarrow>
          (case sw_service (wrappers s w) of
             restService _ \<Rightarrow> Done (upd_sw w (\<lambda>sw. sw\<lparr>sw_service := restService host\<rparr>) s)
           | _ \<Rightarrow> Panic ''interface conversion''))"

text \<open>
  \<open>announceHooks\<close> is the end of \<^verbatim>\<open>RegisterService\<close>, which hands the REST bridges of the service
  to the platform; an error there is returned although the service is registered.
\<close>

definition announceHooks ::
  "service_hooks \<Rightarrow> uuid \<Rightarrow> addr \<Rightarrow> string \<Rightarrow> 'b svcBus_scheme \<Rightarrow> ('b svcBus_scheme \<times> error option) go" where
  "announceHooks Hooks newM r serviceChannelName s =
     (if internalServices serviceChannelName = Some True then Done (s, None)
      else
        let s1 = GetServiceLifecycleManager s;
            lcm = (case sr_lifecycleManager (registries s1 r) of
                     Some m \<Rightarrow> Some m
                   | None \<Rightarrow> the (svcLifecycleManagerInstance s1))
        in go_map (\<lambda>hooks.
             case hooks of
               None \<Rightarrow> (s1, None)
             | Some config \<Rightarrow>
                 SendResponseMessage newM LifecycleManagerChannelName
                   (GSetupREST (SetupRESTBridgeRequest serviceChannelName False config)) (Some (eb_Id s1)) s1)
             (GetServiceHooks Hooks lcm serviceChannelName s1))"

definition addService ::
  "'b service_init \<Rightarrow> service_hooks \<Rightarrow> uuid \<Rightarrow> uuid \<Rightarrow> uuid \<Rightarrow> addr \<Rightarrow> FabricService \<Rightarrow> string \<Rightarrow> 'b svcBus_scheme
     \<Rightarrow> ('b svcBus_scheme \<times> error option) go" where
  "addService Init Hooks newH newS newM r service serviceChannelName s =
     (let (s1, w) = newServiceWrapper service serviceChannelName s
      in go_bind (sw_init Init newH newS w s1) (\<lambda>(s2, err).
           case err of
             Some e \<Rightarrow> Done (s2, Some e)
           | None \<Rightarrow> announceHooks Hooks newM r serviceChannelName
               (upd_reg r (\<lambda>reg. reg\<lparr>sr_services := AList.update serviceChannelName w (sr_services reg)\<rparr>) s2)))"

definition RegisterService ::
  "'b service_init \<Rightarrow> service_hooks \<Rightarrow> uuid \<Rightarrow> uuid \<Rightarrow> uuid \<Rightarrow> addr \<Rightarrow> FabricService option \<Rightarrow> string \<Rightarrow> 'b svcBus_scheme
     \<Rightarrow> ('b svcBus_scheme \<times> error option) go" where
  "RegisterService Init Hooks newH newS newM r service serviceChannelName s =
     (if sr_locked (registries s r) then Block
      else
        go_map (\<lambda>(s', err). (upd_reg r (\<lambda>reg. reg\<lparr>sr_locked := False\<rparr>) s', err))
          (let s0 = upd_reg r (\<lambda>reg. reg\<lparr>sr_locked := True\<rparr>) s
           in case service of
                None \<Rightarrow> Done (s0, Some ''unable to register service: nil service'')
              | Some svc \<Rightarrow>
                  if map_of (sr_services (registries s0 r)) serviceChannelName \<noteq> None
                  then Done (s0, Some (''unable to register service: service channel name is already used: '' @ serviceChannelName))
                  else addService Init Hooks newH newS newM r svc serviceChannelName s0))"

definition UnregisterService ::
  "addr \<Rightarrow> string \<Rightarrow> 'b svcBus_scheme \<Rightarrow> ('b svcBus_scheme \<times> error option) go" where
  "UnregisterService r serviceChannelName s =
     (if sr_locked (registries s r) then Block
      else case map_of (sr_services (registries s r)) serviceChannelName of
        None \<Rightarrow> Done (s, Some (''unable to unregister service: no service is registered for channel \"'' @ serviceChannelName @ ''\"''))
      | Some sw \<Rightarrow>
          go_map (\<lambda>s1. (upd_reg r (\<lambda>reg. reg\<lparr>sr_services := AList.delete serviceChannelName (sr_services reg)\<rparr>) s1, None))
            (sw_unregister sw s))"

definition newServiceRegistry ::
  "'b service_init \<Rightarrow> service_hooks \<Rightarrow> uuid \<Rightarrow> uuid \<Rightarrow> 'b svcBus_scheme \<Rightarrow> ('b svcBus_scheme \<times> addr) go" where
  "newServiceRegistry Init Hooks newH newS s =
     (let r = nextRegistry s;
          s0 = s\<lparr>registries := (registries s)(r := \<lparr>sr_locked = False, sr_services = [], sr_lifecycleManager = None\<rparr>),
                 nextRegistry := Suc r\<rparr>;
          s1 = fst (CreateChannel LifecycleManagerChannelName s0)
      in go_bind (CreateStoreWithType ServiceReadyStore (Some TBool) s1) (\<lambda>(s2, a).
           case Initialize (storeHeap s2 a) of (store, outs) \<Rightarrow>
             go_bind (store_outputs (\<lambda>_. '''') a outs (upd_store a (\<lambda>_. store) s2)) (\<lambda>s3.
               go_map (\<lambda>(s4, _). (s4, r))
                 (RegisterService Init Hooks newH newS '''' r (Some (restService '''')) restServiceChannel s3))))"

definition GetServiceRegistry ::
  "'b service_init \<Rightarrow> service_hooks \<Rightarrow> uuid \<Rightarrow> uuid \<Rightarrow> 'b svcBus_scheme \<Rightarrow> ('b svcBus_scheme \<times> addr option) go" where
  "GetServiceRegistry Init Hooks newH newS s =
     (if registryOnce s then Done (s, registryInstance s)
      else go_map (\<lambda>(s1, r).
             (GetServiceLifecycleManager (s1\<lparr>registryOnce := True, registryInstance := Some r, svcLifecycleManagerInstance := None\<rparr>), Some r))
             (newServiceRegistry Init Hooks newH newS s))"

definition ResetServiceRegistry ::
  "'b service_init \<Rightarrow> service_hooks \<Rightarrow> uuid \<Rightarrow> uuid \<Rightarrow> 'b svcBus_scheme \<Rightarrow> ('b svcBus_scheme \<times> addr option) go" where
  "ResetServiceRegistry Init Hooks newH newS s = GetServiceRegistry Init Hooks newH newS (s\<lparr>registryOnce := False\<rparr>)"

end
