(* ===== verification/PlatformServer.thy ===== *)
theory PlatformServer
  imports ServiceRegistry Middleware
begin

text \<open>
  The part of the plank server that connects HTTP to the bus (src/plank/pkg/server): REST bridges
  (server.go), the handler of a bridged endpoint (endpointer\_handler\_factory.go), the listener
  that sets bridges up for services (initialize.go) and the conversions of a response body
  (helpers.go, src/plank/utils/bytes.go). A router is the list of its routes, each with the calls
  that built it: its name, its path or path prefix, the methods it was restricted to (\<open>None\<close>
  when it was not), and its handler. Routers are in a heap, since the middleware manager and the
  HTTP server keep the one they were given. Request builders and middlewares of the
  application are numbers. The counter that guards the router is zero outside the two
  functions that change it, which hold the lock of the server.
\<close>

subsection \<open>State\<close>

datatype middleware_fn = UserMiddleware nat | SpaCacheControl

text \<open>
  Handlers of endpoints: a REST bridge with its channel and request builder; static files below a
  folder with the prefix that is stripped and the middlewares around them; a redirection; the
  health check and the metrics; a single page application; the upgrade to a WebSocket; a handler
  behind the cache-control middleware for that URI, or behind that of the application.
\<close>

datatype endpoint =
  BridgeEndpoint string nat
| StaticEndpoint string string "middleware_fn list"
| RedirectEndpoint string
| HealthEndpoint
| PrometheusEndpoint
| SpaEndpoint string
| WebSocketEndpoint string
| NoStoreEndpoint string endpoint
| SpaCachedEndpoint endpoint
| OtherEndpoint nat

datatype route_path = Path string | PathPrefix string

record route =
  rt_Name :: string
  rt_Path :: route_path
  rt_Methods :: "string list option"
  rt_Handler :: endpoint

record MessageBridge =
  mb_ServiceListenStream :: addr
  mb_payloadChannel :: "Message list"

record ServerAvailability =
  sa_Http :: bool
  sa_Fabric :: bool

text \<open>\<open>ps_messageBridgeMap\<close> is \<open>None\<close> for the nil map, from which reads find nothing and where a write panics.\<close>

record plankBus = svcBus +
  routers :: "addr \<Rightarrow> route list"
  nextRouter :: addr
  ps_router :: addr
  ps_httpHandler :: addr
  ps_mmRouter :: addr
  ps_endpointHandlerMap :: "string \<rightharpoonup> endpoint"
  ps_serviceChanToBridgeEndpoints :: "string \<rightharpoonup> string list"
  ps_messageBridgeMap :: "(string \<rightharpoonup> MessageBridge) option"
  ps_ServerAvailability :: ServerAvailability
  ps_TLSConfig :: "nat option"

definition init_plankBus :: "uuid \<Rightarrow> plankBus" where
  "init_plankBus new = svcBus.extend (init_svcBus new)
     \<lparr>routers = (\<lambda>_. []), nextRouter = 1, ps_router = 0, ps_httpHandler = 0, ps_mmRouter = 0, ps_endpointHandlerMap = Map.empty,
      ps_serviceChanToBridgeEndpoints = Map.empty, ps_messageBridgeMap = Some Map.empty,
      ps_ServerAvailability = \<lparr>sa_Http = False, sa_Fabric = False\<rparr>, ps_TLSConfig = None\<rparr>"

definition add_route :: "route \<Rightarrow> 'b plankBus_scheme \<Rightarrow> 'b plankBus_scheme" where
  "add_route r s = s\<lparr>routers := (routers s)(ps_router s := routers s (ps_router s) @ [r])\<rparr>"

definition bridge_of :: "string \<Rightarrow> 'b plankBus_scheme \<Rightarrow> MessageBridge option" where
  "bridge_of ch s = (case ps_messageBridgeMap s of None \<Rightarrow> None | Some m \<Rightarrow> m ch)"

subsection \<open>Bridges\<close>

text \<open>
  The stream that a bridge listens to: the error of listening is ignored and the nil handler
  dereferenced. \<open>newH\<close> and \<open>newS\<close> are the ids of the handler and of its subscription.
\<close>

definition openBridge :: "uuid \<Rightarrow> uuid \<Rightarrow> string \<Rightarrow> 'b plankBus_scheme \<Rightarrow> 'b plankBus_scheme go" where
  "openBridge newH newS ch s =
     (if bridge_of ch s \<noteq> None then Done s
      else case ListenStream newH ch s of
        (s1, Inl _) \<Rightarrow> Panic ''nil pointer dereference''
      | (s1, Inr handler) \<Rightarrow>
          let s2 = Handle newS handler (Some (BridgeForward ch)) (Some IgnoreFn) s1
          in case ps_messageBridgeMap s2 of
               None \<Rightarrow> Panic ''assignment to entry in nil map''
             | Some m \<Rightarrow> Done (s2\<lparr>ps_messageBridgeMap :=
                 Some (m(ch \<mapsto> \<lparr>mb_ServiceListenStream = handler, mb_payloadChannel = []\<rparr>))\<rparr>))"

definition bridge_keys :: "string \<Rightarrow> 'b plankBus_scheme \<Rightarrow> string list" where
  "bridge_keys ch s = (case ps_serviceChanToBridgeEndpoints s ch of None \<Rightarrow> [] | Some ks \<Rightarrow> ks)"

text \<open>The endpoint, the list of endpoints of the service and the route are added together.\<close>

definition addBridge :: "string \<Rightarrow> string \<Rightarrow> route_path \<Rightarrow> string list option \<Rightarrow> nat \<Rightarrow> 'b plankBus_scheme \<Rightarrow> 'b plankBus_scheme" where
  "addBridge key ch path methods builder s =
     add_route \<lparr>rt_Name = key, rt_Path = path, rt_Methods = methods, rt_Handler = BridgeEndpoint ch builder\<rparr>
       (s\<lparr>ps_endpointHandlerMap := (ps_endpointHandlerMap s)(key \<mapsto> BridgeEndpoint ch builder),
          ps_serviceChanToBridgeEndpoints := (ps_serviceChanToBridgeEndpoints s)(ch \<mapsto> bridge_keys ch s @ [key])\<rparr>)"

definition SetHttpChannelBridge :: "uuid \<Rightarrow> uuid \<Rightarrow> RESTBridgeConfig \<Rightarrow> 'b plankBus_scheme \<Rightarrow> 'b plankBus_scheme go" where
  "SetHttpChannelBridge newH newS bridgeConfig s =
     (let endpointHandlerKey = rb_Uri bridgeConfig @ ''-'' @ rb_Method bridgeConfig;
          ch = rb_ServiceChannel bridgeConfig;
          permittedMethods = [rb_Method bridgeConfig] @ (if rb_AllowHead bridgeConfig then [''HEAD''] else [])
            @ (if rb_AllowOptions bridgeConfig then [''OPTIONS''] else [])
      in if ps_endpointHandlerMap s endpointHandlerKey \<noteq> None then Done s
         else
           go_map (addBridge endpointHandlerKey ch (Path (rb_Uri bridgeConfig)) (Some permittedMethods) (rb_FabricRequestBuilder bridgeConfig))
             (openBridge newH newS ch (s\<lparr>ps_serviceChanToBridgeEndpoints := (ps_serviceChanToBridgeEndpoints s)(ch \<mapsto> bridge_keys ch s)\<rparr>)))"

definition SetHttpPathPrefixChannelBridge ::
  "uuid \<Rightarrow> uuid \<Rightarrow> RESTBridgeConfig \<Rightarrow> 'b plankBus_scheme \<Rightarrow> 'b plankBus_scheme go" where
  "SetHttpPathPrefixChannelBridge newH newS bridgeConfig s =
     (let endpointHandlerKey = rb_Uri bridgeConfig @ ''-'' @ ''*'';
          ch = rb_ServiceChannel bridgeConfig
      in if ps_endpointHandlerMap s endpointHandlerKey \<noteq> None then Done s
         else
           go_map (addBridge endpointHandlerKey ch (PathPrefix (rb_Uri bridgeConfig)) None (rb_FabricRequestBuilder bridgeConfig))
             (openBridge newH newS ch (s\<lparr>ps_serviceChanToBridgeEndpoints := (ps_serviceChanToBridgeEndpoints s)(ch \<mapsto> bridge_keys ch s)\<rparr>)))"

text \<open>\<open>is_func\<close> says whether a middleware of the application returns a \<^verbatim>\<open>http.HandlerFunc\<close>; the type assertion panics otherwise.\<close>

definition SetStaticRoute :: "(nat \<Rightarrow> bool) \<Rightarrow> string \<Rightarrow> string \<Rightarrow> middleware_fn list \<Rightarrow> 'b plankBus_scheme \<Rightarrow> 'b plankBus_scheme go" where
  "SetStaticRoute is_func prefix fullpath middlewareFn s =
     (let endpointHandlerMapKey = prefix @ ''*'';
          compositeHandler = StaticEndpoint prefix fullpath middlewareFn;
          s1 = add_route \<lparr>rt_Name = '''', rt_Path = Path prefix, rt_Methods = None, rt_Handler = RedirectEndpoint (prefix @ ''/'')\<rparr> s
      in if middlewareFn \<noteq> [] \<and> (case last middlewareFn of UserMiddleware m \<Rightarrow> \<not> is_func m | SpaCacheControl \<Rightarrow> False)
         then Panic ''interface conversion''
         else
           Done (add_route \<lparr>rt_Name = endpointHandlerMapKey, rt_Path = PathPrefix (prefix @ ''/''), rt_Methods = None, rt_Handler = compositeHandler\<rparr>
             (s1\<lparr>ps_endpointHandlerMap := (ps_endpointHandlerMap s1)(endpointHandlerMapKey \<mapsto> compositeHandler)\<rparr>)))"

text \<open>The name of the last route with it is what the router finds.\<close>

definition getSubRoute :: "string \<Rightarrow> 'b plankBus_scheme \<Rightarrow> error + route" where
  "getSubRoute name s =
     (case find (\<lambda>r. rt_Name r = name) (rev (routers s (ps_router s))) of
        None \<Rightarrow> Inl (''no route exists under name '' @ name)
      | Some r \<Rightarrow> Inr r)"

definition GetRestBridgeSubRoute :: "string \<Rightarrow> string \<Rightarrow> 'b plankBus_scheme \<Rightarrow> error + route" where
  "GetRestBridgeSubRoute uri method s =
     (case getSubRoute (uri @ ''-'' @ method) s of
        Inl _ \<Rightarrow> Inl (''no route exists at '' @ uri @ '' ('' @ method @ '') exists'')
      | Inr r \<Rightarrow> Inr r)"

definition CustomizeTLSConfig :: "nat \<Rightarrow> 'b plankBus_scheme \<Rightarrow> 'b plankBus_scheme \<times> error option" where
  "CustomizeTLSConfig tls s =
     (if sa_Http (ps_ServerAvailability s) \<or> sa_Fabric (ps_ServerAvailability s)
      then (s, Some ''TLS configuration can be provided only if the server is not running'')
      else (s\<lparr>ps_TLSConfig := Some tls\<rparr>, None))"

subsection \<open>Overriding the bridges of a service\<close>

text \<open>A route is copied with its path as an exact path and restricted to its methods, none when it has none.\<close>

definition path_template :: "route_path \<Rightarrow> string" where
  "path_template p = (case p of Path t \<Rightarrow> t | PathPrefix t \<Rightarrow> t)"

definition copied_route :: "route \<Rightarrow> route" where
  "copied_route r = r\<lparr>rt_Path := Path (path_template (rt_Path r)),
     rt_Methods := Some (case rt_Methods r of None \<Rightarrow> [] | Some ms \<Rightarrow> ms)\<rparr>"

definition clearHttpChannelBridgesForService :: "string \<Rightarrow> 'b plankBus_scheme \<Rightarrow> 'b plankBus_scheme \<times> addr" where
  "clearHttpChannelBridgesForService serviceChannel s =
     (let existingMappings = bridge_keys serviceChannel s;
          newRouter = nextRouter s;
          kept = filter (\<lambda>r. rt_Name r \<notin> set existingMappings) (routers s (ps_router s))
      in (s\<lparr>routers := (routers s)(newRouter := map copied_route kept), nextRouter := Suc newRouter,
            ps_serviceChanToBridgeEndpoints := (ps_serviceChanToBridgeEndpoints s)(serviceChannel \<mapsto> []),
            ps_endpointHandlerMap := (ps_endpointHandlerMap s) |` (- set existingMappings)\<rparr>, newRouter))"

definition loadGlobalHttpHandler :: "addr \<Rightarrow> 'b plankBus_scheme \<Rightarrow> 'b plankBus_scheme" where
  "loadGlobalHttpHandler h s = s\<lparr>ps_router := h, ps_httpHandler := h\<rparr>"

fun set_bridges :: "(uuid \<times> uuid) list \<Rightarrow> RESTBridgeConfig list \<Rightarrow> 'b plankBus_scheme \<Rightarrow> 'b plankBus_scheme go" where
  "set_bridges ids [] s = Done s"
| "set_bridges ids (config # configs) s =
     (case ids of
        (newH, newS) # ids' \<Rightarrow> go_bind (SetHttpChannelBridge newH newS config s) (set_bridges ids' configs)
      | [] \<Rightarrow> go_bind (SetHttpChannelBridge '''' '''' config s) (set_bridges [] configs))"

text \<open>
  The handler of requests to set up bridges. A payload of another type is logged, and then the nil
  request is dereferenced. \<open>ready\<close> is what the service sends on its ready channel, \<open>None\<close> while it
  sends nothing.
\<close>

definition markReady :: "string \<Rightarrow> bool \<Rightarrow> 'b plankBus_scheme \<Rightarrow> 'b plankBus_scheme go" where
  "markReady ch b s =
     (case GetStore ServiceReadyStore s of
        None \<Rightarrow> Panic ''nil pointer dereference''
      | Some a \<Rightarrow>
          (case Put '''' ch (GBool b) (GString ''service-init-state-change'') (storeHeap s a) of (st, outs) \<Rightarrow>
             store_outputs (\<lambda>_. '''') a outs (upd_store a (\<lambda>_. st) s)))"

definition waitReady ::
  "RESTBridgeConfig list option \<Rightarrow> (string \<Rightarrow> bool option) \<Rightarrow> string \<Rightarrow> 'b plankBus_scheme \<Rightarrow> 'b plankBus_scheme go" where
  "waitReady hooks ready ch s =
     (case hooks of
        None \<Rightarrow> Panic ''nil pointer dereference''
      | Some _ \<Rightarrow> (case ready ch of None \<Rightarrow> Block | Some b \<Rightarrow> markReady ch b s))"

definition runSetupBridges ::
  "service_hooks \<Rightarrow> (string \<Rightarrow> bool option) \<Rightarrow> (uuid \<times> uuid) list \<Rightarrow> addr option \<Rightarrow> Message \<Rightarrow> 'b plankBus_scheme \<Rightarrow> 'b plankBus_scheme go" where
  "runSetupBridges Hooks ready ids lm message s =
     (case msg_Payload message of
        GSetupREST request \<Rightarrow>
          let ch = sr_ServiceChannel request in
          go_bind (GetServiceHooks Hooks lm ch s) (\<lambda>hooks.
            let s1 = (if sr_Override request
                      then (case clearHttpChannelBridgesForService ch s of (s', newRouter) \<Rightarrow> loadGlobalHttpHandler newRouter s')
                      else s)
            in go_bind (set_bridges ids (sr_Config request) s1) (\<lambda>s2.
                 case GetStore ServiceReadyStore s of
                   None \<Rightarrow> Panic ''nil pointer dereference''
                 | Some a \<Rightarrow>
                     (case Get ch (storeHeap s2 a) of
                        Some (GBool True) \<Rightarrow> Done s2
                      | Some (GBool False) \<Rightarrow> waitReady hooks ready ch s2
                      | None \<Rightarrow> waitReady hooks ready ch s2
                      | Some _ \<Rightarrow> Panic ''interface conversion'')))
      | _ \<Rightarrow> Panic ''nil pointer dereference'')"


definition ps_RegisterService ::
  "'b plankBus_ext service_init \<Rightarrow> service_hooks \<Rightarrow> uuid \<Rightarrow> uuid \<Rightarrow> uuid \<Rightarrow> addr \<Rightarrow> FabricService option \<Rightarrow> string
     \<Rightarrow> 'b plankBus_scheme \<Rightarrow> ('b plankBus_scheme \<times> error option) go" where
  "ps_RegisterService Init Hooks newH newS newM r svc svcChannel s =
     go_bind (RegisterService Init Hooks newH newS newM r svc svcChannel s) (\<lambda>(s1, err).
       if err \<noteq> None then Done (s1, err)
       else
         let s2 = GetServiceLifecycleManager s1 in
         go_bind (GetServiceHooks Hooks (the (svcLifecycleManagerInstance s2)) svcChannel s2) (\<lambda>hooks.
           if hooks = None then go_map (\<lambda>s3. (s3, None)) (markReady svcChannel True s2) else Done (s2, None)))"

text \<open>
  Stopping: the shutdown hooks of the services are started (their channels are the second result),
  the HTTP server is shut down, and the endpoint is stopped when there is a listener for it. The
  function then waits for the hooks; the process is ended when that takes too long.
\<close>

fun hooked_services :: "service_hooks \<Rightarrow> addr option \<Rightarrow> string list \<Rightarrow> 'b plankBus_scheme \<Rightarrow> string list go" where
  "hooked_services Hooks lm [] s = Done []"
| "hooked_services Hooks lm (svcChannel # svcChannels) s =
     go_bind (GetServiceHooks Hooks lm svcChannel s) (\<lambda>hooks.
       go_map (\<lambda>rest. if hooks \<noteq> None then svcChannel # rest else rest) (hooked_services Hooks lm svcChannels s))"

definition StopServer ::
  "service_hooks \<Rightarrow> addr \<Rightarrow> bool \<Rightarrow> 'b plankBus_scheme \<Rightarrow> ('b plankBus_scheme \<times> string list) go" where
  "StopServer Hooks r fabricConn s =
     (let s1 = GetServiceLifecycleManager (s\<lparr>ps_ServerAvailability := (ps_ServerAvailability s)\<lparr>sa_Http := False\<rparr>\<rparr>)
      in go_bind (hooked_services Hooks (the (svcLifecycleManagerInstance s1)) (GetAllServiceChannels r s1) s1) (\<lambda>hooked.
           if fabricConn then
             go_map (\<lambda>(s2, _). (s2\<lparr>ps_ServerAvailability := (ps_ServerAvailability s2)\<lparr>sa_Fabric := False\<rparr>\<rparr>, hooked)) (StopFabricEndpoint s1)
           else Done (s1, hooked)))"

subsection \<open>The handler of a bridged endpoint\<close>

record httpResult =
  hx_Status :: int
  hx_Header :: "string \<rightharpoonup> string"
  hx_Body :: bytes

definition http_Error :: "string \<Rightarrow> int \<Rightarrow> (string \<rightharpoonup> string) \<Rightarrow> httpResult" where
  "http_Error message code header =
     \<lparr>hx_Status = code, hx_Header = header(''Content-Type'' \<mapsto> ''text/plain; charset=utf-8'', ''X-Content-Type-Options'' \<mapsto> ''nosniff''),
      hx_Body = message @ [CHR 0x0A]\<rparr>"

definition to_lower :: "string \<Rightarrow> string" where
  "to_lower k = map (\<lambda>c. if is_upper c then char_of (of_char c + 32 :: nat) else c) k"

text \<open>\<open>None\<close> is the panic of a type assertion.\<close>

definition ConvertInterfaceToByteArray :: "(gval \<Rightarrow> error + bytes) \<Rightarrow> string \<Rightarrow> gval \<Rightarrow> (bytes \<times> error option) option" where
  "ConvertInterfaceToByteArray marshal mimeType i =
     (if Contains mimeType ''json'' then
        Some (case marshal i of Inl e \<Rightarrow> ('''', Some e) | Inr results \<Rightarrow> (results, None))
      else case i of
        GString str \<Rightarrow> Some (str, None)
      | GBytes results \<Rightarrow> Some (results, None)
      | _ \<Rightarrow> None)"

definition ensureResponseInByteSlice :: "(gval \<Rightarrow> error + bytes) \<Rightarrow> gval \<Rightarrow> bytes \<times> error option" where
  "ensureResponseInByteSlice marshal body =
     (case body of
        GBytes b \<Rightarrow> (b, None)
      | _ \<Rightarrow> (case marshal body of Inl e \<Rightarrow> ('''', Some e) | Inr b \<Rightarrow> (b, None)))"

text \<open>The loop over the headers of a response; the body is \<open>None\<close> after a panic.\<close>

fun set_response_headers ::
  "(gval \<Rightarrow> error + bytes) \<Rightarrow> headers \<Rightarrow> (string \<rightharpoonup> string) \<Rightarrow> gval \<Rightarrow> (string \<rightharpoonup> string) \<times> gval option" where
  "set_response_headers marshal [] w respBody = (w, Some respBody)"
| "set_response_headers marshal ((k, v) # hs) w respBody =
     (let w' = w(canonical_key k \<mapsto> v)
      in if to_lower k = ''content-type'' then
           (case ConvertInterfaceToByteArray marshal v respBody of
              None \<Rightarrow> (w', None)
            | Some (results, _) \<Rightarrow> set_response_headers marshal hs w' (GBytes results))
         else set_response_headers marshal hs w' respBody)"

text \<open>\<^verbatim>\<open>WriteHeader\<close> panics for a status outside of 100 to 999.\<close>

definition renderError :: "(gval \<Rightarrow> error + bytes) \<Rightarrow> gval Response \<Rightarrow> (string \<rightharpoonup> string) \<times> httpResult option" where
  "renderError marshal response =
     (let w = fold (\<lambda>(k, v) w. w(canonical_key k \<mapsto> v)) (resp_Headers response) Map.empty;
          respBody = (if resp_Payload response \<noteq> GNil then resp_Payload response else GResponsePtr response);
          body = (case marshal respBody of Inl _ \<Rightarrow> resp_ErrorMessage response | Inr n \<Rightarrow> n)
      in (w, if resp_ErrorCode response < 100 \<or> 999 < resp_ErrorCode response then None
             else Some \<lparr>hx_Status = resp_ErrorCode response, hx_Header = w, hx_Body = body\<rparr>))"

definition renderSuccess :: "(gval \<Rightarrow> error + bytes) \<Rightarrow> gval Response \<Rightarrow> (string \<rightharpoonup> string) \<times> httpResult option" where
  "renderSuccess marshal response =
     (case set_response_headers marshal (resp_Headers response) Map.empty (resp_Payload response) of
        (w, None) \<Rightarrow> (w, None)
      | (w, Some respBody) \<Rightarrow>
          (w, Some \<lparr>hx_Status = 200, hx_Header = w, hx_Body = fst (ensureResponseInByteSlice marshal respBody)\<rparr>))"

text \<open>A panic is recovered and answered with an internal server error, after the headers set so far.\<close>

definition renderMessage :: "(gval \<Rightarrow> error + bytes) \<Rightarrow> Message \<Rightarrow> httpResult" where
  "renderMessage marshal msg =
     (case msg_Error msg of
        Some e \<Rightarrow> http_Error e 500 Map.empty
      | None \<Rightarrow>
          (case (case msg_Payload msg of
                   GResponsePtr response \<Rightarrow> if resp_Error response then renderError marshal response else renderSuccess marshal response
                 | _ \<Rightarrow> (Map.empty, None)) of
             (w, None) \<Rightarrow> http_Error ''Internal Server Error'' 500 w
           | (w, Some result) \<Rightarrow> result))"

definition timeoutResult :: "string \<Rightarrow> httpResult" where
  "timeoutResult restBridgeTimeout =
     http_Error (''No response received from service channel in '' @ restBridgeTimeout @ '', request timed out'') 500 Map.empty"

text \<open>
  The two parts of the handler: the request is sent on the bus, its error ignored; then the next
  message of the bridge is the answer, or the timeout comes first. \<open>runBridgeForward\<close> is what puts
  messages there; it waits when the 100 places are taken.
\<close>

definition endpointSend :: "uuid \<Rightarrow> string \<Rightarrow> gval Request \<Rightarrow> 'b plankBus_scheme \<Rightarrow> 'b plankBus_scheme" where
  "endpointSend new svcChannel reqModel s = fst (SendRequestMessage new svcChannel (GRequest reqModel) (req_Id reqModel) s)"

definition put_bridge :: "string \<Rightarrow> MessageBridge \<Rightarrow> 'b plankBus_scheme \<Rightarrow> 'b plankBus_scheme" where
  "put_bridge ch b s = s\<lparr>ps_messageBridgeMap := map_option (\<lambda>m. m(ch \<mapsto> b)) (ps_messageBridgeMap s)\<rparr>"

definition endpointReceive ::
  "(gval \<Rightarrow> error + bytes) \<Rightarrow> string \<Rightarrow> 'b plankBus_scheme \<Rightarrow> ('b plankBus_scheme \<times> httpResult) go" where
  "endpointReceive marshal svcChannel s =
     (case bridge_of svcChannel s of
        Some b \<Rightarrow>
          (case mb_payloadChannel b of
             msg # rest \<Rightarrow> Done (put_bridge svcChannel (b\<lparr>mb_payloadChannel := rest\<rparr>) s, renderMessage marshal msg)
           | [] \<Rightarrow> Block)
      | None \<Rightarrow> Block)"

definition runBridgeForward :: "string \<Rightarrow> Message \<Rightarrow> 'b plankBus_scheme \<Rightarrow> 'b plankBus_scheme go" where
  "runBridgeForward ch message s =
     (case bridge_of ch s of
        None \<Rightarrow> Panic ''nil pointer dereference''
      | Some b \<Rightarrow>
          if length (mb_payloadChannel b) < 100
          then Done (put_bridge ch (b\<lparr>mb_payloadChannel := mb_payloadChannel b @ [message]\<rparr>) s)
          else Block)"

end
