(* ===== verification/SampleServices.thy ===== *)
theory SampleServices
  imports PlatformServer
begin

text \<open>
  The services that come with plank (src/plank/services): ping-pong, jokes, a stream of random words
  and stock prices. What JSON decoding, the stock API and the random numbers give are
  parameters, as are the dynamic types of values that only these services know. A handler of a
  service acts on the bus with the core of the service; \<open>new\<close> is the id of the message it sends.
\<close>

abbreviation zero_uuid :: uuid where
  "zero_uuid \<equiv> ''00000000-0000-0000-0000-000000000000''"

text \<open>What a request builder reads of a HTTP request; a missing query or path parameter is empty.\<close>

record http_in =
  hi_Body :: bytes
  hi_Query :: "string \<Rightarrow> string"
  hi_Vars :: "string \<Rightarrow> string"

subsection \<open>Ping-pong\<close>

abbreviation PingPongServiceChan :: string where
  "PingPongServiceChan \<equiv> ''ping-pong-service''"

definition PingPong_Init :: "fabricCore \<Rightarrow> fabricCore" where
  "PingPong_Init core = SetHeaders [(''Content-Type'', ''application/json'')] core"

text \<open>\<open>unmarshal b m\<close> is the map \<open>m\<close> after the body was decoded into it, or an error; \<open>now\<close> is the time in seconds.\<close>

definition PingPong_HandleServiceRequest ::
  "(bytes \<Rightarrow> (string \<times> gval) list \<Rightarrow> error + gval) \<Rightarrow> int64 \<Rightarrow> uuid \<Rightarrow> gval Request \<Rightarrow> fabricCore
     \<Rightarrow> 'b busState_scheme \<Rightarrow> 'b busState_scheme go" where
  "PingPong_HandleServiceRequest unmarshal now new request core s =
     (if req_Request request = ''ping-post'' then
        (case req_Payload request of
           GBytes b \<Rightarrow>
             (case unmarshal b [(''timestamp'', GInt64 now)] of
                Inl err \<Rightarrow> Done (SendErrorResponse new request 400 err core s)
              | Inr m \<Rightarrow> Done (SendResponse new request m core s))
         | _ \<Rightarrow> Panic ''interface conversion'')
      else if req_Request request = ''ping-get'' then
        (case req_Payload request of
           GString val \<Rightarrow>
             Done (SendResponse new request (GMap [(''payload'', GString (val @ ''-response'')), (''timestamp'', GInt64 now)]) core s)
         | _ \<Rightarrow> Panic ''interface conversion'')
      else Done (HandleUnknownRequest new request core s))"

text \<open>What is in the channel that a service returns when it is to become ready.\<close>

definition PingPong_OnServiceReady :: "bool list" where
  "PingPong_OnServiceReady = [True]"

text \<open>The bridges of the service; their builders have the numbers \<open>b\<close>, \<open>b + 1\<close> and \<open>b + 2\<close>.\<close>

definition PingPong_GetRESTBridgeConfig :: "nat \<Rightarrow> RESTBridgeConfig list" where
  "PingPong_GetRESTBridgeConfig b =
     [RESTBridgeConfig PingPongServiceChan ''/rest/ping-pong'' ''POST'' True True b,
      RESTBridgeConfig PingPongServiceChan ''/rest/ping-pong2'' ''GET'' True True (b + 1),
      RESTBridgeConfig PingPongServiceChan ''/rest/ping-pong/{from}/{to}/{message}'' ''GET'' False False (b + 2)]"

definition PingPong_builder :: "nat \<Rightarrow> uuid \<Rightarrow> http_in \<Rightarrow> gval Request" where
  "PingPong_builder i new r =
     (if i = 0 then CreateServiceRequest new ''ping-post'' (hi_Body r)
      else if i = 1 then Request (Some zero_uuid) 0 0 '''' (GString (hi_Query r ''message'')) ''ping-get'' None
      else Request (Some zero_uuid) 0 0 ''''
        (GString (''From '' @ hi_Vars r ''from'' @ '' to '' @ hi_Vars r ''to'' @ '': '' @ hi_Vars r ''message'')) ''ping-get'' None)"

subsection \<open>Jokes\<close>

abbreviation JokeServiceChannel :: string where
  "JokeServiceChannel \<equiv> ''joke-service''"

text \<open>The type \<^verbatim>\<open>Joke\<close> has the number \<open>joke\<close>; \<open>u\<close> and \<open>v\<close> are the two function literals.\<close>

definition Joke_Init :: "fabricCore \<Rightarrow> fabricCore" where
  "Joke_Init core = SetDefaultJSONHeaders core"

definition getJoke ::
  "nat \<Rightarrow> uuid \<times> uuid \<times> uuid \<times> uuid \<Rightarrow> nat \<Rightarrow> nat \<Rightarrow> fabricCore \<Rightarrow> 'b transportEventBus_scheme \<Rightarrow> 'b transportEventBus_scheme go" where
  "getJoke joke ids u v core s =
     (case ids of (newI, newH, newS, newM) \<Rightarrow>
        go_map fst (core_RestServiceRequest newI newH newS newM
          (RestServiceRequest ''https://icanhazdadjoke.com'' ''GET'' GNil [(''Accept'', ''application/json'')] (Some (TPtr (TNamed joke))) '''')
          u v core s))"

definition Joke_HandleServiceRequest ::
  "nat \<Rightarrow> uuid \<times> uuid \<times> uuid \<times> uuid \<Rightarrow> nat \<Rightarrow> nat \<Rightarrow> uuid \<Rightarrow> gval Request \<Rightarrow> fabricCore
     \<Rightarrow> 'b transportEventBus_scheme \<Rightarrow> 'b transportEventBus_scheme go" where
  "Joke_HandleServiceRequest joke ids u v new request core s =
     (if req_Request request = ''get-joke'' then getJoke joke ids u v core s
      else Done (HandleUnknownRequest new request core s))"

text \<open>The two literals: \<open>is_joke\<close> tells a pointer to a joke, \<open>as_value\<close> is the error as a payload.\<close>

definition jokeReceived ::
  "(gval \<Rightarrow> bool) \<Rightarrow> uuid \<Rightarrow> gval Request \<Rightarrow> gval Response \<Rightarrow> fabricCore \<Rightarrow> 'b busState_scheme \<Rightarrow> 'b busState_scheme go" where
  "jokeReceived is_joke new request response core s =
     (if is_joke (resp_Payload response) then Done (SendResponse new request (resp_Payload response) core s)
      else Panic ''interface conversion'')"

definition jokeFailed ::
  "(FabricError \<Rightarrow> gval) \<Rightarrow> uuid \<Rightarrow> gval Request \<Rightarrow> gval Response \<Rightarrow> fabricCore \<Rightarrow> 'b busState_scheme \<Rightarrow> 'b busState_scheme" where
  "jokeFailed as_value new request response core s =
     (let fabricError = GetFabricError ''Get Joke API Call Failed'' (resp_ErrorCode response) (resp_ErrorMessage response)
      in SendErrorResponseWithPayload new request (resp_ErrorCode response) (resp_ErrorMessage response) (as_value fabricError) core s)"

definition Joke_OnServiceReady :: "bool list" where
  "Joke_OnServiceReady = [True]"

definition Joke_GetRESTBridgeConfig :: "nat \<Rightarrow> RESTBridgeConfig list" where
  "Joke_GetRESTBridgeConfig b = [RESTBridgeConfig JokeServiceChannel ''/rest/joke'' ''GET'' True True b]"

definition Joke_builder :: "http_in \<Rightarrow> gval Request" where
  "Joke_builder r = Request (Some zero_uuid) 0 0 '''' GNil ''get-joke'' None"

subsection \<open>A stream of words\<close>

text \<open>\<open>sss_readyChan\<close> is a channel with room for one value, \<open>sss_cronJob\<close> says whether the job runs; \<open>None\<close> is nil.\<close>

record SimpleStreamService =
  sss_words :: "string list"
  sss_fabricCore :: "fabricCore option"
  sss_readyChan :: "bool list option"
  sss_cronJob :: "bool option"

definition NewSimpleStreamService :: SimpleStreamService where
  "NewSimpleStreamService = \<lparr>sss_words = [], sss_fabricCore = None, sss_readyChan = None, sss_cronJob = None\<rparr>"

definition sss_Init :: "fabricCore \<Rightarrow> SimpleStreamService \<Rightarrow> SimpleStreamService" where
  "sss_Init core sss = sss\<lparr>sss_fabricCore := Some core\<rparr>"

definition sss_HandleServiceRequest :: "gval Request \<Rightarrow> fabricCore \<Rightarrow> 'b busState_scheme \<Rightarrow> 'b busState_scheme" where
  "sss_HandleServiceRequest request core s = s"

definition sss_GetRESTBridgeConfig :: "RESTBridgeConfig list" where
  "sss_GetRESTBridgeConfig = []"

definition fetchRandomWords ::
  "uuid \<times> uuid \<times> uuid \<times> uuid \<Rightarrow> nat \<Rightarrow> nat \<Rightarrow> nat \<Rightarrow> SimpleStreamService \<Rightarrow> 'b transportEventBus_scheme \<Rightarrow> 'b transportEventBus_scheme go" where
  "fetchRandomWords ids strings u v sss s =
     (case (ids, sss_fabricCore sss) of
        ((newI, newH, newS, newM), Some core) \<Rightarrow>
          go_map fst (core_RestServiceRequest newI newH newS newM
            (RestServiceRequest ''https://random-word-api.herokuapp.com/word?number=500'' ''GET'' GNil [] (Some (TNamed strings)) '''') u v core s)
      | (_, None) \<Rightarrow> Panic ''nil pointer dereference'')"

definition sss_OnServiceReady ::
  "uuid \<times> uuid \<times> uuid \<times> uuid \<Rightarrow> nat \<Rightarrow> nat \<Rightarrow> nat \<Rightarrow> SimpleStreamService \<Rightarrow> 'b transportEventBus_scheme
     \<Rightarrow> (SimpleStreamService \<times> 'b transportEventBus_scheme) go" where
  "sss_OnServiceReady ids strings u v sss s =
     (let sss1 = sss\<lparr>sss_readyChan := Some []\<rparr> in go_map (Pair sss1) (fetchRandomWords ids strings u v sss1 s))"

definition fireRandomWords :: "SimpleStreamService \<Rightarrow> SimpleStreamService" where
  "fireRandomWords sss = sss\<lparr>sss_cronJob := Some True\<rparr>"

text \<open>Sending on a nil channel, or on a full one, waits.\<close>

definition tell_ready :: "SimpleStreamService \<Rightarrow> SimpleStreamService go" where
  "tell_ready sss =
     (case sss_readyChan sss of Some [] \<Rightarrow> Done (sss\<lparr>sss_readyChan := Some [True]\<rparr>) | _ \<Rightarrow> Block)"

definition handleWordFetchSuccess :: "(gval \<Rightarrow> string list option) \<Rightarrow> gval Response \<Rightarrow> SimpleStreamService \<Rightarrow> SimpleStreamService go" where
  "handleWordFetchSuccess as_strings response sss =
     (case as_strings (resp_Payload response) of
        None \<Rightarrow> Panic ''interface conversion''
      | Some ws \<Rightarrow> tell_ready (fireRandomWords (sss\<lparr>sss_words := ws\<rparr>)))"

definition handleWordFetchFailure :: "gval Response \<Rightarrow> SimpleStreamService \<Rightarrow> SimpleStreamService go" where
  "handleWordFetchFailure response sss =
     tell_ready (fireRandomWords (sss\<lparr>sss_words := [''cake'', ''pizza'', ''tree'', ''bunny'', ''api-failed'', ''sorry'', ''rocket'', ''soda'',
       ''burger'', ''kitty'', ''fox'']\<rparr>))"

text \<open>\<open>rnd\<close> is what the generator draws; \<^verbatim>\<open>rand.Intn\<close> reduces it below \<open>n\<close> and panics when that is not positive.\<close>

definition rand_Intn :: "nat \<Rightarrow> int \<Rightarrow> int go" where
  "rand_Intn rnd n = (if n \<le> 0 then Panic ''invalid argument to Intn'' else Done (int rnd mod n))"

definition getRandomWord :: "nat \<Rightarrow> SimpleStreamService \<Rightarrow> string go" where
  "getRandomWord rnd sss = go_map (\<lambda>i. sss_words sss ! nat i) (rand_Intn rnd (int (length (sss_words sss)) - 1))"

definition fireMessage :: "nat \<Rightarrow> uuid \<Rightarrow> uuid \<Rightarrow> SimpleStreamService \<Rightarrow> 'b busState_scheme \<Rightarrow> 'b busState_scheme go" where
  "fireMessage rnd newI new sss s =
     (case sss_fabricCore sss of
        None \<Rightarrow> Panic ''nil pointer dereference''
      | Some core \<Rightarrow>
          go_map (\<lambda>word. SendResponse new (set_req_Id (Some newI) zero_Request) (GString word) core s) (getRandomWord rnd sss))"

definition sss_OnServerShutdown :: "SimpleStreamService \<Rightarrow> SimpleStreamService go" where
  "sss_OnServerShutdown sss =
     (case sss_cronJob sss of None \<Rightarrow> Panic ''nil pointer dereference'' | Some _ \<Rightarrow> Done (sss\<lparr>sss_cronJob := Some False\<rparr>))"

end
