(* ===== verification/StockTicker.thy ===== *)
theory StockTicker
  imports SampleServices
begin

text \<open>
  The stock ticker service (src/plank/services/stock-ticker-service.go). Tickers are objects in a
  heap: the connection that a ticker belongs to is a key of \<open>tickerListenersMap\<close>, and \<open>tk_job\<close> is what the
  goroutine of the ticker captured. A stopped ticker does not fire, and its goroutine waits forever.
  \<open>api\<close> is the HTTP client, \<open>decode\<close> the JSON decoder for the snapshot, \<open>encode\<close> the encoding of query values
  and \<open>date\<close> the text of a time.
\<close>

abbreviation StockTickerServiceChannel :: string where
  "StockTickerServiceChannel \<equiv> ''stock-ticker-service''"

abbreviation StockTickerAPI :: string where
  "StockTickerAPI \<equiv> ''https://finnhub.io/api/v1/quote''"

record TickerSnapshotData =
  td_CurrentPrice :: rat
  td_Change :: rat
  td_PercentChange :: rat
  td_HighDayPrice :: rat
  td_LowDayPrice :: rat
  td_OpenPrice :: rat
  td_PreviousClosePrice :: rat
  td_LastUpdated :: int64

record StockTickerService =
  tickerListenersMap :: "(string \<times> addr) list"
  tk_running :: "addr \<Rightarrow> bool"
  tk_job :: "addr \<Rightarrow> string \<times> gval Request"
  tk_next :: addr

definition NewStockTickerService :: StockTickerService where
  "NewStockTickerService = \<lparr>tickerListenersMap = [], tk_running = (\<lambda>_. False), tk_job = (\<lambda>_. ('''', zero_Request)), tk_next = 0\<rparr>"

subsection \<open>The prices\<close>

record stock_env =
  sk_refuses :: "string \<Rightarrow> string \<Rightarrow> error option"
  sk_encode :: "(string \<times> string) list \<Rightarrow> string"
  sk_api :: "httpRequest \<Rightarrow> error + (error + bytes)"
  sk_decode :: "bytes \<Rightarrow> error + TickerSnapshotData"
  sk_date :: "int64 \<Rightarrow> string"

definition newTickerRequest :: "stock_env \<Rightarrow> string \<Rightarrow> error + httpRequest" where
  "newTickerRequest env symbol =
     (case sk_refuses env ''GET'' StockTickerAPI of
        Some err \<Rightarrow> Inl err
      | None \<Rightarrow> Inr \<lparr>hr_Method = ''GET'', hr_Url = StockTickerAPI @ ''?'' @ sk_encode env [(''symbol'', symbol)],
          hr_Header = [(''X-Finnhub-Token'', ''sandbox_c4l951aad3iftk6rfja0'')], hr_Body = ''''\<rparr>)"

definition queryStockTickerAPI :: "stock_env \<Rightarrow> string \<Rightarrow> error + gval" where
  "queryStockTickerAPI env symbol =
     (case newTickerRequest env symbol of
        Inl err \<Rightarrow> Inl err
      | Inr req \<Rightarrow>
          (case sk_api env req of
             Inl err \<Rightarrow> Inl err
           | Inr (Inl err) \<Rightarrow> Inl err
           | Inr (Inr b) \<Rightarrow>
               (case sk_decode env b of
                  Inl err \<Rightarrow> Inl err
                | Inr tickerData \<Rightarrow>
                    Inr (GMap [(''symbol'', GString symbol),
                      (''lastRefreshed'', GString (sk_date env (td_LastUpdated tickerData))),
                      (''currentPrice'', GFloat64 (td_CurrentPrice tickerData)),
                      (''change'', GFloat64 (td_Change tickerData)),
                      (''highDayPrice'', GFloat64 (td_HighDayPrice tickerData)),
                      (''lowDayPrice'', GFloat64 (td_LowDayPrice tickerData)),
                      (''openPrice'', GFloat64 (td_OpenPrice tickerData)),
                      (''closePrice'', GFloat64 (td_PreviousClosePrice tickerData)),
                      (''previousClosePrice'', GFloat64 (td_PreviousClosePrice tickerData))]))))"

subsection \<open>Tickers\<close>

definition stop_ticker :: "addr \<Rightarrow> StockTickerService \<Rightarrow> StockTickerService" where
  "stop_ticker t st = st\<lparr>tk_running := (tk_running st)(t := False)\<rparr>"

definition subscribeToTickerUpdates :: "string \<Rightarrow> gval Request \<Rightarrow> StockTickerService \<Rightarrow> StockTickerService go" where
  "subscribeToTickerUpdates symbol request st =
     (case req_BrokerDestination request of
        None \<Rightarrow> Panic ''nil pointer dereference''
      | Some dest \<Rightarrow>
          let st1 = (case map_of (tickerListenersMap st) (bd_ConnectionId dest) of Some t \<Rightarrow> stop_ticker t st | None \<Rightarrow> st);
              t = tk_next st1
          in Done (st1\<lparr>tk_running := (tk_running st1)(t := True), tk_job := (tk_job st1)(t := (symbol, request)), tk_next := Suc t,
               tickerListenersMap := AList.update (bd_ConnectionId dest) t (tickerListenersMap st1)\<rparr>))"

definition ticker_HandleServiceRequest ::
  "stock_env \<Rightarrow> uuid \<Rightarrow> gval Request \<Rightarrow> fabricCore \<Rightarrow> StockTickerService \<Rightarrow> 'b busState_scheme
     \<Rightarrow> (StockTickerService \<times> 'b busState_scheme) go" where
  "ticker_HandleServiceRequest env new request core st s =
     (if req_Request request = ''ticker_price_lookup'' then
        (case req_Payload request of
           GStringMap input \<Rightarrow>
             (case queryStockTickerAPI env (case map_of input ''symbol'' of Some v \<Rightarrow> v | None \<Rightarrow> '''') of
                Inl err \<Rightarrow> Done (st, SendErrorResponse new request 400 err core s)
              | Inr response \<Rightarrow> Done (st, SendResponse new request response core s))
         | _ \<Rightarrow> Panic ''interface conversion'')
      else if req_Request request = ''ticker_price_update_stream'' then
        (case req_Payload request of
           GMap input \<Rightarrow>
             (case map_of input ''symbol'' of
                Some (GString symbol) \<Rightarrow>
                  (case queryStockTickerAPI env symbol of
                     Inl err \<Rightarrow> Done (st, SendErrorResponse new request 400 err core s)
                   | Inr response \<Rightarrow>
                       go_map (\<lambda>st1. (st1, SendResponse new request response core s)) (subscribeToTickerUpdates symbol request st))
              | _ \<Rightarrow> Panic ''interface conversion'')
         | _ \<Rightarrow> Panic ''interface conversion'')
      else Done (st, HandleUnknownRequest new request core s))"

text \<open>A round of the goroutine of a ticker that fired.\<close>

definition onTick :: "stock_env \<Rightarrow> uuid \<Rightarrow> addr \<Rightarrow> fabricCore \<Rightarrow> StockTickerService \<Rightarrow> 'b busState_scheme \<Rightarrow> 'b busState_scheme" where
  "onTick env new t core st s =
     (case tk_job st t of (symbol, request) \<Rightarrow>
        (case queryStockTickerAPI env symbol of
           Inl err \<Rightarrow> SendErrorResponse new request 500 err core s
         | Inr response \<Rightarrow> SendResponse new request response core s))"

text \<open>The handler of session events that \<open>OnServiceReady\<close> sets up; its closure has the number \<open>u\<close>.\<close>

definition onSessionEvent :: "Message \<Rightarrow> StockTickerService \<Rightarrow> StockTickerService go" where
  "onSessionEvent message st =
     (case msg_Payload message of
        GSessionEvent evt \<Rightarrow>
          Done (if sse_EventType evt = ConnectionClosed \<or> sse_EventType evt = UnsubscribeFromTopic
                then (case map_of (tickerListenersMap st) (sse_Id evt) of
                        Some ticker \<Rightarrow> (stop_ticker ticker st)\<lparr>tickerListenersMap := AList.delete (sse_Id evt) (tickerListenersMap st)\<rparr>
                      | None \<Rightarrow> st)
                else st)
      | _ \<Rightarrow> Panic ''interface conversion'')"

definition ticker_OnServiceReady :: "uuid \<Rightarrow> uuid \<Rightarrow> nat \<Rightarrow> 'b transportEventBus_scheme \<Rightarrow> 'b transportEventBus_scheme go" where
  "ticker_OnServiceReady newH newS u s =
     (case ListenStream newH STOMP_SESSION_NOTIFY_CHANNEL s of
        (s1, Inl _) \<Rightarrow> Panic ''nil pointer dereference''
      | (s1, Inr sessionNotifyHandler) \<Rightarrow> Done (Handle newS sessionNotifyHandler (Some (UserFn u)) (Some IgnoreFn) s1))"

definition ticker_OnServerShutdown :: "StockTickerService \<Rightarrow> StockTickerService" where
  "ticker_OnServerShutdown st = fold stop_ticker (map snd (tickerListenersMap st)) st"

definition ticker_GetRESTBridgeConfig :: "nat \<Rightarrow> RESTBridgeConfig list" where
  "ticker_GetRESTBridgeConfig b = [RESTBridgeConfig StockTickerServiceChannel ''/rest/stock-ticker/{symbol}'' ''GET'' True True b]"

definition ticker_builder :: "http_in \<Rightarrow> gval Request" where
  "ticker_builder r =
     Request (Some zero_uuid) 0 0 '''' (GStringMap [(''symbol'', hi_Vars r ''symbol'')]) ''ticker_price_lookup'' None"

end
