(* ===== verification/Listeners.thy ===== *)
theory Listeners
  imports StompServer PlatformServer
begin

text \<open>
  The listeners of the STOMP broker and the raw connections they accept
  (src/stompserver/websocket\_connection\_listener.go, tcp\_connection\_listener.go). What a socket
  delivers is a list: the results of its single reads for TCP, the messages for a WebSocket.
  \<open>parse\<close> is the frame reader of go-stomp on the bytes it holds, \<open>upgrade\<close> the handshake of the
  WebSocket library, \<open>listen\<close> what the network answers.
\<close>

subsection \<open>Reading and writing frames\<close>

text \<open>
  The reader wants more bytes, rejects them, or has a frame (\<open>None\<close> for a heart-beat) and the rest
  of the bytes it holds.
\<close>

datatype frame_parse = NeedMore | BadFrame error | Parsed "Frame option" bytes

fun frame_Read :: "(bytes \<Rightarrow> frame_parse) \<Rightarrow> bytes \<Rightarrow> bytes list \<Rightarrow> ((error + Frame option) \<times> bytes \<times> bytes list) go" where
  "frame_Read parse buf [] =
     (case parse buf of NeedMore \<Rightarrow> Block | BadFrame e \<Rightarrow> Done (Inl e, buf, []) | Parsed f rest \<Rightarrow> Done (Inr f, rest, []))"
| "frame_Read parse buf (chunk # chunks) =
     (case parse buf of
        NeedMore \<Rightarrow> frame_Read parse (buf @ chunk) chunks
      | BadFrame e \<Rightarrow> Done (Inl e, buf, chunk # chunks)
      | Parsed f rest \<Rightarrow> Done (Inr f, rest, chunk # chunks))"

text \<open>Every read of a TCP connection makes a reader of its own; the bytes that one still holds go with it.\<close>

definition tcp_ReadFrame :: "(bytes \<Rightarrow> frame_parse) \<Rightarrow> bytes list \<Rightarrow> ((error + Frame option) \<times> bytes list) go" where
  "tcp_ReadFrame parse tcpCon = go_map (\<lambda>(r, _, tcpCon'). (r, tcpCon')) (frame_Read parse [] tcpCon)"

text \<open>Writing gives the error of the frame writer.\<close>

definition tcp_WriteFrame :: "(Frame option \<Rightarrow> error option) \<Rightarrow> Frame option \<Rightarrow> error option" where
  "tcp_WriteFrame write f = write f"

text \<open>A read of a WebSocket takes the next message or error of the socket; \<open>read\<close> is what a reader makes of a whole message.\<close>

definition ws_ReadFrame :: "(bytes \<Rightarrow> error + Frame option) \<Rightarrow> (error + bytes) list \<Rightarrow> ((error + Frame option) \<times> (error + bytes) list) go" where
  "ws_ReadFrame read wsCon =
     (case wsCon of [] \<Rightarrow> Block | Inl err # _ \<Rightarrow> Done (Inl err, wsCon) | Inr r # wsCon' \<Rightarrow> Done (read r, wsCon'))"

definition ws_WriteFrame :: "(error option \<times> (Frame option \<Rightarrow> error option) \<times> error option) \<Rightarrow> Frame option \<Rightarrow> error option" where
  "ws_WriteFrame wsCon f =
     (case wsCon of (nextWriter, write, close) \<Rightarrow>
        if nextWriter \<noteq> None then nextWriter
        else let err = write f in if err \<noteq> None then err else close)"

subsection \<open>Accepting connections\<close>

text \<open>The values of the Origin header and the host that was asked for; \<open>url_Parse\<close> gives the host of a URL or an error.\<close>

record ws_request =
  wr_Origin :: "string list"
  wr_Host :: string

definition checkOrigin :: "(string \<Rightarrow> error + string) \<Rightarrow> string list \<Rightarrow> ws_request \<Rightarrow> bool" where
  "checkOrigin url_Parse allowedOrigins r =
     (if length allowedOrigins = 0 then True
      else if length (wr_Origin r) = 0 then True
      else case url_Parse (wr_Origin r ! 0) of
             Inl _ \<Rightarrow> False
           | Inr u_Host \<Rightarrow>
               if to_lower u_Host = to_lower (wr_Host r) then True
               else list_ex (\<lambda>allowedOrigin. to_lower u_Host = to_lower allowedOrigin) allowedOrigins)"

record rawConnResult =
  rc_conn :: "nat option"
  rc_err :: "error option"

text \<open>
  The channel has no buffer: \<open>wl_connectionsChannel\<close> are the handlers that wait to hand over a result,
  in the order in which they came. The upgrade fails when \<^verbatim>\<open>CheckOrigin\<close> does.
\<close>

record webSocketConnectionListener =
  wl_allowedOrigins :: "string list"
  wl_connectionsChannel :: "rawConnResult list"
  wl_serverClosed :: bool

definition Upgrade :: "(ws_request \<Rightarrow> bool) \<Rightarrow> (ws_request \<Rightarrow> error + nat) \<Rightarrow> ws_request \<Rightarrow> error + nat" where
  "Upgrade CheckOrigin handshake r =
     (if CheckOrigin r then handshake r else Inl ''websocket: request origin not allowed by Upgrader.CheckOrigin'')"

definition upgradeHandler ::
  "(string \<Rightarrow> error + string) \<Rightarrow> (ws_request \<Rightarrow> error + nat) \<Rightarrow> ws_request \<Rightarrow> webSocketConnectionListener \<Rightarrow> webSocketConnectionListener" where
  "upgradeHandler url_Parse handshake r l =
     (case Upgrade (checkOrigin url_Parse (wl_allowedOrigins l)) handshake r of
        Inl err \<Rightarrow> l\<lparr>wl_connectionsChannel := wl_connectionsChannel l @ [\<lparr>rc_conn = None, rc_err = Some err\<rparr>]\<rparr>
      | Inr conn \<Rightarrow> l\<lparr>wl_connectionsChannel := wl_connectionsChannel l @ [\<lparr>rc_conn = Some conn, rc_err = None\<rparr>]\<rparr>)"

definition ws_Accept :: "webSocketConnectionListener \<Rightarrow> (webSocketConnectionListener \<times> nat option \<times> error option) go" where
  "ws_Accept l =
     (case wl_connectionsChannel l of
        [] \<Rightarrow> Block
      | cr # waiting \<Rightarrow> Done (l\<lparr>wl_connectionsChannel := waiting\<rparr>, rc_conn cr, rc_err cr))"

definition ws_Close :: "webSocketConnectionListener \<Rightarrow> webSocketConnectionListener" where
  "ws_Close l = l\<lparr>wl_serverClosed := True\<rparr>"

text \<open>A listener with a server of its own.\<close>

definition NewWebSocketConnectionListener ::
  "(string \<Rightarrow> error option) \<Rightarrow> string \<Rightarrow> string list \<Rightarrow> error + webSocketConnectionListener" where
  "NewWebSocketConnectionListener listen address allowedOrigins =
     (case listen address of
        Some err \<Rightarrow> Inl err
      | None \<Rightarrow> Inr \<lparr>wl_allowedOrigins = allowedOrigins, wl_connectionsChannel = [], wl_serverClosed = False\<rparr>)"

text \<open>The listener as a server knows it: an address, or a WebSocket listener on a route of the HTTP server.\<close>

datatype listener = TcpListener string | WebSocketListener string webSocketConnectionListener

definition NewTcpConnectionListener :: "(string \<Rightarrow> error option) \<Rightarrow> string \<Rightarrow> error + listener" where
  "NewTcpConnectionListener listen address = (case listen address of Some err \<Rightarrow> Inl err | None \<Rightarrow> Inr (TcpListener address))"

definition tcp_Accept :: "(error + nat) \<Rightarrow> nat option \<times> error option" where
  "tcp_Accept accepted = (case accepted of Inl err \<Rightarrow> (None, Some err) | Inr conn \<Rightarrow> (Some conn, None))"

definition NewWebSocketConnectionFromExistingHttpServer ::
  "string \<Rightarrow> string list \<Rightarrow> 'b plankBus_scheme \<Rightarrow> 'b plankBus_scheme \<times> listener" where
  "NewWebSocketConnectionFromExistingHttpServer endpoint allowedOrigins s =
     (add_route \<lparr>rt_Name = '''', rt_Path = Path endpoint, rt_Methods = None, rt_Handler = WebSocketEndpoint endpoint\<rparr> s,
      WebSocketListener endpoint \<lparr>wl_allowedOrigins = allowedOrigins, wl_connectionsChannel = [], wl_serverClosed = False\<rparr>)"

text \<open>
  A round of \<^verbatim>\<open>waitForConnections\<close> up to the announcement: a failed \<^verbatim>\<open>Accept\<close> starts no connection.
  \<open>new\<close> is the id of the STOMP connection.
\<close>

definition acceptRound :: "uuid \<Rightarrow> nat option \<times> error option \<Rightarrow> stompServer \<Rightarrow> stompServer" where
  "acceptRound new accepted s = (if \<not> sv_running s then s else case accepted of (_, Some err) \<Rightarrow> s | (_, None) \<Rightarrow> acceptConnection new s)"

end
