(* ===== verification/PlankUtils.thy ===== *)
theory PlankUtils
  imports Middleware
begin

text \<open>
  The helpers of plank: URLs, paths, log files and errors (src/plank/utils/uri.go, paths.go,
  array.go, logger.go; src/plank/pkg/server/base\_error.go, neutered\_fs.go), with what they use of
  the Go library on a Unix system: decoding UTF-8, \<^verbatim>\<open>path.Clean\<close>, \<^verbatim>\<open>filepath.Join\<close> and \<^verbatim>\<open>filepath.Base\<close>.
  A string is its bytes. Opening a file and reading a directory are parameters.
\<close>

subsection \<open>Runes\<close>

abbreviation byte_of :: "char \<Rightarrow> nat" where
  "byte_of c \<equiv> of_char c"

abbreviation RuneError :: nat where
  "RuneError \<equiv> 0xFFFD"

definition in_range :: "nat \<Rightarrow> nat \<Rightarrow> char \<Rightarrow> bool" where
  "in_range lo hi c \<longleftrightarrow> lo \<le> byte_of c \<and> byte_of c \<le> hi"

text \<open>
  The first rune of a string with the bytes it takes. A byte that starts no valid encoding is an
  error rune of its own.
\<close>

fun decode_rune :: "string \<Rightarrow> nat \<times> nat" where
  "decode_rune [] = (RuneError, 0)"
| "decode_rune (c # s) =
     (let b = byte_of c;
          lo = (if b = 0xE0 then 0xA0 else if b = 0xF0 then 0x90 else 0x80);
          hi = (if b = 0xED then 0x9F else if b = 0xF4 then 0x8F else 0xBF)
      in if b < 0x80 then (b, 1)
         else if 0xC2 \<le> b \<and> b \<le> 0xDF then
           (case s of c1 # _ \<Rightarrow> if in_range 0x80 0xBF c1 then ((b - 0xC0) * 64 + (byte_of c1 - 0x80), 2) else (RuneError, 1)
            | _ \<Rightarrow> (RuneError, 1))
         else if 0xE0 \<le> b \<and> b \<le> 0xEF then
           (case s of c1 # c2 # _ \<Rightarrow>
              if in_range lo hi c1 \<and> in_range 0x80 0xBF c2
              then ((b - 0xE0) * 4096 + (byte_of c1 - 0x80) * 64 + (byte_of c2 - 0x80), 3) else (RuneError, 1)
            | _ \<Rightarrow> (RuneError, 1))
         else if 0xF0 \<le> b \<and> b \<le> 0xF4 then
           (case s of c1 # c2 # c3 # _ \<Rightarrow>
              if in_range lo hi c1 \<and> in_range 0x80 0xBF c2 \<and> in_range 0x80 0xBF c3
              then ((b - 0xF0) * 262144 + (byte_of c1 - 0x80) * 4096 + (byte_of c2 - 0x80) * 64 + (byte_of c3 - 0x80), 4)
              else (RuneError, 1)
            | _ \<Rightarrow> (RuneError, 1))
         else (RuneError, 1))"

lemma decode_rune_width: "0 < snd (decode_rune (c # s))"
  by (auto simp: Let_def split: list.split)

text \<open>The iterations of a loop over a string: every rune with its bytes.\<close>

function runes :: "string \<Rightarrow> (nat \<times> string) list" where
  "runes [] = []"
| "runes (c # s) = (let (r, w) = decode_rune (c # s) in (r, take w (c # s)) # runes (drop w (c # s)))"
  by pat_completeness auto
termination
proof (relation "measure length")
  show "wf (measure length)" by simp
  fix c s x and r w :: nat
  assume "x = decode_rune (c # s)" "(r, w) = x"
  then have "decode_rune (c # s) = (r, w)" by simp
  then have "0 < w" using decode_rune_width[of c s] by (simp del: decode_rune.simps)
  then show "(drop w (c # s), c # s) \<in> measure length" by simp
qed

text \<open>White space as Unicode has it.\<close>

definition is_space :: "nat \<Rightarrow> bool" where
  "is_space r \<longleftrightarrow> r \<in> {0x09, 0x0A, 0x0B, 0x0C, 0x0D, 0x20, 0x85, 0xA0, 0x1680, 0x2028, 0x2029, 0x202F, 0x205F, 0x3000} \<or>
     0x2000 \<le> r \<and> r \<le> 0x200A"

definition TrimSpace :: "string \<Rightarrow> string" where
  "TrimSpace s = (let drop_spaces = dropWhile (\<lambda>(r, _). is_space r)
     in concat (map snd (rev (drop_spaces (rev (drop_spaces (runes s)))))))"

subsection \<open>URLs\<close>

text \<open>The leftmost match of \<^verbatim>\<open>https?://\<close>.\<close>

fun find_protocol :: "string \<Rightarrow> string option" where
  "find_protocol [] = None"
| "find_protocol (c # s) =
     (if HasPrefix (c # s) ''http://'' then Some ''http://''
      else if HasPrefix (c # s) ''https://'' then Some ''https://''
      else find_protocol s)"

text \<open>A rune is cut to its low byte.\<close>

abbreviation byte :: "nat \<Rightarrow> char" where
  "byte r \<equiv> char_of r"

fun sanitize_loop :: "bool \<Rightarrow> nat list \<Rightarrow> string" where
  "sanitize_loop isAtForwardSlash [] = []"
| "sanitize_loop isAtForwardSlash (c # cs) =
     (if isAtForwardSlash \<and> byte c = CHR ''/'' then sanitize_loop isAtForwardSlash cs
      else byte c # sanitize_loop (byte c = CHR ''/'') cs)"

definition SanitizeUrl :: "string \<Rightarrow> bool \<Rightarrow> string go" where
  "SanitizeUrl url suffixSlash =
     (if length url = 0 then Done ''''
      else
        let protocol = (case find_protocol url of None \<Rightarrow> '''' | Some p \<Rightarrow> p);
            sanitizedUrl = protocol @ sanitize_loop False (map fst (runes (drop (length protocol) url)))
        in if sanitizedUrl = '''' then Panic ''index out of range''
           else if suffixSlash \<and> last sanitizedUrl \<noteq> CHR ''/'' then Done (sanitizedUrl @ ''/'')
           else if \<not> suffixSlash \<and> last sanitizedUrl = CHR ''/'' then Done (butlast sanitizedUrl)
           else Done sanitizedUrl)"

subsection \<open>Paths\<close>

definition IsAbs :: "string \<Rightarrow> bool" where
  "IsAbs p = HasPrefix p ''/''"

text \<open>\<^verbatim>\<open>path.Clean\<close> on the parts between slashes; the parts kept so far are in reverse order.\<close>

fun clean_parts :: "bool \<Rightarrow> string list \<Rightarrow> string list \<Rightarrow> string list" where
  "clean_parts rooted out [] = rev out"
| "clean_parts rooted out (p # ps) =
     (if p = '''' \<or> p = ''.'' then clean_parts rooted out ps
      else if p = ''..'' then
        (case out of
           [] \<Rightarrow> clean_parts rooted (if rooted then [] else [''..'']) ps
         | q # out' \<Rightarrow> clean_parts rooted (if q = ''..'' then ''..'' # out else out') ps)
      else clean_parts rooted (p # out) ps)"

definition Clean :: "string \<Rightarrow> string" where
  "Clean p =
     (if p = '''' then ''.''
      else
        let out = Join (clean_parts (IsAbs p) [] (split_on CHR ''/'' p)) ''/''
        in if IsAbs p then ''/'' @ out else if out = '''' then ''.'' else out)"

definition filepath_Join :: "string list \<Rightarrow> string" where
  "filepath_Join elem = (case dropWhile (\<lambda>e. e = '''') elem of [] \<Rightarrow> '''' | rest \<Rightarrow> Clean (Join rest ''/''))"

definition filepath_Base :: "string \<Rightarrow> string" where
  "filepath_Base p =
     (if p = '''' then ''.''
      else
        let stripped = rev (dropWhile (\<lambda>c. c = CHR ''/'') (rev p));
            base = last (split_on CHR ''/'' stripped)
        in if base = '''' then ''/'' else base)"

text \<open>The pattern \<^verbatim>\<open>[A-Z]:\<close> has to match at the start.\<close>

definition IsAbsolutePath :: "string \<Rightarrow> bool" where
  "IsAbsolutePath p \<longleftrightarrow> IsAbs p \<or> (case p of drive # colon # _ \<Rightarrow> is_upper drive \<and> colon = CHR '':'' | _ \<Rightarrow> False)"

definition DeriveStaticURIFromPath :: "string \<Rightarrow> string \<times> string" where
  "DeriveStaticURIFromPath input0 =
     (let input = TrimSpace input0
      in if length input = 0 then (input, ''/'')
         else
           let split = split_on CHR '':'' input;
               p = split ! 0
           in (p, if length split > 1
                  then (if \<not> HasPrefix (split ! 1) ''/'' then ''/'' else '''') @ split ! 1
                  else (if \<not> HasPrefix (split ! 0) ''/'' then ''/'' else '''') @ filepath_Base (split ! 0)))"

definition JoinBasePathIfRelativeRegularFilePath :: "string \<Rightarrow> string \<Rightarrow> string" where
  "JoinBasePathIfRelativeRegularFilePath base input =
     (if input = ''stdout'' \<or> input = ''stderr'' \<or> input = ''null'' then input
      else if \<not> IsAbsolutePath input then filepath_Join [base, input]
      else input)"

fun ContainsString :: "string list \<Rightarrow> string \<Rightarrow> bool" where
  "ContainsString [] str = False"
| "ContainsString (a # arr) str = (if a = str then True else ContainsString arr str)"

subsection \<open>Log files\<close>

record LogFormatOption =
  lo_ForceColors :: bool
  lo_DisableColors :: bool
  lo_ForceQuote :: bool
  lo_DisableQuote :: bool
  lo_EnvironmentOverrideColors :: bool
  lo_DisableTimestamp :: bool
  lo_FullTimestamp :: bool
  lo_TimestampFormat :: string
  lo_DisableSorting :: bool
  lo_DisableLevelTruncation :: bool
  lo_PadLevelText :: bool
  lo_QuoteEmptyFields :: bool
  lo_FieldMap :: "(string \<times> string) list"

text \<open>The zero value of the options; \<^verbatim>\<open>isTerminal\<close> is never read.\<close>

definition zero_LogFormatOption :: LogFormatOption where
  "zero_LogFormatOption = \<lparr>lo_ForceColors = False, lo_DisableColors = False, lo_ForceQuote = False, lo_DisableQuote = False,
     lo_EnvironmentOverrideColors = False, lo_DisableTimestamp = False, lo_FullTimestamp = False, lo_TimestampFormat = '''',
     lo_DisableSorting = False, lo_DisableLevelTruncation = False, lo_PadLevelText = False, lo_QuoteEmptyFields = False,
     lo_FieldMap = []\<rparr>"

datatype writer = Stdout | Stderr | NoopWriter | LogFile string

record LogConfig =
  lc_AccessLog :: string
  lc_ErrorLog :: string
  lc_OutputLog :: string
  lc_FormatOptions :: "LogFormatOption option"
  lc_Root :: string
  lc_accessLogFp :: "writer option"
  lc_errorLogFp :: "writer option"
  lc_outputLogFp :: "writer option"

text \<open>\<open>open_file\<close> is the error of opening a file for appending, \<open>None\<close> when it can be opened.\<close>

definition GetNewLogFilePointer :: "(string \<Rightarrow> error option) \<Rightarrow> string \<Rightarrow> error + writer" where
  "GetNewLogFilePointer open_file file = (case open_file file of Some e \<Rightarrow> Inl e | None \<Rightarrow> Inr (LogFile file))"

definition prepareLogFilePointer :: "(string \<Rightarrow> error option) \<Rightarrow> string \<Rightarrow> LogConfig \<Rightarrow> error + writer" where
  "prepareLogFilePointer open_file target lc =
     (if target = ''stdout'' then Inr Stdout
      else if target = ''stderr'' then Inr Stderr
      else if target = ''null'' then Inr NoopWriter
      else GetNewLogFilePointer open_file (JoinBasePathIfRelativeRegularFilePath (lc_Root lc) target))"

definition PrepareLogFiles :: "(string \<Rightarrow> error option) \<Rightarrow> LogConfig \<Rightarrow> LogConfig \<times> error option" where
  "PrepareLogFiles open_file lc =
     (case prepareLogFilePointer open_file (lc_AccessLog lc) lc of
        Inl err \<Rightarrow> (lc, Some err)
      | Inr accessFp \<Rightarrow>
          let lc1 = lc\<lparr>lc_accessLogFp := Some accessFp\<rparr>
          in case prepareLogFilePointer open_file (lc_ErrorLog lc1) lc1 of
               Inl err \<Rightarrow> (lc1, Some err)
             | Inr errorFp \<Rightarrow>
                 let lc2 = lc1\<lparr>lc_errorLogFp := Some errorFp\<rparr>
                 in case prepareLogFilePointer open_file (lc_OutputLog lc2) lc2 of
                      Inl err \<Rightarrow> (lc2, Some err)
                    | Inr outputFp \<Rightarrow> (lc2\<lparr>lc_outputLogFp := Some outputFp\<rparr>, None))"

text \<open>The text formatter of the logger has the same fields; nil options are dereferenced.\<close>

definition CreateTextFormatterFromFormatOptions :: "LogFormatOption option \<Rightarrow> LogFormatOption go" where
  "CreateTextFormatterFromFormatOptions opts =
     (case opts of None \<Rightarrow> Panic ''nil pointer dereference'' | Some opts \<Rightarrow> Done opts)"

subsection \<open>Errors\<close>

text \<open>
  The four base errors are compared as pointers. A wrapped error has no message of its own; the text of
  a base error that wraps nothing dereferences a nil pointer.
\<close>

datatype base_var = errServerInit | errHttp | errInternal | errUndefined
datatype plank_error = BaseVar base_var | baseError base_var plank_error | OtherError string

fun base_message :: "base_var \<Rightarrow> string" where
  "base_message errServerInit = ''Server initialization failed''"
| "base_message errHttp = ''HTTP error''"
| "base_message errInternal = ''Internal error''"
| "base_message errUndefined = ''Undefined error''"

fun error_Is :: "plank_error \<Rightarrow> plank_error \<Rightarrow> bool" where
  "error_Is (baseError b _) err = (err = BaseVar b)"
| "error_Is _ err = False"

fun error_Error :: "plank_error \<Rightarrow> string go" where
  "error_Error (BaseVar b) = Panic ''nil pointer dereference''"
| "error_Error (OtherError m) = Done m"
| "error_Error (baseError b e) = go_map (\<lambda>m. ''[plank] Error: '' @ base_message b @ '': '' @ m @ [CHR 0x0A]) (error_Error e)"

definition wrapError :: "plank_error \<Rightarrow> plank_error \<Rightarrow> plank_error" where
  "wrapError baseType err =
     (case baseType of
        BaseVar errServerInit \<Rightarrow> baseError errServerInit err
      | BaseVar errInternal \<Rightarrow> baseError errInternal err
      | BaseVar errHttp \<Rightarrow> baseError errHttp err
      | _ \<Rightarrow> baseError errUndefined err)"

subsection \<open>Static files\<close>

text \<open>
  A file of a static directory: what its own status is, the names it lists when it is a directory
  (the entries not read yet) and the error that ends the listing, if there is one.
  \<^verbatim>\<open>Readdir\<close> gives the next \<open>n\<close> names, all of them when \<open>n\<close> is not positive, and \<^verbatim>\<open>io.EOF\<close> when none
  is left and \<open>n\<close> is positive.
\<close>

record http_file =
  hf_stat :: "error + bool"
  hf_entries :: "string list"
  hf_fails :: "error option"

datatype readdir = Names "string list" | EOF | ReadError error

definition Readdir :: "int \<Rightarrow> http_file \<Rightarrow> readdir \<times> http_file" where
  "Readdir n f =
     (if n \<le> 0 then
        (case hf_fails f of Some e \<Rightarrow> ReadError e | None \<Rightarrow> Names (hf_entries f), f\<lparr>hf_entries := []\<rparr>)
      else if hf_entries f = [] then (case hf_fails f of Some e \<Rightarrow> ReadError e | None \<Rightarrow> EOF, f)
      else (Names (take (nat n) (hf_entries f)), f\<lparr>hf_entries := drop (nat n) (hf_entries f)\<rparr>))"

text \<open>The loop over a directory; not returning is \<open>None\<close>. The result says that the status is given.\<close>

partial_function (option) index_loop :: "int \<Rightarrow> http_file \<Rightarrow> (error option) option" where
  "index_loop readDirCount f =
     (case Readdir readDirCount f of
        (EOF, f') \<Rightarrow> Some (Some ''file does not exist'')
      | (ReadError e, f') \<Rightarrow> Some (Some e)
      | (Names fl, f') \<Rightarrow> if ''index.html'' \<in> set fl then Some None else index_loop readDirCount f')"

definition neutered_Stat :: "int \<Rightarrow> http_file \<Rightarrow> (error + bool) option" where
  "neutered_Stat readDirCount e =
     (case hf_stat e of
        Inl err \<Rightarrow> Some (Inl err)
      | Inr is_dir \<Rightarrow>
          if is_dir then map_option (\<lambda>r. case r of None \<Rightarrow> Inr is_dir | Some err \<Rightarrow> Inl err) (index_loop readDirCount e)
          else Some (Inr is_dir))"

text \<open>Opening gives the file with the count of names to read at once.\<close>

definition NoDir_Open :: "(string \<Rightarrow> error + http_file) \<Rightarrow> string \<Rightarrow> error + (http_file \<times> int)" where
  "NoDir_Open fs name = (case fs name of Inl err \<Rightarrow> Inl err | Inr f \<Rightarrow> Inr (f, 2))"

end
