(* ===== verification/PlankConfig.thy ===== *)
theory PlankConfig
  imports PlankUtils FabricEndpoint
begin

text \<open>
  The configuration of the plank server: the command-line flags (src/plank/utils/cli.go,
  src/plank/pkg/server/flag\_helper.go), the configuration made from them or read from a file
  (helpers.go, spa\_config.go), and the checks made before a server is created (server.go).
  Durations are 64-bit signed numbers of nanoseconds. The values of flags (\<^verbatim>\<open>viper\<close>), the file system
  and the JSON decoder are parameters.
\<close>

subsection \<open>Flags\<close>

definition PlatformServerFlagConstants :: "(string \<times> (string \<times> string) list) list" where
  "PlatformServerFlagConstants =
  [(''Hostname'', [(''FlagName'', ''hostname''),
      (''ShortFlag'', ''n''),
      (''Description'', ''Hostname where Plank accepts connections'')]),
   (''Port'', [(''FlagName'', ''port''),
      (''ShortFlag'', ''p''),
      (''Description'', ''Port where Plank is to be served'')]),
   (''RootDir'', [(''FlagName'', ''rootdir''),
      (''ShortFlag'', ''r''),
      (''Description'', ''Root directory for the server (default: Current directory)'')]),
   (''Cert'', [(''FlagName'', ''cert''),
      (''Description'', ''X509 Certificate file for TLS'')]),
   (''CertKey'', [(''FlagName'', ''cert-key''),
      (''Description'', ''X509 Certificate private Key file for TLS'')]),
   (''Static'', [(''FlagName'', ''static''),
      (''ShortFlag'', ''s''),
      (''Description'', ''Path(s) where static files will be served'')]),
   (''SpaPath'', [(''FlagName'', ''spa-path''),
      (''Description'', ''Path to serve Single Page Application (SPA) from. The URI is derived from the leaf directory. A different URI can be specified by providing it following a colon (e.g. --spa-path ./path/to/spa-app:my-spa'')]),
   (''NoFabricBroker'', [(''FlagName'', ''no-fabric-broker''),
      (''Description'', ''Disable Fabric (STOMP) broker'')]),
   (''FabricEndpoint'', [(''FlagName'', ''fabric-endpoint''),
      (''Description'', ''Fabric broker endpoint'')]),
   (''TopicPrefix'', [(''FlagName'', ''topic-prefix''),
      (''Description'', ''Topic prefix for Fabric broker'')]),
   (''QueuePrefix'', [(''FlagName'', ''query-prefix''),
      (''Description'', ''Queue prefix for Fabric broker'')]),
   (''RequestPrefix'', [(''FlagName'', ''request-prefix''),
      (''Description'', ''Application request prefix for Fabric broker'')]),
   (''RequestQueuePrefix'', [(''FlagName'', ''request-queue-prefix''),
      (''Description'', ''Application request queue prefix for Fabric broker'')]),
   (''ConfigFile'', [(''FlagName'', ''config-file''),
      (''Description'', ''Path to the server config JSON file'')]),
   (''ShutdownTimeout'', [(''FlagName'', ''shutdown-timeout''),
      (''Description'', ''Graceful server shutdown timeout in minutes'')]),
   (''OutputLog'', [(''FlagName'', ''output-log''),
      (''ShortFlag'', ''l''),
      (''Description'', ''Platform log output. Possible values: stdout, stderr, null, or path to a file'')]),
   (''AccessLog'', [(''FlagName'', ''access-log''),
      (''ShortFlag'', ''a''),
      (''Description'', ''HTTP server access log output. Possible values: stdout, stderr, null, or path to a file'')]),
   (''ErrorLog'', [(''FlagName'', ''error-log''),
      (''ShortFlag'', ''e''),
      (''Description'', ''HTTP server error log output. Possible values: stdout, stderr, null, or path to a file'')]),
   (''Debug'', [(''FlagName'', ''debug''),
      (''ShortFlag'', ''d''),
      (''Description'', ''Enable debug logging'')]),
   (''NoBanner'', [(''FlagName'', ''no-banner''),
      (''ShortFlag'', ''b''),
      (''Description'', ''Do not print Plank banner at startup'')]),
   (''Prometheus'', [(''FlagName'', ''prometheus''),
      (''Description'', ''Enable Prometheus for basic runtime metrics'')]),
   (''RestBridgeTimeout'', [(''FlagName'', ''rest-bridge-timeout''),
      (''Description'', ''Time in minutes before a REST endpoint for a service request to timeout'')])]"

text \<open>A key that is missing reads as the empty string.\<close>

definition FlagConstants :: "string \<Rightarrow> string \<Rightarrow> string" where
  "FlagConstants flag field =
     (case map_of PlatformServerFlagConstants flag of
        None \<Rightarrow> ''''
      | Some m \<Rightarrow> (case map_of m field of None \<Rightarrow> '''' | Some v \<Rightarrow> v))"

record viper =
  vp_GetString :: "string \<Rightarrow> string"
  vp_GetInt :: "string \<Rightarrow> int"
  vp_GetInt64 :: "string \<Rightarrow> 64 word"
  vp_GetBool :: "string \<Rightarrow> bool"
  vp_GetStringSlice :: "string \<Rightarrow> string list"

definition f_Hostname :: "viper \<Rightarrow> string" where
  "f_Hostname v = vp_GetString v (FlagConstants ''Hostname'' ''FlagName'')"

definition f_Port :: "viper \<Rightarrow> int" where
  "f_Port v = vp_GetInt v (FlagConstants ''Port'' ''FlagName'')"

definition f_RootDir :: "viper \<Rightarrow> string" where
  "f_RootDir v = vp_GetString v (FlagConstants ''RootDir'' ''FlagName'')"

definition f_Cert :: "viper \<Rightarrow> string" where
  "f_Cert v = vp_GetString v (FlagConstants ''Cert'' ''FlagName'')"

definition f_CertKey :: "viper \<Rightarrow> string" where
  "f_CertKey v = vp_GetString v (FlagConstants ''CertKey'' ''FlagName'')"

definition f_Static :: "viper \<Rightarrow> string list" where
  "f_Static v = vp_GetStringSlice v (FlagConstants ''Static'' ''FlagName'')"

definition f_SpaPath :: "viper \<Rightarrow> string" where
  "f_SpaPath v = vp_GetString v (FlagConstants ''SpaPath'' ''FlagName'')"

definition f_NoFabricBroker :: "viper \<Rightarrow> bool" where
  "f_NoFabricBroker v = vp_GetBool v (FlagConstants ''NoFabricBroker'' ''FlagName'')"

definition f_FabricEndpoint :: "viper \<Rightarrow> string" where
  "f_FabricEndpoint v = vp_GetString v (FlagConstants ''FabricEndpoint'' ''FlagName'')"

definition f_TopicPrefix :: "viper \<Rightarrow> string" where
  "f_TopicPrefix v = vp_GetString v (FlagConstants ''TopicPrefix'' ''FlagName'')"

definition f_QueuePrefix :: "viper \<Rightarrow> string" where
  "f_QueuePrefix v = vp_GetString v (FlagConstants ''QueuePrefix'' ''FlagName'')"

definition f_RequestPrefix :: "viper \<Rightarrow> string" where
  "f_RequestPrefix v = vp_GetString v (FlagConstants ''RequestPrefix'' ''FlagName'')"

definition f_RequestQueuePrefix :: "viper \<Rightarrow> string" where
  "f_RequestQueuePrefix v = vp_GetString v (FlagConstants ''RequestQueuePrefix'' ''FlagName'')"

definition f_ConfigFile :: "viper \<Rightarrow> string" where
  "f_ConfigFile v = vp_GetString v (FlagConstants ''ConfigFile'' ''FlagName'')"

definition f_ShutdownTimeout :: "viper \<Rightarrow> 64 word" where
  "f_ShutdownTimeout v = vp_GetInt64 v (FlagConstants ''ShutdownTimeout'' ''FlagName'')"

definition f_OutputLog :: "viper \<Rightarrow> string" where
  "f_OutputLog v = vp_GetString v (FlagConstants ''OutputLog'' ''FlagName'')"

definition f_AccessLog :: "viper \<Rightarrow> string" where
  "f_AccessLog v = vp_GetString v (FlagConstants ''AccessLog'' ''FlagName'')"

definition f_ErrorLog :: "viper \<Rightarrow> string" where
  "f_ErrorLog v = vp_GetString v (FlagConstants ''ErrorLog'' ''FlagName'')"

definition f_Debug :: "viper \<Rightarrow> bool" where
  "f_Debug v = vp_GetBool v (FlagConstants ''Debug'' ''FlagName'')"

definition f_NoBanner :: "viper \<Rightarrow> bool" where
  "f_NoBanner v = vp_GetBool v (FlagConstants ''NoBanner'' ''FlagName'')"

definition f_Prometheus :: "viper \<Rightarrow> bool" where
  "f_Prometheus v = vp_GetBool v (FlagConstants ''Prometheus'' ''FlagName'')"

definition f_RestBridgeTimeout :: "viper \<Rightarrow> 64 word" where
  "f_RestBridgeTimeout v = vp_GetInt64 v (FlagConstants ''RestBridgeTimeout'' ''FlagName'')"

datatype flag_value = FString string | FInt int | FInt64 int | FBool bool | FStrings "string list"

record flag =
  fl_Name :: string
  fl_Shorthand :: string
  fl_Default :: flag_value
  fl_Usage :: string

text \<open>The flags in the order in which they are defined; \<open>wd\<close> is the working directory.\<close>

definition configureFlagsInFlagSet :: "string \<Rightarrow> flag list" where
  "configureFlagsInFlagSet wd =
     [\<lparr>fl_Name = FlagConstants ''Hostname'' ''FlagName'', fl_Shorthand = FlagConstants ''Hostname'' ''ShortFlag'',
       fl_Default = FString ''localhost'', fl_Usage = FlagConstants ''Hostname'' ''Description''\<rparr>,
      \<lparr>fl_Name = FlagConstants ''Port'' ''FlagName'', fl_Shorthand = FlagConstants ''Port'' ''ShortFlag'',
       fl_Default = FInt 30080, fl_Usage = FlagConstants ''Port'' ''Description''\<rparr>,
      \<lparr>fl_Name = FlagConstants ''RootDir'' ''FlagName'', fl_Shorthand = FlagConstants ''RootDir'' ''ShortFlag'',
       fl_Default = FString wd, fl_Usage = FlagConstants ''RootDir'' ''Description''\<rparr>,
      \<lparr>fl_Name = FlagConstants ''Cert'' ''FlagName'', fl_Shorthand = '''',
       fl_Default = FString '''', fl_Usage = FlagConstants ''Cert'' ''Description''\<rparr>,
      \<lparr>fl_Name = FlagConstants ''CertKey'' ''FlagName'', fl_Shorthand = '''',
       fl_Default = FString '''', fl_Usage = FlagConstants ''CertKey'' ''Description''\<rparr>,
      \<lparr>fl_Name = FlagConstants ''Static'' ''FlagName'', fl_Shorthand = FlagConstants ''Static'' ''ShortFlag'',
       fl_Default = FStrings [], fl_Usage = FlagConstants ''Static'' ''Description''\<rparr>,
      \<lparr>fl_Name = FlagConstants ''SpaPath'' ''FlagName'', fl_Shorthand = '''',
       fl_Default = FString '''', fl_Usage = FlagConstants ''SpaPath'' ''Description''\<rparr>,
      \<lparr>fl_Name = FlagConstants ''NoFabricBroker'' ''FlagName'', fl_Shorthand = '''',
       fl_Default = FBool False, fl_Usage = FlagConstants ''NoFabricBroker'' ''Description''\<rparr>,
      \<lparr>fl_Name = FlagConstants ''FabricEndpoint'' ''FlagName'', fl_Shorthand = '''',
       fl_Default = FString ''/ws'', fl_Usage = FlagConstants ''FabricEndpoint'' ''Description''\<rparr>,
      \<lparr>fl_Name = FlagConstants ''TopicPrefix'' ''FlagName'', fl_Shorthand = '''',
       fl_Default = FString ''/topic'', fl_Usage = FlagConstants ''TopicPrefix'' ''Description''\<rparr>,
      \<lparr>fl_Name = FlagConstants ''QueuePrefix'' ''FlagName'', fl_Shorthand = '''',
       fl_Default = FString ''/queue'', fl_Usage = FlagConstants ''QueuePrefix'' ''Description''\<rparr>,
      \<lparr>fl_Name = FlagConstants ''RequestPrefix'' ''FlagName'', fl_Shorthand = '''',
       fl_Default = FString ''/pub'', fl_Usage = FlagConstants ''RequestPrefix'' ''Description''\<rparr>,
      \<lparr>fl_Name = FlagConstants ''RequestQueuePrefix'' ''FlagName'', fl_Shorthand = '''',
       fl_Default = FString ''/pub/queue'', fl_Usage = FlagConstants ''RequestQueuePrefix'' ''Description''\<rparr>,
      \<lparr>fl_Name = FlagConstants ''ConfigFile'' ''FlagName'', fl_Shorthand = '''',
       fl_Default = FString '''', fl_Usage = FlagConstants ''ConfigFile'' ''Description''\<rparr>,
      \<lparr>fl_Name = FlagConstants ''ShutdownTimeout'' ''FlagName'', fl_Shorthand = '''',
       fl_Default = FInt64 5, fl_Usage = FlagConstants ''ShutdownTimeout'' ''Description''\<rparr>,
      \<lparr>fl_Name = FlagConstants ''OutputLog'' ''FlagName'', fl_Shorthand = FlagConstants ''OutputLog'' ''ShortFlag'',
       fl_Default = FString ''stdout'', fl_Usage = FlagConstants ''OutputLog'' ''Description''\<rparr>,
      \<lparr>fl_Name = FlagConstants ''AccessLog'' ''FlagName'', fl_Shorthand = FlagConstants ''AccessLog'' ''ShortFlag'',
       fl_Default = FString ''stdout'', fl_Usage = FlagConstants ''AccessLog'' ''Description''\<rparr>,
      \<lparr>fl_Name = FlagConstants ''ErrorLog'' ''FlagName'', fl_Shorthand = FlagConstants ''ErrorLog'' ''ShortFlag'',
       fl_Default = FString ''stderr'', fl_Usage = FlagConstants ''ErrorLog'' ''Description''\<rparr>,
      \<lparr>fl_Name = FlagConstants ''Debug'' ''FlagName'', fl_Shorthand = FlagConstants ''Debug'' ''ShortFlag'',
       fl_Default = FBool False, fl_Usage = FlagConstants ''Debug'' ''Description''\<rparr>,
      \<lparr>fl_Name = FlagConstants ''NoBanner'' ''FlagName'', fl_Shorthand = FlagConstants ''NoBanner'' ''ShortFlag'',
       fl_Default = FBool False, fl_Usage = FlagConstants ''NoBanner'' ''Description''\<rparr>,
      \<lparr>fl_Name = FlagConstants ''Prometheus'' ''FlagName'', fl_Shorthand = '''',
       fl_Default = FBool False, fl_Usage = FlagConstants ''Prometheus'' ''Description''\<rparr>,
      \<lparr>fl_Name = FlagConstants ''RestBridgeTimeout'' ''FlagName'', fl_Shorthand = '''',
       fl_Default = FInt64 1, fl_Usage = FlagConstants ''RestBridgeTimeout'' ''Description''\<rparr>]"

subsection \<open>The configuration\<close>

record TLSCertConfig =
  tc_CertFile :: string
  tc_KeyFile :: string
  tc_SkipCertificateValidation :: bool

record FabricBrokerConfig =
  fb_FabricEndpoint :: string
  fb_UseTCP :: bool
  fb_TCPPort :: int
  fb_EndpointConfig :: "EndpointConfig option"

record PlatformServerConfig =
  pc_RootDir :: string
  pc_StaticDir :: "string list"
  pc_SpaConfig :: "SpaConfig option"
  pc_Host :: string
  pc_Port :: int
  pc_LogConfig :: "LogConfig option"
  pc_FabricConfig :: "FabricBrokerConfig option"
  pc_TLSCertConfig :: "TLSCertConfig option"
  pc_EnablePrometheus :: bool
  pc_Debug :: bool
  pc_NoBanner :: bool
  pc_ShutdownTimeout :: "64 word"
  pc_RestBridgeTimeout :: "64 word"

record config_env =
  ce_ReadFile :: "string \<Rightarrow> error + bytes"
  ce_Unmarshal :: "bytes \<Rightarrow> error + PlatformServerConfig"
  ce_Getwd :: "error + string"
  ce_Stat :: "string \<Rightarrow> error option"
  ce_compile :: "string \<Rightarrow> error + glob"

definition filepath_Abs :: "config_env \<Rightarrow> string \<Rightarrow> error + string" where
  "filepath_Abs env p =
     (if IsAbs p then Inr (Clean p)
      else (case ce_Getwd env of Inl e \<Rightarrow> Inl e | Inr wd \<Rightarrow> Inr (filepath_Join [wd, p])))"

definition NewSpaConfig :: "config_env \<Rightarrow> string \<Rightarrow> SpaConfig" where
  "NewSpaConfig env input =
     (let (p, uri) = DeriveStaticURIFromPath input
      in CollateCacheControlRules (ce_compile env)
           \<lparr>spa_RootFolder = p, spa_BaseUri = uri, spa_StaticAssets = [], spa_CacheControlRules = [], spa_cacheControlRulePairs = []\<rparr>)"

abbreviation Minute :: "64 word" where
  "Minute \<equiv> 60000000000"

definition minutes_or :: "64 word \<Rightarrow> 64 word \<Rightarrow> 64 word" where
  "minutes_or dflt n = (if n \<le>s 0 then dflt else n) * Minute"

definition with_timeouts :: "PlatformServerConfig \<Rightarrow> PlatformServerConfig" where
  "with_timeouts c = c\<lparr>pc_ShutdownTimeout := minutes_or 5 (pc_ShutdownTimeout c), pc_RestBridgeTimeout := minutes_or 1 (pc_RestBridgeTimeout c)\<rparr>"

definition configFromFile :: "config_env \<Rightarrow> string \<Rightarrow> error + PlatformServerConfig" where
  "configFromFile env configFile =
     (case ce_ReadFile env configFile of
        Inl err \<Rightarrow> Inl err
      | Inr b \<Rightarrow>
          (case ce_Unmarshal env b of
             Inl err \<Rightarrow> Inl err
           | Inr serverConfig \<Rightarrow>
               Inr ((with_timeouts serverConfig)\<lparr>pc_SpaConfig := map_option (CollateCacheControlRules (ce_compile env)) (pc_SpaConfig serverConfig)\<rparr>)))"

text \<open>The length of the key is checked twice and that of the certificate is not.\<close>

definition flagsTLS :: "config_env \<Rightarrow> viper \<Rightarrow> error + TLSCertConfig option" where
  "flagsTLS env f =
     (if length (f_CertKey f) > 0 \<and> length (f_CertKey f) > 0 then
        (case filepath_Abs env (f_CertKey f) of
           Inl err \<Rightarrow> Inl err
         | Inr certKey \<Rightarrow>
             (case filepath_Abs env (f_Cert f) of
                Inl err \<Rightarrow> Inl err
              | Inr cert \<Rightarrow> Inr (Some \<lparr>tc_CertFile = cert, tc_KeyFile = certKey, tc_SkipCertificateValidation = False\<rparr>)))
      else Inr None)"

definition flagsFabric :: "viper \<Rightarrow> FabricBrokerConfig option" where
  "flagsFabric f =
     (if \<not> f_NoFabricBroker f then
        Some \<lparr>fb_FabricEndpoint = f_FabricEndpoint f, fb_UseTCP = False, fb_TCPPort = 0,
          fb_EndpointConfig = Some \<lparr>ec_TopicPrefix = f_TopicPrefix f, ec_UserQueuePrefix = f_QueuePrefix f,
            ec_AppRequestPrefix = f_RequestPrefix f, ec_AppRequestQueuePrefix = f_RequestQueuePrefix f, ec_Heartbeat = 60000\<rparr>\<rparr>
      else None)"

definition generatePlatformServerConfig :: "config_env \<Rightarrow> viper \<Rightarrow> error + PlatformServerConfig" where
  "generatePlatformServerConfig env f =
     (if length (f_ConfigFile f) > 0 then configFromFile env (f_ConfigFile f)
      else
        (case flagsTLS env f of
           Inl err \<Rightarrow> Inl err
         | Inr tls \<Rightarrow>
             Inr \<lparr>pc_RootDir = f_RootDir f, pc_StaticDir = f_Static f,
               pc_SpaConfig = (if length (TrimSpace (f_SpaPath f)) > 0 then Some (NewSpaConfig env (f_SpaPath f)) else None),
               pc_Host = f_Hostname f, pc_Port = f_Port f,
               pc_LogConfig = Some \<lparr>lc_AccessLog = f_AccessLog f, lc_ErrorLog = f_ErrorLog f, lc_OutputLog = f_OutputLog f,
                 lc_FormatOptions = Some zero_LogFormatOption, lc_Root = f_RootDir f,
                 lc_accessLogFp = None, lc_errorLogFp = None, lc_outputLogFp = None\<rparr>,
               pc_FabricConfig = flagsFabric f, pc_TLSCertConfig = tls, pc_EnablePrometheus = f_Prometheus f, pc_Debug = f_Debug f,
               pc_NoBanner = f_NoBanner f, pc_ShutdownTimeout = minutes_or 5 (f_ShutdownTimeout f),
               pc_RestBridgeTimeout = minutes_or 1 (f_RestBridgeTimeout f)\<rparr>))"

subsection \<open>Before a server is created\<close>

definition checkConfigForLogConfig :: "PlatformServerConfig \<Rightarrow> bool" where
  "checkConfigForLogConfig config = (if pc_LogConfig config \<noteq> None then True else False)"

definition sanitizeConfigRootPath :: "config_env \<Rightarrow> PlatformServerConfig \<Rightarrow> PlatformServerConfig go" where
  "sanitizeConfigRootPath env config =
     (let dir = (if length (pc_RootDir config) = 0 then (case ce_Getwd env of Inl _ \<Rightarrow> '''' | Inr wd \<Rightarrow> wd) else pc_RootDir config)
      in case filepath_Abs env dir of
           Inl err \<Rightarrow> Panic err
         | Inr absRootPath \<Rightarrow>
             (case ce_Stat env absRootPath of
                Some err \<Rightarrow> Panic err
              | None \<Rightarrow> Done (config\<lparr>pc_RootDir := absRootPath\<rparr>)))"

definition absolute_tls :: "string \<Rightarrow> TLSCertConfig \<Rightarrow> TLSCertConfig" where
  "absolute_tls dir t =
     (let t1 = (if \<not> IsAbs (tc_CertFile t) then t\<lparr>tc_CertFile := Clean (filepath_Join [dir, tc_CertFile t])\<rparr> else t)
      in if \<not> IsAbs (tc_KeyFile t1) then t1\<lparr>tc_KeyFile := Clean (filepath_Join [dir, tc_KeyFile t1])\<rparr> else t1)"

text \<open>
  The configuration with which \<^verbatim>\<open>NewPlatformServerFromConfig\<close> creates a server. A missing log
  configuration is dereferenced; the log paths are joined with its own root directory.
\<close>

definition serverConfigFromFile :: "config_env \<Rightarrow> string \<Rightarrow> (error + PlatformServerConfig) go" where
  "serverConfigFromFile env configPath =
     (case ce_ReadFile env configPath of
        Inl err \<Rightarrow> Done (Inl err)
      | Inr configBytes \<Rightarrow>
          (case ce_Unmarshal env configBytes of
             Inl err \<Rightarrow> Done (Inl err)
           | Inr config0 \<Rightarrow>
               go_bind (sanitizeConfigRootPath env config0) (\<lambda>config.
                 case pc_LogConfig config of
                   None \<Rightarrow> Panic ''nil pointer dereference''
                 | Some lc \<Rightarrow>
                     let lc' = lc\<lparr>lc_OutputLog := JoinBasePathIfRelativeRegularFilePath (lc_Root lc) (lc_OutputLog lc),
                                  lc_AccessLog := JoinBasePathIfRelativeRegularFilePath (lc_Root lc) (lc_AccessLog lc),
                                  lc_ErrorLog := JoinBasePathIfRelativeRegularFilePath (lc_Root lc) (lc_ErrorLog lc)\<rparr>
                     in Done (Inr ((with_timeouts config)\<lparr>pc_LogConfig := Some lc',
                          pc_TLSCertConfig := map_option (absolute_tls (pc_RootDir config)) (pc_TLSCertConfig config)\<rparr>)))))"

end
