(* ===== verification/PlankStart.thy ===== *)
theory PlankStart
  imports Listeners PlankConfig
begin

text \<open>
  Creating, starting and stopping a plank server (src/plank/pkg/server/server.go, initialize.go).
  \<open>open_file\<close>, \<open>listen\<close> and \<open>dial\<close> say what the file system and the network answer. A fatal log entry ends the process: it is a panic of the model. Router 0 is the one of a HTTP
  server without handler. The goroutines of \<^verbatim>\<open>StartServer\<close> are operations of their own.
\<close>

subsection \<open>State\<close>

record plankServer = plankBus +
  ps_serverConfig :: PlatformServerConfig
  ps_out :: "writer option"
  ps_Addr :: string
  ps_fabricConn :: "listener option"

record start_env =
  se_config :: config_env
  se_open_file :: "string \<Rightarrow> error option"
  se_listen :: "string \<Rightarrow> error option"
  se_is_func :: "nat \<Rightarrow> bool"

abbreviation PLANK_SERVER_ONLINE_CHANNEL :: string where
  "PLANK_SERVER_ONLINE_CHANNEL \<equiv> ''_transportInternal/plank-online-notify''"

subsection \<open>Initialising\<close>

definition new_router :: "'b plankBus_scheme \<Rightarrow> 'b plankBus_scheme" where
  "new_router s = s\<lparr>routers := (routers s)(nextRouter s := []), ps_router := nextRouter s, nextRouter := Suc (nextRouter s)\<rparr>"

definition reservedRoutes :: "bool \<Rightarrow> 'b plankBus_scheme \<Rightarrow> 'b plankBus_scheme" where
  "reservedRoutes enablePrometheus s =
     (let s1 = add_route \<lparr>rt_Name = ''/health'', rt_Path = Path ''/health'', rt_Methods = None, rt_Handler = NoStoreEndpoint ''/health'' HealthEndpoint\<rparr>
                 (s\<lparr>ps_endpointHandlerMap := (ps_endpointHandlerMap s)(''/health'' \<mapsto> HealthEndpoint)\<rparr>)
      in if enablePrometheus then
           add_route \<lparr>rt_Name = ''/prometheus'', rt_Path = Path ''/prometheus'', rt_Methods = Some [''GET''], rt_Handler = PrometheusEndpoint\<rparr>
             (s1\<lparr>ps_endpointHandlerMap := (ps_endpointHandlerMap s1)(''/prometheus'' \<mapsto> PrometheusEndpoint)\<rparr>)
         else s1)"

fun staticRoutes :: "(nat \<Rightarrow> bool) \<Rightarrow> string list \<Rightarrow> 'b plankBus_scheme \<Rightarrow> 'b plankBus_scheme go" where
  "staticRoutes is_func [] s = Done s"
| "staticRoutes is_func (dir # dirs) s =
     (let (p, uri) = DeriveStaticURIFromPath dir
      in go_bind (SetStaticRoute is_func uri p [] s) (staticRoutes is_func dirs))"

definition configureFabric :: "start_env \<Rightarrow> 'b plankServer_scheme \<Rightarrow> 'b plankServer_scheme go" where
  "configureFabric env s =
     (case pc_FabricConfig (ps_serverConfig s) of
        None \<Rightarrow> Done s
      | Some fc \<Rightarrow>
          if fb_UseTCP fc then
            (case NewTcpConnectionListener (se_listen env) ('':'' @ show_int (fb_TCPPort fc)) of
               Inl err \<Rightarrow> Panic err
             | Inr l \<Rightarrow> Done (s\<lparr>ps_fabricConn := Some l\<rparr>))
          else
            let (s1, l) = NewWebSocketConnectionFromExistingHttpServer (fb_FabricEndpoint fc) [] s
            in Done (s1\<lparr>ps_fabricConn := Some l\<rparr>))"

text \<open>The listener for the REST bridges of services; \<open>newL\<close> and \<open>newLS\<close> are the ids of its handler and subscription.\<close>

definition listenForBridges :: "uuid \<Rightarrow> uuid \<Rightarrow> 'b plankBus_scheme \<Rightarrow> 'b plankBus_scheme go" where
  "listenForBridges newL newLS s =
     (case ListenStreamForDestination newL LifecycleManagerChannelName (Some (eb_Id s)) s of
        (s1, Inl err) \<Rightarrow> Panic err
      | (s1, Inr lcmChanHandler) \<Rightarrow> Done (Handle newLS lcmChanHandler (Some SetupBridges) (Some IgnoreFn) s1))"

definition prepareLogs :: "start_env \<Rightarrow> 'b plankServer_scheme \<Rightarrow> 'b plankServer_scheme go" where
  "prepareLogs env s =
     (case pc_LogConfig (ps_serverConfig s) of
        None \<Rightarrow> Panic ''nil pointer dereference''
      | Some lc \<Rightarrow>
          (case PrepareLogFiles (se_open_file env) lc of
             (lc', Some err) \<Rightarrow> Panic err
           | (lc', None) \<Rightarrow>
               go_map (\<lambda>_. s\<lparr>ps_serverConfig := (ps_serverConfig s)\<lparr>pc_LogConfig := Some lc'\<rparr>, ps_out := lc_outputLogFp lc'\<rparr>)
                 (CreateTextFormatterFromFormatOptions (lc_FormatOptions lc'))))"

definition initRoutes :: "start_env \<Rightarrow> 'b plankServer_scheme \<Rightarrow> 'b plankServer_scheme go" where
  "initRoutes env s =
     staticRoutes (se_is_func env) (pc_StaticDir (ps_serverConfig s)) (reservedRoutes (pc_EnablePrometheus (ps_serverConfig s)) (new_router s))"

text \<open>The end of the function: the listener for bridges, the middleware manager and the broker.\<close>

definition finishInit :: "start_env \<Rightarrow> uuid \<times> uuid \<Rightarrow> 'b plankServer_scheme \<Rightarrow> 'b plankServer_scheme go" where
  "finishInit env lids s =
     go_bind (listenForBridges (fst lids) (snd lids) s) (\<lambda>s1.
       let s2 = s1\<lparr>ps_mmRouter := ps_router s1\<rparr>;
           s3 = (if pc_FabricConfig (ps_serverConfig s2) \<noteq> None then fst (CreateChannel STOMP_SESSION_NOTIFY_CHANNEL s2) else s2)
       in configureFabric env s3)"

definition initialize ::
  "start_env \<Rightarrow> ('b plankServer_ext plankBus_ext) service_init \<Rightarrow> service_hooks \<Rightarrow> (uuid \<times> uuid) \<Rightarrow> (uuid \<times> uuid)
     \<Rightarrow> 'b plankServer_scheme \<Rightarrow> 'b plankServer_scheme go" where
  "initialize env Init Hooks ids lids s =
     go_bind (GetServiceRegistry Init Hooks (fst ids) (snd ids) s) (\<lambda>(s1, _).
       let s2 = fst (CreateChannel PLANK_SERVER_ONLINE_CHANNEL (GetServiceLifecycleManager s1));
           s3 = s2\<lparr>ps_endpointHandlerMap := Map.empty, ps_serviceChanToBridgeEndpoints := Map.empty\<rparr>
       in go_bind (prepareLogs env s3) (\<lambda>s4.
            go_bind (initRoutes env s4) (\<lambda>s5.
              finishInit env lids
                (s5\<lparr>ps_Addr := '':'' @ show_int (pc_Port (ps_serverConfig s5)), ps_httpHandler := 0, ps_TLSConfig := None\<rparr>))))"

text \<open>Without a log configuration there is no server (\<open>None\<close>).\<close>

definition NewPlatformServer ::
  "start_env \<Rightarrow> ('b plankServer_ext plankBus_ext) service_init \<Rightarrow> service_hooks \<Rightarrow> (uuid \<times> uuid) \<Rightarrow> (uuid \<times> uuid)
     \<Rightarrow> PlatformServerConfig \<Rightarrow> 'b plankServer_scheme \<Rightarrow> 'b plankServer_scheme option go" where
  "NewPlatformServer env Init Hooks ids lids config s =
     (if \<not> checkConfigForLogConfig config then Done None
      else
        go_bind (sanitizeConfigRootPath (se_config env) config) (\<lambda>config'.
          go_map Some (initialize env Init Hooks ids lids
            (s\<lparr>ps_serverConfig := config', ps_ServerAvailability := \<lparr>sa_Http = False, sa_Fabric = False\<rparr>,
               ps_messageBridgeMap := Some Map.empty, ps_fabricConn := None\<rparr>))))"

text \<open>A server from a file has no map of bridges.\<close>

definition NewPlatformServerFromConfig ::
  "start_env \<Rightarrow> ('b plankServer_ext plankBus_ext) service_init \<Rightarrow> service_hooks \<Rightarrow> (uuid \<times> uuid) \<Rightarrow> (uuid \<times> uuid)
     \<Rightarrow> string \<Rightarrow> 'b plankServer_scheme \<Rightarrow> (error + 'b plankServer_scheme) go" where
  "NewPlatformServerFromConfig env Init Hooks ids lids configPath s =
     go_bind (serverConfigFromFile (se_config env) configPath) (\<lambda>res.
       case res of
         Inl err \<Rightarrow> Done (Inl err)
       | Inr config \<Rightarrow>
           go_map Inr (initialize env Init Hooks ids lids
             (s\<lparr>ps_serverConfig := config, ps_ServerAvailability := \<lparr>sa_Http = False, sa_Fabric = False\<rparr>,
                ps_messageBridgeMap := None, ps_fabricConn := None\<rparr>)))"

subsection \<open>Starting\<close>

definition assetRoute :: "(nat \<Rightarrow> bool) \<Rightarrow> string \<Rightarrow> 'b plankBus_scheme \<Rightarrow> 'b plankBus_scheme go" where
  "assetRoute is_func asset s =
     (let (folderPath, uri) = DeriveStaticURIFromPath asset
      in go_bind (SanitizeUrl uri False) (\<lambda>prefix. SetStaticRoute is_func prefix folderPath [SpaCacheControl] s))"

fun assetRoutes :: "(nat \<Rightarrow> bool) \<Rightarrow> string list \<Rightarrow> 'b plankBus_scheme \<Rightarrow> 'b plankBus_scheme go" where
  "assetRoutes is_func [] s = Done s"
| "assetRoutes is_func (asset # assets) s = go_bind (assetRoute is_func asset s) (assetRoutes is_func assets)"

definition configureSPA :: "start_env \<Rightarrow> 'b plankServer_scheme \<Rightarrow> 'b plankServer_scheme go" where
  "configureSPA env s =
     (case pc_SpaConfig (ps_serverConfig s) of
        None \<Rightarrow> Done s
      | Some spa \<Rightarrow>
          go_map (\<lambda>s1.
            let endpointHandlerMapKey = spa_BaseUri spa @ ''*'';
                s2 = s1\<lparr>ps_endpointHandlerMap := (ps_endpointHandlerMap s1)(endpointHandlerMapKey \<mapsto> SpaEndpoint (spa_RootFolder spa))\<rparr>
            in add_route \<lparr>rt_Name = endpointHandlerMapKey, rt_Path = PathPrefix (spa_BaseUri spa), rt_Methods = None,
                 rt_Handler = SpaCachedEndpoint (SpaEndpoint (spa_RootFolder spa))\<rparr> s2)
            (assetRoutes (se_is_func env) (spa_StaticAssets spa) s))"

text \<open>The file that the handler of the application serves for a path of a URL. The extension starts at the last dot of the last part.\<close>

definition filepath_Ext :: "string \<Rightarrow> string" where
  "filepath_Ext p =
     (let base = last (split_on CHR ''/'' p)
      in case split_on CHR ''.'' base of [_] \<Rightarrow> '''' | parts \<Rightarrow> ''.'' @ last parts)"

definition spaFile :: "string \<Rightarrow> string \<Rightarrow> string" where
  "spaFile rootFolder urlPath =
     (let resource = (if length (filepath_Ext urlPath) > 0 then Clean urlPath else ''index.html'')
      in filepath_Join [rootFolder, resource])"

text \<open>
  \<open>dial\<close> is the error of connecting to a port, \<open>None\<close> when something listens there.
  \<^verbatim>\<open>StartServer\<close> up to the start of its goroutines, and these: serving HTTP, starting the broker,
  telling that the server is reachable, and what follows a signal.
\<close>

definition checkPortAvailability :: "(string \<Rightarrow> error option) \<Rightarrow> 'b plankServer_scheme \<Rightarrow> unit go" where
  "checkPortAvailability dial s =
     (if dial ('':'' @ show_int (pc_Port (ps_serverConfig s))) = None then Panic ''another process is using the port'' else Done ())"

definition StartServer :: "start_env \<Rightarrow> (string \<Rightarrow> error option) \<Rightarrow> 'b plankServer_scheme \<Rightarrow> 'b plankServer_scheme go" where
  "StartServer env dial s =
     go_bind (checkPortAvailability dial s) (\<lambda>_. configureSPA env (loadGlobalHttpHandler (ps_router s) s))"

text \<open>The log entry of an error of the server, which ends the process.\<close>

definition fatalInit :: "error \<Rightarrow> 'a go" where
  "fatalInit err = go_bind (error_Error (wrapError (BaseVar errServerInit) (OtherError err))) Panic"

text \<open>\<open>serve\<close> is the error with which serving ends, with or without the files for TLS.\<close>

abbreviation ErrServerClosed :: error where
  "ErrServerClosed \<equiv> ''http: Server closed''"

definition serveHttp :: "((string \<times> string) option \<Rightarrow> error option) \<Rightarrow> 'b plankServer_scheme \<Rightarrow> 'b plankServer_scheme go" where
  "serveHttp serve s =
     (let s1 = s\<lparr>ps_ServerAvailability := (ps_ServerAvailability s)\<lparr>sa_Http := True\<rparr>\<rparr>
      in case serve (map_option (\<lambda>tls. (tc_CertFile tls, tc_KeyFile tls)) (pc_TLSCertConfig (ps_serverConfig s))) of
           None \<Rightarrow> Done s1
         | Some err \<Rightarrow> if err \<noteq> ErrServerClosed then fatalInit err else Done s1)"

definition startBroker :: "'b plankServer_scheme \<Rightarrow> 'b plankServer_scheme go" where
  "startBroker s =
     (case pc_FabricConfig (ps_serverConfig s) of
        None \<Rightarrow> Done s
      | Some fc \<Rightarrow>
          let s1 = s\<lparr>ps_ServerAvailability := (ps_ServerAvailability s)\<lparr>sa_Fabric := True\<rparr>\<rparr>
          in case fb_EndpointConfig fc of
               None \<Rightarrow> Panic ''nil pointer dereference''
             | Some ec \<Rightarrow> (case StartFabricEndpoint ec s1 of (s2, None) \<Rightarrow> Done s2 | (s2, Some err) \<Rightarrow> fatalInit err))"

definition notifyOnline :: "uuid \<Rightarrow> bool \<Rightarrow> 'b plankServer_scheme \<Rightarrow> 'b plankServer_scheme" where
  "notifyOnline new online s = fst (SendResponseMessage new PLANK_SERVER_ONLINE_CHANNEL (GBool online) None s)"

text \<open>
  The wait for the HTTP server: \<open>dial n\<close> is the error of the \<open>n\<close>th attempt to connect. The result is the
  number of attempts that failed before one succeeded; the message goes out after it.
\<close>

partial_function (option) httpReady_loop :: "(nat \<Rightarrow> error option) \<Rightarrow> nat \<Rightarrow> nat option" where
  "httpReady_loop dial n = (if dial n = None then Some n else httpReady_loop dial (Suc n))"

definition awaitHttp :: "(nat \<Rightarrow> error option) \<Rightarrow> uuid \<Rightarrow> 'b plankServer_scheme \<Rightarrow> 'b plankServer_scheme option" where
  "awaitHttp dial new s = map_option (\<lambda>_. notifyOnline new True s) (httpReady_loop dial 0)"

definition onSignal :: "service_hooks \<Rightarrow> uuid \<Rightarrow> addr \<Rightarrow> 'b plankServer_scheme \<Rightarrow> ('b plankServer_scheme \<times> string list) go" where
  "onSignal Hooks new r s = StopServer Hooks r (ps_fabricConn s \<noteq> None) (notifyOnline new False s)"

end
