(* ===== verification/PlatformServerLaws.thy ===== *)
theory PlatformServerLaws
  imports PlatformServer FabricLaws
begin

text \<open>
  The REST bridges of the plank server: the routes and endpoints that bridges are set up for, the
  stream behind them, the order in which answers reach HTTP requests, and what a client is sent.
\<close>

section \<open>Setting up bridges\<close>

definition plank_part :: "'b plankBus_scheme \<Rightarrow> _" where
  "plank_part s = (routers s, nextRouter s, ps_router s, ps_httpHandler s, ps_mmRouter s, ps_endpointHandlerMap s,
     ps_serviceChanToBridgeEndpoints s, ps_messageBridgeMap s)"

lemma plank_part_bus [simp]:
  "plank_part (upd_chan a f s) = plank_part s" "plank_part (SendMonitorEvent t n d s) = plank_part s"
  "plank_part (upd_mh h g s) = plank_part s" "plank_part (Handle newS h f1 f2 s) = plank_part s"
  "plank_part (fst (ListenStream newH ch s)) = plank_part s"
  by (auto simp: plank_part_def upd_chan_def SendMonitorEvent_def upd_mh_def Handle_def SubscribeChannelHandler_def ListenStream_def
      wrapMessageHandler_def Let_def split: option.split sum.split)

lemma plank_part_eq:
  "plank_part s' = plank_part s \<Longrightarrow> routers s' = routers s \<and> nextRouter s' = nextRouter s \<and> ps_router s' = ps_router s \<and>
     ps_httpHandler s' = ps_httpHandler s \<and> ps_mmRouter s' = ps_mmRouter s \<and> ps_endpointHandlerMap s' = ps_endpointHandlerMap s \<and>
     ps_serviceChanToBridgeEndpoints s' = ps_serviceChanToBridgeEndpoints s \<and> ps_messageBridgeMap s' = ps_messageBridgeMap s"
  by (simp add: plank_part_def)

text \<open>A bridge that exists has the forwarding stream of its service channel.\<close>

definition forward_handler :: "uuid \<Rightarrow> uuid \<Rightarrow> string \<Rightarrow> addr \<Rightarrow> messageHandler" where
  "forward_handler newH newS ch a = (createMessageHandler newH a None)\<lparr>mh_ignoreId := True, mh_direction := ResponseDir,
     mh_successHandler := Some (BridgeForward ch), mh_errorHandler := Some IgnoreFn, mh_subscriptionId := Some newS\<rparr>"

lemma openBridge_new:
  assumes "bridge_of ch s = None" "ps_messageBridgeMap s = Some m" "Channels s ch = Some a" "ch_Name (chans s a) = ch"
  shows "\<exists>s'. openBridge newH newS ch s = Done s' \<and>
    ps_messageBridgeMap s' = Some (m(ch \<mapsto> \<lparr>mb_ServiceListenStream = nextMH s, mb_payloadChannel = []\<rparr>)) \<and>
    routers s' = routers s \<and> ps_router s' = ps_router s \<and> ps_endpointHandlerMap s' = ps_endpointHandlerMap s \<and>
    ps_serviceChanToBridgeEndpoints s' = ps_serviceChanToBridgeEndpoints s \<and> ps_mmRouter s' = ps_mmRouter s \<and>
    Channels s' = Channels s \<and> (\<forall>b. ch_Name (chans s' b) = ch_Name (chans s b)) \<and>
    mhandlers s' (nextMH s) = forward_handler newH newS ch a \<and>
    chans s' a = subscribeHandler (WrapperFn (nextMH s)) False newS (chans s a)"
proof -
  let ?t = "fst (wrapMessageHandler newH a ResponseDir True False None False s)"
  let ?u = "Handle newS (nextMH s) (Some (BridgeForward ch)) (Some IgnoreFn) ?t"
  have l: "ListenStream newH ch s = (?t, Inr (nextMH s))"
    using assms(3) by (simp add: ListenStream_def getChannelFromManager_def GetChannel_def wrapMessageHandler_def Let_def)
  have t: "Channels ?t ch = Some a" "ch_Name (chans ?t a) = ch" "mh_channel (mhandlers ?t (nextMH s)) = a" "Channels ?t = Channels s" "chans ?t = chans s"
    "mhandlers ?t (nextMH s) = (createMessageHandler newH a None)\<lparr>mh_ignoreId := True, mh_direction := ResponseDir\<rparr>"
    using assms by (simp_all add: wrapMessageHandler_def Let_def createMessageHandler_def)
  have pt: "plank_part ?t = plank_part s" by (simp add: plank_part_def wrapMessageHandler_def Let_def)
  have pu: "plank_part ?u = plank_part s" using pt by simp
  note pu = plank_part_eq[OF pu]
  have "openBridge newH newS ch s =
      Done (?u\<lparr>ps_messageBridgeMap := Some (m(ch \<mapsto> \<lparr>mb_ServiceListenStream = nextMH s, mb_payloadChannel = []\<rparr>))\<rparr>)"
    using assms(1,2) pu by (simp add: openBridge_def l Let_def)
  then show ?thesis
    using pu Handle_fields[OF t(1-3), of newS "Some (BridgeForward ch)" "Some IgnoreFn"] t
    by (simp add: forward_handler_def createMessageHandler_def)
qed

lemma bridge_of_upd [simp]: "bridge_of ch (s\<lparr>ps_serviceChanToBridgeEndpoints := x\<rparr>) = bridge_of ch s"
  by (simp add: bridge_of_def)

definition key_of :: "RESTBridgeConfig \<Rightarrow> string" where
  "key_of c = rb_Uri c @ ''-'' @ rb_Method c"

definition route_of :: "RESTBridgeConfig \<Rightarrow> route" where
  "route_of c = \<lparr>rt_Name = key_of c, rt_Path = Path (rb_Uri c), rt_Methods = Some ([rb_Method c] @
     (if rb_AllowHead c then [''HEAD''] else []) @ (if rb_AllowOptions c then [''OPTIONS''] else [])),
     rt_Handler = BridgeEndpoint (rb_ServiceChannel c) (rb_FabricRequestBuilder c)\<rparr>"

text \<open>
  The tables of the server agree: the endpoints of bridges are those listed for their services,
  each has its route, and their services have a bridge.
\<close>

definition bridges_inv :: "'b plankBus_scheme \<Rightarrow> bool" where
  "bridges_inv s \<longleftrightarrow> ps_messageBridgeMap s \<noteq> None \<and> (\<forall>n a. Channels s n = Some a \<longrightarrow> ch_Name (chans s a) = n) \<and>
     (\<forall>k ch b. ps_endpointHandlerMap s k = Some (BridgeEndpoint ch b) \<longrightarrow> bridge_of ch s \<noteq> None \<and> k \<in> set (bridge_keys ch s) \<and>
        (\<exists>r \<in> set (routers s (ps_router s)). rt_Name r = k \<and> rt_Handler r = BridgeEndpoint ch b)) \<and>
     (\<forall>ch. \<forall>k \<in> set (bridge_keys ch s). \<exists>b. ps_endpointHandlerMap s k = Some (BridgeEndpoint ch b))"

lemma openBridge_spec:
  assumes "ps_messageBridgeMap s \<noteq> None" "Channels s ch = Some a" "ch_Name (chans s a) = ch"
  shows "\<exists>s1. openBridge newH newS ch s = Done s1 \<and> routers s1 = routers s \<and> ps_router s1 = ps_router s \<and>
    ps_endpointHandlerMap s1 = ps_endpointHandlerMap s \<and> ps_serviceChanToBridgeEndpoints s1 = ps_serviceChanToBridgeEndpoints s \<and>
    Channels s1 = Channels s \<and> (\<forall>b. ch_Name (chans s1 b) = ch_Name (chans s b)) \<and> ps_messageBridgeMap s1 \<noteq> None \<and>
    bridge_of ch s1 \<noteq> None \<and> (\<forall>n. bridge_of n s \<noteq> None \<longrightarrow> bridge_of n s1 \<noteq> None)"
proof (cases "bridge_of ch s")
  case None
  obtain m where m: "ps_messageBridgeMap s = Some m" using assms(1) by blast
  from openBridge_new[OF None m assms(2,3), of newH newS] m show ?thesis by (fastforce simp: bridge_of_def)
next
  case (Some b)
  then have "openBridge newH newS ch s = Done s" by (simp add: openBridge_def)
  then show ?thesis using assms(1) Some by simp
qed

lemma bridges_invD:
  assumes "bridges_inv s"
  shows "ps_endpointHandlerMap s k = Some (BridgeEndpoint ch b) \<Longrightarrow> bridge_of ch s \<noteq> None \<and> k \<in> set (bridge_keys ch s) \<and>
      (\<exists>r \<in> set (routers s (ps_router s)). rt_Name r = k \<and> rt_Handler r = BridgeEndpoint ch b)"
    "k \<in> set (bridge_keys ch s) \<Longrightarrow> \<exists>b. ps_endpointHandlerMap s k = Some (BridgeEndpoint ch b)"
    "Channels s n = Some a \<Longrightarrow> ch_Name (chans s a) = n" "ps_messageBridgeMap s \<noteq> None"
  using assms unfolding bridges_inv_def by blast+

lemma bridges_inv_add:
  assumes inv: "bridges_inv s" and new: "ps_endpointHandlerMap s (key_of c) = None"
    and f: "ps_endpointHandlerMap s' = (ps_endpointHandlerMap s)(key_of c \<mapsto> rt_Handler (route_of c))"
      "routers s' (ps_router s') = routers s (ps_router s) @ [route_of c]"
      "\<And>n. bridge_keys n s' = (if n = rb_ServiceChannel c then bridge_keys n s @ [key_of c] else bridge_keys n s)"
      "Channels s' = Channels s" "\<And>b. ch_Name (chans s' b) = ch_Name (chans s b)"
    and bridges: "ps_messageBridgeMap s' \<noteq> None" "bridge_of (rb_ServiceChannel c) s' \<noteq> None" "\<And>n. bridge_of n s \<noteq> None \<Longrightarrow> bridge_of n s' \<noteq> None"
  shows "bridges_inv s'"
  unfolding bridges_inv_def f
proof (intro conjI allI impI ballI)
  show "ps_messageBridgeMap s' \<noteq> None" by (rule bridges(1))
  show "ch_Name (chans s x) = n" if "Channels s n = Some x" for n x by (rule bridges_invD(3)[OF inv that])
  fix k ch b assume k: "((ps_endpointHandlerMap s)(key_of c \<mapsto> rt_Handler (route_of c))) k = Some (BridgeEndpoint ch b)"
  show "bridge_of ch s' \<noteq> None" "k \<in> set (if ch = rb_ServiceChannel c then bridge_keys ch s @ [key_of c] else bridge_keys ch s)"
    "\<exists>r\<in>set (routers s (ps_router s) @ [route_of c]). rt_Name r = k \<and> rt_Handler r = BridgeEndpoint ch b"
    using k bridges_invD(1)[OF inv, of k ch b] bridges(2,3) by (cases "k = key_of c"; auto simp: route_of_def)+
next
  fix ch k assume "k \<in> set (if ch = rb_ServiceChannel c then bridge_keys ch s @ [key_of c] else bridge_keys ch s)"
  then show "\<exists>b. ((ps_endpointHandlerMap s)(key_of c \<mapsto> rt_Handler (route_of c))) k = Some (BridgeEndpoint ch b)"
    using bridges_invD(2)[OF inv, of k ch] new by (auto simp: route_of_def split: if_splits)
qed

lemma SetHttpChannelBridge_spec:
  assumes "bridges_inv s" "Channels s (rb_ServiceChannel c) \<noteq> None"
  shows "\<exists>s'. SetHttpChannelBridge newH newS c s = Done s' \<and> bridges_inv s' \<and> Channels s' = Channels s \<and> ps_router s' = ps_router s \<and>
    (if ps_endpointHandlerMap s (key_of c) \<noteq> None then s' = s
     else ps_endpointHandlerMap s' = (ps_endpointHandlerMap s)(key_of c \<mapsto> rt_Handler (route_of c)) \<and>
       routers s' = (routers s)(ps_router s := routers s (ps_router s) @ [route_of c]))"
proof (cases "ps_endpointHandlerMap s (key_of c)")
  case (Some x)
  then show ?thesis using assms(1) by (simp add: SetHttpChannelBridge_def Let_def key_of_def)
next
  case None
  let ?ch = "rb_ServiceChannel c"
  let ?s0 = "s\<lparr>ps_serviceChanToBridgeEndpoints := (ps_serviceChanToBridgeEndpoints s)(?ch \<mapsto> bridge_keys ?ch s)\<rparr>"
  obtain a where a: "Channels s ?ch = Some a" "ch_Name (chans s a) = ?ch" using assms bridges_invD(3) by blast
  have "ps_messageBridgeMap ?s0 \<noteq> None" "Channels ?s0 ?ch = Some a" "ch_Name (chans ?s0 a) = ?ch"
    using a bridges_invD(4)[OF assms(1)] by simp_all
  from openBridge_spec[OF this, of newH newS] obtain s1 where s1: "openBridge newH newS ?ch ?s0 = Done s1"
    "routers s1 = routers s" "ps_router s1 = ps_router s" "ps_endpointHandlerMap s1 = ps_endpointHandlerMap s"
    "ps_serviceChanToBridgeEndpoints s1 = ps_serviceChanToBridgeEndpoints ?s0" "Channels s1 = Channels s"
    "\<And>b. ch_Name (chans s1 b) = ch_Name (chans s b)" "ps_messageBridgeMap s1 \<noteq> None" "bridge_of ?ch s1 \<noteq> None"
    "\<And>n. bridge_of n s \<noteq> None \<Longrightarrow> bridge_of n s1 \<noteq> None" by auto
  let ?s' = "addBridge (key_of c) ?ch (rt_Path (route_of c)) (rt_Methods (route_of c)) (rb_FabricRequestBuilder c) s1"
  have eq: "SetHttpChannelBridge newH newS c s = Done ?s'"
    using None s1(1) by (simp add: SetHttpChannelBridge_def Let_def key_of_def route_of_def)
  have f: "ps_endpointHandlerMap ?s' = (ps_endpointHandlerMap s)(key_of c \<mapsto> rt_Handler (route_of c))"
    "routers ?s' = (routers s)(ps_router s := routers s (ps_router s) @ [route_of c])" "ps_router ?s' = ps_router s"
    "ps_serviceChanToBridgeEndpoints ?s' = (ps_serviceChanToBridgeEndpoints s)(?ch \<mapsto> bridge_keys ?ch s @ [key_of c])"
    "Channels ?s' = Channels s" "\<And>n. bridge_of n ?s' = bridge_of n s1" "\<And>b. ch_Name (chans ?s' b) = ch_Name (chans s b)"
    "ps_messageBridgeMap ?s' = ps_messageBridgeMap s1"
    using s1 by (simp_all add: addBridge_def add_route_def route_of_def key_of_def bridge_of_def bridge_keys_def)
  have "bridges_inv ?s'"
  proof (rule bridges_inv_add[OF assms(1) None])
    show "bridge_keys n ?s' = (if n = ?ch then bridge_keys n s @ [key_of c] else bridge_keys n s)" for n
      unfolding bridge_keys_def[of n ?s'] f(4) by (simp add: bridge_keys_def)
    show "bridge_of n s \<noteq> None \<Longrightarrow> bridge_of n ?s' \<noteq> None" for n unfolding f(6) by (rule s1(10))
  qed (use f s1(8,9) in simp_all)
  then show ?thesis using eq f None by auto
qed

section \<open>Forwarding and answers\<close>

fun forward_all :: "string \<Rightarrow> Message list \<Rightarrow> 'b plankBus_scheme \<Rightarrow> 'b plankBus_scheme go" where
  "forward_all ch [] s = Done s"
| "forward_all ch (m # ms) s = go_bind (runBridgeForward ch m s) (forward_all ch ms)"

fun receive_all :: "(gval \<Rightarrow> error + bytes) \<Rightarrow> string \<Rightarrow> nat \<Rightarrow> 'b plankBus_scheme \<Rightarrow> ('b plankBus_scheme \<times> httpResult list) go" where
  "receive_all marshal ch 0 s = Done (s, [])"
| "receive_all marshal ch (Suc n) s =
     go_bind (endpointReceive marshal ch s) (\<lambda>(s1, x). go_map (\<lambda>(s2, xs). (s2, x # xs)) (receive_all marshal ch n s1))"

lemma bridge_of_put: "bridge_of ch s = Some b0 \<Longrightarrow> bridge_of n (put_bridge ch b s) = (if n = ch then Some b else bridge_of n s)"
  by (auto simp: bridge_of_def put_bridge_def split: option.splits)

lemma forward_all_spec:
  assumes "bridge_of ch s = Some b" "length (mb_payloadChannel b) + length ms \<le> 100"
  shows "\<exists>s'. forward_all ch ms s = Done s' \<and> bridge_of ch s' = Some (b\<lparr>mb_payloadChannel := mb_payloadChannel b @ ms\<rparr>)"
  using assms
proof (induction ms arbitrary: s b)
  case (Cons m ms)
  let ?b = "b\<lparr>mb_payloadChannel := mb_payloadChannel b @ [m]\<rparr>"
  have "runBridgeForward ch m s = Done (put_bridge ch ?b s)" using Cons.prems by (simp add: runBridgeForward_def)
  moreover have "\<exists>s'. forward_all ch ms (put_bridge ch ?b s) = Done s' \<and>
      bridge_of ch s' = Some (?b\<lparr>mb_payloadChannel := mb_payloadChannel ?b @ ms\<rparr>)"
    using Cons.prems by (intro Cons.IH) (simp_all add: bridge_of_put)
  ultimately show ?case by simp
qed simp

lemma receive_all_spec:
  assumes "bridge_of ch s = Some b" "n \<le> length (mb_payloadChannel b)"
  shows "\<exists>s'. receive_all marshal ch n s = Done (s', map (renderMessage marshal) (take n (mb_payloadChannel b))) \<and>
    bridge_of ch s' = Some (b\<lparr>mb_payloadChannel := drop n (mb_payloadChannel b)\<rparr>)"
  using assms
proof (induction n arbitrary: s b)
  case (Suc n)
  then obtain m ms where ms: "mb_payloadChannel b = m # ms" by (cases "mb_payloadChannel b") auto
  let ?b = "b\<lparr>mb_payloadChannel := ms\<rparr>"
  have "endpointReceive marshal ch s = Done (put_bridge ch ?b s, renderMessage marshal m)"
    using Suc.prems(1) ms by (simp add: endpointReceive_def)
  moreover have "\<exists>s'. receive_all marshal ch n (put_bridge ch ?b s) = Done (s', map (renderMessage marshal) (take n (mb_payloadChannel ?b))) \<and>
      bridge_of ch s' = Some (?b\<lparr>mb_payloadChannel := drop n (mb_payloadChannel ?b)\<rparr>)"
    using Suc.prems ms by (intro Suc.IH) (simp_all add: bridge_of_put)
  ultimately show ?case using ms by auto
qed simp

section \<open>Properties\<close>

definition configured :: "RESTBridgeConfig list \<Rightarrow> (string \<rightharpoonup> endpoint) \<Rightarrow> string \<rightharpoonup> endpoint" where
  "configured configs m k = (case m k of Some e \<Rightarrow> Some e | None \<Rightarrow> map_option (\<lambda>c. rt_Handler (route_of c)) (find (\<lambda>c. key_of c = k) configs))"

lemma set_bridges_spec:
  assumes "bridges_inv s" "\<forall>c \<in> set configs. Channels s (rb_ServiceChannel c) \<noteq> None"
  shows "\<exists>s'. set_bridges ids configs s = Done s' \<and> bridges_inv s' \<and> ps_router s' = ps_router s \<and>
    ps_endpointHandlerMap s' = configured configs (ps_endpointHandlerMap s)"
  using assms
proof (induction configs arbitrary: ids s)
  case Nil
  then show ?case by (auto simp: configured_def fun_eq_iff split: option.split)
next
  case (Cons c cs)
  obtain newH newS ids' where ids: "set_bridges ids (c # cs) s = go_bind (SetHttpChannelBridge newH newS c s) (set_bridges ids' cs)"
    by (cases ids) (auto split: prod.splits)
  from SetHttpChannelBridge_spec[OF Cons.prems(1), of c newH newS] Cons.prems(2) obtain s1 where s1:
    "SetHttpChannelBridge newH newS c s = Done s1" "bridges_inv s1" "Channels s1 = Channels s" "ps_router s1 = ps_router s"
    "if ps_endpointHandlerMap s (key_of c) \<noteq> None then s1 = s
     else ps_endpointHandlerMap s1 = (ps_endpointHandlerMap s)(key_of c \<mapsto> rt_Handler (route_of c)) \<and>
       routers s1 = (routers s)(ps_router s := routers s (ps_router s) @ [route_of c])" by auto
  have "configured (c # cs) (ps_endpointHandlerMap s) = configured cs (ps_endpointHandlerMap s1)"
    using s1(5) by (auto simp: configured_def fun_eq_iff split: option.splits if_splits)
  moreover have "\<forall>c\<in>set cs. Channels s1 (rb_ServiceChannel c) \<noteq> None" using Cons.prems(2) s1(3) by simp
  ultimately show ?case using Cons.IH[OF s1(2), of ids'] ids s1(1,4) by fastforce
qed

lemma clear_inv:
  assumes "bridges_inv s" "clearHttpChannelBridgesForService ch s = (s', r)"
  shows "bridges_inv (loadGlobalHttpHandler r s')"
    "ps_endpointHandlerMap s' = (ps_endpointHandlerMap s) |` (- set (bridge_keys ch s))" "Channels s' = Channels s" "ps_mmRouter s' = ps_mmRouter s"
    "routers s' r = map copied_route (filter (\<lambda>r. rt_Name r \<notin> set (bridge_keys ch s)) (routers s (ps_router s)))"
proof -
  note inv = bridges_invD[OF assms(1)]
  let ?t = "loadGlobalHttpHandler r s'"
  have f: "ps_endpointHandlerMap ?t = (ps_endpointHandlerMap s) |` (- set (bridge_keys ch s))" "Channels ?t = Channels s" "chans ?t = chans s"
    "routers ?t (ps_router ?t) = map copied_route (filter (\<lambda>r. rt_Name r \<notin> set (bridge_keys ch s)) (routers s (ps_router s)))"
    "bridge_of n ?t = bridge_of n s" "bridge_keys n ?t = (if n = ch then [] else bridge_keys n s)" "ps_messageBridgeMap ?t = ps_messageBridgeMap s" for n
    using assms(2) by (auto simp: clearHttpChannelBridgesForService_def Let_def loadGlobalHttpHandler_def bridge_of_def bridge_keys_def)
  show "bridges_inv ?t"
    unfolding bridges_inv_def f
  proof (intro conjI allI impI ballI)
    fix k n b assume k: "((ps_endpointHandlerMap s) |` (- set (bridge_keys ch s))) k = Some (BridgeEndpoint n b)"
    then have k': "ps_endpointHandlerMap s k = Some (BridgeEndpoint n b)" "k \<notin> set (bridge_keys ch s)"
      by (auto simp: restrict_map_def split: if_splits)
    note old = inv(1)[OF k'(1)]
    show "bridge_of n s \<noteq> None" using old by blast
    show "k \<in> set (if n = ch then [] else bridge_keys n s)" using old k'(2) by auto
    show "\<exists>r\<in>set (map copied_route (filter (\<lambda>r. rt_Name r \<notin> set (bridge_keys ch s)) (routers s (ps_router s)))). rt_Name r = k \<and> rt_Handler r = BridgeEndpoint n b"
      using old k'(2) by (force simp: copied_route_def)
  next
    fix n k assume k: "k \<in> set (if n = ch then [] else bridge_keys n s)"
    then obtain b where b: "n \<noteq> ch" "ps_endpointHandlerMap s k = Some (BridgeEndpoint n b)" using inv(2)[of k n] by (auto split: if_splits)
    moreover have "k \<notin> set (bridge_keys ch s)" using inv(2)[of k ch] b by auto
    ultimately show "\<exists>b. ((ps_endpointHandlerMap s) |` (- set (bridge_keys ch s))) k = Some (BridgeEndpoint n b)" by simp
  qed (use inv(3,4) in auto)
qed (use assms(2) in \<open>auto simp: clearHttpChannelBridgesForService_def Let_def\<close>)


definition ex_plank :: plankBus where
  "ex_plank = (init_plankBus ''b'')\<lparr>Channels := [''svc'' \<mapsto> 0], chans := (\<lambda>_. NewChannel ''svc''), nextChan := 1\<rparr>"

definition ex_bridge :: RESTBridgeConfig where
  "ex_bridge = RESTBridgeConfig ''svc'' ''/rest'' ''GET'' True False 7"

lemma ex_plank_fields:
  "Channels ex_plank = [''svc'' \<mapsto> 0]" "chans ex_plank = (\<lambda>_. NewChannel ''svc'')" "ps_endpointHandlerMap ex_plank = Map.empty"
  "ps_serviceChanToBridgeEndpoints ex_plank = Map.empty" "ps_messageBridgeMap ex_plank = Some Map.empty"
  by (simp_all add: ex_plank_def init_plankBus_def init_svcBus_def init_fabBus_def init_syncBus_def init_txBus_def init_storeBus_def init_bus_def
      svcBus.defs fabBus.defs syncBus.defs txBus.defs storeBus.defs transportEventBus.defs)

lemma ex_plank_inv: "bridges_inv ex_plank"
  by (simp add: bridges_inv_def ex_plank_fields bridge_keys_def NewChannel_def)


text \<open>
  An override makes prefix routes exact and restricts routes without methods to no method at all;
  the middleware manager keeps working on the router that is no longer served.
\<close>

theorem override_damages_other_routes:
  assumes "clearHttpChannelBridgesForService ch s = (t, r)" "bridges_inv s" "ps_mmRouter s \<noteq> r"
    and "x \<in> set (routers s (ps_router s))" "rt_Name x \<notin> set (bridge_keys ch s)" "rt_Path x = PathPrefix p" "rt_Methods x = None"
  shows "\<exists>y \<in> set (routers (loadGlobalHttpHandler r t) (ps_httpHandler (loadGlobalHttpHandler r t))).
      rt_Name y = rt_Name x \<and> rt_Handler y = rt_Handler x \<and> rt_Path y = Path p \<and> rt_Methods y = Some []"
    "ps_mmRouter (loadGlobalHttpHandler r t) \<noteq> ps_httpHandler (loadGlobalHttpHandler r t)"
proof -
  note c = clear_inv[OF assms(2,1)]
  have "copied_route x \<in> set (routers t r)" using assms(4,5) c(5) by auto
  moreover have "rt_Name (copied_route x) = rt_Name x \<and> rt_Handler (copied_route x) = rt_Handler x \<and> rt_Path (copied_route x) = Path p \<and> rt_Methods (copied_route x) = Some []"
    using assms(6,7) by (simp add: copied_route_def path_template_def)
  ultimately show "\<exists>y \<in> set (routers (loadGlobalHttpHandler r t) (ps_httpHandler (loadGlobalHttpHandler r t))).
      rt_Name y = rt_Name x \<and> rt_Handler y = rt_Handler x \<and> rt_Path y = Path p \<and> rt_Methods y = Some []"
    by (auto simp: loadGlobalHttpHandler_def)
  show "ps_mmRouter (loadGlobalHttpHandler r t) \<noteq> ps_httpHandler (loadGlobalHttpHandler r t)"
    using c(4) assms(3) by (simp add: loadGlobalHttpHandler_def)
qed

text \<open>
  The answers of a bridge: messages of the service are given to the HTTP requests in the order
  in which they came, whatever they answer, as long as no more than the 100 places of the bridge
  are taken; a further message waits.
\<close>

theorem bridge_answers_in_order:
  assumes "bridge_of ch s = Some b" "length (mb_payloadChannel b) + length ms \<le> 100" "n \<le> length (mb_payloadChannel b) + length ms"
  shows "\<exists>s1 s2. forward_all ch ms s = Done s1 \<and>
    receive_all marshal ch n s1 = Done (s2, map (renderMessage marshal) (take n (mb_payloadChannel b @ ms))) \<and>
    (length (mb_payloadChannel b) + length ms = 100 \<longrightarrow> runBridgeForward ch m s1 = Block)"
proof -
  obtain s1 where s1: "forward_all ch ms s = Done s1" "bridge_of ch s1 = Some (b\<lparr>mb_payloadChannel := mb_payloadChannel b @ ms\<rparr>)"
    using forward_all_spec[OF assms(1,2)] by blast
  obtain s2 where s2: "receive_all marshal ch n s1 = Done (s2, map (renderMessage marshal) (take n (mb_payloadChannel b @ ms)))"
    using receive_all_spec[OF s1(2), of n marshal] assms(3) by auto
  have "runBridgeForward ch m s1 = Block" if "length (mb_payloadChannel b) + length ms = 100" using s1(2) that by (simp add: runBridgeForward_def)
  then show ?thesis using s1(1) s2 by blast
qed

definition ex_answer :: "int \<Rightarrow> Message" where
  "ex_answer c = \<lparr>msg_Id = None, msg_DestinationId = None, msg_Channel = ''svc'', msg_Destination = '''',
     msg_Payload = GResponsePtr (Response None '''' 0 '''' (GString ''no'') True c '''' None []), msg_Error = None,
     msg_Direction = ResponseDir, msg_Headers = []\<rparr>"

definition ex_bridged :: plankBus where
  "ex_bridged = ex_plank\<lparr>ps_messageBridgeMap := Some [''svc'' \<mapsto> \<lparr>mb_ServiceListenStream = 0, mb_payloadChannel = [ex_answer 404]\<rparr>]\<rparr>"

theorem bridge_answers_in_order_witness:
  "\<exists>s1 s2. forward_all ''svc'' [ex_answer 503] ex_bridged = Done s1 \<and>
    receive_all (\<lambda>_. Inr ''x'') ''svc'' 2 s1 = Done (s2, [renderMessage (\<lambda>_. Inr ''x'') (ex_answer 404), renderMessage (\<lambda>_. Inr ''x'') (ex_answer 503)])"
  using bridge_answers_in_order[of "''svc''" ex_bridged "\<lparr>mb_ServiceListenStream = 0, mb_payloadChannel = [ex_answer 404]\<rparr>" "[ex_answer 503]" 2 "\<lambda>_. Inr ''x''"]
  by (auto simp: ex_bridged_def bridge_of_def numeral_2_eq_2)

text \<open>
  An answer that comes after its request has timed out is given to the next request, whose own
  answer is left for the one after it.
\<close>

theorem late_answer_goes_to_next_request:
  assumes "bridge_of ch s = Some b" "mb_payloadChannel b = []"
  shows "\<exists>s1 s2. runBridgeForward ch late s = Done s1 \<and> runBridgeForward ch own (endpointSend new ch request s1) = Done s2 \<and>
    (\<exists>s3. endpointReceive marshal ch s2 = Done (s3, renderMessage marshal late) \<and>
      bridge_of ch s3 = Some (b\<lparr>mb_payloadChannel := [own]\<rparr>))"
proof -
  let ?s1 = "put_bridge ch (b\<lparr>mb_payloadChannel := [late]\<rparr>) s"
  have s1: "runBridgeForward ch late s = Done ?s1" using assms by (simp add: runBridgeForward_def)
  have same: "bridge_of ch (endpointSend new ch request t) = bridge_of ch t" for t :: "'b plankBus_scheme"
    by (simp add: endpointSend_def SendRequestMessage_def sendMessageToChannel_def upd_chan_def bridge_of_def split: sum.split)
  have e: "bridge_of ch (endpointSend new ch request ?s1) = Some (b\<lparr>mb_payloadChannel := [late]\<rparr>)"
    using assms(1) by (simp add: same bridge_of_put)
  let ?s2 = "put_bridge ch (b\<lparr>mb_payloadChannel := [late, own]\<rparr>) (endpointSend new ch request ?s1)"
  have e2: "bridge_of ch ?s2 = Some (b\<lparr>mb_payloadChannel := [late, own]\<rparr>)" by (simp add: bridge_of_put[OF e])
  have "runBridgeForward ch own (endpointSend new ch request ?s1) = Done ?s2" using e by (simp add: runBridgeForward_def)
  moreover have "endpointReceive marshal ch ?s2 = Done (put_bridge ch (b\<lparr>mb_payloadChannel := [own]\<rparr>) ?s2, renderMessage marshal late)"
    using e2 by (simp add: endpointReceive_def)
  moreover have "bridge_of ch (put_bridge ch (b\<lparr>mb_payloadChannel := [own]\<rparr>) ?s2) = Some (b\<lparr>mb_payloadChannel := [own]\<rparr>)"
    by (simp add: bridge_of_put[OF e2])
  ultimately show ?thesis using s1 by blast
qed

text \<open>An error that a service sends on its channel is dropped: the HTTP request runs into the timeout.\<close>

theorem bridge_drops_errors:
  "msg_Direction m = ErrorDir \<Longrightarrow> wrapper_call (forward_handler newH newS ch a) m = Some (ErrCall IgnoreFn (msg_Error m))"
  by (simp add: forward_handler_def createMessageHandler_def wrapper_call_def accepts_def)

section \<open>Rendering\<close>

abbreviation is_content_type :: "string \<Rightarrow> bool" where
  "is_content_type k \<equiv> to_lower k = ''content-type''"

definition header_map :: "headers \<Rightarrow> (string \<rightharpoonup> string) \<Rightarrow> (string \<rightharpoonup> string)" where
  "header_map hs w = fold (\<lambda>(k, v) w. w(canonical_key k \<mapsto> v)) hs w"

lemma set_headers_plain:
  "\<forall>(k, v) \<in> set hs. \<not> is_content_type k \<Longrightarrow> set_response_headers marshal hs w body = (header_map hs w, Some body)"
  by (induction hs arbitrary: w) (auto simp: header_map_def Let_def)

lemma set_headers_append:
  "\<forall>(k, v) \<in> set hs. \<not> is_content_type k \<Longrightarrow> set_response_headers marshal (hs @ gs) w body = set_response_headers marshal gs (header_map hs w) body"
  by (induction hs arbitrary: w) (auto simp: header_map_def Let_def)

text \<open>
  What the client of a bridge is sent for a response of the service. An error: its code and
  headers, with the payload, or the whole response when there is none, as JSON, or the error text when
  that cannot be encoded; an impossible code becomes 500. Otherwise 200 with the headers of the
  response and the payload: bytes as they are and anything else as JSON; with a content type
  that is not JSON a string as it is, and a payload that is neither a string nor bytes is an
  internal server error.
\<close>

theorem rendered_answer:
  assumes "msg_Error m = None" "msg_Payload m = GResponsePtr r"
  shows "(resp_Error r \<and> 100 \<le> resp_ErrorCode r \<and> resp_ErrorCode r \<le> 999 \<longrightarrow>
      renderMessage marshal m = \<lparr>hx_Status = resp_ErrorCode r, hx_Header = header_map (resp_Headers r) Map.empty,
        hx_Body = (case marshal (if resp_Payload r = GNil then GResponsePtr r else resp_Payload r) of Inr b \<Rightarrow> b | Inl _ \<Rightarrow> resp_ErrorMessage r)\<rparr>) \<and>
    (resp_Error r \<and> (resp_ErrorCode r < 100 \<or> resp_ErrorCode r > 999) \<longrightarrow> hx_Status (renderMessage marshal m) = 500) \<and>
    (\<not> resp_Error r \<and> (\<forall>(k, v) \<in> set (resp_Headers r). \<not> is_content_type k) \<longrightarrow>
      renderMessage marshal m = \<lparr>hx_Status = 200, hx_Header = header_map (resp_Headers r) Map.empty,
        hx_Body = (case resp_Payload r of GBytes b \<Rightarrow> b | p \<Rightarrow> (case marshal p of Inr b \<Rightarrow> b | Inl _ \<Rightarrow> ''''))\<rparr>) \<and>
    (\<not> resp_Error r \<and> resp_Headers r = hs @ (k, v) # gs \<and> is_content_type k \<and> (\<forall>(k, v) \<in> set (hs @ gs). \<not> is_content_type k) \<longrightarrow>
      (Contains v ''json'' \<longrightarrow> renderMessage marshal m = \<lparr>hx_Status = 200, hx_Header = header_map (resp_Headers r) Map.empty,
        hx_Body = (case marshal (resp_Payload r) of Inr b \<Rightarrow> b | Inl _ \<Rightarrow> '''')\<rparr>) \<and>
      (\<not> Contains v ''json'' \<and> resp_Payload r \<in> {GString b, GBytes b} \<longrightarrow>
        renderMessage marshal m = \<lparr>hx_Status = 200, hx_Header = header_map (resp_Headers r) Map.empty, hx_Body = b\<rparr>) \<and>
      (\<not> Contains v ''json'' \<and> (\<forall>b. resp_Payload r \<notin> {GString b, GBytes b}) \<longrightarrow> hx_Status (renderMessage marshal m) = 500))"
proof (intro conjI impI)
  note r = renderMessage_def renderError_def renderSuccess_def Let_def header_map_def[symmetric]
  show "renderMessage marshal m = \<lparr>hx_Status = resp_ErrorCode r, hx_Header = header_map (resp_Headers r) Map.empty,
      hx_Body = (case marshal (if resp_Payload r = GNil then GResponsePtr r else resp_Payload r) of Inr b \<Rightarrow> b | Inl _ \<Rightarrow> resp_ErrorMessage r)\<rparr>"
    if "resp_Error r \<and> 100 \<le> resp_ErrorCode r \<and> resp_ErrorCode r \<le> 999"
    using that assms by (simp add: r split: sum.split)
  show "hx_Status (renderMessage marshal m) = 500" if "resp_Error r \<and> (resp_ErrorCode r < 100 \<or> resp_ErrorCode r > 999)"
    using that assms by (auto simp: r http_Error_def)
  show "renderMessage marshal m = \<lparr>hx_Status = 200, hx_Header = header_map (resp_Headers r) Map.empty,
      hx_Body = (case resp_Payload r of GBytes b \<Rightarrow> b | p \<Rightarrow> (case marshal p of Inr b \<Rightarrow> b | Inl _ \<Rightarrow> ''''))\<rparr>"
    if "\<not> resp_Error r \<and> (\<forall>(k, v) \<in> set (resp_Headers r). \<not> is_content_type k)"
    using that assms set_headers_plain[of "resp_Headers r" marshal Map.empty]
    by (cases "resp_Payload r") (simp_all add: r ensureResponseInByteSlice_def split: sum.split)
next
  assume c: "\<not> resp_Error r \<and> resp_Headers r = hs @ (k, v) # gs \<and> is_content_type k \<and> (\<forall>(k, v) \<in> set (hs @ gs). \<not> is_content_type k)"
  then have plain: "\<forall>(k, v) \<in> set hs. \<not> is_content_type k" "\<forall>(k, v) \<in> set gs. \<not> is_content_type k" by auto
  have set: "set_response_headers marshal (hs @ (k, v) # gs) Map.empty p =
      (case ConvertInterfaceToByteArray marshal v p of None \<Rightarrow> (header_map (hs @ [(k, v)]) Map.empty, None)
       | Some (b, _) \<Rightarrow> (header_map (hs @ (k, v) # gs) Map.empty, Some (GBytes b)))" for p
    using c by (simp add: set_headers_append[OF plain(1)] set_headers_plain[OF plain(2)] Let_def header_map_def split: option.split)
  note defs = renderMessage_def renderSuccess_def set ConvertInterfaceToByteArray_def ensureResponseInByteSlice_def http_Error_def
  show "renderMessage marshal m = \<lparr>hx_Status = 200, hx_Header = header_map (resp_Headers r) Map.empty,
      hx_Body = (case marshal (resp_Payload r) of Inr b \<Rightarrow> b | Inl _ \<Rightarrow> '''')\<rparr>" if "Contains v ''json''"
    using c that assms by (simp add: defs split: sum.split)
  show "renderMessage marshal m = \<lparr>hx_Status = 200, hx_Header = header_map (resp_Headers r) Map.empty, hx_Body = b\<rparr>"
    if "\<not> Contains v ''json'' \<and> resp_Payload r \<in> {GString b, GBytes b}"
    using c that assms by (auto simp: defs)
  show "hx_Status (renderMessage marshal m) = 500" if "\<not> Contains v ''json'' \<and> (\<forall>b. resp_Payload r \<notin> {GString b, GBytes b})"
    using c that assms by (cases "resp_Payload r") (auto simp: defs)
qed

theorem rendered_answer_witness:
  "renderMessage (\<lambda>_. Inr ''x'') (ex_answer 404) = \<lparr>hx_Status = 404, hx_Header = Map.empty, hx_Body = ''x''\<rparr> \<and>
   hx_Status (renderMessage (\<lambda>_. Inr ''x'') (ex_answer 0)) = 500"
  using rendered_answer[of "ex_answer 404" "Response None '''' 0 '''' (GString ''no'') True 404 '''' None []" "\<lambda>_. Inr ''x''"]
    rendered_answer[of "ex_answer 0" "Response None '''' 0 '''' (GString ''no'') True 0 '''' None []" "\<lambda>_. Inr ''x''"]
  by (simp add: ex_answer_def header_map_def)

end
