(* ===== verification/RestServiceLaws.thy ===== *)
theory RestServiceLaws
  imports ServiceRegistry FabricLaws
begin

text \<open>
  Laws of the fabric core and of the REST service: headers are merged with the request's own winning,
  every request that the service takes is answered exactly once, and a call of the service through
  the bus comes back to the handlers of its caller and of nobody else.
\<close>

section \<open>Headers\<close>

lemma map_of_put_all: "keys_distinct hs \<Longrightarrow> map_of (put_all hs m) = map_of m ++ map_of hs"
proof (induction hs arbitrary: m)
  case (Cons p hs)
  obtain k v where p: "p = (k, v)" by (cases p)
  have "map_of hs k = None" using Cons.prems p by (force simp: map_of_eq_None_iff)
  then show ?case
    using Cons by (auto simp: p put_all_def map_add_def fun_eq_iff split: option.splits)
qed (simp add: put_all_def)

lemma put_all_distinct: "keys_distinct m \<Longrightarrow> keys_distinct (put_all hs m)"
  by (induction hs arbitrary: m) (auto simp: put_all_def)

lemma map_of_mergeHeaders:
  "keys_distinct hs \<Longrightarrow> keys_distinct (fc_headers core) \<Longrightarrow>
     map_of (mergeHeadersWithDefaults hs core) = map_of (fc_headers core) ++ map_of hs"
  by (simp add: mergeHeadersWithDefaults_def map_of_put_all)

section \<open>Answers\<close>

text \<open>An answer on the service channel: the message, and that the response is one to the request.\<close>

definition answer :: "uuid \<Rightarrow> gval Response \<Rightarrow> fabricCore \<Rightarrow> Message" where
  "answer new resp core = GenerateResponse new (buildConfig new (fc_channelName core) (GResponsePtr resp) (resp_Id resp))"

definition answers :: "gval Request \<Rightarrow> fabricCore \<Rightarrow> gval Response \<Rightarrow> bool" where
  "answers request core resp \<longleftrightarrow> resp_Id resp = req_Id request \<and> resp_Destination resp = fc_channelName core \<and>
     resp_BrokerDestination resp = req_BrokerDestination request"

lemma send_answers:
  assumes "Channels s (fc_channelName core) = Some a"
  shows "SendResponse new request v core s = sendMessageToChannel a (answer new (Response (req_Id request) '''' 0 (fc_channelName core)
      v False 0 '''' (req_BrokerDestination request) (mergeHeadersWithDefaults [] core)) core) s"
    "SendErrorResponseWithPayload new request c e v core s = sendMessageToChannel a (answer new (Response (req_Id request) '''' 0
      (fc_channelName core) v True c e (req_BrokerDestination request) (mergeHeadersWithDefaults [] core)) core) s"
    "SendErrorResponse new request c e core s = sendMessageToChannel a (answer new (Response (req_Id request) '''' 0
      (fc_channelName core) GNil True c e (req_BrokerDestination request) (mergeHeadersWithDefaults [] core)) core) s"
  using assms by (simp_all add: SendResponse_def SendErrorResponse_def SendErrorResponseWithPayload_def SendResponseMessage_def
      GetChannel_def answer_def)

section \<open>The REST service\<close>

text \<open>The decoder gives a request for the type of requests, and the pointer to it is the same value.\<close>

definition typed_env :: "rest_env \<Rightarrow> bool" where
  "typed_env env \<longleftrightarrow> (\<forall>v. case re_recode env TRestServiceRequest v of
     Inl _ \<Rightarrow> True | Inr x \<Rightarrow> (\<exists>r. re_addr_of env x = GRestRequest r))"

text \<open>
  The HTTP exchange that a request leads to, if it gets that far: the request that is sent and the
  type its result is decoded to.
\<close>

definition exchange :: "rest_env \<Rightarrow> string \<Rightarrow> gval Request \<Rightarrow> (httpRequest \<times> gtype option) option" where
  "exchange env baseHost request =
     (case getRestServiceRequest env request of
        Done (Some r) \<Rightarrow>
          (case marshalBody env r of
             Inr body \<Rightarrow>
               (case http_NewRequest env (rsr_Method r) (getRequestUrl env (rsr_Uri r) baseHost) body of
                  Inr h \<Rightarrow> Some (outgoing (rsr_Headers r) h, responseTypeFor (outgoing (rsr_Headers r) h) (rsr_ResponseType r))
                | Inl _ \<Rightarrow> None)
           | Inl _ \<Rightarrow> None)
      | _ \<Rightarrow> None)"

text \<open>The result of an exchange that succeeds.\<close>

definition fetched :: "rest_env \<Rightarrow> string \<Rightarrow> gval Request \<Rightarrow> gval option" where
  "fetched env baseHost request =
     (case exchange env baseHost request of
        None \<Rightarrow> None
      | Some (h, t) \<Rightarrow>
          (case re_Do env h of
             Inl _ \<Rightarrow> None
           | Inr resp \<Rightarrow>
               if hp_StatusCode resp \<ge> 300 then None
               else (case deserializeResponse env (hp_Body resp) t of Done (Inr v) \<Rightarrow> Some v | _ \<Rightarrow> None)))"

text \<open>The one way to crash: a body \<^verbatim>\<open>null\<close> for a type that is not a pointer.\<close>

definition null_crash :: "rest_env \<Rightarrow> string \<Rightarrow> gval Request \<Rightarrow> bool" where
  "null_crash env baseHost request \<longleftrightarrow>
     (\<exists>h t resp. exchange env baseHost request = Some (h, Some t) \<and> re_Do env h = Inr resp \<and> hp_StatusCode resp < 300 \<and>
        (\<forall>u. t \<noteq> TPtr u) \<and> t \<notin> {TString, TBytes} \<and> re_decode env t (hp_Body resp) = Inr None)"

lemma getRestServiceRequest_Done:
  assumes "typed_env env"
  shows "\<exists>r. getRestServiceRequest env request = Done r"
proof (cases "req_Payload request")
  case (GMap m)
  show ?thesis
  proof (cases "re_recode env TRestServiceRequest (GMap m)")
    case (Inr x)
    moreover have "case re_recode env TRestServiceRequest (GMap m) of Inl _ \<Rightarrow> True | Inr x \<Rightarrow> \<exists>r. re_addr_of env x = GRestRequest r"
      using assms unfolding typed_env_def by blast
    ultimately show ?thesis using GMap by (auto simp: getRestServiceRequest_def ConvertValueToType_def)
  qed (simp add: getRestServiceRequest_def ConvertValueToType_def GMap)
qed (simp_all add: getRestServiceRequest_def)

lemma deserializeResponse_cases:
  "(\<exists>r. deserializeResponse env b t = Done r) \<or>
   (\<exists>u m. t = Some u \<and> (\<forall>v. u \<noteq> TPtr v) \<and> u \<notin> {TString, TBytes} \<and> re_decode env u b = Inr None \<and> deserializeResponse env b t = Panic m)"
  by (auto simp: deserializeResponse_def split: option.splits gtype.splits sum.splits)

text \<open>What the service does once the request is built.\<close>

definition rest_finish ::
  "rest_env \<Rightarrow> uuid \<Rightarrow> gval Request \<Rightarrow> fabricCore \<Rightarrow> httpRequest \<Rightarrow> gtype option \<Rightarrow> 'b busState_scheme \<Rightarrow> 'b busState_scheme go" where
  "rest_finish env new request core h t s =
     (case re_Do env h of
        Inl err \<Rightarrow> Done (SendErrorResponse new request 500 err core s)
      | Inr httpResp \<Rightarrow>
          if hp_StatusCode httpResp \<ge> 300 then
            Done (SendErrorResponseWithPayload new request (hp_StatusCode httpResp) (restError (hp_Status httpResp))
              (GMap [(''errorCode'', GInt (hp_StatusCode httpResp)), (''message'', GString (restError (hp_Status httpResp)))]) core s)
          else go_bind (deserializeResponse env (hp_Body httpResp) t) (\<lambda>result.
            case result of
              Inl err \<Rightarrow> Done (SendErrorResponse new request 500 (''failed to deserialize response:'' @ err) core s)
            | Inr v \<Rightarrow> Done (SendResponse new request v core s)))"

lemma rest_handle_reached:
  assumes "typed_env env"
  shows "exchange env baseHost request = Some (h, t) \<Longrightarrow>
      rest_HandleServiceRequest env new baseHost request core s = rest_finish env new request core h t s"
    "exchange env baseHost request = None \<Longrightarrow>
      \<exists>e. rest_HandleServiceRequest env new baseHost request core s = Done (SendErrorResponse new request 500 e core s)"
proof -
  obtain r where r: "getRestServiceRequest env request = Done r" using getRestServiceRequest_Done[OF assms] by blast
  show "rest_HandleServiceRequest env new baseHost request core s = rest_finish env new request core h t s"
    if "exchange env baseHost request = Some (h, t)"
    using r that by (auto simp: rest_HandleServiceRequest_def exchange_def rest_finish_def Let_def split: option.splits sum.splits)
  show "\<exists>e. rest_HandleServiceRequest env new baseHost request core s = Done (SendErrorResponse new request 500 e core s)"
    if "exchange env baseHost request = None"
    using r that by (auto simp: rest_HandleServiceRequest_def exchange_def split: option.splits sum.splits)
qed

lemma rest_handle_exchange:
  assumes "typed_env env" "Channels s (fc_channelName core) = Some a"
  shows "if null_crash env baseHost request then \<exists>m. rest_HandleServiceRequest env new baseHost request core s = Panic m
    else \<exists>resp. rest_HandleServiceRequest env new baseHost request core s = Done (sendMessageToChannel a (answer new resp core) s) \<and>
      answers request core resp \<and>
      (case fetched env baseHost request of Some v \<Rightarrow> \<not> resp_Error resp \<and> resp_Payload resp = v
       | None \<Rightarrow> resp_Error resp \<and> (resp_ErrorCode resp = 500 \<or> 300 \<le> resp_ErrorCode resp))"
proof (cases "exchange env baseHost request")
  note send = send_answers[OF assms(2)]
  case None
  then show ?thesis using rest_handle_reached(2)[OF assms(1) None, of new core s]
    by (auto simp: null_crash_def fetched_def send answers_def)
next
  note send = send_answers[OF assms(2)]
  case (Some ht)
  obtain h t where ht: "exchange env baseHost request = Some (h, t)" using Some by (cases ht) auto
  note eq = rest_handle_reached(1)[OF assms(1) ht, of new core s] rest_finish_def
  show ?thesis
  proof (cases "\<exists>resp. re_Do env h = Inr resp \<and> hp_StatusCode resp < 300")
    case False
    then show ?thesis
      by (cases "re_Do env h") (auto simp: eq ht null_crash_def fetched_def send answers_def)
  next
    case True
    then obtain resp where resp: "re_Do env h = Inr resp" "\<not> hp_StatusCode resp \<ge> 300" by auto
    from deserializeResponse_cases[of env "hp_Body resp" t] show ?thesis
    proof (elim disjE exE conjE)
      fix q assume q: "deserializeResponse env (hp_Body resp) t = Done q"
      then have "\<not> null_crash env baseHost request"
        using ht resp by (auto simp: null_crash_def deserializeResponse_def split: gtype.splits)
      then show ?thesis using q ht resp by (cases q) (auto simp: eq fetched_def send answers_def)
    next
      fix u m assume u: "t = Some u" "\<forall>v. u \<noteq> TPtr v" "u \<notin> {TString, TBytes}" "re_decode env u (hp_Body resp) = Inr None"
        "deserializeResponse env (hp_Body resp) t = Panic m"
      then have "null_crash env baseHost request" using ht resp by (auto simp: null_crash_def)
      then show ?thesis using resp u(5) by (auto simp: eq)
    qed
  qed
qed

text \<open>The request message that a call of the REST service sends, and the handler it leaves for the reply.\<close>

definition rest_message :: "uuid \<Rightarrow> uuid \<Rightarrow> gval RestServiceRequest \<Rightarrow> Message" where
  "rest_message newI newM r = GenerateRequest newM (buildConfig newM restServiceChannel
     (GRequestPtr (Request (Some newI) 0 0 '''' (GRestRequest r) '''' None)) (Some newI))"

definition reply_handler :: "uuid \<Rightarrow> uuid \<Rightarrow> uuid \<Rightarrow> nat \<Rightarrow> nat \<Rightarrow> addr \<Rightarrow> messageHandler" where
  "reply_handler newI newH newS u v a = (createMessageHandler newH a (Some newI))\<lparr>mh_direction := ResponseDir,
     mh_invokeOnce := Some OnceFresh, mh_successHandler := Some (RestReply u v), mh_errorHandler := Some (RestReply u v),
     mh_subscriptionId := Some newS\<rparr>"

definition merged :: "fabricCore \<Rightarrow> gval RestServiceRequest \<Rightarrow> gval RestServiceRequest" where
  "merged core r = set_rsr_Headers (put_all (rsr_Headers r) (put_all (fc_headers core) [])) r"

lemma core_RestServiceRequest_spec:
  assumes "Channels s restServiceChannel = Some a" "ch_Name (chans s a) = restServiceChannel"
  shows "\<exists>s1. core_RestServiceRequest newI newH newS newM r u v core s = Done (s1, merged core r) \<and>
    Channels s1 = Channels s \<and> mhandlers s1 = (mhandlers s)(nextMH s := reply_handler newI newH newS u v a) \<and>
    chans s1 = (chans s)(a := Channel_Send (rest_message newI newM (merged core r))
      (subscribeHandler (WrapperFn (nextMH s)) False newS (chans s a)))"
proof -
  let ?s1 = "fst (wrapMessageHandler newH a ResponseDir False False (Some newI) True s)"
  let ?s2 = "Handle newS (nextMH s) (Some (RestReply u v)) (Some (RestReply u v)) ?s1"
  have l: "ListenOnceForDestination newH restServiceChannel (Some newI) s = (?s1, Inr (nextMH s))"
    using assms(1) by (simp add: ListenOnceForDestination_def getChannelFromManager_def GetChannel_def wrapMessageHandler_def Let_def)
  have s1: "Channels ?s1 restServiceChannel = Some a" "ch_Name (chans ?s1 a) = restServiceChannel" "mh_channel (mhandlers ?s1 (nextMH s)) = a"
    "Channels ?s1 = Channels s" "chans ?s1 = chans s" "mhandlers ?s1 = (mhandlers s)(nextMH s :=
       (createMessageHandler newH a (Some newI))\<lparr>mh_direction := ResponseDir, mh_invokeOnce := Some OnceFresh\<rparr>)"
    using assms by (simp_all add: wrapMessageHandler_def Let_def createMessageHandler_def)
  note h = Handle_fields[OF s1(1-3), of newS "Some (RestReply u v)" "Some (RestReply u v)"]
  have "core_RestServiceRequest newI newH newS newM r u v core s =
      Done (sendMessageToChannel a (rest_message newI newM (merged core r)) ?s2, merged core r)"
    using assms(1) h(1) s1(4) by (simp add: core_RestServiceRequest_def Let_def l merged_def SendRequestMessage_def GetChannel_def rest_message_def)
  then show ?thesis
    using h s1 by (simp add: sendMessageToChannel_def reply_handler_def createMessageHandler_def)
qed

lemma answer_taken:
  assumes "resp_Id resp = Some i"
  shows "wrapper_call (reply_handler i newH newS u v a) (answer new resp core) = Some (MsgCall (RestReply u v) (answer new resp core))"
    "\<not> mh_allTraffic mh \<Longrightarrow> \<not> mh_ignoreId mh \<Longrightarrow> mh_destination mh \<noteq> Some i \<Longrightarrow> wrapper_call mh (answer new resp core) = None"
  using assms by (auto simp: wrapper_call_def accepts_def dest_matches_def reply_handler_def createMessageHandler_def answer_def
      buildConfig_def zero_MessageConfig_def split: option.splits)



definition ex_env :: rest_env where
  "ex_env = \<lparr>re_refuses = (\<lambda>_ _. None), re_with_host = (\<lambda>u h. Some (h @ u)),
     re_Do = (\<lambda>h. if hr_Url h = ''/ok'' then Inr \<lparr>hp_StatusCode = 200, hp_Status = ''200 OK'', hp_Body = Inr ''{}''\<rparr>
                   else Inr \<lparr>hp_StatusCode = 404, hp_Status = ''404 Not Found'', hp_Body = Inr ''''\<rparr>),
     re_marshal = (\<lambda>_. Inr ''null''), re_decode = (\<lambda>_ _. Inr None), re_decode_map = (\<lambda>_. Inr []),
     re_recode = (\<lambda>_ _. Inl ''no''), re_addr_of = (\<lambda>v. v)\<rparr>"

definition ex_services :: svcBus where
  "ex_services = (init_svcBus ''b'')\<lparr>Channels := [restServiceChannel \<mapsto> 0], chans := (\<lambda>_. NewChannel restServiceChannel),
     nextChan := 1, wrappers := (\<lambda>_. \<lparr>sw_service = restService '''',
       sw_fabricCore = \<lparr>fc_channelName = restServiceChannel, fc_headers = []\<rparr>, sw_requestMsgHandler = None\<rparr>)\<rparr>"

lemma ex_services_fields:
  "Channels ex_services = [restServiceChannel \<mapsto> 0]" "chans ex_services = (\<lambda>_. NewChannel restServiceChannel)" "nextMH ex_services = 0"
  "wrappers ex_services = (\<lambda>_. \<lparr>sw_service = restService '''',
     sw_fabricCore = \<lparr>fc_channelName = restServiceChannel, fc_headers = []\<rparr>, sw_requestMsgHandler = None\<rparr>)"
  by (simp_all add: ex_services_def init_svcBus_def init_fabBus_def init_syncBus_def init_txBus_def init_storeBus_def init_bus_def
      fabBus.defs syncBus.defs txBus.defs storeBus.defs transportEventBus.defs)

definition ex_rest_request :: "gval RestServiceRequest" where
  "ex_rest_request = RestServiceRequest ''/ok'' ''GET'' GNil [(''X-Id'', ''2'')] None ''''"

definition ex_core :: fabricCore where
  "ex_core = \<lparr>fc_channelName = ''svc'', fc_headers = [(''X-Id'', ''1''), (''Content-Type'', ''application/json'')]\<rparr>"

lemma ex_fetched: 
  "fetched ex_env '''' (Request (Some ''i'') 0 0 '''' (GRestRequest (merged ex_core ex_rest_request)) '''' None) = Some (GMap [])"
  "\<not> null_crash ex_env '''' (Request (Some ''i'') 0 0 '''' (GRestRequest (merged ex_core ex_rest_request)) '''' None)"
proof -
  have x: "exchange ex_env '''' (Request (Some ''i'') 0 0 '''' (GRestRequest (merged ex_core ex_rest_request)) '''' None) =
      Some (\<lparr>hr_Method = ''GET'', hr_Url = ''/ok'', hr_Header = [(''X-Id'', ''2''), (''Content-Type'', ''application/json'')], hr_Body = ''null''\<rparr>, None)"
    by code_simp
  show "fetched ex_env '''' (Request (Some ''i'') 0 0 '''' (GRestRequest (merged ex_core ex_rest_request)) '''' None) = Some (GMap [])"
    unfolding fetched_def x by (simp add: ex_env_def deserializeResponse_def)
  show "\<not> null_crash ex_env '''' (Request (Some ''i'') 0 0 '''' (GRestRequest (merged ex_core ex_rest_request)) '''' None)"
    unfolding null_crash_def x by simp
qed


end
