(* ===== verification/ServiceRegistryLaws.thy ===== *)
theory ServiceRegistryLaws
  imports RestServiceLaws
begin

text \<open>
  Laws of the service registry: registered services listen on their channels, registration and
  removal undo each other, and every way a registration fails.
\<close>

section \<open>Frames\<close>

text \<open>The part of the state that the service package owns; operations of the bus keep it.\<close>

definition svc_part :: "'b svcBus_scheme \<Rightarrow> _" where
  "svc_part s = (wrappers s, nextWrapper s, registries s, nextRegistry s, registryOnce s, registryInstance s,
     svcLifecycleManagerInstance s, serviceCalls s)"

lemma svc_part_bus [simp]:
  "svc_part (upd_chan a f s) = svc_part s" "svc_part (SendMonitorEvent t n d s) = svc_part s"
  "svc_part (go_SendMonitorEvent t n d s) = svc_part s" "svc_part (upd_mh h g s) = svc_part s"
  "svc_part (fst (CreateChannel n s)) = svc_part s" "svc_part (Handle newS h f1 f2 s) = svc_part s"
  "svc_part (fst (SendResponseMessage new n p d1 s)) = svc_part s"
  by (auto simp: svc_part_def upd_chan_def SendMonitorEvent_def go_SendMonitorEvent_def upd_mh_def CreateChannel_def Handle_def
      SubscribeChannelHandler_def SendResponseMessage_def sendMessageToChannel_def Let_def split: option.split sum.split)

lemma svc_part_eq:
  "svc_part s' = svc_part s \<Longrightarrow> wrappers s' = wrappers s \<and> nextWrapper s' = nextWrapper s \<and> registries s' = registries s \<and>
     nextRegistry s' = nextRegistry s \<and> registryOnce s' = registryOnce s \<and> registryInstance s' = registryInstance s \<and>
     svcLifecycleManagerInstance s' = svcLifecycleManagerInstance s \<and> serviceCalls s' = serviceCalls s"
  by (simp add: svc_part_def)

lemma svc_part_close: "\<exists>s'. MessageHandler_Close h s = Done s' \<and> svc_part s' = svc_part s"
  by (cases "mh_subscriptionId (mhandlers s h)")
    (auto simp: MessageHandler_Close_def Let_def UnsubscribeChannelHandler_def unsubscribeHandler_def
      split: sum.split option.split)

lemma upd_sw_fields [simp]:
  "Channels (upd_sw w f s) = Channels s" "chans (upd_sw w f s) = chans s" "nextChan (upd_sw w f s) = nextChan s"
  "monitor (upd_sw w f s) = monitor s" "mhandlers (upd_sw w f s) = mhandlers s" "nextMH (upd_sw w f s) = nextMH s"
  "wrappers (upd_sw w f s) = (wrappers s)(w := f (wrappers s w))" "nextWrapper (upd_sw w f s) = nextWrapper s"
  "registries (upd_sw w f s) = registries s" "registryInstance (upd_sw w f s) = registryInstance s"
  "svcLifecycleManagerInstance (upd_sw w f s) = svcLifecycleManagerInstance s"
  by (simp_all add: upd_sw_def)

lemma upd_reg_fields [simp]:
  "Channels (upd_reg r f s) = Channels s" "chans (upd_reg r f s) = chans s" "nextChan (upd_reg r f s) = nextChan s"
  "monitor (upd_reg r f s) = monitor s" "mhandlers (upd_reg r f s) = mhandlers s" "nextMH (upd_reg r f s) = nextMH s"
  "wrappers (upd_reg r f s) = wrappers s" "nextWrapper (upd_reg r f s) = nextWrapper s"
  "registries (upd_reg r f s) = (registries s)(r := f (registries s r))" "registryInstance (upd_reg r f s) = registryInstance s"
  "svcLifecycleManagerInstance (upd_reg r f s) = svcLifecycleManagerInstance s"
  by (simp_all add: upd_reg_def)

section \<open>Registering\<close>

definition request_handler :: "uuid \<Rightarrow> uuid \<Rightarrow> addr \<Rightarrow> addr \<Rightarrow> messageHandler" where
  "request_handler newH newS w a = (createMessageHandler newH a None)\<lparr>mh_ignoreId := True, mh_direction := RequestDir,
     mh_successHandler := Some (ServiceRequest w), mh_errorHandler := Some IgnoreFn, mh_subscriptionId := Some newS\<rparr>"

lemma CreateChannel_found:
  assumes "chan_inv s"
  shows "\<exists>a. Channels (fst (CreateChannel n s)) n = Some a \<and> ch_Name (chans (fst (CreateChannel n s)) a) = n"
  using CreateChannel_inv[OF assms, of n]
  by (cases "Channels s n") (auto simp: CreateChannel_def Let_def chan_inv_def split: option.splits)

lemma CreateChannel_mh [simp]:
  "mhandlers (fst (CreateChannel n s)) = mhandlers s" "nextMH (fst (CreateChannel n s)) = nextMH s"
  by (auto simp: CreateChannel_def Let_def split: option.split)

lemma sw_init_spec:
  assumes "chan_inv s" "initializationService Init (sw_service (wrappers s w)) = None"
    and "fc_channelName (sw_fabricCore (wrappers s w)) = n" "c = fst (CreateChannel n s)"
  shows "\<exists>s' a. sw_init Init newH newS w s = Done (s', None) \<and> Channels c n = Some a \<and>
    wrappers s' = (wrappers s)(w := (wrappers s w)\<lparr>sw_requestMsgHandler := Some (nextMH s)\<rparr>) \<and>
    nextWrapper s' = nextWrapper s \<and> registries s' = registries s \<and> registryInstance s' = registryInstance s \<and>
    svcLifecycleManagerInstance s' = svcLifecycleManagerInstance s \<and>
    Channels s' = Channels c \<and> nextChan s' = nextChan c \<and> monitor s' = monitor c \<and>
    chans s' = (chans c)(a := subscribeHandler (WrapperFn (nextMH s)) False newS (chans c a)) \<and>
    mhandlers s' = (mhandlers s)(nextMH s := request_handler newH newS w a) \<and> nextMH s' = Suc (nextMH s)"
proof -
  obtain a where a: "Channels c n = Some a" "ch_Name (chans c a) = n" using CreateChannel_found[OF assms(1)] assms(4) by blast
  have c: "svc_part c = svc_part s" "mhandlers c = mhandlers s" "nextMH c = nextMH s" using assms(4) by simp_all
  let ?t = "fst (wrapMessageHandler newH a RequestDir True False None False c)"
  let ?u = "upd_sw w (\<lambda>sw. sw\<lparr>sw_requestMsgHandler := Some (nextMH s)\<rparr>) ?t"
  have l: "ListenRequestStream newH n c = (?t, Inr (nextMH s))"
    using a(1) c(3) by (simp add: ListenRequestStream_def getChannelFromManager_def GetChannel_def wrapMessageHandler_def Let_def)
  have t: "svc_part ?t = svc_part s" "Channels ?t = Channels c" "chans ?t = chans c" "nextChan ?t = nextChan c" "monitor ?t = monitor c"
    "mhandlers ?t = (mhandlers s)(nextMH s := (createMessageHandler newH a None)\<lparr>mh_ignoreId := True, mh_direction := RequestDir\<rparr>)"
    "nextMH ?t = Suc (nextMH s)"
    using c by (simp_all add: wrapMessageHandler_def Let_def createMessageHandler_def svc_part_def)
  have u: "Channels ?u n = Some a" "ch_Name (chans ?u a) = n" "mh_channel (mhandlers ?u (nextMH s)) = a"
    using a t by (simp_all add: createMessageHandler_def)
  have "sw_init Init newH newS w s = Done (Handle newS (nextMH s) (Some (ServiceRequest w)) (Some IgnoreFn) ?u, None)"
    using assms(2,3) by (simp add: sw_init_def Let_def l assms(4)[symmetric])
  moreover have "svc_part (Handle newS (nextMH s) (Some (ServiceRequest w)) (Some IgnoreFn) ?u) = svc_part ?u" by simp
  ultimately show ?thesis
    using a(1) t svc_part_eq[OF t(1)] Handle_fields[OF u, of newS "Some (ServiceRequest w)" "Some IgnoreFn"]
    by (fastforce simp: request_handler_def createMessageHandler_def dest!: svc_part_eq)
qed

text \<open>A service that is registered at a channel has its request handler subscribed there.\<close>

definition service_live :: "string \<Rightarrow> addr \<Rightarrow> 'b svcBus_scheme \<Rightarrow> bool" where
  "service_live n w s \<longleftrightarrow> fc_channelName (sw_fabricCore (wrappers s w)) = n \<and>
     (\<exists>a h newH i. sw_requestMsgHandler (wrappers s w) = Some h \<and> h < nextMH s \<and> Channels s n = Some a \<and>
        mhandlers s h = request_handler newH i w a \<and> (i, WrapperFn h, False) \<in> handler_set (chans s a))"

definition svc_inv :: "addr \<Rightarrow> 'b svcBus_scheme \<Rightarrow> bool" where
  "svc_inv r s \<longleftrightarrow> chan_inv s \<and> \<not> sr_locked (registries s r) \<and> keys_distinct (sr_services (registries s r)) \<and>
     registryInstance s \<noteq> None \<and> svcLifecycleManagerInstance s \<noteq> Some None \<and>
     (\<forall>n w. map_of (sr_services (registries s r)) n = Some w \<longrightarrow>
        w < nextWrapper s \<and> n \<noteq> LifecycleManagerChannelName \<and> service_live n w s)"

lemma service_live_upd:
  assumes "service_live m w s" "wrappers s' w = wrappers s w" "Channels s' m = Channels s m" "nextMH s \<le> nextMH s'"
    "\<And>a. Channels s m = Some a \<Longrightarrow> chans s' a = chans s a"
    "\<And>h. h < nextMH s \<Longrightarrow> mhandlers s' h = mhandlers s h"
  shows "service_live m w s'"
  using assms by (fastforce simp: service_live_def)

lemma chan_inv_other:
  assumes "chan_inv s" "Channels s m = Some b" "Channels s n = Some a" "m \<noteq> n"
  shows "b \<noteq> a"
  using assms unfolding chan_inv_def by metis

lemma SendResponseMessage_live:
  assumes "chan_inv s"
  shows "chan_inv (fst (SendResponseMessage new n p d s))"
    "m \<noteq> n \<Longrightarrow> service_live m w s \<Longrightarrow> service_live m w (fst (SendResponseMessage new n p d s))"
proof -
  show "chan_inv (fst (SendResponseMessage new n p d s))"
    using assms by (auto simp: SendResponseMessage_def sendMessageToChannel_def chan_wfD Channel_Send_simps
        intro!: chan_inv_upd channel_wf_send split: sum.split)
  assume m: "m \<noteq> n" "service_live m w s"
  have "chans (fst (SendResponseMessage new n p d s)) a = chans s a" if "Channels s m = Some a" for a
    using chan_inv_other[OF assms that _ m(1)]
    by (auto simp: SendResponseMessage_def sendMessageToChannel_def split: sum.split)
  moreover have "Channels (fst (SendResponseMessage new n p d s)) = Channels s" "mhandlers (fst (SendResponseMessage new n p d s)) = mhandlers s"
    "nextMH (fst (SendResponseMessage new n p d s)) = nextMH s"
    by (simp_all add: SendResponseMessage_def sendMessageToChannel_def split: sum.split)
  moreover have "wrappers (fst (SendResponseMessage new n p d s)) = wrappers s"
    using svc_part_eq[OF svc_part_bus(7)] by blast
  ultimately show "service_live m w (fst (SendResponseMessage new n p d s))"
    by (intro service_live_upd[OF m(2)]) auto
qed

lemma sw_init_live:
  assumes "chan_inv s" "initializationService Init (sw_service (wrappers s w)) = None"
    and "fc_channelName (sw_fabricCore (wrappers s w)) = n" "fresh_id newS s"
  shows "\<exists>s'. sw_init Init newH newS w s = Done (s', None) \<and> chan_inv s' \<and> service_live n w s' \<and>
    (\<forall>m v. m \<noteq> n \<longrightarrow> v \<noteq> w \<longrightarrow> service_live m v s \<longrightarrow> service_live m v s') \<and>
    wrappers s' = (wrappers s)(w := (wrappers s w)\<lparr>sw_requestMsgHandler := Some (nextMH s)\<rparr>) \<and>
    nextWrapper s' = nextWrapper s \<and> registries s' = registries s \<and> registryInstance s' = registryInstance s \<and>
    svcLifecycleManagerInstance s' = svcLifecycleManagerInstance s \<and>
    (\<exists>a. mhandlers s' (nextMH s) = request_handler newH newS w a) \<and>
    (\<forall>m b. Channels s m = Some b \<longrightarrow> Channels s' m = Some b \<and>
       chans s' b = (if m = n then subscribeHandler (WrapperFn (nextMH s)) False newS (chans s b) else chans s b))"
proof -
  define c where "c = fst (CreateChannel n s)"
  have ci: "chan_inv c" using CreateChannel_inv[OF assms(1)] by (simp add: c_def)
  have frc: "newS \<notin> h_uuid ` set (ch_eventHandlers (chans c a))" for a
    using assms(4) by (auto simp: c_def CreateChannel_def Let_def fresh_id_def NewChannel_def split: option.split)
  have old: "Channels c m = Channels s m \<and> (\<forall>b. Channels s m = Some b \<longrightarrow> chans c b = chans s b)" if "m \<noteq> n" for m
    using that assms(1) by (auto simp: c_def CreateChannel_def Let_def chan_inv_def split: option.split)
  obtain s' a where s': "sw_init Init newH newS w s = Done (s', None)" and a: "Channels c n = Some a" and
    f: "wrappers s' = (wrappers s)(w := (wrappers s w)\<lparr>sw_requestMsgHandler := Some (nextMH s)\<rparr>)"
    "nextWrapper s' = nextWrapper s" "registries s' = registries s" "registryInstance s' = registryInstance s"
    "svcLifecycleManagerInstance s' = svcLifecycleManagerInstance s" "Channels s' = Channels c" "nextChan s' = nextChan c"
    "monitor s' = monitor c" "chans s' = (chans c)(a := subscribeHandler (WrapperFn (nextMH s)) False newS (chans c a))"
    "mhandlers s' = (mhandlers s)(nextMH s := request_handler newH newS w a)" "nextMH s' = Suc (nextMH s)"
    using sw_init_spec[OF assms(1-3) c_def, of newH newS] by blast
  have "chan_inv s'" using ci channel_wf_subscribe[OF chan_wfD[OF ci, of a] frc] by (auto simp: chan_inv_def f)
  moreover have "service_live n w s'"
    using a assms(3) subscribed_member[OF chan_wfD[OF ci, of a] frc] by (auto simp: service_live_def f)
  moreover have "service_live m v s'" if "m \<noteq> n" "v \<noteq> w" "service_live m v s" for m v
  proof (rule service_live_upd[OF that(3)])
    fix b assume b: "Channels s m = Some b"
    then have "Channels c m = Some b" using old[OF that(1)] by simp
    from chan_inv_other[OF ci this a that(1)] show "chans s' b = chans s b" using old[OF that(1)] b by (simp add: f)
  qed (use that old in \<open>auto simp: f\<close>)
  moreover have "Channels s' m = Some b \<and>
      chans s' b = (if m = n then subscribeHandler (WrapperFn (nextMH s)) False newS (chans s b) else chans s b)"
    if b: "Channels s m = Some b" for m b
  proof (cases "m = n")
    case True
    then have "c = s" using b by (simp add: c_def CreateChannel_def)
    then show ?thesis using True a b by (simp add: f)
  next
    case False
    then have "Channels c m = Some b" "chans c b = chans s b" using old b by auto
    then show ?thesis using chan_inv_other[OF ci _ a False] False by (simp add: f)
  qed
  moreover have "mhandlers s' (nextMH s) = request_handler newH newS w a" by (simp add: f)
  ultimately show ?thesis using s' f(1-5) by blast
qed

lemma GetServiceLifecycleManager_fields [simp]:
  "Channels (GetServiceLifecycleManager s) = Channels s" "chans (GetServiceLifecycleManager s) = chans s"
  "nextChan (GetServiceLifecycleManager s) = nextChan s" "monitor (GetServiceLifecycleManager s) = monitor s"
  "mhandlers (GetServiceLifecycleManager s) = mhandlers s" "nextMH (GetServiceLifecycleManager s) = nextMH s"
  "wrappers (GetServiceLifecycleManager s) = wrappers s" "nextWrapper (GetServiceLifecycleManager s) = nextWrapper s"
  "registries (GetServiceLifecycleManager s) = registries s" "registryInstance (GetServiceLifecycleManager s) = registryInstance s"
  by (simp_all add: GetServiceLifecycleManager_def)

text \<open>What the end of a registration keeps.\<close>

definition keeps_services :: "'b svcBus_scheme \<Rightarrow> 'b svcBus_scheme \<Rightarrow> bool" where
  "keeps_services s s' \<longleftrightarrow> chan_inv s' \<and> wrappers s' = wrappers s \<and> nextWrapper s' = nextWrapper s \<and> registries s' = registries s \<and>
     registryInstance s' = registryInstance s \<and> svcLifecycleManagerInstance s' \<noteq> Some None \<and> Channels s' = Channels s \<and>
     mhandlers s' = mhandlers s \<and> (\<forall>m b. m \<noteq> LifecycleManagerChannelName \<longrightarrow> Channels s m = Some b \<longrightarrow> chans s' b = chans s b) \<and>
     (\<forall>m w. m \<noteq> LifecycleManagerChannelName \<longrightarrow> service_live m w s \<longrightarrow> service_live m w s')"

lemma GetServiceHooks_Done: "lm \<noteq> None \<Longrightarrow> \<exists>h. GetServiceHooks Hooks lm n s = Done h"
  by (auto simp: GetServiceHooks_def split: sum.split)

lemma announceHooks_spec:
  assumes "chan_inv s" "registryInstance s \<noteq> None" "svcLifecycleManagerInstance s \<noteq> Some None"
  shows "\<exists>s' err. announceHooks Hooks newM r n s = Done (s', err) \<and> keeps_services s s' \<and>
    (err \<noteq> None \<longrightarrow> Channels s LifecycleManagerChannelName = None)"
proof (cases "internalServices n = Some True")
  case True
  then show ?thesis using assms by (simp add: announceHooks_def keeps_services_def)
next
  case False
  let ?s1 = "GetServiceLifecycleManager s"
  have lcm: "svcLifecycleManagerInstance ?s1 \<noteq> Some None" "svcLifecycleManagerInstance ?s1 \<noteq> None"
    using assms(2,3) by (auto simp: GetServiceLifecycleManager_def)
  have ci: "chan_inv ?s1" using assms(1) by (simp add: chan_inv_def)
  have live: "service_live m w s \<Longrightarrow> service_live m w ?s1" for m w by (simp add: service_live_def)
  have k1: "keeps_services s ?s1" using ci lcm live by (simp add: keeps_services_def)
  have k2: "keeps_services s (fst (SendResponseMessage newM LifecycleManagerChannelName p d ?s1))" for p d
    using SendResponseMessage_live[OF ci, where n = LifecycleManagerChannelName] live lcm svc_part_eq[OF svc_part_bus(7)[where s = ?s1]]
      chan_inv_other[OF assms(1), where n = LifecycleManagerChannelName]
    by (simp add: keeps_services_def) (auto simp: SendResponseMessage_def sendMessageToChannel_def split: sum.split)
  have err: "snd (SendResponseMessage newM LifecycleManagerChannelName p d ?s1) \<noteq> None \<longrightarrow> Channels s LifecycleManagerChannelName = None" for p d
    by (auto simp: SendResponseMessage_def GetChannel_def split: option.split)
  obtain h where h: "GetServiceHooks Hooks (case sr_lifecycleManager (registries ?s1 r) of Some m \<Rightarrow> Some m
      | None \<Rightarrow> the (svcLifecycleManagerInstance ?s1)) n ?s1 = Done h"
    using GetServiceHooks_Done lcm by (metis (no_types, lifting) option.case_eq_if option.collapse option.distinct(1))
  show ?thesis
  proof (cases h)
    case None
    then show ?thesis using False h k1 by (simp add: announceHooks_def Let_def)
  next
    case (Some cfg)
    then show ?thesis using False h k2 err
      by (cases "SendResponseMessage newM LifecycleManagerChannelName (GSetupREST (SetupRESTBridgeRequest n False cfg)) (Some (eb_Id ?s1)) ?s1")
        (simp add: announceHooks_def Let_def, metis fst_conv snd_conv)
  qed
qed

lemma svc_invD:
  "svc_inv r s \<Longrightarrow> map_of (sr_services (registries s r)) n = Some w \<Longrightarrow>
     w < nextWrapper s \<and> n \<noteq> LifecycleManagerChannelName \<and> service_live n w s"
  unfolding svc_inv_def by blast

lemma svc_inv_add:
  assumes inv: "svc_inv r s" and new: "map_of (sr_services (registries s r)) n = None" "n \<noteq> LifecycleManagerChannelName"
    and tab: "sr_services (registries s' r) = sr_services (registries s r) @ [(n, nextWrapper s)]" "nextWrapper s' = Suc (nextWrapper s)"
    and rest: "\<not> sr_locked (registries s' r)" "chan_inv s'" "registryInstance s' \<noteq> None" "svcLifecycleManagerInstance s' \<noteq> Some None"
    and live: "service_live n (nextWrapper s) s'"
      "\<And>m v. m \<noteq> n \<Longrightarrow> v < nextWrapper s \<Longrightarrow> m \<noteq> LifecycleManagerChannelName \<Longrightarrow> service_live m v s \<Longrightarrow> service_live m v s'"
  shows "svc_inv r s'"
proof -
  have "v < nextWrapper s' \<and> m \<noteq> LifecycleManagerChannelName \<and> service_live m v s'" if "map_of (sr_services (registries s' r)) m = Some v" for m v
  proof -
    have "m = n \<and> v = nextWrapper s \<or> m \<noteq> n \<and> map_of (sr_services (registries s r)) m = Some v"
      using that[unfolded tab] new(1) by (auto simp: map_add_Some_iff split: if_splits)
    then show ?thesis using svc_invD[OF inv, of m v] new(2) tab(2) live by auto
  qed
  moreover have "keys_distinct (sr_services (registries s' r))"
    using inv new(1) by (auto simp: svc_inv_def tab map_of_eq_None_iff)
  ultimately show ?thesis using rest unfolding svc_inv_def by blast
qed

lemma RegisterService_spec:
  assumes inv: "svc_inv r s" and new: "map_of (sr_services (registries s r)) n = None"
    and Init: "initializationService Init svc = None" and fresh: "fresh_id newS s" and n: "n \<noteq> LifecycleManagerChannelName"
  shows "\<exists>s' err. RegisterService Init Hooks newH newS newM r (Some svc) n s = Done (s', err) \<and> svc_inv r s' \<and>
    sr_services (registries s' r) = sr_services (registries s r) @ [(n, nextWrapper s)] \<and> nextWrapper s' = Suc (nextWrapper s) \<and>
    sw_service (wrappers s' (nextWrapper s)) = svc \<and> (\<forall>w < nextWrapper s. wrappers s' w = wrappers s w) \<and>
    (err \<noteq> None \<longrightarrow> Channels s LifecycleManagerChannelName = None) \<and>
    sw_requestMsgHandler (wrappers s' (nextWrapper s)) = Some (nextMH s) \<and>
    (\<exists>a. mhandlers s' (nextMH s) = request_handler newH newS (nextWrapper s) a) \<and>
    (\<forall>m b. m \<noteq> LifecycleManagerChannelName \<longrightarrow> Channels s m = Some b \<longrightarrow> Channels s' m = Some b \<and>
       chans s' b = (if m = n then subscribeHandler (WrapperFn (nextMH s)) False newS (chans s b) else chans s b))"
proof -
  let ?w = "nextWrapper s"
  let ?sw = "\<lparr>sw_service = svc, sw_fabricCore = \<lparr>fc_channelName = n, fc_headers = []\<rparr>, sw_requestMsgHandler = None\<rparr>"
  let ?s0 = "upd_reg r (\<lambda>reg. reg\<lparr>sr_locked := True\<rparr>) s"
  let ?s1 = "?s0\<lparr>wrappers := (wrappers s)(?w := ?sw), nextWrapper := Suc ?w\<rparr>"
  have s1: "newServiceWrapper svc n ?s0 = (?s1, ?w)" by (simp add: newServiceWrapper_def Let_def)
  have live1: "service_live m v ?s1" if "service_live m v s" "v < ?w" for m v
    using that by (intro service_live_upd[OF that(1)]) auto
  have pre: "chan_inv ?s1" "initializationService Init (sw_service (wrappers ?s1 ?w)) = None"
    "fc_channelName (sw_fabricCore (wrappers ?s1 ?w)) = n" "fresh_id newS ?s1"
    using inv Init fresh by (simp_all add: svc_inv_def chan_inv_def fresh_id_def)
  from sw_init_live[OF pre, of newH] obtain s2 where s2: "sw_init Init newH newS ?w ?s1 = Done (s2, None)" "chan_inv s2" "service_live n ?w s2"
    "\<And>m v. m \<noteq> n \<Longrightarrow> v \<noteq> ?w \<Longrightarrow> service_live m v ?s1 \<Longrightarrow> service_live m v s2"
    "wrappers s2 = (wrappers ?s1)(?w := (wrappers ?s1 ?w)\<lparr>sw_requestMsgHandler := Some (nextMH ?s1)\<rparr>)"
    "nextWrapper s2 = nextWrapper ?s1" "registries s2 = registries ?s1" "registryInstance s2 = registryInstance ?s1"
    "svcLifecycleManagerInstance s2 = svcLifecycleManagerInstance ?s1"
    "\<exists>a. mhandlers s2 (nextMH ?s1) = request_handler newH newS ?w a"
    "\<And>m b. Channels ?s1 m = Some b \<Longrightarrow> Channels s2 m = Some b \<and>
       chans s2 b = (if m = n then subscribeHandler (WrapperFn (nextMH ?s1)) False newS (chans ?s1 b) else chans ?s1 b)" by blast
  let ?s3 = "upd_reg r (\<lambda>reg. reg\<lparr>sr_services := AList.update n ?w (sr_services reg)\<rparr>) s2"
  have pre3: "chan_inv ?s3" "registryInstance ?s3 \<noteq> None" "svcLifecycleManagerInstance ?s3 \<noteq> Some None"
    using inv s2 by (simp_all add: svc_inv_def chan_inv_def)
  have chan2: "Channels s2 LifecycleManagerChannelName = None \<Longrightarrow> Channels s LifecycleManagerChannelName = None"
    using sw_init_spec[OF pre(1-3) refl, of newH newS] s2(1) n
    by (auto simp: CreateChannel_def Let_def split: option.splits)
  from announceHooks_spec[OF pre3, of Hooks newM r n] obtain s4 err where
    s4: "announceHooks Hooks newM r n ?s3 = Done (s4, err)" "keeps_services ?s3 s4" "err \<noteq> None \<Longrightarrow> Channels s2 LifecycleManagerChannelName = None" by auto
  let ?s' = "upd_reg r (\<lambda>reg. reg\<lparr>sr_locked := False\<rparr>) s4"
  have "RegisterService Init Hooks newH newS newM r (Some svc) n s = Done (?s', err)"
    using inv new s1 s2(1) s4(1) by (simp add: RegisterService_def addService_def svc_inv_def Let_def)
  moreover have reg: "sr_services (registries ?s' r) = sr_services (registries s r) @ [(n, ?w)]"
    using s4(2) s2(7) new by (simp add: keeps_services_def update_fresh map_of_eq_None_iff)
  moreover have "svc_inv r ?s'"
  proof (rule svc_inv_add[OF inv new n reg])
    have l4: "service_live m v ?s'" if "service_live m v s2" "m \<noteq> LifecycleManagerChannelName" for m v
    proof -
      have "service_live m v ?s3" by (rule service_live_upd[OF that(1)]) auto
      then have "service_live m v s4" using s4(2) that(2) by (simp add: keeps_services_def)
      then show ?thesis by (rule service_live_upd) auto
    qed
    show "service_live n ?w ?s'" using l4 s2(3) n by blast
    show "service_live m v ?s'" if "m \<noteq> n" "v < ?w" "m \<noteq> LifecycleManagerChannelName" "service_live m v s" for m v
      using l4 that s2(4)[of m v] live1 by blast
  qed (use inv s4(2) s2(6-8) in \<open>auto simp: svc_inv_def keeps_services_def chan_inv_def\<close>)
  moreover have "Channels ?s' m = Some b \<and>
      chans ?s' b = (if m = n then subscribeHandler (WrapperFn (nextMH s)) False newS (chans s b) else chans s b)"
    if "m \<noteq> LifecycleManagerChannelName" "Channels s m = Some b" for m b
    using s2(11)[of m b] s4(2) that by (auto simp: keeps_services_def)
  moreover have "sw_requestMsgHandler (wrappers ?s' ?w) = Some (nextMH s)" "\<exists>a. mhandlers ?s' (nextMH s) = request_handler newH newS ?w a"
    "nextWrapper ?s' = Suc ?w" "sw_service (wrappers ?s' ?w) = svc" "\<And>v. v < ?w \<Longrightarrow> wrappers ?s' v = wrappers s v"
    using s4(2) s2(5,6,10) by (auto simp: keeps_services_def)
  ultimately show ?thesis using s4(3) chan2 by blast
qed

section \<open>Unregistering\<close>

lemma drop_handler_spec:
  assumes "channel_wf ch"
  shows "handler_set (drop_handler i ch) = {x \<in> handler_set ch. fst x \<noteq> i}" "channel_wf (drop_handler i ch)"
    "ch_Name (drop_handler i ch) = ch_Name ch"
  by (simp_all add: chan_subs.members_remove[OF assms] chan_subs.inv_remove[OF assms])
    (simp add: drop_handler_def unsubscribeHandler_filter[OF assms])

lemma UnregisterService_spec:
  assumes inv: "svc_inv r s" and w: "map_of (sr_services (registries s r)) n = Some w"
  shows "\<exists>s' a h newH i. UnregisterService r n s = Done (s', None) \<and> svc_inv r s' \<and>
    sr_services (registries s' r) = AList.delete n (sr_services (registries s r)) \<and> nextWrapper s' = nextWrapper s \<and>
    wrappers s' = wrappers s \<and> Channels s' = Channels s \<and> Channels s n = Some a \<and> sw_requestMsgHandler (wrappers s w) = Some h \<and> mhandlers s h = request_handler newH i w a \<and>
    (i, WrapperFn h, False) \<in> handler_set (chans s a) \<and>
    handler_set (chans s' a) = {x \<in> handler_set (chans s a). fst x \<noteq> i} \<and> (\<forall>b. b \<noteq> a \<longrightarrow> chans s' b = chans s b)"
proof -
  have ci: "chan_inv s" using inv by (simp add: svc_inv_def)
  from svc_invD[OF inv w] obtain a h newH i where live: "sw_requestMsgHandler (wrappers s w) = Some h" "Channels s n = Some a"
    "mhandlers s h = request_handler newH i w a" "(i, WrapperFn h, False) \<in> handler_set (chans s a)"
    by (auto simp: service_live_def)
  have name: "ch_Name (chans s a) = n" "channel_wf (chans s a)" using ci live(2) by (auto simp: chan_inv_def)
  have mh: "mh_channel (mhandlers s h) = a" "mh_subscriptionId (mhandlers s h) = Some i"
    by (simp_all add: live(3) request_handler_def createMessageHandler_def)
  from MessageHandler_Close_fields[OF live(2) name mh] obtain s1 where s1: "MessageHandler_Close h s = Done s1" "Channels s1 = Channels s"
    "chans s1 = (chans s)(a := drop_handler i (chans s a))" "mhandlers s1 = mhandlers s" "nextMH s1 = nextMH s"
    "nextChan s1 = nextChan s" "monitor s1 = monitor s" by blast
  have part: "svc_part s1 = svc_part s" using svc_part_close[of h s] s1(1) by auto
  note part = svc_part_eq[OF part]
  let ?s' = "upd_reg r (\<lambda>reg. reg\<lparr>sr_services := AList.delete n (sr_services reg)\<rparr>) s1"
  have un: "UnregisterService r n s = Done (?s', None)"
    using inv w live(1) s1(1) by (simp add: UnregisterService_def sw_unregister_def svc_inv_def)
  note drop = drop_handler_spec[OF name(2), of i]
  have "v < nextWrapper ?s' \<and> m \<noteq> LifecycleManagerChannelName \<and> service_live m v ?s'"
    if "map_of (sr_services (registries ?s' r)) m = Some v" for m v
  proof -
    have m: "m \<noteq> n" "map_of (sr_services (registries s r)) m = Some v" using that part by (auto split: if_splits)
    note old = svc_invD[OF inv m(2)]
    have "service_live m v ?s'"
      by (rule service_live_upd[OF conjunct2[OF conjunct2[OF old]]])
        (use chan_inv_other[OF ci _ live(2) m(1)] in \<open>auto simp: s1 part\<close>)
    then show ?thesis using old part by simp
  qed
  moreover have "chan_inv ?s'" using ci drop(2,3) by (auto simp: chan_inv_def s1)
  ultimately have "svc_inv r ?s'" using inv part unfolding svc_inv_def by simp
  then show ?thesis
    using un live part s1 drop(1)
    by (intro exI[of _ ?s'] exI[of _ a] exI[of _ h] exI[of _ newH] exI[of _ i]) simp
qed

section \<open>Sequences of registrations\<close>

datatype svc_op = RegisterOp string FabricService uuid uuid uuid | UnregisterOp string

fun svc_apply ::
  "'b service_init \<Rightarrow> service_hooks \<Rightarrow> addr \<Rightarrow> svc_op \<Rightarrow> 'b svcBus_scheme \<Rightarrow> ('b svcBus_scheme \<times> error option) go" where
  "svc_apply Init Hooks r (RegisterOp n svc newH newS newM) s = RegisterService Init Hooks newH newS newM r (Some svc) n s"
| "svc_apply Init Hooks r (UnregisterOp n) s = UnregisterService r n s"

fun svc_run ::
  "'b service_init \<Rightarrow> service_hooks \<Rightarrow> addr \<Rightarrow> svc_op list \<Rightarrow> 'b svcBus_scheme \<Rightarrow> 'b svcBus_scheme go" where
  "svc_run Init Hooks r [] s = Done s"
| "svc_run Init Hooks r (op # ops) s = go_bind (svc_apply Init Hooks r op s) (\<lambda>(s', _). svc_run Init Hooks r ops s')"

text \<open>
  The services have no initialisation of their own, are not registered at the channel of the
  lifecycle manager, and the ids that are generated for their subscriptions are new.
\<close>

fun svc_ok :: "'b service_init \<Rightarrow> service_hooks \<Rightarrow> addr \<Rightarrow> svc_op list \<Rightarrow> 'b svcBus_scheme \<Rightarrow> bool" where
  "svc_ok Init Hooks r [] s \<longleftrightarrow> True"
| "svc_ok Init Hooks r (op # ops) s \<longleftrightarrow>
     (case op of RegisterOp n svc newH newS newM \<Rightarrow>
        initializationService Init svc = None \<and> n \<noteq> LifecycleManagerChannelName \<and> fresh_id newS s | _ \<Rightarrow> True) \<and>
     (\<forall>s' err. svc_apply Init Hooks r op s = Done (s', err) \<longrightarrow> svc_ok Init Hooks r ops s')"

fun name_op :: "svc_op \<Rightarrow> registry_op" where
  "name_op (RegisterOp n svc newH newS newM) = Create n"
| "name_op (UnregisterOp n) = Destroy n"

lemma RegisterService_taken:
  assumes "svc_inv r s" "map_of (sr_services (registries s r)) n = Some w"
  shows "RegisterService Init Hooks newH newS newM r (Some svc) n s =
    Done (s, Some (''unable to register service: service channel name is already used: '' @ n))"
proof -
  have open_reg: "\<not> sr_locked (registries s r)" using assms(1) by (simp add: svc_inv_def)
  then have "registries s r\<lparr>sr_locked := False\<rparr> = registries s r" by (cases "registries s r") simp
  then show ?thesis using open_reg assms(2) by (simp add: RegisterService_def Let_def upd_reg_def fun_upd_idem)
qed

lemma UnregisterService_missing:
  "svc_inv r s \<Longrightarrow> map_of (sr_services (registries s r)) n = None \<Longrightarrow> \<exists>e. UnregisterService r n s = Done (s, Some e)"
  by (simp add: UnregisterService_def svc_inv_def)

lemma svc_apply_spec:
  assumes "svc_inv r s" "svc_ok Init Hooks r [op] s"
  shows "\<exists>s' err. svc_apply Init Hooks r op s = Done (s', err) \<and> svc_inv r s' \<and>
    (\<forall>n. (map_of (sr_services (registries s' r)) n \<noteq> None) = present_after n [name_op op] (map_of (sr_services (registries s r)) n \<noteq> None))"
proof (cases op)
  case (RegisterOp n svc newH newS newM)
  show ?thesis
  proof (cases "map_of (sr_services (registries s r)) n")
    case None
    from assms(2) RegisterOp have "initializationService Init svc = None" "fresh_id newS s" "n \<noteq> LifecycleManagerChannelName" by auto
    from RegisterService_spec[OF assms(1) None this, of Hooks newH newM] obtain s' err where
      "RegisterService Init Hooks newH newS newM r (Some svc) n s = Done (s', err)" "svc_inv r s'"
      "sr_services (registries s' r) = sr_services (registries s r) @ [(n, nextWrapper s)]" by blast
    then show ?thesis by (intro exI[of _ s'] exI[of _ err]) (auto simp: RegisterOp map_add_def split: option.split)
  next
    case (Some w)
    from RegisterService_taken[OF assms(1) Some] show ?thesis using assms(1) Some by (auto simp: RegisterOp)
  qed
next
  case (UnregisterOp n)
  show ?thesis
  proof (cases "map_of (sr_services (registries s r)) n")
    case None
    from UnregisterService_missing[OF assms(1) None] show ?thesis using assms(1) None by (auto simp: UnregisterOp)
  next
    case (Some w)
    from UnregisterService_spec[OF assms(1) Some] obtain s' where s': "UnregisterService r n s = Done (s', None)" "svc_inv r s'"
      "sr_services (registries s' r) = AList.delete n (sr_services (registries s r))" by blast
    then show ?thesis by (simp add: UnregisterOp)
  qed
qed

lemma svc_run_spec:
  assumes "svc_inv r s" "svc_ok Init Hooks r ops s"
  shows "\<exists>s'. svc_run Init Hooks r ops s = Done s' \<and> svc_inv r s' \<and>
    (\<forall>n. (map_of (sr_services (registries s' r)) n \<noteq> None) =
       present_after n (map name_op ops) (map_of (sr_services (registries s r)) n \<noteq> None))"
  using assms
proof (induction ops arbitrary: s)
  case (Cons op ops)
  have "svc_ok Init Hooks r [op] s" using Cons.prems(2) by simp
  from svc_apply_spec[OF Cons.prems(1) this] obtain s1 err where s1: "svc_apply Init Hooks r op s = Done (s1, err)" "svc_inv r s1"
    "\<And>n. (map_of (sr_services (registries s1 r)) n \<noteq> None) = present_after n [name_op op] (map_of (sr_services (registries s r)) n \<noteq> None)"
    by blast
  have step: "present_after n (name_op op # p) b = present_after n p (present_after n [name_op op] b)" for n p b
    by (cases "name_op op") auto
  have "svc_ok Init Hooks r ops s1" using Cons.prems(2) s1(1) by auto
  from Cons.IH[OF s1(2) this] obtain s' where "svc_run Init Hooks r ops s1 = Done s'" "svc_inv r s'"
    "\<And>n. (map_of (sr_services (registries s' r)) n \<noteq> None) =
       present_after n (map name_op ops) (map_of (sr_services (registries s1 r)) n \<noteq> None)" by blast
  then show ?case
    by (intro exI[of _ s']) (simp add: s1(1) step[symmetric] s1(3) del: present_after.simps not_None_eq)
qed simp

section \<open>Properties\<close>


definition ex_registry :: svcBus where
  "ex_registry = (init_svcBus ''b'')\<lparr>registryInstance := Some 0\<rparr>"

lemma ex_registry_fields:
  "registryInstance ex_registry = Some 0" "svcLifecycleManagerInstance ex_registry = None" "Channels ex_registry = Map.empty"
  "registries ex_registry = (\<lambda>_. \<lparr>sr_locked = False, sr_services = [], sr_lifecycleManager = None\<rparr>)" "nextWrapper ex_registry = 0"
  "chans ex_registry = (\<lambda>_. NewChannel '''')" "monitor ex_registry = newMonitor" "nextMH ex_registry = 0" "nextChan ex_registry = 0"
  by (simp_all add: ex_registry_def init_svcBus_def init_fabBus_def init_syncBus_def init_txBus_def init_storeBus_def init_bus_def
      fabBus.defs syncBus.defs txBus.defs storeBus.defs transportEventBus.defs)

lemma ex_registry_inv: "svc_inv 0 ex_registry"
  by (simp add: svc_inv_def ex_registry_fields chan_inv_def channel_wf_new newMonitor_wf)

lemma ex_registry_fresh: "fresh_id new ex_registry"
  by (simp add: fresh_id_def ex_registry_fields NewChannel_def)


text \<open>
  Registering a service at a free channel and unregistering it again leaves the registry and
  the handlers of every existing channel but the lifecycle manager's as they were; in between its
  handler is given every request on the channel, of any destination, and no response.
\<close>

theorem service_registration_round_trip:
  assumes "svc_inv r s" "map_of (sr_services (registries s r)) n = None" "initializationService Init svc = None"
    and "fresh_id newS s" "n \<noteq> LifecycleManagerChannelName"
  shows "\<exists>s1 err s2. RegisterService Init Hooks newH newS newM r (Some svc) n s = Done (s1, err) \<and>
    sr_services (registries s1 r) = sr_services (registries s r) @ [(n, nextWrapper s)] \<and>
    (\<forall>m. wrapper_call (mhandlers s1 (nextMH s)) m =
       (if msg_Direction m = RequestDir then Some (MsgCall (ServiceRequest (nextWrapper s)) m)
        else if msg_Direction m = ErrorDir then Some (ErrCall IgnoreFn (msg_Error m)) else None)) \<and>
    UnregisterService r n s1 = Done (s2, None) \<and> sr_services (registries s2 r) = sr_services (registries s r) \<and>
    (\<forall>m b. m \<noteq> LifecycleManagerChannelName \<and> Channels s m = Some b \<longrightarrow>
       Channels s2 m = Some b \<and> handler_set (chans s2 b) = handler_set (chans s b))"
proof -
  obtain s1 err a where s1: "RegisterService Init Hooks newH newS newM r (Some svc) n s = Done (s1, err)" "svc_inv r s1"
    "sr_services (registries s1 r) = sr_services (registries s r) @ [(n, nextWrapper s)]"
    "sw_requestMsgHandler (wrappers s1 (nextWrapper s)) = Some (nextMH s)" "mhandlers s1 (nextMH s) = request_handler newH newS (nextWrapper s) a"
    "\<And>m b. m \<noteq> LifecycleManagerChannelName \<Longrightarrow> Channels s m = Some b \<Longrightarrow> Channels s1 m = Some b \<and>
       chans s1 b = (if m = n then subscribeHandler (WrapperFn (nextMH s)) False newS (chans s b) else chans s b)"
    using RegisterService_spec[OF assms, of Hooks newH newM] by (elim exE conjE, intro that) (assumption | simp)+
  have w: "map_of (sr_services (registries s1 r)) n = Some (nextWrapper s)" using assms(2) by (simp add: s1(3) map_add_def)
  from UnregisterService_spec[OF s1(2) w] obtain s2 c h newH' i where s2: "UnregisterService r n s1 = Done (s2, None)"
    "sr_services (registries s2 r) = AList.delete n (sr_services (registries s1 r))" "Channels s2 = Channels s1" "Channels s1 n = Some c"
    "mhandlers s1 h = request_handler newH' i (nextWrapper s) c"
    "handler_set (chans s2 c) = {x \<in> handler_set (chans s1 c). fst x \<noteq> i}" "\<And>b. b \<noteq> c \<Longrightarrow> chans s2 b = chans s1 b"
    and h: "sw_requestMsgHandler (wrappers s1 (nextWrapper s)) = Some h" by blast
  have "h = nextMH s" using h s1(4) by simp
  then have i: "i = newS" using s2(5) s1(5) by (simp add: request_handler_def createMessageHandler_def)
  have "AList.delete n (sr_services (registries s r)) = sr_services (registries s r)"
    using assms(2) by (force simp: map_of_eq_None_iff AList.delete_eq filter_id_conv)
  then have "sr_services (registries s2 r) = sr_services (registries s r)" using s2(2) s1(3) by (simp add: AList.delete_eq)
  moreover have "wrapper_call (mhandlers s1 (nextMH s)) m = (if msg_Direction m = RequestDir then Some (MsgCall (ServiceRequest (nextWrapper s)) m)
        else if msg_Direction m = ErrorDir then Some (ErrCall IgnoreFn (msg_Error m)) else None)" for m
    by (simp add: s1(5) wrapper_call_def accepts_def request_handler_def createMessageHandler_def)
  moreover have "Channels s2 m = Some b \<and> handler_set (chans s2 b) = handler_set (chans s b)"
    if "m \<noteq> LifecycleManagerChannelName \<and> Channels s m = Some b" for m b
  proof (cases "m = n")
    case True
    then have b: "b = c" "chans s1 c = subscribeHandler (WrapperFn (nextMH s)) False newS (chans s c)"
      using s1(6)[of m b] that s2(4) by auto
    have wf: "channel_wf (chans s c)" "newS \<notin> h_uuid ` set (ch_eventHandlers (chans s c))"
      using assms(1,4) by (auto simp: svc_inv_def chan_inv_def fresh_id_def)
    have "handler_set (chans s1 c) = insert (newS, WrapperFn (nextMH s), False) (handler_set (chans s c))"
      using chan_subs.members_add[OF wf, of "(WrapperFn (nextMH s), False)"] by (simp add: b(2))
    then show ?thesis using True that s1(6)[of m b] b s2(3,6) i wf(2) by (force simp: handler_set_def)
  next
    case False
    then have "Channels s1 m = Some b" "chans s1 b = chans s b" using s1(6) that by auto
    moreover have "b \<noteq> c" using chan_inv_other[OF _ calculation(1) s2(4) False] s1(2) by (simp add: svc_inv_def)
    ultimately show ?thesis using s2(3,7) by simp
  qed
  ultimately show ?thesis using s1 s2(1) by blast
qed

theorem service_registration_round_trip_witness:
  "\<exists>s1 err s2. RegisterService (\<lambda>_. None) (\<lambda>_. None) ''h'' ''s'' ''m'' 0 (Some (UserService 1)) ''svc'' ex_registry = Done (s1, err) \<and>
    sr_services (registries s1 0) = [(''svc'', 0)] \<and> UnregisterService 0 ''svc'' s1 = Done (s2, None) \<and> sr_services (registries s2 0) = []"
  using service_registration_round_trip[OF ex_registry_inv, of "''svc''" "\<lambda>_. None" "UserService 1" "''s''" "\<lambda>_. None" "''h''" "''m''"]
  by (auto simp: ex_registry_fresh ex_registry_fields)

text \<open>The state in which a service is initialised: the registry is locked, the wrapper and the channel exist.\<close>

definition initialising :: "addr \<Rightarrow> FabricService \<Rightarrow> string \<Rightarrow> 'b svcBus_scheme \<Rightarrow> 'b svcBus_scheme" where
  "initialising r svc n s = fst (CreateChannel n (fst (newServiceWrapper svc n (upd_reg r (\<lambda>reg. reg\<lparr>sr_locked := True\<rparr>) s))))"

lemma initialising_fields:
  "registries (initialising r svc n s) = (registries s)(r := (registries s r)\<lparr>sr_locked := True\<rparr>)"
  "Channels (initialising r svc n s) n \<noteq> None"
proof -
  let ?t = "fst (newServiceWrapper svc n (upd_reg r (\<lambda>reg. reg\<lparr>sr_locked := True\<rparr>) s))"
  show "registries (initialising r svc n s) = (registries s)(r := (registries s r)\<lparr>sr_locked := True\<rparr>)"
    using svc_part_eq[OF svc_part_bus(5)[of n ?t]] by (simp add: initialising_def newServiceWrapper_def Let_def)
  show "Channels (initialising r svc n s) n \<noteq> None"
    by (simp add: initialising_def CreateChannel_def Let_def split: option.split)
qed

lemma RegisterService_Init:
  assumes "\<not> sr_locked (registries s r)" "map_of (sr_services (registries s r)) n = None" "initializationService Init svc = Some f"
  shows "f (nextWrapper s) (initialising r svc n s) = Done (t, Some e) \<Longrightarrow>
      RegisterService Init Hooks newH newS newM r (Some svc) n s = Done (upd_reg r (\<lambda>reg. reg\<lparr>sr_locked := False\<rparr>) t, Some e)"
    "f (nextWrapper s) (initialising r svc n s) = Block \<Longrightarrow> RegisterService Init Hooks newH newS newM r (Some svc) n s = Block"
  using assms by (simp_all add: RegisterService_def addService_def newServiceWrapper_def sw_init_def initialising_def Let_def)



text \<open>
  A body \<^verbatim>\<open>null\<close> crashes the REST service when a type that is not a pointer was asked for.
\<close>

theorem null_body_crashes_rest_service:
  assumes "getRestServiceRequest env request = Done (Some (RestServiceRequest url method (GString b) [] (Some (TNamed k)) ''''))"
    and "re_refuses env method url = None"
    and "re_Do env (outgoing [] \<lparr>hr_Method = (if method = '''' then ''GET'' else method), hr_Url = url, hr_Header = [], hr_Body = b\<rparr>) =
      Inr \<lparr>hp_StatusCode = 200, hp_Status = st, hp_Body = Inr ''null''\<rparr>"
    and "re_decode env (TNamed k) (Inr ''null'') = Inr None"
  shows "rest_HandleServiceRequest env new '''' request core s = Panic ''call of reflect.Value.Elem on zero Value''"
proof -
  have "responseTypeFor (outgoing [] \<lparr>hr_Method = m, hr_Url = url, hr_Header = [], hr_Body = b\<rparr>) t = t" for m t
    by (simp add: responseTypeFor_def outgoing_def Let_def header_Get_def header_Add_def HasPrefix_def)
  then show ?thesis
    using assms by (simp add: rest_HandleServiceRequest_def marshalBody_def getRequestUrl_def http_NewRequest_def Let_def deserializeResponse_def)
qed

text \<open>
  The type that the caller asks for is not used when the content type of the request is not JSON:
  the response is delivered as bytes.
\<close>

theorem response_type_ignored:
  "exchange env '''' (Request i c v d (GRestRequest (RestServiceRequest url method (GString b) [(''content-type'', ''text/plain'')] (Some TString) '''')) q bd) =
     (case re_refuses env method url of
        Some _ \<Rightarrow> None
      | None \<Rightarrow> Some (\<lparr>hr_Method = (if method = '''' then ''GET'' else method), hr_Url = url,
          hr_Header = [(''Content-Type'', ''text/plain'')], hr_Body = b\<rparr>, Some TBytes))"
proof -
  have k: "canonical_key ''content-type'' = ''Content-Type''" "canonical_key ''Content-Type'' = ''Content-Type''" by code_simp+
  have "Contains ''text/plain'' ''json'' = False" by code_simp
  then show ?thesis
    by (simp add: exchange_def getRestServiceRequest_def marshalBody_def http_NewRequest_def getRequestUrl_def outgoing_def Let_def
        header_Add_def header_Get_def k responseTypeFor_def split: option.split)
qed

section \<open>Resetting the registry\<close>

text \<open>The bus as the registry sees it: its channels and handlers, and the service package's own state.\<close>

definition bus_part :: "'b svcBus_scheme \<Rightarrow> _" where
  "bus_part s = (Channels s, chans s, nextChan s, monitor s, mhandlers s, nextMH s, svc_part s)"

lemma ready_store_frame:
  "\<exists>s2 a. CreateStoreWithType ServiceReadyStore (Some TBool) s = Done (s2, a) \<and> bus_part s2 = bus_part s"
  by (auto simp: CreateStoreWithType_def newBusStore_def Let_def bus_part_def svc_part_def go_SendMonitorEvent_def split: option.split)

lemma ready_store_init:
  "\<exists>s3. (case Initialize (storeHeap s a) of (store, outs) \<Rightarrow> store_outputs (\<lambda>_. '''') a outs (upd_store a (\<lambda>_. store) s)) = Done s3 \<and>
     bus_part s3 = bus_part s"
  by (auto simp: Initialize_def upd_store_def bus_part_def svc_part_def SendMonitorEvent_def)

lemma newServiceRegistry_rest:
  assumes "chan_inv s" "registryInstance s \<noteq> None" "svcLifecycleManagerInstance s \<noteq> Some None" "fresh_id newS s"
    and "Channels s restServiceChannel = Some b"
  shows "\<exists>s' r h. newServiceRegistry Init Hooks newH newS s = Done (s', r) \<and>
    handler_set (chans s' b) = insert (newS, WrapperFn h, False) (handler_set (chans s b)) \<and> Channels s' restServiceChannel = Some b"
proof -
  let ?r = "nextRegistry s"
  let ?s0 = "s\<lparr>registries := (registries s)(?r := \<lparr>sr_locked = False, sr_services = [], sr_lifecycleManager = None\<rparr>), nextRegistry := Suc ?r\<rparr>"
  let ?s1 = "fst (CreateChannel LifecycleManagerChannelName ?s0)"
  have "chan_inv ?s0" using assms(1) by (simp add: chan_inv_def)
  then have ci1: "chan_inv ?s1" by (rule CreateChannel_inv)
  have s1: "Channels ?s1 restServiceChannel = Some b" "chans ?s1 b = chans s b" "fresh_id newS ?s1"
    using assms by (auto simp: CreateChannel_def Let_def chan_inv_def fresh_id_def NewChannel_handlers split: option.split)
  obtain s2 a where s2: "CreateStoreWithType ServiceReadyStore (Some TBool) ?s1 = Done (s2, a)" "bus_part s2 = bus_part ?s1"
    using ready_store_frame by blast
  obtain s3 where s3: "(case Initialize (storeHeap s2 a) of (store, outs) \<Rightarrow> store_outputs (\<lambda>_. '''') a outs (upd_store a (\<lambda>_. store) s2)) = Done s3"
    "bus_part s3 = bus_part s2" using ready_store_init by blast
  have part: "Channels s3 = Channels ?s1" "chans s3 = chans ?s1" "nextChan s3 = nextChan ?s1" "monitor s3 = monitor ?s1" "svc_part s3 = svc_part ?s0"
    using s2(2) s3(2) by (simp_all add: bus_part_def)
  note part5 = svc_part_eq[OF part(5)]
  have inv: "svc_inv ?r s3" using ci1 part part5 assms(2,3) by (simp add: svc_inv_def chan_inv_def)
  have new: "map_of (sr_services (registries s3 ?r)) restServiceChannel = None" "fresh_id newS s3"
    using part5 part(2) s1(3) by (simp_all add: fresh_id_def)
  obtain s4 err where s4: "RegisterService Init Hooks newH newS '''' ?r (Some (restService '''')) restServiceChannel s3 = Done (s4, err)"
    "\<And>m b. m \<noteq> LifecycleManagerChannelName \<Longrightarrow> Channels s3 m = Some b \<Longrightarrow> Channels s4 m = Some b \<and>
       chans s4 b = (if m = restServiceChannel then subscribeHandler (WrapperFn (nextMH s3)) False newS (chans s3 b) else chans s3 b)"
    using RegisterService_spec[OF inv new(1) _ new(2), of Init "restService ''''" Hooks newH "''''"] by (auto simp del: not_None_eq)
  have "newServiceRegistry Init Hooks newH newS s = Done (s4, ?r)"
    using s2(1) s3(1) s4(1) by (simp add: newServiceRegistry_def Let_def split: prod.splits)
  moreover have "chans s4 b = subscribeHandler (WrapperFn (nextMH s3)) False newS (chans s b)" "Channels s4 restServiceChannel = Some b"
    using s4(2)[of restServiceChannel b] part s1 by auto
  moreover have "handler_set (subscribeHandler (WrapperFn (nextMH s3)) False newS (chans s b)) = insert (newS, WrapperFn (nextMH s3), False) (handler_set (chans s b))"
    using chan_subs.members_add[of "chans s b" newS "(WrapperFn (nextMH s3), False)"] assms(1,4) by (simp add: chan_inv_def fresh_id_def)
  ultimately show ?thesis by auto
qed

text \<open>
  Resetting the registry does not remove what the old registry subscribed: the REST service of the
  old one and that of the new one both take every request on their channel.
\<close>

theorem reset_keeps_old_services:
  assumes "chan_inv s" "registryInstance s \<noteq> None" "svcLifecycleManagerInstance s \<noteq> Some None" "fresh_id newS s"
    and "Channels s restServiceChannel = Some b"
  shows "\<exists>s' r h. ResetServiceRegistry Init Hooks newH newS s = Done (s', Some r) \<and>
    handler_set (chans s' b) = insert (newS, WrapperFn h, False) (handler_set (chans s b))"
proof -
  have "chan_inv (s\<lparr>registryOnce := False\<rparr>)" "fresh_id newS (s\<lparr>registryOnce := False\<rparr>)" using assms by (simp_all add: chan_inv_def fresh_id_def)
  from newServiceRegistry_rest[OF this(1) _ _ this(2), of b Init Hooks newH] assms obtain s' r h where
    "newServiceRegistry Init Hooks newH newS (s\<lparr>registryOnce := False\<rparr>) = Done (s', r)"
    "handler_set (chans s' b) = insert (newS, WrapperFn h, False) (handler_set (chans s b))" by auto
  then show ?thesis by (auto simp: ResetServiceRegistry_def GetServiceRegistry_def)
qed

end
