(* ===== verification/PlankUtilsLaws.thy ===== *)
theory PlankUtilsLaws
  imports PlankUtils
begin

text \<open>
  What sanitizing URLs, deriving paths, opening log files and asking for the status of a static
  file give.
\<close>

section \<open>URLs\<close>

abbreviation ascii :: "string \<Rightarrow> bool" where
  "ascii s \<equiv> \<forall>c \<in> set s. byte_of c < 0x80"

definition segments :: "string \<Rightarrow> string list" where
  "segments s = filter (\<lambda>p. p \<noteq> '''') (split_on CHR ''/'' s)"

definition no_double_slash :: "string \<Rightarrow> bool" where
  "no_double_slash s = successively (\<lambda>a b. a \<noteq> CHR ''/'' \<or> b \<noteq> CHR ''/'') s"

declare decode_rune.simps(2) [simp del]

lemma decode_rune_ascii: "byte_of c < 0x80 \<Longrightarrow> decode_rune (c # s) = (byte_of c, 1)"
  by (simp add: decode_rune.simps(2))

lemma runes_ascii: "ascii s \<Longrightarrow> runes s = map (\<lambda>c. (byte_of c, [c])) s"
  by (induction s) (simp_all add: decode_rune_ascii)

lemma split_on_cons: "c \<noteq> d \<Longrightarrow> split_on d (c # s) = (c # hd (split_on d s)) # tl (split_on d s)"
  by (cases "split_on d s") auto

text \<open>The loop on a string of single bytes.\<close>

fun squeeze :: "bool \<Rightarrow> string \<Rightarrow> string" where
  "squeeze b [] = []"
| "squeeze b (c # s) = (if c = CHR ''/'' then if b then squeeze True s else c # squeeze True s else c # squeeze False s)"

lemma sanitize_loop_squeeze: "sanitize_loop b (map byte_of s) = squeeze b s"
proof (induction s arbitrary: b)
  case (Cons c s)
  have "char_of (byte_of c) = c" by (rule char_of_char)
  then show ?case using Cons by (auto simp del: of_char_Char)
qed simp

lemma squeeze_parts:
  "hd (split_on CHR ''/'' (squeeze False s)) = hd (split_on CHR ''/'' s) \<and>
   filter (\<lambda>p. p \<noteq> '''') (tl (split_on CHR ''/'' (squeeze False s))) = filter (\<lambda>p. p \<noteq> '''') (tl (split_on CHR ''/'' s)) \<and>
   filter (\<lambda>p. p \<noteq> '''') (split_on CHR ''/'' (squeeze True s)) = filter (\<lambda>p. p \<noteq> '''') (split_on CHR ''/'' s)"
proof (induction s)
  case (Cons c s)
  then show ?case by (cases "c = CHR ''/''") (simp_all add: split_on_cons del: split_on.simps(2), simp_all)
qed simp

lemma squeeze_segments: "segments (squeeze False s) = segments s"
  using squeeze_parts[of s]
  by (cases "split_on CHR ''/'' s"; cases "split_on CHR ''/'' (squeeze False s)") (simp_all add: segments_def)

lemma squeeze_no_double:
  "no_double_slash (squeeze b s) \<and> (b \<longrightarrow> squeeze b s = [] \<or> hd (squeeze b s) \<noteq> CHR ''/'')"
  by (induction s arbitrary: b) (auto simp: no_double_slash_def successively_Cons)

lemma squeeze_fixed:
  "no_double_slash s \<Longrightarrow> b \<longrightarrow> s = [] \<or> hd s \<noteq> CHR ''/'' \<Longrightarrow> squeeze b s = s"
  by (induction s arbitrary: b) (auto simp: no_double_slash_def successively_Cons)

lemma squeeze_ascii: "ascii s \<Longrightarrow> ascii (squeeze b s)"
  by (induction s arbitrary: b) auto

lemma squeeze_nonempty: "s \<noteq> [] \<Longrightarrow> squeeze False s \<noteq> []"
  by (cases s) auto

lemma no_double_inner: "\<not> no_double_slash (u @ ''//'' @ v)"
  by (simp add: no_double_slash_def successively_append_iff)

lemma find_protocol_no_double: "no_double_slash s \<Longrightarrow> find_protocol s = None"
proof (induction s)
  case (Cons c s)
  have no: "\<not> HasPrefix (c # s) (u @ ''//'')" for u
    using Cons.prems no_double_inner[of u] by (auto dest!: HasPrefixE)
  have "no_double_slash s" using Cons.prems by (auto simp: no_double_slash_def successively_Cons)
  then show ?case using Cons.IH no[of "''http:''"] no[of "''https:''"] by simp
qed simp

lemma split_on_snoc: "split_on c (s @ [c]) = split_on c s @ ['''']"
proof (induction s)
  case (Cons a s)
  then show ?case by (cases "split_on c s") (simp_all add: split_on_nonempty)
qed simp

lemma segments_snoc_slash: "segments (s @ ''/'') = segments s"
  by (simp add: segments_def split_on_snoc)

lemma no_double_snoc: "no_double_slash s \<Longrightarrow> s = [] \<or> last s \<noteq> CHR ''/'' \<Longrightarrow> no_double_slash (s @ ''/'')"
  by (auto simp: no_double_slash_def successively_append_iff)

lemma no_double_last_butlast:
  "no_double_slash s \<Longrightarrow> last s = CHR ''/'' \<Longrightarrow> butlast s \<noteq> [] \<Longrightarrow> last (butlast s) \<noteq> CHR ''/''"
proof (cases s rule: rev_cases)
  case (snoc t c)
  then show "no_double_slash s \<Longrightarrow> last s = CHR ''/'' \<Longrightarrow> butlast s \<noteq> [] \<Longrightarrow> ?thesis"
    by (auto simp: no_double_slash_def successively_append_iff)
qed simp

lemma no_double_butlast: "no_double_slash s \<Longrightarrow> s \<noteq> [] \<Longrightarrow> no_double_slash (butlast s)"
  unfolding no_double_slash_def by (metis append_butlast_last_id successively_append_iff)

section \<open>Trimming\<close>

lemma concat_bytes: "concat (map (snd \<circ> (\<lambda>c. (byte_of c, [c]))) s) = s"
  by (induction s) simp_all

lemma TrimSpace_plain:
  assumes "ascii s" "s \<noteq> []" "\<not> is_space (byte_of (hd s))" "\<not> is_space (byte_of (last s))"
  shows "TrimSpace s = s"
proof -
  have keep: "dropWhile (\<lambda>(r, _). is_space r) (map (\<lambda>c. (byte_of c, [c])) t) = map (\<lambda>c. (byte_of c, [c])) t"
    if "t \<noteq> []" "\<not> is_space (byte_of (hd t))" for t
    using that by (cases t) auto
  show ?thesis
    using assms keep[of s] keep[of "rev s"] by (simp add: TrimSpace_def runes_ascii Let_def rev_map hd_rev concat_bytes)
qed

lemma SanitizeUrl_ascii:
  assumes "ascii rest" "rest \<noteq> []" "p = '''' \<and> find_protocol rest = None \<or> p = ''http://'' \<or> p = ''https://''"
  shows "SanitizeUrl (p @ rest) suffixSlash =
    Done (p @ (if suffixSlash \<and> last (squeeze False rest) \<noteq> CHR ''/'' then squeeze False rest @ ''/''
               else if \<not> suffixSlash \<and> last (squeeze False rest) = CHR ''/'' then butlast (squeeze False rest)
               else squeeze False rest))"
proof -
  have p: "(case find_protocol (p @ rest) of None \<Rightarrow> '''' | Some q \<Rightarrow> q) = p"
    using assms(3) by (auto simp: HasPrefix_iff)
  have r: "sanitize_loop False (map fst (runes rest)) = squeeze False rest"
    using assms(1) by (simp add: runes_ascii comp_def sanitize_loop_squeeze)
  show ?thesis using assms(2) squeeze_nonempty[OF assms(2)] by (simp add: SanitizeUrl_def p r Let_def butlast_append)
qed

text \<open>
  A URL of ASCII characters, with or without a protocol in front, is given back with the same
  protocol and the same segments, without double slashes, and with a slash at the end exactly when
  one is asked for; sanitizing the result again changes nothing.
\<close>

theorem sanitized_url:
  assumes "ascii rest" "rest \<noteq> []" "p = '''' \<and> find_protocol rest = None \<or> p = ''http://'' \<or> p = ''https://''"
  shows "\<exists>r. SanitizeUrl (p @ rest) suffixSlash = Done (p @ r) \<and> segments r = segments rest \<and> no_double_slash r \<and>
    (suffixSlash \<longrightarrow> r \<noteq> '''' \<and> last r = CHR ''/'') \<and> (\<not> suffixSlash \<longrightarrow> r = '''' \<or> last r \<noteq> CHR ''/'') \<and>
    (r \<noteq> '''' \<longrightarrow> SanitizeUrl (p @ r) suffixSlash = Done (p @ r))"
proof -
  define q where "q = squeeze False rest"
  define r where "r = (if suffixSlash \<and> last q \<noteq> CHR ''/'' then q @ ''/'' else if \<not> suffixSlash \<and> last q = CHR ''/'' then butlast q else q)"
  have q_facts: "q \<noteq> []" "no_double_slash q" "ascii q" "segments q = segments rest"
    unfolding q_def using squeeze_nonempty[OF assms(2)] squeeze_no_double squeeze_ascii[OF assms(1)] squeeze_segments by blast+
  have last_slash: "last (butlast q) \<noteq> CHR ''/''" if "last q = CHR ''/''" "butlast q \<noteq> []"
    using no_double_last_butlast[OF q_facts(2)] that by blast
  have segs: "segments (butlast q) = segments rest" if "last q = CHR ''/''"
    using segments_snoc_slash[of "butlast q"] append_butlast_last_id[OF q_facts(1)] that q_facts(4) by simp
  have r_facts: "no_double_slash r" "ascii r" "segments r = segments rest"
    using q_facts segs by (auto simp: r_def no_double_snoc no_double_butlast segments_snoc_slash dest: in_set_butlastD)
  have e: "(suffixSlash \<longrightarrow> r \<noteq> '''' \<and> last r = CHR ''/'') \<and> (\<not> suffixSlash \<longrightarrow> r = '''' \<or> last r \<noteq> CHR ''/'')"
    using q_facts(1) last_slash by (auto simp: r_def)
  have again: "SanitizeUrl (p @ r) suffixSlash = Done (p @ r)" if "r \<noteq> ''''"
  proof -
    have "p = '''' \<and> find_protocol r = None \<or> p = ''http://'' \<or> p = ''https://''"
      using assms(3) find_protocol_no_double[OF r_facts(1)] by blast
    from SanitizeUrl_ascii[OF r_facts(2) that this, of suffixSlash] squeeze_fixed[OF r_facts(1), of False] e that show ?thesis by auto
  qed
  show ?thesis using SanitizeUrl_ascii[OF assms, of suffixSlash] r_facts e again unfolding r_def q_def by blast
qed

theorem sanitized_url_witness:
  "\<exists>r. SanitizeUrl ''http://a//b'' True = Done (''http://'' @ r) \<and> segments r = [''a'', ''b''] \<and> last r = CHR ''/''"
  using sanitized_url[of "''a//b''" "''http://''" True] by (auto simp: segments_def)

text \<open>
  A protocol that is not at the start is moved there, and as many characters are lost from the
  start; a character outside of ASCII is cut to one byte.
\<close>

theorem sanitize_inner_protocol:
  "SanitizeUrl ''/redirect/http://a'' False = Done ''http://ct/http:/a''" "SanitizeUrl [CHR 0xC3, CHR 0xA9] False = Done [CHR 0xE9]"
  by (simp_all add: SanitizeUrl_def runes_ascii comp_def sanitize_loop_squeeze HasPrefix_def Let_def decode_rune.simps(2) in_range_def char_of_def bit_0)

section \<open>Paths\<close>

lemma IsAbs_Clean: "IsAbs p \<Longrightarrow> IsAbs (Clean p)"
  by (cases p) (auto simp: IsAbs_def Clean_def Let_def HasPrefix_iff)

lemma Join_abs: "IsAbs base \<Longrightarrow> IsAbs (filepath_Join [base, rel])"
proof -
  assume "IsAbs base"
  then obtain t where "base = CHR ''/'' # t" by (auto simp: IsAbs_def HasPrefix_iff)
  then show ?thesis using IsAbs_Clean[of "base @ ''/'' @ rel"] by (simp add: filepath_Join_def IsAbs_def HasPrefix_iff)
qed

definition log_target :: "string \<Rightarrow> string \<Rightarrow> writer" where
  "log_target dir t = (if t = ''stdout'' then Stdout else if t = ''stderr'' then Stderr else if t = ''null'' then NoopWriter
     else LogFile (if IsAbsolutePath t then t else filepath_Join [dir, t]))"

text \<open>
  A log target is one of the standard streams, nothing, or the file that it names: relative to
  the root directory of the log configuration unless the path is absolute. With an absolute root
  directory, joining the path with the root once more changes nothing, as it happens when the
  configuration comes from a file.
\<close>

theorem log_files:
  assumes "\<forall>f. open_file f = None"
  shows "\<exists>lc'. PrepareLogFiles open_file lc = (lc', None) \<and>
    lc_accessLogFp lc' = Some (log_target (lc_Root lc) (lc_AccessLog lc)) \<and>
    lc_errorLogFp lc' = Some (log_target (lc_Root lc) (lc_ErrorLog lc)) \<and>
    lc_outputLogFp lc' = Some (log_target (lc_Root lc) (lc_OutputLog lc)) \<and>
    (IsAbs (lc_Root lc) \<longrightarrow> log_target (lc_Root lc) (JoinBasePathIfRelativeRegularFilePath (lc_Root lc) t) = log_target (lc_Root lc) t)"
proof -
  have p: "prepareLogFilePointer open_file u lc' = Inr (log_target (lc_Root lc') u)" for u and lc' :: LogConfig
    using assms by (simp add: prepareLogFilePointer_def log_target_def GetNewLogFilePointer_def JoinBasePathIfRelativeRegularFilePath_def)
  have "log_target r (JoinBasePathIfRelativeRegularFilePath r t) = log_target r t" if "IsAbs r" for r
    using Join_abs[OF that, of t] by (auto simp: log_target_def JoinBasePathIfRelativeRegularFilePath_def IsAbsolutePath_def IsAbs_def HasPrefix_iff)
  then show ?thesis by (simp add: PrepareLogFiles_def p Let_def)
qed

text \<open>With a relative root the path is joined twice.\<close>

theorem relative_log_root_doubles:
  "log_target ''logs'' (JoinBasePathIfRelativeRegularFilePath ''logs'' ''a.log'') = LogFile ''logs/logs/a.log''"
  by code_simp

text \<open>
  An alias after a colon becomes the URI, with a slash in front. Without one the last part of the
  path is taken, but for an absolute path the slash is missing.
\<close>

theorem static_uri_examples:
  "DeriveStaticURIFromPath ''folder'' = (''folder'', ''/folder'')"
  "DeriveStaticURIFromPath ''nested/project:my-project'' = (''nested/project'', ''/my-project'')"
  "DeriveStaticURIFromPath ''/folder'' = (''/folder'', ''folder'')"
  by (simp_all add: DeriveStaticURIFromPath_def TrimSpace_plain is_space_def filepath_Base_def HasPrefix_def Let_def)

section \<open>Errors\<close>

theorem wrapped_errors:
  "error_Is (wrapError (BaseVar b) e) (BaseVar b)" "error_Is (wrapError (BaseVar b) e) (BaseVar b') \<Longrightarrow> b = b'"
  by (cases b; simp add: wrapError_def)+

section \<open>Static files\<close>

lemma index_loop_reads:
  assumes "n > 0"
  shows "index_loop n f = Some (if ''index.html'' \<in> set (hf_entries f) then None
    else Some (case hf_fails f of Some e \<Rightarrow> e | None \<Rightarrow> ''file does not exist''))"
proof (induction "length (hf_entries f)" arbitrary: f rule: less_induct)
  case less
  show ?case
  proof (cases "hf_entries f")
    case Nil
    then show ?thesis using assms by (subst index_loop.simps) (auto simp: Readdir_def split: option.split)
  next
    case (Cons x xs)
    let ?f = "f\<lparr>hf_entries := drop (nat n) (hf_entries f)\<rparr>"
    have "length (hf_entries ?f) < length (hf_entries f)" using Cons assms by simp
    from less[OF this] have rest: "index_loop n ?f = Some (if ''index.html'' \<in> set (hf_entries ?f) then None
        else Some (case hf_fails f of Some e \<Rightarrow> e | None \<Rightarrow> ''file does not exist''))" by simp
    have "index_loop n f = (if ''index.html'' \<in> set (take (nat n) (hf_entries f)) then Some None else index_loop n ?f)"
      using Cons assms by (subst index_loop.simps) (simp add: Readdir_def)
    moreover have "set (hf_entries f) = set (take (nat n) (hf_entries f)) \<union> set (drop (nat n) (hf_entries f))"
      by (metis append_take_drop_id set_append)
    ultimately show ?thesis using rest by simp
  qed
qed



end
