(* ===== verification/PlankConfigLaws.thy ===== *)
theory PlankConfigLaws
  imports PlankConfig PlankUtilsLaws
begin

text \<open>
  The configuration of the plank server: defaults, timeouts, flags and errors.
\<close>

section \<open>Timeouts\<close>

lemma sint_times_minute:
  assumes "0 \<le> sint n" "sint n \<le> 153722867"
  shows "sint (n * Minute) = sint n * 60000000000"
proof -
  have "sint (n * Minute) = signed_take_bit 63 (sint n * sint Minute)"
    by (simp only: sint_word_ariths(3)) simp
  moreover have "signed_take_bit 63 (sint n * 60000000000) = sint n * 60000000000"
    by (rule signed_take_bit_int_eq_self) (use assms in auto)
  ultimately show ?thesis by simp
qed

lemma minutes_or_sint:
  assumes "sint n \<le> 153722867" "0 < sint d" "sint d \<le> 153722867"
  shows "sint (minutes_or d n) = (if sint n \<le> 0 then sint d else sint n) * 60000000000"
  using assms sint_times_minute[of n] sint_times_minute[of d] by (simp add: minutes_or_def word_sle_eq)

definition timeouts_given :: "config_env \<Rightarrow> viper \<Rightarrow> 64 word \<times> 64 word" where
  "timeouts_given env f =
     (if f_ConfigFile f = '''' then (f_ShutdownTimeout f, f_RestBridgeTimeout f)
      else case ce_ReadFile env (f_ConfigFile f) of
        Inl _ \<Rightarrow> (0, 0)
      | Inr b \<Rightarrow> (case ce_Unmarshal env b of Inl _ \<Rightarrow> (0, 0) | Inr c \<Rightarrow> (pc_ShutdownTimeout c, pc_RestBridgeTimeout c)))"

text \<open>
  A configuration, from flags or from a file, has positive timeouts: the number of minutes that
  was given, or 5 and 1 minutes when it is zero or negative, as long as it is at most 153722867
  minutes, beyond which the nanoseconds do not fit 64 bits.
\<close>

theorem timeouts_in_minutes:
  assumes "generatePlatformServerConfig env f = Inr c"
    and "timeouts_given env f = (shutdown, bridge)"
    and "sint shutdown \<le> 153722867" "sint bridge \<le> 153722867"
  shows "sint (pc_ShutdownTimeout c) = (if sint shutdown \<le> 0 then 5 else sint shutdown) * 60000000000 \<and>
    sint (pc_RestBridgeTimeout c) = (if sint bridge \<le> 0 then 1 else sint bridge) * 60000000000 \<and>
    0 < sint (pc_ShutdownTimeout c) \<and> 0 < sint (pc_RestBridgeTimeout c)"
proof -
  have "pc_ShutdownTimeout c = minutes_or 5 shutdown \<and> pc_RestBridgeTimeout c = minutes_or 1 bridge"
    using assms(1,2)
    by (auto simp: generatePlatformServerConfig_def configFromFile_def with_timeouts_def timeouts_given_def split: if_splits sum.splits)
  then show ?thesis using minutes_or_sint[OF assms(3), of 5] minutes_or_sint[OF assms(4), of 1] by simp
qed

definition ex_config_env :: config_env where
  "ex_config_env = \<lparr>ce_ReadFile = (\<lambda>_. Inl ''missing''), ce_Unmarshal = (\<lambda>_. Inl ''malformed''), ce_Getwd = Inr ''/srv'', ce_Stat = (\<lambda>_. None),
     ce_compile = (\<lambda>_. Inl ''invalid'')\<rparr>"

definition ex_viper :: viper where
  "ex_viper = \<lparr>vp_GetString = (\<lambda>_. ''''), vp_GetInt = (\<lambda>_. 0), vp_GetInt64 = (\<lambda>_. - 3), vp_GetBool = (\<lambda>_. True), vp_GetStringSlice = (\<lambda>_. [])\<rparr>"

lemma ex_viper_empty: "f_ConfigFile ex_viper = ''''" "f_CertKey ex_viper = ''''" "f_ShutdownTimeout ex_viper = - 3" "f_RestBridgeTimeout ex_viper = - 3"
  by (simp_all add: ex_viper_def f_ConfigFile_def f_CertKey_def f_ShutdownTimeout_def f_RestBridgeTimeout_def)

theorem timeouts_in_minutes_witness:
  "\<exists>c. generatePlatformServerConfig ex_config_env ex_viper = Inr c \<and> sint (pc_ShutdownTimeout c) = 300000000000"
proof -
  obtain c where c: "generatePlatformServerConfig ex_config_env ex_viper = Inr c"
    by (simp add: generatePlatformServerConfig_def ex_viper_empty flagsTLS_def)
  from timeouts_in_minutes[OF c, of "- 3" "- 3"] have "sint (pc_ShutdownTimeout c) = 300000000000"
    by (simp add: timeouts_given_def ex_viper_empty)
  with c show ?thesis by blast
qed

text \<open>One minute more and the server has a timeout in the past.\<close>

theorem timeout_overflows: "sint (minutes_or 5 153722868) < 0"
  by (simp add: minutes_or_def word_sle_eq)

section \<open>Flags\<close>

text \<open>The table of flags, evaluated once.\<close>

lemma flag_names:
  "FlagConstants ''Hostname'' ''FlagName'' = ''hostname''"
  "FlagConstants ''Port'' ''FlagName'' = ''port''"
  "FlagConstants ''RootDir'' ''FlagName'' = ''rootdir''"
  "FlagConstants ''Cert'' ''FlagName'' = ''cert''"
  "FlagConstants ''CertKey'' ''FlagName'' = ''cert-key''"
  "FlagConstants ''Static'' ''FlagName'' = ''static''"
  "FlagConstants ''SpaPath'' ''FlagName'' = ''spa-path''"
  "FlagConstants ''NoFabricBroker'' ''FlagName'' = ''no-fabric-broker''"
  "FlagConstants ''FabricEndpoint'' ''FlagName'' = ''fabric-endpoint''"
  "FlagConstants ''TopicPrefix'' ''FlagName'' = ''topic-prefix''"
  "FlagConstants ''QueuePrefix'' ''FlagName'' = ''query-prefix''"
  "FlagConstants ''RequestPrefix'' ''FlagName'' = ''request-prefix''"
  "FlagConstants ''RequestQueuePrefix'' ''FlagName'' = ''request-queue-prefix''"
  "FlagConstants ''ConfigFile'' ''FlagName'' = ''config-file''"
  "FlagConstants ''ShutdownTimeout'' ''FlagName'' = ''shutdown-timeout''"
  "FlagConstants ''OutputLog'' ''FlagName'' = ''output-log''"
  "FlagConstants ''AccessLog'' ''FlagName'' = ''access-log''"
  "FlagConstants ''ErrorLog'' ''FlagName'' = ''error-log''"
  "FlagConstants ''Debug'' ''FlagName'' = ''debug''"
  "FlagConstants ''NoBanner'' ''FlagName'' = ''no-banner''"
  "FlagConstants ''Prometheus'' ''FlagName'' = ''prometheus''"
  "FlagConstants ''RestBridgeTimeout'' ''FlagName'' = ''rest-bridge-timeout''"
  by code_simp+

lemma flag_shorthands:
  "FlagConstants ''Hostname'' ''ShortFlag'' = ''n''"
  "FlagConstants ''Port'' ''ShortFlag'' = ''p''"
  "FlagConstants ''RootDir'' ''ShortFlag'' = ''r''"
  "FlagConstants ''Static'' ''ShortFlag'' = ''s''"
  "FlagConstants ''OutputLog'' ''ShortFlag'' = ''l''"
  "FlagConstants ''AccessLog'' ''ShortFlag'' = ''a''"
  "FlagConstants ''ErrorLog'' ''ShortFlag'' = ''e''"
  "FlagConstants ''Debug'' ''ShortFlag'' = ''d''"
  "FlagConstants ''NoBanner'' ''ShortFlag'' = ''b''"
  by code_simp+

lemma flags_distinct: "distinct (map fl_Name (configureFlagsInFlagSet wd))"
  by (simp add: configureFlagsInFlagSet_def flag_names)

text \<open>
  The definitions of the command-line flags do not collide: names and shorthands are all
  different, no name is empty and shorthands are single letters, so that defining them never
  panics; and every flag of the table is defined.
\<close>

theorem flags_do_not_collide:
  "distinct (map fl_Name (configureFlagsInFlagSet wd)) \<and>
   distinct (filter (\<lambda>s. s \<noteq> '''') (map fl_Shorthand (configureFlagsInFlagSet wd))) \<and>
   list_all (\<lambda>fl. fl_Name fl \<noteq> '''' \<and> length (fl_Shorthand fl) \<le> 1) (configureFlagsInFlagSet wd) \<and>
   set (map fl_Name (configureFlagsInFlagSet wd)) = set (map (\<lambda>(k, _). FlagConstants k ''FlagName'') PlatformServerFlagConstants)"
  by (simp add: configureFlagsInFlagSet_def flag_names flag_shorthands PlatformServerFlagConstants_def)

section \<open>The configuration\<close>

text \<open>A flag that was not set reads as its default value.\<close>

fun reads_default :: "viper \<Rightarrow> flag \<Rightarrow> bool" where
  "reads_default v fl =
     (case fl_Default fl of
        FString x \<Rightarrow> vp_GetString v (fl_Name fl) = x
      | FInt n \<Rightarrow> vp_GetInt v (fl_Name fl) = n
      | FInt64 n \<Rightarrow> vp_GetInt64 v (fl_Name fl) = word_of_int n
      | FBool b \<Rightarrow> vp_GetBool v (fl_Name fl) = b
      | FStrings xs \<Rightarrow> vp_GetStringSlice v (fl_Name fl) = xs)"

definition unset_flags :: "flag list \<Rightarrow> viper" where
  "unset_flags fs = (let d = (\<lambda>n. map_option fl_Default (find (\<lambda>fl. fl_Name fl = n) fs))
     in \<lparr>vp_GetString = (\<lambda>n. case d n of Some (FString x) \<Rightarrow> x | _ \<Rightarrow> ''''),
         vp_GetInt = (\<lambda>n. case d n of Some (FInt i) \<Rightarrow> i | _ \<Rightarrow> 0),
         vp_GetInt64 = (\<lambda>n. case d n of Some (FInt64 i) \<Rightarrow> word_of_int i | _ \<Rightarrow> 0),
         vp_GetBool = (\<lambda>n. case d n of Some (FBool b) \<Rightarrow> b | _ \<Rightarrow> False),
         vp_GetStringSlice = (\<lambda>n. case d n of Some (FStrings xs) \<Rightarrow> xs | _ \<Rightarrow> [])\<rparr>)"

lemma find_distinct_name: "distinct (map fl_Name fs) \<Longrightarrow> fl \<in> set fs \<Longrightarrow> find (\<lambda>g. fl_Name g = fl_Name fl) fs = Some fl"
  by (induction fs) auto

lemma unset_flags_reads: "distinct (map fl_Name fs) \<Longrightarrow> list_all (reads_default (unset_flags fs)) fs"
  by (auto simp: list_all_iff unset_flags_def Let_def find_distinct_name split: flag_value.split)

lemmas flag_readers =
  f_Hostname_def f_Port_def f_RootDir_def f_Cert_def f_CertKey_def f_Static_def f_SpaPath_def f_NoFabricBroker_def
  f_FabricEndpoint_def f_TopicPrefix_def f_QueuePrefix_def f_RequestPrefix_def f_RequestQueuePrefix_def f_ConfigFile_def
  f_ShutdownTimeout_def f_OutputLog_def f_AccessLog_def f_ErrorLog_def f_Debug_def f_NoBanner_def f_Prometheus_def
  f_RestBridgeTimeout_def

lemma defaults_read:
  assumes "list_all (reads_default v) (configureFlagsInFlagSet wd)"
  shows "f_Hostname v = ''localhost''" "f_Port v = 30080" "f_RootDir v = wd" "f_Cert v = ''''" "f_CertKey v = ''''" "f_Static v = []"
    "f_SpaPath v = ''''" "\<not> f_NoFabricBroker v" "f_FabricEndpoint v = ''/ws''" "f_TopicPrefix v = ''/topic''" "f_QueuePrefix v = ''/queue''"
    "f_RequestPrefix v = ''/pub''" "f_RequestQueuePrefix v = ''/pub/queue''" "f_ConfigFile v = ''''" "f_ShutdownTimeout v = 5"
    "f_OutputLog v = ''stdout''" "f_AccessLog v = ''stdout''" "f_ErrorLog v = ''stderr''" "\<not> f_Debug v" "\<not> f_NoBanner v"
    "\<not> f_Prometheus v" "f_RestBridgeTimeout v = 1"
  using assms by (simp_all add: configureFlagsInFlagSet_def flag_readers flag_names)

lemma TrimSpace_Nil: "TrimSpace '''' = ''''"
  by (simp add: TrimSpace_def)

text \<open>
  Without any flag set, the server is configured to listen on port 30080 of the local host, with
  the working directory as its root, without TLS and static files, with logs on the standard
  streams, a broker at /ws whose endpoint configuration is valid, and timeouts of 5 and 1 minutes.
\<close>

theorem default_configuration:
  assumes "list_all (reads_default v) (configureFlagsInFlagSet wd)"
  shows "\<exists>c ec. generatePlatformServerConfig env v = Inr c \<and>
    pc_Host c = ''localhost'' \<and> pc_Port c = 30080 \<and> pc_RootDir c = wd \<and> pc_StaticDir c = [] \<and> pc_SpaConfig c = None \<and>
    pc_TLSCertConfig c = None \<and> \<not> pc_Debug c \<and> \<not> pc_NoBanner c \<and> \<not> pc_EnablePrometheus c \<and>
    map_option (PrepareLogFiles open_file) (pc_LogConfig c) =
      map_option (\<lambda>lc. (lc\<lparr>lc_accessLogFp := Some Stdout, lc_errorLogFp := Some Stderr, lc_outputLogFp := Some Stdout\<rparr>, None)) (pc_LogConfig c) \<and>
    pc_FabricConfig c = Some \<lparr>fb_FabricEndpoint = ''/ws'', fb_UseTCP = False, fb_TCPPort = 0, fb_EndpointConfig = Some ec\<rparr> \<and>
    validate ec = None \<and> sint (pc_ShutdownTimeout c) = 5 * 60000000000 \<and> sint (pc_RestBridgeTimeout c) = 60000000000"
proof -
  note d = defaults_read[OF assms]
  have t: "sint (minutes_or 5 5) = 5 * 60000000000" "sint (minutes_or 1 1) = 60000000000"
    using minutes_or_sint[of 5 5] minutes_or_sint[of 1 1] by simp_all
  show ?thesis
    by (simp add: generatePlatformServerConfig_def d TrimSpace_Nil flagsTLS_def flagsFabric_def validate_def t HasPrefix_def
        PrepareLogFiles_def prepareLogFilePointer_def)
qed

theorem default_configuration_witness:
  "\<exists>c. generatePlatformServerConfig ex_config_env (unset_flags (configureFlagsInFlagSet ''/srv'')) = Inr c \<and> pc_Port c = 30080 \<and> pc_RootDir c = ''/srv''"
  using default_configuration[of "unset_flags (configureFlagsInFlagSet ''/srv'')" "''/srv''"]
    unset_flags_reads[OF flags_distinct] by blast

text \<open>
  A configuration file that cannot be read or decoded is an error, both for the flag that names it
  and for a server made from it; a root directory that does not exist, and a file without a log
  configuration, make the creation of the server panic.
\<close>

theorem configuration_errors:
  "ce_ReadFile env path = Inl e \<or> (\<exists>b. ce_ReadFile env path = Inr b \<and> ce_Unmarshal env b = Inl e) \<Longrightarrow> path \<noteq> '''' \<Longrightarrow>
     (f_ConfigFile f = path \<longrightarrow> generatePlatformServerConfig env f = Inl e) \<and> serverConfigFromFile env path = Done (Inl e)"
  "ce_ReadFile env path = Inr b \<Longrightarrow> ce_Unmarshal env b = Inr c \<Longrightarrow> IsAbs (pc_RootDir c) \<Longrightarrow> ce_Stat env (Clean (pc_RootDir c)) = Some e \<Longrightarrow>
     serverConfigFromFile env path = Panic e"
  "ce_ReadFile env path = Inr b \<Longrightarrow> ce_Unmarshal env b = Inr c \<Longrightarrow> IsAbs (pc_RootDir c) \<Longrightarrow> ce_Stat env (Clean (pc_RootDir c)) = None \<Longrightarrow>
     pc_LogConfig c = None \<Longrightarrow> serverConfigFromFile env path = Panic ''nil pointer dereference''"
  by (auto simp: generatePlatformServerConfig_def configFromFile_def serverConfigFromFile_def sanitizeConfigRootPath_def filepath_Abs_def
      IsAbs_def HasPrefix_def Let_def)

text \<open>
  The cache rules of a single page application are compiled when the file is named by the flag, and
  are not when the server is made from the file.
\<close>

theorem server_from_file_ignores_cache_rules:
  assumes "ce_ReadFile env path = Inr b" "ce_Unmarshal env b = Inr c" "pc_SpaConfig c = Some spa" "serverConfigFromFile env path = Done (Inr c')"
  shows "pc_SpaConfig c' = Some spa"
  using assms by (auto simp: serverConfigFromFile_def sanitizeConfigRootPath_def with_timeouts_def Let_def go_bind_Done_iff split: sum.splits option.splits)

text \<open>A key without a certificate is accepted, and the working directory becomes the certificate file.\<close>

theorem key_without_certificate:
  assumes "f_ConfigFile f = ''''" "f_CertKey f = ''/k.pem''" "f_Cert f = ''''" "ce_Getwd env = Inr ''/srv''"
  shows "\<exists>c. generatePlatformServerConfig env f = Inr c \<and>
    pc_TLSCertConfig c = Some \<lparr>tc_CertFile = ''/srv'', tc_KeyFile = ''/k.pem'', tc_SkipCertificateValidation = False\<rparr>"
proof -
  have "Clean ''/k.pem'' = ''/k.pem''" "filepath_Join [''/srv'', ''''] = ''/srv''" by code_simp+
  then show ?thesis using assms by (simp add: generatePlatformServerConfig_def flagsTLS_def filepath_Abs_def IsAbs_def HasPrefix_def)
qed

end
