(* ===== verification/PlankStartLaws.thy ===== *)
theory PlankStartLaws
  imports PlankStart PlatformServerLaws ServiceRegistryLaws PlankConfigLaws
begin

text \<open>
  Creating a plank server: what \<open>initialize\<close> leaves behind (the singletons of the process, the
  routes, the listener for REST bridges, the broker), and that a server made from a
  configuration file cannot build bridges.
\<close>

section \<open>What initialising leaves alone\<close>

text \<open>The bus and the services below the plank server.\<close>

definition bus_of :: "'b plankBus_scheme \<Rightarrow> svcBus" where
  "bus_of s = svcBus.truncate s"

lemma bus_of_eqD:
  assumes "bus_of s' = bus_of s"
  shows "Channels s' = Channels s" "chans s' = chans s" "nextChan s' = nextChan s" "monitor s' = monitor s"
    "mhandlers s' = mhandlers s" "nextMH s' = nextMH s" "eb_Id s' = eb_Id s" "chan_inv s' = chan_inv s"
  using assms by (simp_all add: bus_of_def svcBus.defs chan_inv_def)

lemma bus_of_plank [simp]:
  "bus_of (add_route r s) = bus_of s" "bus_of (new_router s) = bus_of s" "bus_of (reservedRoutes b s) = bus_of s"
  "bus_of (s\<lparr>ps_endpointHandlerMap := m\<rparr>) = bus_of s" "bus_of (s\<lparr>ps_serviceChanToBridgeEndpoints := c\<rparr>) = bus_of s"
  by (simp_all add: bus_of_def svcBus.defs add_route_def new_router_def reservedRoutes_def Let_def)

lemma bus_of_server [simp]:
  "bus_of (t\<lparr>ps_serverConfig := c\<rparr>) = bus_of t" "bus_of (t\<lparr>ps_out := o'\<rparr>) = bus_of t" "bus_of (t\<lparr>ps_fabricConn := l\<rparr>) = bus_of t"
  "bus_of (t\<lparr>ps_Addr := a\<rparr>) = bus_of t"
  by (simp_all add: bus_of_def svcBus.defs)

section \<open>Routes of a new server\<close>

text \<open>A server without bridges: what is in its tables does not belong to services.\<close>

definition no_bridges :: "'b plankBus_scheme \<Rightarrow> bool" where
  "no_bridges s \<longleftrightarrow> ps_serviceChanToBridgeEndpoints s = Map.empty \<and> (\<forall>k ch b. ps_endpointHandlerMap s k \<noteq> Some (BridgeEndpoint ch b))"

abbreviation routes :: "'b plankBus_scheme \<Rightarrow> route set" where
  "routes s \<equiv> set (routers s (ps_router s))"

lemma routes_add [simp]: "routes (add_route r s) = insert r (routes s)"
  by (auto simp: add_route_def)

lemma no_bridges_add [simp]: "no_bridges (add_route r s) = no_bridges s"
  by (simp add: no_bridges_def add_route_def)

definition static_route :: "string \<Rightarrow> route" where
  "static_route dir = (case DeriveStaticURIFromPath dir of (p, uri) \<Rightarrow>
     \<lparr>rt_Name = uri @ ''*'', rt_Path = PathPrefix (uri @ ''/''), rt_Methods = None, rt_Handler = StaticEndpoint uri p []\<rparr>)"

lemma staticRoutes_spec:
  "\<exists>s'. staticRoutes is_func dirs s = Done s' \<and> bus_of s' = bus_of s \<and> (no_bridges s \<longrightarrow> no_bridges s') \<and>
     routes s \<union> static_route ` set dirs \<subseteq> routes s' \<and>
     ps_messageBridgeMap s' = ps_messageBridgeMap s \<and> plankBus.more s' = plankBus.more s \<and>
     (\<forall>k. ps_endpointHandlerMap s k \<noteq> None \<longrightarrow> (\<forall>d \<in> set dirs. rt_Name (static_route d) \<noteq> k) \<longrightarrow> ps_endpointHandlerMap s' k = ps_endpointHandlerMap s k)"
proof (induction dirs arbitrary: s)
  case (Cons d ds)
  obtain p uri where d: "DeriveStaticURIFromPath d = (p, uri)" by (cases "DeriveStaticURIFromPath d")
  let ?s1 = "add_route \<lparr>rt_Name = '''', rt_Path = Path uri, rt_Methods = None, rt_Handler = RedirectEndpoint (uri @ ''/'')\<rparr> s"
  let ?s2 = "?s1\<lparr>ps_endpointHandlerMap := (ps_endpointHandlerMap ?s1)(uri @ ''*'' \<mapsto> StaticEndpoint uri p [])\<rparr>"
  let ?s3 = "add_route (static_route d) ?s2"
  have s3: "SetStaticRoute is_func uri p [] s = Done ?s3" by (simp add: SetStaticRoute_def Let_def static_route_def d)
  have nb: "no_bridges s \<longrightarrow> no_bridges ?s3" by (auto simp: no_bridges_def add_route_def)
  have r3: "routes ?s3 = insert (static_route d) (insert \<lparr>rt_Name = '''', rt_Path = Path uri, rt_Methods = None, rt_Handler = RedirectEndpoint (uri @ ''/'')\<rparr> (routes s))"
    by (auto simp: add_route_def)
  have m3: "ps_messageBridgeMap ?s3 = ps_messageBridgeMap s" "plankBus.more ?s3 = plankBus.more s" "bus_of ?s3 = bus_of s"
    "\<And>k. rt_Name (static_route d) \<noteq> k \<Longrightarrow> ps_endpointHandlerMap ?s3 k = ps_endpointHandlerMap s k"
    by (simp_all add: add_route_def static_route_def d bus_of_def svcBus.defs)
  obtain s' where s': "staticRoutes is_func ds ?s3 = Done s'" "bus_of s' = bus_of ?s3" "no_bridges ?s3 \<longrightarrow> no_bridges s'"
     "routes ?s3 \<union> static_route ` set ds \<subseteq> routes s'" "ps_messageBridgeMap s' = ps_messageBridgeMap ?s3" "plankBus.more s' = plankBus.more ?s3"
     "\<And>k. ps_endpointHandlerMap ?s3 k \<noteq> None \<Longrightarrow> (\<forall>d \<in> set ds. rt_Name (static_route d) \<noteq> k) \<Longrightarrow> ps_endpointHandlerMap s' k = ps_endpointHandlerMap ?s3 k"
    using Cons.IH[of ?s3] by blast
  have "staticRoutes is_func (d # ds) s = Done s'" using s'(1) s3 by (simp add: d)
  moreover have "\<forall>k. ps_endpointHandlerMap s k \<noteq> None \<longrightarrow> (\<forall>d \<in> set (d # ds). rt_Name (static_route d) \<noteq> k) \<longrightarrow> ps_endpointHandlerMap s' k = ps_endpointHandlerMap s k"
    using s'(7) m3(4) by simp
  moreover have "routes s \<union> static_route ` set (d # ds) \<subseteq> routes s'" using s'(4) r3 by auto
  moreover have "no_bridges s \<longrightarrow> no_bridges s'" using s'(3) nb by blast
  ultimately show ?case using s'(2,5,6) m3(1-3) by metis
qed auto

section \<open>The listener for bridges\<close>

definition lcm_handler :: "uuid \<Rightarrow> uuid \<Rightarrow> uuid \<Rightarrow> addr \<Rightarrow> messageHandler" where
  "lcm_handler newL newLS dest a = (createMessageHandler newL a (Some dest))\<lparr>mh_direction := ResponseDir,
     mh_successHandler := Some SetupBridges, mh_errorHandler := Some IgnoreFn, mh_subscriptionId := Some newLS\<rparr>"

definition lcm_listening :: "'b svcBus_scheme \<Rightarrow> bool" where
  "lcm_listening s \<longleftrightarrow> (\<exists>a h newL newLS. Channels s LifecycleManagerChannelName = Some a \<and> h < nextMH s \<and>
     mhandlers s h = lcm_handler newL newLS (eb_Id s) a \<and> (newLS, WrapperFn h, False) \<in> handler_set (chans s a))"

lemma Handle_plank:
  "eb_Id (Handle newS h f g s) = eb_Id s" "plankBus.more (Handle newS h f g t) = plankBus.more t"
  by (simp_all add: Handle_def Let_def SubscribeChannelHandler_def upd_mh_def upd_chan_def SendMonitorEvent_def split: sum.split)

lemma listenForBridges_spec:
  assumes "chan_inv s" "Channels s LifecycleManagerChannelName = Some a" "fresh_id newLS s"
  shows "\<exists>s'. listenForBridges newL newLS s = Done s' \<and> chan_inv s' \<and> lcm_listening s' \<and> Channels s' = Channels s \<and>
    plank_part s' = plank_part s \<and> plankBus.more s' = plankBus.more s"
proof -
  let ?t = "fst (wrapMessageHandler newL a ResponseDir False False (Some (eb_Id s)) False s)"
  let ?u = "Handle newLS (nextMH s) (Some SetupBridges) (Some IgnoreFn) ?t"
  have l: "ListenStreamForDestination newL LifecycleManagerChannelName (Some (eb_Id s)) s = (?t, Inr (nextMH s))"
    using assms(2) by (simp add: ListenStreamForDestination_def getChannelFromManager_def GetChannel_def wrapMessageHandler_def Let_def)
  have n: "ch_Name (chans s a) = LifecycleManagerChannelName" using assms(1,2) by (simp add: chan_inv_def)
  have t: "Channels ?t LifecycleManagerChannelName = Some a" "ch_Name (chans ?t a) = LifecycleManagerChannelName" "mh_channel (mhandlers ?t (nextMH s)) = a"
    "Channels ?t = Channels s" "chans ?t = chans s" "nextChan ?t = nextChan s" "monitor ?t = monitor s" "eb_Id ?t = eb_Id s" "nextMH ?t = Suc (nextMH s)"
    "mhandlers ?t (nextMH s) = (createMessageHandler newL a (Some (eb_Id s)))\<lparr>mh_direction := ResponseDir\<rparr>"
    using assms n by (simp_all add: wrapMessageHandler_def Let_def createMessageHandler_def)
  note f = Handle_fields[OF t(1-3), of newLS "Some SetupBridges" "Some IgnoreFn"]
  have id: "eb_Id ?u = eb_Id s" by (simp add: Handle_plank t(8))
  have wf: "channel_wf (chans s b)" for b using assms(1) by (simp add: chan_inv_def)
  have fr: "newLS \<notin> h_uuid ` set (ch_eventHandlers (chans s a))" using assms(3) by (simp add: fresh_id_def)
  have members: "handler_set (chans ?u a) = insert (newLS, WrapperFn (nextMH s), False) (handler_set (chans s a))"
    using chan_subs.members_add[of "chans s a" newLS "(WrapperFn (nextMH s), False)"] wf fr f(2) t(5) by simp
  have "chan_inv ?u"
    using assms(1) fr wf f t by (auto simp: chan_inv_def channel_wf_subscribe subscribeHandler_name)
  moreover have "lcm_listening ?u"
    unfolding lcm_listening_def using f t members id
    by (intro exI[of _ a] exI[of _ "nextMH s"] exI[of _ newL] exI[of _ newLS]) (simp add: lcm_handler_def createMessageHandler_def)
  moreover have "plank_part ?u = plank_part s" "plankBus.more ?u = plankBus.more s"
    by (simp_all add: Handle_plank) (simp_all add: plank_part_def wrapMessageHandler_def Let_def)
  ultimately show ?thesis using f(1) t(4) by (auto simp: listenForBridges_def l)
qed

section \<open>A new server\<close>

definition listen_ok :: "start_env \<Rightarrow> PlatformServerConfig \<Rightarrow> bool" where
  "listen_ok env c \<longleftrightarrow>
     (case pc_FabricConfig c of None \<Rightarrow> True | Some fc \<Rightarrow> fb_UseTCP fc \<longrightarrow> se_listen env ('':'' @ show_int (fb_TCPPort fc)) = None)"

definition config_ok :: "start_env \<Rightarrow> PlatformServerConfig \<Rightarrow> bool" where
  "config_ok env c \<longleftrightarrow> listen_ok env c \<and>
     (case pc_LogConfig c of
        None \<Rightarrow> False
      | Some lc \<Rightarrow> snd (PrepareLogFiles (se_open_file env) lc) = None \<and> lc_FormatOptions lc \<noteq> None)"

lemma PrepareLogFiles_options: "lc_FormatOptions (fst (PrepareLogFiles open_file lc)) = lc_FormatOptions lc"
  by (simp add: PrepareLogFiles_def Let_def split: sum.split)

lemma CreateChannel_plank [simp]:
  "plank_part (fst (CreateChannel n s)) = plank_part s" "plankBus.more (fst (CreateChannel n s)) = plankBus.more s"
  "eb_Id (fst (CreateChannel n t)) = eb_Id t"
  by (auto simp: CreateChannel_def Let_def go_SendMonitorEvent_def plank_part_def split: option.split)

lemma CreateChannel_keeps:
  assumes "chan_inv s"
  shows "Channels s m = Some b \<Longrightarrow> Channels (fst (CreateChannel n s)) m = Some b \<and> chans (fst (CreateChannel n s)) b = chans s b"
    "fresh_id new s \<Longrightarrow> fresh_id new (fst (CreateChannel n s))"
  using assms by (auto simp: CreateChannel_def Let_def chan_inv_def fresh_id_def NewChannel_handlers split: option.split)

lemma lcm_listening_create: "chan_inv s \<Longrightarrow> lcm_listening s \<Longrightarrow> lcm_listening (fst (CreateChannel n s))"
  unfolding lcm_listening_def using CreateChannel_keeps(1)[of s] by fastforce

lemma more_fields:
  fixes s s' :: "'b plankServer_scheme"
  assumes "plankBus.more s' = plankBus.more s"
  shows "ps_serverConfig s' = ps_serverConfig s" "ps_out s' = ps_out s" "ps_Addr s' = ps_Addr s" "ps_fabricConn s' = ps_fabricConn s"
  using assms by (cases s; cases s'; simp)+

lemmas create_fields [simp] = more_fields[OF CreateChannel_plank(2)]

lemma create_plank_fields [simp]:
  "routers (fst (CreateChannel n s)) = routers s" "ps_router (fst (CreateChannel n s)) = ps_router s" "ps_mmRouter (fst (CreateChannel n s)) = ps_mmRouter s"
  "ps_endpointHandlerMap (fst (CreateChannel n s)) = ps_endpointHandlerMap s"
  "ps_serviceChanToBridgeEndpoints (fst (CreateChannel n s)) = ps_serviceChanToBridgeEndpoints s"
  "ps_messageBridgeMap (fst (CreateChannel n s)) = ps_messageBridgeMap s"
  by (auto simp: CreateChannel_def Let_def go_SendMonitorEvent_def split: option.split)

text \<open>What a server has after it was initialised for a configuration: its own part, and that of the broker.\<close>

definition routes_ready :: "'b plankServer_scheme \<Rightarrow> bool" where
  "routes_ready s \<longleftrightarrow> no_bridges s \<and> ps_endpointHandlerMap s ''/health'' = Some HealthEndpoint \<and>
     \<lparr>rt_Name = ''/health'', rt_Path = Path ''/health'', rt_Methods = None, rt_Handler = NoStoreEndpoint ''/health'' HealthEndpoint\<rparr> \<in> routes s \<and>
     static_route ` set (pc_StaticDir (ps_serverConfig s)) \<subseteq> routes s"

definition broker_ready :: "'b plankServer_scheme \<Rightarrow> bool" where
  "broker_ready s \<longleftrightarrow>
     (case pc_FabricConfig (ps_serverConfig s) of
        None \<Rightarrow> ps_fabricConn s = None
      | Some fc \<Rightarrow> ps_fabricConn s \<noteq> None \<and> Channels s STOMP_SESSION_NOTIFY_CHANNEL \<noteq> None \<and>
          (\<not> fb_UseTCP fc \<longrightarrow> \<lparr>rt_Name = '''', rt_Path = Path (fb_FabricEndpoint fc), rt_Methods = None, rt_Handler = WebSocketEndpoint (fb_FabricEndpoint fc)\<rparr> \<in> routes s))"

lemma prepareLogs_spec:
  assumes "config_ok env (ps_serverConfig s)"
  shows "\<exists>lc. prepareLogs env s = Done (s\<lparr>ps_serverConfig := (ps_serverConfig s)\<lparr>pc_LogConfig := Some lc\<rparr>, ps_out := lc_outputLogFp lc\<rparr>)"
  using assms PrepareLogFiles_options[of "se_open_file env"]
  by (auto simp: config_ok_def prepareLogs_def CreateTextFormatterFromFormatOptions_def split: option.splits prod.splits) (metis fst_conv option.distinct(1))+

lemma new_router_plank [simp]:
  "routes (new_router s) = {}" "no_bridges (new_router s) = no_bridges s" "ps_messageBridgeMap (new_router s) = ps_messageBridgeMap s"
  "plankBus.more (new_router s) = plankBus.more s" "ps_endpointHandlerMap (new_router s) = ps_endpointHandlerMap s"
  by (simp_all add: new_router_def no_bridges_def)

lemma reservedRoutes_spec:
  "no_bridges s \<Longrightarrow> no_bridges (reservedRoutes b s)" "ps_messageBridgeMap (reservedRoutes b s) = ps_messageBridgeMap s"
  "plankBus.more (reservedRoutes b s) = plankBus.more s" "ps_endpointHandlerMap (reservedRoutes b s) ''/health'' = Some HealthEndpoint"
  "\<lparr>rt_Name = ''/health'', rt_Path = Path ''/health'', rt_Methods = None, rt_Handler = NoStoreEndpoint ''/health'' HealthEndpoint\<rparr> \<in> routes (reservedRoutes b s)"
  by (auto simp: reservedRoutes_def Let_def no_bridges_def add_route_def)

lemma static_name_star: "rt_Name (static_route d) \<noteq> ''/health''"
  by (cases "DeriveStaticURIFromPath d") (auto simp: static_route_def append_eq_Cons_conv)

lemma configureFabric_spec:
  assumes "listen_ok env (ps_serverConfig s)" "routes_ready s" "ps_fabricConn s = None" "ps_mmRouter s = ps_router s"
    and "pc_FabricConfig (ps_serverConfig s) \<noteq> None \<longrightarrow> Channels s STOMP_SESSION_NOTIFY_CHANNEL \<noteq> None"
  shows "\<exists>s'. configureFabric env s = Done s' \<and> routes_ready s' \<and> broker_ready s' \<and> ps_messageBridgeMap s' = ps_messageBridgeMap s \<and>
    ps_serverConfig s' = ps_serverConfig s \<and> bus_of s' = bus_of s \<and> ps_mmRouter s' = ps_router s'"
proof (cases "pc_FabricConfig (ps_serverConfig s)")
  case None
  then show ?thesis using assms by (simp add: configureFabric_def broker_ready_def)
next
  case (Some fc)
  let ?route = "\<lparr>rt_Name = '''', rt_Path = Path (fb_FabricEndpoint fc), rt_Methods = None, rt_Handler = WebSocketEndpoint (fb_FabricEndpoint fc)\<rparr>"
  define s' where "s' = (if fb_UseTCP fc then s\<lparr>ps_fabricConn := Some (TcpListener ('':'' @ show_int (fb_TCPPort fc)))\<rparr>
    else (add_route ?route s)\<lparr>ps_fabricConn := Some (WebSocketListener (fb_FabricEndpoint fc) \<lparr>wl_allowedOrigins = [], wl_connectionsChannel = [], wl_serverClosed = False\<rparr>)\<rparr>)"
  have done': "configureFabric env s = Done s'"
    using assms(1) Some by (simp add: s'_def listen_ok_def configureFabric_def NewTcpConnectionListener_def NewWebSocketConnectionFromExistingHttpServer_def)
  have bus: "bus_of s' = bus_of s" by (simp add: s'_def)
  have same: "bus_of s' = bus_of s" "ps_serverConfig s' = ps_serverConfig s" "ps_messageBridgeMap s' = ps_messageBridgeMap s"
    "routes s \<subseteq> routes s'" "no_bridges s' = no_bridges s" "ps_endpointHandlerMap s' = ps_endpointHandlerMap s" "ps_mmRouter s' = ps_mmRouter s"
    "ps_router s' = ps_router s" "ps_fabricConn s' \<noteq> None" "\<not> fb_UseTCP fc \<Longrightarrow> ?route \<in> routes s'"
    using bus by (simp_all add: s'_def add_route_def no_bridges_def subset_iff)
  have "routes_ready s'" using assms(2) same by (auto simp: routes_ready_def)
  moreover have "broker_ready s'" using same assms(5) Some bus_of_eqD(1)[OF same(1)] by (simp add: broker_ready_def)
  ultimately show ?thesis using done' same assms(4) by auto
qed

lemma finishInit_spec:
  assumes "chan_inv s" "Channels s LifecycleManagerChannelName = Some a" "fresh_id newLS s"
    and "listen_ok env (ps_serverConfig s)" "ps_fabricConn s = None" "routes_ready s"
  shows "\<exists>s'. finishInit env (newL, newLS) s = Done s' \<and> chan_inv s' \<and> lcm_listening s' \<and> routes_ready s' \<and> broker_ready s' \<and>
    ps_mmRouter s' = ps_router s' \<and> ps_messageBridgeMap s' = ps_messageBridgeMap s \<and> ps_serverConfig s' = ps_serverConfig s"
proof -
  obtain s8 where s8: "listenForBridges newL newLS s = Done s8" "chan_inv s8" "lcm_listening s8" "Channels s8 = Channels s"
    "plank_part s8 = plank_part s" "plankBus.more s8 = plankBus.more s"
    using listenForBridges_spec[OF assms(1-3), of newL] by blast
  note p8 = plank_part_eq[OF s8(5)] and m8 = more_fields[OF s8(6)]
  define s9 where "s9 = s8\<lparr>ps_mmRouter := ps_router s8\<rparr>"
  have s9: "chan_inv s9" "lcm_listening s9" "ps_mmRouter s9 = ps_router s9" "ps_fabricConn s9 = None" "ps_serverConfig s9 = ps_serverConfig s"
    "ps_messageBridgeMap s9 = ps_messageBridgeMap s" "routes_ready s9"
    using s8 p8 m8 assms(5,6) by (auto simp: s9_def chan_inv_def lcm_listening_def routes_ready_def no_bridges_def)
  define s10 where "s10 = (if pc_FabricConfig (ps_serverConfig s9) \<noteq> None then fst (CreateChannel STOMP_SESSION_NOTIFY_CHANNEL s9) else s9)"
  have s10: "chan_inv s10" "lcm_listening s10" "ps_mmRouter s10 = ps_router s10" "ps_fabricConn s10 = None" "ps_serverConfig s10 = ps_serverConfig s"
    "ps_messageBridgeMap s10 = ps_messageBridgeMap s" "routes_ready s10"
    "pc_FabricConfig (ps_serverConfig s10) \<noteq> None \<longrightarrow> Channels s10 STOMP_SESSION_NOTIFY_CHANNEL \<noteq> None"
    using s9 CreateChannel_inv[OF s9(1)] lcm_listening_create[OF s9(1,2)] CreateChannel_found[OF s9(1), of STOMP_SESSION_NOTIFY_CHANNEL]
    by (auto simp: s10_def routes_ready_def no_bridges_def)
  from configureFabric_spec[of env s10] s10 assms(4) obtain s' where s': "configureFabric env s10 = Done s'" "routes_ready s'" "broker_ready s'"
    "ps_messageBridgeMap s' = ps_messageBridgeMap s10" "ps_serverConfig s' = ps_serverConfig s10" "bus_of s' = bus_of s10" "ps_mmRouter s' = ps_router s'"
    by auto
  note b = bus_of_eqD[OF s'(6)]
  have "chan_inv s'" "lcm_listening s'" using s10(1,2) b by (simp_all add: lcm_listening_def)
  moreover have "finishInit env (newL, newLS) s = Done s'"
    by (simp only: finishInit_def fst_conv snd_conv s8(1) go_bind.simps Let_def s9_def[symmetric] s10_def[symmetric] s'(1))
  ultimately show ?thesis using s' s10 by auto
qed

lemma initRoutes_spec:
  assumes "no_bridges s"
  shows "\<exists>s'. initRoutes env s = Done s' \<and> routes_ready s' \<and> bus_of s' = bus_of s \<and> ps_messageBridgeMap s' = ps_messageBridgeMap s \<and>
    plankBus.more s' = plankBus.more s"
proof -
  let ?dirs = "pc_StaticDir (ps_serverConfig s)"
  define t where "t = reservedRoutes (pc_EnablePrometheus (ps_serverConfig s)) (new_router s)"
  have t: "no_bridges t" "ps_messageBridgeMap t = ps_messageBridgeMap s" "plankBus.more t = plankBus.more s" "bus_of t = bus_of s"
    "ps_endpointHandlerMap t ''/health'' = Some HealthEndpoint"
    "\<lparr>rt_Name = ''/health'', rt_Path = Path ''/health'', rt_Methods = None, rt_Handler = NoStoreEndpoint ''/health'' HealthEndpoint\<rparr> \<in> routes t"
    using assms by (simp_all add: t_def reservedRoutes_spec)
  obtain s' where s': "staticRoutes (se_is_func env) ?dirs t = Done s'" "bus_of s' = bus_of t" "no_bridges t \<longrightarrow> no_bridges s'"
     "routes t \<union> static_route ` set ?dirs \<subseteq> routes s'" "ps_messageBridgeMap s' = ps_messageBridgeMap t" "plankBus.more s' = plankBus.more t"
     "\<And>k. ps_endpointHandlerMap t k \<noteq> None \<Longrightarrow> (\<forall>d \<in> set ?dirs. rt_Name (static_route d) \<noteq> k) \<Longrightarrow> ps_endpointHandlerMap s' k = ps_endpointHandlerMap t k"
    using staticRoutes_spec[of "se_is_func env" ?dirs t] by blast
  have "ps_endpointHandlerMap s' ''/health'' = Some HealthEndpoint" using s'(7)[of "''/health''"] t(5) static_name_star by simp
  then have "routes_ready s'" using s' t more_fields(1)[of s' s] by (auto simp: routes_ready_def)
  then show ?thesis using s' t by (auto simp: initRoutes_def t_def)
qed

lemma initialize_from:
  assumes "GetServiceRegistry Init Hooks (fst ids) (snd ids) s = Done (s1, x)"
    and "chan_inv s1" "Channels s1 LifecycleManagerChannelName = Some a" "fresh_id newLS s1"
    and "config_ok env (ps_serverConfig s1)" "ps_fabricConn s1 = None"
  shows "\<exists>s' lc. initialize env Init Hooks ids (newL, newLS) s = Done s' \<and> chan_inv s' \<and> lcm_listening s' \<and> routes_ready s' \<and> broker_ready s' \<and>
    ps_mmRouter s' = ps_router s' \<and> ps_messageBridgeMap s' = ps_messageBridgeMap s1 \<and> ps_serverConfig s' = (ps_serverConfig s1)\<lparr>pc_LogConfig := Some lc\<rparr>"
proof -
  define s2 where "s2 = fst (CreateChannel PLANK_SERVER_ONLINE_CHANNEL (GetServiceLifecycleManager s1))"
  define s3 where "s3 = s2\<lparr>ps_endpointHandlerMap := Map.empty, ps_serviceChanToBridgeEndpoints := Map.empty\<rparr>"
  have lm: "chan_inv (GetServiceLifecycleManager s1)" "Channels (GetServiceLifecycleManager s1) = Channels s1"
    "fresh_id newLS (GetServiceLifecycleManager s1)" "ps_serverConfig (GetServiceLifecycleManager s1) = ps_serverConfig s1"
    "ps_messageBridgeMap (GetServiceLifecycleManager s1) = ps_messageBridgeMap s1" "ps_fabricConn (GetServiceLifecycleManager s1) = ps_fabricConn s1"
    using assms by (simp_all add: GetServiceLifecycleManager_def chan_inv_def fresh_id_def)
  have s2: "chan_inv s2" "Channels s2 LifecycleManagerChannelName = Some a" "fresh_id newLS s2"
    using CreateChannel_inv[OF lm(1)] CreateChannel_keeps[OF lm(1)] lm assms(3) by (simp_all add: s2_def)
  have s3: "chan_inv s3" "Channels s3 LifecycleManagerChannelName = Some a" "fresh_id newLS s3" "ps_serverConfig s3 = ps_serverConfig s1"
    "ps_fabricConn s3 = None" "no_bridges s3" "ps_messageBridgeMap s3 = ps_messageBridgeMap s1"
    using s2 lm assms(6) by (simp_all add: s3_def s2_def no_bridges_def fresh_id_def chan_inv_def)
  obtain lc where p: "prepareLogs env s3 = Done (s3\<lparr>ps_serverConfig := (ps_serverConfig s3)\<lparr>pc_LogConfig := Some lc\<rparr>, ps_out := lc_outputLogFp lc\<rparr>)"
    using prepareLogs_spec[of env s3] assms(5) s3(4) by auto
  define s4 where "s4 = s3\<lparr>ps_serverConfig := (ps_serverConfig s3)\<lparr>pc_LogConfig := Some lc\<rparr>, ps_out := lc_outputLogFp lc\<rparr>"
  have "no_bridges s4" using s3(6) by (simp add: s4_def no_bridges_def)
  then obtain s5 where s5: "initRoutes env s4 = Done s5" "routes_ready s5" "bus_of s5 = bus_of s4" "ps_messageBridgeMap s5 = ps_messageBridgeMap s4"
    "plankBus.more s5 = plankBus.more s4" using initRoutes_spec[of s4 env] by blast
  note b = bus_of_eqD[OF s5(3)] and m = more_fields[OF s5(5)]
  define s6 where "s6 = s5\<lparr>ps_Addr := '':'' @ show_int (pc_Port (ps_serverConfig s5)), ps_httpHandler := 0, ps_TLSConfig := None\<rparr>"
  have s6: "chan_inv s6" "Channels s6 LifecycleManagerChannelName = Some a" "fresh_id newLS s6" "ps_fabricConn s6 = None" "routes_ready s6"
    "ps_serverConfig s6 = (ps_serverConfig s1)\<lparr>pc_LogConfig := Some lc\<rparr>" "ps_messageBridgeMap s6 = ps_messageBridgeMap s1"
    using s3 s5 b m by (simp_all add: s6_def s4_def chan_inv_def fresh_id_def routes_ready_def no_bridges_def)
  have "listen_ok env (ps_serverConfig s6)" using assms(5) s6(6) by (simp add: config_ok_def listen_ok_def)
  from finishInit_spec[OF s6(1-3) this s6(4,5), of newL] obtain s' where s': "finishInit env (newL, newLS) s6 = Done s'" "chan_inv s'" "lcm_listening s'"
    "routes_ready s'" "broker_ready s'" "ps_mmRouter s' = ps_router s'" "ps_messageBridgeMap s' = ps_messageBridgeMap s6" "ps_serverConfig s' = ps_serverConfig s6"
    by blast
  have "initialize env Init Hooks ids (newL, newLS) s = Done s'"
    by (simp only: initialize_def assms(1) go_bind.simps prod.case Let_def s2_def[symmetric] s3_def[symmetric] p s4_def[symmetric] s5(1) s6_def[symmetric] s'(1))
  then show ?thesis using s' s6 by auto
qed

section \<open>The service package\<close>

text \<open>What creating the ready store and the first registry leaves alone.\<close>

lemma ready_store_plank:
  "CreateStoreWithType ServiceReadyStore (Some TBool) s = Done (s2, a) \<Longrightarrow> plank_part s2 = plank_part s \<and> plankBus.more s2 = plankBus.more s"
  by (auto simp: CreateStoreWithType_def newBusStore_def Let_def plank_part_def go_SendMonitorEvent_def split: option.splits)

lemma ready_store_init_plank:
  "(case Initialize (storeHeap s a) of (store, outs) \<Rightarrow> store_outputs (\<lambda>_. '''') a outs (upd_store a (\<lambda>_. store) s)) = Done s3 \<Longrightarrow>
     plank_part s3 = plank_part s \<and> plankBus.more s3 = plankBus.more s"
  by (cases "st_initialized (storeHeap s a)") (auto simp: Initialize_def upd_store_def plank_part_def SendMonitorEvent_def)

lemma plank_more_svc:
  "plank_part (upd_sw w f s) = plank_part s" "plankBus.more (upd_sw w f s) = plankBus.more s"
  "plank_part (upd_reg r g s) = plank_part s" "plankBus.more (upd_reg r g s) = plankBus.more s"
  "plank_part (fst (newServiceWrapper svc n s)) = plank_part s" "plankBus.more (fst (newServiceWrapper svc n s)) = plankBus.more s"
  "plank_part (fst (ListenRequestStream newH n s)) = plank_part s" "plankBus.more (fst (ListenRequestStream newH n s)) = plankBus.more s"
  by (auto simp: upd_sw_def upd_reg_def newServiceWrapper_def Let_def plank_part_def ListenRequestStream_def wrapMessageHandler_def split: sum.split)

lemma sw_init_plank:
  assumes "sw_init Init newH newS w s = Done (s', e)" "initializationService Init (sw_service (wrappers s w)) = None"
  shows "plank_part s' = plank_part s" "plankBus.more s' = plankBus.more s"
  using assms plank_more_svc(7,8)[of newH _ "fst (CreateChannel _ s)"]
  by (auto simp: sw_init_def Let_def Handle_plank plank_more_svc split: prod.splits sum.splits) (metis CreateChannel_plank fst_conv plank_more_svc(7,8))+

lemma newServiceRegistry_first:
  assumes "chan_inv s" "fresh_id newS s" "fresh_id new s" "new \<noteq> newS"
  shows "\<exists>s' r a. newServiceRegistry Init Hooks newH newS s = Done (s', r) \<and> chan_inv s' \<and> Channels s' LifecycleManagerChannelName = Some a \<and>
    fresh_id new s' \<and> plank_part s' = plank_part s \<and> plankBus.more s' = plankBus.more s"
proof -
  let ?r = "nextRegistry s"
  let ?s0 = "s\<lparr>registries := (registries s)(?r := \<lparr>sr_locked = False, sr_services = [], sr_lifecycleManager = None\<rparr>), nextRegistry := Suc ?r\<rparr>"
  define s1 where "s1 = fst (CreateChannel LifecycleManagerChannelName ?s0)"
  have s0: "chan_inv ?s0" "fresh_id newS ?s0" "fresh_id new ?s0" "plank_part ?s0 = plank_part s" "plankBus.more ?s0 = plankBus.more s"
    using assms by (simp_all add: chan_inv_def fresh_id_def plank_part_def)
  obtain a where s1_facts: "chan_inv s1" "Channels s1 LifecycleManagerChannelName = Some a" "fresh_id newS s1" "fresh_id new s1"
    using CreateChannel_inv[OF s0(1)] CreateChannel_found[OF s0(1)] CreateChannel_keeps(2)[OF s0(1)] s0(2,3) unfolding s1_def by blast
  obtain s2 b where s2: "CreateStoreWithType ServiceReadyStore (Some TBool) s1 = Done (s2, b)" "bus_part s2 = bus_part s1"
    using ready_store_frame by blast
  obtain s3 where s3: "(case Initialize (storeHeap s2 b) of (store, outs) \<Rightarrow> store_outputs (\<lambda>_. '''') b outs (upd_store b (\<lambda>_. store) s2)) = Done s3"
    "bus_part s3 = bus_part s2" using ready_store_init by blast
  have p3: "plank_part s3 = plank_part s" "plankBus.more s3 = plankBus.more s"
    using ready_store_plank[OF s2(1)] ready_store_init_plank[OF s3(1)] s0(4,5) by (simp_all add: s1_def)
  have part: "Channels s3 = Channels s1" "chans s3 = chans s1" "nextChan s3 = nextChan s1" "monitor s3 = monitor s1" "svc_part s3 = svc_part ?s0"
    using s2(2) s3(2) by (simp_all add: bus_part_def) (simp add: s1_def)
  note part5 = svc_part_eq[OF part(5)]
  define w where "w = nextWrapper s3"
  define t where "t = fst (newServiceWrapper (restService '''') restServiceChannel (upd_reg ?r (\<lambda>reg. reg\<lparr>sr_locked := True\<rparr>) s3))"
  have nw: "newServiceWrapper (restService '''') restServiceChannel (upd_reg ?r (\<lambda>reg. reg\<lparr>sr_locked := True\<rparr>) s3) = (t, w)"
    by (simp add: t_def w_def newServiceWrapper_def Let_def upd_reg_def)
  have c3: "chan_inv s3" "fresh_id newS s3" "fresh_id new s3" using s1_facts part by (simp_all add: chan_inv_def fresh_id_def)
  have t: "chan_inv t" "fresh_id newS t" "fresh_id new t" "Channels t = Channels s3"
    using c3 by (simp_all add: t_def newServiceWrapper_def Let_def upd_reg_def chan_inv_def fresh_id_def)
  have t_plank: "plank_part t = plank_part s" "plankBus.more t = plankBus.more s" using p3 by (simp_all add: t_def plank_more_svc)
  have t_svc: "sw_service (wrappers t w) = restService ''''" "fc_channelName (sw_fabricCore (wrappers t w)) = restServiceChannel"
    by (simp_all add: t_def w_def newServiceWrapper_def Let_def upd_reg_def)
  have init: "initializationService Init (sw_service (wrappers t w)) = None" by (simp add: t_svc(1))
  obtain s4 where s4: "sw_init Init newH newS w t = Done (s4, None)" "chan_inv s4"
    "\<And>m b. Channels t m = Some b \<Longrightarrow> Channels s4 m = Some b"
    using sw_init_live[OF t(1) init t_svc(2) t(2), of newH] by blast
  obtain s4' c where s4': "sw_init Init newH newS w t = Done (s4', None)" "chans s4' = (chans (fst (CreateChannel restServiceChannel t)))
      (c := subscribeHandler (WrapperFn (nextMH t)) False newS (chans (fst (CreateChannel restServiceChannel t)) c))"
    using sw_init_spec[OF t(1) init t_svc(2) refl, of newH newS] by blast
  have fr: "fresh_id new s4"
    using CreateChannel_keeps(2)[OF t(1,3), of restServiceChannel] s4(1) s4' assms(4) by (auto simp: fresh_id_def subscribeHandler_def)
  define s5 where "s5 = upd_reg ?r (\<lambda>reg. reg\<lparr>sr_services := AList.update restServiceChannel w (sr_services reg)\<rparr>) s4"
  define s6 where "s6 = upd_reg ?r (\<lambda>reg. reg\<lparr>sr_locked := False\<rparr>) s5"
  have reg: "RegisterService Init Hooks newH newS '''' ?r (Some (restService '''')) restServiceChannel s3 = Done (s6, None)"
    using part5 nw s4(1) by (simp add: RegisterService_def addService_def announceHooks_def internalServices_def s5_def s6_def)
  have "newServiceRegistry Init Hooks newH newS s = Done (s6, ?r)"
    using s2(1) s3(1) reg by (simp add: newServiceRegistry_def Let_def s1_def split: prod.splits)
  moreover have "chan_inv s6" "fresh_id new s6" "Channels s6 LifecycleManagerChannelName = Some a"
    using s4(2) s4(3)[of LifecycleManagerChannelName a] fr s1_facts(2) part(1) t(4) by (simp_all add: s6_def s5_def upd_reg_def chan_inv_def fresh_id_def)
  moreover have "plank_part s6 = plank_part s" "plankBus.more s6 = plankBus.more s"
    using sw_init_plank[OF s4(1) init] t_plank by (simp_all add: s6_def s5_def plank_more_svc)
  ultimately show ?thesis by blast
qed

lemma GetServiceRegistry_ready:
  assumes "chan_inv s" "registryOnce s \<Longrightarrow> Channels s LifecycleManagerChannelName \<noteq> None" "fresh_id newS s" "fresh_id new s" "new \<noteq> newS"
  shows "\<exists>s' x a. GetServiceRegistry Init Hooks newH newS s = Done (s', x) \<and> chan_inv s' \<and> Channels s' LifecycleManagerChannelName = Some a \<and>
    fresh_id new s' \<and> plank_part s' = plank_part s \<and> plankBus.more s' = plankBus.more s"
proof (cases "registryOnce s")
  case True
  then show ?thesis using assms by (auto simp: GetServiceRegistry_def)
next
  case False
  obtain s1 r a where s1: "newServiceRegistry Init Hooks newH newS s = Done (s1, r)" "chan_inv s1" "Channels s1 LifecycleManagerChannelName = Some a"
    "fresh_id new s1" "plank_part s1 = plank_part s" "plankBus.more s1 = plankBus.more s"
    using newServiceRegistry_first[OF assms(1,3-5), of Init Hooks newH] by blast
  let ?s' = "GetServiceLifecycleManager (s1\<lparr>registryOnce := True, registryInstance := Some r, svcLifecycleManagerInstance := None\<rparr>)"
  have "GetServiceRegistry Init Hooks newH newS s = Done (?s', Some r)" using s1(1) False by (simp add: GetServiceRegistry_def)
  moreover have "chan_inv ?s'" "Channels ?s' LifecycleManagerChannelName = Some a" "fresh_id new ?s'" "plank_part ?s' = plank_part s"
    "plankBus.more ?s' = plankBus.more s"
    using s1 by (simp_all add: GetServiceLifecycleManager_def chan_inv_def fresh_id_def plank_part_def)
  ultimately show ?thesis by blast
qed

section \<open>Properties\<close>

lemma bridges_inv_new: "chan_inv s \<Longrightarrow> no_bridges s \<Longrightarrow> ps_messageBridgeMap s \<noteq> None \<Longrightarrow> bridges_inv s"
  by (auto simp: bridges_inv_def no_bridges_def chan_inv_def bridge_keys_def)

definition process_ready :: "uuid \<Rightarrow> uuid \<Rightarrow> 'b plankServer_scheme \<Rightarrow> bool" where
  "process_ready newS newLS s \<longleftrightarrow> chan_inv s \<and> (registryOnce s \<longrightarrow> Channels s LifecycleManagerChannelName \<noteq> None) \<and>
     fresh_id newS s \<and> fresh_id newLS s \<and> newLS \<noteq> newS"

lemma initialize_ready:
  assumes "process_ready newS newLS s" "config_ok env config"
    and "s0 = s\<lparr>ps_serverConfig := config, ps_ServerAvailability := \<lparr>sa_Http = False, sa_Fabric = False\<rparr>, ps_messageBridgeMap := m, ps_fabricConn := None\<rparr>"
  shows "\<exists>s'. initialize env Init Hooks (newH, newS) (newL, newLS) s0 = Done s' \<and> chan_inv s' \<and> lcm_listening s' \<and> routes_ready s' \<and>
    broker_ready s' \<and> ps_mmRouter s' = ps_router s' \<and> ps_messageBridgeMap s' = m \<and>
    pc_StaticDir (ps_serverConfig s') = pc_StaticDir config \<and> pc_FabricConfig (ps_serverConfig s') = pc_FabricConfig config"
proof -
  have s0: "chan_inv s0" "registryOnce s0 \<Longrightarrow> Channels s0 LifecycleManagerChannelName \<noteq> None" "fresh_id newS s0" "fresh_id newLS s0" "newLS \<noteq> newS"
    "ps_serverConfig s0 = config" "ps_fabricConn s0 = None" "ps_messageBridgeMap s0 = m"
    using assms by (auto simp: process_ready_def chan_inv_def fresh_id_def)
  obtain s1 x a where s1: "GetServiceRegistry Init Hooks newH newS s0 = Done (s1, x)" "chan_inv s1" "Channels s1 LifecycleManagerChannelName = Some a"
    "fresh_id newLS s1" "plank_part s1 = plank_part s0" "plankBus.more s1 = plankBus.more s0"
    using GetServiceRegistry_ready[OF s0(1-5), of Init Hooks newH] by blast
  note mf = more_fields[OF s1(6)] and p = plank_part_eq[OF s1(5)]
  have ok: "config_ok env (ps_serverConfig s1)" "ps_fabricConn s1 = None" using assms(2) mf s0 by simp_all
  from initialize_from[of Init Hooks "(newH, newS)" s0 s1 x a newLS env newL] s1 ok mf p s0 show ?thesis by auto
qed


text \<open>The state of a process before anything was created.\<close>

definition fresh_process :: plankServer where
  "fresh_process = plankBus.extend (init_plankBus ''bus'')
     \<lparr>ps_serverConfig = projr (generatePlatformServerConfig ex_config_env ex_viper), ps_out = None, ps_Addr = '''', ps_fabricConn = None\<rparr>"

lemma fresh_process_fields:
  "Channels fresh_process = Map.empty" "chans fresh_process = (\<lambda>_. NewChannel '''')" "monitor fresh_process = newMonitor" "\<not> registryOnce fresh_process"
  by (simp_all add: fresh_process_def init_plankBus_def init_svcBus_def init_fabBus_def init_syncBus_def init_txBus_def init_storeBus_def init_bus_def
      plankBus.defs svcBus.defs fabBus.defs syncBus.defs txBus.defs storeBus.defs transportEventBus.defs)

lemma fresh_process_inv: "chan_inv fresh_process" "fresh_id i fresh_process"
  by (simp_all add: chan_inv_def fresh_id_def fresh_process_fields channel_wf_new newMonitor_wf NewChannel_handlers)

definition ex_start_env :: start_env where
  "ex_start_env = \<lparr>se_config = ex_config_env, se_open_file = (\<lambda>_. None), se_listen = (\<lambda>_. None), se_is_func = (\<lambda>_. True)\<rparr>"

definition ex_server_config :: PlatformServerConfig where
  "ex_server_config = \<lparr>pc_RootDir = ''/srv'', pc_StaticDir = [''public''], pc_SpaConfig = None, pc_Host = ''localhost'', pc_Port = 80,
     pc_LogConfig = Some \<lparr>lc_AccessLog = ''stdout'', lc_ErrorLog = ''stderr'', lc_OutputLog = ''stdout'',
       lc_FormatOptions = Some zero_LogFormatOption, lc_Root = ''/srv'', lc_accessLogFp = None, lc_errorLogFp = None, lc_outputLogFp = None\<rparr>,
     pc_FabricConfig = Some \<lparr>fb_FabricEndpoint = ''/ws'', fb_UseTCP = False, fb_TCPPort = 0,
       fb_EndpointConfig = Some \<lparr>ec_TopicPrefix = ''/topic'', ec_UserQueuePrefix = ''/queue'', ec_AppRequestPrefix = ''/pub'',
         ec_AppRequestQueuePrefix = ''/pub/queue'', ec_Heartbeat = 60000\<rparr>\<rparr>,
     pc_TLSCertConfig = None, pc_EnablePrometheus = False, pc_Debug = False, pc_NoBanner = True,
     pc_ShutdownTimeout = 5 * Minute, pc_RestBridgeTimeout = Minute\<rparr>"

lemma ex_server_config_ok:
  "sanitizeConfigRootPath (se_config ex_start_env) ex_server_config = Done ex_server_config" "config_ok ex_start_env ex_server_config"
proof -
  have "Clean ''/srv'' = ''/srv''" by code_simp
  then show "sanitizeConfigRootPath (se_config ex_start_env) ex_server_config = Done ex_server_config"
    by (simp add: sanitizeConfigRootPath_def ex_start_env_def ex_config_env_def ex_server_config_def filepath_Abs_def IsAbs_def HasPrefix_def Let_def)
  show "config_ok ex_start_env ex_server_config"
    by (simp add: config_ok_def listen_ok_def ex_server_config_def PrepareLogFiles_def prepareLogFilePointer_def)
qed


text \<open>
  A server made from a configuration file has no map of bridges: the first bridge that is set up
  on it panics.
\<close>

theorem server_from_file_cannot_bridge:
  assumes "process_ready newS newLS s" "serverConfigFromFile (se_config env) path = Done (Inr config')" "config_ok env config'"
  shows "\<exists>s'. NewPlatformServerFromConfig env Init Hooks (newH, newS) (newL, newLS) path s = Done (Inr s') \<and> routes_ready s' \<and>
    (ps_endpointHandlerMap s' (rb_Uri c @ ''-'' @ rb_Method c) = None \<longrightarrow> Channels s' (rb_ServiceChannel c) \<noteq> None \<longrightarrow>
      SetHttpChannelBridge i j c s' = Panic ''assignment to entry in nil map'')"
proof -
  obtain s' where s': "initialize env Init Hooks (newH, newS) (newL, newLS) (s\<lparr>ps_serverConfig := config',
      ps_ServerAvailability := \<lparr>sa_Http = False, sa_Fabric = False\<rparr>, ps_messageBridgeMap := None, ps_fabricConn := None\<rparr>) = Done s'"
    "routes_ready s'" "ps_messageBridgeMap s' = None"
    using initialize_ready[OF assms(1,3) refl, where m = None and Init = Init and Hooks = Hooks and newH = newH and newL = newL] by blast
  have new: "NewPlatformServerFromConfig env Init Hooks (newH, newS) (newL, newLS) path s = Done (Inr s')"
    using assms(2) s'(1) by (simp add: NewPlatformServerFromConfig_def)
  have "SetHttpChannelBridge i j c s' = Panic ''assignment to entry in nil map''"
    if "ps_endpointHandlerMap s' (rb_Uri c @ ''-'' @ rb_Method c) = None" "Channels s' (rb_ServiceChannel c) = Some a" for a
  proof -
    note c = that
    let ?t = "s'\<lparr>ps_serviceChanToBridgeEndpoints := (ps_serviceChanToBridgeEndpoints s')(rb_ServiceChannel c \<mapsto> bridge_keys (rb_ServiceChannel c) s')\<rparr>"
    have "bridge_of (rb_ServiceChannel c) ?t = None" using s'(3) by (simp add: bridge_of_def)
    moreover have "ps_messageBridgeMap (Handle j h f g (fst (ListenStream i (rb_ServiceChannel c) ?t))) = None" for h f g
      using s'(3) by (simp add: plank_part_eq[OF plank_part_bus(4)] plank_part_eq[OF plank_part_bus(5)])
    moreover obtain u h where "ListenStream i (rb_ServiceChannel c) ?t = (u, Inr h)"
      using c(2) by (simp add: ListenStream_def getChannelFromManager_def GetChannel_def wrapMessageHandler_def Let_def)
    ultimately show ?thesis using c(1) by (simp add: SetHttpChannelBridge_def Let_def openBridge_def)
  qed
  then show ?thesis using new s'(2) by blast
qed

end
