(* ===== verification/RawConnection.thy ===== *)
theory RawConnection
  imports StompConn
begin

text \<open>
  The contract of a raw connection (src/stompserver/raw\_connection.go) that a session relies on when it
  reads: \<open>delivers fs c\<close> says that the connection \<open>c\<close> has the frames \<open>fs\<close> (\<open>None\<close> for a heart-beat) for its
  reader, and a read takes the first of them.
\<close>

section \<open>Repeated reads\<close>

fun conn_reads :: "('c \<Rightarrow> ((error + Frame option) \<times> 'c) go) \<Rightarrow> nat \<Rightarrow> 'c \<Rightarrow> ((error + Frame option) list \<times> 'c) go" where
  "conn_reads read 0 c = Done ([], c)"
| "conn_reads read (Suc n) c = go_bind (read c) (\<lambda>(r, c1). go_map (\<lambda>(rs, c2). (r # rs, c2)) (conn_reads read n c1))"

text \<open>What the reader of the session makes of a result.\<close>

fun to_raw :: "error + Frame option \<Rightarrow> raw_read" where
  "to_raw (Inl _) = ReadError"
| "to_raw (Inr None) = ReadHeartBeat"
| "to_raw (Inr (Some f)) = ReadFrame f"

lemma readInFrames_Inr:
  "snd (readInFrames (map (\<lambda>f. (timeout, to_raw (Inr f))) fs)) = map InFrame (List.map_filter id fs)"
proof (induction fs)
  case (Cons f fs)
  then show ?case by (cases f) (simp_all add: List.map_filter_simps case_prod_beta)
qed (simp add: List.map_filter_simps)

section \<open>The contract\<close>

locale raw_connection =
  fixes read :: "'c \<Rightarrow> ((error + Frame option) \<times> 'c) go"
    and delivers :: "Frame option list \<Rightarrow> 'c \<Rightarrow> 'c \<Rightarrow> bool"
  assumes read_next: "delivers (f # fs) c later \<Longrightarrow> \<exists>c'. read c = Done (Inr f, c') \<and> delivers fs c' later"
    and delivered: "delivers [] c later \<Longrightarrow> c = later"
begin

lemma reads_in_order: "delivers fs c later \<Longrightarrow> conn_reads read (length fs) c = Done (map Inr fs, later)"
proof (induction fs arbitrary: c)
  case Nil
  then show ?case using delivered by simp
next
  case (Cons f fs)
  from read_next[OF Cons.prems] obtain c1 where "read c = Done (Inr f, c1)" "delivers fs c1 later" by blast
  with Cons.IH[of c1] show ?case by simp
qed

lemma session_gets_frames:
  assumes "delivers fs c later"
  shows "\<exists>rs. conn_reads read (length fs) c = Done (rs, later) \<and>
    snd (readInFrames (map (\<lambda>r. (timeout, to_raw r)) rs)) = map InFrame (List.map_filter id fs)"
  using reads_in_order[OF assms] readInFrames_Inr[of timeout fs] by (auto simp: comp_def)

end

end
