(* ===== verification/ListenersLaws.thy ===== *)
theory ListenersLaws
  imports Listeners RawConnection
begin

text \<open>
  Laws of the listeners: which WebSocket requests become connections and in what order, and which
  frames of a TCP or a WebSocket connection reach the session.
\<close>

section \<open>Which requests become connections\<close>

text \<open>A request may be upgraded when there is no restriction, it names no origin, or its origin is the host itself or an allowed one.\<close>

definition origin_allowed :: "(string \<Rightarrow> error + string) \<Rightarrow> string list \<Rightarrow> ws_request \<Rightarrow> bool" where
  "origin_allowed url_Parse allowedOrigins r \<longleftrightarrow>
     allowedOrigins = [] \<or> wr_Origin r = [] \<or>
     (\<exists>h. url_Parse (hd (wr_Origin r)) = Inr h \<and> to_lower h \<in> to_lower ` set (wr_Host r # allowedOrigins))"

lemma checkOrigin_iff: "checkOrigin url_Parse allowedOrigins r = origin_allowed url_Parse allowedOrigins r"
  by (auto simp: checkOrigin_def origin_allowed_def list_ex_iff hd_conv_nth split: sum.splits)

definition upgrade_outcome ::
  "(string \<Rightarrow> error + string) \<Rightarrow> (ws_request \<Rightarrow> error + nat) \<Rightarrow> string list \<Rightarrow> ws_request \<Rightarrow> nat option \<times> error option" where
  "upgrade_outcome url_Parse handshake allowedOrigins r =
     (if origin_allowed url_Parse allowedOrigins r
      then (case handshake r of Inl err \<Rightarrow> (None, Some err) | Inr conn \<Rightarrow> (Some conn, None))
      else (None, Some ''websocket: request origin not allowed by Upgrader.CheckOrigin''))"

fun accept_n :: "nat \<Rightarrow> webSocketConnectionListener \<Rightarrow> (webSocketConnectionListener \<times> (nat option \<times> error option) list) go" where
  "accept_n 0 l = Done (l, [])"
| "accept_n (Suc n) l = go_bind (ws_Accept l) (\<lambda>(l1, res). go_map (\<lambda>(l2, out). (l2, res # out)) (accept_n n l1))"

lemma upgradeHandlers:
  "fold (upgradeHandler url_Parse handshake) rs l =
     l\<lparr>wl_connectionsChannel := wl_connectionsChannel l @
        map (\<lambda>r. case upgrade_outcome url_Parse handshake (wl_allowedOrigins l) r of (c, e) \<Rightarrow> \<lparr>rc_conn = c, rc_err = e\<rparr>) rs\<rparr>"
  by (induction rs arbitrary: l)
     (auto simp: upgradeHandler_def Upgrade_def checkOrigin_iff upgrade_outcome_def split: sum.splits)

lemma accept_all: "accept_n (length (wl_connectionsChannel l)) l =
    Done (l\<lparr>wl_connectionsChannel := []\<rparr>, map (\<lambda>cr. (rc_conn cr, rc_err cr)) (wl_connectionsChannel l))"
proof (induction "wl_connectionsChannel l" arbitrary: l)
  case (Cons cr crs)
  define l1 where "l1 = l\<lparr>wl_connectionsChannel := crs\<rparr>"
  have "wl_connectionsChannel l1 = crs" "l1\<lparr>wl_connectionsChannel := []\<rparr> = l\<lparr>wl_connectionsChannel := []\<rparr>" by (simp_all add: l1_def)
  then show ?case using Cons.hyps(1)[of l1] by (simp add: Cons.hyps(2)[symmetric] ws_Accept_def flip: l1_def)
qed (auto simp: webSocketConnectionListener.defs)

text \<open>
  C37. A WebSocket listener hands over the requests it got, in order and each once: a request whose
  origin is allowed and whose handshake succeeds comes out of \<^verbatim>\<open>Accept\<close> as its connection, every other
  one as an error. One more \<^verbatim>\<open>Accept\<close> waits.
\<close>

theorem accepted_connections:
  assumes "NewWebSocketConnectionListener listen address allowedOrigins = Inr l"
  shows "accept_n (length rs) (fold (upgradeHandler url_Parse handshake) rs l) = Done (l, map (upgrade_outcome url_Parse handshake allowedOrigins) rs) \<and> ws_Accept l = Block"
proof -
  define l1 where "l1 = fold (upgradeHandler url_Parse handshake) rs l"
  have l: "l = \<lparr>wl_allowedOrigins = allowedOrigins, wl_connectionsChannel = [], wl_serverClosed = False\<rparr>"
    using assms(1) by (auto simp: NewWebSocketConnectionListener_def split: option.splits)
  have ch: "wl_connectionsChannel l1 =
      map (\<lambda>r. case upgrade_outcome url_Parse handshake allowedOrigins r of (c, e) \<Rightarrow> \<lparr>rc_conn = c, rc_err = e\<rparr>) rs"
    and l1: "l1\<lparr>wl_connectionsChannel := []\<rparr> = l"
    by (simp_all add: l1_def upgradeHandlers l)
  have "length (wl_connectionsChannel l1) = length rs" by (simp add: ch)
  then have "accept_n (length rs) l1 = Done (l, map (upgrade_outcome url_Parse handshake allowedOrigins) rs)"
    using accept_all[of l1] by (simp add: l1 ch case_prod_beta comp_def)
  then show ?thesis by (simp add: l1_def l ws_Accept_def)
qed

definition ex_ws_request :: "string list \<Rightarrow> ws_request" where
  "ex_ws_request origin = \<lparr>wr_Origin = origin, wr_Host = ''plank:30080''\<rparr>"

theorem accepted_connections_witness:
  "\<exists>l. NewWebSocketConnectionListener (\<lambda>_. None) '':8090'' [''Good.example''] = Inr l \<and>
     accept_n 3 (fold (upgradeHandler Inr (\<lambda>_. Inr 7)) [ex_ws_request [''evil.example''], ex_ws_request [''good.example''], ex_ws_request []] l) =
       Done (l, [(None, Some ''websocket: request origin not allowed by Upgrader.CheckOrigin''), (Some 7, None), (Some 7, None)])"
proof -
  define l where "l = \<lparr>wl_allowedOrigins = [''Good.example''], wl_connectionsChannel = [], wl_serverClosed = False\<rparr>"
  have l: "NewWebSocketConnectionListener (\<lambda>_. None) '':8090'' [''Good.example''] = Inr l"
    by (simp add: NewWebSocketConnectionListener_def l_def)
  have lo: "to_lower ''Good.example'' = ''good.example''" "to_lower ''good.example'' = ''good.example''"
    "to_lower ''evil.example'' = ''evil.example''" "to_lower ''plank:30080'' = ''plank:30080''" by code_simp+
  show ?thesis
    using l accepted_connections[OF l, where url_Parse=Inr and handshake="\<lambda>_. Inr 7" and rs="[ex_ws_request [''evil.example''], ex_ws_request [''good.example''], ex_ws_request []]"]
    by (auto simp: upgrade_outcome_def origin_allowed_def ex_ws_request_def lo eval_nat_numeral)
qed

section \<open>Frames on a TCP connection\<close>

text \<open>A frame may come in several pieces: \<open>parse\<close> wants more after every proper prefix of them and has the frame at the end.\<close>

definition frame_chunks :: "(bytes \<Rightarrow> frame_parse) \<Rightarrow> Frame option \<Rightarrow> bytes list \<Rightarrow> bytes \<Rightarrow> bool" where
  "frame_chunks parse f chunks rest \<longleftrightarrow>
     (\<forall>n < length chunks. parse (concat (take n chunks)) = NeedMore) \<and> parse (concat chunks) = Parsed f rest"

lemma frame_Read_chunks:
  assumes "\<And>n. n < length chunks \<Longrightarrow> parse (buf @ concat (take n chunks)) = NeedMore" "parse (buf @ concat chunks) = Parsed f rest"
  shows "frame_Read parse buf (chunks @ later) = Done (Inr f, rest, later)"
  using assms
proof (induction chunks arbitrary: buf)
  case Nil then show ?case by (cases later) simp_all
next
  case (Cons c cs)
  have "parse buf = NeedMore" using Cons.prems(1)[of 0] by simp
  moreover have "frame_Read parse (buf @ c) (cs @ later) = Done (Inr f, rest, later)"
    using Cons.IH[of "buf @ c"] Cons.prems(1)[of "Suc n" for n] Cons.prems(2) by simp
  ultimately show ?case by simp
qed

lemma tcp_ReadFrame_chunks:
  "frame_chunks parse f chunks rest \<Longrightarrow> tcp_ReadFrame parse (chunks @ later) = Done (Inr f, later)"
  by (simp add: tcp_ReadFrame_def frame_chunks_def frame_Read_chunks[where buf="[]"])

text \<open>
  When no read of the socket returns bytes of two frames, a TCP connection is a raw connection: it
  delivers the frames whose pieces it has.
\<close>

definition tcp_delivers :: "(bytes \<Rightarrow> frame_parse) \<Rightarrow> Frame option list \<Rightarrow> bytes list \<Rightarrow> bytes list \<Rightarrow> bool" where
  "tcp_delivers parse fs tcpCon later \<longleftrightarrow>
     (\<exists>pieces. list_all2 (\<lambda>f chunks. frame_chunks parse f chunks []) fs pieces \<and> tcpCon = concat pieces @ later)"

interpretation tcp_conn: raw_connection "tcp_ReadFrame parse" "tcp_delivers parse" for parse
proof
  fix f fs c later
  assume "tcp_delivers parse (f # fs) c later"
  then obtain chunks pieces where "frame_chunks parse f chunks []" "list_all2 (\<lambda>f chunks. frame_chunks parse f chunks []) fs pieces"
    "c = chunks @ concat pieces @ later"
    by (auto simp: tcp_delivers_def list_all2_Cons1)
  then show "\<exists>c'. tcp_ReadFrame parse c = Done (Inr f, c') \<and> tcp_delivers parse fs c' later"
    using tcp_ReadFrame_chunks by (auto simp: tcp_delivers_def)
qed (simp add: tcp_delivers_def)

text \<open>A WebSocket connection has a message per frame, and delivers the frames its messages hold.\<close>

definition ws_delivers :: "(bytes \<Rightarrow> error + Frame option) \<Rightarrow> Frame option list \<Rightarrow> (error + bytes) list \<Rightarrow> (error + bytes) list \<Rightarrow> bool" where
  "ws_delivers read fs wsCon later \<longleftrightarrow> (\<exists>ms. map read ms = map Inr fs \<and> wsCon = map Inr ms @ later)"

interpretation ws_conn: raw_connection "ws_ReadFrame read" "ws_delivers read" for read
  by unfold_locales (auto simp: ws_delivers_def ws_ReadFrame_def Cons_eq_map_conv map_eq_Cons_conv)

text \<open>
  The frames of a TCP connection are read completely and in order, however each is cut into pieces.
\<close>

theorem tcp_frames_in_order:
  assumes "list_all2 (\<lambda>f chunks. frame_chunks parse f chunks []) fs pieces"
  shows "conn_reads (tcp_ReadFrame parse) (length fs) (concat pieces @ later) = Done (map Inr fs, later)"
  using assms by (intro tcp_conn.reads_in_order) (auto simp: tcp_delivers_def)

text \<open>The session on a WebSocket connection gets the frames that were sent, heart-beats left out, and nothing else.\<close>

theorem ws_session_gets_frames:
  assumes "map read ms = map Inr fs"
  shows "\<exists>rs. conn_reads (ws_ReadFrame read) (length fs) (map Inr ms @ later) = Done (rs, later) \<and>
    snd (readInFrames (map (\<lambda>r. (timeout, to_raw r)) rs)) = map InFrame (List.map_filter id fs)"
  using assms by (intro ws_conn.session_gets_frames) (auto simp: ws_delivers_def)

text \<open>The session on a TCP connection likewise.\<close>

theorem tcp_session_gets_frames:
  assumes "list_all2 (\<lambda>f chunks. frame_chunks parse f chunks []) fs pieces"
  shows "\<exists>rs. conn_reads (tcp_ReadFrame parse) (length fs) (concat pieces @ later) = Done (rs, later) \<and>
    snd (readInFrames (map (\<lambda>r. (timeout, to_raw r)) rs)) = map InFrame (List.map_filter id fs)"
  using assms by (intro tcp_conn.session_gets_frames) (auto simp: tcp_delivers_def)

text \<open>A frame per NUL byte, as an example of a reader.\<close>

definition nul_frames :: "bytes \<Rightarrow> frame_parse" where
  "nul_frames b =
     (case dropWhile (\<lambda>c. c \<noteq> CHR 0x00) b of [] \<Rightarrow> NeedMore
      | _ # rest \<Rightarrow> Parsed (Some (frame_New (takeWhile (\<lambda>c. c \<noteq> CHR 0x00) b) [])) rest)"

theorem tcp_frames_in_order_witness:
  "conn_reads (tcp_ReadFrame nul_frames) 2 [''CON'', ''NECT'' @ [CHR 0x00], ''SEND'' @ [CHR 0x00]] =
     Done ([Inr (Some (frame_New ''CONNECT'' [])), Inr (Some (frame_New ''SEND'' []))], [])"
proof -
  have "frame_chunks nul_frames (Some (frame_New ''CONNECT'' [])) [''CON'', ''NECT'' @ [CHR 0x00]] []"
    "frame_chunks nul_frames (Some (frame_New ''SEND'' [])) [''SEND'' @ [CHR 0x00]] []"
    by (simp_all add: frame_chunks_def nul_frames_def less_Suc_eq)
  then show ?thesis
    using tcp_frames_in_order[of nul_frames "[Some (frame_New ''CONNECT'' []), Some (frame_New ''SEND'' [])]"
        "[[''CON'', ''NECT'' @ [CHR 0x00]], [''SEND'' @ [CHR 0x00]]]" "[]"]
    by (simp add: eval_nat_numeral)
qed

text \<open>
  Two frames in one piece: the reader of the first call takes both from the socket and the second frame
  is lost with it.
\<close>

theorem second_frame_lost:
  "tcp_ReadFrame nul_frames [''SEND'' @ [CHR 0x00] @ ''DISCONNECT'' @ [CHR 0x00]] = Done (Inr (Some (frame_New ''SEND'' [])), []) \<and>
   conn_reads (tcp_ReadFrame nul_frames) 2 [''SEND'' @ [CHR 0x00] @ ''DISCONNECT'' @ [CHR 0x00]] = Block"
  by (simp add: tcp_ReadFrame_def nul_frames_def eval_nat_numeral)

end
