(* ===== verification/PlankRunLaws.thy ===== *)
theory PlankRunLaws
  imports PlankStartLaws ListenersLaws
begin

text \<open>
  A plank server at work: it tells that it is online, shuts down after a signal, sets up the bridges
  of the services that are registered with it, and serves the files of an application from below
  its root folder.
\<close>

section \<open>A server comes up and goes down\<close>

subsection \<open>Telling that the server is reachable\<close>

lemma httpReady_loop_upto:
  assumes "dial m = None" "n \<le> m"
  shows "\<exists>k \<le> m. httpReady_loop dial n = Some k"
  using assms(2)
proof (induction rule: inc_induct)
  case base show ?case using assms(1) by (subst httpReady_loop.simps) auto
next
  case (step n) then show ?case by (subst httpReady_loop.simps) (auto simp: less_imp_le)
qed

lemma httpReady_loop_result: "httpReady_loop dial n = Some k \<Longrightarrow> dial k = None"
  by (rule httpReady_loop.raw_induct[where P="\<lambda>dial _ k. dial k = None"]) (auto split: if_splits)

lemma SendResponseMessage_chans:
  assumes "Channels s n = Some a"
  shows "chans (fst (SendResponseMessage new n p d s)) a =
    Channel_Send (GenerateResponse new (buildConfig new n p d)) (chans s a)"
  using assms by (simp add: SendResponseMessage_def GetChannel_def sendMessageToChannel_def upd_chan_def)

text \<open>A handler that is not for one message only gets every message of its channel.\<close>

lemma Channel_Send_reaches:
  "h \<in> set (ch_eventHandlers ch) \<Longrightarrow> \<not> h_runOnce h \<Longrightarrow> (h, m) \<in> set (ch_inflight (Channel_Send m ch))"
  by (auto simp: Channel_Send_simps spent_def)

text \<open>
  C29. Once an attempt to connect to the port of the server succeeds, \<^verbatim>\<open>StartServer\<close> stops waiting and
  every handler that listens for it on the channel of the server is given the message that the server is
  online. As long as no attempt succeeds the wait does not end.
\<close>

theorem online_announced:
  assumes "Channels s PLANK_SERVER_ONLINE_CHANNEL = Some a" "dial m = None"
  shows "(\<exists>s'. awaitHttp dial new s = Some s' \<and>
       (\<forall>h \<in> set (ch_eventHandlers (chans s a)). \<not> h_runOnce h \<longrightarrow>
          (h, GenerateResponse new (buildConfig new PLANK_SERVER_ONLINE_CHANNEL (GBool True) None)) \<in> set (ch_inflight (chans s' a)))) \<and>
     (\<forall>never. (\<forall>n. never n \<noteq> None) \<longrightarrow> awaitHttp never new s = None)"
proof (intro conjI allI impI)
  let ?m = "GenerateResponse new (buildConfig new PLANK_SERVER_ONLINE_CHANNEL (GBool True) None)"
  from httpReady_loop_upto[of dial m 0, OF assms(2) le0] have "awaitHttp dial new s = Some (notifyOnline new True s)"
    by (auto simp: awaitHttp_def)
  moreover have "chans (notifyOnline new True s) a = Channel_Send ?m (chans s a)"
    using SendResponseMessage_chans[OF assms(1)] by (simp add: notifyOnline_def)
  ultimately show "\<exists>s'. awaitHttp dial new s = Some s' \<and>
      (\<forall>h \<in> set (ch_eventHandlers (chans s a)). \<not> h_runOnce h \<longrightarrow> (h, ?m) \<in> set (ch_inflight (chans s' a)))"
    by (simp add: Channel_Send_reaches)
  fix never :: "nat \<Rightarrow> error option" assume "\<forall>n. never n \<noteq> None"
  then show "awaitHttp never new s = None"
    using httpReady_loop_result[of never 0] by (cases "httpReady_loop never 0") (simp_all only: awaitHttp_def option.map, blast)
qed

text \<open>A process in which only the channel of the server exists, with a handler that a component subscribed.\<close>

definition ex_online :: plankServer where
  "ex_online = upd_chan 0 (subscribeHandler (UserFn 5) False ''watch'')
     (fresh_process\<lparr>Channels := [PLANK_SERVER_ONLINE_CHANNEL \<mapsto> 0], chans := (\<lambda>_. NewChannel PLANK_SERVER_ONLINE_CHANNEL), nextChan := 1\<rparr>)"

theorem online_announced_witness:
  "\<exists>s' h. awaitHttp (\<lambda>n. if n < 3 then Some ''connection refused'' else None) ''m'' ex_online = Some s' \<and> h_callBackFunction h = UserFn 5 \<and>
     (h, GenerateResponse ''m'' (buildConfig ''m'' PLANK_SERVER_ONLINE_CHANNEL (GBool True) None)) \<in> set (ch_inflight (chans s' 0))"
proof -
  have c: "Channels ex_online PLANK_SERVER_ONLINE_CHANNEL = Some 0" by (simp add: ex_online_def upd_chan_def)
  have "\<exists>h \<in> set (ch_eventHandlers (chans ex_online 0)). \<not> h_runOnce h \<and> h_callBackFunction h = UserFn 5"
    by (simp add: ex_online_def upd_chan_def subscribeHandler_def)
  then show ?thesis
    using online_announced[OF c, of "\<lambda>n. if n < 3 then Some ''connection refused'' else None" 3 "''m''"] by auto
qed

subsection \<open>Shutting down\<close>

definition has_hooks :: "service_hooks \<Rightarrow> addr \<Rightarrow> 'b svcBus_scheme \<Rightarrow> string \<Rightarrow> bool" where
  "has_hooks Hooks r s c \<longleftrightarrow> (\<exists>svc. GetService r c s = Inr svc \<and> lifecycleHooks Hooks svc \<noteq> None)"

lemma hooked_services_filter: "hooked_services Hooks (Some r) cs s = Done (filter (has_hooks Hooks r s) cs)"
  by (induction cs) (auto simp: GetServiceHooks_def has_hooks_def split: sum.splits)

lemma notifyOnline_frame:
  "svc_part (notifyOnline new b s) = svc_part s" "fabEndpoint (notifyOnline new b s) = fabEndpoint s"
  "feHeap (notifyOnline new b s) = feHeap s" "ps_ServerAvailability (notifyOnline new b s) = ps_ServerAvailability s"
  "ps_fabricConn (notifyOnline new b s) = ps_fabricConn s" "ps_serverConfig (notifyOnline new b s) = ps_serverConfig s"
  by (simp_all add: notifyOnline_def SendResponseMessage_def sendMessageToChannel_def svc_part_def upd_chan_def split: sum.split)

lemma svc_part_services:
  assumes "svc_part s' = svc_part s"
  shows "GetAllServiceChannels r s' = GetAllServiceChannels r s" "has_hooks Hooks r s' = has_hooks Hooks r s"
proof -
  have "GetService r c s' = GetService r c s" for c using svc_part_eq[OF assms] by (simp add: GetService_def split: option.split)
  then show "has_hooks Hooks r s' = has_hooks Hooks r s" by (simp add: has_hooks_def[abs_def])
  show "GetAllServiceChannels r s' = GetAllServiceChannels r s" using svc_part_eq[OF assms] by (simp add: GetAllServiceChannels_def)
qed


text \<open>Starting the broker gives an endpoint that runs.\<close>

lemma startBroker_runs:
  assumes "pc_FabricConfig (ps_serverConfig s) = Some fc" "fb_EndpointConfig fc = Some ec" "validate ec = None" "fabEndpoint s = None"
  shows "\<exists>s1 e. startBroker s = Done s1 \<and> sa_Fabric (ps_ServerAvailability s1) \<and> fabEndpoint s1 = Some e \<and>
    sv_running (fe_server (feHeap s1 e)) \<and> sv_apiEvents (fe_server (feHeap s1 e)) = [] \<and> svc_part s1 = svc_part s \<and> ps_fabricConn s1 = ps_fabricConn s"
  using assms
  by (simp add: startBroker_def StartFabricEndpoint_def Let_def ep_Start_def server_Start_def newFabricEndpoint_def initHandlers_def NewStompServer_def
      SetConnectionEventCallback_def OnSubscribeEvent_def OnUnsubscribeEvent_def OnApplicationRequest_def svc_part_def newStoreSyncService_def
      AddMonitorEventListener_def case_prod_beta)


section \<open>A registered service gets its bridges\<close>

text \<open>The identity of the bus and its stores, which registering a service and setting up a bridge leave alone.\<close>

definition store_part :: "'b svcBus_scheme \<Rightarrow> _" where
  "store_part s = (eb_Id s, stores s, storeHeap s)"

lemma store_part_eq: "store_part s' = store_part s \<Longrightarrow> eb_Id s' = eb_Id s \<and> stores s' = stores s \<and> storeHeap s' = storeHeap s"
  by (simp add: store_part_def)

lemma store_part_bus [simp]:
  "store_part (upd_chan a f s) = store_part s" "store_part (fst (CreateChannel n s)) = store_part s" "store_part (Handle newS h f1 f2 s) = store_part s"
  "store_part (fst (SendResponseMessage new n p d1 s)) = store_part s" "store_part (upd_sw w g s) = store_part s" "store_part (upd_reg r k s) = store_part s"
  "store_part (fst (newServiceWrapper svc n s)) = store_part s" "store_part (fst (ListenRequestStream newH n s)) = store_part s"
  "store_part (fst (ListenStream newH n s)) = store_part s"
  by (auto simp: store_part_def upd_chan_def SendMonitorEvent_def go_SendMonitorEvent_def upd_mh_def CreateChannel_def Handle_def upd_sw_def upd_reg_def
      SubscribeChannelHandler_def SendResponseMessage_def sendMessageToChannel_def newServiceWrapper_def ListenRequestStream_def ListenStream_def
      wrapMessageHandler_def Let_def split: option.split sum.split)

lemma sw_init_store:
  assumes "sw_init Init newH newS w s = Done (s', e)" "initializationService Init (sw_service (wrappers s w)) = None"
  shows "store_part s' = store_part s"
  using assms store_part_bus(8)[of newH _ "fst (CreateChannel _ s)"]
  by (auto simp: sw_init_def Let_def split: prod.splits sum.splits) (metis fst_conv store_part_bus(2,8))+

lemma store_part_plank [simp]:
  "store_part (s\<lparr>ps_serviceChanToBridgeEndpoints := c\<rparr>) = store_part s" "store_part (s\<lparr>ps_messageBridgeMap := m\<rparr>) = store_part s"
  "store_part (addBridge k ch p ms b s) = store_part s"
  by (simp_all add: store_part_def addBridge_def add_route_def Let_def)

lemma openBridge_store: "openBridge newH newS ch s = Done s' \<Longrightarrow> store_part s' = store_part s"
  using store_part_bus(9)[of newH ch s]
  by (cases "ListenStream newH ch s") (auto simp: openBridge_def Let_def split: if_splits sum.splits option.splits)

lemma SetHttpChannelBridge_store: "SetHttpChannelBridge newH newS c s = Done s' \<Longrightarrow> store_part s' = store_part s"
  by (auto simp: SetHttpChannelBridge_def Let_def go_simps split: if_splits dest!: openBridge_store)

lemma set_bridges_store: "set_bridges ids configs s = Done s' \<Longrightarrow> store_part s' = store_part s"
proof (induction configs arbitrary: ids s)
  case (Cons c cs)
  then show ?case by (cases ids) (auto simp: go_simps dest!: SetHttpChannelBridge_store)
qed simp

definition bridge_request :: "uuid \<Rightarrow> uuid \<Rightarrow> string \<Rightarrow> RESTBridgeConfig list \<Rightarrow> Message" where
  "bridge_request newM bus n configs = GenerateResponse newM (buildConfig newM LifecycleManagerChannelName
     (GSetupREST (SetupRESTBridgeRequest n False configs)) (Some bus))"

text \<open>A service with hooks that is added to the registry: the request for its bridges goes to the channel of the lifecycle manager.\<close>

lemma announceHooks_sends:
  assumes "internalServices n \<noteq> Some True" "svcLifecycleManagerInstance s = Some (Some r)" "sr_lifecycleManager (registries s r) = None"
    and "GetService r n s = Inr (UserService k)" "Hooks k = Some configs" "Channels s LifecycleManagerChannelName = Some la"
  shows "announceHooks Hooks newM r n s = Done (upd_chan la (Channel_Send (bridge_request newM (eb_Id s) n configs)) s, None)"
  using assms
  by (simp add: announceHooks_def Let_def GetServiceLifecycleManager_def GetServiceHooks_def SendResponseMessage_def GetChannel_def
      sendMessageToChannel_def bridge_request_def)

lemma register_announces:
  fixes s :: "'b plankBus_scheme"
  assumes inv: "svc_inv r s" and new: "map_of (sr_services (registries s r)) n = None"
    and lm: "svcLifecycleManagerInstance s = Some (Some r)" "sr_lifecycleManager (registries s r) = None"
    and k: "Init k = None" "Hooks k = Some configs" and fresh: "fresh_id newS s"
    and n: "n \<noteq> LifecycleManagerChannelName" "internalServices n \<noteq> Some True" and la: "Channels s LifecycleManagerChannelName = Some la"
  shows "\<exists>s'. ps_RegisterService Init Hooks newH newS newM r (Some (UserService k)) n s = Done (s', None) \<and>
    chans s' la = Channel_Send (bridge_request newM (eb_Id s) n configs) (chans s la) \<and>
    (\<forall>h < nextMH s. mhandlers s' h = mhandlers s h) \<and> Channels s' n \<noteq> None \<and> chan_inv s' \<and>
    GetService r n s' = Inr (UserService k) \<and> plank_part s' = plank_part s \<and> store_part s' = store_part s"
proof -
  define w where "w = nextWrapper s"
  define sw where "sw = \<lparr>sw_service = UserService k, sw_fabricCore = \<lparr>fc_channelName = n, fc_headers = []\<rparr>, sw_requestMsgHandler = None\<rparr>"
  define s0 where "s0 = upd_reg r (\<lambda>reg. reg\<lparr>sr_locked := True\<rparr>) s"
  define s1 where "s1 = s0\<lparr>wrappers := (wrappers s)(w := sw), nextWrapper := Suc w\<rparr>"
  have s1: "newServiceWrapper (UserService k) n s0 = (s1, w)" by (simp add: newServiceWrapper_def Let_def s1_def s0_def w_def sw_def)
  have s1_parts: "plank_part s1 = plank_part s" "store_part s1 = store_part s"
    by (simp_all add: s1_def s0_def plank_part_def store_part_def upd_reg_def)
  have pre: "chan_inv s1" "initializationService Init (sw_service (wrappers s1 w)) = None" "fc_channelName (sw_fabricCore (wrappers s1 w)) = n" "fresh_id newS s1"
    using inv k(1) fresh by (simp_all add: s1_def s0_def sw_def svc_inv_def chan_inv_def fresh_id_def)
  obtain s2 where s2: "sw_init Init newH newS w s1 = Done (s2, None)" "chan_inv s2" "service_live n w s2"
    "wrappers s2 = (wrappers s1)(w := (wrappers s1 w)\<lparr>sw_requestMsgHandler := Some (nextMH s1)\<rparr>)" "registries s2 = registries s1"
    "svcLifecycleManagerInstance s2 = svcLifecycleManagerInstance s1"
    "\<And>m b. Channels s1 m = Some b \<Longrightarrow> Channels s2 m = Some b \<and>
       chans s2 b = (if m = n then subscribeHandler (WrapperFn (nextMH s1)) False newS (chans s1 b) else chans s1 b)"
    using sw_init_live[OF pre, of newH] by blast
  have mh2: "mhandlers s2 h = mhandlers s h" if "h < nextMH s" for h
    using sw_init_spec[OF pre(1-3) refl, of newH newS] s2(1) that by (auto simp: s1_def s0_def)
  define s3 where "s3 = upd_reg r (\<lambda>reg. reg\<lparr>sr_services := AList.update n w (sr_services reg)\<rparr>) s2"
  have la2: "Channels s2 LifecycleManagerChannelName = Some la" "chans s2 la = chans s la"
    using s2(7)[of LifecycleManagerChannelName la] la n(1) by (simp_all add: s1_def s0_def)
  have s3: "svcLifecycleManagerInstance s3 = Some (Some r)" "sr_lifecycleManager (registries s3 r) = None" "GetService r n s3 = Inr (UserService k)"
    "Channels s3 LifecycleManagerChannelName = Some la" "store_part s3 = store_part s" "plank_part s3 = plank_part s"
    using lm s2(4,5,6) la2(1) s1_parts sw_init_store[OF s2(1) pre(2)] sw_init_plank(1)[OF s2(1) pre(2)]
    by (simp_all add: s3_def s1_def s0_def sw_def GetService_def update_conv plank_more_svc)
  define m where "m = bridge_request newM (eb_Id s) n configs"
  have a: "announceHooks Hooks newM r n s3 = Done (upd_chan la (Channel_Send m) s3, None)"
    using announceHooks_sends[where s=s3 and newM=newM and Hooks=Hooks and k=k, OF n(2) s3(1-3) k(2) s3(4)] store_part_eq[OF s3(5)] by (simp add: m_def)
  define s' where "s' = upd_reg r (\<lambda>reg. reg\<lparr>sr_locked := False\<rparr>) (upd_chan la (Channel_Send m) s3)"
  have reg: "RegisterService Init Hooks newH newS newM r (Some (UserService k)) n s = Done (s', None)"
    using inv new s1 s2(1) a by (simp add: RegisterService_def addService_def svc_inv_def Let_def s'_def flip: s0_def s3_def) (simp add: s0_def)
  have gs: "GetService r n s' = Inr (UserService k)" "svcLifecycleManagerInstance s' = Some (Some r)"
    using s3(1,3) by (simp_all add: s'_def GetService_def upd_reg_def upd_chan_def split: option.splits)
  then have "ps_RegisterService Init Hooks newH newS newM r (Some (UserService k)) n s = Done (s', None)"
    using k(2) by (simp add: ps_RegisterService_def reg Let_def GetServiceLifecycleManager_def GetServiceHooks_def)
  moreover have "chans s' la = Channel_Send m (chans s la)" using la2(2) by (simp add: s'_def s3_def upd_chan_def)
  moreover have "chan_inv s3" using s2(2) by (simp add: s3_def chan_inv_def)
  then have "chan_inv (upd_chan la (Channel_Send m) s3)"
    by (intro chan_inv_upd) (simp_all add: chan_wfD Channel_Send_simps channel_wf_send)
  then have "chan_inv s'" by (simp add: s'_def chan_inv_def)
  moreover have "Channels s' n \<noteq> None" using s2(3) by (auto simp: s'_def s3_def service_live_def)
  moreover have "\<forall>h < nextMH s. mhandlers s' h = mhandlers s h" using mh2 by (simp add: s'_def s3_def)
  ultimately show ?thesis using gs s3(5,6) by (auto simp: m_def s'_def plank_more_svc)
qed

text \<open>Carrying out the request.\<close>

lemma bridges_inv_plank:
  assumes "bridges_inv s" "plank_part s' = plank_part s" "chan_inv s'"
  shows "bridges_inv s'"
  using assms(1,3) plank_part_eq[OF assms(2)] unfolding bridges_inv_def bridge_of_def bridge_keys_def chan_inv_def by auto

lemma markReady_local:
  assumes "GetStore ServiceReadyStore s = Some a" "\<not> st_isGalactic (storeHeap s a)"
  shows "\<exists>s'. markReady n b s = Done s' \<and> Get n (storeHeap s' a) = Some (GBool b) \<and> (bridges_inv s \<longrightarrow> bridges_inv s') \<and>
    ps_endpointHandlerMap s' = ps_endpointHandlerMap s"
  using assms
  by (simp add: markReady_def Put_def putInternal_def Let_def Get_def upd_store_def update_conv bridges_inv_def bridge_of_def bridge_keys_def)

lemma setup_bridges_runs:
  assumes "bridges_inv s" "GetService r n s = Inr (UserService k)" "Hooks k = Some configs" "\<forall>c \<in> set configs. Channels s (rb_ServiceChannel c) \<noteq> None"
    and st: "GetStore ServiceReadyStore s = Some a" "\<not> st_isGalactic (storeHeap s a)" "Get n (storeHeap s a) \<in> {None, Some (GBool False), Some (GBool True)}"
    and ready: "ready n = Some True"
  shows "\<exists>s'. runSetupBridges Hooks ready ids (Some r) (bridge_request newM bus n configs) s = Done s' \<and> bridges_inv s' \<and>
    ps_endpointHandlerMap s' = configured configs (ps_endpointHandlerMap s) \<and> Get n (storeHeap s' a) = Some (GBool True)"
proof -
  obtain s2 where s2: "set_bridges ids configs s = Done s2" "bridges_inv s2" "ps_endpointHandlerMap s2 = configured configs (ps_endpointHandlerMap s)"
    using set_bridges_spec[OF assms(1,4), of ids] by blast
  have st2: "GetStore ServiceReadyStore s2 = Some a" "storeHeap s2 = storeHeap s"
    using store_part_eq[OF set_bridges_store[OF s2(1)]] st(1) by (simp_all add: GetStore_def)
  obtain s3 where s3: "markReady n True s2 = Done s3" "Get n (storeHeap s3 a) = Some (GBool True)" "bridges_inv s3"
    "ps_endpointHandlerMap s3 = ps_endpointHandlerMap s2"
    using markReady_local[of s2 a n True] st2 st(2) s2(2) by auto
  have p: "msg_Payload (bridge_request newM bus n configs) = GSetupREST (SetupRESTBridgeRequest n False configs)"
    by (simp add: bridge_request_def generate_defs buildConfig_def)
  have "runSetupBridges Hooks ready ids (Some r) (bridge_request newM bus n configs) s =
      (if Get n (storeHeap s a) = Some (GBool True) then Done s2 else Done s3)"
    using st(3) by (auto simp: runSetupBridges_def p Let_def GetServiceHooks_def assms(2,3) s2(1) st(1) st2(2) waitReady_def ready s3(1))
  then show ?thesis using s2 s3 st2(2) by (cases "Get n (storeHeap s a) = Some (GBool True)") auto
qed


text \<open>A process with a server that listens for bridges, no service yet, and the store of ready services.\<close>

definition ex_ready :: plankBus where
  "ex_ready = (init_plankBus ''b'')\<lparr>Channels := [LifecycleManagerChannelName \<mapsto> 0],
     chans := (\<lambda>_. subscribeHandler (WrapperFn 0) False ''ls'' (NewChannel LifecycleManagerChannelName)), nextChan := 1,
     mhandlers := (\<lambda>_. lcm_handler ''l'' ''ls'' ''b'' 0), nextMH := 1, registryInstance := Some 0, svcLifecycleManagerInstance := Some (Some 0),
     stores := [ServiceReadyStore \<mapsto> 0], storeHeap := (\<lambda>_. newStoreObject ServiceReadyStore (Some TBool) None), nextStore := 1\<rparr>"

lemma ex_ready_fields:
  "Channels ex_ready = [LifecycleManagerChannelName \<mapsto> 0]" "nextChan ex_ready = 1" "nextMH ex_ready = 1"
  "chans ex_ready = (\<lambda>_. subscribeHandler (WrapperFn 0) False ''ls'' (NewChannel LifecycleManagerChannelName))"
  "mhandlers ex_ready = (\<lambda>_. lcm_handler ''l'' ''ls'' ''b'' 0)" "eb_Id ex_ready = ''b''" "monitor ex_ready = newMonitor"
  "sr_services (registries ex_ready 0) = []" "\<not> sr_locked (registries ex_ready 0)" "sr_lifecycleManager (registries ex_ready 0) = None"
  "registryInstance ex_ready = Some 0" "svcLifecycleManagerInstance ex_ready = Some (Some 0)" "stores ex_ready = [ServiceReadyStore \<mapsto> 0]"
  "storeHeap ex_ready = (\<lambda>_. newStoreObject ServiceReadyStore (Some TBool) None)"
  "ps_endpointHandlerMap ex_ready = Map.empty" "ps_serviceChanToBridgeEndpoints ex_ready = Map.empty" "ps_messageBridgeMap ex_ready = Some Map.empty"
  by (simp_all add: ex_ready_def init_plankBus_def init_svcBus_def init_fabBus_def init_syncBus_def init_txBus_def init_storeBus_def init_bus_def
      svcBus.defs fabBus.defs syncBus.defs txBus.defs storeBus.defs transportEventBus.defs)

lemma ex_ready_inv: "svc_inv 0 ex_ready" "lcm_listening ex_ready" "bridges_inv ex_ready" "fresh_id ''s'' ex_ready"
proof -
  have "chan_inv ex_ready"
    by (auto simp: chan_inv_def ex_ready_fields newMonitor_wf subscribeHandler_name NewChannel_def split: if_splits
        intro!: channel_wf_subscribe channel_wf_new[unfolded NewChannel_def])
  then show "svc_inv 0 ex_ready" by (simp add: svc_inv_def ex_ready_fields)
  show "lcm_listening ex_ready"
    by (auto simp: lcm_listening_def ex_ready_fields handler_set_def subscribeHandler_def)
  show "bridges_inv ex_ready" by (simp add: bridges_inv_def ex_ready_fields bridge_keys_def subscribeHandler_name NewChannel_def)
  show "fresh_id ''s'' ex_ready" by (simp add: fresh_id_def ex_ready_fields subscribeHandler_def NewChannel_def)
qed


section \<open>Files of a single page application\<close>

definition path_parts :: "string \<Rightarrow> string list" where
  "path_parts p = clean_parts (IsAbs p) [] (split_on CHR ''/'' p)"

definition render_path :: "bool \<Rightarrow> string list \<Rightarrow> string" where
  "render_path rooted parts = (let out = Join parts ''/'' in if rooted then ''/'' @ out else if out = '''' then ''.'' else out)"

lemma Clean_render: "p \<noteq> '''' \<Longrightarrow> Clean p = render_path (IsAbs p) (path_parts p)"
  by (simp add: Clean_def render_path_def path_parts_def)

lemma split_on_slash: "split_on c (a @ c # b) = split_on c a @ split_on c b"
  by (induction a) (auto split: list.splits)

lemma split_on_free: "c \<notin> set s \<Longrightarrow> split_on c s = [s]"
  by (induction s) auto

lemma split_on_parts: "p \<in> set (split_on c s) \<Longrightarrow> c \<notin> set p"
  by (induction s arbitrary: p) (auto split: if_splits list.splits)

lemma clean_parts_append: "clean_parts b out (xs @ ys) = clean_parts b (rev (clean_parts b out xs)) ys"
  by (induction b out xs rule: clean_parts.induct) (auto split: list.splits)

text \<open>A part that names an entry of a directory.\<close>

definition plain :: "string \<Rightarrow> bool" where
  "plain p \<longleftrightarrow> p \<noteq> '''' \<and> p \<noteq> ''.'' \<and> p \<noteq> ''..''"

lemma clean_parts_plain: "\<forall>p \<in> set ps. plain p \<Longrightarrow> clean_parts b out ps = rev out @ ps"
  by (induction ps arbitrary: out) (auto simp: plain_def)

lemma clean_parts_rooted:
  assumes "\<forall>p \<in> set out. plain p" "p \<in> set (clean_parts True out ps)"
  shows "plain p \<and> (p \<in> set out \<or> p \<in> set ps)"
  using assms
proof (induction ps arbitrary: out)
  case (Cons q ps)
  consider "q = '''' \<or> q = ''.''" | "q = ''..''" | "plain q" by (auto simp: plain_def)
  then show ?case
  proof cases
    case 1 then show ?thesis using Cons.IH[of out] Cons.prems by auto
  next
    case 2
    have "plain p \<and> (p \<in> set (tl out) \<or> p \<in> set ps)"
      using Cons.IH[of "tl out"] Cons.prems 2 by (cases out) (auto simp: plain_def)
    then show ?thesis by (cases out) auto
  next
    case 3 then show ?thesis using Cons.IH[of "q # out"] Cons.prems by (auto simp: plain_def)
  qed
qed simp

lemma split_Join:
  assumes "ps \<noteq> []" "\<forall>p \<in> set ps. CHR ''/'' \<notin> set p"
  shows "split_on CHR ''/'' (Join ps ''/'') = ps"
  using assms by (induction ps rule: list_nonempty_induct) (auto simp: split_on_free split_on_slash[of _ _ "Join _ _"] neq_Nil_conv)

text \<open>
  C33. The file that is served for the path of a URL lies below the root folder of the application: its
  path consists of that of the folder and further parts, none of which is a step up. A
  path without an extension gets the start page.
\<close>

theorem spa_file_below_root:
  assumes "rootFolder \<noteq> ''''" "IsAbs urlPath"
  shows "\<exists>rest. spaFile rootFolder urlPath = render_path (IsAbs rootFolder) (path_parts rootFolder @ rest) \<and> (\<forall>p \<in> set rest. plain p \<and> CHR ''/'' \<notin> set p) \<and>
     (filepath_Ext urlPath = '''' \<longrightarrow> rest = [''index.html''])"
proof -
  have join: "filepath_Join [rootFolder, resource] = render_path (IsAbs rootFolder) (path_parts rootFolder @ rest)"
    if "split_on CHR ''/'' resource = e @ rest" "\<forall>p \<in> set rest. plain p" "e \<in> {[], [''''], ['''', '''']}" for resource rest e
  proof -
    have abs: "IsAbs (rootFolder @ CHR ''/'' # resource) = IsAbs rootFolder" using assms(1) by (cases rootFolder) (auto simp: IsAbs_def HasPrefix_iff)
    have "filepath_Join [rootFolder, resource] = Clean (rootFolder @ CHR ''/'' # resource)"
      using assms(1) by (simp add: filepath_Join_def)
    also have "\<dots> = render_path (IsAbs rootFolder) (clean_parts (IsAbs rootFolder) [] (split_on CHR ''/'' rootFolder @ e @ rest))"
      using that(1) abs by (simp add: Clean_render path_parts_def split_on_slash)
    also have "clean_parts (IsAbs rootFolder) [] (split_on CHR ''/'' rootFolder @ e @ rest) = path_parts rootFolder @ rest"
      using that(2,3) by (auto simp: clean_parts_append path_parts_def clean_parts_plain)
    finally show ?thesis .
  qed
  show ?thesis
  proof (cases "filepath_Ext urlPath = ''''")
    case True
    have "split_on CHR ''/'' ''index.html'' = [] @ [''index.html'']" "plain ''index.html''" by (simp_all add: plain_def)
    then show ?thesis using join[of "''index.html''" "[]" "[''index.html'']"] True by (auto simp: spaFile_def)
  next
    case False
    let ?ps = "path_parts urlPath"
    have ps: "plain p \<and> CHR ''/'' \<notin> set p" if "p \<in> set ?ps" for p
      using clean_parts_rooted[of "[]" p "split_on CHR ''/'' urlPath"] split_on_parts[of p "CHR ''/''" urlPath] that assms(2) by (auto simp: path_parts_def)
    have "urlPath \<noteq> ''''" using assms(2) by (auto simp: IsAbs_def HasPrefix_iff)
    then have c: "Clean urlPath = CHR ''/'' # Join ?ps ''/''" using assms(2) by (simp add: Clean_render render_path_def)
    have "\<exists>e \<in> {[], [''''], ['''', '''']}. split_on CHR ''/'' (Clean urlPath) = e @ ?ps"
      using split_Join[of ?ps] ps c by (cases "?ps = []") auto
    then show ?thesis using join[of "Clean urlPath" _ ?ps] ps False by (auto simp: spaFile_def)
  qed
qed

theorem spa_file_below_root_witness:
  "spaFile ''/srv/app'' ''/../../etc/pass.wd'' = ''/srv/app/etc/pass.wd'' \<and>
   (\<exists>rest. spaFile ''/srv/app'' ''/../../etc/pass.wd'' = render_path True (path_parts ''/srv/app'' @ rest))"
proof -
  have "IsAbs ''/../../etc/pass.wd''" "IsAbs ''/srv/app''" "spaFile ''/srv/app'' ''/../../etc/pass.wd'' = ''/srv/app/etc/pass.wd''" by code_simp+
  then show ?thesis using spa_file_below_root[of "''/srv/app''" "''/../../etc/pass.wd''"] by auto
qed

end
