(* ===== verification/SampleServicesLaws.thy ===== *)
theory SampleServicesLaws
  imports StockTicker PlankRunLaws
begin

text \<open>
  Laws of the services that come with plank: the tickers of the stock service, the words of the
  stream, and a request to the ping-pong service from HTTP over the bus and back.
\<close>

section \<open>Tickers\<close>

definition client_of :: "StockTickerService \<Rightarrow> addr \<Rightarrow> string option" where
  "client_of st t = map_option bd_ConnectionId (req_BrokerDestination (snd (tk_job st t)))"

definition ticker_inv :: "StockTickerService \<Rightarrow> bool" where
  "ticker_inv st \<longleftrightarrow> (\<forall>c t. map_of (tickerListenersMap st) c = Some t \<longrightarrow> t < tk_next st \<and> client_of st t = Some c) \<and>
     (\<forall>t. tk_running st t \<longrightarrow> (\<exists>c. map_of (tickerListenersMap st) c = Some t)) \<and> keys_distinct (tickerListenersMap st)"

text \<open>What happens to the service: a request, an event of a session, the shutdown of the server.\<close>

inductive ticker_step :: "StockTickerService \<Rightarrow> StockTickerService \<Rightarrow> bool" where
  request: "ticker_HandleServiceRequest env new req core st (s :: busState) = Done (st', s') \<Longrightarrow> ticker_step st st'"
| session: "onSessionEvent m st = Done st' \<Longrightarrow> ticker_step st st'"
| shutdown: "ticker_step st (ticker_OnServerShutdown st)"

inductive_cases ticker_stepE: "ticker_step st st'"

lemma ticker_invD:
  assumes "ticker_inv st"
  shows "map_of (tickerListenersMap st) c = Some t \<Longrightarrow> t < tk_next st \<and> client_of st t = Some c"
    "tk_running st t \<Longrightarrow> \<exists>c. map_of (tickerListenersMap st) c = Some t" "keys_distinct (tickerListenersMap st)"
  using assms unfolding ticker_inv_def by blast+

lemma stop_ticker_inv: "ticker_inv st \<Longrightarrow> ticker_inv (stop_ticker t st)"
  by (auto simp: ticker_inv_def stop_ticker_def client_of_def)

lemma stop_all: "ticker_inv st \<Longrightarrow> ticker_inv (fold stop_ticker ts st)"
  "tk_running (fold stop_ticker ts st) t \<longleftrightarrow> tk_running st t \<and> t \<notin> set ts"
  "tickerListenersMap (fold stop_ticker ts st) = tickerListenersMap st"
  by (induction ts arbitrary: st) (auto simp: stop_ticker_inv, auto simp: stop_ticker_def split: if_splits)

lemma subscribe_inv:
  assumes "ticker_inv st" "subscribeToTickerUpdates symbol request st = Done st'"
  shows "ticker_inv st'"
proof -
  obtain dest where d: "req_BrokerDestination request = Some dest" using assms(2) by (auto simp: subscribeToTickerUpdates_def split: option.splits)
  let ?c = "bd_ConnectionId dest"
  define st1 where "st1 = (case map_of (tickerListenersMap st) ?c of Some t \<Rightarrow> stop_ticker t st | None \<Rightarrow> st)"
  have st1: "tickerListenersMap st1 = tickerListenersMap st" "tk_next st1 = tk_next st" "tk_job st1 = tk_job st"
    "\<And>t. tk_running st1 t \<longleftrightarrow> tk_running st t \<and> map_of (tickerListenersMap st) ?c \<noteq> Some t"
    by (auto simp: st1_def stop_ticker_def split: option.split)
  have st': "st' = st1\<lparr>tk_running := (tk_running st1)(tk_next st1 := True), tk_job := (tk_job st1)(tk_next st1 := (symbol, request)),
      tk_next := Suc (tk_next st1), tickerListenersMap := AList.update ?c (tk_next st1) (tickerListenersMap st1)\<rparr>"
    using assms(2) d by (simp add: subscribeToTickerUpdates_def Let_def st1_def)
  show ?thesis
    unfolding ticker_inv_def
  proof (intro conjI allI impI)
    fix c t assume "map_of (tickerListenersMap st') c = Some t"
    then have "if c = ?c then t = tk_next st else map_of (tickerListenersMap st) c = Some t"
      by (auto simp: st' st1 update_conv split: if_splits)
    then show "t < tk_next st'" "client_of st' t = Some c"
      using assms(1) d by (auto simp: st' st1 ticker_inv_def client_of_def less_Suc_eq split: if_splits)
  next
    fix t assume r: "tk_running st' t"
    show "\<exists>c. map_of (tickerListenersMap st') c = Some t"
    proof (cases "t = tk_next st")
      case True then show ?thesis by (auto simp: st' st1 update_conv)
    next
      case False
      then have "tk_running st t" "map_of (tickerListenersMap st) ?c \<noteq> Some t" using r by (simp_all add: st' st1)
      then obtain c where "map_of (tickerListenersMap st) c = Some t" "c \<noteq> ?c" using ticker_invD(2)[OF assms(1)] by metis
      then show ?thesis by (auto simp: st' st1 update_conv)
    qed
  qed (use assms(1) in \<open>simp add: st' st1 ticker_inv_def distinct_update\<close>)
qed

lemma session_inv:
  assumes "ticker_inv st" "onSessionEvent m st = Done st'"
  shows "ticker_inv st'"
proof (cases "st' = st")
  case False
  obtain evt where "msg_Payload m = GSessionEvent evt" using assms(2) by (auto simp: onSessionEvent_def split: gval.splits)
  moreover define c where "c = sse_Id evt"
  ultimately obtain t0 where t0: "map_of (tickerListenersMap st) c = Some t0" "st' = (stop_ticker t0 st)\<lparr>tickerListenersMap := AList.delete c (tickerListenersMap st)\<rparr>"
    using assms(2) False by (cases "map_of (tickerListenersMap st) c") (simp_all add: onSessionEvent_def split: if_splits)
  have del: "map_of (tickerListenersMap st') n = (if n = c then None else map_of (tickerListenersMap st) n)" for n
    by (simp add: t0(2) delete_conv')
  have f: "tk_next st' = tk_next st" "client_of st' = client_of st" "\<And>t. tk_running st' t \<longleftrightarrow> tk_running st t \<and> t \<noteq> t0" "keys_distinct (tickerListenersMap st')"
    using ticker_invD(3)[OF assms(1)] by (auto simp: t0(2) stop_ticker_def client_of_def[abs_def] distinct_delete)
  show ?thesis
    unfolding ticker_inv_def
  proof (intro conjI allI impI)
    fix n t assume "map_of (tickerListenersMap st') n = Some t"
    then show "t < tk_next st'" "client_of st' t = Some n" using ticker_invD(1)[OF assms(1)] by (auto simp only: del f split: if_splits)
  next
    fix t assume "tk_running st' t"
    then obtain n where "map_of (tickerListenersMap st) n = Some t" "n \<noteq> c" using ticker_invD(2)[OF assms(1)] f(3) t0(1) by (metis option.inject)
    then show "\<exists>c. map_of (tickerListenersMap st') c = Some t" using del by metis
  qed (rule f(4))
qed (use assms(1) in simp)

lemma ticker_step_inv: "ticker_step st st' \<Longrightarrow> ticker_inv st \<Longrightarrow> ticker_inv st'"
proof (induction rule: ticker_step.induct)
  case (request env new req core st s st' s')
  then show ?case
    by (auto simp: ticker_HandleServiceRequest_def go_simps split: if_splits gval.splits sum.splits option.splits intro: subscribe_inv)
qed (auto simp: session_inv ticker_OnServerShutdown_def stop_all)

lemma new_ticker_inv: "ticker_inv NewStockTickerService"
  by (simp add: ticker_inv_def NewStockTickerService_def)


definition ex_stock_env :: stock_env where
  "ex_stock_env = \<lparr>sk_refuses = (\<lambda>_ _. None), sk_encode = (\<lambda>_. ''symbol=VMW''), sk_api = (\<lambda>_. Inr (Inr ''{}'')),
     sk_decode = (\<lambda>_. Inr \<lparr>td_CurrentPrice = 100, td_Change = 0, td_PercentChange = 0, td_HighDayPrice = 0, td_LowDayPrice = 0, td_OpenPrice = 0,
       td_PreviousClosePrice = 0, td_LastUpdated = 0\<rparr>), sk_date = (\<lambda>_. ''today'')\<rparr>"

definition ex_ticker_request :: "gval Request" where
  "ex_ticker_request = Request (Some ''r'') 0 0 '''' (GMap [(''symbol'', GString ''VMW'')]) ''ticker_price_update_stream''
     (Some (BrokerDestinationConfig ''/queue/stock'' ''conn-1''))"

definition ex_ticker :: StockTickerService where
  "ex_ticker = \<lparr>tickerListenersMap = [(''conn-1'', 0)], tk_running = (\<lambda>_. False)(0 := True), tk_job = (\<lambda>_. ('''', zero_Request))(0 := (''VMW'', ex_ticker_request)), tk_next = 1\<rparr>"

lemma ex_ticker_reached: "ticker_step\<^sup>*\<^sup>* NewStockTickerService ex_ticker"
proof -
  have "\<exists>r. queryStockTickerAPI ex_stock_env ''VMW'' = Inr r" by (simp add: queryStockTickerAPI_def newTickerRequest_def ex_stock_env_def)
  then obtain r where r: "queryStockTickerAPI ex_stock_env ''VMW'' = Inr r" ..
  have "\<exists>s'. ticker_HandleServiceRequest ex_stock_env ''m'' ex_ticker_request \<lparr>fc_channelName = ''c'', fc_headers = []\<rparr> NewStockTickerService (s :: busState) = Done (ex_ticker, s')" for s
    by (simp add: ticker_HandleServiceRequest_def ex_ticker_request_def r subscribeToTickerUpdates_def NewStockTickerService_def ex_ticker_def Let_def)
  then show ?thesis by (meson r_into_rtranclp ticker_step.request)
qed


section \<open>Words\<close>

text \<open>
  The stream of words: with two or more words every message carries one of them, but
  never the last word of the list; with one word or none the job panics. The words it falls back to
  when they cannot be fetched are of the first kind, and the service reports itself ready.
\<close>

theorem random_words:
  assumes "sss_readyChan sss = Some []"
  shows "(2 \<le> length (sss_words sss) \<longrightarrow>
      (\<forall>rnd. \<exists>i < length (sss_words sss) - 1. getRandomWord rnd sss = Done (sss_words sss ! i)) \<and>
      (\<forall>i < length (sss_words sss) - 1. \<exists>rnd. getRandomWord rnd sss = Done (sss_words sss ! i))) \<and>
    (length (sss_words sss) < 2 \<longrightarrow> (\<forall>rnd. getRandomWord rnd sss = Panic ''invalid argument to Intn'')) \<and>
    (\<exists>sss'. handleWordFetchFailure response sss = Done sss' \<and> 2 \<le> length (sss_words sss') \<and> sss_cronJob sss' = Some True \<and> sss_readyChan sss' = Some [True])"
proof (intro conjI impI allI)
  assume l: "2 \<le> length (sss_words sss)"
  have "nat (int rnd mod (int (length (sss_words sss)) - 1)) < length (sss_words sss) - 1" for rnd
    using l pos_mod_bound[of "int (length (sss_words sss)) - 1" "int rnd"] by (simp add: nat_less_iff)
  then show "\<exists>i < length (sss_words sss) - 1. getRandomWord rnd sss = Done (sss_words sss ! i)" for rnd
    using l by (auto simp: getRandomWord_def rand_Intn_def)
  fix i assume i: "i < length (sss_words sss) - 1"
  then have "int i mod (int (length (sss_words sss)) - 1) = int i" by (intro mod_pos_pos_trivial) auto
  then show "\<exists>rnd. getRandomWord rnd sss = Done (sss_words sss ! i)"
    using l by (intro exI[of _ i]) (simp add: getRandomWord_def rand_Intn_def)
qed (use assms in \<open>simp_all add: getRandomWord_def rand_Intn_def handleWordFetchFailure_def tell_ready_def fireRandomWords_def\<close>)

theorem random_words_witness:
  "\<exists>sss'. handleWordFetchFailure zero_Response (NewSimpleStreamService\<lparr>sss_readyChan := Some []\<rparr>) = Done sss' \<and> sss_cronJob sss' = Some True \<and>
     getRandomWord 4 (NewSimpleStreamService\<lparr>sss_readyChan := Some [], sss_words := [''only'']\<rparr>) = Panic ''invalid argument to Intn''"
  using random_words[of "NewSimpleStreamService\<lparr>sss_readyChan := Some []\<rparr>" zero_Response]
    random_words[of "NewSimpleStreamService\<lparr>sss_readyChan := Some [], sss_words := [''only'']\<rparr>"] by auto

text \<open>A server that shuts down before the words came brings the service to a panic.\<close>

theorem early_shutdown_panics: "sss_OnServerShutdown (NewSimpleStreamService\<lparr>sss_readyChan := Some []\<rparr>) = Panic ''nil pointer dereference''"
  by (simp add: sss_OnServerShutdown_def NewSimpleStreamService_def)

text \<open>Without the broker there is no channel for session events, and the stock ticker panics when it is to become ready.\<close>

theorem ticker_needs_broker:
  "Channels s STOMP_SESSION_NOTIFY_CHANNEL = None \<Longrightarrow> ticker_OnServiceReady newH newS u s = Panic ''nil pointer dereference''"
  by (simp add: ticker_OnServiceReady_def ListenStream_def getChannelFromManager_def GetChannel_def)

section \<open>A request over HTTP\<close>

text \<open>
  The service at a channel and the bridge to it: their handlers are subscribed there, for requests and
  for responses, and no handler for one message that has had it is left (such handlers make a
  channel lose others).
\<close>

definition bridged :: "string \<Rightarrow> addr \<Rightarrow> MessageBridge \<Rightarrow> 'b plankBus_scheme \<Rightarrow> bool" where
  "bridged ch w b s \<longleftrightarrow> service_live ch w s \<and> bridge_of ch s = Some b \<and>
     (\<exists>a h newH i. Channels s ch = Some a \<and> mhandlers s h = forward_handler newH i ch a \<and> (i, WrapperFn h, False) \<in> handler_set (chans s a) \<and>
        (\<forall>x \<in> set (ch_eventHandlers (chans s a)). \<not> spent (chans s a) x))"

text \<open>A message is on its way to a function when a handler that calls it for the message has been given it.\<close>

definition on_its_way :: "closure \<Rightarrow> Message \<Rightarrow> string \<Rightarrow> 'b plankBus_scheme \<Rightarrow> bool" where
  "on_its_way f m ch s \<longleftrightarrow> (\<exists>a x h. Channels s ch = Some a \<and> (x, m) \<in> set (ch_inflight (chans s a)) \<and> h_callBackFunction x = WrapperFn h \<and>
     wrapper_call (mhandlers s h) m = Some (MsgCall f m))"

lemma sent_on_its_way:
  assumes "Channels s ch = Some a" "(i, WrapperFn h, False) \<in> handler_set (chans s a)" "wrapper_call (mhandlers s h) m = Some (MsgCall f m)"
  shows "on_its_way f m ch (upd_chan a (Channel_Send m) s)"
proof -
  obtain x where x: "x \<in> set (ch_eventHandlers (chans s a))" "h_callBackFunction x = WrapperFn h" "\<not> h_runOnce x"
    using assms(2) by (auto simp: handler_set_def)
  then have "(x, m) \<in> set (ch_inflight (Channel_Send m (chans s a)))" by (intro Channel_Send_reaches)
  then show ?thesis using assms(1,3) x(2) unfolding on_its_way_def by (intro exI[of _ a] exI[of _ x] exI[of _ h]) simp
qed

lemma bridged_send:
  assumes "bridged ch w b s" "Channels s ch = Some a"
  shows "bridged ch w b (upd_chan a (Channel_Send m) s)"
proof -
  have "\<forall>x \<in> set (ch_eventHandlers (chans s a)). \<not> spent (chans s a) x" using assms by (auto simp: bridged_def)
  then have h: "ch_eventHandlers (Channel_Send m (chans s a)) = ch_eventHandlers (chans s a)" by (simp add: Channel_Send_handlers_live)
  then have "spent (Channel_Send m (chans s a)) = spent (chans s a)" "handler_set (Channel_Send m (chans s a)) = handler_set (chans s a)"
    by (simp_all add: spent_def[abs_def] Channel_Send_simps handler_set_def)
  then show ?thesis using assms h by (auto simp: bridged_def service_live_def bridge_of_def upd_chan_def)
qed

lemma service_gets_request:
  assumes "bridged ch w b s" "req_Id request = Some i" "m = GenerateRequest new (buildConfig new ch (GRequest request) (Some i))"
  shows "\<exists>s1. endpointSend new ch request s = s1 \<and> bridged ch w b s1 \<and> wrappers s1 = wrappers s \<and> on_its_way (ServiceRequest w) m ch s1 \<and> service_request m = Some request"
proof -
  obtain a h newH j where a: "Channels s ch = Some a" "mhandlers s h = request_handler newH j w a" "(j, WrapperFn h, False) \<in> handler_set (chans s a)"
    using assms(1) by (auto simp: bridged_def service_live_def)
  have "endpointSend new ch request s = upd_chan a (Channel_Send m) s"
    using a(1) assms(2,3) by (simp add: endpointSend_def SendRequestMessage_def GetChannel_def sendMessageToChannel_def)
  moreover have "on_its_way (ServiceRequest w) m ch (upd_chan a (Channel_Send m) s)"
    using sent_on_its_way[OF a(1,3), of m] a(2) by (simp add: wrapper_call_def accepts_def request_handler_def createMessageHandler_def assms(3))
  moreover have "service_request m = Some request"
    using assms(2) by (cases request) (simp add: service_request_def assms(3) generate_defs buildConfig_def)
  ultimately show ?thesis using bridged_send[OF assms(1) a(1)] by (simp add: upd_chan_def)
qed

text \<open>A response of a service comes back as the answer of the HTTP request that waits.\<close>

lemma bridge_gets_response:
  assumes "bridged ch w b s" "mb_payloadChannel b = []" "fc_channelName core = ch"
    and "m = GenerateResponse new (buildConfig new ch (GResponsePtr (Response (req_Id request) '''' 0 ch p False 0 '''' (req_BrokerDestination request) (mergeHeadersWithDefaults [] core))) (req_Id request))"
  shows "\<exists>s1 s2. SendResponse new request p core s = s1 \<and> on_its_way (BridgeForward ch) m ch s1 \<and> runBridgeForward ch m s1 = Done s2 \<and>
    (\<exists>s3. endpointReceive marshal ch s2 = Done (s3, renderMessage marshal m))"
proof -
  obtain a h newH j where a: "Channels s ch = Some a" "mhandlers s h = forward_handler newH j ch a" "(j, WrapperFn h, False) \<in> handler_set (chans s a)"
    using assms(1) by (auto simp: bridged_def)
  let ?s1 = "upd_chan a (Channel_Send m) s"
  have s1: "SendResponse new request p core s = ?s1"
    using a(1) assms(3,4) by (simp add: SendResponse_def SendResponseMessage_def GetChannel_def sendMessageToChannel_def Let_def)
  have "on_its_way (BridgeForward ch) m ch ?s1"
    using sent_on_its_way[OF a(1,3), of m] a(2) by (simp add: wrapper_call_def accepts_def forward_handler_def createMessageHandler_def assms(4))
  moreover have b: "bridge_of ch ?s1 = Some b" using bridged_send[OF assms(1) a(1)] by (simp add: bridged_def)
  then have "runBridgeForward ch m ?s1 = Done (put_bridge ch (b\<lparr>mb_payloadChannel := [m]\<rparr>) ?s1)"
    using assms(2) by (simp add: runBridgeForward_def)
  moreover have "\<exists>s3. endpointReceive marshal ch (put_bridge ch (b\<lparr>mb_payloadChannel := [m]\<rparr>) ?s1) = Done (s3, renderMessage marshal m)"
    using bridge_of_put[OF b, of ch "b\<lparr>mb_payloadChannel := [m]\<rparr>"] by (simp add: endpointReceive_def)
  ultimately show ?thesis using s1 by blast
qed

definition ping_text :: "nat \<Rightarrow> http_in \<Rightarrow> string" where
  "ping_text i r = (if i = 1 then hi_Query r ''message''
     else ''From '' @ hi_Vars r ''from'' @ '' to '' @ hi_Vars r ''to'' @ '': '' @ hi_Vars r ''message'')"

abbreviation ping_core :: fabricCore where
  "ping_core \<equiv> PingPong_Init \<lparr>fc_channelName = PingPongServiceChan, fc_headers = []\<rparr>"

lemma json_rendered:
  assumes "marshal p = Inr body"
  shows "renderMessage marshal (GenerateResponse new (buildConfig new ch
      (GResponsePtr (Response i '''' 0 ch p False 0 '''' d (mergeHeadersWithDefaults [] ping_core))) i)) =
    \<lparr>hx_Status = 200, hx_Header = [''Content-Type'' \<mapsto> ''application/json''], hx_Body = body\<rparr>"
proof -
  have h: "mergeHeadersWithDefaults [] ping_core = [(''Content-Type'', ''application/json'')]"
    by (simp add: mergeHeadersWithDefaults_def put_all_def PingPong_Init_def SetHeaders_def)
  have c: "canonical_key ''Content-Type'' = ''Content-Type''" "to_lower ''Content-Type'' = ''content-type''" "Contains ''application/json'' ''json''" by code_simp+
  show ?thesis using assms
    by (simp add: renderMessage_def renderSuccess_def h c ConvertInterfaceToByteArray_def ensureResponseInByteSlice_def generate_defs buildConfig_def HasPrefix_def)
qed


definition ex_ping :: plankBus where
  "ex_ping = (init_plankBus ''b'')\<lparr>Channels := [PingPongServiceChan \<mapsto> 0],
     chans := (\<lambda>_. subscribeHandler (WrapperFn 1) False ''bs'' (subscribeHandler (WrapperFn 0) False ''ss'' (NewChannel PingPongServiceChan))),
     nextChan := 1, mhandlers := (\<lambda>_. request_handler ''h'' ''ss'' 0 0)(1 := forward_handler ''bh'' ''bs'' PingPongServiceChan 0), nextMH := 2,
     wrappers := (\<lambda>_. \<lparr>sw_service = UserService 5, sw_fabricCore = ping_core, sw_requestMsgHandler = Some 0\<rparr>), nextWrapper := 1,
     ps_messageBridgeMap := Some [PingPongServiceChan \<mapsto> \<lparr>mb_ServiceListenStream = 1, mb_payloadChannel = []\<rparr>]\<rparr>"

lemma ex_ping_bridged: "bridged PingPongServiceChan 0 \<lparr>mb_ServiceListenStream = 1, mb_payloadChannel = []\<rparr> ex_ping"
proof -
  let ?c = "subscribeHandler (WrapperFn 1) False ''bs'' (subscribeHandler (WrapperFn 0) False ''ss'' (NewChannel PingPongServiceChan))"
  have c: "(''bs'', WrapperFn 1, False) \<in> handler_set ?c" "(''ss'', WrapperFn 0, False) \<in> handler_set ?c" "\<forall>x \<in> set (ch_eventHandlers ?c). \<not> spent ?c x"
    by (auto simp: handler_set_def subscribeHandler_def NewChannel_def spent_def)
  have "service_live PingPongServiceChan 0 ex_ping"
    unfolding service_live_def using c(2)
    by (simp add: ex_ping_def PingPong_Init_def SetHeaders_def) (rule exI[of _ "''h''"], rule exI[of _ "''ss''"], simp)
  moreover have "mhandlers ex_ping 1 = forward_handler ''bh'' ''bs'' PingPongServiceChan 0" "chans ex_ping 0 = ?c" by (simp_all add: ex_ping_def)
  ultimately show ?thesis unfolding bridged_def
    using c(1,3) by (intro conjI exI[of _ 0] exI[of _ 1] exI[of _ "''bh''"] exI[of _ "''bs''"]) (simp_all add: ex_ping_def bridge_of_def)
qed


text \<open>A request over the broker has a decoded JSON object as its payload: with it two of the requests bring the process down.\<close>

theorem json_payload_panics:
  "req_Payload request = GMap input \<Longrightarrow> req_Request request = ''ping-post'' \<Longrightarrow>
     PingPong_HandleServiceRequest unmarshal now new request core s = Panic ''interface conversion''"
  "req_Payload request = GMap input \<Longrightarrow> req_Request request = ''ticker_price_lookup'' \<Longrightarrow>
     ticker_HandleServiceRequest env new request core st s = Panic ''interface conversion''"
  by (simp_all add: PingPong_HandleServiceRequest_def ticker_HandleServiceRequest_def)

end
