(* ===== verification/VmService.thy ===== *)
theory VmService
  imports SampleServices
begin

text \<open>
  The sample service for virtual machines (src/examples/need-refactoring/sample\_vm\_service.go). The
  machines are a Go slice: an array in the heap and a length. Deleting shifts the elements in the array,
  appending writes behind the length as long as the array has room, and a response that lists the
  machines holds the slice itself. The runtime information of a machine is a pointer. The lock is held
  from the first access of a handler to its end, so that a handler is one step.
\<close>

subsection \<open>Data\<close>

record VmRef =
  vr_VcGuid :: string
  vr_VmId :: string

abbreviation powerState_poweredOff :: string where "powerState_poweredOff \<equiv> ''poweredOff''"
abbreviation powerState_poweredOn :: string where "powerState_poweredOn \<equiv> ''poweredOn''"
abbreviation powerState_suspended :: string where "powerState_suspended \<equiv> ''suspended''"

abbreviation diskFormat_emulated_512 :: string where "diskFormat_emulated_512 \<equiv> ''emulated_512''"
abbreviation diskFormat_native_4k :: string where "diskFormat_native_4k \<equiv> ''native_4k''"

abbreviation powerOperation_powerOn :: string where "powerOperation_powerOn \<equiv> ''powerOn''"
abbreviation powerOperation_powerOff :: string where "powerOperation_powerOff \<equiv> ''powerOff''"
abbreviation powerOperation_reset :: string where "powerOperation_reset \<equiv> ''reset''"
abbreviation powerOperation_suspend :: string where "powerOperation_suspend \<equiv> ''suspend''"

record RuntimeInfo =
  ri_Host :: string
  ri_PowerState :: string

record VirtualDisk =
  vd_Key :: int
  vd_DeviceType :: string
  vd_DeviceName :: string
  vd_CapacityMB :: int64
  vd_DiskFormat :: string

record VirtualUSB =
  vu_Key :: int
  vu_DeviceType :: string
  vu_DeviceName :: string
  vu_Connected :: bool
  vu_Speed :: "string list"

record VirtualHardware =
  vh_MemoryMB :: int
  vh_NumCPU :: int
  vh_Devices :: "gval list"

text \<open>The hardware of a machine is not changed once the machine exists, so that its pointer is its value.\<close>

record VirtualMachine =
  vm_VmRef :: VmRef
  vm_Name :: string
  vm_RuntimeInfo :: addr
  vm_Hardware :: "VirtualHardware option"

definition zero_vm :: VirtualMachine where
  "zero_vm = \<lparr>vm_VmRef = \<lparr>vr_VcGuid = '''', vr_VmId = ''''\<rparr>, vm_Name = '''', vm_RuntimeInfo = 0, vm_Hardware = None\<rparr>"

text \<open>A slice that starts at the beginning of its array; the capacity is the length of the array.\<close>

record vmSlice =
  sl_array :: addr
  sl_len :: nat

datatype VmPowerOperationResponseItem = VmPowerOperationResponseItem (pri_VmRef: VmRef) (pri_OperationResult: bool)

datatype vm_response =
  VmListResponse bool string vmSlice
| VmCreateResponse bool string VirtualMachine
| BaseVmResponse bool string
| VmPowerOperationResponse bool string "VmPowerOperationResponseItem list"

record VmDeleteRequest =
  dr_Vm :: VmRef

record VmPowerOperationRequest =
  pr_VmRefs :: "VmRef list"
  pr_PowerOperation :: string

record VmCreateRequest =
  cr_Name :: string
  cr_VirtualHardware :: "VirtualHardware option"

text \<open>
  The service with the part of the heap it uses: arrays of machines and runtime information, each with
  the next free address. Address 0 is nil.
\<close>

record vmService =
  vs_vms :: vmSlice
  vs_arrays :: "addr \<Rightarrow> VirtualMachine list"
  vs_nextArray :: addr
  vs_infos :: "addr \<Rightarrow> RuntimeInfo"
  vs_nextInfo :: addr

definition new_vmService :: vmService where
  "new_vmService = \<lparr>vs_vms = \<lparr>sl_array = 0, sl_len = 0\<rparr>, vs_arrays = (\<lambda>_. []), vs_nextArray = 1,
     vs_infos = (\<lambda>_. \<lparr>ri_Host = '''', ri_PowerState = ''''\<rparr>), vs_nextInfo = 1\<rparr>"

definition read_slice :: "vmSlice \<Rightarrow> vmService \<Rightarrow> VirtualMachine list" where
  "read_slice sl svc = take (sl_len sl) (vs_arrays svc (sl_array sl))"

text \<open>
  What is not code of the service: JSON (\<open>ve_recode\<close>, \<open>ve_addr_of\<close>), the numbers of the types, the type
  assertions and the values of the service's own types as payloads, and the capacity the runtime gives to
  an array that grows.
\<close>

record vm_env =
  ve_recode :: "gtype \<Rightarrow> gval \<Rightarrow> error + gval"
  ve_addr_of :: "gval \<Rightarrow> gval"
  ve_type :: "string \<Rightarrow> nat"
  ve_delete :: "gval \<Rightarrow> VmDeleteRequest option"
  ve_create :: "gval \<Rightarrow> VmCreateRequest option"
  ve_power :: "gval \<Rightarrow> VmPowerOperationRequest option"
  ve_disk :: "VirtualDisk \<Rightarrow> gval"
  ve_usb :: "VirtualUSB \<Rightarrow> gval"
  ve_response :: "vm_response \<Rightarrow> gval"
  ve_grow :: "nat \<Rightarrow> nat"

definition convert :: "vm_env \<Rightarrow> gtype \<Rightarrow> gval \<Rightarrow> error + gval" where
  "convert env t v = ConvertValueToType (ve_recode env) (ve_addr_of env) v (Some t)"

subsection \<open>Creating a machine\<close>

text \<open>\<open>ids\<close> are the two new ids of the machine, \<open>rnd\<close> is what the random generator draws.\<close>

definition vm_createVm :: "uuid \<times> uuid \<Rightarrow> nat \<Rightarrow> string \<Rightarrow> VirtualHardware option \<Rightarrow> vmService \<Rightarrow> (VirtualMachine \<times> vmService) go" where
  "vm_createVm ids rnd name hardware svc =
     go_map (\<lambda>r.
       (\<lparr>vm_VmRef = \<lparr>vr_VcGuid = fst ids, vr_VmId = snd ids\<rparr>, vm_Name = name, vm_RuntimeInfo = vs_nextInfo svc, vm_Hardware = hardware\<rparr>,
        svc\<lparr>vs_infos := (vs_infos svc)(vs_nextInfo svc := \<lparr>ri_Host = ''191.168.12.'' @ show_int r, ri_PowerState = powerState_poweredOff\<rparr>),
            vs_nextInfo := Suc (vs_nextInfo svc)\<rparr>))
       (rand_Intn rnd 255)"

definition sample_disk :: "int \<Rightarrow> string \<Rightarrow> int64 \<Rightarrow> string \<Rightarrow> VirtualDisk" where
  "sample_disk key name capacity format =
     \<lparr>vd_Key = key, vd_DeviceType = ''VirtualDisk'', vd_DeviceName = name, vd_CapacityMB = capacity, vd_DiskFormat = format\<rparr>"

text \<open>\<^verbatim>\<open>[]VirtualMachine{...}\<close>: a new array.\<close>

definition new_slice :: "VirtualMachine list \<Rightarrow> vmService \<Rightarrow> vmService" where
  "new_slice vms svc =
     svc\<lparr>vs_arrays := (vs_arrays svc)(vs_nextArray svc := vms), vs_nextArray := Suc (vs_nextArray svc),
         vs_vms := \<lparr>sl_array = vs_nextArray svc, sl_len = length vms\<rparr>\<rparr>"

definition vm_Init :: "vm_env \<Rightarrow> (uuid \<times> uuid) \<times> (uuid \<times> uuid) \<Rightarrow> nat \<times> nat \<Rightarrow> vmService \<Rightarrow> vmService go" where
  "vm_Init env ids rnds svc =
     go_bind (vm_createVm (fst ids) (fst rnds) ''sample-go-vm1''
       (Some \<lparr>vh_MemoryMB = 2048, vh_NumCPU = 4, vh_Devices =
          [ve_disk env (sample_disk 1 ''disk-1'' 50000 diskFormat_emulated_512),
           ve_disk env (sample_disk 2 ''disk-2'' 150000 diskFormat_native_4k)]\<rparr>) svc) (\<lambda>(vm1, svc1).
     go_map (\<lambda>(vm2, svc2). new_slice [vm1, vm2] svc2)
       (vm_createVm (snd ids) (snd rnds) ''sample-go-vm2''
         (Some \<lparr>vh_MemoryMB = 8192, vh_NumCPU = 8, vh_Devices =
            [ve_disk env (sample_disk 1 ''disk-1'' 50000 diskFormat_emulated_512),
             ve_usb env \<lparr>vu_Key = 2, vu_DeviceType = ''VirtualUSB'', vu_DeviceName = ''disk-2'', vu_Connected = True,
               vu_Speed = [''superSpeed'', ''high'']\<rparr>]\<rparr>) svc1))"

subsection \<open>Deleting a machine\<close>

text \<open>\<^verbatim>\<open>copy(s.vms[i:], s.vms[i+1:])\<close> in the array.\<close>

definition shift_left :: "nat \<Rightarrow> nat \<Rightarrow> 'a list \<Rightarrow> 'a list" where
  "shift_left i n arr = take i arr @ drop (Suc i) (take n arr) @ drop (n - 1) arr"

definition show_ref :: "VmRef \<Rightarrow> string" where
  "show_ref r = ''{'' @ vr_VcGuid r @ '' '' @ vr_VmId r @ ''}''"

definition vm_send :: "vm_env \<Rightarrow> uuid \<Rightarrow> gval Request \<Rightarrow> fabricCore \<Rightarrow> vmService \<times> vm_response \<Rightarrow> 'b busState_scheme \<Rightarrow> vmService \<times> 'b busState_scheme" where
  "vm_send env new request core r s = (fst r, SendResponse new request (ve_response env (snd r)) core s)"

definition vm_deleteVm :: "vm_env \<Rightarrow> uuid \<Rightarrow> gval Request \<Rightarrow> fabricCore \<Rightarrow> vmService \<Rightarrow> 'b busState_scheme \<Rightarrow> (vmService \<times> 'b busState_scheme) go" where
  "vm_deleteVm env new request core svc s =
     (case convert env (TPtr (TNamed (ve_type env ''VmDeleteRequest''))) (req_Payload request) of
        Inl _ \<Rightarrow> Done (vm_send env new request core (svc, BaseVmResponse True ''Request payload should be VmDeleteRequest!'') s)
      | Inr reqPayload \<Rightarrow>
          if reqPayload = GNil then Done (vm_send env new request core (svc, BaseVmResponse True ''Request payload should be VmDeleteRequest!'') s)
          else (case ve_delete env reqPayload of
             None \<Rightarrow> Panic ''interface conversion''
           | Some deleteReq \<Rightarrow>
               (let sl = vs_vms svc; a = sl_array sl
                in case find_index (\<lambda>vm. dr_Vm deleteReq = vm_VmRef vm) (read_slice sl svc) of
                     Some i \<Rightarrow>
                       Done (vm_send env new request core
                         (svc\<lparr>vs_arrays := (vs_arrays svc)(a := shift_left i (sl_len sl) (vs_arrays svc a)),
                              vs_vms := sl\<lparr>sl_len := sl_len sl - 1\<rparr>\<rparr>, BaseVmResponse False '''') s)
                   | None \<Rightarrow>
                       Done (vm_send env new request core (svc, BaseVmResponse True (''Cannot find VM:'' @ show_ref (dr_Vm deleteReq))) s))))"

subsection \<open>Handling a request to create a machine\<close>

text \<open>The loop over the devices: each is converted to the type it names; the first that is not one ends it with a message.\<close>

fun convert_devices :: "vm_env \<Rightarrow> gval list \<Rightarrow> error + gval list" where
  "convert_devices env [] = Inr []"
| "convert_devices env (device # devices) =
     (case device of
        GMap deviceAsMap \<Rightarrow>
          (let deviceType = map_of deviceAsMap ''deviceType''
           in if deviceType \<in> {Some (GString ''VirtualDisk''), Some (GString ''VirtualUSB'')} then
                (case convert env (TNamed (ve_type env (if deviceType = Some (GString ''VirtualDisk'') then ''VirtualDisk'' else ''VirtualUSB''))) device of
                   Inl _ \<Rightarrow> Inl ''Invalid VmCreateRequest: invalid device''
                 | Inr d \<Rightarrow> (case convert_devices env devices of Inl e \<Rightarrow> Inl e | Inr ds \<Rightarrow> Inr (d # ds)))
              else Inl ''Invalid VmCreateRequest: unsupported device type '')
      | _ \<Rightarrow> Inl ''Invalid VmCreateRequest: invalid device'')"

text \<open>\<^verbatim>\<open>append\<close>: in place when the array has room, otherwise into a new and larger array.\<close>

definition append_vm :: "vm_env \<Rightarrow> VirtualMachine \<Rightarrow> vmService \<Rightarrow> vmService" where
  "append_vm env vm svc =
     (let sl = vs_vms svc; a = sl_array sl; n = sl_len sl
      in if n < length (vs_arrays svc a) then
           svc\<lparr>vs_arrays := (vs_arrays svc)(a := (vs_arrays svc a)[n := vm]), vs_vms := sl\<lparr>sl_len := Suc n\<rparr>\<rparr>
         else
           svc\<lparr>vs_arrays := (vs_arrays svc)(vs_nextArray svc := read_slice sl svc @ [vm] @ replicate (ve_grow env (Suc n) - Suc n) zero_vm),
               vs_nextArray := Suc (vs_nextArray svc), vs_vms := \<lparr>sl_array = vs_nextArray svc, sl_len = Suc n\<rparr>\<rparr>)"

definition vms_createVm :: "vm_env \<Rightarrow> uuid \<times> uuid \<Rightarrow> nat \<Rightarrow> gval Request \<Rightarrow> vmService \<Rightarrow> (vmService \<times> vm_response) go" where
  "vms_createVm env ids rnd request svc =
     (case convert env (TPtr (TNamed (ve_type env ''VmCreateRequest''))) (req_Payload request) of
        Inl _ \<Rightarrow> Done (svc, VmCreateResponse True ''Request payload should be VmCreateRequest!'' zero_vm)
      | Inr reqPayload \<Rightarrow>
          if reqPayload = GNil then Done (svc, VmCreateResponse True ''Request payload should be VmCreateRequest!'' zero_vm)
          else (case ve_create env reqPayload of
             None \<Rightarrow> Panic ''interface conversion''
           | Some createReq \<Rightarrow>
               if cr_Name createReq = '''' then Done (svc, VmCreateResponse True ''Invalid VmCreateRequest: null name!'' zero_vm)
               else (case cr_VirtualHardware createReq of
                  None \<Rightarrow> Done (svc, VmCreateResponse True ''Invalid VmCreateRequest: null virtualHardware!'' zero_vm)
                | Some hw \<Rightarrow>
                    (case convert_devices env (vh_Devices hw) of
                       Inl e \<Rightarrow> Done (svc, VmCreateResponse True e zero_vm)
                     | Inr ds \<Rightarrow>
                         go_map (\<lambda>(vm, svc1). (append_vm env vm svc1, VmCreateResponse False '''' vm))
                           (vm_createVm ids rnd (cr_Name createReq) (Some (hw\<lparr>vh_Devices := ds\<rparr>)) svc)))))"

subsection \<open>Changing the power state\<close>

definition set_power :: "addr \<Rightarrow> string \<Rightarrow> vmService \<Rightarrow> vmService" where
  "set_power p st svc = svc\<lparr>vs_infos := (vs_infos svc)(p := (vs_infos svc p)\<lparr>ri_PowerState := st\<rparr>)\<rparr>"

fun changePowerStateOfVm_loop :: "VmRef \<Rightarrow> string \<Rightarrow> VirtualMachine list \<Rightarrow> vmService \<Rightarrow> vmService \<times> bool" where
  "changePowerStateOfVm_loop ref newPowerState [] svc = (svc, False)"
| "changePowerStateOfVm_loop ref newPowerState (vm # vms) svc =
     (if vm_VmRef vm = ref then
        (let p = vm_RuntimeInfo vm; st = ri_PowerState (vs_infos svc p)
         in if newPowerState = powerOperation_powerOff then
              (if st = powerState_poweredOff then (svc, False) else (set_power p powerState_poweredOff svc, True))
            else if newPowerState = powerOperation_reset then
              (if st = powerState_poweredOff \<or> st = powerState_suspended then (svc, False) else (set_power p powerState_poweredOn svc, True))
            else if newPowerState = powerOperation_powerOn then
              (if st = powerState_poweredOn then (svc, False) else (set_power p powerState_poweredOn svc, True))
            else if newPowerState = powerOperation_suspend then
              (if st = powerState_poweredOff \<or> st = powerState_suspended then (svc, False) else (set_power p powerState_suspended svc, True))
            else (svc, False))
      else changePowerStateOfVm_loop ref newPowerState vms svc)"

definition changePowerStateOfVm :: "VmRef \<Rightarrow> string \<Rightarrow> vmService \<Rightarrow> vmService \<times> bool" where
  "changePowerStateOfVm ref newPowerState svc = changePowerStateOfVm_loop ref newPowerState (read_slice (vs_vms svc) svc) svc"

fun change_all :: "string \<Rightarrow> VmRef list \<Rightarrow> vmService \<Rightarrow> vmService \<times> VmPowerOperationResponseItem list" where
  "change_all op [] svc = (svc, [])"
| "change_all op (ref # refs) svc =
     (case changePowerStateOfVm ref op svc of (svc1, ok) \<Rightarrow>
        case change_all op refs svc1 of (svc2, items) \<Rightarrow> (svc2, VmPowerOperationResponseItem ref ok # items))"

definition changePowerState ::
  "vm_env \<Rightarrow> uuid \<Rightarrow> gval Request \<Rightarrow> fabricCore \<Rightarrow> vmService \<Rightarrow> 'b busState_scheme \<Rightarrow> (vmService \<times> 'b busState_scheme) go" where
  "changePowerState env new request core svc s =
     (case convert env (TPtr (TNamed (ve_type env ''VmPowerOperationRequest''))) (req_Payload request) of
        Inl _ \<Rightarrow> Done (vm_send env new request core (svc, BaseVmResponse True ''Request payload should be VmPowerOperationRequest!'') s)
      | Inr reqPayload \<Rightarrow>
          if reqPayload = GNil then Done (vm_send env new request core (svc, BaseVmResponse True ''Request payload should be VmPowerOperationRequest!'') s)
          else (case ve_power env reqPayload of
             None \<Rightarrow> Panic ''interface conversion''
           | Some vmPowerOpReq \<Rightarrow>
               (case change_all (pr_PowerOperation vmPowerOpReq) (pr_VmRefs vmPowerOpReq) svc of
                  (svc1, items) \<Rightarrow> Done (vm_send env new request core (svc1, VmPowerOperationResponse False '''' items) s))))"

subsection \<open>Requests\<close>

definition vm_HandleServiceRequest ::
  "vm_env \<Rightarrow> uuid \<times> uuid \<Rightarrow> nat \<Rightarrow> uuid \<Rightarrow> gval Request \<Rightarrow> fabricCore \<Rightarrow> vmService \<Rightarrow> 'b busState_scheme
     \<Rightarrow> (vmService \<times> 'b busState_scheme) go" where
  "vm_HandleServiceRequest env ids rnd new request core svc s =
     (if req_Request request = ''listVms'' then Done (vm_send env new request core (svc, VmListResponse False '''' (vs_vms svc)) s)
      else if req_Request request = ''deleteVm'' then vm_deleteVm env new request core svc s
      else if req_Request request = ''changeVmPowerState'' then changePowerState env new request core svc s
      else if req_Request request = ''createVm'' then go_map (\<lambda>r. vm_send env new request core r s) (vms_createVm env ids rnd request svc)
      else Done (svc, HandleUnknownRequest new request core s))"

end
