(* ===== verification/VmServiceLaws.thy ===== *)
theory VmServiceLaws
  imports VmService
begin

text \<open>
  The sample VM service as a list of values: the machines of the slice and their runtime information abstract to
  a list, every request acts on the list as its specification says, and the table stays well typed. A list that was
  answered shares the array of the service.
\<close>

section \<open>The machines as a list of values\<close>

datatype power = PoweredOff | PoweredOn | Suspended

fun power_text :: "power \<Rightarrow> string" where
  "power_text PoweredOff = powerState_poweredOff"
| "power_text PoweredOn = powerState_poweredOn"
| "power_text Suspended = powerState_suspended"

definition power_of :: "string \<Rightarrow> power" where
  "power_of t = (if t = powerState_poweredOn then PoweredOn else if t = powerState_suspended then Suspended else PoweredOff)"

lemma power_of_text [simp]: "power_of (power_text p) = p"
  by (cases p) (simp_all add: power_of_def)

text \<open>The power operations and the states they lead to.\<close>

fun power_step :: "string \<Rightarrow> power \<Rightarrow> power option" where
  "power_step op PoweredOff = (if op = powerOperation_powerOn then Some PoweredOn else None)"
| "power_step op PoweredOn =
     (if op = powerOperation_powerOff then Some PoweredOff else if op = powerOperation_suspend then Some Suspended
      else if op = powerOperation_reset then Some PoweredOn else None)"
| "power_step op Suspended =
     (if op = powerOperation_powerOff then Some PoweredOff else if op = powerOperation_powerOn then Some PoweredOn else None)"

record avm =
  a_ref :: VmRef
  a_name :: string
  a_host :: string
  a_power :: power
  a_hardware :: "VirtualHardware option"

definition abs_vm :: "vmService \<Rightarrow> VirtualMachine \<Rightarrow> avm" where
  "abs_vm svc vm = \<lparr>a_ref = vm_VmRef vm, a_name = vm_Name vm, a_host = ri_Host (vs_infos svc (vm_RuntimeInfo vm)),
     a_power = power_of (ri_PowerState (vs_infos svc (vm_RuntimeInfo vm))), a_hardware = vm_Hardware vm\<rparr>"

definition ref_of :: "uuid \<times> uuid \<Rightarrow> VmRef" where
  "ref_of ids = \<lparr>vr_VcGuid = fst ids, vr_VmId = snd ids\<rparr>"

lemma ref_of_inj [simp]: "ref_of a = ref_of b \<longleftrightarrow> a = b"
  by (auto simp: ref_of_def prod_eq_iff)

abbreviation vms_of :: "vmService \<Rightarrow> VirtualMachine list" where
  "vms_of svc \<equiv> read_slice (vs_vms svc) svc"

definition abs_vms :: "vmService \<Rightarrow> avm list" where
  "abs_vms svc = map (abs_vm svc) (vms_of svc)"

text \<open>
  The slice is in its array, a machine is found by its reference, and each machine has its own runtime
  information, with one of the three states.
\<close>

definition vm_inv :: "vmService \<Rightarrow> bool" where
  "vm_inv svc \<longleftrightarrow>
     sl_array (vs_vms svc) < vs_nextArray svc \<and> sl_len (vs_vms svc) \<le> length (vs_arrays svc (sl_array (vs_vms svc))) \<and>
     distinct (map vm_VmRef (vms_of svc)) \<and> distinct (map vm_RuntimeInfo (vms_of svc)) \<and>
     (\<forall>vm \<in> set (vms_of svc). vm_RuntimeInfo vm < vs_nextInfo svc \<and> (\<exists>p. ri_PowerState (vs_infos svc (vm_RuntimeInfo vm)) = power_text p))"

lemma vm_invD:
  assumes "vm_inv svc"
  shows "sl_array (vs_vms svc) < vs_nextArray svc" "sl_len (vs_vms svc) \<le> length (vs_arrays svc (sl_array (vs_vms svc)))"
    "distinct (map vm_VmRef (vms_of svc))" "distinct (map vm_RuntimeInfo (vms_of svc))"
    "vm \<in> set (vms_of svc) \<Longrightarrow> vm_RuntimeInfo vm < vs_nextInfo svc"
    "vm \<in> set (vms_of svc) \<Longrightarrow> \<exists>p. ri_PowerState (vs_infos svc (vm_RuntimeInfo vm)) = power_text p"
  using assms by (auto simp: vm_inv_def)

lemma abs_refs: "map a_ref (abs_vms svc) = map vm_VmRef (vms_of svc)"
  by (simp add: abs_vms_def abs_vm_def comp_def)

subsection \<open>Deleting\<close>

lemma shift_left_take:
  assumes "i < n" "n \<le> length arr"
  shows "take (n - 1) (shift_left i n arr) = remove_at i (take n arr)" "length (shift_left i n arr) = length arr"
proof -
  have "take (n - 1) (shift_left i n arr) = take i arr @ drop (Suc i) (take n arr)"
    using assms by (simp add: shift_left_def)
  then show "take (n - 1) (shift_left i n arr) = remove_at i (take n arr)" using assms by (simp add: remove_at_def min_def)
qed (use assms in \<open>simp add: shift_left_def\<close>)

lemma delete_vms:
  assumes "vm_inv svc" "i < length (vms_of svc)"
    "svc' = svc\<lparr>vs_arrays := (vs_arrays svc)(sl_array (vs_vms svc) := shift_left i (sl_len (vs_vms svc)) (vs_arrays svc (sl_array (vs_vms svc)))),
       vs_vms := (vs_vms svc)\<lparr>sl_len := sl_len (vs_vms svc) - 1\<rparr>\<rparr>"
  shows "vms_of svc' = remove_at i (vms_of svc)" "vm_inv svc'"
proof -
  have i: "i < sl_len (vs_vms svc)" using assms(2) vm_invD(2)[OF assms(1)] by (simp add: read_slice_def)
  show r: "vms_of svc' = remove_at i (vms_of svc)"
    using shift_left_take[OF i vm_invD(2)[OF assms(1)]] by (simp add: read_slice_def assms(3))
  have f: "vs_infos svc' = vs_infos svc" "vs_nextInfo svc' = vs_nextInfo svc" "vs_nextArray svc' = vs_nextArray svc"
      "sl_array (vs_vms svc') = sl_array (vs_vms svc)" "sl_len (vs_vms svc') \<le> length (vs_arrays svc' (sl_array (vs_vms svc')))"
    using shift_left_take(2)[OF i vm_invD(2)[OF assms(1)]] vm_invD(2)[OF assms(1)] by (simp_all add: assms(3))
  show "vm_inv svc'"
    using assms(1) f set_remove_at_subset[of i "vms_of svc"] unfolding vm_inv_def r
    by (auto intro: remove_at_map_distinct)
qed

lemma remove_at_ref:
  assumes "distinct (map f xs)" "find_index (\<lambda>x. r = f x) xs = Some i"
  shows "remove_at i xs = filter (\<lambda>x. f x \<noteq> r) xs"
proof -
  have i: "i < length xs" "f (xs ! i) = r" using find_index_SomeD[OF assms(2)] by auto
  have "\<not> r = f y" if y: "y \<in> set (drop (Suc i) xs)" for y
  proof
    assume "r = f y"
    from y obtain j where "j < length xs - Suc i" "xs ! (Suc i + j) = y" by (auto simp: in_set_conv_nth)
    then have k: "Suc i + j < length xs" "f (xs ! (Suc i + j)) = f (xs ! i)" using i \<open>r = f y\<close> by simp_all
    then show False using assms(1) i(1) nth_eq_iff_index_eq[of "map f xs" "Suc i + j" i] by simp
  qed
  then show ?thesis using remove_at_find_index[OF assms(2)] by (simp add: eq_commute[of r])
qed

subsection \<open>Appending\<close>

lemma append_vms:
  assumes "vm_inv svc" "svc' = append_vm env vm svc"
  shows "vms_of svc' = vms_of svc @ [vm]" "vs_infos svc' = vs_infos svc" "vs_nextInfo svc' = vs_nextInfo svc"
    "sl_array (vs_vms svc') < vs_nextArray svc' \<and> sl_len (vs_vms svc') \<le> length (vs_arrays svc' (sl_array (vs_vms svc')))"
  using vm_invD(1,2)[OF assms(1)]
  by (auto simp: assms(2) append_vm_def Let_def read_slice_def take_Suc_conv_app_nth)

lemma createVm_vms:
  assumes "vm_inv svc" "vm_createVm ids rnd name hw svc = Done (vm, svc1)" "ref_of ids \<notin> set (map vm_VmRef (vms_of svc))"
    "svc' = append_vm env vm svc1"
  shows "vm_inv svc'" "abs_vms svc' = abs_vms svc @ [abs_vm svc' vm]"
    "abs_vm svc' vm = \<lparr>a_ref = ref_of ids, a_name = name,
       a_host = ''191.168.12.'' @ show_int (int rnd mod 255), a_power = PoweredOff, a_hardware = hw\<rparr>"
proof -
  define p where "p = vs_nextInfo svc"
  have svc1: "svc1 = svc\<lparr>vs_infos := (vs_infos svc)(p := \<lparr>ri_Host = ''191.168.12.'' @ show_int (int rnd mod 255), ri_PowerState = powerState_poweredOff\<rparr>), vs_nextInfo := Suc p\<rparr>"
    and vm: "vm = \<lparr>vm_VmRef = ref_of ids, vm_Name = name, vm_RuntimeInfo = p, vm_Hardware = hw\<rparr>"
    using assms(2) by (auto simp: vm_createVm_def rand_Intn_def p_def ref_of_def)
  have lt: "vm_RuntimeInfo v < p" if "v \<in> set (vms_of svc)" for v using vm_invD(5)[OF assms(1) that] by (simp add: p_def)
  have same: "vms_of svc1 = vms_of svc" by (simp add: svc1 read_slice_def)
  have keep: "vs_infos svc1 (vm_RuntimeInfo v) = vs_infos svc (vm_RuntimeInfo v)" if "v \<in> set (vms_of svc)" for v
    using lt[OF that] by (simp add: svc1)
  have inv1: "vm_inv svc1" using assms(1) lt same keep unfolding vm_inv_def by (auto simp: svc1 p_def less_Suc_eq)
  note ap = append_vms[OF inv1 assms(4)]
  have new: "ri_PowerState (vs_infos svc1 p) = power_text PoweredOff" "vs_nextInfo svc1 = Suc p" by (simp_all add: svc1)
  show "vm_inv svc'"
    using vm_invD[OF inv1] ap(4) assms(3) lt new(2) exI[of "\<lambda>q. ri_PowerState (vs_infos svc1 p) = power_text q", OF new(1)]
    unfolding vm_inv_def ap(1-3) same by (auto simp: vm)
  show "abs_vms svc' = abs_vms svc @ [abs_vm svc' vm]"
    using keep by (simp add: abs_vms_def ap same abs_vm_def)
  show "abs_vm svc' vm = \<lparr>a_ref = ref_of ids, a_name = name,
       a_host = ''191.168.12.'' @ show_int (int rnd mod 255), a_power = PoweredOff, a_hardware = hw\<rparr>"
    by (simp add: abs_vm_def ap(2) vm svc1 power_of_def)
qed

subsection \<open>Power operations\<close>

definition spec_power :: "string \<Rightarrow> VmRef \<Rightarrow> avm list \<Rightarrow> avm list \<times> bool" where
  "spec_power op ref vms =
     (map (\<lambda>v. if a_ref v = ref then (case power_step op (a_power v) of Some p \<Rightarrow> v\<lparr>a_power := p\<rparr> | None \<Rightarrow> v) else v) vms,
      \<exists>v \<in> set vms. a_ref v = ref \<and> power_step op (a_power v) \<noteq> None)"

fun spec_powers :: "string \<Rightarrow> VmRef list \<Rightarrow> avm list \<Rightarrow> avm list \<times> VmPowerOperationResponseItem list" where
  "spec_powers op [] vms = (vms, [])"
| "spec_powers op (ref # refs) vms =
     (case spec_power op ref vms of (vms1, ok) \<Rightarrow>
        case spec_powers op refs vms1 of (vms2, items) \<Rightarrow> (vms2, VmPowerOperationResponseItem ref ok # items))"

text \<open>One machine: the branches of the operation are the steps of the power states.\<close>

definition power_result :: "string \<Rightarrow> addr \<Rightarrow> vmService \<Rightarrow> vmService \<times> bool" where
  "power_result op p svc =
     (case power_step op (power_of (ri_PowerState (vs_infos svc p))) of
        Some q \<Rightarrow> (set_power p (power_text q) svc, True) | None \<Rightarrow> (svc, False))"

lemma loop_head:
  assumes "ri_PowerState (vs_infos svc (vm_RuntimeInfo vm)) = power_text q" "vm_VmRef vm = ref"
  shows "changePowerStateOfVm_loop ref op (vm # vms) svc = power_result op (vm_RuntimeInfo vm) svc"
  using assms by (cases q) (auto simp: power_result_def power_of_def Let_def)

lemma loop_find:
  assumes "\<forall>vm \<in> set vms. \<exists>q. ri_PowerState (vs_infos svc (vm_RuntimeInfo vm)) = power_text q"
  shows "changePowerStateOfVm_loop ref op vms svc =
    (case find (\<lambda>vm. vm_VmRef vm = ref) vms of Some vm \<Rightarrow> power_result op (vm_RuntimeInfo vm) svc | None \<Rightarrow> (svc, False))"
  using assms
proof (induction vms)
  case (Cons vm vms)
  then obtain q where "ri_PowerState (vs_infos svc (vm_RuntimeInfo vm)) = power_text q" by auto
  from loop_head[OF this, of ref op vms] Cons show ?case
    by (cases "vm_VmRef vm = ref") (simp_all del: changePowerStateOfVm_loop.simps(2), simp)
qed simp

lemma set_power_frame [simp]:
  "vs_vms (set_power p t svc) = vs_vms svc" "read_slice sl (set_power p t svc) = read_slice sl svc"
  "vs_nextInfo (set_power p t svc) = vs_nextInfo svc" "vs_nextArray (set_power p t svc) = vs_nextArray svc"
  "vs_arrays (set_power p t svc) = vs_arrays svc"
  by (simp_all add: set_power_def read_slice_def)

lemma set_power_inv: "vm_inv svc \<Longrightarrow> vm_inv (set_power p (power_text q) svc)"
  by (auto simp: vm_inv_def) (auto simp: set_power_def)

lemma set_power_abs:
  assumes "vm_inv svc" "vm \<in> set (vms_of svc)" "v \<in> set (vms_of svc)"
  shows "abs_vm (set_power (vm_RuntimeInfo vm) (power_text q) svc) v =
    (if vm_VmRef v = vm_VmRef vm then (abs_vm svc v)\<lparr>a_power := q\<rparr> else abs_vm svc v)"
proof (cases "v = vm")
  case True then show ?thesis by (simp add: set_power_def abs_vm_def)
next
  case False
  then have "vm_VmRef v \<noteq> vm_VmRef vm" "vm_RuntimeInfo v \<noteq> vm_RuntimeInfo vm"
    using assms vm_invD(3,4)[OF assms(1)] by (auto simp: distinct_map dest: inj_onD)
  then show ?thesis by (simp add: set_power_def abs_vm_def)
qed

lemma ref_abs [simp]: "a_ref (abs_vm svc v) = vm_VmRef v"
  by (simp add: abs_vm_def)

lemma change_refines:
  assumes "vm_inv svc" "changePowerStateOfVm ref op svc = (svc', ok)"
  shows "vm_inv svc' \<and> spec_power op ref (abs_vms svc) = (abs_vms svc', ok)"
proof (cases "find (\<lambda>vm. vm_VmRef vm = ref) (vms_of svc)")
  case None
  then have none: "vm_VmRef vm \<noteq> ref" if "vm \<in> set (vms_of svc)" for vm using that by (auto simp: find_None_iff)
  have "svc' = svc" "\<not> ok" using assms loop_find[of "vms_of svc" svc ref op] vm_invD(6)[OF assms(1)] None by (auto simp: changePowerStateOfVm_def)
  then show ?thesis using assms(1) none by (simp add: spec_power_def abs_vms_def)
next
  case (Some vm)
  then have vm: "vm \<in> set (vms_of svc)" "vm_VmRef vm = ref" by (auto simp: find_Some_iff)
  let ?p = "vm_RuntimeInfo vm"
  have res: "(svc', ok) = power_result op ?p svc"
    using assms loop_find[of "vms_of svc" svc ref op] vm_invD(6)[OF assms(1)] Some by (auto simp: changePowerStateOfVm_def)
  have uniq: "v = vm" if "v \<in> set (vms_of svc)" "vm_VmRef v = ref" for v
    using that vm vm_invD(3)[OF assms(1)] by (auto simp: distinct_map dest: inj_onD)
  have pw: "power_of (ri_PowerState (vs_infos svc ?p)) = a_power (abs_vm svc vm)" by (simp add: abs_vm_def)
  have okv: "(\<exists>v \<in> set (abs_vms svc). a_ref v = ref \<and> power_step op (a_power v) \<noteq> None) \<longleftrightarrow> power_step op (a_power (abs_vm svc vm)) \<noteq> None"
    unfolding abs_vms_def using uniq vm by (metis (no_types, lifting) ref_abs image_eqI image_iff list.set_map)
  show ?thesis
  proof (cases "power_step op (a_power (abs_vm svc vm))")
    case None
    then have "svc' = svc" "\<not> ok" using res by (simp_all add: power_result_def pw)
    moreover have "power_step op (a_power (abs_vm svc v)) = None" if "v \<in> set (vms_of svc)" "vm_VmRef v = ref" for v
      using uniq[OF that] None by simp
    then have "map (\<lambda>v. if a_ref v = ref then (case power_step op (a_power v) of Some p \<Rightarrow> v\<lparr>a_power := p\<rparr> | None \<Rightarrow> v) else v) (abs_vms svc) = abs_vms svc"
      by (simp add: abs_vms_def ref_abs)
    ultimately show ?thesis using assms(1) okv None by (simp add: spec_power_def)
  next
    case (Some q)
    then have s': "svc' = set_power ?p (power_text q) svc" "ok" using res by (simp_all add: power_result_def pw)
    have "(if a_ref (abs_vm svc v) = ref then (case power_step op (a_power (abs_vm svc v)) of Some p \<Rightarrow> (abs_vm svc v)\<lparr>a_power := p\<rparr> | None \<Rightarrow> abs_vm svc v) else abs_vm svc v)
        = abs_vm svc' v" if "v \<in> set (vms_of svc)" for v
      using set_power_abs[OF assms(1) vm(1) that, of q] uniq[OF that] vm(2) Some by (auto simp: s')
    then have "fst (spec_power op ref (abs_vms svc)) = abs_vms svc'" by (simp add: spec_power_def abs_vms_def s')
    then show ?thesis using set_power_inv[OF assms(1)] okv Some s' by (simp add: spec_power_def)
  qed
qed

lemma change_all_refines:
  assumes "vm_inv svc" "change_all op refs svc = (svc', items)"
  shows "vm_inv svc' \<and> spec_powers op refs (abs_vms svc) = (abs_vms svc', items)"
  using assms
proof (induction refs arbitrary: svc items)
  case (Cons ref refs)
  obtain svc1 ok where 1: "changePowerStateOfVm ref op svc = (svc1, ok)" by (cases "changePowerStateOfVm ref op svc")
  obtain items' where 2: "change_all op refs svc1 = (svc', items')" "items = VmPowerOperationResponseItem ref ok # items'"
    using Cons.prems(2) 1 by (auto split: prod.splits)
  from change_refines[OF Cons.prems(1) 1] Cons.IH[OF _ 2(1)] show ?case by (simp add: 2(2))
qed simp

section \<open>Requests\<close>

text \<open>What a request asks for, and what the service answers.\<close>

datatype vm_op =
  OpList
| OpDelete VmRef
| OpPower string "VmRef list"
| OpCreate string VirtualHardware
| OpBad string
| OpUnknown

datatype vm_answer =
  Machines "avm list"
| Created avm
| Deleted
| Changed "VmPowerOperationResponseItem list"
| Refused string
| Unsupported

definition payload_of :: "vm_env \<Rightarrow> string \<Rightarrow> (gval \<Rightarrow> 'a option) \<Rightarrow> gval Request \<Rightarrow> 'a option" where
  "payload_of env ty dec request =
     (case convert env (TPtr (TNamed (ve_type env ty))) (req_Payload request) of Inl _ \<Rightarrow> None | Inr v \<Rightarrow> if v = GNil then None else dec v)"

definition vm_parse :: "vm_env \<Rightarrow> gval Request \<Rightarrow> vm_op" where
  "vm_parse env request =
     (if req_Request request = ''listVms'' then OpList
      else if req_Request request = ''deleteVm'' then
        (case payload_of env ''VmDeleteRequest'' (ve_delete env) request of
           None \<Rightarrow> OpBad ''Request payload should be VmDeleteRequest!'' | Some d \<Rightarrow> OpDelete (dr_Vm d))
      else if req_Request request = ''changeVmPowerState'' then
        (case payload_of env ''VmPowerOperationRequest'' (ve_power env) request of
           None \<Rightarrow> OpBad ''Request payload should be VmPowerOperationRequest!'' | Some d \<Rightarrow> OpPower (pr_PowerOperation d) (pr_VmRefs d))
      else if req_Request request = ''createVm'' then
        (case payload_of env ''VmCreateRequest'' (ve_create env) request of
           None \<Rightarrow> OpBad ''Request payload should be VmCreateRequest!''
         | Some d \<Rightarrow>
             if cr_Name d = '''' then OpBad ''Invalid VmCreateRequest: null name!''
             else (case cr_VirtualHardware d of None \<Rightarrow> OpBad ''Invalid VmCreateRequest: null virtualHardware!''
                   | Some hw \<Rightarrow> (case convert_devices env (vh_Devices hw) of Inl e \<Rightarrow> OpBad e | Inr ds \<Rightarrow> OpCreate (cr_Name d) (hw\<lparr>vh_Devices := ds\<rparr>))))
      else OpUnknown)"

fun vm_spec :: "uuid \<times> uuid \<Rightarrow> nat \<Rightarrow> vm_op \<Rightarrow> avm list \<Rightarrow> avm list \<times> vm_answer" where
  "vm_spec ids rnd OpList vms = (vms, Machines vms)"
| "vm_spec ids rnd (OpDelete ref) vms =
     (if ref \<in> a_ref ` set vms then (filter (\<lambda>v. a_ref v \<noteq> ref) vms, Deleted) else (vms, Refused (''Cannot find VM:'' @ show_ref ref)))"
| "vm_spec ids rnd (OpPower op refs) vms = (case spec_powers op refs vms of (vms', items) \<Rightarrow> (vms', Changed items))"
| "vm_spec ids rnd (OpCreate name hw) vms =
     (let v = \<lparr>a_ref = ref_of ids, a_name = name, a_host = ''191.168.12.'' @ show_int (int rnd mod 255),
                a_power = PoweredOff, a_hardware = Some hw\<rparr>
      in (vms @ [v], Created v))"
| "vm_spec ids rnd (OpBad msg) vms = (vms, Refused msg)"
| "vm_spec ids rnd OpUnknown vms = (vms, Unsupported)"

text \<open>A response as the client reads it in a state of the service, and when it was sent.\<close>

fun answer_of :: "vmService \<Rightarrow> vm_response \<Rightarrow> vm_answer" where
  "answer_of svc (VmListResponse e m sl) = (if e then Refused m else Machines (map (abs_vm svc) (read_slice sl svc)))"
| "answer_of svc (VmCreateResponse e m vm) = (if e then Refused m else Created (abs_vm svc vm))"
| "answer_of svc (BaseVmResponse e m) = (if e then Refused m else Deleted)"
| "answer_of svc (VmPowerOperationResponse e m items) = (if e then Refused m else Changed items)"

definition answered ::
  "vm_env \<Rightarrow> uuid \<Rightarrow> gval Request \<Rightarrow> fabricCore \<Rightarrow> vmService \<Rightarrow> vm_answer \<Rightarrow> 'b busState_scheme \<Rightarrow> 'b busState_scheme \<Rightarrow> bool" where
  "answered env new request core svc ans s s' \<longleftrightarrow>
     (if ans = Unsupported then s' = HandleUnknownRequest new request core s
      else \<exists>resp. s' = SendResponse new request (ve_response env resp) core s \<and> answer_of svc resp = ans)"

lemma answeredI: "answer_of svc resp = ans \<Longrightarrow> answered env new request core svc ans s (SendResponse new request (ve_response env resp) core s)"
  unfolding answered_def by (cases resp) (auto split: if_splits)

text \<open>The type assertions hold for what the conversion to the type returns.\<close>

definition asserted :: "vm_env \<Rightarrow> string \<Rightarrow> (gval \<Rightarrow> 'a option) \<Rightarrow> bool" where
  "asserted env ty dec \<longleftrightarrow> (\<forall>v x. convert env (TPtr (TNamed (ve_type env ty))) v = Inr x \<and> x \<noteq> GNil \<longrightarrow> dec x \<noteq> None)"

definition vm_types_ok :: "vm_env \<Rightarrow> bool" where
  "vm_types_ok env \<longleftrightarrow> asserted env ''VmDeleteRequest'' (ve_delete env) \<and> asserted env ''VmCreateRequest'' (ve_create env) \<and>
     asserted env ''VmPowerOperationRequest'' (ve_power env)"

lemma payload_cases:
  assumes "asserted env ty dec"
  obtains (none) "payload_of env ty dec request = None"
      "(\<exists>e. convert env (TPtr (TNamed (ve_type env ty))) (req_Payload request) = Inl e) \<or> convert env (TPtr (TNamed (ve_type env ty))) (req_Payload request) = Inr GNil"
  | (some) v d where "payload_of env ty dec request = Some d" "convert env (TPtr (TNamed (ve_type env ty))) (req_Payload request) = Inr v" "v \<noteq> GNil" "dec v = Some d"
proof (cases "convert env (TPtr (TNamed (ve_type env ty))) (req_Payload request)")
  case (Inr v)
  then show ?thesis using none some assms unfolding asserted_def payload_of_def by (cases "v = GNil") force+
qed (use none in \<open>simp add: payload_of_def\<close>)

text \<open>The result of a handler: the state goes on as the list of values does, and the answer is the one of the list.\<close>

definition refined ::
  "vm_env \<Rightarrow> uuid \<Rightarrow> gval Request \<Rightarrow> fabricCore \<Rightarrow> avm list \<times> vm_answer \<Rightarrow> 'b busState_scheme \<Rightarrow> (vmService \<times> 'b busState_scheme) go \<Rightarrow> bool" where
  "refined env new request core r s out \<longleftrightarrow>
     (\<exists>svc' s'. out = Done (svc', s') \<and> vm_inv svc' \<and> abs_vms svc' = fst r \<and> answered env new request core svc' (snd r) s s')"

lemma refined_send:
  "vm_inv svc' \<Longrightarrow> r = (abs_vms svc', answer_of svc' resp) \<Longrightarrow> refined env new request core r s (Done (vm_send env new request core (svc', resp) s))"
  by (auto simp: refined_def vm_send_def answeredI)

lemma delete_refined:
  assumes "vm_inv svc" "vm_types_ok env" "req_Request request = ''deleteVm''"
  shows "refined env new request core (vm_spec ids rnd (vm_parse env request) (abs_vms svc)) s (vm_deleteVm env new request core svc s)"
proof -
  have "asserted env ''VmDeleteRequest'' (ve_delete env)" using assms(2) by (simp add: vm_types_ok_def)
  then show ?thesis
  proof (cases rule: payload_cases[where request=request])
    case none
    then show ?thesis using assms(1,3) by (auto simp: vm_deleteVm_def vm_parse_def intro!: refined_send)
  next
    case v: (some v d)
  have p: "vm_parse env request = OpDelete (dr_Vm d)" using assms(3) v(1) by (simp add: vm_parse_def)
  have refs: "a_ref ` set (abs_vms svc) = vm_VmRef ` set (vms_of svc)" by (simp add: abs_vms_def image_image)
  show ?thesis
  proof (cases "find_index (\<lambda>vm. dr_Vm d = vm_VmRef vm) (vms_of svc)")
    case None
    then have "dr_Vm d \<notin> a_ref ` set (abs_vms svc)" unfolding refs by auto
    then show ?thesis using v None assms(1) by (auto simp: vm_deleteVm_def Let_def p simp del: find_index_None_iff intro!: refined_send)
  next
    case (Some i)
    define svc' where "svc' = svc\<lparr>vs_arrays := (vs_arrays svc)(sl_array (vs_vms svc) := shift_left i (sl_len (vs_vms svc)) (vs_arrays svc (sl_array (vs_vms svc)))),
       vs_vms := (vs_vms svc)\<lparr>sl_len := sl_len (vs_vms svc) - 1\<rparr>\<rparr>"
    have i: "i < length (vms_of svc)" "dr_Vm d \<in> a_ref ` set (abs_vms svc)" using find_index_SomeD[OF Some] unfolding refs by auto
    note del = delete_vms[OF assms(1) i(1) svc'_def]
    have "abs_vms svc' = filter (\<lambda>x. a_ref x \<noteq> dr_Vm d) (abs_vms svc)"
      using remove_at_ref[OF vm_invD(3)[OF assms(1)] Some]
      by (simp add: abs_vms_def del(1) filter_map comp_def abs_vm_def) (simp add: svc'_def)
    moreover have "vm_deleteVm env new request core svc s = Done (vm_send env new request core (svc', BaseVmResponse False '''') s)"
      using v Some by (simp add: vm_deleteVm_def Let_def svc'_def)
    ultimately show ?thesis using del(2) i(2) by (simp add: p refined_send)
  qed
qed
qed

lemma power_refined:
  assumes "vm_inv svc" "vm_types_ok env" "req_Request request = ''changeVmPowerState''"
  shows "refined env new request core (vm_spec ids rnd (vm_parse env request) (abs_vms svc)) s (changePowerState env new request core svc s)"
proof -
  have "asserted env ''VmPowerOperationRequest'' (ve_power env)" using assms(2) by (simp add: vm_types_ok_def)
  then show ?thesis
  proof (cases rule: payload_cases[where request=request])
    case none
    then show ?thesis using assms(1,3) by (auto simp: changePowerState_def vm_parse_def intro!: refined_send)
  next
    case v: (some v d)
  obtain svc' items where c: "change_all (pr_PowerOperation d) (pr_VmRefs d) svc = (svc', items)" by (cases "change_all (pr_PowerOperation d) (pr_VmRefs d) svc")
  from change_all_refines[OF assms(1) this] show ?thesis
    using assms(3) v c by (auto simp: changePowerState_def vm_parse_def intro!: refined_send)
qed
qed

lemma create_response:
  assumes "asserted env ''VmCreateRequest'' (ve_create env)" "req_Request request = ''createVm''"
  shows "vms_createVm env ids rnd request svc =
    (case vm_parse env request of
       OpCreate name hw \<Rightarrow> go_map (\<lambda>(vm, svc1). (append_vm env vm svc1, VmCreateResponse False '''' vm)) (vm_createVm ids rnd name (Some hw) svc)
     | OpBad msg \<Rightarrow> Done (svc, VmCreateResponse True msg zero_vm))"
  using assms(1)
proof (cases rule: payload_cases[where request=request])
  case none
  then show ?thesis using assms(2) by (auto simp: vms_createVm_def vm_parse_def)
next
  case (some v d)
  then show ?thesis using assms(2)
    by (cases "cr_VirtualHardware d") (auto simp: vms_createVm_def vm_parse_def split: sum.split)
qed

lemma create_op: "req_Request request = ''createVm'' \<Longrightarrow> (\<exists>msg. vm_parse env request = OpBad msg) \<or> (\<exists>name hw. vm_parse env request = OpCreate name hw)"
  by (auto simp: vm_parse_def split: option.split sum.split)

lemma create_refined:
  assumes "vm_inv svc" "vm_types_ok env" "req_Request request = ''createVm''" "ref_of ids \<notin> a_ref ` set (abs_vms svc)"
  shows "refined env new request core (vm_spec ids rnd (vm_parse env request) (abs_vms svc)) s
    (go_map (\<lambda>r. vm_send env new request core r s) (vms_createVm env ids rnd request svc))"
  using create_op[OF assms(3), of env]
proof (elim disjE exE)
  fix msg assume "vm_parse env request = OpBad msg"
  then show ?thesis using assms(1,2,3) by (simp add: create_response vm_types_ok_def refined_send)
next
  fix name hw assume p: "vm_parse env request = OpCreate name hw"
  obtain vm svc1 where c: "vm_createVm ids rnd name (Some hw) svc = Done (vm, svc1)" by (simp add: vm_createVm_def rand_Intn_def)
  have "ref_of ids \<notin> set (map vm_VmRef (vms_of svc))" using assms(4) by (simp add: abs_vms_def image_image)
  note cr = createVm_vms[OF assms(1) c this refl, of env]
  show ?thesis using p c cr assms(2,3) by (simp add: create_response vm_types_ok_def Let_def refined_send)
qed

lemma request_refined:
  assumes "vm_inv svc" "vm_types_ok env" "ref_of ids \<notin> a_ref ` set (abs_vms svc)"
  shows "refined env new request core (vm_spec ids rnd (vm_parse env request) (abs_vms svc)) s (vm_HandleServiceRequest env ids rnd new request core svc s)"
proof -
  consider "req_Request request = ''listVms''" | "req_Request request = ''deleteVm''" | "req_Request request = ''changeVmPowerState''"
    | "req_Request request = ''createVm''" | "vm_parse env request = OpUnknown" "req_Request request \<notin> {''listVms'', ''deleteVm'', ''changeVmPowerState'', ''createVm''}"
    by (auto simp: vm_parse_def)
  then show ?thesis
  proof cases
    case 1 then show ?thesis using assms(1) by (auto simp: vm_HandleServiceRequest_def vm_parse_def abs_vms_def intro!: refined_send)
  next
    case 2 then show ?thesis using delete_refined[OF assms(1,2)] by (simp add: vm_HandleServiceRequest_def)
  next
    case 3 then show ?thesis using power_refined[OF assms(1,2)] by (simp add: vm_HandleServiceRequest_def)
  next
    case 4 then show ?thesis using create_refined[OF assms(1,2) _ assms(3)] by (simp add: vm_HandleServiceRequest_def)
  next
    case 5 then show ?thesis using assms(1) by (auto simp: vm_HandleServiceRequest_def refined_def answered_def)
  qed
qed

section \<open>Runs of the service\<close>

text \<open>A request with the ids and the random number that a new machine would get, and the id of the answer.\<close>

type_synonym vm_input = "(uuid \<times> uuid) \<times> nat \<times> uuid \<times> gval Request"

fun vm_run :: "vm_env \<Rightarrow> fabricCore \<Rightarrow> vm_input list \<Rightarrow> vmService \<Rightarrow> 'b busState_scheme \<Rightarrow> (vmService \<times> 'b busState_scheme) go" where
  "vm_run env core [] svc s = Done (svc, s)"
| "vm_run env core ((ids, rnd, new, request) # ins) svc s =
     go_bind (vm_HandleServiceRequest env ids rnd new request core svc s) (\<lambda>(svc1, s1). vm_run env core ins svc1 s1)"

fun vm_spec_run :: "vm_env \<Rightarrow> vm_input list \<Rightarrow> avm list \<Rightarrow> avm list" where
  "vm_spec_run env [] vms = vms"
| "vm_spec_run env ((ids, rnd, new, request) # ins) vms = vm_spec_run env ins (fst (vm_spec ids rnd (vm_parse env request) vms))"

lemma spec_power_refs: "a_ref ` set (fst (spec_power op ref vms)) = a_ref ` set vms"
proof -
  have "a_ref (if a_ref v = ref then (case power_step op (a_power v) of Some p \<Rightarrow> v\<lparr>a_power := p\<rparr> | None \<Rightarrow> v) else v) = a_ref v" for v
    by (simp split: option.split)
  then show ?thesis unfolding spec_power_def fst_conv list.set_map image_image by (rule image_cong[OF refl])
qed

lemma spec_powers_refs: "a_ref ` set (fst (spec_powers op refs vms)) = a_ref ` set vms"
proof (induction refs arbitrary: vms)
  case (Cons ref refs)
  show ?case using Cons.IH[of "fst (spec_power op ref vms)"] spec_power_refs[of op ref vms] by (simp add: case_prod_beta)
qed simp

lemma spec_refs: "a_ref ` set (fst (vm_spec ids rnd op vms)) \<subseteq> insert (ref_of ids) (a_ref ` set vms)"
  using spec_powers_refs by (cases op) (auto simp: Let_def case_prod_beta)

lemma vm_run_refines:
  assumes "vm_inv svc" "vm_types_ok env" "distinct (map fst ins)" "\<forall>i \<in> set ins. ref_of (fst i) \<notin> a_ref ` set (abs_vms svc)"
  shows "\<exists>svc' s'. vm_run env core ins svc s = Done (svc', s') \<and> vm_inv svc' \<and> abs_vms svc' = vm_spec_run env ins (abs_vms svc) \<and>
    a_ref ` set (abs_vms svc') \<subseteq> a_ref ` set (abs_vms svc) \<union> (\<lambda>i. ref_of (fst i)) ` set ins"
  using assms
proof (induction ins arbitrary: svc s)
  case (Cons i ins)
  obtain ids rnd new request where i: "i = (ids, rnd, new, request)" by (cases i)
  have "refined env new request core (vm_spec ids rnd (vm_parse env request) (abs_vms svc)) s (vm_HandleServiceRequest env ids rnd new request core svc s)"
    by (rule request_refined[OF Cons.prems(1,2)]) (use Cons.prems(4) i in simp)
  then obtain svc1 s1 where 1: "vm_HandleServiceRequest env ids rnd new request core svc s = Done (svc1, s1)" "vm_inv svc1"
    "abs_vms svc1 = fst (vm_spec ids rnd (vm_parse env request) (abs_vms svc))" by (auto simp: refined_def)
  have sub: "a_ref ` set (abs_vms svc1) \<subseteq> insert (ref_of ids) (a_ref ` set (abs_vms svc))"
    unfolding 1(3) by (rule spec_refs)
  have "ref_of (fst j) \<notin> a_ref ` set (abs_vms svc1)" if j: "j \<in> set ins" for j
  proof -
    have "fst j \<noteq> ids" using Cons.prems(3) j i by auto
    then have "ref_of (fst j) \<notin> insert (ref_of ids) (a_ref ` set (abs_vms svc))" using Cons.prems(4) j by simp
    then show ?thesis using sub by blast
  qed
  then obtain svc' s' where 2: "vm_run env core ins svc1 s1 = Done (svc', s')" "vm_inv svc'" "abs_vms svc' = vm_spec_run env ins (abs_vms svc1)"
    "a_ref ` set (abs_vms svc') \<subseteq> a_ref ` set (abs_vms svc1) \<union> (\<lambda>i. ref_of (fst i)) ` set ins"
    using Cons.IH[OF 1(2) Cons.prems(2), of s1] Cons.prems(3) by auto
  have "a_ref ` set (abs_vms svc') \<subseteq> a_ref ` set (abs_vms svc) \<union> (\<lambda>i. ref_of (fst i)) ` set (i # ins)"
    using 2(4) sub by (simp add: i) blast
  then show ?case using 1 2(1,2,3) by (simp add: i)
qed auto

lemma vm_Init_ok:
  assumes "fst ids \<noteq> snd ids"
  shows "\<exists>svc. vm_Init env ids rnds new_vmService = Done svc \<and> vm_inv svc \<and> map a_ref (abs_vms svc) = [ref_of (fst ids), ref_of (snd ids)]"
proof -
  have "\<exists>p. powerState_poweredOff = power_text p" by (rule exI[of _ PoweredOff]) simp
  then show ?thesis using assms
    by (simp add: vm_Init_def vm_createVm_def rand_Intn_def new_slice_def new_vmService_def vm_inv_def abs_vms_def abs_vm_def read_slice_def ref_of_inj flip: ref_of_def)
qed

lemma vm_run_from_Init:
  assumes "vm_types_ok env" "distinct (fst ids # snd ids # map fst ins)"
  shows "\<exists>svc0 svc s'. vm_Init env ids rnds new_vmService = Done svc0 \<and> vm_run env core ins svc0 s = Done (svc, s') \<and> vm_inv svc \<and>
    abs_vms svc = vm_spec_run env ins (abs_vms svc0) \<and> a_ref ` set (abs_vms svc) \<subseteq> ref_of ` set (fst ids # snd ids # map fst ins)"
proof -
  obtain svc0 where 0: "vm_Init env ids rnds new_vmService = Done svc0" "vm_inv svc0" "map a_ref (abs_vms svc0) = [ref_of (fst ids), ref_of (snd ids)]"
    using vm_Init_ok[of ids env rnds] assms(2) by auto
  have refs: "a_ref ` set (abs_vms svc0) = {ref_of (fst ids), ref_of (snd ids)}"
    using arg_cong[OF 0(3), of set] by simp
  have "ref_of (fst i) \<notin> a_ref ` set (abs_vms svc0)" if "i \<in> set ins" for i
    using assms(2) imageI[OF that, of fst] unfolding refs by (simp, metis)
  then obtain svc s' where "vm_run env core ins svc0 s = Done (svc, s')" "vm_inv svc" "abs_vms svc = vm_spec_run env ins (abs_vms svc0)"
    "a_ref ` set (abs_vms svc) \<subseteq> a_ref ` set (abs_vms svc0) \<union> (\<lambda>i. ref_of (fst i)) ` set ins"
    using vm_run_refines[OF 0(2) assms(1), of ins core s] assms(2) by auto
  then show ?thesis using 0(1) by (simp add: refs image_image)
qed

lemma ref_of_image [simp]: "ref_of x \<in> ref_of ` A \<longleftrightarrow> x \<in> A"
  by (rule inj_image_mem_iff) (simp add: inj_def)

text \<open>
  C30. The sample VM service is a list of machines. Whatever requests it has handled since its
  initialisation, with new ids for new machines, no request panics or blocks, the machines are those that the
  requests make of the initial list (deleting removes exactly the machine with the reference, creating appends one that is
  powered off, a power operation moves exactly the machines it names by the table of power states), and the next request
  is answered with what that list gives: the machines, the new machine, the outcome for every reference, or the
  error for a payload that is not a request, a machine that does not exist or a request it does not know.
\<close>

theorem vm_service_refines:
  assumes "vm_types_ok env" "distinct (fst ids # snd ids # map fst ins @ [ids'])"
  shows "\<exists>svc0 svc s'. vm_Init env ids rnds new_vmService = Done svc0 \<and> vm_run env core ins svc0 s = Done (svc, s') \<and>
    abs_vms svc = vm_spec_run env ins (abs_vms svc0) \<and>
    refined env new request core (vm_spec ids' rnd (vm_parse env request) (abs_vms svc)) s' (vm_HandleServiceRequest env ids' rnd new request core svc s')"
proof -
  obtain svc0 svc s' where r: "vm_Init env ids rnds new_vmService = Done svc0" "vm_run env core ins svc0 s = Done (svc, s')" "vm_inv svc"
    "abs_vms svc = vm_spec_run env ins (abs_vms svc0)" "a_ref ` set (abs_vms svc) \<subseteq> ref_of ` set (fst ids # snd ids # map fst ins)"
    using vm_run_from_Init[OF assms(1), of ids ins rnds core s] assms(2) by auto
  have "ref_of ids' \<notin> ref_of ` set (fst ids # snd ids # map fst ins)" using assms(2) by (simp add: ref_of_image eq_commute[of ids'])
  then have "ref_of ids' \<notin> a_ref ` set (abs_vms svc)" using r(5) by blast
  from request_refined[OF r(3) assms(1) this, of new request core rnd s'] show ?thesis using r(1,2,4) by blast
qed

text \<open>
  C34. The table of the VM service stays well typed: after any requests the slice of machines lies within its
  array, machines have different references and each has its own runtime information, whose power
  state is powered off, powered on or suspended.
\<close>

theorem vm_table_well_typed:
  assumes "vm_types_ok env" "distinct (fst ids # snd ids # map fst ins)"
  shows "\<exists>svc0 svc s'. vm_Init env ids rnds new_vmService = Done svc0 \<and> vm_run env core ins svc0 s = Done (svc, s') \<and>
    length (vms_of svc) = sl_len (vs_vms svc) \<and> distinct (map vm_VmRef (vms_of svc)) \<and> distinct (map vm_RuntimeInfo (vms_of svc)) \<and>
    (\<forall>vm \<in> set (vms_of svc). ri_PowerState (vs_infos svc (vm_RuntimeInfo vm)) \<in> {powerState_poweredOff, powerState_poweredOn, powerState_suspended})"
proof -
  obtain svc0 svc s' where r: "vm_Init env ids rnds new_vmService = Done svc0" "vm_run env core ins svc0 s = Done (svc, s')" "vm_inv svc"
    using vm_run_from_Init[OF assms] by blast
  have "power_text p \<in> {powerState_poweredOff, powerState_poweredOn, powerState_suspended}" for p by (cases p) simp_all
  then have "ri_PowerState (vs_infos svc (vm_RuntimeInfo vm)) \<in> {powerState_poweredOff, powerState_poweredOn, powerState_suspended}" if "vm \<in> set (vms_of svc)" for vm
    using vm_invD(6)[OF r(3) that] by metis
  moreover have "length (vms_of svc) = sl_len (vs_vms svc)" using vm_invD(2)[OF r(3)] by (simp add: read_slice_def)
  ultimately show ?thesis using r vm_invD(3,4)[OF r(3)] by blast
qed

section \<open>An example\<close>

text \<open>Payloads as maps; a delete request and a power request name a machine by its ids.\<close>

fun ex_ref :: "gval \<Rightarrow> VmRef option" where
  "ex_ref (GStringMap m) = Some \<lparr>vr_VcGuid = (case map_of m ''vcGuid'' of None \<Rightarrow> '''' | Some x \<Rightarrow> x), vr_VmId = (case map_of m ''vmId'' of None \<Rightarrow> '''' | Some x \<Rightarrow> x)\<rparr>"
| "ex_ref _ = None"

definition ex_vm_env :: vm_env where
  "ex_vm_env = \<lparr>ve_recode = (\<lambda>_ v. case v of GStringMap _ \<Rightarrow> Inr v | _ \<Rightarrow> Inl ''cannot unmarshal''), ve_addr_of = id, ve_type = (\<lambda>_. 0),
     ve_delete = (\<lambda>v. map_option (\<lambda>r. \<lparr>dr_Vm = r\<rparr>) (ex_ref v)),
     ve_create = (\<lambda>v. map_option (\<lambda>_. \<lparr>cr_Name = '''', cr_VirtualHardware = None\<rparr>) (ex_ref v)),
     ve_power = (\<lambda>v. map_option (\<lambda>r. \<lparr>pr_VmRefs = [r], pr_PowerOperation = ''powerOn''\<rparr>) (ex_ref v)),
     ve_disk = (\<lambda>_. GNil), ve_usb = (\<lambda>_. GNil), ve_response = (\<lambda>_. GNil), ve_grow = (\<lambda>n. 2 * n)\<rparr>"

lemma ex_types_ok: "vm_types_ok ex_vm_env"
  by (auto simp: vm_types_ok_def asserted_def convert_def ConvertValueToType_def ex_vm_env_def split: gval.splits)

definition ex_payload :: "uuid \<times> uuid \<Rightarrow> gval" where
  "ex_payload ids = GStringMap [(''vcGuid'', fst ids), (''vmId'', snd ids)]"

abbreviation ex_vm_core :: fabricCore where
  "ex_vm_core \<equiv> \<lparr>fc_channelName = ''vm-service'', fc_headers = []\<rparr>"

definition ex_vm_request :: "string \<Rightarrow> gval \<Rightarrow> gval Request" where
  "ex_vm_request cmd payload = Request (Some ''r'') 0 0 '''' payload cmd None"

text \<open>The first machine is powered on and then deleted; what a list request is then answered.\<close>

abbreviation ex_vm_inputs :: "vm_input list" where
  "ex_vm_inputs \<equiv> [((''g3'', ''i3''), 0, ''m1'', ex_vm_request ''changeVmPowerState'' (ex_payload (''g1'', ''i1''))),
     ((''g4'', ''i4''), 0, ''m2'', ex_vm_request ''deleteVm'' (ex_payload (''g2'', ''i2'')))]"

lemma ex_ref_payload: "ex_ref (ex_payload ids) = Some (ref_of ids)"
  by (simp add: ex_payload_def ref_of_def)

lemma ex_parse:
  "vm_parse ex_vm_env (ex_vm_request ''changeVmPowerState'' (ex_payload ids)) = OpPower ''powerOn'' [ref_of ids]"
  "vm_parse ex_vm_env (ex_vm_request ''deleteVm'' (ex_payload ids)) = OpDelete (ref_of ids)"
  "vm_parse ex_vm_env (ex_vm_request ''listVms'' v) = OpList"
  using ex_ref_payload[of ids]
  by (simp_all add: vm_parse_def ex_vm_request_def payload_of_def convert_def ConvertValueToType_def ex_vm_env_def, simp_all add: ex_payload_def)

lemma abs_two:
  assumes "map a_ref (abs_vms svc) = [ref_of a, ref_of b]" "vm_Init ex_vm_env (a, b) rnds new_vmService = Done svc"
  shows "\<exists>v w. abs_vms svc = [v, w] \<and> a_ref v = ref_of a \<and> a_ref w = ref_of b \<and> a_power v = PoweredOff \<and> a_name v = ''sample-go-vm1''"
  using assms(2) by (auto simp: vm_Init_def vm_createVm_def rand_Intn_def new_slice_def new_vmService_def abs_vms_def abs_vm_def read_slice_def ref_of_def power_of_def)

theorem vm_service_refines_witness:
  "\<exists>svc0 svc svc' s' s'' v. vm_Init ex_vm_env ((''g1'', ''i1''), (''g2'', ''i2'')) (7, 8) new_vmService = Done svc0 \<and>
     vm_run ex_vm_env ex_vm_core ex_vm_inputs svc0 (init_bus ''bus'') = Done (svc, s') \<and>
     vm_HandleServiceRequest ex_vm_env (''g5'', ''i5'') 0 ''m3'' (ex_vm_request ''listVms'' GNil) ex_vm_core svc s' = Done (svc', s'') \<and>
     abs_vms svc' = [v] \<and> a_name v = ''sample-go-vm1'' \<and> a_power v = PoweredOn \<and>
     answered ex_vm_env ''m3'' (ex_vm_request ''listVms'' GNil) ex_vm_core svc' (Machines [v]) s' s''"
proof -
  have d: "distinct (fst ((''g1'', ''i1''), (''g2'', ''i2'')) # snd ((''g1'', ''i1''), (''g2'', ''i2'')) # map fst ex_vm_inputs @ [(''g5'', ''i5'')])" by simp
  obtain svc0 svc s' where r: "vm_Init ex_vm_env ((''g1'', ''i1''), (''g2'', ''i2'')) (7, 8) new_vmService = Done svc0"
    "vm_run ex_vm_env ex_vm_core ex_vm_inputs svc0 (init_bus ''bus'') = Done (svc, s')" "abs_vms svc = vm_spec_run ex_vm_env ex_vm_inputs (abs_vms svc0)"
    "refined ex_vm_env ''m3'' (ex_vm_request ''listVms'' GNil) ex_vm_core (vm_spec (''g5'', ''i5'') 0 (vm_parse ex_vm_env (ex_vm_request ''listVms'' GNil)) (abs_vms svc)) s'
       (vm_HandleServiceRequest ex_vm_env (''g5'', ''i5'') 0 ''m3'' (ex_vm_request ''listVms'' GNil) ex_vm_core svc s')"
    using vm_service_refines[OF ex_types_ok d, of "(7, 8)" ex_vm_core "init_bus ''bus''" "''m3''" "ex_vm_request ''listVms'' GNil" 0] by blast
  obtain v w where 0: "abs_vms svc0 = [v, w]" "a_ref v = ref_of (''g1'', ''i1'')" "a_ref w = ref_of (''g2'', ''i2'')" "a_power v = PoweredOff" "a_name v = ''sample-go-vm1''"
    using abs_two[OF _ r(1)] vm_Init_ok[of "((''g1'', ''i1''), (''g2'', ''i2''))" ex_vm_env "(7, 8)"] r(1) by auto
  have s: "abs_vms svc = [v\<lparr>a_power := PoweredOn\<rparr>]" using 0 by (simp add: r(3) ex_parse spec_power_def)
  show ?thesis using r(1,2,4) 0(5) unfolding refined_def ex_parse by (auto simp: s)
qed

theorem vm_table_well_typed_witness:
  "\<exists>svc0 svc s'. vm_Init ex_vm_env ((''g1'', ''i1''), (''g2'', ''i2'')) (7, 8) new_vmService = Done svc0 \<and>
     vm_run ex_vm_env ex_vm_core ex_vm_inputs svc0 (init_bus ''bus'') = Done (svc, s') \<and> length (vms_of svc) = sl_len (vs_vms svc)"
proof -
  have d: "distinct (fst ((''g1'', ''i1''), (''g2'', ''i2'')) # snd ((''g1'', ''i1''), (''g2'', ''i2'')) # map fst ex_vm_inputs)" by simp
  show ?thesis using vm_table_well_typed[OF ex_types_ok d, of "(7, 8)" ex_vm_core "init_bus ''bus''"] by blast
qed

section \<open>A list that was answered\<close>

text \<open>
  The answer to a list request holds the slice of the service, not a copy: when the first of two machines is
  deleted before the answer is read, the reader finds the second machine twice.
\<close>

theorem listed_machines_change:
  assumes "vm_Init ex_vm_env ((g1, i1), (g2, i2)) rnds new_vmService = Done svc" "(g1, i1) \<noteq> (g2, i2)"
    "vm_HandleServiceRequest ex_vm_env ids rnd new (ex_vm_request ''deleteVm'' (ex_payload (g1, i1))) core svc s = Done (svc', s')"
  shows "map vm_Name (read_slice (vs_vms svc) svc) = [''sample-go-vm1'', ''sample-go-vm2''] \<and>
    map vm_Name (read_slice (vs_vms svc) svc') = [''sample-go-vm2'', ''sample-go-vm2''] \<and> map vm_Name (vms_of svc') = [''sample-go-vm2'']"
  using assms ex_ref_payload[of "(g1, i1)"]
  by (auto simp: vm_Init_def vm_createVm_def rand_Intn_def new_slice_def new_vmService_def read_slice_def vm_HandleServiceRequest_def
      vm_deleteVm_def convert_def ConvertValueToType_def ex_vm_env_def ex_vm_request_def ex_payload_def ref_of_def vm_send_def shift_left_def Let_def)

end
