(* ===== verification/ExampleServices.thy ===== *)
theory ExampleServices
  imports SampleServices
begin

text \<open>
  The other services of the examples (src/examples/need-refactoring/sample\_services.go): a calendar, the pong
  service that asks the calendar in a transaction, a stream that can be switched off, jokes and the
  status of a cloud. The clock, the formatting of values and the type assertions on values of the
  services' own types are parameters; the numbers \<open>u\<close>, \<open>v\<close> stand for the function literals that are passed on.
\<close>

abbreviation CalendarServiceChan :: string where "CalendarServiceChan \<equiv> ''calendar-service''"
abbreviation PongServiceChan :: string where "PongServiceChan \<equiv> ''services-PongService''"
abbreviation SimpleStreamChan :: string where "SimpleStreamChan \<equiv> ''simple-stream''"
abbreviation ServbotServiceChan :: string where "ServbotServiceChan \<equiv> ''servbot''"
abbreviation VmServiceChan :: string where "VmServiceChan \<equiv> ''vm-service''"
abbreviation VMWCloudServiceChan :: string where "VMWCloudServiceChan \<equiv> ''services-CloudServiceStatus''"

subsection \<open>Calendar\<close>

text \<open>\<open>now layout\<close> is the present time in a layout.\<close>

definition calendar_HandleServiceRequest ::
  "(string \<Rightarrow> string) \<Rightarrow> uuid \<Rightarrow> gval Request \<Rightarrow> fabricCore \<Rightarrow> 'b busState_scheme \<Rightarrow> 'b busState_scheme" where
  "calendar_HandleServiceRequest now new request core s =
     (if req_Request request = ''time'' then SendResponse new request (GString (now ''03:04:05.000 AM (-0700)'')) core s
      else if req_Request request = ''date'' then SendResponse new request (GString (now ''Mon, 02 Jan 2006'')) core s
      else HandleUnknownRequest new request core s)"

subsection \<open>Pong\<close>

text \<open>\<open>newI\<close> is the id of both requests, \<open>ids\<close> are those of the transaction and \<open>cb\<close> is the literal given to \<^verbatim>\<open>OnComplete\<close>.\<close>

definition pong_full :: "uuid \<Rightarrow> (nat \<Rightarrow> request_ids) \<Rightarrow> nat \<Rightarrow> 'b txBus_scheme \<Rightarrow> 'b txBus_scheme go" where
  "pong_full newI ids cb s =
     (case CreateAsyncTransaction s of (s1, tr) \<Rightarrow>
        let s2 = upd_tx tr (fst \<circ> SendRequest CalendarServiceChan (GRequestPtr (Request (Some newI) 0 0 '''' GNil ''date'' None))) s1;
            s3 = upd_tx tr (fst \<circ> SendRequest CalendarServiceChan (GRequestPtr (Request (Some newI) 0 0 '''' GNil ''time'' None))) s2;
            s4 = upd_tx tr (fst \<circ> OnComplete (UserFn cb)) s3
        in go_map fst (Commit ids tr s4))"

definition pong_HandleServiceRequest ::
  "uuid \<Rightarrow> (nat \<Rightarrow> request_ids) \<Rightarrow> nat \<Rightarrow> uuid \<Rightarrow> gval Request \<Rightarrow> fabricCore \<Rightarrow> 'b txBus_scheme \<Rightarrow> 'b txBus_scheme go" where
  "pong_HandleServiceRequest newI ids cb new request core s =
     (if req_Request request = ''basic'' then
        (case req_Payload request of
           GString p \<Rightarrow> Done (SendResponse new request (GString (''Fabric Pong (Basic): Pong: '' @ p)) core s)
         | _ \<Rightarrow> Panic ''interface conversion'')
      else if req_Request request = ''full'' then pong_full newI ids cb s
      else Done (HandleUnknownRequest new request core s))"

text \<open>The payload of the response in a message of the list; \<open>fmt_s\<close> prints a value with \<^verbatim>\<open>%s\<close>.\<close>

definition response_at :: "Message option list \<Rightarrow> nat \<Rightarrow> gval go" where
  "response_at responses i =
     (if i \<ge> length responses then Panic ''index out of range''
      else case responses ! i of
             None \<Rightarrow> Panic ''nil pointer dereference''
           | Some m \<Rightarrow> (case msg_Payload m of GResponsePtr r \<Rightarrow> Done (resp_Payload r) | _ \<Rightarrow> Panic ''interface conversion''))"

definition pongComplete ::
  "(gval \<Rightarrow> string) \<Rightarrow> uuid \<Rightarrow> gval Request \<Rightarrow> fabricCore \<Rightarrow> Message option list \<Rightarrow> 'b busState_scheme \<Rightarrow> 'b busState_scheme go" where
  "pongComplete fmt_s new request core responses s =
     go_bind (response_at responses 0) (\<lambda>p0. go_map (\<lambda>p1.
       SendResponse new request (GString (''Fabric Pong (Full): Calendar: '' @ fmt_s p0 @ '' '' @ fmt_s p1 @ '' / Pong: '' @ fmt_s (req_Payload request))) core s)
       (response_at responses 1))"

subsection \<open>A stream that can be switched off\<close>

record simpleStreamTickerService =
  sst_online :: bool

definition sst_HandleServiceRequest ::
  "uuid \<Rightarrow> gval Request \<Rightarrow> fabricCore \<Rightarrow> simpleStreamTickerService \<Rightarrow> 'b busState_scheme \<Rightarrow> simpleStreamTickerService \<times> 'b busState_scheme" where
  "sst_HandleServiceRequest new request core fs s =
     (if req_Request request = ''online'' then (fs\<lparr>sst_online := True\<rparr>, s)
      else if req_Request request = ''offline'' then (fs\<lparr>sst_online := False\<rparr>, s)
      else (fs, HandleUnknownRequest new request core s))"

text \<open>\<^verbatim>\<open>Init\<close> starts a goroutine that runs for ever; \<open>sst_tick\<close> is what it does at a tick, at \<open>ns\<close> nanoseconds of second \<open>sec\<close>.\<close>

definition sst_Init :: "simpleStreamTickerService \<Rightarrow> simpleStreamTickerService" where
  "sst_Init fs = fs\<lparr>sst_online := True\<rparr>"

definition sst_tick :: "int \<Rightarrow> int \<Rightarrow> uuid \<Rightarrow> uuid \<Rightarrow> simpleStreamTickerService \<Rightarrow> 'b busState_scheme \<Rightarrow> 'b busState_scheme" where
  "sst_tick ns sec newI new fs s =
     (if sst_online fs then
        fst (SendResponseMessage new SimpleStreamChan
          (GResponsePtr (Response (Some newI) '''' 0 '''' (GString (''ping-'' @ show_int (ns + sec))) False 0 '''' None [])) None s)
      else s)"

subsection \<open>Jokes and the status of the cloud\<close>

definition servbot_Init :: "fabricCore \<Rightarrow> fabricCore" where
  "servbot_Init core = SetHeaders [(''Accept'', ''application/json'')] core"

definition servbot_HandleServiceRequest ::
  "nat \<Rightarrow> uuid \<times> uuid \<times> uuid \<times> uuid \<Rightarrow> nat \<Rightarrow> nat \<Rightarrow> uuid \<Rightarrow> gval Request \<Rightarrow> fabricCore
     \<Rightarrow> 'b transportEventBus_scheme \<Rightarrow> 'b transportEventBus_scheme go" where
  "servbot_HandleServiceRequest joke ids u v new request core s =
     (if req_Request request = ''Joke'' then
        (case ids of (newI, newH, newS, newM) \<Rightarrow>
           go_map fst (core_RestServiceRequest newI newH newS newM
             (RestServiceRequest ''https://icanhazdadjoke.com'' ''GET'' GNil [] (Some (TPtr (TNamed joke))) '''') u v core s))
      else Done (HandleUnknownRequest new request core s))"

text \<open>The literals: \<open>as_joke\<close> is the text of a pointer to a joke, \<open>as_strings\<close> a slice of strings as a payload.\<close>

definition servbotReceived ::
  "(gval \<Rightarrow> string option) \<Rightarrow> (string list \<Rightarrow> gval) \<Rightarrow> uuid \<Rightarrow> gval Request \<Rightarrow> gval Response \<Rightarrow> fabricCore \<Rightarrow> 'b busState_scheme \<Rightarrow> 'b busState_scheme go" where
  "servbotReceived as_joke as_strings new request response core s =
     (case as_joke (resp_Payload response) of
        None \<Rightarrow> Panic ''interface conversion''
      | Some joke \<Rightarrow> Done (SendResponse new request (as_strings [joke]) core s))"

definition restFailed :: "uuid \<Rightarrow> gval Request \<Rightarrow> gval Response \<Rightarrow> fabricCore \<Rightarrow> 'b busState_scheme \<Rightarrow> 'b busState_scheme" where
  "restFailed new request response core s =
     SendErrorResponse new request (resp_ErrorCode response) (resp_ErrorMessage response) core s"

definition cloud_HandleServiceRequest ::
  "uuid \<times> uuid \<times> uuid \<times> uuid \<Rightarrow> nat \<Rightarrow> nat \<Rightarrow> gval Request \<Rightarrow> fabricCore \<Rightarrow> 'b transportEventBus_scheme \<Rightarrow> 'b transportEventBus_scheme go" where
  "cloud_HandleServiceRequest ids u v request core s =
     (case ids of (newI, newH, newS, newM) \<Rightarrow>
        go_map fst (core_RestServiceRequest newI newH newS newM
          (RestServiceRequest ''https://status.vmware-services.io/api/v2/status.json'' ''GET'' GNil [] None '''') u v core s))"

definition cloudReceived :: "uuid \<Rightarrow> gval Request \<Rightarrow> gval Response \<Rightarrow> fabricCore \<Rightarrow> 'b busState_scheme \<Rightarrow> 'b busState_scheme" where
  "cloudReceived new request response core s = SendResponse new request (resp_Payload response) core s"

end
