(* ===== verification/ExampleServicesLaws.thy ===== *)
theory ExampleServicesLaws
  imports ExampleServices TransactionLaws
begin

text \<open>
  Laws of the example services: the full answer of the pong service through a transaction, and the switch of the
  stream.
\<close>

section \<open>The full pong\<close>

text \<open>A request of an asynchronous transaction to a channel that exists leaves the transactions as they are.\<close>

lemma tx_sendRequest_ok:
  assumes "Channels s (tq_channelName req) = Some c" "ch_Name (chans s c) = tq_channelName req"
  shows "\<exists>s'. tx_sendRequest held ids t req s = Done s' \<and> txs s' = txs s \<and> Channels s' = Channels s \<and> (\<forall>d. ch_Name (chans s' d) = ch_Name (chans s d))"
  using assms
  by (auto simp: tx_sendRequest_def ListenOnceForDestination_def getChannelFromManager_def GetChannel_def
      wrapMessageHandler_def Let_def Handle_def SubscribeChannelHandler_def SendRequestMessage_def
      sendMessageToChannel_def createMessageHandler_def upd_mh_def upd_chan_def SendMonitorEvent_def upd_tx_def Channel_Send_simps subscribeHandler_def)

lemma startAsync_ok:
  assumes "\<forall>req \<in> set reqs. tq_storeName req = '''' \<and> (\<exists>c. Channels s (tq_channelName req) = Some c \<and> ch_Name (chans s c) = tq_channelName req)"
  shows "\<exists>s'. startAsyncTransaction ids t reqs s = Done s' \<and> txs s' = txs s"
  using assms
proof (induction reqs arbitrary: s)
  case (Cons req reqs)
  then obtain c where c: "Channels s (tq_channelName req) = Some c" "ch_Name (chans s c) = tq_channelName req" by auto
  obtain s1 where s1: "tx_sendRequest True (ids (tq_requestIndex req)) t req s = Done s1" "txs s1 = txs s" "Channels s1 = Channels s"
    "\<And>d. ch_Name (chans s1 d) = ch_Name (chans s d)"
    using tx_sendRequest_ok[OF c] by blast
  from Cons.IH[of s1] Cons.prems obtain s2 where "startAsyncTransaction ids t reqs s1 = Done s2" "txs s2 = txs s1" by (auto simp: s1)
  then show ?case using s1(1,2) Cons.prems by (auto simp: executeRequest_def)
qed simp

definition calendar_request :: "uuid \<Rightarrow> string \<Rightarrow> nat \<Rightarrow> busTransactionRequest" where
  "calendar_request newI cmd i = \<lparr>tq_requestIndex = i, tq_storeName = '''', tq_channelName = CalendarServiceChan,
     tq_payload = GRequestPtr (Request (Some newI) 0 0 '''' GNil cmd None)\<rparr>"

lemma pong_full_started:
  assumes "Channels s CalendarServiceChan = Some c" "ch_Name (chans s c) = CalendarServiceChan"
  shows "\<exists>s'. pong_full newI ids cb s = Done s' \<and>
    txs s' (nextTx s) = (newBusTransaction asyncTransaction)\<lparr>tr_state := committedState, tr_requests := [calendar_request newI ''date'' 0, calendar_request newI ''time'' 1],
      tr_responses := [None, None], tr_onCompleteHandlers := [UserFn cb]\<rparr>"
proof -
  define s4 where "s4 = upd_tx (nextTx s) (\<lambda>_. (newBusTransaction asyncTransaction)\<lparr>tr_requests := [calendar_request newI ''date'' 0, calendar_request newI ''time'' 1],
    tr_onCompleteHandlers := [UserFn cb]\<rparr>) (s\<lparr>nextTx := Suc (nextTx s)\<rparr>)"
  define s5 where "s5 = upd_tx (nextTx s) (\<lambda>tr. tr\<lparr>tr_state := committedState, tr_responses := replicate (length (tr_requests tr)) None\<rparr>) s4"
  have t4: "txs s4 (nextTx s) = (newBusTransaction asyncTransaction)\<lparr>tr_requests := [calendar_request newI ''date'' 0, calendar_request newI ''time'' 1],
    tr_onCompleteHandlers := [UserFn cb]\<rparr>" by (simp add: s4_def)
  have "pong_full newI ids cb s = go_map fst (Commit ids (nextTx s) s4)"
    by (simp add: pong_full_def CreateAsyncTransaction_def create_tx_def Let_def upd_tx_def SendRequest_def OnComplete_def checkUncommittedState_def
        newBusTransaction_def calendar_request_def s4_def)
  moreover obtain s6 where "startAsyncTransaction ids (nextTx s) [calendar_request newI ''date'' 0, calendar_request newI ''time'' 1] s5 = Done s6" "txs s6 = txs s5"
    using startAsync_ok[of "[calendar_request newI ''date'' 0, calendar_request newI ''time'' 1]" s5 ids "nextTx s"] assms
    by (auto simp: calendar_request_def s5_def s4_def)
  moreover have "Commit ids (nextTx s) s4 = go_map (\<lambda>s2. (s2, None)) (startAsyncTransaction ids (nextTx s) [calendar_request newI ''date'' 0, calendar_request newI ''time'' 1] s5)"
    by (simp add: Commit_def t4 checkUncommittedState_def newBusTransaction_def Let_def s5_def)
  ultimately show ?thesis by (simp add: s5_def t4 newBusTransaction_def)
qed

text \<open>
  C35. The full answer of the pong service: with a calendar channel on the bus the request starts a transaction that asks the
  calendar for the date and the time; in whichever order the two responses come in, the completion handler
  is started once, when both are there, and the answer to the request has the date before the time.
\<close>

theorem pong_answers_in_order:
  assumes "Channels s CalendarServiceChan = Some c" "ch_Name (chans s c) = CalendarServiceChan" "req_Request request = ''full''"
    "msg_Payload date = GResponsePtr rd" "msg_Payload time = GResponsePtr rt" "order \<in> {[(0, date), (1, time)], [(1, time), (0, date)]}"
  shows "\<exists>s1 s2 s3. pong_HandleServiceRequest newI ids cb new request core s = Done s1 \<and>
    map tq_payload (tr_requests (txs s1 (nextTx s))) = map (\<lambda>cmd. GRequestPtr (Request (Some newI) 0 0 '''' GNil cmd None)) [''date'', ''time''] \<and>
    onTransactionRequestSuccess ids (nextTx s) (fst (order ! 0)) (snd (order ! 0)) s1 = Done s2 \<and> tr_completeCalls (txs s2 (nextTx s)) = [] \<and>
    onTransactionRequestSuccess ids (nextTx s) (fst (order ! 1)) (snd (order ! 1)) s2 = Done s3 \<and>
    tr_completeCalls (txs s3 (nextTx s)) = [(UserFn cb, [Some date, Some time])] \<and>
    pongComplete fmt_s new request core [Some date, Some time] s3 = Done (SendResponse new request
      (GString (''Fabric Pong (Full): Calendar: '' @ fmt_s (resp_Payload rd) @ '' '' @ fmt_s (resp_Payload rt) @ '' / Pong: '' @ fmt_s (req_Payload request))) core s3)"
proof -
  obtain s1 where s1: "pong_full newI ids cb s = Done s1"
    "txs s1 (nextTx s) = (newBusTransaction asyncTransaction)\<lparr>tr_state := committedState, tr_requests := [calendar_request newI ''date'' 0, calendar_request newI ''time'' 1],
      tr_responses := [None, None], tr_onCompleteHandlers := [UserFn cb]\<rparr>"
    using pong_full_started[OF assms(1,2)] by blast
  have h: "pong_HandleServiceRequest newI ids cb new request core s = Done s1" using assms(3) s1(1) by (simp add: pong_HandleServiceRequest_def)
  show ?thesis
    using assms(6) unfolding h
    by (auto simp: s1(2) onTransactionRequestSuccess_def recordSuccess_def newBusTransaction_def Let_def calendar_request_def
        pongComplete_def response_at_def assms(4,5))
qed

definition ex_calendar_bus :: txBus where
  "ex_calendar_bus = fst (CreateChannel CalendarServiceChan (init_txBus ''b''))"

lemma ex_calendar_bus_facts: "Channels ex_calendar_bus CalendarServiceChan = Some 0" "ch_Name (chans ex_calendar_bus 0) = CalendarServiceChan" "nextTx ex_calendar_bus = 0"
  by (simp_all add: ex_calendar_bus_def CreateChannel_def init_txBus_def storeBus.extend_def init_storeBus_def transportEventBus.extend_def
      init_bus_def Let_def go_SendMonitorEvent_def NewChannel_def)

definition ex_reply :: "string \<Rightarrow> Message" where
  "ex_reply t = GenerateResponse ''m'' (buildConfig ''m'' CalendarServiceChan (GResponsePtr (Response None '''' 0 '''' (GString t) False 0 '''' None [])) None)"

theorem pong_answers_in_order_witness:
  "\<exists>s1 s2 s3. pong_HandleServiceRequest ''i'' (\<lambda>_. ex_ids) 4 ''n'' (Request None 0 0 '''' (GString ''hi'') ''full'' None) \<lparr>fc_channelName = PongServiceChan, fc_headers = []\<rparr> ex_calendar_bus = Done s1 \<and>
     onTransactionRequestSuccess (\<lambda>_. ex_ids) 0 1 (ex_reply ''10:00'') s1 = Done s2 \<and> onTransactionRequestSuccess (\<lambda>_. ex_ids) 0 0 (ex_reply ''Monday'') s2 = Done s3 \<and>
     tr_completeCalls (txs s3 0) = [(UserFn 4, [Some (ex_reply ''Monday''), Some (ex_reply ''10:00'')])]"
proof -
  have p: "msg_Payload (ex_reply t) = GResponsePtr (Response None '''' 0 '''' (GString t) False 0 '''' None [])" for t by (simp add: ex_reply_def buildConfig_def)
  show ?thesis
    using pong_answers_in_order[OF ex_calendar_bus_facts(1,2), where request="Request None 0 0 '''' (GString ''hi'') ''full'' None" and newI="''i''" and ids="\<lambda>_. ex_ids" and cb=4
        and fmt_s="\<lambda>_. ''''" and new="''n''" and core="\<lparr>fc_channelName = PongServiceChan, fc_headers = []\<rparr>" and order="[(1, ex_reply ''10:00''), (0, ex_reply ''Monday'')]", OF _ p[of "''Monday''"] p[of "''10:00''"]]
    by (auto simp: ex_calendar_bus_facts(3))
qed

text \<open>Without a calendar channel the full request never returns: the transaction waits for its own mutex.\<close>

theorem pong_without_calendar_blocks:
  assumes "Channels s CalendarServiceChan = None" "req_Request request = ''full''"
  shows "pong_HandleServiceRequest newI ids cb new request core s = Block"
  using assms
  by (simp add: pong_HandleServiceRequest_def pong_full_def CreateAsyncTransaction_def create_tx_def Let_def upd_tx_def SendRequest_def OnComplete_def
      checkUncommittedState_def newBusTransaction_def Commit_def executeRequest_def tx_sendRequest_def ListenOnceForDestination_def getChannelFromManager_def
      GetChannel_def failRequest_def)

text \<open>A basic request whose payload is not a string panics.\<close>

theorem pong_needs_string:
  "req_Request request = ''basic'' \<Longrightarrow> (\<forall>p. req_Payload request \<noteq> GString p) \<Longrightarrow>
   pong_HandleServiceRequest newI ids cb new request core s = Panic ''interface conversion''"
  by (simp add: pong_HandleServiceRequest_def split: gval.split)

section \<open>The stream\<close>

text \<open>After any requests the stream sends exactly when the last switch was on (and it is on at first).\<close>

definition sst_run :: "(uuid \<times> gval Request) list \<Rightarrow> fabricCore \<Rightarrow> simpleStreamTickerService \<times> 'b busState_scheme \<Rightarrow> simpleStreamTickerService \<times> 'b busState_scheme" where
  "sst_run rs core = fold (\<lambda>(new, request) (fs, s). sst_HandleServiceRequest new request core fs s) rs"

theorem stream_switch:
  "sst_online (fst (sst_run rs core (sst_Init fs, s))) =
     (case filter (\<lambda>r. r \<in> {''online'', ''offline''}) (map (req_Request \<circ> snd) rs) of [] \<Rightarrow> True | cs \<Rightarrow> last cs = ''online'')"
proof (induction rs rule: rev_induct)
  case (snoc r rs)
  then show ?case by (auto simp: sst_run_def sst_HandleServiceRequest_def case_prod_beta split: list.splits)
qed (simp add: sst_run_def sst_Init_def)

theorem offline_is_silent: "\<not> sst_online fs \<Longrightarrow> sst_tick ns sec newI new fs s = s"
  by (simp add: sst_tick_def)

end
