(* ===== verification/ExampleClients.thy ===== *)
theory ExampleClients
  imports ExampleServices PlankStart
begin

text \<open>
  The programs that use the module: the client of a stream (src/examples/simple\_stream.go), the demo program
  (src/examples/need-refactoring/transport.go), the sample clients of plank (src/plank/cmd/broker\_sample/plank) and the
  command that starts plank with its services (src/plank/cmd/main.go). A program is the operations it calls on the
  bus, in order; what its callbacks do with a message is a function of its own, since the bus runs them in goroutines. Waiting
  for a signal or a wait group is \<open>Block\<close> in a state where it would wait, and ending the process is \<open>Panic\<close>.
\<close>

subsection \<open>Connecting\<close>

text \<open>The network and the ids a program needs; \<open>ne_unmarshal\<close> decodes a response.\<close>

record net_env =
  ne_basic_tls :: nat
  ne_tls_err :: "error option"
  ne_dial_err :: "error option"
  ne_accepted :: bool
  ne_tcp_ok :: bool
  ne_tcp_err :: "error option"
  ne_new :: "nat \<Rightarrow> uuid"
  ne_unmarshal :: "bytes \<Rightarrow> error + gval Response"

definition guest_config :: "string \<Rightarrow> BrokerConnectorConfig" where
  "guest_config addr = \<lparr>bcc_Username = ''guest'', bcc_Password = ''guest'', bcc_ServerAddr = addr, bcc_UseWS = False, bcc_WebSocketConfig = None,
     bcc_HostHeader = '''', bcc_HeartBeatOut = 0, bcc_HeartBeatIn = 0, bcc_STOMPHeader = []\<rparr>"

definition ws_config :: "string \<Rightarrow> string \<Rightarrow> bool \<Rightarrow> BrokerConnectorConfig" where
  "ws_config addr path useTLS = (guest_config addr)\<lparr>bcc_UseWS := True,
     bcc_WebSocketConfig := Some \<lparr>ws_WSPath = path, ws_UseTLS = useTLS, ws_TLSConfig = None, ws_CertFile = '''', ws_KeyFile = ''''\<rparr>\<rparr>"

definition connect_or_die :: "net_env \<Rightarrow> BrokerConnectorConfig \<Rightarrow> 'b transportEventBus_scheme \<Rightarrow> ('b transportEventBus_scheme \<times> addr) go" where
  "connect_or_die env config s =
     go_bind (ConnectBroker (ne_basic_tls env) (ne_tls_err env) (ne_dial_err env) (ne_accepted env) (ne_new env 0) (Some config) s) (\<lambda>(s1, r).
       case r of Inl err \<Rightarrow> Panic err | Inr c \<Rightarrow> Done (s1, c))"

definition map_or_die :: "net_env \<Rightarrow> nat \<Rightarrow> string \<Rightarrow> string \<Rightarrow> addr \<Rightarrow> 'b transportEventBus_scheme \<Rightarrow> 'b transportEventBus_scheme go" where
  "map_or_die env i channel dest c s =
     go_bind (MarkChannelAsGalactic (ne_tcp_ok env) (ne_new env i) (ne_new env (Suc i)) channel dest (Some c) s) (\<lambda>(s1, err).
       case err of Some e \<Rightarrow> Panic e | None \<Rightarrow> Done s1)"

definition unmap_or_die :: "net_env \<Rightarrow> nat \<Rightarrow> string \<Rightarrow> 'b transportEventBus_scheme \<Rightarrow> 'b transportEventBus_scheme go" where
  "unmap_or_die env i channel s =
     go_bind (MarkChannelAsLocal (\<lambda>k. ne_new env (i + k)) channel s) (\<lambda>(s1, err). case err of Some e \<Rightarrow> Panic e | None \<Rightarrow> Done s1)"

definition disconnect_or_die :: "net_env \<Rightarrow> addr \<Rightarrow> 'b transportEventBus_scheme \<Rightarrow> 'b transportEventBus_scheme go" where
  "disconnect_or_die env c s =
     go_bind (connection_Disconnect (ne_tcp_err env) (Some (conns s c))) (\<lambda>(cn, err).
       case err of
         Some e \<Rightarrow> Panic e
       | None \<Rightarrow> Done (case cn of None \<Rightarrow> s | Some x \<Rightarrow> upd_conn c x s))"

subsection \<open>Ten values of a stream\<close>

abbreviation myLocalChan :: string where
  "myLocalChan \<equiv> ''my-stream''"

text \<open>\<open>u\<close> and \<open>v\<close> are the two function literals; the results are the connection and the handler.\<close>

definition SimpleStream_start :: "net_env \<Rightarrow> nat \<Rightarrow> nat \<Rightarrow> 'b transportEventBus_scheme \<Rightarrow> ('b transportEventBus_scheme \<times> addr \<times> addr) go" where
  "SimpleStream_start env u v s =
     go_bind (connect_or_die env (ws_config ''transport-bus.io'' ''/ws'' True) s) (\<lambda>(s1, c).
       let s2 = fst (CreateChannel myLocalChan s1) in
       case ListenStream (ne_new env 1) myLocalChan s2 of
         (s3, handler) \<Rightarrow>
           go_bind (map_or_die env 2 myLocalChan ''/topic/simple-stream'' c s3) (\<lambda>s4.
             case handler of
               Inl _ \<Rightarrow> Panic ''nil pointer dereference''
             | Inr h \<Rightarrow> Done (Handle (ne_new env 4) h (Some (UserFn u)) (Some (UserFn v)) s4, c, h)))"

text \<open>The slice of the values and the counter of the wait group.\<close>

record stream_client =
  sc_values :: "string list"
  sc_wg :: nat

definition new_stream_client :: stream_client where
  "new_stream_client = \<lparr>sc_values = [], sc_wg = 10\<rparr>"

definition wg_Done :: "nat \<Rightarrow> nat go" where
  "wg_Done n = (if n = 0 then Panic ''sync: negative WaitGroup counter'' else Done (n - 1))"

definition SimpleStream_onMessage :: "net_env \<Rightarrow> Message \<Rightarrow> stream_client \<Rightarrow> stream_client go" where
  "SimpleStream_onMessage env msg cl =
     (case msg_Payload msg of
        GBytes d \<Rightarrow>
          (case ne_unmarshal env d of
             Inl _ \<Rightarrow> Done cl
           | Inr r \<Rightarrow>
               (case resp_Payload r of
                  GString value \<Rightarrow> go_map (\<lambda>n. \<lparr>sc_values = sc_values cl @ [value], sc_wg = n\<rparr>) (wg_Done (sc_wg cl))
                | _ \<Rightarrow> Panic ''interface conversion''))
      | _ \<Rightarrow> Panic ''interface conversion'')"

definition SimpleStream_finish :: "net_env \<Rightarrow> addr \<Rightarrow> addr \<Rightarrow> stream_client \<Rightarrow> 'b transportEventBus_scheme \<Rightarrow> ('b transportEventBus_scheme \<times> string list) go" where
  "SimpleStream_finish env c h cl s =
     (if sc_wg cl \<noteq> 0 then Block
      else go_bind (MessageHandler_Close h s) (\<lambda>s1.
             go_bind (unmap_or_die env 5 myLocalChan s1) (\<lambda>s2.
               go_map (\<lambda>s3. (s3, sc_values cl)) (disconnect_or_die env c s2))))"

subsection \<open>The demo program: asking for the time\<close>

text \<open>\<open>marshal\<close> encodes a request. The program waits for one answer on a channel without buffer.\<close>

definition runDemoCal_start ::
  "net_env \<Rightarrow> (gval Request \<Rightarrow> bytes) \<Rightarrow> nat \<Rightarrow> nat \<Rightarrow> 'b transportEventBus_scheme \<Rightarrow> ('b transportEventBus_scheme \<times> addr) go" where
  "runDemoCal_start env marshal u v s =
     (case ListenStream (ne_new env 1) CalendarServiceChan (fst (CreateChannel CalendarServiceChan s)) of
        (s1, Inl err) \<Rightarrow> Panic err
      | (s1, Inr h) \<Rightarrow>
          go_bind (connect_or_die env (ws_config ''appfabric.vmware.com'' ''/fabric'' False) (Handle (ne_new env 2) h (Some (UserFn u)) (Some (UserFn v)) s1)) (\<lambda>(s2, c).
            go_bind (map_or_die env 3 CalendarServiceChan (''/topic/'' @ CalendarServiceChan) c s2) (\<lambda>s3.
              go_map (\<lambda>(cn, _). (upd_conn c cn s3, c))
                (connection_SendJSONMessage (''/pub/'' @ CalendarServiceChan) (marshal (Request (Some (ne_new env 5)) 0 0 '''' GNil ''time'' None)) [] (conns s3 c)))))"

text \<open>The error of decoding is ignored; the response then has no payload.\<close>

definition runDemoCal_onMessage :: "net_env \<Rightarrow> Message \<Rightarrow> string go" where
  "runDemoCal_onMessage env msg =
     (case msg_Payload msg of
        GBytes d \<Rightarrow>
          (case resp_Payload (case ne_unmarshal env d of Inl _ \<Rightarrow> zero_Response | Inr r \<Rightarrow> r) of
             GString t \<Rightarrow> Done (''got time response from service: '' @ t)
           | _ \<Rightarrow> Panic ''interface conversion'')
      | _ \<Rightarrow> Panic ''interface conversion'')"

definition runDemoCal_finish :: "net_env \<Rightarrow> addr \<Rightarrow> 'b transportEventBus_scheme \<Rightarrow> 'b transportEventBus_scheme go" where
  "runDemoCal_finish env c s = go_bind (unmap_or_die env 6 CalendarServiceChan s) (disconnect_or_die env c)"

subsection \<open>The demo program: five answers, twice\<close>

definition demo_config :: "bool \<Rightarrow> BrokerConnectorConfig" where
  "demo_config tcp = (if tcp then guest_config ''localhost:8090'' else ws_config ''localhost:8090'' ''/fabric'' False)"

text \<open>
  The counter that the callbacks share and the goroutines that wait to send on the channel \<^verbatim>\<open>done\<close>. It has no
  buffer: a send waits for a receiver, and \<open>demo_wait\<close> takes one of the waiting sends.
\<close>

record demo_state =
  da_count :: nat
  da_sending :: nat

definition demo_onMessage :: "net_env \<Rightarrow> Message \<Rightarrow> demo_state \<Rightarrow> demo_state go" where
  "demo_onMessage env msg st =
     (case msg_Payload msg of
        GBytes d \<Rightarrow>
          (case resp_Payload (case ne_unmarshal env d of Inl _ \<Rightarrow> zero_Response | Inr r \<Rightarrow> r) of
             GString _ \<Rightarrow>
               (let count = Suc (da_count st)
                in Done \<lparr>da_count = count, da_sending = (if count \<ge> 5 then Suc (da_sending st) else da_sending st)\<rparr>)
           | _ \<Rightarrow> Panic ''interface conversion'')
      | _ \<Rightarrow> Panic ''interface conversion'')"

definition demo_wait :: "demo_state \<Rightarrow> demo_state go" where
  "demo_wait st = (if da_sending st = 0 then Block else Done (st\<lparr>da_sending := da_sending st - 1\<rparr>))"

text \<open>The requests of a round; \<open>pings\<close> are the five payloads.\<close>

fun demo_send :: "(gval Request \<Rightarrow> bytes) \<Rightarrow> string \<Rightarrow> string \<Rightarrow> string list \<Rightarrow> connection \<Rightarrow> connection go" where
  "demo_send marshal dest cmd [] cn = Done cn"
| "demo_send marshal dest cmd (pl # pls) cn =
     go_bind (connection_SendJSONMessage dest (marshal (Request None 0 0 '''' (GString pl) cmd None)) [] cn) (\<lambda>(cn1, _).
       demo_send marshal dest cmd pls cn1)"

definition runDemoApp_start ::
  "net_env \<Rightarrow> (gval Request \<Rightarrow> bytes) \<Rightarrow> bool \<Rightarrow> string list \<Rightarrow> nat \<Rightarrow> nat \<Rightarrow> 'b transportEventBus_scheme
     \<Rightarrow> ('b transportEventBus_scheme \<times> addr) go" where
  "runDemoApp_start env marshal tcp pings u v s =
     (case ListenStream (ne_new env 1) myLocalChan (fst (CreateChannel myLocalChan s)) of
        (s1, Inl err) \<Rightarrow> Panic err
      | (s1, Inr h) \<Rightarrow>
          go_bind (connect_or_die env (demo_config tcp) (Handle (ne_new env 2) h (Some (UserFn u)) (Some (UserFn v)) s1)) (\<lambda>(s2, c).
            go_bind (map_or_die env 3 myLocalChan (''/topic/'' @ PongServiceChan) c s2) (\<lambda>s3.
              go_map (\<lambda>cn. (upd_conn c cn s3, c)) (demo_send marshal (''/pub/'' @ PongServiceChan) ''basic'' pings (conns s3 c)))))"

text \<open>The second round starts with the counter at zero again, and on the same channel.\<close>

definition runDemoApp_private ::
  "net_env \<Rightarrow> (gval Request \<Rightarrow> bytes) \<Rightarrow> string list \<Rightarrow> nat \<Rightarrow> nat \<Rightarrow> addr \<Rightarrow> demo_state \<Rightarrow> 'b transportEventBus_scheme
     \<Rightarrow> ('b transportEventBus_scheme \<times> demo_state) go" where
  "runDemoApp_private env marshal pings u v c st s =
     go_bind (demo_wait st) (\<lambda>st1.
     go_bind (unmap_or_die env 5 myLocalChan s) (\<lambda>s1.
     go_bind (map_or_die env 6 ''my-private-channel'' (''/user/queue/'' @ PongServiceChan) c (fst (CreateChannel ''my-private-channel'' s1))) (\<lambda>s2.
     case ListenStream (ne_new env 8) ''my-private-channel'' s2 of
       (s3, Inl err) \<Rightarrow> Panic err
     | (s3, Inr h) \<Rightarrow>
         let s4 = Handle (ne_new env 9) h (Some (UserFn u)) (Some (UserFn v)) s3 in
         go_map (\<lambda>cn. (upd_conn c cn s4, st1\<lparr>da_count := 0\<rparr>)) (demo_send marshal (''/pub/queue/'' @ PongServiceChan) ''full'' pings (conns s4 c)))))"

definition runDemoApp_finish :: "net_env \<Rightarrow> addr \<Rightarrow> demo_state \<Rightarrow> 'b transportEventBus_scheme \<Rightarrow> 'b transportEventBus_scheme go" where
  "runDemoApp_finish env c st s =
     go_bind (demo_wait st) (\<lambda>_. go_bind (unmap_or_die env 10 ''my-private-channel'' s) (disconnect_or_die env c))"

subsection \<open>The local broker\<close>

text \<open>The services by number, in the order of their registration; the errors of registering are ignored.\<close>

definition demo_services :: "(nat \<times> string) list" where
  "demo_services = [(0, PongServiceChan), (1, CalendarServiceChan), (2, SimpleStreamChan), (3, ServbotServiceChan), (4, VmServiceChan), (5, VMWCloudServiceChan)]"

fun register_all ::
  "'b service_init \<Rightarrow> service_hooks \<Rightarrow> (nat \<Rightarrow> uuid \<times> uuid \<times> uuid) \<Rightarrow> addr \<Rightarrow> (nat \<times> string) list \<Rightarrow> 'b svcBus_scheme \<Rightarrow> 'b svcBus_scheme go" where
  "register_all Init Hooks ids r [] s = Done s"
| "register_all Init Hooks ids r ((n, channel) # svcs) s =
     (case ids n of (newH, newS, newM) \<Rightarrow>
        go_bind (RegisterService Init Hooks newH newS newM r (Some (UserService n)) channel s) (\<lambda>(s1, _). register_all Init Hooks ids r svcs s1))"

definition broker_endpoint :: EndpointConfig where
  "broker_endpoint = \<lparr>ec_TopicPrefix = ''/topic'', ec_UserQueuePrefix = ''/user/queue'', ec_AppRequestPrefix = ''/pub'',
     ec_AppRequestQueuePrefix = ''/pub/queue'', ec_Heartbeat = 60000\<rparr>"

text \<open>\<open>item\<close> is the type of the items and \<open>motd\<close> the pointer to the first message; the last result is the error that is printed.\<close>

definition runLocalFabricBroker ::
  "'b service_init \<Rightarrow> service_hooks \<Rightarrow> uuid \<times> uuid \<Rightarrow> (nat \<Rightarrow> uuid \<times> uuid \<times> uuid) \<Rightarrow> (string \<Rightarrow> error option) \<Rightarrow> nat \<Rightarrow> gval \<Rightarrow> bool \<Rightarrow> 'b svcBus_scheme
     \<Rightarrow> ('b svcBus_scheme \<times> error option) go" where
  "runLocalFabricBroker Init Hooks rids ids listen item motd tcp s =
     go_bind (GetServiceRegistry Init Hooks (fst rids) (snd rids) s) (\<lambda>(s1, r).
     case r of None \<Rightarrow> Panic ''nil pointer dereference'' | Some reg \<Rightarrow>
     go_bind (register_all Init Hooks ids reg demo_services s1) (\<lambda>s2.
     go_bind (CreateStoreWithType ''messageOfTheDayStore'' (Some (TPtr (TNamed item))) s2) (\<lambda>(s3, a).
     case Populate [(''messageOfTheDay'', motd)] (storeHeap s3 a) of
       (store, outs, _) \<Rightarrow>
         go_map (\<lambda>s4.
           case (if tcp then (case NewTcpConnectionListener listen ''localhost:8090'' of Inl e \<Rightarrow> Some e | Inr _ \<Rightarrow> None)
                 else (case NewWebSocketConnectionListener listen ''localhost:8090'' [] of Inl e \<Rightarrow> Some e | Inr _ \<Rightarrow> None)) of
             Some err \<Rightarrow> (s4, Some err)
           | None \<Rightarrow> StartFabricEndpoint broker_endpoint s4)
           (store_outputs (\<lambda>_. '''') a outs (upd_store a (\<lambda>_. store) s3)))))"

subsection \<open>Sample clients of plank\<close>

definition getBrokerConnectorConfig :: "nat \<Rightarrow> bool \<Rightarrow> BrokerConnectorConfig" where
  "getBrokerConnectorConfig tls useTLS = (guest_config ''localhost:30080'')\<lparr>bcc_UseWS := True, bcc_HeartBeatOut := 30000000000,
     bcc_WebSocketConfig := Some (if useTLS
       then \<lparr>ws_WSPath = ''/ws'', ws_UseTLS = useTLS, ws_TLSConfig = Some tls, ws_CertFile = ''cert/fullchain.pem'', ws_KeyFile = ''cert/server.key''\<rparr>
       else \<lparr>ws_WSPath = ''/ws'', ws_UseTLS = useTLS, ws_TLSConfig = None, ws_CertFile = '''', ws_KeyFile = ''''\<rparr>)\<rparr>"

definition ListenViaWS ::
  "net_env \<Rightarrow> (gval Request \<Rightarrow> bytes) \<Rightarrow> nat \<Rightarrow> nat \<Rightarrow> nat \<Rightarrow> bool \<Rightarrow> 'b transportEventBus_scheme \<Rightarrow> 'b transportEventBus_scheme go" where
  "ListenViaWS env marshal tls u v useTLS s =
     go_bind (connect_or_die env (getBrokerConnectorConfig tls useTLS) (fst (CreateChannel PingPongServiceChan s))) (\<lambda>(s1, broker).
       go_bind (map_or_die env 1 PingPongServiceChan (''/queue/'' @ PingPongServiceChan) broker s1) (\<lambda>s2.
         case ListenStream (ne_new env 3) PingPongServiceChan s2 of
           (s3, Inl err) \<Rightarrow> Panic err
         | (s3, Inr hdl) \<Rightarrow>
             let s4 = Handle (ne_new env 4) hdl (Some (UserFn u)) (Some (UserFn v)) s3 in
             go_bind (connection_SendJSONMessage (''/pub/queue/'' @ PingPongServiceChan)
                        (marshal (Request None 0 0 '''' (GString ''hello'') ''ping-get'' None)) [] (conns s4 broker)) (\<lambda>(cn, err).
               case err of Some e \<Rightarrow> Panic e | None \<Rightarrow> Done (upd_conn broker cn s4))))"

definition ListenViaWS_onMessage :: "net_env \<Rightarrow> Message \<Rightarrow> gval Response go" where
  "ListenViaWS_onMessage env message =
     (case msg_Payload message of
        GBytes d \<Rightarrow> (case ne_unmarshal env d of Inl err \<Rightarrow> Panic err | Inr response \<Rightarrow> Done response)
      | _ \<Rightarrow> Panic ''interface conversion'')"

definition connectToBroker :: "net_env \<Rightarrow> 'b transportEventBus_scheme \<Rightarrow> ('b transportEventBus_scheme \<times> (error + addr)) go" where
  "connectToBroker env s =
     ConnectBroker (ne_basic_tls env) (ne_tls_err env) (ne_dial_err env) (ne_accepted env) (ne_new env 0)
       (Some ((guest_config '':61613'')\<lparr>bcc_HeartBeatOut := 30000000000\<rparr>)) s"

subsection \<open>The command that starts plank\<close>

text \<open>The services by number; the first error of registering is returned and the server is not started.\<close>

definition plank_services :: "(nat \<times> string) list" where
  "plank_services = [(0, PingPongServiceChan), (1, ''stock-ticker-service''), (2, ''simple-stream''), (3, JokeServiceChannel)]"

fun plank_register ::
  "'b plankBus_ext service_init \<Rightarrow> service_hooks \<Rightarrow> (nat \<Rightarrow> uuid \<times> uuid \<times> uuid) \<Rightarrow> addr \<Rightarrow> (nat \<times> string) list \<Rightarrow> 'b plankBus_scheme
     \<Rightarrow> ('b plankBus_scheme \<times> error option) go" where
  "plank_register Init Hooks ids r [] s = Done (s, None)"
| "plank_register Init Hooks ids r ((n, channel) # svcs) s =
     (case ids n of (newH, newS, newM) \<Rightarrow>
        go_bind (ps_RegisterService Init Hooks newH newS newM r (Some (UserService n)) channel s) (\<lambda>(s1, err).
          if err \<noteq> None then Done (s1, err) else plank_register Init Hooks ids r svcs s1))"

definition startCmd_RunE ::
  "start_env \<Rightarrow> ('b plankServer_ext plankBus_ext) service_init \<Rightarrow> service_hooks \<Rightarrow> uuid \<times> uuid \<Rightarrow> uuid \<times> uuid \<Rightarrow> (nat \<Rightarrow> uuid \<times> uuid \<times> uuid)
     \<Rightarrow> (string \<Rightarrow> error option) \<Rightarrow> PlatformServerConfig \<Rightarrow> 'b plankServer_scheme \<Rightarrow> ('b plankServer_scheme \<times> error option) go" where
  "startCmd_RunE env Init Hooks rids lids ids dial serverConfig s =
     go_bind (NewPlatformServer env Init Hooks rids lids serverConfig s) (\<lambda>server.
       case server of
         None \<Rightarrow> Panic ''nil pointer dereference''
       | Some s1 \<Rightarrow>
           (case registryInstance s1 of
              None \<Rightarrow> Panic ''nil pointer dereference''
            | Some r \<Rightarrow>
                go_bind (plank_register Init Hooks ids r plank_services s1) (\<lambda>(s2, err).
                  if err \<noteq> None then Done (s2, err) else go_map (\<lambda>s3. (s3, None)) (StartServer env dial s2))))"

end
