(* ===== verification/ExampleClientsLaws.thy ===== *)
theory ExampleClientsLaws
  imports ExampleClients Galactic
begin

text \<open>
  Laws of the programs: the client of a stream returns the first ten values, the rounds of the demo program, the
  endpoint of the local broker and the command that starts plank.
\<close>

section \<open>The client of a stream\<close>

text \<open>A message of the stream has a response with a text in its bytes, or bytes that are no response.\<close>

definition stream_value :: "net_env \<Rightarrow> Message \<Rightarrow> string option" where
  "stream_value env m =
     (case msg_Payload m of
        GBytes d \<Rightarrow> (case ne_unmarshal env d of Inl _ \<Rightarrow> None | Inr r \<Rightarrow> (case resp_Payload r of GString v \<Rightarrow> Some v | _ \<Rightarrow> None))
      | _ \<Rightarrow> None)"

definition stream_message :: "net_env \<Rightarrow> Message \<Rightarrow> bool" where
  "stream_message env m \<longleftrightarrow> stream_value env m \<noteq> None \<or> (\<exists>d e. msg_Payload m = GBytes d \<and> ne_unmarshal env d = Inl e)"

fun stream_run :: "net_env \<Rightarrow> Message list \<Rightarrow> stream_client \<Rightarrow> stream_client go" where
  "stream_run env [] cl = Done cl"
| "stream_run env (m # ms) cl = go_bind (SimpleStream_onMessage env m cl) (stream_run env ms)"

lemma stream_step:
  assumes "stream_message env m"
  shows "SimpleStream_onMessage env m cl =
    (case stream_value env m of None \<Rightarrow> Done cl | Some v \<Rightarrow> go_map (\<lambda>n. \<lparr>sc_values = sc_values cl @ [v], sc_wg = n\<rparr>) (wg_Done (sc_wg cl)))"
  using assms by (auto simp: stream_message_def stream_value_def SimpleStream_onMessage_def split: gval.splits sum.splits)

lemma stream_run_values:
  assumes "\<forall>m \<in> set ms. stream_message env m"
  shows "stream_run env ms cl =
    (let vs = List.map_filter (stream_value env) ms
     in if length vs \<le> sc_wg cl then Done \<lparr>sc_values = sc_values cl @ vs, sc_wg = sc_wg cl - length vs\<rparr> else Panic ''sync: negative WaitGroup counter'')"
  using assms
proof (induction ms arbitrary: cl)
  case (Cons m ms)
  then show ?case by (cases "stream_value env m") (auto simp: stream_step List.map_filter_simps Let_def wg_Done_def)
qed (simp add: List.map_filter_simps)

text \<open>The broker takes the connection.\<close>

definition broker_up :: "net_env \<Rightarrow> bool" where
  "broker_up env \<longleftrightarrow> ne_dial_err env = None \<and> ne_accepted env"

lemmas connect_defs = connect_or_die_def ConnectBroker_def brokerConnector_Connect_def checkConfig_def connectWs_def bc_Connect_def bc_SendFrame_def
  newBridgeWsClient_def init_bus_def NewBrokerConnector_def Let_def

lemmas galactic_defs = map_or_die_def MarkChannelAsGalactic_def handleGalacticChannelEvent_def GetChannel_def
  isBrokerSubscribedToDestination_def upd_chan_def upd_conn_def SetGalactic_def NewChannel_def connection_Subscribe_def subscribeWs_def bc_Subscribe_def bc_SendFrame_def
  addBrokerConnection_def addBrokerSubscription_def notify_mapped_def isBrokerSubscribed_def

lemmas finish_defs = MessageHandler_Close_def UnsubscribeChannelHandler_def unsubscribeHandler_def removeEventHandler_def unmap_or_die_def MarkChannelAsLocal_def
  handleLocalChannelEvent_def SetLocal_def removeBrokerConnections_def subscription_Unsubscribe_def bcs_Unsubscribe_def close_msg_channel_def
  removeBrokerSubscription_arr_def removeSub_def disconnect_or_die_def connection_Disconnect_def bc_Disconnect_def cleanUpConnection_def

lemma stream_opens:
  assumes "broker_up env"
  shows "\<exists>s c h. SimpleStream_start env u v (init_bus b) = Done (s, c, h) \<and>
    (\<exists>ch. Channels s myLocalChan = Some ch \<and> IsGalactic (chans s ch) \<and> isBrokerSubscribedToDestination c ''/topic/simple-stream'' (chans s ch)) \<and>
    (\<forall>cl. sc_wg cl = 0 \<longrightarrow> (\<exists>s'. SimpleStream_finish env c h cl s = Done (s', sc_values cl) \<and> \<not> bc_open (conn_ws (conns s' c))))"
  using assms
  by (simp add: broker_up_def SimpleStream_start_def connect_defs ws_config_def guest_config_def CreateChannel_def go_SendMonitorEvent_def
      ListenStream_def getChannelFromManager_def wrapMessageHandler_def galactic_defs Handle_def SubscribeChannelHandler_def subscribeHandler_def upd_mh_def createMessageHandler_def IsGalactic_def
      SimpleStream_finish_def finish_defs SendMonitorEvent_def)


definition ex_net :: net_env where
  "ex_net = \<lparr>ne_basic_tls = 0, ne_tls_err = None, ne_dial_err = None, ne_accepted = True, ne_tcp_ok = True, ne_tcp_err = None, ne_new = show_nat,
     ne_unmarshal = (\<lambda>b. if b = '''' then Inl ''unexpected end of JSON input'' else Inr (Response None '''' 0 '''' (GString b) False 0 '''' None []))\<rparr>"

definition ex_tick :: "bytes \<Rightarrow> Message" where
  "ex_tick b = bridge_message ''m'' b ''/topic/simple-stream''"


section \<open>The demo program\<close>

fun demo_run :: "net_env \<Rightarrow> Message list \<Rightarrow> demo_state \<Rightarrow> demo_state go" where
  "demo_run env [] st = Done st"
| "demo_run env (m # ms) st = go_bind (demo_onMessage env m st) (demo_run env ms)"

lemma demo_run_counts:
  assumes "\<forall>m \<in> set ms. stream_value env m \<noteq> None"
  shows "demo_run env ms st = Done \<lparr>da_count = da_count st + length ms, da_sending = da_sending st + (da_count st + length ms - max 4 (da_count st))\<rparr>"
  using assms
proof (induction ms arbitrary: st)
  case (Cons m ms)
  have "demo_onMessage env m st = Done \<lparr>da_count = Suc (da_count st), da_sending = (if Suc (da_count st) \<ge> 5 then Suc (da_sending st) else da_sending st)\<rparr>"
    using Cons.prems by (auto simp: demo_onMessage_def stream_value_def Let_def split: gval.splits sum.splits)
  then show ?case using Cons by auto
qed simp

text \<open>
  Five public answers end the first round of the demo. A sixth leaves a goroutine that waits to report the end, and the second
  round, which waits on the same channel, then ends without a single private answer.
\<close>

theorem sixth_answer_ends_second_round:
  assumes "\<forall>m \<in> set ms. stream_value env m \<noteq> None"
  shows "(length ms < 5 \<longrightarrow> go_bind (demo_run env ms \<lparr>da_count = 0, da_sending = 0\<rparr>) demo_wait = Block) \<and>
    (length ms = 5 \<longrightarrow> (\<exists>st. go_bind (demo_run env ms \<lparr>da_count = 0, da_sending = 0\<rparr>) demo_wait = Done st \<and> demo_wait (st\<lparr>da_count := 0\<rparr>) = Block)) \<and>
    (length ms > 5 \<longrightarrow> (\<exists>st st'. go_bind (demo_run env ms \<lparr>da_count = 0, da_sending = 0\<rparr>) demo_wait = Done st \<and> demo_wait (st\<lparr>da_count := 0\<rparr>) = Done st'))"
  using demo_run_counts[OF assms, of "\<lparr>da_count = 0, da_sending = 0\<rparr>"] by (auto simp: demo_wait_def)

text \<open>The endpoint of the local broker has a valid configuration, so that it starts once its listener is open.\<close>

theorem local_broker_starts:
  assumes "fabEndpoint s = None"
  shows "\<exists>s'. StartFabricEndpoint broker_endpoint s = (s', None) \<and> fabEndpoint s' \<noteq> None"
  using assms by (auto simp: StartFabricEndpoint_def broker_endpoint_def validate_def HasPrefix_def Let_def)

section \<open>The command that starts plank\<close>

text \<open>When a service cannot be registered the command returns its error and the server is not started.\<close>

theorem failed_registration_ends_command:
  assumes "NewPlatformServer env Init Hooks rids lids config s = Done (Some s1)" "registryInstance s1 = Some r"
    "plank_register Init Hooks ids r plank_services s1 = Done (s2, Some e)"
  shows "startCmd_RunE env Init Hooks rids lids ids dial config s = Done (s2, Some e)"
  using assms by (simp add: startCmd_RunE_def)

end
