(* ===== verification/Tools.thy ===== *)
theory Tools
  imports PlankConfig
begin

text \<open>
  What surrounds the server: the log package (src/log/logger.go), the build program
  (src/plank/build.go), the frames of the running goroutine and the fields of a log entry
  (src/plank/utils/runtime.go, logger.go), the banner (src/plank/pkg/server/banner.go). Formatting with \<^verbatim>\<open>fmt\<close>,
  the terminal, git, the file system and the stack of the goroutine are parameters.
\<close>

subsection \<open>Messages on the terminal\<close>

text \<open>
  The package variables, the attributes that are set on the terminal and what was printed, each
  piece with the attributes it was printed in. \<open>sprintf\<close> is the text that a format and its arguments give.
\<close>

datatype attribute = FgHiMagenta | FgCyan | Faint | FgRed | Bold | BgHiWhite | FgHiBlack | FgHiCyan

record logger =
  lg_WarnFlag :: bool
  lg_TraceFlag :: bool
  lg_DebugFlag :: bool
  lg_VerboseFlag :: bool
  lg_RecoverOnError :: bool
  lg_Version :: string
  lg_NoColor :: bool
  lg_attrs :: "attribute list"
  lg_out :: "(attribute list \<times> string) list"

definition init_logger :: logger where
  "init_logger = \<lparr>lg_WarnFlag = True, lg_TraceFlag = True, lg_DebugFlag = True, lg_VerboseFlag = True, lg_RecoverOnError = True,
     lg_Version = '''', lg_NoColor = True, lg_attrs = [], lg_out = []\<rparr>"

definition color_Set :: "attribute list \<Rightarrow> logger \<Rightarrow> logger" where
  "color_Set as l = (if lg_NoColor l then l else l\<lparr>lg_attrs := lg_attrs l @ as\<rparr>)"

definition color_Unset :: "logger \<Rightarrow> logger" where
  "color_Unset l = (if lg_NoColor l then l else l\<lparr>lg_attrs := []\<rparr>)"

definition Printf :: "string \<Rightarrow> logger \<Rightarrow> logger" where
  "Printf t l = l\<lparr>lg_out := lg_out l @ [(lg_attrs l, t)]\<rparr>"

text \<open>The prefixes start with characters outside ASCII: a warning sign and a siren, a cross mark.\<close>

definition warning_prefix :: string where
  "warning_prefix = map char_of [0xE2, 0x9A, 0xA0, 0xEF, 0xB8, 0x8F, 0xF0, 0x9F, 0x9A, 0xA8 :: nat] @ '' WARNING: ''"

definition fatal_prefix :: string where
  "fatal_prefix = map char_of [0xE2, 0x9D, 0x8C :: nat] @ '' FATAL: ''"

definition log_Warn :: "(string \<Rightarrow> 'a \<Rightarrow> string) \<Rightarrow> string \<Rightarrow> 'a \<Rightarrow> logger \<Rightarrow> logger" where
  "log_Warn sprintf format arg l =
     (let l1 = color_Set [FgHiMagenta] (l\<lparr>lg_NoColor := False\<rparr>)
      in color_Unset (if \<not> lg_WarnFlag l1 then Printf (sprintf (warning_prefix @ format) arg) l1 else l1))"

definition log_Trace :: "(string \<Rightarrow> 'a \<Rightarrow> string) \<Rightarrow> string \<Rightarrow> 'a \<Rightarrow> logger \<Rightarrow> logger" where
  "log_Trace sprintf format arg l =
     (let l1 = color_Set [Faint] (color_Set [FgCyan] (l\<lparr>lg_NoColor := False\<rparr>))
      in color_Unset (if lg_TraceFlag l1 then Printf (sprintf format arg) l1 else l1))"

definition log_Debug :: "(string \<Rightarrow> 'a \<Rightarrow> string) \<Rightarrow> string \<Rightarrow> 'a \<Rightarrow> logger \<Rightarrow> logger" where
  "log_Debug sprintf format arg l = (if lg_DebugFlag l then Printf (sprintf format arg) l else l)"

definition log_Verbose :: "(string \<Rightarrow> 'a \<Rightarrow> string) \<Rightarrow> string \<Rightarrow> 'a \<Rightarrow> logger \<Rightarrow> logger" where
  "log_Verbose sprintf format arg l =
     (let l1 = color_Set [FgHiMagenta] (l\<lparr>lg_NoColor := False\<rparr>)
      in color_Unset (if lg_VerboseFlag l1 then Printf (sprintf format arg) l1 else l1))"

text \<open>The second component is the code with which the process exits, if it does.\<close>

definition log_Panicf :: "(string \<Rightarrow> 'a \<Rightarrow> string) \<Rightarrow> string \<Rightarrow> 'a \<Rightarrow> logger \<Rightarrow> logger \<times> int option" where
  "log_Panicf sprintf format args l =
     (let l1 = color_Set [Bold] (color_Set [FgRed] (l\<lparr>lg_NoColor := False\<rparr>));
          l2 = color_Unset (Printf (sprintf (fatal_prefix @ format) args) l1)
      in (l2, if \<not> lg_RecoverOnError l2 then Some 4 else None))"

definition SetVersion :: "string \<Rightarrow> logger \<Rightarrow> logger" where
  "SetVersion version l =
     (let l1 = l\<lparr>lg_Version := version\<rparr>
      in if CHR ''-'' \<in> set (lg_Version l1) then l1\<lparr>lg_Version := takeWhile (\<lambda>c. c \<noteq> CHR ''-'') (lg_Version l1)\<rparr>
         else l1\<lparr>lg_Version := ''v2.285''\<rparr>)"

subsection \<open>Building plank\<close>

text \<open>A reference of git: its short name, its kind and its hash in hexadecimal.\<close>

record git_ref =
  gr_Short :: string
  gr_IsBranch :: bool
  gr_IsTag :: bool
  gr_Hash :: string

record git_repo =
  rp_Tags :: "error + git_ref list"
  rp_Branches :: "error + git_ref list"

definition cloneCurrentBranch :: "(string \<Rightarrow> error + git_repo) \<Rightarrow> string \<Rightarrow> error + git_repo" where
  "cloneCurrentBranch git_Clone wd =
     (if filepath_Base wd \<noteq> ''plank'' then Inl ''this build application needs to be run inside plank/ folder''
      else git_Clone (Clean (filepath_Join [wd, ''..''])))"

text \<open>Go compares strings byte by byte.\<close>

fun str_less :: "string \<Rightarrow> string \<Rightarrow> bool" where
  "str_less a [] \<longleftrightarrow> False"
| "str_less [] (b # bs) \<longleftrightarrow> True"
| "str_less (a # as) (b # bs) \<longleftrightarrow> (of_char a :: nat) < of_char b \<or> a = b \<and> str_less as bs"

definition tag_less :: "string \<Rightarrow> string \<Rightarrow> bool" where
  "tag_less a b =
     (let aExploded = split_on CHR ''.'' a; bExploded = split_on CHR ''.'' b;
          majorA = aExploded ! 0; majorB = bExploded ! 0; minorA = aExploded ! 1; minorB = bExploded ! 1;
          patchA = aExploded ! 2; patchB = bExploded ! 2
      in if str_less majorB majorA then True
         else if str_less majorA majorB then False
         else if str_less minorB minorA then True
         else if str_less minorA minorB then False
         else str_less patchB patchA)"

text \<open>
  \<^verbatim>\<open>sort.SliceStable\<close> keeps the order of elements of which neither is less. With two tags or more every tag
  is compared at least once, and one without three parts panics.
\<close>

fun stable_insert :: "('a \<Rightarrow> 'a \<Rightarrow> bool) \<Rightarrow> 'a \<Rightarrow> 'a list \<Rightarrow> 'a list" where
  "stable_insert lt x [] = [x]"
| "stable_insert lt x (y # ys) = (if lt x y then x # y # ys else y # stable_insert lt x ys)"

definition SliceStable :: "('a \<Rightarrow> 'a \<Rightarrow> bool) \<Rightarrow> 'a list \<Rightarrow> 'a list" where
  "SliceStable lt xs = fold (stable_insert lt) xs []"

definition three_parts :: "string \<Rightarrow> bool" where
  "three_parts tag \<longleftrightarrow> length (split_on CHR ''.'' tag) \<ge> 3"

definition getTags :: "git_repo \<Rightarrow> (error + string list) go" where
  "getTags r =
     (case rp_Tags r of
        Inl err \<Rightarrow> Done (Inl err)
      | Inr refs \<Rightarrow>
          let tags = map gr_Short refs
          in if length tags \<ge> 2 \<and> \<not> list_all three_parts tags then Panic ''index out of range''
             else Done (Inr (SliceStable tag_less tags)))"

definition getBranch :: "git_repo \<Rightarrow> error + git_ref" where
  "getBranch r =
     (case rp_Branches r of
        Inl err \<Rightarrow> Inl err
      | Inr [] \<Rightarrow> Inl ''EOF''
      | Inr (b # _) \<Rightarrow> Inr b)"

definition buildVersionString :: "git_ref \<Rightarrow> string list \<Rightarrow> string" where
  "buildVersionString ref tags =
     (if length tags > 0 then tags ! 0 @ ''-'' else '''') @
     (if gr_IsBranch ref \<or> gr_IsTag ref then gr_Short ref @ ''-'' @ take 8 (gr_Hash ref) else take 8 (gr_Hash ref))"

text \<open>
  The main program up to the start of the compiler: the arguments of the command, its folder and the variables
  added to its environment. \<^verbatim>\<open>log.Fatalln\<close> ends the process.
\<close>

record build_cmd =
  bc_Args :: "string list"
  bc_Env :: "string list"
  bc_Dir :: string

record build_env =
  be_Getenv :: "string \<Rightarrow> string"
  be_GOOS :: string
  be_GOARCH :: string
  be_Getwd :: string
  be_Clone :: "string \<Rightarrow> error + git_repo"

definition build_command :: "build_env \<Rightarrow> string \<Rightarrow> build_cmd" where
  "build_command env versionString =
     (let goosSelected = (if length (be_Getenv env ''BUILD_OS'') = 0 then be_GOOS env else be_Getenv env ''BUILD_OS'');
          goarchSelected = (if length (be_Getenv env ''BUILD_ARCH'') = 0 then be_GOARCH env else be_Getenv env ''BUILD_ARCH'');
          LDFLAGS = [''-s'', ''-w'', ''-X main.version='' @ versionString];
          binaryExt = (if goosSelected = ''windows'' then ''.exe'' else '''');
          outputPath = filepath_Join [be_Getwd env, ''build'', ''plank'' @ binaryExt]
      in \<lparr>bc_Args = [''go'', ''build'', ''-o'', outputPath, ''-ldflags'', Join LDFLAGS '' '', ''cmd/main.go''],
          bc_Env = [''GOOS='' @ goosSelected, ''GOARCH='' @ goarchSelected], bc_Dir = be_Getwd env\<rparr>)"

definition build_main :: "build_env \<Rightarrow> build_cmd go" where
  "build_main env =
     (case cloneCurrentBranch (be_Clone env) (be_Getwd env) of
        Inl err \<Rightarrow> Panic err
      | Inr r \<Rightarrow>
          (case getBranch r of
             Inl err \<Rightarrow> Panic err
           | Inr branch \<Rightarrow>
               go_bind (getTags r) (\<lambda>res.
                 case res of Inl err \<Rightarrow> Panic err | Inr tags \<Rightarrow> Done (build_command env (buildVersionString branch tags)))))"

subsection \<open>Frames and the fields of a log entry\<close>

record frame_info =
  fi_Function :: string
  fi_File :: string

abbreviation unknown_frame :: frame_info where
  "unknown_frame \<equiv> \<lparr>fi_Function = ''unknown'', fi_File = ''''\<rparr>"

text \<open>
  \<open>stack\<close> are the frames of the running goroutine, innermost first, starting with \<^verbatim>\<open>runtime.Callers\<close> itself. The program
  counters of at most \<^verbatim>\<open>targetFrameIdx+2\<close> of them are taken, without inlined calls one per frame; the loop
  goes through them by \<^verbatim>\<open>Next\<close>, which says whether there are more.
\<close>

fun frame_loop :: "nat \<Rightarrow> nat \<Rightarrow> frame_info list \<Rightarrow> frame_info" where
  "frame_loop target i [] = unknown_frame"
| "frame_loop target i (f # fs) =
     (if i = target then f else if fs \<noteq> [] \<and> Suc i \<le> target then frame_loop target (Suc i) fs else unknown_frame)"

definition getFrame :: "nat \<Rightarrow> frame_info list \<Rightarrow> frame_info" where
  "getFrame skipFrames stack =
     (let targetFrameIdx = skipFrames + 2;
          frames = take (targetFrameIdx + 2) stack
      in if length frames > 0 then frame_loop targetFrameIdx 0 frames else unknown_frame)"

definition GetCurrentStackFrame :: "frame_info list \<Rightarrow> frame_info" where
  "GetCurrentStackFrame stack = getFrame 1 stack"

definition GetCallerStackFrame :: "frame_info list \<Rightarrow> frame_info" where
  "GetCallerStackFrame stack = getFrame 2 stack"

text \<open>\<open>trace\<close> is the text that \<^verbatim>\<open>runtime.Stack\<close> writes, of which at most 64 bytes fit; \<^verbatim>\<open>strings.Fields\<close> splits at white space.\<close>

fun Fields :: "string \<Rightarrow> string \<Rightarrow> string list" where
  "Fields acc [] = (if acc = '''' then [] else [rev acc])"
| "Fields acc (c # cs) =
     (if is_space (of_char c) then (if acc = '''' then Fields '''' cs else rev acc # Fields '''' cs) else Fields (c # acc) cs)"

definition TrimPrefix :: "string \<Rightarrow> string \<Rightarrow> string" where
  "TrimPrefix s p = (if HasPrefix s p then drop (length p) s else s)"

definition GetGoRoutineID :: "string \<Rightarrow> string go" where
  "GetGoRoutineID trace =
     (case Fields '''' (TrimPrefix (take 64 trace) ''goroutine '') of [] \<Rightarrow> Panic ''index out of range'' | idStr # _ \<Rightarrow> Done idStr)"

definition path_Dir :: "string \<Rightarrow> string" where
  "path_Dir p = Clean (rev (dropWhile (\<lambda>c. c \<noteq> CHR ''/'') (rev p)))"

definition setCommonFields :: "frame_info list \<Rightarrow> string \<Rightarrow> ((string \<times> string) list) go" where
  "setCommonFields stack trace =
     (let fr = getFrame 2 stack;
          pkgName = filepath_Base (path_Dir (fi_File fr));
          fileName = filepath_Base (fi_File fr)
      in go_map (\<lambda>g. [(''goroutine'', g), (''package'', pkgName), (''fileName'', fileName)]) (GetGoRoutineID trace))"

text \<open>The methods of the logger give the entry with these fields to the function of logrus for their level.\<close>

datatype log_call = Trace | Traceln | Tracef | Debug | Debugln | Debugf | Info | Infoln | Infof | Warn | Warnln | Warnf
  | Error | Errorln | Errorf | Panic_log | Panicln | Panicf

definition log_entry :: "frame_info list \<Rightarrow> string \<Rightarrow> log_call \<Rightarrow> 'a \<Rightarrow> ((string \<times> string) list \<times> log_call \<times> 'a) go" where
  "log_entry stack trace call args = go_map (\<lambda>fields. (fields, call, args)) (setCommonFields stack trace)"

definition noop_Write :: "bytes \<Rightarrow> nat \<times> error option" where
  "noop_Write p = (0, None)"

definition GetAccessLogFilePointer :: "LogConfig \<Rightarrow> writer option" where
  "GetAccessLogFilePointer lc = lc_accessLogFp lc"

definition GetErrorLogFilePointer :: "LogConfig \<Rightarrow> writer option" where
  "GetErrorLogFilePointer lc = lc_errorLogFp lc"

definition GetPlatformLogFilePointer :: "LogConfig \<Rightarrow> writer option" where
  "GetPlatformLogFilePointer lc = lc_outputLogFp lc"

subsection \<open>The banner\<close>

text \<open>What is printed, in pieces with their attributes; \<open>logo\<close> is the error of opening the picture or what decoding it gives.\<close>

type_synonym pieces = "(attribute list \<times> string) list"

abbreviation newline :: string where
  "newline \<equiv> [CHR 0x0A]"

abbreviation tab :: char where
  "tab \<equiv> CHR 0x09"

definition Fprintln :: "string \<Rightarrow> pieces" where
  "Fprintln t = [([], t @ newline)]"

definition InfoFprintf :: "string \<Rightarrow> pieces" where
  "InfoFprintf t = [([FgHiCyan], t)]"

definition banner_logo :: "bool \<Rightarrow> error + (error + string) \<Rightarrow> pieces go" where
  "banner_logo is_stdout logo =
     (if is_stdout then
        (case logo of
           Inl _ \<Rightarrow> Done []
         | Inr (Inl err) \<Rightarrow> Panic err
         | Inr (Inr img) \<Rightarrow> Done [([], newline @ newline), ([], img)])
      else Done [])"

fun banner_static :: "string list \<Rightarrow> pieces" where
  "banner_static [] = []"
| "banner_static (dir # dirs) =
     ([], snd (DeriveStaticURIFromPath dir)) # (if dirs \<noteq> [] then ([], '', '') else ([], newline)) # banner_static dirs"

fun banner_assets :: "string list \<Rightarrow> pieces go" where
  "banner_assets [] = Done []"
| "banner_assets (asset # assets) =
     go_bind (SanitizeUrl (snd (DeriveStaticURIFromPath asset)) False) (\<lambda>uri.
       go_map (\<lambda>rest. ([], uri) # (if assets \<noteq> [] then [([], '', '')] else []) @ rest) (banner_assets assets))"

definition banner_spa :: "SpaConfig \<Rightarrow> pieces go" where
  "banner_spa spa =
     go_map (\<lambda>assets. InfoFprintf (''SPA endpoint'' @ [tab, tab]) @ Fprintln (spa_BaseUri spa) @ InfoFprintf (''SPA static assets'' @ [tab]) @
         (if length (spa_StaticAssets spa) = 0 then [([], ''-'')] else []) @ assets @ Fprintln '''')
       (banner_assets (spa_StaticAssets spa))"

text \<open>The part after the broker: with a broker on TCP the function returns before it.\<close>

definition banner_rest :: "PlatformServerConfig \<Rightarrow> pieces go" where
  "banner_rest c =
     go_map (\<lambda>spa.
       (if length (pc_StaticDir c) > 0 then InfoFprintf (''Static endpoints'' @ [tab]) @ banner_static (pc_StaticDir c) else []) @ spa @
       InfoFprintf (''Health endpoint'' @ [tab, tab]) @ Fprintln ''/health'' @
       (if pc_EnablePrometheus c then InfoFprintf (''Prometheus endpoint'' @ [tab]) @ Fprintln ''/prometheus'' else []) @ Fprintln '''')
       (case pc_SpaConfig c of None \<Rightarrow> Done [] | Some spa \<Rightarrow> banner_spa spa)"

definition printBanner :: "bool \<Rightarrow> error + (error + string) \<Rightarrow> PlatformServerConfig \<Rightarrow> pieces go" where
  "printBanner is_stdout logo c =
     go_bind (banner_logo is_stdout logo) (\<lambda>art.
       let body = art @ Fprintln '''' @ [([BgHiWhite, FgHiBlack, Bold], '' P L A N K '')] @ Fprintln '''' @
             InfoFprintf (''Host'' @ [tab, tab, tab]) @ Fprintln (pc_Host c) @ InfoFprintf (''Port'' @ [tab, tab, tab]) @ Fprintln (show_int (pc_Port c))
       in case pc_FabricConfig c of
            None \<Rightarrow> go_map (\<lambda>rest. body @ rest) (banner_rest c)
          | Some fb \<Rightarrow>
              let body1 = body @ InfoFprintf (''Fabric endpoint'' @ [tab, tab])
              in if fb_UseTCP fb then Done (body1 @ Fprintln ('':'' @ show_int (fb_TCPPort fb) @ '' (TCP)''))
                 else go_map (\<lambda>rest. body1 @ Fprintln (fb_FabricEndpoint fb) @ rest) (banner_rest c))"

end
