(* ===== verification/ToolsLaws.thy ===== *)
theory ToolsLaws
  imports Tools
begin

text \<open>
  Laws of the tools around the server: stable sorting by a weak order, with the order of the release tags as its
  instance, what the log package prints, which frame a log entry names and what the banner leaves out.
\<close>

section \<open>Stable sorting\<close>

text \<open>What \<^verbatim>\<open>sort.SliceStable\<close> asks of its function: a strict weak order.\<close>

locale weak_order =
  fixes lt :: "'a \<Rightarrow> 'a \<Rightarrow> bool"
  assumes asym: "lt x y \<Longrightarrow> \<not> lt y x"
    and neg_trans: "\<not> lt x y \<Longrightarrow> \<not> lt y z \<Longrightarrow> \<not> lt x z"
begin

abbreviation in_order :: "'a list \<Rightarrow> bool" where
  "in_order \<equiv> sorted_wrt (\<lambda>x y. \<not> lt y x)"

lemma set_stable_insert [simp]: "set (stable_insert lt x ys) = insert x (set ys)"
  by (induction ys) auto

lemma mset_stable_insert: "mset (stable_insert lt x ys) = add_mset x (mset ys)"
  by (induction ys) auto

lemma in_order_insert: "in_order ys \<Longrightarrow> in_order (stable_insert lt x ys)"
proof (induction ys)
  case (Cons y ys)
  show ?case
  proof (cases "lt x y")
    case True
    have "\<not> lt z x" if "z \<in> set ys" for z using Cons.prems that neg_trans[of z x y] asym[OF True] True neg_trans by auto
    then show ?thesis using Cons.prems True asym by auto
  qed (use Cons in auto)
qed simp

text \<open>The elements that are equal to \<open>k\<close> for the order.\<close>

abbreviation same :: "'a \<Rightarrow> 'a \<Rightarrow> bool" where
  "same k x \<equiv> \<not> lt k x \<and> \<not> lt x k"

lemma filter_insert:
  "in_order ys \<Longrightarrow> filter (same k) (stable_insert lt x ys) = filter (same k) ys @ (if same k x then [x] else [])"
proof (induction ys)
  case (Cons y ys)
  show ?case
  proof (cases "lt x y \<and> same k x")
    case True
    then have y: "lt k y" using neg_trans by blast
    have "lt k z" if "z \<in> set (y # ys)" for z
    proof (cases "z = y")
      case False
      then have "\<not> lt z y" using Cons.prems that by auto
      then show ?thesis using y neg_trans by blast
    qed (use y in simp)
    then have "filter (same k) (y # ys) = []" by (auto simp: filter_empty_conv)
    then show ?thesis using True by auto
  next
    case False
    then show ?thesis using Cons by auto
  qed
qed simp

lemma SliceStable_fold: "in_order ys \<Longrightarrow>
  in_order (fold (stable_insert lt) xs ys) \<and> mset (fold (stable_insert lt) xs ys) = mset xs + mset ys \<and>
  filter (same k) (fold (stable_insert lt) xs ys) = filter (same k) ys @ filter (same k) xs"
proof (induction xs arbitrary: ys)
  case (Cons x xs)
  from Cons.IH[OF in_order_insert[OF Cons.prems, of x]] show ?case
    using filter_insert[OF Cons.prems, of k x] by (auto simp: mset_stable_insert)
qed simp

lemma SliceStable_sorts:
  "in_order (SliceStable lt xs)" "mset (SliceStable lt xs) = mset xs" "filter (same k) (SliceStable lt xs) = filter (same k) xs"
  using SliceStable_fold[of "[]" xs k] by (simp_all add: SliceStable_def)

end

section \<open>The order of the tags\<close>

lemma str_less_lexord: "str_less a b \<longleftrightarrow> (map (of_char :: char \<Rightarrow> nat) a, map of_char b) \<in> lexord {(m, n). m < n}"
  by (induction a b rule: str_less.induct) auto

lemma str_less_irrefl [simp]: "\<not> str_less a a"
  by (simp add: str_less_lexord lexord_irreflexive)

lemma str_less_trans: "str_less a b \<Longrightarrow> str_less b c \<Longrightarrow> str_less a c"
  unfolding str_less_lexord by (rule lexord_trans) (auto simp: trans_def)

lemma str_less_total: "str_less a b \<or> a = b \<or> str_less b a"
proof -
  have "\<forall>m n. (m, n) \<in> {(m :: nat, n). m < n} \<or> m = n \<or> (n, m) \<in> {(m :: nat, n). m < n}" by auto
  from lexord_linear[OF this, of "map of_char a" "map of_char b"] show ?thesis
    unfolding str_less_lexord by (auto dest: map_injective[OF _ inj_of_char])
qed

lemma str_less_asym: "str_less a b \<Longrightarrow> \<not> str_less b a"
  using str_less_trans str_less_irrefl by blast

definition tag_part :: "nat \<Rightarrow> string \<Rightarrow> string" where
  "tag_part i t = split_on CHR ''.'' t ! i"

lemma tag_less_iff:
  "tag_less a b \<longleftrightarrow> str_less (tag_part 0 b) (tag_part 0 a) \<or> tag_part 0 a = tag_part 0 b \<and>
     (str_less (tag_part 1 b) (tag_part 1 a) \<or> tag_part 1 a = tag_part 1 b \<and> str_less (tag_part 2 b) (tag_part 2 a))"
proof -
  have "str_less x y \<Longrightarrow> \<not> str_less y x" "str_less x x \<longleftrightarrow> False" "\<not> str_less x y \<Longrightarrow> \<not> str_less y x \<Longrightarrow> x = y" for x y
    using str_less_asym str_less_total by auto
  then show ?thesis unfolding tag_less_def Let_def tag_part_def by (auto split: if_splits)
qed

interpretation tag_order: weak_order tag_less
proof
  fix x y z
  show "\<not> tag_less y x" if "tag_less x y"
    using that str_less_asym by (auto simp: tag_less_iff)
  show "\<not> tag_less x z" if "\<not> tag_less x y" "\<not> tag_less y z"
  proof
    assume xz: "tag_less x z"
    have split3: "str_less (tag_part i v) (tag_part i u) \<or> tag_part i u = tag_part i v \<or> str_less (tag_part i u) (tag_part i v)" for i u v
      using str_less_total by blast
    have "tag_part 0 x = tag_part 0 y" "tag_part 0 y = tag_part 0 z"
      using that xz split3[of 0 x y] split3[of 0 y z] str_less_trans str_less_irrefl unfolding tag_less_iff by metis+
    moreover from this have "tag_part 1 x = tag_part 1 y" "tag_part 1 y = tag_part 1 z"
      using that xz split3[of 1 x y] split3[of 1 y z] str_less_trans str_less_irrefl unfolding tag_less_iff by metis+
    ultimately show False
      using that xz split3[of 2 x y] split3[of 2 y z] str_less_trans str_less_irrefl unfolding tag_less_iff by metis
  qed
qed

text \<open>
  The tags of a release build come out in order: no tag comes before one that is newer by comparing major, minor
  and patch as texts, tags that are equal in all three stay in the order git lists them, and none is lost or
  made up. The build refuses to go on only when a tag of several has fewer than three parts.
\<close>

theorem tags_sorted:
  assumes "rp_Tags r = Inr refs" "list_all three_parts (map gr_Short refs)"
  shows "\<exists>tags. getTags r = Done (Inr tags) \<and> mset tags = mset (map gr_Short refs) \<and>
    sorted_wrt (\<lambda>newer older. \<not> tag_less older newer) tags \<and>
    (\<forall>k. filter (\<lambda>t. \<not> tag_less k t \<and> \<not> tag_less t k) tags = filter (\<lambda>t. \<not> tag_less k t \<and> \<not> tag_less t k) (map gr_Short refs))"
  using assms tag_order.SliceStable_sorts by (auto simp: getTags_def)

definition ex_tag :: "string \<Rightarrow> git_ref" where
  "ex_tag t = \<lparr>gr_Short = t, gr_IsBranch = False, gr_IsTag = True, gr_Hash = ''0123456789abcdef''\<rparr>"

definition ex_repo :: git_repo where
  "ex_repo = \<lparr>rp_Tags = Inr (map ex_tag [''v0.8.1'', ''v0.9.0'', ''v0.8.2'']), rp_Branches = Inr []\<rparr>"

theorem tags_sorted_witness:
  "\<exists>tags. getTags ex_repo = Done (Inr tags) \<and> mset tags = mset [''v0.8.1'', ''v0.9.0'', ''v0.8.2''] \<and>
     sorted_wrt (\<lambda>newer older. \<not> tag_less older newer) tags"
proof -
  have "list_all three_parts (map gr_Short (map ex_tag [''v0.8.1'', ''v0.9.0'', ''v0.8.2'']))"
    by (simp add: three_parts_def ex_tag_def)
  from tags_sorted[OF _ this, of ex_repo] show ?thesis by (auto simp: ex_repo_def ex_tag_def)
qed

text \<open>
  As texts 10 comes before 9: of the releases 0.9.0 and 0.10.0 the older one comes first and gives the build
  its version.
\<close>

theorem newest_tag_second:
  "getTags \<lparr>rp_Tags = Inr (map ex_tag [''v0.9.0'', ''v0.10.0'']), rp_Branches = Inr []\<rparr> = Done (Inr [''v0.9.0'', ''v0.10.0'']) \<and>
   HasPrefix (buildVersionString (ex_tag ''main'') [''v0.9.0'', ''v0.10.0'']) ''v0.9.0-''"
  by (simp add: getTags_def three_parts_def ex_tag_def SliceStable_def tag_less_def Let_def buildVersionString_def HasPrefix_def)

text \<open>A single tag is never compared, so that any name is a version; with a second tag such a name panics.\<close>

theorem odd_tag_panics:
  "getTags \<lparr>rp_Tags = Inr (map ex_tag [''latest'']), rp_Branches = Inr []\<rparr> = Done (Inr [''latest'']) \<and>
   getTags \<lparr>rp_Tags = Inr (map ex_tag [''latest'', ''v0.9.0'']), rp_Branches = Inr []\<rparr> = Panic ''index out of range''"
  by (simp add: getTags_def three_parts_def ex_tag_def SliceStable_def)

text \<open>The version of a build ends in the first eight digits of the commit, after the newest tag and the branch.\<close>

theorem build_version:
  assumes "be_Clone env (Clean (filepath_Join [be_Getwd env, ''..''])) = Inr r" "filepath_Base (be_Getwd env) = ''plank''"
    "rp_Branches r = Inr (branch # branches)" "gr_IsBranch branch" "getTags r = Done (Inr (tag # tags))"
  shows "\<exists>cmd. build_main env = Done cmd \<and> bc_Dir cmd = be_Getwd env \<and>
    bc_Args cmd ! 5 = ''-s -w -X main.version='' @ tag @ ''-'' @ gr_Short branch @ ''-'' @ take 8 (gr_Hash branch)"
  using assms by (simp add: build_main_def cloneCurrentBranch_def getBranch_def build_command_def buildVersionString_def Let_def)

section \<open>The log package\<close>

text \<open>The functions print when their flag is set, except for warnings, which are printed when the flag is not set.\<close>

theorem printed_when:
  "lg_out (log_Trace sprintf format arg l) \<noteq> lg_out l \<longleftrightarrow> lg_TraceFlag l"
  "lg_out (log_Debug sprintf format arg l) \<noteq> lg_out l \<longleftrightarrow> lg_DebugFlag l"
  "lg_out (log_Verbose sprintf format arg l) \<noteq> lg_out l \<longleftrightarrow> lg_VerboseFlag l"
  "lg_out (log_Warn sprintf format arg l) \<noteq> lg_out l \<longleftrightarrow> \<not> lg_WarnFlag l"
  by (simp_all add: log_Trace_def log_Debug_def log_Verbose_def log_Warn_def Let_def color_Set_def color_Unset_def Printf_def)

text \<open>A fatal message does not end the process unless recovering was switched off, which it is not at first.\<close>

theorem fatal_returns: "snd (log_Panicf sprintf format args init_logger) = None"
  by (simp add: log_Panicf_def Let_def color_Set_def color_Unset_def Printf_def init_logger_def)

text \<open>A version without a hyphen is dropped for a fixed one.\<close>

theorem version_dropped: "CHR ''-'' \<notin> set version \<Longrightarrow> lg_Version (SetVersion version l) = ''v2.285''"
  by (simp add: SetVersion_def Let_def)

section \<open>Frames\<close>

lemma frame_loop_nth: "i \<le> target \<Longrightarrow> target - i < length fs \<Longrightarrow> frame_loop target i fs = fs ! (target - i)"
proof (induction fs arbitrary: i)
  case (Cons f fs)
  show ?case
  proof (cases "i = target")
    case False
    then have "Suc i \<le> target" "target - Suc i < length fs" "fs \<noteq> []" using Cons.prems by auto
    with Cons.IH[of "Suc i"] False show ?thesis by (simp add: Suc_diff_Suc)
  qed simp
qed simp

text \<open>
  A log entry names the file and the package of the function that called the logger: below the frames of the
  runtime, of \<^verbatim>\<open>getFrame\<close>, of \<^verbatim>\<open>setCommonFields\<close> and of the method of the logger comes its caller.
\<close>

theorem entry_names_caller:
  assumes "GetGoRoutineID trace = Done g"
  shows "log_entry (callers # get_frame # common # level # caller # outer) trace call args =
    Done ([(''goroutine'', g), (''package'', filepath_Base (path_Dir (fi_File caller))), (''fileName'', filepath_Base (fi_File caller))], call, args)"
  using assms frame_loop_nth[of 0 4 "take 6 (callers # get_frame # common # level # caller # outer)"]
  by (simp add: log_entry_def setCommonFields_def getFrame_def Let_def)

section \<open>The banner\<close>

text \<open>With the broker on TCP the banner ends at its port: the endpoints that the server has all the same are not shown.\<close>

theorem tcp_banner_ends:
  assumes "pc_FabricConfig c = Some fb" "fb_UseTCP fb" "printBanner is_stdout logo c = Done out"
  shows "last out = ([], '':'' @ show_int (fb_TCPPort fb) @ '' (TCP)'' @ newline)"
  using assms by (auto simp: printBanner_def go_simps Let_def Fprintln_def)

theorem banner_shows_health:
  assumes "case pc_FabricConfig c of None \<Rightarrow> True | Some fb \<Rightarrow> \<not> fb_UseTCP fb" "printBanner is_stdout logo c = Done out"
  shows "([], ''/health'' @ newline) \<in> set out"
  using assms by (auto simp: printBanner_def banner_rest_def go_simps Let_def Fprintln_def split: option.splits)

end
