(* ===== verification/Spec2Isabelle.thy ===== *)
theory Spec2Isabelle
  imports BridgeLaws Galactic StoreSyncLaws FabricSystem MiddlewareLaws SampleServicesLaws VmServiceLaws ExampleServicesLaws ExampleClientsLaws ToolsLaws
begin

text \<open>
  \<^bold>\<open>A verification library for transport-go\<close>

  The program is an event bus for Go processes (src/bus) with messages (src/model), a STOMP broker
  that lets remote clients take part (src/stompserver), connections to brokers of other processes
  (src/bridge), and services that answer requests on bus channels (src/service). The plank server
  (src/plank) wraps these for HTTP. Sample services and clients (src/examples, src/plank/services,
  src/plank/cmd) are programs over this API.

  \<^bold>\<open>How code becomes definitions.\<close> Every definition that models code has the name of the Go function or
  type, with a prefix or suffix where names clash, and follows its branches. A struct that is only
  reached through one owner is a record; objects that several parts point to are in heaps, total
  functions from addresses (\<open>chans\<close>, \<open>mhandlers\<close>, \<open>storeHeap\<close>, \<open>feHeap\<close>, \<open>wrappers\<close>). The state of
  the bus is one record that each layer extends: \<open>busState\<close>, \<open>transportEventBus\<close>, \<open>storeBus\<close>,
  \<open>txBus\<close>, \<open>syncBus\<close>, \<open>fabBus\<close>, \<open>svcBus\<close>, \<open>plankBus\<close>, \<open>plankServer\<close>. Operations are polymorphic
  in what later layers add. A Go map
  whose iteration order matters is an association list with distinct keys, any other a HOL map. An
  \<^verbatim>\<open>error\<close> result is an option or a sum. A call that may panic or wait forever has a result of type
  \<open>'a go\<close>: \<open>Done\<close>, \<open>Panic\<close> or \<open>Block\<close>. \<^verbatim>\<open>int64\<close> values are words of 64 bits where they count (store
  versions, run counts, message ids). A goroutine that has been started is an entry of a list of pending
  work, and a step relation picks any of them next; callbacks of the application are recorded in
  the order they are made. Go channels with a buffer are lists with the capacity of the source: 64
  connection events, 32 API events and 32 frames per connection in the STOMP server, 100 messages
  per REST bridge. Recursion is structural, with three exceptions and no fuel: \<open>runes\<close> (UTF-8) terminates by
  the length of its input; \<open>index_loop\<close> (reading a directory) and \<open>httpReady_loop\<close> (waiting for
  the HTTP server) are partial functions, and it is shown when they return.

  \<^bold>\<open>Parameters.\<close> Code outside the repository is an argument: generated ids (\<^verbatim>\<open>uuid.New()\<close>), the header
  functions of go-stomp (\<open>contains\<close> with the laws \<open>header_laws\<close>), the sockets and the TCP client,
  mapstructure and the JSON codecs, the HTTP exchange and the URL grammar of the REST service
  (\<open>rest_env\<close>), the patterns of cache rules, the file system, the flag values and the network as a server sees
  them (\<open>config_env\<close>, \<open>viper\<close>, \<open>start_env\<close>), the frame reader of go-stomp, the stock API (\<open>stock_env\<close>),
  the conversions of the VM service and what append gives of spare capacity (\<open>vm_env\<close>), the network of the client
  programs (\<open>net_env\<close>), the git repository and the environment of the build script (\<open>build_env\<close>), the initialisation and hooks of application services. What is assumed of them is a
  named hypothesis of the property that needs it.

  \<^bold>\<open>Theories.\<close>
  \<^item> \<open>Prelude\<close>: outcomes, slices, strings, association lists. \<open>Messages\<close>: src/model.
  \<^item> Interfaces, each a locale with the clients' lemmas: \<open>Subscriptions\<close> (handlers with ids),
    \<open>Registry\<close> (named objects), \<open>MapStore\<close> (a keyed store and its replicas), \<open>SharedResource\<close> (a resource
    that is open while it has users), \<open>RawConnection\<close> (a connection that reads and writes frames).
  \<^item> \<open>Frames\<close>, \<open>Bridge\<close>, \<open>BridgeLaws\<close>: broker connections and subscriptions (src/bridge).
  \<^item> \<open>Monitor\<close>, \<open>Channel\<close>, \<open>ChannelManager\<close>, \<open>EventBus\<close>: the bus (monitor\_event.go, channel.go,
    channel\_manager.go, eventbus.go, message\_handler.go). \<open>BusInvariants\<close> has the invariants of
    channels and handlers, \<open>BusSteps\<close> the interleaving of deliveries, \<open>Galactic\<close> the channels that are
    mapped to brokers.
  \<^item> \<open>Store\<close>, \<open>StoreManager\<close>, \<open>Transaction\<close>, \<open>StoreSync\<close> with their laws: stores and their streams,
    transactions, and the service that keeps remote replicas in step.
  \<^item> \<open>StompConn\<close>, \<open>StompServer\<close>, \<open>StompSystem\<close>: a STOMP session, the server with its queues and its
    subscription table, and the system of all goroutines of the server.
  \<^item> \<open>FabricEndpoint\<close>, \<open>FabricLaws\<close>, \<open>FabricSystem\<close>: the endpoint between the server and the bus.
  \<^item> \<open>FabricCore\<close>, \<open>RestService\<close>, \<open>ServiceRegistry\<close> with \<open>RestServiceLaws\<close> and \<open>ServiceRegistryLaws\<close>: src/service.
  \<^item> \<open>Listeners\<close>, \<open>ListenersLaws\<close>: the listeners of the broker and its raw connections
    (websocket\_connection\_listener.go, tcp\_connection\_listener.go).
  \<^item> \<open>Middleware\<close>, \<open>MiddlewareLaws\<close>: the middleware manager, cache control and security headers of
    src/plank/pkg/middleware and the cache rules of spa\_config.go.
  \<^item> \<open>PlankUtils\<close>, \<open>PlankUtilsLaws\<close>: URLs, paths and log files (src/plank/utils), wrapped errors
    (base\_error.go) and the file system without listings (neutered\_fs.go).
  \<^item> \<open>PlankConfig\<close>, \<open>PlankConfigLaws\<close>: flags and configuration files (cli.go, flag\_helper.go, helpers.go).
  \<^item> \<open>PlatformServer\<close>, \<open>PlatformServerLaws\<close>: the REST bridges of the plank server (server.go,
    initialize.go, endpointer\_handler\_factory.go, helpers.go) and utils/bytes.go.
  \<^item> \<open>PlankStart\<close>, \<open>PlankStartLaws\<close>, \<open>PlankRunLaws\<close>: creating a server, starting it, the bridges of
    the services registered with it, and its shutdown (server.go, initialize.go).
  \<^item> \<open>SampleServices\<close>, \<open>StockTicker\<close>, \<open>SampleServicesLaws\<close>: src/plank/services.
  \<^item> \<open>VmService\<close>, \<open>VmServiceLaws\<close>, \<open>ExampleServices\<close>, \<open>ExampleServicesLaws\<close>: the sample services of src/examples
    (sample\_vm\_service.go, with its slice of machines and the array under it, and sample\_services.go).
  \<^item> \<open>ExampleClients\<close>, \<open>ExampleClientsLaws\<close>: the client programs (simple\_stream.go, transport.go, over\_ws.go, over\_tcp.go)
    and the command that starts a plank server (src/plank/cmd/main.go).
  \<^item> \<open>Tools\<close>, \<open>ToolsLaws\<close>: the log package (src/log), the build script (build.go), stack frames and log
    entries (runtime.go, logger.go) and the banner (banner.go).

  The locale \<open>subscriptions\<close> is interpreted by channels and by the monitor, \<open>registry\<close> by the channel
  manager and by the store manager, \<open>map_store\<close> by local stores and by replicas, \<open>replica\<close> by a store
  and its synchronised copy, \<open>shared_resource\<close> by the streams of the fabric endpoint, \<open>raw_connection\<close> by the
  TCP and by the WebSocket connections of the broker, \<open>weak_order\<close> by the order of release tags.

  \<^bold>\<open>What is shown.\<close>
  \<^item> Bus: what a send dispatches to which handlers, a run-once handler runs at most once under every
    interleaving and is unsubscribed by its run, deliveries drain, destination filters, the error paths
    of missing channels; channels exist exactly between creation and destruction and keep their identity.
  \<^item> Stores: a store is a map with a version, changes reach exactly the streams that ask for them, a
    replica that gets the changes in order converges, and one that gets them out of order need not.
  \<^item> Transactions: completion with all responses in order, a single abort, and the deadlock of a commit
    to a missing channel.
  \<^item> STOMP: the session protocol as a refinement of a state machine, negotiation of versions and
    heart-beats, consecutive message ids; the subscription table refines a set of subscriptions, agrees
    with the sessions in every reachable state, and routes messages; what stopping does.
  \<^item> Fabric endpoint: one stream per channel shared by its subscribers, in step with the server's table;
    subscriptions and private requests as round trips.
  \<^item> Services: registered services listen, registration and removal undo each other, errors of
    registration; a call of the REST service is answered exactly once, to its caller.
  \<^item> Plank: middlewares compose and their removal restores the first handler; every bridge that is
    configured has its endpoint, route and stream, its answers reach HTTP requests in order, and what a
    client is sent for each kind of response. A server is created when its environment allows it, tells that
    it is online once its port answers, gives a service that is registered its bridges, and stops
    everything after a signal. URLs, paths, time-outs and log files are what their functions promise,
    with the inputs for which they are not; files are served from below the root folder and
    directories are not listed.
  \<^item> Listeners: a WebSocket request becomes a connection exactly when its origin is allowed; frames of a
    TCP connection arrive in order unless two come together, which loses one.
  \<^item> Sample services: a request to the ping-pong service from HTTP over the bus and back; a client of the
    stock ticker has at most one ticker; the words of the stream.
  \<^item> Examples: the VM service refines a list of machines and keeps its tables well typed, although a list that it answered
    with may change later; the full answer of the pong service joins the answers of two requests in the order they were
    made; the stream client returns the first ten values, in order.
  \<^item> Tools: release tags are sorted, as texts; what each log function prints; which endpoints the banner shows.

  \<^bold>\<open>Not modelled.\<close> The sockets under the listeners and the bridge, and the HTTP server: I/O of third-party
  packages; the models take what they deliver as inputs. The profiler and the prometheus counters: calls of
  their packages only. The plumbing of pflag, viper and cobra that turns a command line into the values the models
  start from. The samples that talk to RabbitMQ (src/plank/cmd/broker\_sample/rabbitmq), which call its client packages,
  and the command that selects one of them. Of src/examples/need-refactoring/transport.go the demonstrations of the VM service, of stores
  and of fabric services, and of over\_tcp.go the listening loop: they print what the modelled operations return. The test harness
  (test\_suite\_harness.go). Time: heart-beats and tickers are events, not clocks.
\<close>

end
